(* ===== verification/DW_Prelude.thy ===== *)
theory DW_Prelude
  imports Main
begin

text \<open>
  Shared base of the development: the Python values the code computes with (strings, integers
  rendered as text, instants, JSON values), the exception classes of the code base as values, and
  the state-and-exception computations (\<open>act\<close>) in which the application handlers are
  written. Every generic lemma the component theories share is here.

  Conventions. A Python \<open>str\<close> is a HOL \<open>string\<close>: one \<open>char\<close> per code point, so
  the model ranges over the code points below 256. A \<open>bytes\<close> value is a \<open>string\<close> too, one
  \<open>char\<close> per byte. A UUID is its canonical text, so \<open>str(uuid)\<close> is the identity and UUID
  equality is text equality. A timezone-aware \<open>datetime\<close> is the number of microseconds since
  1970-01-01T00:00:00Z, the resolution Python uses.
\<close>

named_theorems act_simps \<open>symbolic execution of handler bodies\<close>

named_theorems store_simps \<open>what the tables hold after a statement\<close>

section \<open>Types shared by the components\<close>

type_synonym uuid = string
type_synonym datetime = int
type_synonym bytes = string

text \<open>
  The exception classes. \<open>dw_kernel/errors.py\<close> declares the taxonomy, the contexts refine
  it; the last constructors are the Python and database errors the modelled code can raise.
\<close>

datatype err_class =
    DWError
  | DomainError
  | NotFoundError
  | ConflictError
  | PermissionDeniedError
  | EntitlementDeniedError
  | ApprovalRequiredError
  | TenantContextMissingError
  | IdempotencyConflictError
  | InfrastructureError
  | CircuitOpenError
  | OutboundUrlError
  | ConfigError
  | TenderDomainError
  | InvalidScoringConfigError
  | PyValueError
  | PydanticValidationError
  | PyTypeError
  | PyAssertionError
  | PyIndexError
  | PyTimeoutError
  | DbIntegrityError
  | OtherException

datatype dw_error = Err (err_class: err_class) (err_msg: string)

type_synonym 'a result = "dw_error + 'a"

section \<open>Python strings\<close>

text \<open>\<open>str.isspace\<close> on the code points below 256.\<close>

definition py_isspace :: "char \<Rightarrow> bool" where
  "py_isspace c = (let n = (of_char c :: int)
     in (9 \<le> n \<and> n \<le> 13) \<or> (28 \<le> n \<and> n \<le> 32) \<or> n = 133 \<or> n = 160)"

definition py_lstrip :: "string \<Rightarrow> string" where
  "py_lstrip s = dropWhile py_isspace s"

definition py_rstrip :: "string \<Rightarrow> string" where
  "py_rstrip s = rev (dropWhile py_isspace (rev s))"

definition py_strip :: "string \<Rightarrow> string" where
  "py_strip s = py_rstrip (py_lstrip s)"

definition py_startswith :: "string \<Rightarrow> string \<Rightarrow> bool" where
  "py_startswith s p = (take (length p) s = p)"

fun py_join :: "string \<Rightarrow> string list \<Rightarrow> string" where
  "py_join sep [] = ''''"
| "py_join sep [x] = x"
| "py_join sep (x # y # ys) = x @ sep @ py_join sep (y # ys)"

definition py_upper_char :: "char \<Rightarrow> char" where
  "py_upper_char c = (let n = (of_char c :: int)
     in if 97 \<le> n \<and> n \<le> 122 then char_of (n - 32) else c)"

text \<open>\<open>str.encode("utf-8")\<close>: code points from 128 take two bytes.\<close>

definition utf8_encode :: "string \<Rightarrow> bytes" where
  "utf8_encode s = concat (map (\<lambda>c. let n = (of_char c :: int)
     in if n < 128 then [c] else [char_of (192 + n div 64), char_of (128 + n mod 64)]) s)"

definition digit_char :: "int \<Rightarrow> char" where
  "digit_char d = char_of (48 + d)"

function pos_str :: "int \<Rightarrow> string" where
  "pos_str i = (if i < 10 then [digit_char i] else pos_str (i div 10) @ [digit_char (i mod 10)])"
  by auto
termination by (relation "measure nat") auto

declare pos_str.simps [simp del]

definition int_str :: "int \<Rightarrow> string" where
  "int_str i = (if i < 0 then CHR ''-'' # pos_str (- i) else pos_str i)"

definition nat_str :: "nat \<Rightarrow> string" where
  "nat_str n = int_str (int n)"

definition is_digit :: "char \<Rightarrow> bool" where
  "is_digit c = (let n = (of_char c :: int) in 48 \<le> n \<and> n \<le> 57)"

definition digit_val :: "char \<Rightarrow> int" where
  "digit_val c = of_char c - 48"

definition digits_val :: "string \<Rightarrow> int" where
  "digits_val s = foldl (\<lambda>a c. 10 * a + digit_val c) 0 s"

text \<open>
  \<open>int(str)\<close>: surrounding whitespace is dropped, one sign is allowed, and single underscores
  may separate digits. \<open>None\<close> is \<open>ValueError\<close>.
\<close>

fun digit_groups :: "string \<Rightarrow> bool" where
  "digit_groups [] = False"
| "digit_groups [c] = is_digit c"
| "digit_groups (c # d # cs) =
     (is_digit c \<and> (if d = CHR ''_'' then digit_groups cs else digit_groups (d # cs)))"

definition py_int_of_str :: "string \<Rightarrow> int option" where
  "py_int_of_str s =
     (let t = py_strip s;
          neg = (t \<noteq> [] \<and> hd t = CHR ''-'');
          body = (if t \<noteq> [] \<and> (hd t = CHR ''-'' \<or> hd t = CHR ''+'') then tl t else t)
      in if digit_groups body
         then Some ((if neg then - 1 else 1) * (digits_val (filter is_digit body)))
         else None)"

text \<open>\<open>UUID.hex\<close>: the canonical text without its dashes.\<close>

definition uuid_hex :: "uuid \<Rightarrow> string" where
  "uuid_hex u = filter (\<lambda>c. c \<noteq> CHR ''-'') u"

section \<open>Instants\<close>

definition usec_per_day :: int where
  "usec_per_day = 86400000000"

definition timedelta_days :: "int \<Rightarrow> int" where
  "timedelta_days d = d * usec_per_day"

definition timedelta_hours :: "int \<Rightarrow> int" where
  "timedelta_hours h = h * 3600000000"

definition timedelta_seconds :: "int \<Rightarrow> int" where
  "timedelta_seconds s = s * 1000000"

text \<open>
  \<open>datetime.isoformat()\<close> of a UTC instant: the proleptic Gregorian date (years count from
  March inside the computation), the time of day, the microseconds when there are any, and the
  offset.
\<close>

definition civil_from_days :: "int \<Rightarrow> int \<times> int \<times> int" where
  "civil_from_days days =
     (let z = days + 719468;
          era = z div 146097;
          doe = z mod 146097;
          yoe = (doe - doe div 1460 + doe div 36524 - doe div 146096) div 365;
          doy = doe - (365 * yoe + yoe div 4 - yoe div 100);
          mp = (5 * doy + 2) div 153;
          d = doy - (153 * mp + 2) div 5 + 1;
          m = (if mp < 10 then mp + 3 else mp - 9)
      in (yoe + era * 400 + (if m \<le> 2 then 1 else 0), m, d))"

definition zero_pad :: "nat \<Rightarrow> int \<Rightarrow> string" where
  "zero_pad n i = (let s = int_str i in replicate (n - length s) (CHR ''0'') @ s)"

definition isoformat :: "datetime \<Rightarrow> string" where
  "isoformat t =
     (let (y, m, d) = civil_from_days (t div usec_per_day);
          us = t mod usec_per_day;
          sec = us div 1000000;
          frac = us mod 1000000
      in zero_pad 4 y @ ''-'' @ zero_pad 2 m @ ''-'' @ zero_pad 2 d @ ''T''
         @ zero_pad 2 (sec div 3600) @ '':'' @ zero_pad 2 (sec div 60 mod 60) @ '':''
         @ zero_pad 2 (sec mod 60)
         @ (if frac = 0 then [] else ''.'' @ zero_pad 6 frac) @ ''+00:00'')"

text \<open>
  A \<open>datetime\<close> as the constructors receive it: \<open>tzinfo is None\<close> is the \<open>Naive\<close> case.
  Everything that passes the constructors is an instant.
\<close>

datatype raw_datetime = Aware datetime | Naive datetime

section \<open>JSON values\<close>

text \<open>
  Artifact contents and notification payloads. \<open>JText\<close> is display prose: the source's
  sentence is named by a key and carries the values interpolated into it; the Vietnamese wording
  itself is not reproduced. Numbers are integers, which is what the modelled code stores.
\<close>

datatype json =
    JNull
  | JBool bool
  | JInt int
  | JStr string
  | JText string "string list"
  | JArr "json list"
  | JObj "(string \<times> json) list"

type_synonym jdict = "(string \<times> json) list"

text \<open>\<open>dict.get\<close> with and without a default.\<close>

definition jget :: "jdict \<Rightarrow> string \<Rightarrow> json option" where
  "jget d k = map_of d k"

definition jget_or :: "jdict \<Rightarrow> string \<Rightarrow> json \<Rightarrow> json" where
  "jget_or d k v = (case map_of d k of None \<Rightarrow> v | Some x \<Rightarrow> x)"

text \<open>Truth value of an object.\<close>

fun py_truthy :: "json \<Rightarrow> bool" where
  "py_truthy JNull = False"
| "py_truthy (JBool b) = b"
| "py_truthy (JInt i) = (i \<noteq> 0)"
| "py_truthy (JStr s) = (s \<noteq> '''')"
| "py_truthy (JText k vs) = True"
| "py_truthy (JArr xs) = (xs \<noteq> [])"
| "py_truthy (JObj d) = (d \<noteq> [])"

text \<open>The dict items of a list value; anything else yields none of them.\<close>

fun obj_items :: "json list \<Rightarrow> jdict list" where
  "obj_items [] = []"
| "obj_items (JObj d # xs) = d # obj_items xs"
| "obj_items (x # xs) = obj_items xs"

section \<open>Results and computations with state and exceptions\<close>

text \<open>
  A handler is a function of the world that returns a result and the world it leaves behind:
  an exception (\<open>Inl\<close>) does not undo what happened before it, except where a unit of work
  rolls back.
\<close>

type_synonym ('w, 'a) act = "'w \<Rightarrow> 'a result \<times> 'w"

definition act_ret :: "'a \<Rightarrow> ('w, 'a) act" where
  "act_ret x w = (Inr x, w)"

definition act_raise :: "err_class \<Rightarrow> string \<Rightarrow> ('w, 'a) act" where
  "act_raise c m w = (Inl (Err c m), w)"

definition act_bind :: "('w, 'a) act \<Rightarrow> ('a \<Rightarrow> ('w, 'b) act) \<Rightarrow> ('w, 'b) act" where
  "act_bind m f w = (case m w of (Inl e, w') \<Rightarrow> (Inl e, w') | (Inr x, w') \<Rightarrow> f x w')"

definition act_get :: "('w \<Rightarrow> 'a) \<Rightarrow> ('w, 'a) act" where
  "act_get g w = (Inr (g w), w)"

definition act_modify :: "('w \<Rightarrow> 'w) \<Rightarrow> ('w, unit) act" where
  "act_modify h w = (Inr (), h w)"

text \<open>\<open>if not b: raise c(m)\<close>.\<close>

definition act_require :: "bool \<Rightarrow> err_class \<Rightarrow> string \<Rightarrow> ('w, unit) act" where
  "act_require b c m w = (if b then (Inr (), w) else (Inl (Err c m), w))"

text \<open>\<open>if v is None: raise c(m)\<close>, then the value.\<close>

definition act_some :: "'a option \<Rightarrow> err_class \<Rightarrow> string \<Rightarrow> ('w, 'a) act" where
  "act_some v c m w = (case v of None \<Rightarrow> (Inl (Err c m), w) | Some x \<Rightarrow> (Inr x, w))"

text \<open>A call of a pure method that may raise.\<close>

definition act_lift :: "'a result \<Rightarrow> ('w, 'a) act" where
  "act_lift r w = (r, w)"

definition act_when :: "bool \<Rightarrow> ('w, unit) act \<Rightarrow> ('w, unit) act" where
  "act_when b m = (if b then m else act_ret ())"

text \<open>\<open>with contextlib.suppress(Exception): m\<close>.\<close>

definition act_suppress :: "('w, 'a) act \<Rightarrow> ('w, unit) act" where
  "act_suppress m w = (Inr (), snd (m w))"

text \<open>A run that returned, for closed evaluations.\<close>

fun ran_ok :: "'a result \<times> 'w \<Rightarrow> bool" where
  "ran_ok (Inr _, _) = True"
| "ran_ok (Inl _, _) = False"

lemma ran_ok_elim: "ran_ok p \<Longrightarrow> \<exists>a w'. p = (Inr a, w')"
  by (cases p rule: ran_ok.cases) auto

text \<open>A \<open>for\<close> loop whose body may raise.\<close>

fun act_for :: "'a list \<Rightarrow> ('a \<Rightarrow> ('w, unit) act) \<Rightarrow> ('w, unit) act" where
  "act_for [] f = act_ret ()"
| "act_for (x # xs) f = act_bind (f x) (\<lambda>_. act_for xs f)"

subsection \<open>Symbolic execution\<close>

lemma act_bind_ret [act_simps]: "act_bind (act_ret x) f w = f x w"
  by (simp add: act_bind_def act_ret_def)

lemma act_bind_raise [act_simps]: "act_bind (act_raise c m) f w = (Inl (Err c m), w)"
  by (simp add: act_bind_def act_raise_def)

lemma act_bind_bind [act_simps]:
  "act_bind (act_bind m f) g w = act_bind m (\<lambda>x. act_bind (f x) g) w"
  by (simp add: act_bind_def split: prod.splits sum.splits)

lemma act_bind_get [act_simps]: "act_bind (act_get g) f w = f (g w) w"
  by (simp add: act_bind_def act_get_def)

lemma act_bind_modify [act_simps]: "act_bind (act_modify h) f w = f () (h w)"
  by (simp add: act_bind_def act_modify_def)

lemma act_bind_require [act_simps]:
  "act_bind (act_require b c m) f w = (if b then f () w else (Inl (Err c m), w))"
  by (simp add: act_bind_def act_require_def)

lemma act_bind_some [act_simps]:
  "act_bind (act_some v c m) f w = (case v of None \<Rightarrow> (Inl (Err c m), w) | Some x \<Rightarrow> f x w)"
  by (simp add: act_bind_def act_some_def split: option.splits)

lemma act_bind_lift [act_simps]:
  "act_bind (act_lift r) f w = (case r of Inl e \<Rightarrow> (Inl e, w) | Inr x \<Rightarrow> f x w)"
  by (simp add: act_bind_def act_lift_def split: sum.splits)

lemma act_bind_when [act_simps]:
  "act_bind (act_when b m) f w = (if b then act_bind m f w else f () w)"
  by (simp add: act_when_def act_bind_ret)

lemma act_bind_if [act_simps]:
  "act_bind (if b then m else n) f w = (if b then act_bind m f w else act_bind n f w)"
  by simp

lemma act_bind_suppress [act_simps]: "act_bind (act_suppress m) f w = f () (snd (m w))"
  by (simp add: act_bind_def act_suppress_def)

lemma act_ret_apply [act_simps]: "act_ret x w = (Inr x, w)"
  by (simp add: act_ret_def)

text \<open>
  Evaluating a closed run. The continuation of a bind is left alone until its argument is a value, so
  that the simplifier follows the execution; \<open>evaluation\<close> collects what it unfolds on the way.
\<close>

named_theorems evaluation \<open>unfolding of handler bodies on closed inputs\<close>

lemma act_bind_weak: "m = m' \<Longrightarrow> act_bind m f = act_bind m' f"
  by simp

lemma act_bind_eval [evaluation]:
  "act_bind m f w = (case m w of (Inl e, v) \<Rightarrow> (Inl e, v) | (Inr x, v) \<Rightarrow> f x v)"
  by (simp add: act_bind_def split: prod.splits sum.splits)

lemmas [evaluation] = act_ret_def act_raise_def act_get_def act_require_def act_some_def act_lift_def
  act_when_def act_suppress_def Let_def

lemma utf8_encode_empty [simp]: "utf8_encode s = [] \<longleftrightarrow> s = []"
  by (cases s) (auto simp: utf8_encode_def Let_def)

lemma act_raise_apply [act_simps]: "act_raise c m w = (Inl (Err c m), w)"
  by (simp add: act_raise_def)

lemma act_get_apply [act_simps]: "act_get g w = (Inr (g w), w)"
  by (simp add: act_get_def)

lemma act_modify_apply [act_simps]: "act_modify h w = (Inr (), h w)"
  by (simp add: act_modify_def)

lemma act_require_apply [act_simps]:
  "act_require b c m w = (if b then (Inr (), w) else (Inl (Err c m), w))"
  by (simp add: act_require_def)

lemma act_lift_apply [act_simps]: "act_lift r w = (r, w)"
  by (simp add: act_lift_def)

lemma act_when_apply [act_simps]: "act_when b m w = (if b then m w else (Inr (), w))"
  by (simp add: act_when_def act_ret_def)

lemma act_bind_cong_world:
  assumes "m w = (Inr x, w')"
  shows "act_bind m f w = f x w'"
  using assms by (simp add: act_bind_def)

section \<open>Generic lemmas\<close>

lemma py_lstrip_idem: "py_lstrip (py_lstrip s) = py_lstrip s"
  by (simp add: py_lstrip_def)

lemma dropWhile_rev_dropWhile:
  assumes "dropWhile P xs = xs"
  shows "dropWhile P (rev (dropWhile P (rev xs))) = rev (dropWhile P (rev xs))"
proof (cases xs)
  case Nil
  then show ?thesis by simp
next
  case (Cons y ys)
  with assms have y: "\<not> P y" by (auto split: if_splits dest: arg_cong [where f = length]
    simp: dropWhile_eq_Cons_conv)
  have "dropWhile P (rev xs) = dropWhile P (rev ys) @ [y]"
    if "\<exists>x \<in> set (rev ys). \<not> P x"
    using that Cons by (auto simp: dropWhile_append1)
  moreover have "dropWhile P (rev xs) = [y]" if "\<forall>x \<in> set (rev ys). P x"
    using that Cons y dropWhile_append2 [of "rev ys" P "[y]"] by simp
  ultimately show ?thesis using y by (cases "\<exists>x \<in> set (rev ys). \<not> P x") auto
qed

lemma py_strip_idem [simp]: "py_strip (py_strip s) = py_strip s"
proof -
  have "py_lstrip (py_rstrip (py_lstrip s)) = py_rstrip (py_lstrip s)"
    unfolding py_lstrip_def py_rstrip_def by (rule dropWhile_rev_dropWhile) simp
  then show ?thesis by (simp add: py_strip_def py_rstrip_def)
qed

lemma py_strip_Nil [simp]: "py_strip [] = []"
  by (simp add: py_strip_def py_lstrip_def py_rstrip_def)

lemma set_py_strip: "set (py_strip s) \<subseteq> set s"
  by (auto simp: py_strip_def py_lstrip_def py_rstrip_def dest!: set_dropWhileD)

lemma length_py_strip_le: "length (py_strip s) \<le> length s"
proof -
  have "length (py_strip s) \<le> length (py_lstrip s)"
    by (simp add: py_strip_def py_rstrip_def) (metis length_dropWhile_le length_rev)
  also have "\<dots> \<le> length s" by (simp add: py_lstrip_def length_dropWhile_le)
  finally show ?thesis .
qed

lemma jget_or_Cons [simp]: "jget_or ((k, v) # d) k' dflt = (if k' = k then v else jget_or d k' dflt)"
  by (simp add: jget_or_def)

lemma jget_or_Nil [simp]: "jget_or [] k dflt = dflt"
  by (simp add: jget_or_def)

lemma jget_Cons [simp]: "jget ((k, v) # d) k' = (if k' = k then Some v else jget d k')"
  by (simp add: jget_def)

lemma jget_Nil [simp]: "jget [] k = None"
  by (simp add: jget_def)

lemma obj_items_append [simp]: "obj_items (xs @ ys) = obj_items xs @ obj_items ys"
  by (induction xs rule: obj_items.induct) auto

lemma obj_items_map_JObj [simp]: "obj_items (map JObj ds) = ds"
  by (induction ds) auto

lemma obj_items_map_JObj_fun [simp]: "obj_items (map (\<lambda>x. JObj (f x)) xs) = map f xs"
  by (induction xs) auto

lemma find_Some_in: "find P xs = Some x \<Longrightarrow> x \<in> set xs \<and> P x"
  by (induction xs) (auto split: if_splits)

lemma find_None_all: "find P xs = None \<longleftrightarrow> (\<forall>x \<in> set xs. \<not> P x)"
  by (induction xs) auto

lemma timedelta_days_mono [simp]: "timedelta_days a \<le> timedelta_days b \<longleftrightarrow> a \<le> b"
  by (simp add: timedelta_days_def usec_per_day_def)

lemma timedelta_days_pos [simp]: "0 < timedelta_days d \<longleftrightarrow> 0 < d"
  by (simp add: timedelta_days_def usec_per_day_def)

lemma timedelta_days_0 [simp]: "timedelta_days 0 = 0"
  by (simp add: timedelta_days_def)

end
