(* ===== verification/DW_Kernel.thy ===== *)
theory DW_Kernel
  imports DW_Prelude
begin

text \<open>
  \<open>dw_kernel\<close>: the stable error codes of the exception taxonomy
  (\<open>dw_kernel/errors.py\<close>) and the circuit breaker of \<open>dw_kernel/resilience.py\<close>. The
  breaker is a state machine driven by calls; its clock readings are arguments. Timeouts are in
  microseconds, the unit of the instants.
\<close>

section \<open>Error codes\<close>

datatype ErrorCode =
    VALIDATION_FAILED
  | NOT_FOUND
  | CONFLICT
  | PERMISSION_DENIED
  | ENTITLEMENT_DENIED
  | APPROVAL_REQUIRED
  | TENANT_CONTEXT_MISSING
  | IDEMPOTENCY_CONFLICT
  | RATE_LIMITED
  | TIMEOUT
  | UPSTREAM_UNAVAILABLE
  | INTERNAL

text \<open>
  The \<open>code\<close> attribute each class carries, by inheritance; the Python and database errors are
  not in the taxonomy and have none.
\<close>

fun error_code :: "err_class \<Rightarrow> ErrorCode option" where
  "error_code DWError = Some INTERNAL"
| "error_code DomainError = Some VALIDATION_FAILED"
| "error_code NotFoundError = Some NOT_FOUND"
| "error_code ConflictError = Some CONFLICT"
| "error_code PermissionDeniedError = Some PERMISSION_DENIED"
| "error_code EntitlementDeniedError = Some ENTITLEMENT_DENIED"
| "error_code ApprovalRequiredError = Some APPROVAL_REQUIRED"
| "error_code TenantContextMissingError = Some TENANT_CONTEXT_MISSING"
| "error_code IdempotencyConflictError = Some IDEMPOTENCY_CONFLICT"
| "error_code InfrastructureError = Some UPSTREAM_UNAVAILABLE"
| "error_code CircuitOpenError = Some UPSTREAM_UNAVAILABLE"
| "error_code OutboundUrlError = Some VALIDATION_FAILED"
| "error_code ConfigError = Some VALIDATION_FAILED"
| "error_code TenderDomainError = Some VALIDATION_FAILED"
| "error_code InvalidScoringConfigError = Some VALIDATION_FAILED"
| "error_code _ = None"

text \<open>\<open>isinstance(exc, DWError)\<close>, \<open>isinstance(exc, DomainError)\<close>, \<open>isinstance(exc, InfrastructureError)\<close>.\<close>

definition is_dw_error :: "err_class \<Rightarrow> bool" where
  "is_dw_error c = (error_code c \<noteq> None)"

definition is_domain_error :: "err_class \<Rightarrow> bool" where
  "is_domain_error c = (c \<in> {DomainError, OutboundUrlError, ConfigError, TenderDomainError,
     InvalidScoringConfigError})"

definition is_infrastructure_error :: "err_class \<Rightarrow> bool" where
  "is_infrastructure_error c = (c \<in> {InfrastructureError, CircuitOpenError})"

section \<open>Circuit breaker\<close>

datatype CircuitState = CLOSED | OPEN | HALF_OPEN

record CircuitBreaker =
  cb_failure_threshold :: int
  cb_reset_timeout :: int
  cb_state :: CircuitState
  cb_consecutive_failures :: int
  cb_opened_at :: "datetime option"

definition new_breaker :: "int \<Rightarrow> int \<Rightarrow> CircuitBreaker" where
  "new_breaker threshold timeout =
     \<lparr>cb_failure_threshold = threshold, cb_reset_timeout = timeout, cb_state = CLOSED,
      cb_consecutive_failures = 0, cb_opened_at = None\<rparr>"

definition trip :: "datetime \<Rightarrow> CircuitBreaker \<Rightarrow> CircuitBreaker" where
  "trip now b = b\<lparr>cb_state := OPEN, cb_opened_at := Some now, cb_consecutive_failures := 0\<rparr>"

definition before_call :: "datetime \<Rightarrow> (CircuitBreaker, unit) act" where
  "before_call now b =
     (if cb_state b = CLOSED then (Inr (), b)
      else if cb_state b = OPEN then
        (case cb_opened_at b of
           None \<Rightarrow> (Inl (Err PyAssertionError ''self._opened_at is not None''), b)
         | Some t \<Rightarrow> if now - t < cb_reset_timeout b
                    then (Inl (Err CircuitOpenError ''circuit breaker is open''), b)
                    else (Inr (), b\<lparr>cb_state := HALF_OPEN\<rparr>))
      else (Inr (), b))"

definition record_success :: "CircuitBreaker \<Rightarrow> CircuitBreaker" where
  "record_success b = b\<lparr>cb_state := CLOSED, cb_consecutive_failures := 0, cb_opened_at := None\<rparr>"

definition record_failure :: "datetime \<Rightarrow> CircuitBreaker \<Rightarrow> CircuitBreaker" where
  "record_failure now b =
     (if cb_state b = HALF_OPEN then trip now b
      else let b' = b\<lparr>cb_consecutive_failures := cb_consecutive_failures b + 1\<rparr>
           in if cb_consecutive_failures b' \<ge> cb_failure_threshold b' then trip now b' else b')"

text \<open>The breaker under any sequence of the three calls.\<close>

datatype breaker_event = Ev_before datetime | Ev_success | Ev_failure datetime

fun breaker_step :: "breaker_event \<Rightarrow> CircuitBreaker \<Rightarrow> CircuitBreaker" where
  "breaker_step (Ev_before t) b = snd (before_call t b)"
| "breaker_step Ev_success b = record_success b"
| "breaker_step (Ev_failure t) b = record_failure t b"

definition breaker_inv :: "CircuitBreaker \<Rightarrow> bool" where
  "breaker_inv b =
     (0 \<le> cb_consecutive_failures b
      \<and> (cb_state b = CLOSED \<longrightarrow> cb_consecutive_failures b < max 1 (cb_failure_threshold b))
      \<and> (cb_state b \<noteq> CLOSED \<longrightarrow> cb_opened_at b \<noteq> None))"

section \<open>Lemmas\<close>

lemmas breaker_defs = before_call_def record_success_def record_failure_def trip_def Let_def

lemma breaker_inv_new: "breaker_inv (new_breaker n t)"
  by (simp add: breaker_inv_def new_breaker_def)

lemma breaker_step_inv: "breaker_inv b \<Longrightarrow> breaker_inv (breaker_step e b)"
  by (cases e) (auto simp: breaker_defs breaker_inv_def split: option.splits)

lemma breaker_run_inv: "breaker_inv b \<Longrightarrow> breaker_inv (fold breaker_step es b)"
  by (induction es arbitrary: b) (auto intro: breaker_step_inv)

text \<open>A reachable breaker never trips its own assertion.\<close>

lemma before_call_no_assertion:
  "breaker_inv b \<Longrightarrow> fst (before_call t b) \<noteq> Inl (Err PyAssertionError m)"
  by (auto simp: breaker_defs breaker_inv_def split: option.splits)

lemma closed_failures:
  assumes "cb_state b = CLOSED" "cb_consecutive_failures b = k"
    "k + int (length ts) < cb_failure_threshold b"
  shows "fold record_failure ts b
           = b\<lparr>cb_consecutive_failures := k + int (length ts)\<rparr>"
  using assms
proof (induction ts arbitrary: b k)
  case Nil
  then show ?case by simp
next
  case (Cons t ts)
  let ?b = "b\<lparr>cb_consecutive_failures := k + 1\<rparr>"
  have step: "record_failure t b = ?b"
    using Cons.prems by (simp add: breaker_defs)
  have "fold record_failure ts ?b
          = ?b\<lparr>cb_consecutive_failures := (k + 1) + int (length ts)\<rparr>"
    using Cons.prems by (intro Cons.IH) auto
  then show ?case using step by (simp add: algebra_simps)
qed


end
