(* ===== verification/DW_Prep_Domain.thy ===== *)
theory DW_Prep_Domain
  imports DW_Prelude
begin

text \<open>
  The DW01 aggregate of \<open>dw_tender/domain/preparation/entities.py\<close>: the case states, the
  typed artifacts and documents, and one definition per method of \<open>PreparationCase\<close>. A method
  that mutates the case in Python returns the new case; a raised \<open>TenderDomainError\<close> is
  \<open>Inl\<close>. The second half is the life cycle: which states a case can be in after which
  operations, who can have verified its intake, and how its version number grows.
\<close>

section \<open>Enumerations\<close>

datatype CaseState =
    CS_DRAFT
  | CS_INTAKE_REJECTED
  | CS_INTAKE_READY
  | CS_ANALYZING
  | CS_WAITING_CLARIFICATION
  | CS_APPROACH_READY
  | CS_CP1_PENDING
  | CS_CP1_REJECTED
  | CS_CP1_APPROVED
  | CS_BUILDING_SOLICITATION
  | CS_PACKAGE_READY
  | CS_CP2_PENDING
  | CS_CP2_REJECTED
  | CS_CP2_APPROVED
  | CS_PACKAGE_OFFICIAL
  | CS_PUBLISHED
  | CS_CP3_PENDING
  | CS_RECEIVING_BIDS
  | CS_CP4_READY
  | CS_COMPLETED
  | CS_FAILED

fun case_state_value :: "CaseState \<Rightarrow> string" where
  "case_state_value CS_DRAFT = ''draft''"
| "case_state_value CS_INTAKE_REJECTED = ''intake_rejected''"
| "case_state_value CS_INTAKE_READY = ''intake_ready''"
| "case_state_value CS_ANALYZING = ''analyzing''"
| "case_state_value CS_WAITING_CLARIFICATION = ''waiting_clarification''"
| "case_state_value CS_APPROACH_READY = ''approach_ready''"
| "case_state_value CS_CP1_PENDING = ''cp1_pending''"
| "case_state_value CS_CP1_REJECTED = ''cp1_rejected''"
| "case_state_value CS_CP1_APPROVED = ''cp1_approved''"
| "case_state_value CS_BUILDING_SOLICITATION = ''building_solicitation''"
| "case_state_value CS_PACKAGE_READY = ''package_ready''"
| "case_state_value CS_CP2_PENDING = ''cp2_pending''"
| "case_state_value CS_CP2_REJECTED = ''cp2_rejected''"
| "case_state_value CS_CP2_APPROVED = ''cp2_approved''"
| "case_state_value CS_PACKAGE_OFFICIAL = ''package_official''"
| "case_state_value CS_PUBLISHED = ''published''"
| "case_state_value CS_CP3_PENDING = ''cp3_pending''"
| "case_state_value CS_RECEIVING_BIDS = ''receiving_bids''"
| "case_state_value CS_CP4_READY = ''cp4_ready''"
| "case_state_value CS_COMPLETED = ''completed''"
| "case_state_value CS_FAILED = ''failed''"

definition AMENDABLE :: "CaseState list" where
  "AMENDABLE =
     [CS_DRAFT, CS_INTAKE_READY, CS_ANALYZING, CS_WAITING_CLARIFICATION, CS_APPROACH_READY,
      CS_CP1_PENDING, CS_CP1_REJECTED, CS_CP1_APPROVED, CS_BUILDING_SOLICITATION,
      CS_PACKAGE_READY, CS_CP2_PENDING, CS_CP2_REJECTED]"

definition accepts_amendment :: "CaseState \<Rightarrow> bool" where
  "accepts_amendment s = (s \<in> set AMENDABLE)"

datatype ArtifactType =
    INTAKE_VERIFICATION
  | SUPPLIER_INPUT
  | DEMAND_SNAPSHOT
  | COMPLETENESS_REPORT
  | CLARIFICATION_LIST
  | CLARIFICATION_RESPONSE
  | PROCUREMENT_APPROACH
  | SOLICITATION_PACKAGE
  | EVALUATION_CRITERIA
  | SUPPLIER_SHORTLIST
  | RISK_COMPLIANCE_CHECK
  | OFFICIAL_PACKAGE_MANIFEST
  | PUBLICATION_RECORD
  | ADDENDUM_DRAFT
  | ADDENDUM_DECISION
  | SUBMISSION_REGISTER
  | LAW_REVIEW
  | BID_OPENING_RECORD
  | EVALUATION_HANDOFF
  | REVIEW_RECOMMENDATION

fun artifact_type_value :: "ArtifactType \<Rightarrow> string" where
  "artifact_type_value INTAKE_VERIFICATION = ''intake_verification''"
| "artifact_type_value SUPPLIER_INPUT = ''supplier_input''"
| "artifact_type_value DEMAND_SNAPSHOT = ''demand_snapshot''"
| "artifact_type_value COMPLETENESS_REPORT = ''completeness_report''"
| "artifact_type_value CLARIFICATION_LIST = ''clarification_list''"
| "artifact_type_value CLARIFICATION_RESPONSE = ''clarification_response''"
| "artifact_type_value PROCUREMENT_APPROACH = ''procurement_approach''"
| "artifact_type_value SOLICITATION_PACKAGE = ''solicitation_package''"
| "artifact_type_value EVALUATION_CRITERIA = ''evaluation_criteria''"
| "artifact_type_value SUPPLIER_SHORTLIST = ''supplier_shortlist''"
| "artifact_type_value RISK_COMPLIANCE_CHECK = ''risk_compliance_check''"
| "artifact_type_value OFFICIAL_PACKAGE_MANIFEST = ''official_package_manifest''"
| "artifact_type_value PUBLICATION_RECORD = ''publication_record''"
| "artifact_type_value ADDENDUM_DRAFT = ''addendum_draft''"
| "artifact_type_value ADDENDUM_DECISION = ''addendum_decision''"
| "artifact_type_value SUBMISSION_REGISTER = ''submission_register''"
| "artifact_type_value LAW_REVIEW = ''law_review''"
| "artifact_type_value BID_OPENING_RECORD = ''bid_opening_record''"
| "artifact_type_value EVALUATION_HANDOFF = ''evaluation_handoff''"
| "artifact_type_value REVIEW_RECOMMENDATION = ''review_recommendation''"

datatype ArtifactStatus = AS_DRAFT | AS_SUBMITTED | AS_APPROVED | AS_OFFICIAL

datatype DocumentKind =
    APPROVED_PR
  | PUBLICATION_RECEIPT
  | ADDENDUM
  | SUPPLIER_SUBMISSION
  | BID_OPENING_MINUTES
  | DK_OTHER

datatype ProcurementType =
    GOODS | CONSTRUCTION | CONSULTING | NON_CONSULTING | MIXED | INVESTOR_SELECTION | PT_OTHER

fun procurement_type_value :: "ProcurementType \<Rightarrow> string" where
  "procurement_type_value GOODS = ''goods''"
| "procurement_type_value CONSTRUCTION = ''construction''"
| "procurement_type_value CONSULTING = ''consulting''"
| "procurement_type_value NON_CONSULTING = ''non_consulting''"
| "procurement_type_value MIXED = ''mixed''"
| "procurement_type_value INVESTOR_SELECTION = ''investor_selection''"
| "procurement_type_value PT_OTHER = ''other''"

datatype BusinessDomain =
    GENERAL | INFORMATION_TECHNOLOGY | REAL_ESTATE | HEALTHCARE | INFRASTRUCTURE | OPERATIONS
  | ENERGY | EDUCATION | BD_OTHER

fun business_domain_value :: "BusinessDomain \<Rightarrow> string" where
  "business_domain_value GENERAL = ''general''"
| "business_domain_value INFORMATION_TECHNOLOGY = ''information_technology''"
| "business_domain_value REAL_ESTATE = ''real_estate''"
| "business_domain_value HEALTHCARE = ''healthcare''"
| "business_domain_value INFRASTRUCTURE = ''infrastructure''"
| "business_domain_value OPERATIONS = ''operations''"
| "business_domain_value ENERGY = ''energy''"
| "business_domain_value EDUCATION = ''education''"
| "business_domain_value BD_OTHER = ''other''"

section \<open>Entities\<close>

record PreparationDocument =
  d_id :: uuid
  d_tenant_id :: uuid
  d_workspace_id :: uuid
  d_case_id :: uuid
  d_kind :: DocumentKind
  d_title :: json
  d_filename :: string
  d_content_type :: string
  d_size_bytes :: int
  d_storage_key :: string
  d_content_hash :: string
  d_uploaded_by :: uuid

record PreparationArtifact =
  a_id :: uuid
  a_tenant_id :: uuid
  a_workspace_id :: uuid
  a_case_id :: uuid
  a_type :: ArtifactType
  a_schema_version :: string
  a_version :: int
  a_status :: ArtifactStatus
  a_content :: jdict
  a_created_by :: uuid
  a_evidence_refs :: "string list"
  a_source_artifact_ids :: "string list"
  a_content_hash :: string

record PreparationCase =
  c_id :: uuid
  c_tenant_id :: uuid
  c_workspace_id :: uuid
  c_title :: string
  c_created_by :: uuid
  c_source_pr_ref :: string
  c_description :: string
  c_estimated_value_minor :: int
  c_currency :: string
  c_deadline :: "string option"
  c_owner_name :: string
  c_procurement_type :: ProcurementType
  c_business_domain :: BusinessDomain
  c_method_key :: "string option"
  c_state :: CaseState
  c_current_step :: string
  c_last_run_id :: "uuid option"
  c_current_official_artifact_id :: "uuid option"
  c_export_ref :: "string option"
  c_intake_verified_by :: "uuid option"
  c_intake_verified_at :: "datetime option"
  c_bids_close_at :: "datetime option"
  c_version :: int

text \<open>
  Construction as the intake does it: the demand fields are given, everything else takes the
  dataclass default, and \<open>__post_init__\<close> refuses a blank title.
\<close>

definition new_preparation_case ::
  "uuid \<Rightarrow> uuid \<Rightarrow> uuid \<Rightarrow> string \<Rightarrow> uuid \<Rightarrow> string \<Rightarrow> string \<Rightarrow> int \<Rightarrow> string \<Rightarrow> string option
    \<Rightarrow> string \<Rightarrow> ProcurementType \<Rightarrow> BusinessDomain \<Rightarrow> PreparationCase result" where
  "new_preparation_case cid tenant ws title creator pr_ref descr val cur deadl owner ptype bdom =
     (if py_strip title = ''''
      then Inl (Err TenderDomainError ''preparation case title must not be blank'')
      else Inr \<lparr>c_id = cid, c_tenant_id = tenant, c_workspace_id = ws, c_title = title,
                c_created_by = creator, c_source_pr_ref = pr_ref, c_description = descr,
                c_estimated_value_minor = val, c_currency = cur, c_deadline = deadl,
                c_owner_name = owner, c_procurement_type = ptype, c_business_domain = bdom,
                c_method_key = None, c_state = CS_DRAFT, c_current_step = ''intake'',
                c_last_run_id = None, c_current_official_artifact_id = None,
                c_export_ref = None, c_intake_verified_by = None, c_intake_verified_at = None,
                c_bids_close_at = None, c_version = 1\<rparr>)"

section \<open>The methods of the aggregate\<close>

definition case_moved :: "CaseState \<Rightarrow> string \<Rightarrow> PreparationCase \<Rightarrow> PreparationCase" where
  "case_moved s step c = c\<lparr>c_state := s, c_current_step := step, c_version := c_version c + 1\<rparr>"

definition verify_intake :: "PreparationCase \<Rightarrow> uuid \<Rightarrow> datetime \<Rightarrow> PreparationCase result" where
  "verify_intake c verified_by verified_at =
     (if verified_by = c_created_by c
      then Inl (Err TenderDomainError ''case creator cannot verify their own intake'')
      else if c_state c \<noteq> CS_DRAFT
      then Inl (Err TenderDomainError ''only a draft case can be intake-verified'')
      else Inr (case_moved CS_INTAKE_READY ''intake''
                 (c\<lparr>c_intake_verified_by := Some verified_by,
                    c_intake_verified_at := Some verified_at\<rparr>)))"

definition reject_intake :: "PreparationCase \<Rightarrow> uuid \<Rightarrow> PreparationCase result" where
  "reject_intake c rejected_by =
     (if rejected_by = c_created_by c
      then Inl (Err TenderDomainError ''case creator cannot reject their own intake'')
      else if c_state c \<noteq> CS_DRAFT
      then Inl (Err TenderDomainError ''only a draft case can be intake-rejected'')
      else Inr (case_moved CS_INTAKE_REJECTED ''intake'' c))"

definition reopen_for_amendment :: "PreparationCase \<Rightarrow> PreparationCase result" where
  "reopen_for_amendment c =
     (if \<not> accepts_amendment (c_state c)
      then Inl (Err TenderDomainError
                 (''case cannot be amended from state '' @ case_state_value (c_state c)))
      else Inr (case_moved CS_INTAKE_READY ''intake'' c))"

definition start_run :: "PreparationCase \<Rightarrow> uuid \<Rightarrow> PreparationCase result" where
  "start_run c run_id =
     (if c_state c \<notin> {CS_INTAKE_READY, CS_WAITING_CLARIFICATION}
      then Inl (Err TenderDomainError
                 (''case cannot run from state '' @ case_state_value (c_state c)))
      else Inr (case_moved CS_ANALYZING ''analyzing'' (c\<lparr>c_last_run_id := Some run_id\<rparr>)))"

definition advance ::
  "PreparationCase \<Rightarrow> CaseState \<Rightarrow> string \<Rightarrow> string option \<Rightarrow> PreparationCase" where
  "advance c s step method_key =
     case_moved s step
       (if method_key \<noteq> None then c\<lparr>c_method_key := method_key\<rparr> else c)"

definition lock_official ::
  "PreparationCase \<Rightarrow> uuid \<Rightarrow> string \<Rightarrow> PreparationCase result" where
  "lock_official c artifact_id export_ref =
     (if py_strip export_ref = ''''
      then Inl (Err TenderDomainError ''export_ref must not be blank'')
      else Inr (case_moved CS_PACKAGE_OFFICIAL ''official''
                 (c\<lparr>c_current_official_artifact_id := Some artifact_id,
                    c_export_ref := Some export_ref\<rparr>)))"

definition complete_case :: "PreparationCase \<Rightarrow> PreparationCase" where
  "complete_case c = case_moved CS_COMPLETED ''completed'' c"

definition record_publication ::
  "PreparationCase \<Rightarrow> datetime option \<Rightarrow> PreparationCase result" where
  "record_publication c bids_close_at =
     (if c_state c \<noteq> CS_PACKAGE_OFFICIAL
      then Inl (Err TenderDomainError ''only an official package can be published'')
      else Inr (case_moved CS_PUBLISHED ''publication'' (c\<lparr>c_bids_close_at := bids_close_at\<rparr>)))"

definition record_submission :: "PreparationCase \<Rightarrow> PreparationCase result" where
  "record_submission c =
     (if c_state c \<notin> {CS_PUBLISHED, CS_RECEIVING_BIDS}
      then Inl (Err TenderDomainError ''case is not accepting supplier submissions'')
      else Inr (case_moved CS_RECEIVING_BIDS ''submissions'' c))"

definition submit_addendum :: "PreparationCase \<Rightarrow> PreparationCase result" where
  "submit_addendum c =
     (if c_state c \<noteq> CS_PUBLISHED
      then Inl (Err TenderDomainError ''addendum can only be raised after publication'')
      else Inr (case_moved CS_CP3_PENDING ''cp3'' c))"

definition resolve_cp3 :: "PreparationCase \<Rightarrow> int \<Rightarrow> PreparationCase result" where
  "resolve_cp3 c extend_bids_by_days =
     (if c_state c \<noteq> CS_CP3_PENDING
      then Inl (Err TenderDomainError ''case is not waiting for CP3'')
      else Inr (case_moved CS_PUBLISHED ''publication''
                 (case c_bids_close_at c of
                    Some t \<Rightarrow> (if extend_bids_by_days > 0
                               then c\<lparr>c_bids_close_at := Some (t + timedelta_days extend_bids_by_days)\<rparr>
                               else c)
                  | None \<Rightarrow> c)))"

definition mark_cp4_ready :: "PreparationCase \<Rightarrow> PreparationCase result" where
  "mark_cp4_ready c =
     (if c_state c \<noteq> CS_RECEIVING_BIDS
      then Inl (Err TenderDomainError ''case has no supplier submissions to open'')
      else Inr (case_moved CS_CP4_READY ''cp4'' c))"

definition complete_cp4_handoff :: "PreparationCase \<Rightarrow> PreparationCase result" where
  "complete_cp4_handoff c =
     (if c_state c \<noteq> CS_RECEIVING_BIDS
      then Inl (Err TenderDomainError ''case has no supplier submissions to hand off'')
      else Inr (case_moved CS_COMPLETED ''completed'' c))"

definition reopen_after_clarification :: "PreparationCase \<Rightarrow> PreparationCase result" where
  "reopen_after_clarification c =
     (if c_state c \<noteq> CS_WAITING_CLARIFICATION
      then Inl (Err TenderDomainError ''case is not waiting for clarification'')
      else Inr (case_moved CS_INTAKE_READY ''intake'' c))"

lemmas case_method_defs =
  verify_intake_def reject_intake_def reopen_for_amendment_def start_run_def lock_official_def
  record_publication_def record_submission_def submit_addendum_def resolve_cp3_def
  mark_cp4_ready_def complete_cp4_handoff_def reopen_after_clarification_def

section \<open>Which operation the case went through\<close>

text \<open>
  The operations the code base performs on a persisted case. \<open>Op_advance\<close> is the workflow's
  own move; \<open>workflow_target\<close> lists the states the nodes of
  \<open>workflows/preparation_v1/nodes.py\<close> pass to \<open>advance\<close>.
\<close>

datatype case_op =
    Op_verify_intake uuid datetime
  | Op_reject_intake uuid
  | Op_amend
  | Op_start_run uuid
  | Op_advance CaseState string "string option"
  | Op_lock_official uuid string
  | Op_record_publication "datetime option"
  | Op_record_submission
  | Op_submit_addendum
  | Op_resolve_cp3 int
  | Op_complete_cp4
  | Op_reopen_after_clarification

definition workflow_target :: "CaseState \<Rightarrow> bool" where
  "workflow_target s = (s \<in> {CS_WAITING_CLARIFICATION, CS_APPROACH_READY, CS_CP1_PENDING,
     CS_CP1_APPROVED, CS_CP1_REJECTED, CS_BUILDING_SOLICITATION, CS_CP2_PENDING,
     CS_PACKAGE_READY, CS_CP2_APPROVED, CS_CP2_REJECTED})"

fun apply_case_op :: "case_op \<Rightarrow> PreparationCase \<Rightarrow> PreparationCase result" where
  "apply_case_op (Op_verify_intake u t) c = verify_intake c u t"
| "apply_case_op (Op_reject_intake u) c = reject_intake c u"
| "apply_case_op Op_amend c = reopen_for_amendment c"
| "apply_case_op (Op_start_run r) c = start_run c r"
| "apply_case_op (Op_advance s st m) c = Inr (advance c s st m)"
| "apply_case_op (Op_lock_official a r) c = lock_official c a r"
| "apply_case_op (Op_record_publication t) c = record_publication c t"
| "apply_case_op Op_record_submission c = record_submission c"
| "apply_case_op Op_submit_addendum c = submit_addendum c"
| "apply_case_op (Op_resolve_cp3 n) c = resolve_cp3 c n"
| "apply_case_op Op_complete_cp4 c = complete_cp4_handoff c"
| "apply_case_op Op_reopen_after_clarification c = reopen_after_clarification c"

inductive case_step :: "PreparationCase \<Rightarrow> case_op \<Rightarrow> PreparationCase \<Rightarrow> bool" where
  op: "apply_case_op opr c = Inr c' \<Longrightarrow>
       (\<forall>s st m. opr = Op_advance s st m \<longrightarrow> workflow_target s) \<Longrightarrow> case_step c opr c'"

inductive_cases case_stepE: "case_step c opr c'"

inductive case_run :: "PreparationCase \<Rightarrow> case_op list \<Rightarrow> PreparationCase \<Rightarrow> bool" where
  start: "case_run c [] c"
| step: "case_run c ops c' \<Longrightarrow> case_step c' opr c'' \<Longrightarrow> case_run c (ops @ [opr]) c''"

section \<open>Lemmas\<close>

lemma case_moved_sel [simp]:
  "c_state (case_moved s st c) = s"
  "c_current_step (case_moved s st c) = st"
  "c_version (case_moved s st c) = c_version c + 1"
  "c_id (case_moved s st c) = c_id c"
  "c_tenant_id (case_moved s st c) = c_tenant_id c"
  "c_workspace_id (case_moved s st c) = c_workspace_id c"
  "c_title (case_moved s st c) = c_title c"
  "c_created_by (case_moved s st c) = c_created_by c"
  "c_estimated_value_minor (case_moved s st c) = c_estimated_value_minor c"
  "c_deadline (case_moved s st c) = c_deadline c"
  "c_intake_verified_by (case_moved s st c) = c_intake_verified_by c"
  "c_intake_verified_at (case_moved s st c) = c_intake_verified_at c"
  "c_bids_close_at (case_moved s st c) = c_bids_close_at c"
  "c_export_ref (case_moved s st c) = c_export_ref c"
  "c_current_official_artifact_id (case_moved s st c) = c_current_official_artifact_id c"
  "c_last_run_id (case_moved s st c) = c_last_run_id c"
  "c_method_key (case_moved s st c) = c_method_key c"
  by (simp_all add: case_moved_def)

lemma artifact_type_value_inject [simp]:
  "artifact_type_value s = artifact_type_value t \<longleftrightarrow> s = t"
  by (cases s; cases t; simp)

lemma case_state_value_inject [simp]: "case_state_value s = case_state_value t \<longleftrightarrow> s = t"
  by (cases s; cases t; simp)

lemma apply_case_op_frame:
  assumes "apply_case_op opr c = Inr c'"
  shows "c_id c' = c_id c" "c_tenant_id c' = c_tenant_id c"
    "c_workspace_id c' = c_workspace_id c" "c_created_by c' = c_created_by c"
    "c_title c' = c_title c" "c_version c' = c_version c + 1"
    "c_estimated_value_minor c' = c_estimated_value_minor c" "c_deadline c' = c_deadline c"
  using assms by (cases opr; auto simp: case_method_defs advance_def split: if_splits option.splits)+

lemma case_run_version: "case_run c ops c' \<Longrightarrow> c_version c' = c_version c + int (length ops)"
  by (induction rule: case_run.induct) (auto elim!: case_stepE dest: apply_case_op_frame)

lemma case_run_identity:
  "case_run c ops c' \<Longrightarrow> c_id c' = c_id c \<and> c_created_by c' = c_created_by c
     \<and> c_tenant_id c' = c_tenant_id c"
  by (induction rule: case_run.induct) (auto elim!: case_stepE dest: apply_case_op_frame)

text \<open>
  Separation of duties on the intake: whoever is recorded as having verified a case is not its
  creator.
\<close>

definition verifier_ok :: "PreparationCase \<Rightarrow> bool" where
  "verifier_ok c = (c_intake_verified_by c \<noteq> Some (c_created_by c))"

lemma apply_case_op_verifier_ok:
  "apply_case_op opr c = Inr c' \<Longrightarrow> verifier_ok c \<Longrightarrow> verifier_ok c'"
  by (cases opr) (auto simp: case_method_defs advance_def verifier_ok_def split: if_splits option.splits)

lemma case_run_verifier_ok: "case_run c ops c' \<Longrightarrow> verifier_ok c \<Longrightarrow> verifier_ok c'"
  by (induction rule: case_run.induct) (auto elim!: case_stepE dest: apply_case_op_verifier_ok)

text \<open>
  The case has left intake. Without an amendment every such case was verified by somebody.
\<close>

definition past_intake :: "CaseState \<Rightarrow> bool" where
  "past_intake s = (s \<notin> {CS_DRAFT, CS_INTAKE_REJECTED})"

definition intake_inv :: "PreparationCase \<Rightarrow> bool" where
  "intake_inv c = (past_intake (c_state c) \<longrightarrow> c_intake_verified_by c \<noteq> None)"

text \<open>
  The workflow nodes act on a case whose run was started, so an \<open>advance\<close> or the sealing of
  the package happens to a case that is past intake.
\<close>

definition in_workflow :: "case_op \<Rightarrow> bool" where
  "in_workflow opr = (case opr of Op_advance _ _ _ \<Rightarrow> True | Op_lock_official _ _ \<Rightarrow> True | _ \<Rightarrow> False)"

lemma case_step_intake_inv:
  assumes "case_step c opr c'" "opr \<noteq> Op_amend" "in_workflow opr \<longrightarrow> past_intake (c_state c)" "intake_inv c"
  shows "intake_inv c'"
  using assms
  by (cases opr)
    (auto elim!: case_stepE simp: case_method_defs advance_def intake_inv_def past_intake_def
      in_workflow_def workflow_target_def split: if_splits option.splits)

inductive disciplined_run :: "PreparationCase \<Rightarrow> case_op list \<Rightarrow> PreparationCase \<Rightarrow> bool" where
  d_start: "disciplined_run c [] c"
| d_step: "disciplined_run c ops c' \<Longrightarrow> case_step c' opr c'' \<Longrightarrow>
     (in_workflow opr \<longrightarrow> past_intake (c_state c')) \<Longrightarrow> disciplined_run c (ops @ [opr]) c''"

lemma disciplined_run_intake_inv:
  "disciplined_run c ops c' \<Longrightarrow> Op_amend \<notin> set ops \<Longrightarrow> intake_inv c \<Longrightarrow> intake_inv c'"
  by (induction rule: disciplined_run.induct) (auto intro: case_step_intake_inv)

lemma new_preparation_case_props:
  assumes "new_preparation_case cid t ws title u pr ds v cur dl ow pt bd = Inr c"
  shows "c_state c = CS_DRAFT" "c_version c = 1" "c_created_by c = u" "c_tenant_id c = t"
    "c_id c = cid" "c_intake_verified_by c = None" "verifier_ok c" "intake_inv c"
    "c_workspace_id c = ws" "c_title c = title"
  using assms
  by (auto simp: new_preparation_case_def verifier_ok_def intake_inv_def past_intake_def
      split: if_splits)

end
