(* ===== verification/DW_Platform.thy ===== *)
theory DW_Platform
  imports DW_Kernel
begin

text \<open>
  \<open>dw_platform\<close>: the verified access context and how it is built from a membership
  (\<open>application/access_context.py\<close>, \<open>application/identity.py\<close>), scope authorization
  (\<open>application/authorization.py\<close>), plan entitlement (\<open>application/entitlement.py\<close>), the
  approval aggregate (\<open>domain/approval.py\<close>) and the outbox record (\<open>domain/outbox.py\<close>).
\<close>

section \<open>Access context\<close>

record AccessContext =
  x_tenant_id :: uuid
  x_workspace_id :: uuid
  x_principal_id :: uuid
  x_roles :: "string set"
  x_groups :: "string set"
  x_scopes :: "string set"
  x_clearance :: string
  x_plan_id :: string
  x_feature_flags :: "string set"

text \<open>The pydantic constructor with its validator: \<open>plan_id\<close> and \<open>clearance\<close> must not be blank.\<close>

definition mk_AccessContext :: "AccessContext \<Rightarrow> AccessContext result" where
  "mk_AccessContext x =
     (if py_strip (x_plan_id x) = '''' \<or> py_strip (x_clearance x) = ''''
      then Inl (Err PyValueError ''must not be blank'') else Inr x)"

definition has_scope :: "AccessContext \<Rightarrow> string \<Rightarrow> bool" where
  "has_scope x scope = (scope \<in> x_scopes x)"

definition has_any_role :: "AccessContext \<Rightarrow> string list \<Rightarrow> bool" where
  "has_any_role x rs = list_ex (\<lambda>r. r \<in> x_roles x) rs"

definition ctx_has_feature :: "AccessContext \<Rightarrow> string \<Rightarrow> bool" where
  "ctx_has_feature x flag = (flag \<in> x_feature_flags x)"

section \<open>Authorization and entitlement\<close>

definition PLATFORM_ADMIN_ROLE :: string where
  "PLATFORM_ADMIN_ROLE = ''platform_admin''"

definition is_allowed :: "string \<Rightarrow> AccessContext \<Rightarrow> string \<Rightarrow> bool" where
  "is_allowed admin_role x action = (if admin_role \<in> x_roles x then True else action \<in> x_scopes x)"

definition require_action :: "AccessContext \<Rightarrow> string \<Rightarrow> unit result" where
  "require_action x action =
     (if is_allowed PLATFORM_ADMIN_ROLE x action then Inr ()
      else Inl (Err PermissionDeniedError ''action not permitted''))"

record Plan =
  p_plan_id :: string
  p_name :: string
  p_features :: "string set"
  p_quotas :: "(string \<times> int) list"

definition mk_Plan :: "string \<Rightarrow> string \<Rightarrow> string set \<Rightarrow> (string \<times> int) list \<Rightarrow> Plan result" where
  "mk_Plan pid name feats quotas =
     (if py_strip pid = '''' then Inl (Err PyValueError ''plan_id must not be blank'')
      else if list_ex (\<lambda>(k, v). v < 0) quotas then Inl (Err PyValueError ''quota must be >= 0'')
      else Inr \<lparr>p_plan_id = pid, p_name = name, p_features = feats, p_quotas = quotas\<rparr>)"

definition DEFAULT_PLANS :: "(string \<times> Plan) list" where
  "DEFAULT_PLANS =
     [(''basic'', \<lparr>p_plan_id = ''basic'', p_name = ''Basic'', p_features = {''work_ops_worker''},
                   p_quotas = [(''runs_per_day'', 20)]\<rparr>),
      (''professional'', \<lparr>p_plan_id = ''professional'', p_name = ''Professional'',
                   p_features = {''work_ops_worker'', ''tender_worker'', ''knowledge_search''},
                   p_quotas = [(''runs_per_day'', 200)]\<rparr>),
      (''enterprise'', \<lparr>p_plan_id = ''enterprise'', p_name = ''Enterprise'',
                   p_features = {''work_ops_worker'', ''tender_worker'', ''knowledge_search'',
                                 ''audit_export''},
                   p_quotas = [(''runs_per_day'', 2000)]\<rparr>)]"

definition has_feature :: "(string \<times> Plan) list \<Rightarrow> AccessContext \<Rightarrow> string \<Rightarrow> bool" where
  "has_feature plans x feature =
     (if ctx_has_feature x feature then True
      else case map_of plans (x_plan_id x) of None \<Rightarrow> False | Some p \<Rightarrow> feature \<in> p_features p)"

definition require_feature :: "(string \<times> Plan) list \<Rightarrow> AccessContext \<Rightarrow> string \<Rightarrow> unit result" where
  "require_feature plans x feature =
     (if has_feature plans x feature then Inr ()
      else Inl (Err EntitlementDeniedError ''plan does not include this capability''))"

record Entitlement =
  ent_tenant_id :: uuid
  ent_plan_id :: string
  ent_feature_overrides :: "string set"

definition effective_features :: "Entitlement \<Rightarrow> Plan \<Rightarrow> string set result" where
  "effective_features e p =
     (if p_plan_id p \<noteq> ent_plan_id e then Inl (Err PyValueError ''plan does not match entitlement'')
      else Inr (p_features p \<union> ent_feature_overrides e))"

section \<open>Building the context from a membership\<close>

text \<open>
  The token verifier and the membership query are ports: \<open>find_access\<close> is a parameter that
  answers for (subject, issuer, tenant, workspace).
\<close>

record VerifiedClaims =
  v_subject :: string
  v_issuer :: string

definition build_access_context ::
  "(string \<Rightarrow> string \<Rightarrow> uuid \<Rightarrow> uuid \<Rightarrow> AccessContext option) \<Rightarrow> VerifiedClaims \<Rightarrow> uuid option
    \<Rightarrow> uuid option \<Rightarrow> AccessContext result" where
  "build_access_context find_access v tenant ws =
     (case (tenant, ws) of
        (Some t, Some w) \<Rightarrow>
          (case find_access (v_subject v) (v_issuer v) t w of
             None \<Rightarrow> Inl (Err PermissionDeniedError ''no membership for the requested tenant/workspace'')
           | Some a \<Rightarrow> mk_AccessContext a)
      | _ \<Rightarrow> Inl (Err TenantContextMissingError ''X-Tenant-Id and X-Workspace-Id headers are required''))"

section \<open>Approval aggregate\<close>

datatype ApprovalStatus = AP_PENDING | AP_APPROVED | AP_REJECTED | AP_CANCELLED

datatype DecisionOutcome = DO_APPROVED | DO_REJECTED

record ApprovalDecision =
  ad_id :: uuid
  ad_request_id :: uuid
  ad_tenant_id :: uuid
  ad_workspace_id :: uuid
  ad_decided_by :: uuid
  ad_outcome :: DecisionOutcome
  ad_comment :: string
  ad_decided_at :: datetime

record ApprovalRequest =
  r_id :: uuid
  r_tenant_id :: uuid
  r_workspace_id :: uuid
  r_approval_type :: string
  r_requested_by :: uuid
  r_reason :: string
  r_payload :: jdict
  r_run_id :: "uuid option"
  r_status :: ApprovalStatus
  r_created_at :: datetime
  r_decided_at :: "datetime option"
  r_version :: int

definition require_pending :: "ApprovalRequest \<Rightarrow> unit result" where
  "require_pending r =
     (if r_status r \<noteq> AP_PENDING then Inl (Err ConflictError ''approval request already decided'')
      else Inr ())"

definition decide_request ::
  "ApprovalRequest \<Rightarrow> uuid \<Rightarrow> uuid \<Rightarrow> DecisionOutcome \<Rightarrow> datetime \<Rightarrow> string
    \<Rightarrow> (ApprovalRequest \<times> ApprovalDecision) result" where
  "decide_request r decision_id decided_by outcome decided_at comment =
     (case require_pending r of
        Inl e \<Rightarrow> Inl e
      | Inr _ \<Rightarrow>
         Inr (r\<lparr>r_status := (if outcome = DO_APPROVED then AP_APPROVED else AP_REJECTED),
                r_decided_at := Some decided_at, r_version := r_version r + 1\<rparr>,
              \<lparr>ad_id = decision_id, ad_request_id = r_id r, ad_tenant_id = r_tenant_id r,
               ad_workspace_id = r_workspace_id r, ad_decided_by = decided_by,
               ad_outcome = outcome, ad_comment = comment, ad_decided_at = decided_at\<rparr>))"

definition cancel_request :: "ApprovalRequest \<Rightarrow> ApprovalRequest result" where
  "cancel_request r =
     (case require_pending r of
        Inl e \<Rightarrow> Inl e
      | Inr _ \<Rightarrow> Inr (r\<lparr>r_status := AP_CANCELLED, r_version := r_version r + 1\<rparr>))"

section \<open>Outbox record\<close>

record OutboxEvent =
  ob_event_type :: string
  ob_processed_at :: "datetime option"
  ob_attempts :: int

definition mk_OutboxEvent :: "string \<Rightarrow> OutboxEvent result" where
  "mk_OutboxEvent event_type =
     (if CHR ''.'' \<notin> set event_type then Inl (Err PyValueError ''event_type must be namespaced'')
      else Inr \<lparr>ob_event_type = event_type, ob_processed_at = None, ob_attempts = 0\<rparr>)"

definition mark_processed :: "OutboxEvent \<Rightarrow> datetime \<Rightarrow> OutboxEvent" where
  "mark_processed e at = (if ob_processed_at e \<noteq> None then e else e\<lparr>ob_processed_at := Some at\<rparr>)"

definition record_attempt :: "OutboxEvent \<Rightarrow> OutboxEvent" where
  "record_attempt e = e\<lparr>ob_attempts := ob_attempts e + 1\<rparr>"

section \<open>Lemmas\<close>

lemma require_action_Inr [simp]:
  "require_action x a = Inr u \<longleftrightarrow> PLATFORM_ADMIN_ROLE \<in> x_roles x \<or> a \<in> x_scopes x"
  by (auto simp: require_action_def is_allowed_def)

lemma require_feature_Inr [simp]: "require_feature ps x f = Inr u \<longleftrightarrow> has_feature ps x f"
  by (auto simp: require_feature_def)

lemma decide_request_Inr:
  "decide_request r i u out t m = Inr (r', d) \<longleftrightarrow>
     r_status r = AP_PENDING
     \<and> r' = r\<lparr>r_status := (if out = DO_APPROVED then AP_APPROVED else AP_REJECTED),
             r_decided_at := Some t, r_version := r_version r + 1\<rparr>
     \<and> d = \<lparr>ad_id = i, ad_request_id = r_id r, ad_tenant_id = r_tenant_id r,
           ad_workspace_id = r_workspace_id r, ad_decided_by = u, ad_outcome = out,
           ad_comment = m, ad_decided_at = t\<rparr>"
  by (auto simp: decide_request_def require_pending_def)

lemma cancel_request_Inr:
  "cancel_request r = Inr r' \<longleftrightarrow>
     r_status r = AP_PENDING \<and> r' = r\<lparr>r_status := AP_CANCELLED, r_version := r_version r + 1\<rparr>"
  by (auto simp: cancel_request_def require_pending_def)

lemma mark_processed_idem: "mark_processed (mark_processed e t) t' = mark_processed e t"
  by (simp add: mark_processed_def)

end
