(* ===== verification/DW_Rework.thy ===== *)
theory DW_Rework
  imports DW_Prelude "HOL-Library.List_Lexorder" "HOL-Library.Char_ord"
    "HOL-Library.Product_Lexorder" "HOL-Library.Multiset"
begin

text \<open>
  The rework support ladder: the records of \<open>domain/preparation/rework.py\<close> (a returned case,
  and the explanation that unblocks its author) and the pure assessment of
  \<open>application/preparation/rework.py\<close> that turns a history of returned cases into a level.
\<close>

section \<open>Returned cases and explanations\<close>

datatype ReworkCheckpoint = RC_INTAKE | RC_CP1 | RC_CP2

fun checkpoint_value :: "ReworkCheckpoint \<Rightarrow> string" where
  "checkpoint_value RC_INTAKE = ''intake''"
| "checkpoint_value RC_CP1 = ''cp1''"
| "checkpoint_value RC_CP2 = ''cp2''"

datatype ExplanationStatus = ES_PENDING | ES_APPROVED | ES_REJECTED

record ReworkEvent =
  re_id :: uuid
  re_tenant_id :: uuid
  re_workspace_id :: uuid
  re_case_id :: uuid
  re_creator_user_id :: uuid
  re_decided_by_user_id :: uuid
  re_checkpoint :: ReworkCheckpoint
  re_reason_code :: string
  re_reason_text :: string
  re_policy_version :: string
  re_occurred_at :: datetime
  re_voided_at :: "datetime option"
  re_voided_by :: "uuid option"
  re_void_reason :: string

definition mk_ReworkEvent ::
  "uuid \<Rightarrow> uuid \<Rightarrow> uuid \<Rightarrow> uuid \<Rightarrow> uuid \<Rightarrow> uuid \<Rightarrow> ReworkCheckpoint \<Rightarrow> string \<Rightarrow> string \<Rightarrow> string
    \<Rightarrow> raw_datetime \<Rightarrow> ReworkEvent result" where
  "mk_ReworkEvent i tenant ws cid creator decider cp code txt policy at =
     (if py_strip txt = ''''
      then Inl (Err TenderDomainError ''a returned case must carry the approver's reason'')
      else case at of
        Naive _ \<Rightarrow> Inl (Err TenderDomainError ''rework event timestamp must carry a timezone'')
      | Aware t \<Rightarrow>
          Inr \<lparr>re_id = i, re_tenant_id = tenant, re_workspace_id = ws, re_case_id = cid,
               re_creator_user_id = creator, re_decided_by_user_id = decider,
               re_checkpoint = cp, re_reason_code = code, re_reason_text = txt,
               re_policy_version = policy, re_occurred_at = t, re_voided_at = None,
               re_voided_by = None, re_void_reason = ''''\<rparr>)"

definition event_voided :: "ReworkEvent \<Rightarrow> bool" where
  "event_voided e = (re_voided_at e \<noteq> None)"

record ExplanationRecord =
  ex_id :: uuid
  ex_tenant_id :: uuid
  ex_workspace_id :: uuid
  ex_case_id :: "uuid option"
  ex_creator_user_id :: uuid
  ex_context_text :: string
  ex_difficulty_text :: string
  ex_support_request_text :: string
  ex_policy_version :: string
  ex_submitted_at :: datetime
  ex_counted_event_ids :: "uuid list"
  ex_nudge_count :: int
  ex_block_count :: int
  ex_top_reason_code :: string
  ex_status :: ExplanationStatus
  ex_decided_by :: "uuid option"
  ex_decided_at :: "datetime option"
  ex_decision_comment :: string

definition mk_ExplanationRecord :: "ExplanationRecord \<Rightarrow> ExplanationRecord result" where
  "mk_ExplanationRecord x =
     (if py_strip (ex_context_text x) = ''''
      then Inl (Err TenderDomainError ''an explanation needs the context in the author's words'')
      else Inr x)"

definition explanation_decided :: "ExplanationRecord \<Rightarrow> bool" where
  "explanation_decided x = (ex_status x \<noteq> ES_PENDING)"

definition decide_explanation ::
  "ExplanationRecord \<Rightarrow> bool \<Rightarrow> uuid \<Rightarrow> raw_datetime \<Rightarrow> string \<Rightarrow> ExplanationRecord result" where
  "decide_explanation x approve decided_by decided_at comment =
     (if explanation_decided x
      then Inl (Err ConflictError ''this explanation has already been decided'')
      else if decided_by = ex_creator_user_id x
      then Inl (Err ConflictError
                 ''separation of duties: the author cannot decide their own explanation'')
      else if py_strip comment = ''''
      then Inl (Err ConflictError ''a decision on an explanation needs a note back to the author'')
      else case decided_at of
        Naive _ \<Rightarrow> Inl (Err TenderDomainError ''decision timestamp must carry a timezone'')
      | Aware t \<Rightarrow> Inr (x\<lparr>ex_status := (if approve then ES_APPROVED else ES_REJECTED),
                       ex_decided_by := Some decided_by, ex_decided_at := Some t,
                       ex_decision_comment := py_strip comment\<rparr>))"

section \<open>The rule pack\<close>

datatype SupportLevel = SL_NONE | SL_NUDGE | SL_BLOCK

text \<open>The ladder is ordered: no support, nudge, block.\<close>

fun level_rank :: "SupportLevel \<Rightarrow> nat" where
  "level_rank SL_NONE = 0"
| "level_rank SL_NUDGE = 1"
| "level_rank SL_BLOCK = 2"

instantiation SupportLevel :: linorder
begin

definition less_eq_SupportLevel :: "SupportLevel \<Rightarrow> SupportLevel \<Rightarrow> bool" where
  "less_eq_SupportLevel a b = (level_rank a \<le> level_rank b)"

definition less_SupportLevel :: "SupportLevel \<Rightarrow> SupportLevel \<Rightarrow> bool" where
  "less_SupportLevel a b = (level_rank a < level_rank b)"

instance
proof
  fix a b :: SupportLevel
  assume "a \<le> b" "b \<le> a"
  then show "a = b" by (cases a; cases b; simp add: less_eq_SupportLevel_def)
qed (auto simp: less_eq_SupportLevel_def less_SupportLevel_def)

end

record ReworkReason =
  rn_code :: string
  rn_label :: string
  rn_guidance :: string

record ReworkSupportRules =
  rr_policy_version :: string
  rr_enabled_from :: "datetime option"
  rr_nudge_window_days :: int
  rr_nudge_threshold :: int
  rr_block_window_days :: int
  rr_block_threshold :: int
  rr_explanation_min_chars :: int
  rr_supporter_role :: string
  rr_escalate_after_hours :: int
  rr_general_guidance :: string
  rr_reason_codes :: "ReworkReason list"

definition rules_is_enabled :: "ReworkSupportRules \<Rightarrow> bool" where
  "rules_is_enabled r = (rr_nudge_threshold r > 0 \<or> rr_block_threshold r > 0)"

definition is_known :: "ReworkSupportRules \<Rightarrow> string \<Rightarrow> bool" where
  "is_known r code = list_ex (\<lambda>x. rn_code x = code) (rr_reason_codes r)"

definition reason :: "ReworkSupportRules \<Rightarrow> string option \<Rightarrow> ReworkReason option" where
  "reason r code =
     (case code of
        None \<Rightarrow> None
      | Some c \<Rightarrow> if c = '''' then None else find (\<lambda>x. rn_code x = c) (rr_reason_codes r))"

definition label_for :: "ReworkSupportRules \<Rightarrow> string option \<Rightarrow> string" where
  "label_for r code = (case reason r code of None \<Rightarrow> '''' | Some x \<Rightarrow> rn_label x)"

definition guidance_for :: "ReworkSupportRules \<Rightarrow> string option \<Rightarrow> string" where
  "guidance_for r code =
     (case reason r code of
        Some x \<Rightarrow> if py_strip (rn_guidance x) \<noteq> '''' then py_strip (rn_guidance x)
                  else py_strip (rr_general_guidance r)
      | None \<Rightarrow> py_strip (rr_general_guidance r))"

fun rank_in :: "ReworkReason list \<Rightarrow> string \<Rightarrow> nat" where
  "rank_in [] code = 0"
| "rank_in (x # xs) code = (if rn_code x = code then 0 else Suc (rank_in xs code))"

definition rank_of :: "ReworkSupportRules \<Rightarrow> string \<Rightarrow> nat" where
  "rank_of r code = rank_in (rr_reason_codes r) code"

section \<open>The assessment\<close>

record ReworkEventView =
  ev_event_id :: uuid
  ev_occurred_at :: datetime
  ev_reason_code :: string
  ev_checkpoint :: string
  ev_voided :: bool

record ReworkAssessment =
  as_available :: bool
  as_level :: SupportLevel
  as_nudge_count :: int
  as_block_count :: int
  as_nudge_window_days :: int
  as_nudge_threshold :: int
  as_block_window_days :: int
  as_block_threshold :: int
  as_policy_version :: string
  as_top_reason_code :: "string option"
  as_top_reason_label :: string
  as_guidance :: string
  as_counted_event_ids :: "uuid list"

definition as_blocked :: "ReworkAssessment \<Rightarrow> bool" where
  "as_blocked a = (as_level a = SL_BLOCK)"

definition as_window_days :: "ReworkAssessment \<Rightarrow> int" where
  "as_window_days a = (if as_blocked a then as_block_window_days a else as_nudge_window_days a)"

definition as_count :: "ReworkAssessment \<Rightarrow> int" where
  "as_count a = (if as_blocked a then as_block_count a else as_nudge_count a)"

definition assessment_unavailable :: "ReworkSupportRules option \<Rightarrow> ReworkAssessment" where
  "assessment_unavailable rules =
     \<lparr>as_available = False, as_level = SL_NONE, as_nudge_count = 0, as_block_count = 0,
      as_nudge_window_days = (case rules of Some r \<Rightarrow> rr_nudge_window_days r | None \<Rightarrow> 0),
      as_nudge_threshold = (case rules of Some r \<Rightarrow> rr_nudge_threshold r | None \<Rightarrow> 0),
      as_block_window_days = (case rules of Some r \<Rightarrow> rr_block_window_days r | None \<Rightarrow> 0),
      as_block_threshold = (case rules of Some r \<Rightarrow> rr_block_threshold r | None \<Rightarrow> 0),
      as_policy_version = (case rules of Some r \<Rightarrow> rr_policy_version r | None \<Rightarrow> ''''),
      as_top_reason_code = None, as_top_reason_label = '''', as_guidance = '''',
      as_counted_event_ids = []\<rparr>"

definition assessment_disabled :: "ReworkSupportRules \<Rightarrow> ReworkAssessment" where
  "assessment_disabled r =
     \<lparr>as_available = True, as_level = SL_NONE, as_nudge_count = 0, as_block_count = 0,
      as_nudge_window_days = rr_nudge_window_days r, as_nudge_threshold = rr_nudge_threshold r,
      as_block_window_days = rr_block_window_days r, as_block_threshold = rr_block_threshold r,
      as_policy_version = rr_policy_version r,
      as_top_reason_code = None, as_top_reason_label = '''', as_guidance = '''',
      as_counted_event_ids = []\<rparr>"

definition counts_within :: "ReworkEventView list \<Rightarrow> datetime \<Rightarrow> int \<Rightarrow> ReworkEventView list" where
  "counts_within events now days =
     (if days \<le> 0 then []
      else let cutoff = now - timedelta_days days
           in filter (\<lambda>e. cutoff \<le> ev_occurred_at e \<and> ev_occurred_at e \<le> now) events)"

text \<open>\<open>Counter\<close>: keys in order of first occurrence.\<close>

fun counter_add :: "'a \<Rightarrow> ('a \<times> nat) list \<Rightarrow> ('a \<times> nat) list" where
  "counter_add k [] = [(k, 1)]"
| "counter_add k ((k', n) # t) = (if k = k' then (k', n + 1) # t else (k', n) # counter_add k t)"

definition counter_of :: "'a list \<Rightarrow> ('a \<times> nat) list" where
  "counter_of xs = fold counter_add xs []"

definition top_reason :: "ReworkEventView list \<Rightarrow> ReworkSupportRules \<Rightarrow> string option" where
  "top_reason events rules =
     (if events = [] then None
      else let tally = counter_of (filter (\<lambda>c. c \<noteq> '''') (map ev_reason_code events))
           in if tally = [] then None
              else let highest = Max (set (map snd tally));
                       tied = map fst (filter (\<lambda>(c, n). n = highest) tally)
                   in Some (arg_min_list (\<lambda>c. (rank_of rules c, c)) tied))"

definition considered_events ::
  "ReworkSupportRules \<Rightarrow> ReworkEventView list \<Rightarrow> ReworkEventView list" where
  "considered_events rules events =
     filter (\<lambda>e. \<not> ev_voided e
       \<and> (case rr_enabled_from rules of None \<Rightarrow> True | Some t \<Rightarrow> ev_occurred_at e \<ge> t)) events"

definition assess_rework ::
  "ReworkEventView list \<Rightarrow> datetime \<Rightarrow> ReworkSupportRules \<Rightarrow> ReworkAssessment" where
  "assess_rework events now rules =
     (if \<not> rules_is_enabled rules then assessment_disabled rules
      else
        let considered = considered_events rules events;
            nudge_events = counts_within considered now (rr_nudge_window_days rules);
            block_events = counts_within considered now (rr_block_window_days rules);
            nudge_count = int (length nudge_events);
            block_count = int (length block_events);
            (level, window_events) =
              (if rr_block_threshold rules > 0 \<and> block_count \<ge> rr_block_threshold rules
               then (SL_BLOCK, block_events)
               else if rr_nudge_threshold rules > 0 \<and> nudge_count \<ge> rr_nudge_threshold rules
               then (SL_NUDGE, nudge_events)
               else (SL_NONE, nudge_events));
            top_code = (if level \<noteq> SL_NONE then top_reason window_events rules else None)
        in \<lparr>as_available = True, as_level = level, as_nudge_count = nudge_count,
            as_block_count = block_count,
            as_nudge_window_days = rr_nudge_window_days rules,
            as_nudge_threshold = rr_nudge_threshold rules,
            as_block_window_days = rr_block_window_days rules,
            as_block_threshold = rr_block_threshold rules,
            as_policy_version = rr_policy_version rules,
            as_top_reason_code = top_code,
            as_top_reason_label = label_for rules top_code,
            as_guidance = (if level \<noteq> SL_NONE then guidance_for rules top_code else ''''),
            as_counted_event_ids = map ev_event_id window_events\<rparr>)"

section \<open>Lemmas\<close>

lemma decide_explanation_Inr:
  "decide_explanation x ap u at m = Inr x' \<longleftrightarrow>
     ex_status x = ES_PENDING \<and> u \<noteq> ex_creator_user_id x \<and> py_strip m \<noteq> ''''
     \<and> (\<exists>t. at = Aware t
          \<and> x' = x\<lparr>ex_status := (if ap then ES_APPROVED else ES_REJECTED),
                  ex_decided_by := Some u, ex_decided_at := Some t,
                  ex_decision_comment := py_strip m\<rparr>)"
  by (cases at) (auto simp: decide_explanation_def explanation_decided_def)

subsection \<open>The counter\<close>

lemma map_of_counter_add:
  "map_of (counter_add k t) x
     = (if x = k then Some (case map_of t k of None \<Rightarrow> 1 | Some n \<Rightarrow> n + 1) else map_of t x)"
  by (induction k t rule: counter_add.induct) auto

lemma counter_add_keys: "fst ` set (counter_add k t) = insert k (fst ` set t)"
  by (induction k t rule: counter_add.induct) auto

lemma distinct_counter_add:
  "distinct (map fst t) \<Longrightarrow> distinct (map fst (counter_add k t))"
  by (induction k t rule: counter_add.induct) (auto simp: counter_add_keys image_iff)

lemma counter_fold:
  assumes "distinct (map fst t)"
  shows "distinct (map fst (fold counter_add xs t))
    \<and> map_of (fold counter_add xs t) x
        = (if x \<in> set xs \<or> x \<in> fst ` set t
           then Some (count_list xs x + (case map_of t x of None \<Rightarrow> 0 | Some n \<Rightarrow> n)) else None)"
  using assms
proof (induction xs arbitrary: t)
  case Nil
  then show ?case by (auto simp: map_of_eq_None_iff split: option.splits dest: weak_map_of_SomeI)
next
  case (Cons a xs)
  have "distinct (map fst (counter_add a t))"
    using Cons.prems by (rule distinct_counter_add)
  from Cons.IH [OF this] show ?case
    by (auto simp: map_of_counter_add counter_add_keys split: option.splits)
qed

lemma set_counter_of: "set (counter_of xs) = (\<lambda>x. (x, count_list xs x)) ` set xs"
proof -
  have d: "distinct (map fst (counter_of xs))"
    using counter_fold [of "[]" xs undefined] by (simp add: counter_of_def)
  have m: "map_of (counter_of xs) x = (if x \<in> set xs then Some (count_list xs x) else None)" for x
    using counter_fold [of "[]" xs x] by (simp add: counter_of_def)
  show ?thesis
  proof (rule set_eqI)
    fix p :: "'a \<times> nat"
    obtain a n where p: "p = (a, n)" by force
    have "p \<in> set (counter_of xs) \<longleftrightarrow> map_of (counter_of xs) a = Some n"
      using d by (simp add: p)
    then show "p \<in> set (counter_of xs) \<longleftrightarrow> p \<in> (\<lambda>x. (x, count_list xs x)) ` set xs"
      by (auto simp: m p split: if_splits)
  qed
qed

lemma counter_of_eq_Nil: "counter_of xs = [] \<longleftrightarrow> xs = []"
  using set_counter_of [of xs] by (metis image_is_empty set_empty)

subsection \<open>The most frequent reason\<close>

lemma arg_min_list_least:
  fixes f :: "'a \<Rightarrow> 'b::linorder"
  assumes "xs \<noteq> []" "x \<in> set xs"
  shows "f (arg_min_list f xs) \<le> f x"
  using assms by (simp add: f_arg_min_list_f)

definition reason_codes_of :: "ReworkEventView list \<Rightarrow> string list" where
  "reason_codes_of events = filter (\<lambda>c. c \<noteq> '''') (map ev_reason_code events)"

lemma top_reason_Some:
  assumes "top_reason events rules = Some c"
  shows "c \<in> set (reason_codes_of events)"
    "\<forall>d \<in> set (reason_codes_of events).
       count_list (reason_codes_of events) d \<le> count_list (reason_codes_of events) c"
    "\<forall>d \<in> set (reason_codes_of events).
       count_list (reason_codes_of events) d = count_list (reason_codes_of events) c
         \<longrightarrow> (rank_of rules c, c) \<le> (rank_of rules d, d)"
proof -
  let ?xs = "reason_codes_of events"
  let ?t = "counter_of ?xs"
  let ?h = "Max (set (map snd ?t))"
  let ?tied = "map fst (filter (\<lambda>(c, n). n = ?h) ?t)"
  have ne: "?t \<noteq> []" and c: "c = arg_min_list (\<lambda>c. (rank_of rules c, c)) ?tied"
    using assms by (auto simp: top_reason_def reason_codes_of_def Let_def split: if_splits)
  have snds: "set (map snd ?t) = count_list ?xs ` set ?xs"
    by (auto simp: set_counter_of image_image)
  have tied: "set ?tied = {d \<in> set ?xs. count_list ?xs d = ?h}"
    by (auto simp: set_counter_of image_iff)
  have "?h \<in> set (map snd ?t)" using ne by (intro Max_in) auto
  then have "?tied \<noteq> []" using tied snds by (metis (mono_tags, lifting) empty_iff empty_set
    imageE mem_Collect_eq)
  then have "c \<in> set ?tied" unfolding c by (rule arg_min_list_in)
  then have ch: "c \<in> set ?xs" "count_list ?xs c = ?h" using tied by blast+
  show "c \<in> set ?xs" by (rule ch)
  show "\<forall>d \<in> set ?xs. count_list ?xs d \<le> count_list ?xs c"
    using Max_ge [of "set (map snd ?t)"] unfolding ch(2) snds by blast
  have least: "(rank_of rules c, c) \<le> (rank_of rules d, d)" if "d \<in> set ?tied" for d
    using arg_min_list_least [OF \<open>?tied \<noteq> []\<close> that, of "\<lambda>c. (rank_of rules c, c)"]
    by (subst (1 2) c) simp
  show "\<forall>d \<in> set ?xs. count_list ?xs d = count_list ?xs c
         \<longrightarrow> (rank_of rules c, c) \<le> (rank_of rules d, d)"
    using least tied ch(2) by auto
qed

lemma top_reason_None: "top_reason events rules = None \<longleftrightarrow> reason_codes_of events = []"
  by (auto simp: top_reason_def reason_codes_of_def Let_def counter_of_eq_Nil)

subsection \<open>The level as a function of two tallies\<close>

text \<open>Whether one returned case counts in a window of \<open>days\<close> ending at \<open>now\<close>.\<close>

definition counts_in :: "ReworkSupportRules \<Rightarrow> datetime \<Rightarrow> int \<Rightarrow> ReworkEventView \<Rightarrow> bool" where
  "counts_in rules now days e =
     (0 < days \<and> \<not> ev_voided e
      \<and> (case rr_enabled_from rules of None \<Rightarrow> True | Some t \<Rightarrow> ev_occurred_at e \<ge> t)
      \<and> now - timedelta_days days \<le> ev_occurred_at e \<and> ev_occurred_at e \<le> now)"

definition tally_in :: "ReworkSupportRules \<Rightarrow> datetime \<Rightarrow> int \<Rightarrow> ReworkEventView list \<Rightarrow> int" where
  "tally_in rules now days events = int (length (filter (counts_in rules now days) events))"

definition level_of_tallies :: "ReworkSupportRules \<Rightarrow> int \<Rightarrow> int \<Rightarrow> SupportLevel" where
  "level_of_tallies rules nudge block =
     (if rr_block_threshold rules > 0 \<and> block \<ge> rr_block_threshold rules then SL_BLOCK
      else if rr_nudge_threshold rules > 0 \<and> nudge \<ge> rr_nudge_threshold rules then SL_NUDGE
      else SL_NONE)"

lemma counts_in_voided: "\<not> counts_in rules now days (e\<lparr>ev_voided := True\<rparr>)"
  by (simp add: counts_in_def)

lemma counts_within_considered:
  "counts_within (considered_events rules events) now days = filter (counts_in rules now days) events"
proof (cases "days \<le> 0")
  case True
  then show ?thesis by (simp add: counts_within_def counts_in_def)
next
  case False
  then show ?thesis
    by (auto simp: counts_within_def considered_events_def counts_in_def Let_def intro!: filter_cong)
qed

lemma assess_level:
  "as_level (assess_rework events now rules)
     = level_of_tallies rules (tally_in rules now (rr_nudge_window_days rules) events)
         (tally_in rules now (rr_block_window_days rules) events)"
  by (auto simp: assess_rework_def counts_within_considered tally_in_def level_of_tallies_def
      assessment_disabled_def rules_is_enabled_def Let_def)

lemma level_of_tallies_mono:
  "n \<le> n' \<Longrightarrow> b \<le> b' \<Longrightarrow> level_of_tallies rules n b \<le> level_of_tallies rules n' b'"
  by (auto simp: level_of_tallies_def less_eq_SupportLevel_def)

lemma tally_in_mset: "tally_in rules now days events
    = int (size (filter_mset (counts_in rules now days) (mset events)))"
  by (simp add: tally_in_def flip: mset_filter)

lemma tally_in_mono:
  "mset es \<subseteq># mset es' \<Longrightarrow> tally_in rules now days es \<le> tally_in rules now days es'"
  by (auto simp: tally_in_mset intro!: size_mset_mono multiset_filter_mono)

lemma tally_in_pointwise:
  assumes "length es = length es'"
    "\<forall>i < length es. counts_in rules now days (es ! i) \<longrightarrow> counts_in rules now' days (es' ! i)"
  shows "tally_in rules now days es \<le> tally_in rules now' days es'"
proof -
  have "length (filter (counts_in rules now days) es)
          \<le> length (filter (counts_in rules now' days) es')"
    using assms by (auto simp: length_filter_conv_card intro!: card_mono)
  then show ?thesis by (simp add: tally_in_def)
qed

section \<open>Properties\<close>

text \<open>A returned case more never lowers the level of support, and the level depends only on
  which returned cases there are, not on the order in which they are listed: if every event of one
  history occurs at least as often in another, the level of the first is at most that of the
  second.\<close>

theorem assess_monotone:
  assumes "mset es \<subseteq># mset es'"
  shows "as_level (assess_rework es now rules) \<le> as_level (assess_rework es' now rules)"
  using assms by (simp add: assess_level level_of_tallies_mono tally_in_mono)

definition demo_rules :: ReworkSupportRules where
  "demo_rules = \<lparr>rr_policy_version = ''v1'', rr_enabled_from = Some 0, rr_nudge_window_days = 7,
     rr_nudge_threshold = 2, rr_block_window_days = 30, rr_block_threshold = 3,
     rr_explanation_min_chars = 30, rr_supporter_role = ''head'', rr_escalate_after_hours = 24,
     rr_general_guidance = ''ask'',
     rr_reason_codes = [\<lparr>rn_code = ''MISSING'', rn_label = ''m'', rn_guidance = '' ''\<rparr>,
                        \<lparr>rn_code = ''WRONG'', rn_label = ''w'', rn_guidance = ''fix''\<rparr>]\<rparr>"

definition demo_event :: "uuid \<Rightarrow> int \<Rightarrow> string \<Rightarrow> ReworkEventView" where
  "demo_event i day code = \<lparr>ev_event_id = i, ev_occurred_at = timedelta_days day,
     ev_reason_code = code, ev_checkpoint = ''cp1'', ev_voided = False\<rparr>"

lemmas demo_defs = demo_rules_def demo_event_def timedelta_days_def usec_per_day_def

theorem assess_monotone_witness:
  "as_level (assess_rework [demo_event ''e1'' 5 ''WRONG''] (timedelta_days 6) demo_rules)
     \<le> as_level (assess_rework [demo_event ''e2'' 6 ''WRONG'', demo_event ''e1'' 5 ''WRONG'']
          (timedelta_days 6) demo_rules)"
  by (rule assess_monotone) simp

text \<open>When someone is blocked, the events recorded as the ground for it are exactly the
  returned cases that are not voided, fall after the feature was switched on and lie in the rolling
  blocking window; there are at least as many as the threshold, and that count is what the
  assessment reports.\<close>

theorem assess_block_grounds:
  assumes "as_blocked (assess_rework es now rules)"
  shows "as_counted_event_ids (assess_rework es now rules)
      = map ev_event_id (filter (\<lambda>e. \<not> ev_voided e
          \<and> (case rr_enabled_from rules of None \<Rightarrow> True | Some t \<Rightarrow> t \<le> ev_occurred_at e)
          \<and> now - timedelta_days (rr_block_window_days rules) \<le> ev_occurred_at e
          \<and> ev_occurred_at e \<le> now) es)
    \<and> as_count (assess_rework es now rules)
        = int (length (as_counted_event_ids (assess_rework es now rules)))
    \<and> 0 < rr_block_threshold rules
    \<and> rr_block_threshold rules \<le> as_count (assess_rework es now rules)"
proof -
  have lv: "as_level (assess_rework es now rules) = SL_BLOCK"
    using assms by (simp add: as_blocked_def)
  have thr: "0 < rr_block_threshold rules"
    "rr_block_threshold rules \<le> tally_in rules now (rr_block_window_days rules) es"
    using lv by (auto simp: assess_level level_of_tallies_def split: if_splits)
  have "0 < tally_in rules now (rr_block_window_days rules) es" using thr by linarith
  then have days: "0 < rr_block_window_days rules"
    by (auto simp: tally_in_def length_filter_conv_card counts_in_def intro: ccontr)
  have "as_counted_event_ids (assess_rework es now rules)
      = map ev_event_id (filter (counts_in rules now (rr_block_window_days rules)) es)"
    using thr by (simp add: assess_rework_def rules_is_enabled_def counts_within_considered
      tally_in_def Let_def)
  moreover have "as_count (assess_rework es now rules)
      = tally_in rules now (rr_block_window_days rules) es"
    using thr by (simp add: assess_rework_def rules_is_enabled_def counts_within_considered
      tally_in_def Let_def as_count_def as_blocked_def)
  moreover have "filter (counts_in rules now (rr_block_window_days rules)) es
      = filter (\<lambda>e. \<not> ev_voided e
          \<and> (case rr_enabled_from rules of None \<Rightarrow> True | Some t \<Rightarrow> t \<le> ev_occurred_at e)
          \<and> now - timedelta_days (rr_block_window_days rules) \<le> ev_occurred_at e
          \<and> ev_occurred_at e \<le> now) es"
    using days by (intro filter_cong) (auto simp: counts_in_def)
  ultimately show ?thesis using thr by (simp add: tally_in_def)
qed

theorem assess_block_grounds_witness:
  "as_counted_event_ids (assess_rework
     [demo_event ''e1'' 1 ''WRONG'', demo_event ''e2'' 2 ''WRONG'', demo_event ''e3'' 3 ''MISSING'']
     (timedelta_days 31) demo_rules) = [''e1'', ''e2'', ''e3'']"
  using assess_block_grounds [of
      "[demo_event ''e1'' 1 ''WRONG'', demo_event ''e2'' 2 ''WRONG'', demo_event ''e3'' 3 ''MISSING'']"
      "timedelta_days 31" demo_rules]
  by (simp add: as_blocked_def assess_level level_of_tallies_def tally_in_def counts_in_def
      demo_defs)

text \<open>The reason shown on the support card is a most frequent reason among the counted
  events, and of the equally frequent ones the first in the catalogue, unknown codes last and in
  alphabetical order, whatever the order of the events.\<close>

theorem assess_top_reason:
  assumes "as_top_reason_code (assess_rework es now rules) = Some c"
  defines "win \<equiv> (if as_blocked (assess_rework es now rules) then rr_block_window_days rules
                   else rr_nudge_window_days rules)"
  defines "codes \<equiv> filter (\<lambda>c. c \<noteq> '''') (map ev_reason_code (filter (counts_in rules now win) es))"
  shows "c \<in> set codes
    \<and> (\<forall>d \<in> set codes. count_list codes d < count_list codes c
         \<or> (count_list codes d = count_list codes c
            \<and> (rank_of rules c < rank_of rules d \<or> rank_of rules c = rank_of rules d \<and> c \<le> d)))"
proof -
  have top: "top_reason (filter (counts_in rules now win) es) rules = Some c"
    using assms(1) unfolding win_def
    by (auto simp: assess_rework_def counts_within_considered as_blocked_def Let_def
        assessment_disabled_def split: if_splits)
  have codes: "codes = reason_codes_of (filter (counts_in rules now win) es)"
    by (simp add: codes_def reason_codes_of_def)
  show ?thesis
    using top_reason_Some [OF top] unfolding codes by (fastforce simp: le_less)
qed

theorem assess_top_reason_witness:
  "as_top_reason_code (assess_rework
     [demo_event ''e1'' 5 ''WRONG'', demo_event ''e2'' 6 ''MISSING''] (timedelta_days 6) demo_rules)
    = Some ''MISSING''
   \<and> rank_of demo_rules ''MISSING'' < rank_of demo_rules ''WRONG''"
proof -
  let ?es = "[demo_event ''e1'' 5 ''WRONG'', demo_event ''e2'' 6 ''MISSING'']"
  have top: "as_top_reason_code (assess_rework ?es (timedelta_days 6) demo_rules) = Some ''MISSING''"
    by code_simp
  show ?thesis
    using top assess_top_reason [OF top]
    by (simp add: rank_of_def demo_defs counts_in_def)
qed

text \<open>Marking returned cases as mis-clicks never raises anybody's level.\<close>

theorem assess_void_never_raises:
  assumes "length es' = length es"
    "\<forall>i < length es. es' ! i = es ! i \<or> es' ! i = (es ! i)\<lparr>ev_voided := True\<rparr>"
  shows "as_level (assess_rework es' now rules) \<le> as_level (assess_rework es now rules)"
proof -
  have "tally_in rules now days es' \<le> tally_in rules now days es" for days
  proof (rule tally_in_pointwise [OF assms(1)], intro allI impI)
    fix i
    assume "i < length es'" "counts_in rules now days (es' ! i)"
    then show "counts_in rules now days (es ! i)"
      using assms by (metis counts_in_voided)
  qed
  then show ?thesis by (simp add: assess_level level_of_tallies_mono)
qed

theorem assess_void_never_raises_witness:
  "as_level (assess_rework [(demo_event ''e1'' 5 ''WRONG'')\<lparr>ev_voided := True\<rparr>,
      demo_event ''e2'' 6 ''WRONG''] (timedelta_days 6) demo_rules)
     \<le> as_level (assess_rework [demo_event ''e1'' 5 ''WRONG'', demo_event ''e2'' 6 ''WRONG'']
          (timedelta_days 6) demo_rules)"
  by (rule assess_void_never_raises) (auto simp: less_Suc_eq numeral_2_eq_2)

text \<open>An explanation is decided exactly once, never by its author, and never without a
  note: a decision that goes through finds the record pending, records a decider other than the
  author with a non-blank comment, leaves everything the author wrote as it was, and every further
  decision on the result is a conflict.\<close>

theorem explanation_decided_once:
  assumes "decide_explanation x approve u at m = Inr x'"
  shows "ex_status x = ES_PENDING \<and> ex_status x' = (if approve then ES_APPROVED else ES_REJECTED)
    \<and> ex_decided_by x' = Some u \<and> u \<noteq> ex_creator_user_id x' \<and> py_strip (ex_decision_comment x') \<noteq> ''''
    \<and> ex_context_text x' = ex_context_text x
    \<and> ex_counted_event_ids x' = ex_counted_event_ids x
    \<and> (\<forall>approve' u' at' m'. decide_explanation x' approve' u' at' m'
         = Inl (Err ConflictError ''this explanation has already been decided''))"
  using assms unfolding decide_explanation_Inr
  by (auto simp: decide_explanation_def explanation_decided_def)

definition demo_explanation :: ExplanationRecord where
  "demo_explanation = \<lparr>ex_id = ''x1'', ex_tenant_id = ''t'', ex_workspace_id = ''w'',
     ex_case_id = None, ex_creator_user_id = ''u1'', ex_context_text = ''ctx'',
     ex_difficulty_text = '''', ex_support_request_text = '''', ex_policy_version = ''v1'',
     ex_submitted_at = 0, ex_counted_event_ids = [''e1''], ex_nudge_count = 0, ex_block_count = 3,
     ex_top_reason_code = '''', ex_status = ES_PENDING, ex_decided_by = None,
     ex_decided_at = None, ex_decision_comment = ''''\<rparr>"

theorem explanation_decided_once_witness:
  "\<exists>x'. decide_explanation demo_explanation True ''u2'' (Aware 5) '' ok '' = Inr x'
     \<and> ex_decided_by x' = Some ''u2''
     \<and> decide_explanation x' False ''u3'' (Aware 6) ''no''
         = Inl (Err ConflictError ''this explanation has already been decided'')"
proof -
  have "\<exists>x'. decide_explanation demo_explanation True ''u2'' (Aware 5) '' ok '' = Inr x'"
    by (simp add: decide_explanation_Inr demo_explanation_def py_strip_def py_lstrip_def
        py_rstrip_def py_isspace_def)
  then show ?thesis by (blast dest: explanation_decided_once)
qed

end
