(* ===== verification/DW_Rules.thy ===== *)
theory DW_Rules
  imports DW_Prelude Complex_Main
begin

text \<open>
  The deterministic procurement rules of \<open>application/preparation/rules.py\<close>: method
  selection, the approval matrix, and the CP1 and CP2 gates. A gate's reasons are display
  sentences, so they are \<open>JText\<close> values: the key names the sentence, the list holds the
  values interpolated into it.
\<close>

section \<open>The rule pack\<close>

record Method =
  m_key :: string
  m_label :: string
  m_max_value :: "int option"
  m_min_suppliers :: int

record ApprovalTier =
  t_max_value :: "int option"
  t_cp1_role :: string
  t_cp2_role :: string
  t_cp3_role :: string
  t_cp4_role :: string

record GateResult =
  g_passed :: bool
  g_reasons :: "json list"

definition gate_of :: "json list \<Rightarrow> GateResult" where
  "gate_of failures = \<lparr>g_passed = (failures = []), g_reasons = failures\<rparr>"

record ProcurementRules =
  pr_version :: string
  pr_currency :: string
  pr_methods :: "Method list"
  pr_weighted_total_must_equal :: int
  pr_require_mandatory_criteria :: bool
  pr_legal_review_required_above :: int
  pr_finance_review_required_above :: int
  pr_require_approved_pr :: bool
  pr_require_budget :: bool
  pr_require_deadline :: bool
  pr_require_owner :: bool
  pr_tco_required_above :: int
  pr_specialist_review_above :: int
  pr_mandatory_criteria :: "(string \<times> string) list"
  pr_weighted_criteria :: "(string \<times> string \<times> int) list"
  pr_payment_term_template :: string
  pr_tax_term_template :: string
  pr_response_structure :: "string list"
  pr_approval_tiers :: "ApprovalTier list"
  pr_default_approver_role :: string
  pr_repeat_lookback_days :: int
  pr_repeat_similarity :: rat
  pr_repeat_min_value :: int

definition watches_repeat_purchase :: "ProcurementRules \<Rightarrow> int \<Rightarrow> bool" where
  "watches_repeat_purchase r v =
     (pr_repeat_lookback_days r > 0 \<and> pr_repeat_similarity r > 0 \<and> v \<ge> pr_repeat_min_value r)"

text \<open>\<open>limit is None or value <= limit\<close>.\<close>

definition covers :: "int option \<Rightarrow> int \<Rightarrow> bool" where
  "covers limit v = (case limit of None \<Rightarrow> True | Some m \<Rightarrow> v \<le> m)"

definition tier_role :: "ApprovalTier \<Rightarrow> string \<Rightarrow> string" where
  "tier_role t checkpoint =
     (let cp = map py_upper_char checkpoint
      in if cp = ''CP1'' then t_cp1_role t
         else if cp = ''CP2'' then t_cp2_role t
         else if cp = ''CP3'' then t_cp3_role t
         else if cp = ''CP4'' then t_cp4_role t
         else t_cp1_role t)"

definition approver_role_for :: "ProcurementRules \<Rightarrow> int \<Rightarrow> string \<Rightarrow> string" where
  "approver_role_for r v checkpoint =
     (case find (\<lambda>t. covers (t_max_value t) v) (pr_approval_tiers r) of
        Some t \<Rightarrow> tier_role t checkpoint
      | None \<Rightarrow> pr_default_approver_role r)"

text \<open>\<open>self.methods[-1]\<close> of an empty rule pack is an \<open>IndexError\<close>.\<close>

definition select_method :: "ProcurementRules \<Rightarrow> int \<Rightarrow> Method result" where
  "select_method r v =
     (case find (\<lambda>m. covers (m_max_value m) v) (pr_methods r) of
        Some m \<Rightarrow> Inr m
      | None \<Rightarrow> if pr_methods r = [] then Inl (Err PyIndexError ''tuple index out of range'')
                else Inr (last (pr_methods r)))"

definition needs_legal_review :: "ProcurementRules \<Rightarrow> int \<Rightarrow> bool" where
  "needs_legal_review r v = (v > pr_legal_review_required_above r)"

definition needs_finance_review :: "ProcurementRules \<Rightarrow> int \<Rightarrow> bool" where
  "needs_finance_review r v = (v > pr_finance_review_required_above r)"

definition needs_tco :: "ProcurementRules \<Rightarrow> int \<Rightarrow> bool" where
  "needs_tco r v = (pr_tco_required_above r > 0 \<and> v > pr_tco_required_above r)"

definition needs_specialist_review :: "ProcurementRules \<Rightarrow> int \<Rightarrow> bool" where
  "needs_specialist_review r v =
     (pr_specialist_review_above r > 0 \<and> v > pr_specialist_review_above r)"

section \<open>The gates\<close>

text \<open>One \<open>if\<close> of a gate: the sentence is appended when the condition holds.\<close>

definition fail_if :: "bool \<Rightarrow> string \<Rightarrow> string list \<Rightarrow> json list" where
  "fail_if b key vals = (if b then [JText key vals] else [])"

definition approach_gate ::
  "ProcurementRules \<Rightarrow> bool \<Rightarrow> int \<Rightarrow> string \<Rightarrow> string option \<Rightarrow> string \<Rightarrow> Method \<Rightarrow> int \<Rightarrow> int \<Rightarrow> GateResult"
where
  "approach_gate rules has_approved_pr estimated_value_minor currency deadline owner_name
     method supplier_count_planned open_blocking_clarifications =
     gate_of
       (fail_if (pr_require_approved_pr rules \<and> \<not> has_approved_pr) ''missing_approved_pr'' []
        @ fail_if (pr_require_budget rules \<and> estimated_value_minor \<le> 0) ''missing_budget'' []
        @ fail_if (py_strip currency = '''') ''missing_currency'' []
        @ fail_if (pr_require_deadline rules \<and> (deadline = None \<or> deadline = Some ''''))
            ''missing_deadline'' []
        @ fail_if (pr_require_owner rules \<and> py_strip owner_name = '''') ''missing_owner'' []
        @ fail_if (supplier_count_planned < m_min_suppliers method) ''too_few_suppliers''
            [m_label method, int_str (m_min_suppliers method), int_str supplier_count_planned]
        @ fail_if (open_blocking_clarifications > 0) ''open_clarifications''
            [int_str open_blocking_clarifications])"

definition effective_legal_minimum :: "int option \<Rightarrow> int option \<Rightarrow> int option \<times> json" where
  "effective_legal_minimum drafted_days live_days =
     (let drafted = (case drafted_days of None \<Rightarrow> 0 | Some d \<Rightarrow> d);
          live = (case live_days of None \<Rightarrow> 0 | Some d \<Rightarrow> d);
          effective = (if max drafted live = 0 then None else Some (max drafted live))
      in (effective,
          if live > drafted \<and> drafted > 0 then JText ''law_moved'' [int_str drafted] else JStr ''''))"

text \<open>The note is carried behind the window sentence, as the source concatenates it.\<close>

definition solicitation_gate ::
  "ProcurementRules \<Rightarrow> int \<Rightarrow> bool \<Rightarrow> int \<Rightarrow> Method \<Rightarrow> string list \<Rightarrow> int \<Rightarrow> int option \<Rightarrow> json \<Rightarrow> GateResult"
where
  "solicitation_gate rules weighted_total has_mandatory_criteria shortlist_count method
     missing_sections submission_window_days legal_min_window_days legal_min_note =
     gate_of
       (map (\<lambda>s. JText ''missing_section'' [s]) missing_sections
        @ (case legal_min_window_days of
             None \<Rightarrow> []
           | Some m \<Rightarrow>
               if submission_window_days \<noteq> 0 \<and> submission_window_days < m
               then [JArr [JText ''window_too_short'' [int_str submission_window_days, int_str m],
                           legal_min_note]]
               else [])
        @ fail_if (pr_require_mandatory_criteria rules \<and> \<not> has_mandatory_criteria)
            ''missing_mandatory_criteria'' []
        @ fail_if (weighted_total \<noteq> pr_weighted_total_must_equal rules) ''weights_do_not_add_up''
            [int_str weighted_total, int_str (pr_weighted_total_must_equal rules)]
        @ fail_if (shortlist_count < m_min_suppliers method) ''shortlist_too_short''
            [int_str shortlist_count, int_str (m_min_suppliers method)])"

section \<open>Lemmas\<close>

lemma fail_if_Nil [simp]: "fail_if b k vs = [] \<longleftrightarrow> \<not> b"
  by (simp add: fail_if_def)

lemma gate_of_passed [simp]: "g_passed (gate_of fs) \<longleftrightarrow> fs = []"
  by (simp add: gate_of_def)

lemma gate_passed_reasons: "g_passed (gate_of fs) \<longleftrightarrow> g_reasons (gate_of fs) = []"
  by (simp add: gate_of_def)

lemma covers_antimono: "covers l v \<Longrightarrow> v' \<le> v \<Longrightarrow> covers l v'"
  by (auto simp: covers_def split: option.splits)

lemma find_covers_later:
  assumes "v \<le> v'" "find (\<lambda>x. covers (f x) v') xs = Some y"
  shows "\<exists>i j. i \<le> j \<and> j < length xs \<and> xs ! j = y \<and> find (\<lambda>x. covers (f x) v) xs = Some (xs ! i)"
  using assms(2)
proof (induction xs)
  case Nil
  then show ?case by simp
next
  case (Cons a xs)
  show ?case
  proof (cases "covers (f a) v")
    case True
    then obtain j where "j < length (a # xs)" "(a # xs) ! j = y"
      using find_Some_in [OF Cons.prems] by (metis in_set_conv_nth)
    then show ?thesis using True by (intro exI [of _ 0] exI [of _ j]) simp
  next
    case False
    then have "\<not> covers (f a) v'" using assms(1) covers_antimono by blast
    then obtain i j where "i \<le> j" "j < length xs" "xs ! j = y"
      "find (\<lambda>x. covers (f x) v) xs = Some (xs ! i)"
      using Cons.IH Cons.prems by auto
    then show ?thesis using False by (intro exI [of _ "Suc i"] exI [of _ "Suc j"]) simp
  qed
qed

section \<open>Properties\<close>

text \<open>A larger package never gets by with fewer suppliers: when the methods are listed with
  non-decreasing supplier minimums, raising the estimated value never lowers the minimum of the
  selected method.\<close>

theorem select_method_monotone:
  assumes "sorted (map m_min_suppliers (pr_methods rules))" "v \<le> v'"
    "select_method rules v = Inr m" "select_method rules v' = Inr m'"
  shows "m_min_suppliers m \<le> m_min_suppliers m'"
proof -
  let ?ms = "pr_methods rules"
  have le: "m_min_suppliers (?ms ! i) \<le> m_min_suppliers (?ms ! j)"
    if "i \<le> j" "j < length ?ms" for i j
    using sorted_nth_mono [OF assms(1) that(1)] that by simp
  have "m \<in> set ?ms"
    using assms(3) by (auto simp: select_method_def split: option.splits if_splits dest: find_Some_in)
  then have m: "\<exists>i < length ?ms. ?ms ! i = m" by (simp add: in_set_conv_nth)
  show ?thesis
  proof (cases "find (\<lambda>m. covers (m_max_value m) v') ?ms")
    case None
    then have "m' = ?ms ! (length ?ms - 1)" "?ms \<noteq> []"
      using assms(4) by (auto simp: select_method_def last_conv_nth split: if_splits)
    then show ?thesis using m le [of _ "length ?ms - 1"] by force
  next
    case (Some y)
    with assms(4) have "y = m'" by (simp add: select_method_def)
    with find_covers_later [OF assms(2) Some] assms(3) le show ?thesis
      by (auto simp: select_method_def)
  qed
qed

definition demo_method :: "string \<Rightarrow> int option \<Rightarrow> int \<Rightarrow> Method" where
  "demo_method k mx n = \<lparr>m_key = k, m_label = k, m_max_value = mx, m_min_suppliers = n\<rparr>"

definition demo_procurement_rules :: ProcurementRules where
  "demo_procurement_rules = \<lparr>pr_version = ''1'', pr_currency = ''VND'',
     pr_methods = [demo_method ''direct'' (Some 50) 1, demo_method ''rfq'' (Some 1000) 3,
                   demo_method ''open'' None 5],
     pr_weighted_total_must_equal = 100, pr_require_mandatory_criteria = True,
     pr_legal_review_required_above = 1000, pr_finance_review_required_above = 1000,
     pr_require_approved_pr = True, pr_require_budget = True, pr_require_deadline = True,
     pr_require_owner = True, pr_tco_required_above = 0, pr_specialist_review_above = 0,
     pr_mandatory_criteria = [], pr_weighted_criteria = [], pr_payment_term_template = '''',
     pr_tax_term_template = '''', pr_response_structure = [],
     pr_approval_tiers =
       [\<lparr>t_max_value = Some 1000, t_cp1_role = ''specialist'', t_cp2_role = ''specialist'',
         t_cp3_role = ''approver'', t_cp4_role = ''approver''\<rparr>,
        \<lparr>t_max_value = None, t_cp1_role = ''specialist'', t_cp2_role = ''procurement_head'',
         t_cp3_role = ''approver'', t_cp4_role = ''approver''\<rparr>],
     pr_default_approver_role = ''approver'', pr_repeat_lookback_days = 0,
     pr_repeat_similarity = 0, pr_repeat_min_value = 0\<rparr>"

theorem select_method_monotone_witness:
  "select_method demo_procurement_rules 60 = Inr (demo_method ''rfq'' (Some 1000) 3)
   \<and> m_min_suppliers (demo_method ''rfq'' (Some 1000) 3) \<le> m_min_suppliers (demo_method ''open'' None 5)"
  using select_method_monotone [of demo_procurement_rules 60 5000
      "demo_method ''rfq'' (Some 1000) 3" "demo_method ''open'' None 5"]
  by (simp add: demo_procurement_rules_def demo_method_def select_method_def covers_def)

text \<open>The CP2 gate enforces the stricter of the drafted and the current legal minimum: a
  package that passes with the reconciled figure, and states a submission window, gives bidders at
  least the drafted number of days and at least today's; it has every required section, its weights
  add up, and its shortlist is long enough. A failed lookup (no live figure) leaves the drafted
  figure in force.\<close>

theorem solicitation_gate_respects_law:
  assumes "effective_legal_minimum drafted live = (eff, note)"
    "g_passed (solicitation_gate rules wt mand n m missing window eff note)" "window \<noteq> 0"
  shows "(\<forall>d. drafted = Some d \<and> 0 < d \<longrightarrow> d \<le> window) \<and> (\<forall>d. live = Some d \<and> 0 < d \<longrightarrow> d \<le> window)
    \<and> missing = [] \<and> wt = pr_weighted_total_must_equal rules \<and> m_min_suppliers m \<le> n
    \<and> (pr_require_mandatory_criteria rules \<longrightarrow> mand)
    \<and> (live = None \<longrightarrow> eff = (case drafted of Some d \<Rightarrow> if 0 < d then Some d else None | None \<Rightarrow> None))"
  using assms
  by (auto simp: effective_legal_minimum_def solicitation_gate_def Let_def max_def
      split: option.splits if_splits)

theorem solicitation_gate_respects_law_witness:
  "effective_legal_minimum (Some 5) (Some 9) = (Some 9, JText ''law_moved'' [''5''])
   \<and> g_passed (solicitation_gate demo_procurement_rules 100 True 3 (demo_method ''rfq'' None 3) []
        10 (Some 9) (JText ''law_moved'' [''5'']))
   \<and> (9::int) \<le> 10"
proof -
  have e: "effective_legal_minimum (Some 5) (Some 9) = (Some 9, JText ''law_moved'' [''5''])"
    by code_simp
  have p: "g_passed (solicitation_gate demo_procurement_rules 100 True 3 (demo_method ''rfq'' None 3) []
        10 (Some 9) (JText ''law_moved'' [''5'']))"
    by (simp add: solicitation_gate_def demo_procurement_rules_def demo_method_def)
  show ?thesis using solicitation_gate_respects_law [OF e p] e p by simp
qed

end
