(* ===== verification/DW_Scoring.thy ===== *)
theory DW_Scoring
  imports DW_Prelude Complex_Main "HOL-Library.List_Lexorder" "HOL-Library.Char_ord"
    "HOL-Library.Product_Lexorder"
begin

text \<open>
  The tender evaluation domain: \<open>domain/entities.py\<close>, \<open>domain/value_objects/scoring.py\<close>
  and the compliance gate of \<open>domain/services/scoring_engine.py\<close>. A \<open>Decimal\<close> is a
  rational; the arithmetic is exact, as Python's is for scores and weights within 28 significant
  digits. The violation strings are a datatype with the values they interpolate.
\<close>

section \<open>Entities\<close>

datatype TenderCaseStatus = TC_CREATED | TC_ANALYZING | TC_RECOMMENDATION_READY | TC_COMPLETED

record TenderCase =
  tc_id :: uuid
  tc_tenant_id :: uuid
  tc_workspace_id :: uuid
  tc_title :: string
  tc_created_by :: uuid
  tc_description :: string
  tc_status :: TenderCaseStatus
  tc_last_run_id :: "uuid option"
  tc_export_ref :: "string option"
  tc_version :: int

definition mk_TenderCase :: "uuid \<Rightarrow> uuid \<Rightarrow> uuid \<Rightarrow> string \<Rightarrow> uuid \<Rightarrow> string \<Rightarrow> TenderCase result" where
  "mk_TenderCase i tenant ws title creator descr =
     (if py_strip title = '''' then Inl (Err TenderDomainError ''case title must not be blank'')
      else Inr \<lparr>tc_id = i, tc_tenant_id = tenant, tc_workspace_id = ws, tc_title = title,
                tc_created_by = creator, tc_description = descr, tc_status = TC_CREATED,
                tc_last_run_id = None, tc_export_ref = None, tc_version = 1\<rparr>)"

definition start_analysis :: "TenderCase \<Rightarrow> uuid \<Rightarrow> TenderCase" where
  "start_analysis c run_id = c\<lparr>tc_status := TC_ANALYZING, tc_last_run_id := Some run_id,
     tc_version := tc_version c + 1\<rparr>"

definition mark_recommendation_ready :: "TenderCase \<Rightarrow> TenderCase" where
  "mark_recommendation_ready c =
     c\<lparr>tc_status := TC_RECOMMENDATION_READY, tc_version := tc_version c + 1\<rparr>"

definition complete_tender_case :: "TenderCase \<Rightarrow> string \<Rightarrow> TenderCase result" where
  "complete_tender_case c export_ref =
     (if py_strip export_ref = '''' then Inl (Err TenderDomainError ''export_ref must not be blank'')
      else Inr (c\<lparr>tc_status := TC_COMPLETED, tc_export_ref := Some export_ref,
                  tc_version := tc_version c + 1\<rparr>))"

datatype FindingStatus = FS_COMPLIANT | FS_NON_COMPLIANT | FS_MISSING_EVIDENCE

datatype RequirementKind = RK_MANDATORY | RK_WEIGHTED | RK_INFORMATIONAL

record Requirement =
  rq_id :: uuid
  rq_tenant_id :: uuid
  rq_workspace_id :: uuid
  rq_case_id :: uuid
  rq_code :: string
  rq_statement :: string
  rq_kind :: RequirementKind
  rq_weight :: rat

definition mk_Requirement :: "Requirement \<Rightarrow> Requirement result" where
  "mk_Requirement r =
     (if py_strip (rq_code r) = ''''
      then Inl (Err TenderDomainError ''requirement code must not be blank'')
      else if rq_kind r = RK_WEIGHTED \<and> rq_weight r \<le> 0
      then Inl (Err TenderDomainError (''weighted requirement '' @ rq_code r @ '' needs weight > 0''))
      else if rq_kind r \<noteq> RK_WEIGHTED \<and> rq_weight r \<noteq> 0
      then Inl (Err TenderDomainError
                 (''non-weighted requirement '' @ rq_code r @ '' must have weight 0''))
      else Inr r)"

record ComplianceFinding =
  cf_id :: uuid
  cf_tenant_id :: uuid
  cf_workspace_id :: uuid
  cf_case_id :: uuid
  cf_requirement_code :: string
  cf_supplier_name :: string
  cf_status :: FindingStatus
  cf_raw_score :: rat
  cf_note :: string
  cf_evidence :: "jdict list"

definition mk_ComplianceFinding :: "ComplianceFinding \<Rightarrow> ComplianceFinding result" where
  "mk_ComplianceFinding f =
     (if \<not> (0 \<le> cf_raw_score f \<and> cf_raw_score f \<le> 100)
      then Inl (Err TenderDomainError ''raw_score must be within [0, 100]'')
      else Inr f)"

definition total_weight_is_valid :: "rat list \<Rightarrow> bool" where
  "total_weight_is_valid ws = (sum_list ws = 1)"

section \<open>The scoring engine\<close>

record ScoringPolicy =
  sp_policy_version :: string
  sp_require_evidence_for_mandatory :: bool
  sp_disqualify_on_mandatory_fail :: bool
  sp_min_total_score :: rat
  sp_score_decimal_places :: nat

datatype violation =
    V_no_finding string
  | V_status string FindingStatus
  | V_missing_evidence string
  | V_total_below_min rat
  | V_no_eligible_supplier
  | V_recommendation_mismatch "string option" string

record SupplierScore =
  ss_supplier_name :: string
  ss_total_score :: rat
  ss_mandatory_passed :: bool
  ss_eligible :: bool
  ss_violations :: "violation list"

record GateOutcome =
  go_scores :: "SupplierScore list"
  go_top_supplier :: "string option"
  go_gate_passed :: bool
  go_violations :: "violation list"

definition validate_requirements :: "Requirement list \<Rightarrow> unit result" where
  "validate_requirements requirements =
     (let weighted = filter (\<lambda>r. rq_kind r = RK_WEIGHTED) requirements
      in if weighted = []
         then Inl (Err InvalidScoringConfigError ''at least one weighted requirement is required'')
         else if sum_list (map rq_weight weighted) \<noteq> 1
         then Inl (Err InvalidScoringConfigError ''weighted requirement weights must sum to 1'')
         else Inr ())"

text \<open>\<open>Decimal.quantize(10 ** -p, ROUND_HALF_UP)\<close>: ties go away from zero.\<close>

definition quantize_half_up :: "nat \<Rightarrow> rat \<Rightarrow> rat" where
  "quantize_half_up p x =
     (if 0 \<le> x then of_int \<lfloor>x * 10 ^ p + 1 / 2\<rfloor> / 10 ^ p
      else - (of_int \<lfloor>- x * 10 ^ p + 1 / 2\<rfloor> / 10 ^ p))"

text \<open>The dict comprehension keyed by requirement code: the last finding of a code stays.\<close>

definition by_code :: "ComplianceFinding list \<Rightarrow> string \<Rightarrow> string \<Rightarrow> ComplianceFinding option" where
  "by_code findings supplier code =
     find (\<lambda>f. cf_supplier_name f = supplier \<and> cf_requirement_code f = code) (rev findings)"

definition mandatory_violation ::
  "ScoringPolicy \<Rightarrow> Requirement \<Rightarrow> ComplianceFinding option \<Rightarrow> violation option" where
  "mandatory_violation policy r finding =
     (if rq_kind r \<noteq> RK_MANDATORY then None
      else case finding of
        None \<Rightarrow> Some (V_no_finding (rq_code r))
      | Some f \<Rightarrow>
          if cf_status f \<noteq> FS_COMPLIANT then Some (V_status (rq_code r) (cf_status f))
          else if sp_require_evidence_for_mandatory policy \<and> cf_evidence f = []
          then Some (V_missing_evidence (rq_code r))
          else None)"

definition weighted_total ::
  "Requirement list \<Rightarrow> (string \<Rightarrow> ComplianceFinding option) \<Rightarrow> rat" where
  "weighted_total requirements look =
     sum_list (map (\<lambda>r. (case look (rq_code r) of Some f \<Rightarrow> cf_raw_score f | None \<Rightarrow> 0) * rq_weight r)
       (filter (\<lambda>r. rq_kind r = RK_WEIGHTED) requirements))"

definition score_supplier ::
  "ScoringPolicy \<Rightarrow> string \<Rightarrow> Requirement list \<Rightarrow> ComplianceFinding list \<Rightarrow> SupplierScore" where
  "score_supplier policy supplier requirements findings =
     (let look = by_code findings supplier;
          mand = List.map_filter (\<lambda>r. mandatory_violation policy r (look (rq_code r))) requirements;
          mandatory_passed = (mand = []);
          total = quantize_half_up (sp_score_decimal_places policy) (weighted_total requirements look);
          eligible = (if sp_disqualify_on_mandatory_fail policy \<and> \<not> mandatory_passed then False
                      else total \<ge> sp_min_total_score policy)
      in \<lparr>ss_supplier_name = supplier, ss_total_score = total, ss_mandatory_passed = mandatory_passed,
          ss_eligible = eligible,
          ss_violations = mand @ (if total < sp_min_total_score policy
                                  then [V_total_below_min total] else [])\<rparr>)"

definition evaluate ::
  "ScoringPolicy \<Rightarrow> Requirement list \<Rightarrow> ComplianceFinding list \<Rightarrow> string option \<Rightarrow> GateOutcome result" where
  "evaluate policy requirements findings recommended =
     (case validate_requirements requirements of
        Inl e \<Rightarrow> Inl e
      | Inr _ \<Rightarrow>
         let suppliers = sort (remdups (map cf_supplier_name findings));
             scores = map (\<lambda>n. score_supplier policy n requirements findings) suppliers;
             eligible = sort_key (\<lambda>s. (- ss_total_score s, ss_supplier_name s)) (filter ss_eligible scores);
             top = (case eligible of [] \<Rightarrow> None | s # _ \<Rightarrow> Some (ss_supplier_name s));
             violations =
               (case top of
                  None \<Rightarrow> [V_no_eligible_supplier]
                | Some t \<Rightarrow> if recommended \<noteq> Some t then [V_recommendation_mismatch recommended t] else [])
         in Inr \<lparr>go_scores = scores, go_top_supplier = top, go_gate_passed = (violations = []),
                 go_violations = violations\<rparr>)"

section \<open>Lemmas\<close>

lemma map_filter_Nil: "List.map_filter f xs = [] \<longleftrightarrow> (\<forall>x \<in> set xs. f x = None)"
  by (induction xs) (auto simp: List.map_filter_simps split: option.splits)

lemma score_supplier_sel [simp]:
  "ss_supplier_name (score_supplier policy n rs fs) = n"
  "ss_total_score (score_supplier policy n rs fs)
     = quantize_half_up (sp_score_decimal_places policy) (weighted_total rs (by_code fs n))"
  "ss_mandatory_passed (score_supplier policy n rs fs)
     = (\<forall>r \<in> set rs. mandatory_violation policy r (by_code fs n (rq_code r)) = None)"
  "ss_eligible (score_supplier policy n rs fs)
     = ((sp_disqualify_on_mandatory_fail policy \<longrightarrow> ss_mandatory_passed (score_supplier policy n rs fs))
        \<and> sp_min_total_score policy \<le> ss_total_score (score_supplier policy n rs fs))"
  by (auto simp: score_supplier_def map_filter_Nil Let_def)

lemma mandatory_violation_None:
  "rq_kind r = RK_MANDATORY \<Longrightarrow> mandatory_violation policy r f = None \<longleftrightarrow>
     (\<exists>x. f = Some x \<and> cf_status x = FS_COMPLIANT
        \<and> (sp_require_evidence_for_mandatory policy \<longrightarrow> cf_evidence x \<noteq> []))"
  by (cases f) (auto simp: mandatory_violation_def)

lemma sort_key_hd_least:
  "sort_key f xs = y # ys \<Longrightarrow> y \<in> set xs \<and> (\<forall>x \<in> set xs. f y \<le> f x)"
  by (metis list.set_intros(1) list.simps(9) set_ConsD set_sort sorted_sort_key sorted_wrt.simps(2)
      imageI list.set_map order_refl)

lemma by_code_Some:
  "by_code fs n c = Some f \<Longrightarrow> f \<in> set fs \<and> cf_supplier_name f = n \<and> cf_requirement_code f = c"
  by (auto simp: by_code_def dest: find_Some_in)

text \<open>Rounding moves a score by at most half a unit of the last place, and never out of a range
  whose ends are on the grid.\<close>

lemma quantize_error:
  "0 \<le> x \<Longrightarrow> \<bar>quantize_half_up p x - x\<bar> \<le> 1 / (2 * 10 ^ p)"
proof -
  assume x: "0 \<le> x"
  let ?y = "x * 10 ^ p"
  have fl: "of_int \<lfloor>?y + 1 / 2\<rfloor> \<le> ?y + 1 / 2" "?y + 1 / 2 < of_int \<lfloor>?y + 1 / 2\<rfloor> + 1"
    by linarith+
  then have "\<bar>of_int \<lfloor>?y + 1 / 2\<rfloor> - ?y\<bar> \<le> 1 / 2" unfolding abs_le_iff by linarith
  then have "\<bar>of_int \<lfloor>?y + 1 / 2\<rfloor> - ?y\<bar> / 10 ^ p \<le> (1 / 2) / 10 ^ p"
    by (rule divide_right_mono) simp
  moreover have "quantize_half_up p x - x = (of_int \<lfloor>?y + 1 / 2\<rfloor> - ?y) / 10 ^ p"
    using x by (simp add: quantize_half_up_def diff_divide_distrib)
  ultimately show ?thesis by (simp add: abs_divide)
qed

lemma quantize_range:
  assumes "0 \<le> x" "x \<le> of_int k"
  shows "0 \<le> quantize_half_up p x \<and> quantize_half_up p x \<le> of_int k"
proof -
  let ?y = "x * 10 ^ p"
  have "0 \<le> \<lfloor>?y + 1 / 2\<rfloor>" using assms(1) by simp
  moreover have "?y \<le> of_int (k * 10 ^ p)" using assms(2) by (simp add: mult_right_mono)
  then have "\<lfloor>?y + 1 / 2\<rfloor> \<le> k * 10 ^ p"
    unfolding floor_le_iff by linarith
  then have "of_int \<lfloor>?y + 1 / 2\<rfloor> \<le> (of_int (k * 10 ^ p) :: rat)" by (simp only: of_int_le_iff)
  ultimately show ?thesis using assms(1)
    by (simp add: quantize_half_up_def divide_le_eq)
qed

text \<open>What the constructors guarantee of the inputs.\<close>

definition requirements_ok :: "Requirement list \<Rightarrow> bool" where
  "requirements_ok rs = list_all (\<lambda>r. mk_Requirement r = Inr r) rs"

definition findings_ok :: "ComplianceFinding list \<Rightarrow> bool" where
  "findings_ok fs = list_all (\<lambda>f. mk_ComplianceFinding f = Inr f) fs"

lemma requirements_ok_weight: "requirements_ok rs \<Longrightarrow> r \<in> set rs \<Longrightarrow> 0 \<le> rq_weight r"
  by (cases "rq_kind r")
    (auto simp: requirements_ok_def list_all_iff mk_Requirement_def split: if_splits dest!: bspec)

lemma findings_ok_raw:
  "findings_ok fs \<Longrightarrow> f \<in> set fs \<Longrightarrow> 0 \<le> cf_raw_score f \<and> cf_raw_score f \<le> 100"
  by (auto simp: findings_ok_def list_all_iff mk_ComplianceFinding_def split: if_splits dest!: bspec)

lemma weighted_total_range:
  assumes "requirements_ok rs" "findings_ok fs" "validate_requirements rs = Inr u"
  shows "0 \<le> weighted_total rs (by_code fs n) \<and> weighted_total rs (by_code fs n) \<le> 100"
proof -
  let ?ws = "filter (\<lambda>r. rq_kind r = RK_WEIGHTED) rs"
  let ?raw = "\<lambda>r. case by_code fs n (rq_code r) of Some f \<Rightarrow> cf_raw_score f | None \<Rightarrow> 0"
  have raw: "0 \<le> ?raw r \<and> ?raw r \<le> 100" for r
    using findings_ok_raw [OF assms(2)] by (auto split: option.splits dest!: by_code_Some)
  have w: "0 \<le> rq_weight r" if "r \<in> set ?ws" for r
    using requirements_ok_weight [OF assms(1)] that by simp
  have "sum_list (map rq_weight ?ws) = 1"
    using assms(3) by (simp add: validate_requirements_def Let_def split: if_splits)
  then have hundred: "sum_list (map (\<lambda>r. 100 * rq_weight r) ?ws) = 100"
    by (simp add: sum_list_const_mult)
  have "0 \<le> sum_list (map (\<lambda>r. ?raw r * rq_weight r) ?ws)"
    using raw w by (intro sum_list_nonneg) (auto intro!: mult_nonneg_nonneg)
  moreover have "sum_list (map (\<lambda>r. ?raw r * rq_weight r) ?ws)
      \<le> sum_list (map (\<lambda>r. 100 * rq_weight r) ?ws)"
    using raw w by (intro sum_list_mono mult_right_mono) auto
  ultimately show ?thesis using hundred by (simp add: weighted_total_def)
qed

lemma evaluate_top:
  assumes "evaluate policy rs fs rec = Inr out"
  shows "validate_requirements rs = Inr ()"
    "go_gate_passed out \<longleftrightarrow> go_top_supplier out \<noteq> None \<and> go_top_supplier out = rec"
    "go_top_supplier out = None \<longleftrightarrow>
       (\<forall>n \<in> cf_supplier_name ` set fs. \<not> ss_eligible (score_supplier policy n rs fs))"
    "go_top_supplier out = Some t \<Longrightarrow>
       t \<in> cf_supplier_name ` set fs \<and> ss_eligible (score_supplier policy t rs fs)
       \<and> (\<forall>n \<in> cf_supplier_name ` set fs. ss_eligible (score_supplier policy n rs fs) \<longrightarrow>
            (- ss_total_score (score_supplier policy t rs fs), t)
              \<le> (- ss_total_score (score_supplier policy n rs fs), n))"
proof -
  let ?scores = "map (\<lambda>n. score_supplier policy n rs fs) (sort (remdups (map cf_supplier_name fs)))"
  let ?el = "sort_key (\<lambda>s. (- ss_total_score s, ss_supplier_name s)) (filter ss_eligible ?scores)"
  have v: "validate_requirements rs = Inr ()"
    using assms by (auto simp: evaluate_def split: sum.splits)
  then show "validate_requirements rs = Inr ()" .
  have top: "go_top_supplier out = (case ?el of [] \<Rightarrow> None | s # _ \<Rightarrow> Some (ss_supplier_name s))"
    using assms v by (auto simp: evaluate_def Let_def)
  show "go_gate_passed out \<longleftrightarrow> go_top_supplier out \<noteq> None \<and> go_top_supplier out = rec"
    using assms v by (auto simp: evaluate_def Let_def split: option.splits if_splits)
  have el: "set (filter ss_eligible ?scores) = {s. \<exists>n \<in> cf_supplier_name ` set fs.
      s = score_supplier policy n rs fs \<and> ss_eligible s}"
    by (auto simp del: score_supplier_sel)
  have "?el = [] \<longleftrightarrow> set (filter ss_eligible ?scores) = {}"
    by (subst set_sort [symmetric]) (rule set_empty [symmetric])
  then show "go_top_supplier out = None \<longleftrightarrow>
      (\<forall>n \<in> cf_supplier_name ` set fs. \<not> ss_eligible (score_supplier policy n rs fs))"
    unfolding el top by (auto split: list.splits simp del: score_supplier_sel(4))
  assume "go_top_supplier out = Some t"
  then obtain s ss where s: "?el = s # ss" "ss_supplier_name s = t"
    unfolding top by (auto split: list.splits)
  have hd: "s \<in> {s. \<exists>n \<in> cf_supplier_name ` set fs. s = score_supplier policy n rs fs \<and> ss_eligible s}"
    "\<forall>x \<in> {s. \<exists>n \<in> cf_supplier_name ` set fs. s = score_supplier policy n rs fs \<and> ss_eligible s}.
       (- ss_total_score s, ss_supplier_name s) \<le> (- ss_total_score x, ss_supplier_name x)"
    using sort_key_hd_least [OF s(1)] unfolding el by blast+
  then have st: "s = score_supplier policy t rs fs" "t \<in> cf_supplier_name ` set fs" "ss_eligible s"
    using s(2) by auto
  show "t \<in> cf_supplier_name ` set fs \<and> ss_eligible (score_supplier policy t rs fs)
       \<and> (\<forall>n \<in> cf_supplier_name ` set fs. ss_eligible (score_supplier policy n rs fs) \<longrightarrow>
            (- ss_total_score (score_supplier policy t rs fs), t)
              \<le> (- ss_total_score (score_supplier policy n rs fs), n))"
    using hd(2) st(2,3) unfolding st(1) by (auto simp del: score_supplier_sel(2,3,4) less_eq_prod_simp)
qed

section \<open>Properties\<close>

text \<open>The compliance gate fails closed. When the gate passes a recommendation under a policy
  that disqualifies on a mandatory failure and requires evidence, the recommended supplier is one
  that submitted findings, every mandatory requirement has a compliant finding of that supplier with
  located evidence, its score reaches the minimum, and no other eligible supplier scores higher, or
  equally high with an earlier name.\<close>

theorem gate_passed_sound:
  assumes "evaluate policy rs fs rec = Inr out" "go_gate_passed out"
    "sp_disqualify_on_mandatory_fail policy" "sp_require_evidence_for_mandatory policy"
  shows "\<exists>t. rec = Some t \<and> t \<in> cf_supplier_name ` set fs
    \<and> (\<forall>r \<in> set rs. rq_kind r = RK_MANDATORY \<longrightarrow>
         (\<exists>f \<in> set fs. cf_supplier_name f = t \<and> cf_requirement_code f = rq_code r
            \<and> cf_status f = FS_COMPLIANT \<and> cf_evidence f \<noteq> []))
    \<and> sp_min_total_score policy \<le> ss_total_score (score_supplier policy t rs fs)
    \<and> (\<forall>n \<in> cf_supplier_name ` set fs. ss_eligible (score_supplier policy n rs fs) \<longrightarrow>
         ss_total_score (score_supplier policy n rs fs) < ss_total_score (score_supplier policy t rs fs)
         \<or> (ss_total_score (score_supplier policy n rs fs)
              = ss_total_score (score_supplier policy t rs fs) \<and> t \<le> n))"
proof -
  from assms(2) obtain t where t: "go_top_supplier out = Some t" "rec = Some t"
    using evaluate_top(2) [OF assms(1)] by auto
  note top = evaluate_top(4) [OF assms(1) t(1)]
  have el: "\<forall>r \<in> set rs. mandatory_violation policy r (by_code fs t (rq_code r)) = None"
    "sp_min_total_score policy \<le> ss_total_score (score_supplier policy t rs fs)"
    using top assms(3) by (simp_all del: score_supplier_sel(2))
  have mand: "\<exists>f \<in> set fs. cf_supplier_name f = t \<and> cf_requirement_code f = rq_code r
            \<and> cf_status f = FS_COMPLIANT \<and> cf_evidence f \<noteq> []"
    if "r \<in> set rs" "rq_kind r = RK_MANDATORY" for r
    using el(1) that assms(4) mandatory_violation_None [OF that(2)] by (blast dest: by_code_Some)
  have least: "ss_total_score (score_supplier policy n rs fs)
        < ss_total_score (score_supplier policy t rs fs)
      \<or> (ss_total_score (score_supplier policy n rs fs)
           = ss_total_score (score_supplier policy t rs fs) \<and> t \<le> n)"
    if "n \<in> cf_supplier_name ` set fs" "ss_eligible (score_supplier policy n rs fs)" for n
    using top that by (fastforce simp: less_eq_prod_def simp del: score_supplier_sel)
  show ?thesis using t(2) top el(2) mand least by blast
qed

definition demo_policy :: ScoringPolicy where
  "demo_policy = \<lparr>sp_policy_version = ''v1'', sp_require_evidence_for_mandatory = True,
     sp_disqualify_on_mandatory_fail = True, sp_min_total_score = 60, sp_score_decimal_places = 2\<rparr>"

definition demo_requirement :: "string \<Rightarrow> RequirementKind \<Rightarrow> rat \<Rightarrow> Requirement" where
  "demo_requirement code k w = \<lparr>rq_id = code, rq_tenant_id = ''t'', rq_workspace_id = ''w'',
     rq_case_id = ''c'', rq_code = code, rq_statement = '''', rq_kind = k, rq_weight = w\<rparr>"

definition demo_finding :: "string \<Rightarrow> string \<Rightarrow> rat \<Rightarrow> ComplianceFinding" where
  "demo_finding code s raw = \<lparr>cf_id = code, cf_tenant_id = ''t'', cf_workspace_id = ''w'',
     cf_case_id = ''c'', cf_requirement_code = code, cf_supplier_name = s,
     cf_status = FS_COMPLIANT, cf_raw_score = raw, cf_note = '''', cf_evidence = [[]]\<rparr>"

definition demo_requirements :: "Requirement list" where
  "demo_requirements = [demo_requirement ''M1'' RK_MANDATORY 0, demo_requirement ''W1'' RK_WEIGHTED 1]"

definition demo_findings :: "ComplianceFinding list" where
  "demo_findings = [demo_finding ''M1'' ''B'' 0, demo_finding ''W1'' ''B'' 80,
     demo_finding ''W1'' ''A'' 90, demo_finding ''M1'' ''C'' 0, demo_finding ''W1'' ''C'' 70]"

theorem gate_passed_sound_witness:
  "\<exists>out. evaluate demo_policy demo_requirements demo_findings (Some ''B'') = Inr out
     \<and> go_gate_passed out
     \<and> (\<exists>f \<in> set demo_findings. cf_supplier_name f = ''B'' \<and> cf_requirement_code f = ''M1''
          \<and> cf_evidence f \<noteq> [])"
proof -
  have "(case evaluate demo_policy demo_requirements demo_findings (Some ''B'') of
      Inr x \<Rightarrow> go_gate_passed x | Inl _ \<Rightarrow> False)"
    by code_simp
  then obtain out where out: "evaluate demo_policy demo_requirements demo_findings (Some ''B'') = Inr out"
    "go_gate_passed out" by (auto split: sum.splits)
  show ?thesis
    using out gate_passed_sound [OF out]
    by (simp add: demo_policy_def demo_requirements_def demo_requirement_def) blast
qed

text \<open>Scores stay in range and rounding is honest: for requirements and findings that pass
  their own validation and weights that add up to one, a supplier's total lies between 0 and 100 and
  differs from the exact weighted sum by at most half a unit of the last decimal place.\<close>

theorem score_in_range:
  assumes "requirements_ok rs" "findings_ok fs" "validate_requirements rs = Inr ()"
  shows "0 \<le> ss_total_score (score_supplier policy n rs fs)
    \<and> ss_total_score (score_supplier policy n rs fs) \<le> 100
    \<and> \<bar>ss_total_score (score_supplier policy n rs fs) - weighted_total rs (by_code fs n)\<bar>
        \<le> 1 / (2 * 10 ^ sp_score_decimal_places policy)"
  using weighted_total_range [OF assms] quantize_range [of _ 100] quantize_error by simp

theorem score_in_range_witness:
  "ss_total_score (score_supplier demo_policy ''B'' demo_requirements demo_findings) \<le> 100"
proof -
  have "requirements_ok demo_requirements" "findings_ok demo_findings"
    "validate_requirements demo_requirements = Inr ()"
    by code_simp+
  from score_in_range [OF this] show ?thesis by blast
qed

end
