(* ===== verification/DW_Store.thy ===== *)
theory DW_Store
  imports DW_Prep_Domain DW_Platform DW_Rework
begin

text \<open>
  The persistence the handlers run on: the tables, the SQL repositories of
  \<open>adapters/preparation/repositories.py\<close>, \<open>adapters/preparation/rework_repositories.py\<close>
  and \<open>dw_platform/adapters/persistence/repositories.py\<close>, the unit of work, and the
  surroundings of a handler (clock, id generator, object storage, mail).

  A table is the list of its rows in insertion order, which is the order of \<open>created_at\<close>.
  Row-level security is the tenant of the session: a statement sees and updates only rows of that
  tenant, and an insert of another tenant's row is refused. Primary keys, the unique constraints and
  the foreign keys of the migrations are checked on insert; a violation is \<open>DbIntegrityError\<close>.
  \<open>w_db\<close> is what the open transaction sees, \<open>w_committed\<close> what is durable.
\<close>

section \<open>Notification jobs\<close>

datatype IntakeNotificationType =
    NT_APPROVAL_REQUESTED
  | NT_APPROVAL_ESCALATED
  | NT_APPROVED
  | NT_REJECTED
  | NT_RUN_PROGRESS
  | NT_CP_APPROVAL_REQUESTED
  | NT_ADDENDUM_PROPOSED
  | NT_LAW_CHANGE_DETECTED
  | NT_REWORK_SUPPORT_OFFERED
  | NT_REWORK_SUPPORT_REQUIRED
  | NT_REWORK_EXPLANATION_ESCALATED

datatype NotificationJobStatus = NJ_QUEUED | NJ_PROCESSING | NJ_SENT | NJ_FAILED | NJ_CANCELLED

record IntakeNotificationJob =
  n_id :: uuid
  n_tenant_id :: uuid
  n_workspace_id :: uuid
  n_case_id :: uuid
  n_event_type :: IntakeNotificationType
  n_recipient_user_id :: uuid
  n_due_at :: datetime
  n_idempotency_key :: string
  n_payload :: jdict
  n_status :: NotificationJobStatus
  n_attempts :: int
  n_max_attempts :: int
  n_last_error :: "string option"
  n_slack_channel_id :: "string option"
  n_slack_message_ts :: "string option"
  n_claimed_at :: "datetime option"
  n_sent_at :: "datetime option"

text \<open>A job with the dataclass defaults.\<close>

definition new_job ::
  "uuid \<Rightarrow> uuid \<Rightarrow> uuid \<Rightarrow> uuid \<Rightarrow> IntakeNotificationType \<Rightarrow> uuid \<Rightarrow> datetime \<Rightarrow> string \<Rightarrow> jdict
    \<Rightarrow> IntakeNotificationJob" where
  "new_job i tenant ws cid event recipient due key payload =
     \<lparr>n_id = i, n_tenant_id = tenant, n_workspace_id = ws, n_case_id = cid, n_event_type = event,
      n_recipient_user_id = recipient, n_due_at = due, n_idempotency_key = key,
      n_payload = payload, n_status = NJ_QUEUED, n_attempts = 0, n_max_attempts = 5,
      n_last_error = None, n_slack_channel_id = None, n_slack_message_ts = None,
      n_claimed_at = None, n_sent_at = None\<rparr>"

section \<open>Audit records and memberships\<close>

record AuditEvent =
  au_id :: uuid
  au_tenant_id :: uuid
  au_workspace_id :: uuid
  au_actor_id :: uuid
  au_action :: string
  au_resource_type :: string
  au_resource_id :: string
  au_occurred_at :: datetime
  au_run_id :: "uuid option"
  au_policy_decision :: "string option"
  au_trace_id :: "string option"
  au_details :: jdict

definition mk_AuditEvent :: "AuditEvent \<Rightarrow> AuditEvent result" where
  "mk_AuditEvent e =
     (if py_strip (au_action e) = '''' then Inl (Err PyValueError ''audit action must not be blank'')
      else Inr e)"

record membership_row =
  mb_tenant_id :: uuid
  mb_workspace_id :: uuid
  mb_user_id :: uuid
  mb_role_keys :: "string list"

section \<open>Worker runs and tool executions\<close>

datatype RunStatus =
    RS_PENDING | RS_RUNNING | RS_WAITING_APPROVAL | RS_COMPLETED | RS_FAILED | RS_CANCELLED

record WorkerRun =
  wr_id :: uuid
  wr_tenant_id :: uuid
  wr_workspace_id :: uuid
  wr_worker_id :: string
  wr_worker_version :: string
  wr_graph_version :: string
  wr_status :: RunStatus
  wr_input :: jdict
  wr_result :: "json option"
  wr_error :: "json option"
  wr_approval_request_id :: "uuid option"
  wr_release_manifest_ref :: "string option"
  wr_requested_by :: uuid
  wr_trace_id :: string

record ToolExecution =
  te_id :: uuid
  te_tenant_id :: uuid
  te_workspace_id :: uuid
  te_run_id :: uuid
  te_tool_name :: string
  te_tool_version :: string
  te_status :: string
  te_idempotency_key :: "string option"
  te_input_hash :: string
  te_output_hash :: "string option"
  te_output :: "jdict option"
  te_error :: "string option"
  te_attempts :: int
  te_started_at :: datetime
  te_finished_at :: datetime

section \<open>The database and the world of a handler\<close>

record db =
  t_cases :: "PreparationCase list"
  t_documents :: "PreparationDocument list"
  t_artifacts :: "PreparationArtifact list"
  t_jobs :: "IntakeNotificationJob list"
  t_rework_events :: "ReworkEvent list"
  t_explanations :: "ExplanationRecord list"
  t_memberships :: "membership_row list"
  t_approvals :: "ApprovalRequest list"
  t_decisions :: "ApprovalDecision list"
  t_audit :: "AuditEvent list"
  t_runs :: "WorkerRun list"
  t_tool_executions :: "ToolExecution list"

definition empty_db :: db where
  "empty_db = \<lparr>t_cases = [], t_documents = [], t_artifacts = [], t_jobs = [],
     t_rework_events = [], t_explanations = [], t_memberships = [], t_approvals = [],
     t_decisions = [], t_audit = [],
     t_runs = [], t_tool_executions = []\<rparr>"

record email =
  em_subject :: json
  em_body :: json
  em_to :: string

record world =
  w_db :: db
  w_committed :: db
  w_tenant :: uuid
  w_blobs :: "(string \<times> bytes) list"
  w_emails :: "email list"
  w_ticks :: nat
  w_fresh :: nat
  w_calls :: nat

text \<open>
  The ports a handler is constructed with. \<open>env_clock n\<close> is the n-th reading of the clock and
  \<open>env_ids n\<close> the n-th generated UUID. Opening a session, storing an object and sending mail
  may fail, call by call. The digest, the JSON serializer (\<open>env_dumps\<close> as the content hash calls
  it, \<open>env_dumps_with\<close> with the options named) and the rendering of display prose are functions
  of their argument.
\<close>

record env =
  env_clock :: "nat \<Rightarrow> datetime"
  env_ids :: "nat \<Rightarrow> uuid"
  env_connect :: "nat \<Rightarrow> dw_error option"
  env_put :: "nat \<Rightarrow> string \<Rightarrow> bytes \<Rightarrow> string \<Rightarrow> string result"
  env_send :: "nat \<Rightarrow> email \<Rightarrow> string result"
  env_sha256 :: "bytes \<Rightarrow> string"
  env_dumps :: "json \<Rightarrow> string"
  env_dumps_with :: "string \<Rightarrow> json \<Rightarrow> string"
  env_text :: "json \<Rightarrow> string"

type_synonym 'a handler = "(world, 'a) act"

definition clock_now :: "env \<Rightarrow> datetime handler" where
  "clock_now E w = (Inr (env_clock E (w_ticks w)), w\<lparr>w_ticks := Suc (w_ticks w)\<rparr>)"

definition new_uuid :: "env \<Rightarrow> uuid handler" where
  "new_uuid E w = (Inr (env_ids E (w_fresh w)), w\<lparr>w_fresh := Suc (w_fresh w)\<rparr>)"

text \<open>\<open>storage.put_object\<close>: the object is stored under its key, or the call raises.\<close>

definition put_object :: "env \<Rightarrow> string \<Rightarrow> bytes \<Rightarrow> string \<Rightarrow> string handler" where
  "put_object E key data ctype w =
     (case env_put E (w_calls w) key data ctype of
        Inl e \<Rightarrow> (Inl e, w\<lparr>w_calls := Suc (w_calls w)\<rparr>)
      | Inr ref \<Rightarrow> (Inr ref, w\<lparr>w_calls := Suc (w_calls w),
                               w_blobs := (key, data) # w_blobs w\<rparr>))"

definition send_email :: "env \<Rightarrow> email \<Rightarrow> string handler" where
  "send_email E m w =
     (case env_send E (w_calls w) m of
        Inl e \<Rightarrow> (Inl e, w\<lparr>w_calls := Suc (w_calls w)\<rparr>)
      | Inr mid \<Rightarrow> (Inr mid, w\<lparr>w_calls := Suc (w_calls w), w_emails := m # w_emails w\<rparr>))"

section \<open>Unit of work\<close>

text \<open>
  \<open>async with uow_factory(tenant) as uow: body\<close>: opening the session may fail; otherwise the
  transaction starts from what is committed, and leaving the block drops whatever was not committed,
  on an exception by the rollback and otherwise by closing the session.
\<close>

definition in_uow :: "env \<Rightarrow> uuid \<Rightarrow> 'a handler \<Rightarrow> 'a handler" where
  "in_uow E tenant body w =
     (case env_connect E (w_calls w) of
        Some e \<Rightarrow> (Inl e, w\<lparr>w_calls := Suc (w_calls w)\<rparr>)
      | None \<Rightarrow>
          let (r, w') = body (w\<lparr>w_calls := Suc (w_calls w), w_db := w_committed w, w_tenant := tenant\<rparr>)
          in (r, w'\<lparr>w_db := w_committed w'\<rparr>))"

definition commit :: "unit handler" where
  "commit w = (Inr (), w\<lparr>w_committed := w_db w\<rparr>)"

section \<open>Statements\<close>

text \<open>An insert: the row-level security check, then the constraints.\<close>

definition db_error :: "dw_error" where
  "db_error = Err DbIntegrityError ''constraint violated''"

definition insert_row :: "uuid \<Rightarrow> bool \<Rightarrow> (db \<Rightarrow> db) \<Rightarrow> unit handler" where
  "insert_row row_tenant admissible ins w =
     (if row_tenant = w_tenant w \<and> admissible then (Inr (), w\<lparr>w_db := ins (w_db w)\<rparr>)
      else (Inl db_error, w))"

definition update_where :: "('r \<Rightarrow> bool) \<Rightarrow> ('r \<Rightarrow> 'r) \<Rightarrow> 'r list \<Rightarrow> 'r list" where
  "update_where p f rows = map (\<lambda>r. if p r then f r else r) rows"

text \<open>\<open>ORDER BY key DESC LIMIT 1\<close>; among equals the later inserted row.\<close>

fun greatest_by :: "('r \<Rightarrow> int) \<Rightarrow> 'r list \<Rightarrow> 'r option" where
  "greatest_by k [] = None"
| "greatest_by k (r # rs) =
     (case greatest_by k rs of
        None \<Rightarrow> Some r
      | Some r' \<Rightarrow> Some (if k r' < k r then r else r'))"

section \<open>Case repository\<close>

definition case_visible :: "world \<Rightarrow> PreparationCase list" where
  "case_visible w = filter (\<lambda>c. c_tenant_id c = w_tenant w) (t_cases (w_db w))"

text \<open>
  The insert lists its columns: a column it leaves out takes the table default, so a new row has no
  run, no official package, no verification and no closing moment.
\<close>

definition case_insert_row :: "PreparationCase \<Rightarrow> PreparationCase" where
  "case_insert_row c = c\<lparr>c_last_run_id := None, c_current_official_artifact_id := None,
     c_export_ref := None, c_intake_verified_by := None, c_intake_verified_at := None,
     c_bids_close_at := None\<rparr>"

definition cases_add :: "PreparationCase \<Rightarrow> unit handler" where
  "cases_add c w =
     insert_row (c_tenant_id c) (c_id c \<notin> c_id ` set (t_cases (w_db w)))
       (\<lambda>d. d\<lparr>t_cases := t_cases d @ [case_insert_row c]\<rparr>) w"

definition cases_get :: "uuid \<Rightarrow> PreparationCase option handler" where
  "cases_get i = act_get (\<lambda>w. find (\<lambda>c. c_id c = i) (case_visible w))"

text \<open>The columns the update sets; the rest of the row stays.\<close>

definition case_update_row :: "PreparationCase \<Rightarrow> PreparationCase \<Rightarrow> PreparationCase" where
  "case_update_row c row =
     row\<lparr>c_title := c_title c, c_estimated_value_minor := c_estimated_value_minor c,
         c_deadline := c_deadline c, c_state := c_state c, c_current_step := c_current_step c,
         c_method_key := c_method_key c, c_last_run_id := c_last_run_id c,
         c_current_official_artifact_id := c_current_official_artifact_id c,
         c_export_ref := c_export_ref c, c_intake_verified_by := c_intake_verified_by c,
         c_intake_verified_at := c_intake_verified_at c, c_bids_close_at := c_bids_close_at c,
         c_version := c_version c\<rparr>"

definition case_update_hits :: "uuid \<Rightarrow> PreparationCase \<Rightarrow> PreparationCase \<Rightarrow> bool" where
  "case_update_hits t c row =
     (c_tenant_id row = t \<and> c_id row = c_id c \<and> c_version row = c_version c - 1)"

definition cases_save :: "PreparationCase \<Rightarrow> unit handler" where
  "cases_save c w =
     (let rows = t_cases (w_db w);
          rowcount = length (filter (case_update_hits (w_tenant w) c) rows);
          w' = w\<lparr>w_db := (w_db w)\<lparr>t_cases :=
                 update_where (case_update_hits (w_tenant w) c) (case_update_row c) rows\<rparr>\<rparr>
      in if rowcount \<noteq> 1
         then (Inl (Err ConflictError ''preparation case was modified concurrently''), w')
         else (Inr (), w'))"

definition cases_list_recent :: "nat \<Rightarrow> PreparationCase list handler" where
  "cases_list_recent limit = act_get (\<lambda>w. take limit (rev (case_visible w)))"

definition cases_list_due_for_closing :: "datetime \<Rightarrow> PreparationCase list handler" where
  "cases_list_due_for_closing at = act_get (\<lambda>w.
     take 20 (sort_key (\<lambda>c. case c_bids_close_at c of Some t \<Rightarrow> t | None \<Rightarrow> 0)
       (filter (\<lambda>c. (case c_bids_close_at c of Some t \<Rightarrow> t \<le> at | None \<Rightarrow> False)
                    \<and> c_state c \<in> {CS_PUBLISHED, CS_RECEIVING_BIDS})
          (case_visible w))))"

section \<open>Document repository\<close>

definition case_exists :: "uuid \<Rightarrow> world \<Rightarrow> bool" where
  "case_exists i w = (i \<in> c_id ` set (t_cases (w_db w)))"

definition documents_add :: "PreparationDocument \<Rightarrow> unit handler" where
  "documents_add d w =
     insert_row (d_tenant_id d)
       (d_id d \<notin> d_id ` set (t_documents (w_db w)) \<and> case_exists (d_case_id d) w)
       (\<lambda>b. b\<lparr>t_documents := t_documents b @ [d]\<rparr>) w"

definition documents_list_for_case :: "uuid \<Rightarrow> PreparationDocument list handler" where
  "documents_list_for_case i = act_get (\<lambda>w.
     filter (\<lambda>d. d_tenant_id d = w_tenant w \<and> d_case_id d = i) (t_documents (w_db w)))"

section \<open>Artifact repository\<close>

definition artifact_visible :: "world \<Rightarrow> PreparationArtifact list" where
  "artifact_visible w = filter (\<lambda>a. a_tenant_id a = w_tenant w) (t_artifacts (w_db w))"

definition artifact_key :: "PreparationArtifact \<Rightarrow> uuid \<times> ArtifactType \<times> int" where
  "artifact_key a = (a_case_id a, a_type a, a_version a)"

definition artifacts_add :: "PreparationArtifact \<Rightarrow> unit handler" where
  "artifacts_add a w =
     insert_row (a_tenant_id a)
       (a_id a \<notin> a_id ` set (t_artifacts (w_db w))
        \<and> artifact_key a \<notin> artifact_key ` set (t_artifacts (w_db w))
        \<and> case_exists (a_case_id a) w)
       (\<lambda>d. d\<lparr>t_artifacts := t_artifacts d @ [a]\<rparr>) w"

definition artifacts_get :: "uuid \<Rightarrow> PreparationArtifact option handler" where
  "artifacts_get i = act_get (\<lambda>w. find (\<lambda>a. a_id a = i) (artifact_visible w))"

definition artifacts_list_for_case :: "uuid \<Rightarrow> PreparationArtifact list handler" where
  "artifacts_list_for_case i = act_get (\<lambda>w. filter (\<lambda>a. a_case_id a = i) (artifact_visible w))"

definition latest_artifact :: "uuid \<Rightarrow> ArtifactType \<Rightarrow> world \<Rightarrow> PreparationArtifact option" where
  "latest_artifact i t w =
     greatest_by a_version (filter (\<lambda>a. a_case_id a = i \<and> a_type a = t) (artifact_visible w))"

definition artifacts_latest :: "uuid \<Rightarrow> ArtifactType \<Rightarrow> PreparationArtifact option handler" where
  "artifacts_latest i t = act_get (latest_artifact i t)"

definition official_hits :: "uuid \<Rightarrow> uuid \<Rightarrow> PreparationArtifact \<Rightarrow> bool" where
  "official_hits t i row = (a_tenant_id row = t \<and> a_id row = i)"

definition official_row :: "PreparationArtifact \<Rightarrow> PreparationArtifact" where
  "official_row row = row\<lparr>a_status := AS_OFFICIAL\<rparr>"

definition artifacts_mark_official :: "uuid \<Rightarrow> unit handler" where
  "artifacts_mark_official i w =
     (Inr (), w\<lparr>w_db := (w_db w)\<lparr>t_artifacts :=
        update_where (official_hits (w_tenant w) i) official_row (t_artifacts (w_db w))\<rparr>\<rparr>)"

section \<open>Notification repository\<close>

definition find_recipient_for_role :: "string \<Rightarrow> uuid option \<Rightarrow> uuid option handler" where
  "find_recipient_for_role role exclude = act_get (\<lambda>w.
     map_option mb_user_id
       (find (\<lambda>m. mb_tenant_id m = w_tenant w \<and> role \<in> set (mb_role_keys m)
                  \<and> Some (mb_user_id m) \<noteq> exclude)
          (t_memberships (w_db w))))"

text \<open>\<open>INSERT ... ON CONFLICT (idempotency_key) DO NOTHING\<close>.\<close>

definition notifications_enqueue :: "IntakeNotificationJob \<Rightarrow> unit handler" where
  "notifications_enqueue j w =
     (if n_tenant_id j = w_tenant w
         \<and> n_idempotency_key j \<in> n_idempotency_key ` set (t_jobs (w_db w))
      then (Inr (), w)
      else insert_row (n_tenant_id j)
             (n_id j \<notin> n_id ` set (t_jobs (w_db w)) \<and> case_exists (n_case_id j) w)
             (\<lambda>d. d\<lparr>t_jobs := t_jobs d @ [j]\<rparr>) w)"

definition notifications_list_for_case :: "uuid \<Rightarrow> IntakeNotificationJob list handler" where
  "notifications_list_for_case i = act_get (\<lambda>w.
     filter (\<lambda>j. n_tenant_id j = w_tenant w \<and> n_case_id j = i) (t_jobs (w_db w)))"

section \<open>Rework repositories\<close>

definition rework_visible :: "world \<Rightarrow> ReworkEvent list" where
  "rework_visible w = filter (\<lambda>e. re_tenant_id e = w_tenant w) (t_rework_events (w_db w))"

text \<open>The insert leaves out the void columns.\<close>

definition rework_insert_row :: "ReworkEvent \<Rightarrow> ReworkEvent" where
  "rework_insert_row e = e\<lparr>re_voided_at := None, re_voided_by := None, re_void_reason := ''''\<rparr>"

definition rework_events_add :: "ReworkEvent \<Rightarrow> unit handler" where
  "rework_events_add e w =
     insert_row (re_tenant_id e)
       (re_id e \<notin> re_id ` set (t_rework_events (w_db w)) \<and> case_exists (re_case_id e) w)
       (\<lambda>d. d\<lparr>t_rework_events := t_rework_events d
               @ [rework_insert_row e]\<rparr>) w"

definition rework_events_get :: "uuid \<Rightarrow> ReworkEvent option handler" where
  "rework_events_get i = act_get (\<lambda>w. find (\<lambda>e. re_id e = i) (rework_visible w))"

definition rework_events_list_for_creator :: "uuid \<Rightarrow> datetime \<Rightarrow> ReworkEvent list handler" where
  "rework_events_list_for_creator creator since = act_get (\<lambda>w.
     sort_key (\<lambda>e. - re_occurred_at e)
       (filter (\<lambda>e. re_creator_user_id e = creator \<and> re_occurred_at e \<ge> since) (rework_visible w)))"

definition void_hits :: "uuid \<Rightarrow> uuid \<Rightarrow> ReworkEvent \<Rightarrow> bool" where
  "void_hits t i row = (re_tenant_id row = t \<and> re_id row = i \<and> re_voided_at row = None)"

definition void_row :: "uuid \<Rightarrow> string \<Rightarrow> datetime \<Rightarrow> ReworkEvent \<Rightarrow> ReworkEvent" where
  "void_row by_user note at row =
     row\<lparr>re_voided_at := Some at, re_voided_by := Some by_user, re_void_reason := note\<rparr>"

definition rework_events_void :: "uuid \<Rightarrow> uuid \<Rightarrow> string \<Rightarrow> datetime \<Rightarrow> unit handler" where
  "rework_events_void i by_user note at w =
     (Inr (), w\<lparr>w_db := (w_db w)\<lparr>t_rework_events :=
        update_where (void_hits (w_tenant w) i) (void_row by_user note at)
          (t_rework_events (w_db w))\<rparr>\<rparr>)"

definition explanation_visible :: "world \<Rightarrow> ExplanationRecord list" where
  "explanation_visible w = filter (\<lambda>x. ex_tenant_id x = w_tenant w) (t_explanations (w_db w))"

text \<open>The insert leaves out the decision columns; a linked case must exist.\<close>

definition explanation_insert_row :: "ExplanationRecord \<Rightarrow> ExplanationRecord" where
  "explanation_insert_row x =
     x\<lparr>ex_decided_by := None, ex_decided_at := None, ex_decision_comment := ''''\<rparr>"

definition explanations_add :: "ExplanationRecord \<Rightarrow> unit handler" where
  "explanations_add x w =
     insert_row (ex_tenant_id x)
       (ex_id x \<notin> ex_id ` set (t_explanations (w_db w))
        \<and> (case ex_case_id x of None \<Rightarrow> True | Some c \<Rightarrow> case_exists c w))
       (\<lambda>d. d\<lparr>t_explanations := t_explanations d
               @ [explanation_insert_row x]\<rparr>) w"

definition explanations_get :: "uuid \<Rightarrow> ExplanationRecord option handler" where
  "explanations_get i = act_get (\<lambda>w. find (\<lambda>x. ex_id x = i) (explanation_visible w))"

definition decision_hits :: "uuid \<Rightarrow> ExplanationRecord \<Rightarrow> ExplanationRecord \<Rightarrow> bool" where
  "decision_hits t r row = (ex_tenant_id row = t \<and> ex_id row = ex_id r \<and> ex_status row = ES_PENDING)"

definition decision_row :: "ExplanationRecord \<Rightarrow> ExplanationRecord \<Rightarrow> ExplanationRecord" where
  "decision_row r row =
     row\<lparr>ex_status := ex_status r, ex_decided_by := ex_decided_by r,
         ex_decided_at := ex_decided_at r, ex_decision_comment := ex_decision_comment r\<rparr>"

definition explanations_save :: "ExplanationRecord \<Rightarrow> unit handler" where
  "explanations_save r w =
     (Inr (), w\<lparr>w_db := (w_db w)\<lparr>t_explanations :=
        update_where (decision_hits (w_tenant w) r) (decision_row r) (t_explanations (w_db w))\<rparr>\<rparr>)"

definition explanations_has_approved_since :: "uuid \<Rightarrow> datetime \<Rightarrow> bool handler" where
  "explanations_has_approved_since creator since = act_get (\<lambda>w.
     list_ex (\<lambda>x. ex_creator_user_id x = creator \<and> ex_status x = ES_APPROVED
                  \<and> (case ex_decided_at x of Some t \<Rightarrow> t \<ge> since | None \<Rightarrow> False))
       (explanation_visible w))"

definition explanations_list_pending :: "nat \<Rightarrow> ExplanationRecord list handler" where
  "explanations_list_pending limit = act_get (\<lambda>w.
     take limit (sort_key ex_submitted_at (filter (\<lambda>x. ex_status x = ES_PENDING) (explanation_visible w))))"

definition explanations_list_pending_overdue :: "datetime \<Rightarrow> ExplanationRecord list handler" where
  "explanations_list_pending_overdue before = act_get (\<lambda>w.
     sort_key ex_submitted_at
       (filter (\<lambda>x. ex_status x = ES_PENDING \<and> ex_submitted_at x \<le> before) (explanation_visible w)))"

section \<open>Approval and audit repositories\<close>

definition approval_visible :: "world \<Rightarrow> ApprovalRequest list" where
  "approval_visible w = filter (\<lambda>r. r_tenant_id r = w_tenant w) (t_approvals (w_db w))"

definition approvals_add :: "ApprovalRequest \<Rightarrow> unit handler" where
  "approvals_add r w =
     insert_row (r_tenant_id r) (r_id r \<notin> r_id ` set (t_approvals (w_db w)))
       (\<lambda>d. d\<lparr>t_approvals := t_approvals d @ [r\<lparr>r_decided_at := None\<rparr>]\<rparr>) w"

definition approvals_get :: "uuid \<Rightarrow> ApprovalRequest option handler" where
  "approvals_get i = act_get (\<lambda>w. find (\<lambda>r. r_id r = i) (approval_visible w))"

definition approval_update_hits :: "uuid \<Rightarrow> ApprovalRequest \<Rightarrow> ApprovalRequest \<Rightarrow> bool" where
  "approval_update_hits t r row =
     (r_tenant_id row = t \<and> r_id row = r_id r \<and> r_version row = r_version r - 1)"

definition approval_update_row :: "ApprovalRequest \<Rightarrow> ApprovalRequest \<Rightarrow> ApprovalRequest" where
  "approval_update_row r row =
     row\<lparr>r_status := r_status r, r_decided_at := r_decided_at r, r_version := r_version r\<rparr>"

definition approvals_save :: "ApprovalRequest \<Rightarrow> unit handler" where
  "approvals_save r w =
     (let rows = t_approvals (w_db w);
          rowcount = length (filter (approval_update_hits (w_tenant w) r) rows);
          w' = w\<lparr>w_db := (w_db w)\<lparr>t_approvals :=
                 update_where (approval_update_hits (w_tenant w) r) (approval_update_row r) rows\<rparr>\<rparr>
      in if rowcount \<noteq> 1
         then (Inl (Err ConflictError ''approval request was modified concurrently''), w')
         else (Inr (), w'))"

definition approvals_list_pending :: "nat \<Rightarrow> ApprovalRequest list handler" where
  "approvals_list_pending limit = act_get (\<lambda>w.
     take limit (rev (filter (\<lambda>r. r_status r = AP_PENDING) (approval_visible w))))"

definition approvals_add_decision :: "ApprovalDecision \<Rightarrow> unit handler" where
  "approvals_add_decision d w =
     insert_row (ad_tenant_id d)
       (ad_id d \<notin> ad_id ` set (t_decisions (w_db w))
        \<and> ad_request_id d \<in> r_id ` set (t_approvals (w_db w)))
       (\<lambda>b. b\<lparr>t_decisions := t_decisions b @ [d]\<rparr>) w"

definition audit_append :: "AuditEvent \<Rightarrow> unit handler" where
  "audit_append e w =
     insert_row (au_tenant_id e) (au_id e \<notin> au_id ` set (t_audit (w_db w)))
       (\<lambda>d. d\<lparr>t_audit := t_audit d @ [e]\<rparr>) w"

section \<open>Run store\<close>

text \<open>
  The statements of \<open>dw_agent_runtime/adapters/run_store.py\<close> and of
  \<open>tool_execution_store.py\<close>. The partial unique index of the migration admits one succeeded
  execution per tenant, tool and idempotency key.
\<close>

definition run_visible :: "world \<Rightarrow> WorkerRun list" where
  "run_visible w = filter (\<lambda>r. wr_tenant_id r = w_tenant w) (t_runs (w_db w))"

definition runs_insert :: "WorkerRun \<Rightarrow> unit handler" where
  "runs_insert r w =
     insert_row (wr_tenant_id r) (wr_id r \<notin> wr_id ` set (t_runs (w_db w)))
       (\<lambda>d. d\<lparr>t_runs := t_runs d @ [r]\<rparr>) w"

definition run_hits :: "uuid \<Rightarrow> uuid \<Rightarrow> WorkerRun \<Rightarrow> bool" where
  "run_hits t i row = (wr_tenant_id row = t \<and> wr_id row = i)"

definition or_else :: "'a option \<Rightarrow> 'a option \<Rightarrow> 'a option" where
  "or_else v old = (case v of None \<Rightarrow> old | Some x \<Rightarrow> Some x)"

definition run_status_row ::
  "RunStatus \<Rightarrow> json option \<Rightarrow> json option \<Rightarrow> uuid option \<Rightarrow> WorkerRun \<Rightarrow> WorkerRun" where
  "run_status_row status res err approval row =
     row\<lparr>wr_status := status, wr_result := or_else res (wr_result row),
         wr_error := or_else err (wr_error row),
         wr_approval_request_id := or_else approval (wr_approval_request_id row)\<rparr>"

definition runs_update ::
  "uuid \<Rightarrow> RunStatus \<Rightarrow> json option \<Rightarrow> json option \<Rightarrow> uuid option \<Rightarrow> unit handler" where
  "runs_update i status res err approval w =
     (Inr (), w\<lparr>w_db := (w_db w)\<lparr>t_runs :=
        update_where (run_hits (w_tenant w) i) (run_status_row status res err approval)
          (t_runs (w_db w))\<rparr>\<rparr>)"

definition runs_find :: "uuid \<Rightarrow> WorkerRun option handler" where
  "runs_find i = act_get (\<lambda>w. find (\<lambda>r. wr_id r = i) (run_visible w))"

definition succeeded_key :: "ToolExecution \<Rightarrow> (uuid \<times> string \<times> string) option" where
  "succeeded_key x =
     (case te_idempotency_key x of
        None \<Rightarrow> None
      | Some k \<Rightarrow> if te_status x = ''succeeded'' then Some (te_tenant_id x, te_tool_name x, k) else None)"

definition tool_executions_insert :: "ToolExecution \<Rightarrow> unit handler" where
  "tool_executions_insert x w =
     insert_row (te_tenant_id x)
       (te_id x \<notin> te_id ` set (t_tool_executions (w_db w))
        \<and> (succeeded_key x = None \<or> succeeded_key x \<notin> succeeded_key ` set (t_tool_executions (w_db w))))
       (\<lambda>d. d\<lparr>t_tool_executions := t_tool_executions d @ [x]\<rparr>) w"

definition tool_executions_find :: "string \<Rightarrow> string \<Rightarrow> ToolExecution option handler" where
  "tool_executions_find name key = act_get (\<lambda>w.
     find (\<lambda>x. te_tool_name x = name \<and> te_idempotency_key x = Some key \<and> te_status x = ''succeeded'')
       (filter (\<lambda>x. te_tenant_id x = w_tenant w) (t_tool_executions (w_db w))))"

end
