(* ===== verification/DW_Store_Laws.thy ===== *)
theory DW_Store_Laws
  imports DW_Store
begin

text \<open>
  Laws of the persistence layer and the proof rules for handlers built on it.

  A handler is checked against three judgements. \<open>keeps I m\<close>: the computation preserves a
  predicate of the world, whether it returns or raises. \<open>durable I t m\<close>: it preserves a
  predicate of the committed database. \<open>atomic m\<close>: when it raises, nothing was committed.
  The locale \<open>case_invariant\<close> is the interface of a database invariant: whoever shows that
  each statement of the repositories keeps it gets, for every handler, that the handler keeps it on
  the committed database; \<open>repository_invariant\<close> extends it by the statements of the runtime's tables. The locale \<open>optimistic_repository\<close> is the contract of the two
  repositories that save with a version check.
\<close>

section \<open>Preservation of predicates\<close>

definition keeps :: "('w \<Rightarrow> bool) \<Rightarrow> ('w, 'a) act \<Rightarrow> bool" where
  "keeps I m = (\<forall>w. I w \<longrightarrow> I (snd (m w)))"

named_theorems keeps_rules \<open>decomposition of a handler into its statements\<close>

lemma keeps_bind [keeps_rules]:
  "keeps I m \<Longrightarrow> (\<And>x. keeps I (f x)) \<Longrightarrow> keeps I (act_bind m f)"
  by (simp add: keeps_def act_bind_def split: prod.splits sum.splits) (metis snd_conv)

lemma keeps_ret [keeps_rules]: "keeps I (act_ret x)"
  by (simp add: keeps_def act_ret_def)

lemma keeps_raise [keeps_rules]: "keeps I (act_raise c m)"
  by (simp add: keeps_def act_raise_def)

lemma keeps_get [keeps_rules]: "keeps I (act_get g)"
  by (simp add: keeps_def act_get_def)

lemma keeps_require [keeps_rules]: "keeps I (act_require b c m)"
  by (simp add: keeps_def act_require_def)

lemma keeps_some [keeps_rules]: "keeps I (act_some v c m)"
  by (simp add: keeps_def act_some_def split: option.splits)

lemma keeps_lift [keeps_rules]: "keeps I (act_lift r)"
  by (simp add: keeps_def act_lift_def)

lemma keeps_when [keeps_rules]: "(b \<Longrightarrow> keeps I m) \<Longrightarrow> keeps I (act_when b m)"
  by (simp add: act_when_def keeps_ret)

lemma keeps_suppress [keeps_rules]: "keeps I m \<Longrightarrow> keeps I (act_suppress m)"
  by (simp add: keeps_def act_suppress_def)

lemma keeps_if [keeps_rules]:
  "(b \<Longrightarrow> keeps I m) \<Longrightarrow> (\<not> b \<Longrightarrow> keeps I n) \<Longrightarrow> keeps I (if b then m else n)"
  by simp

lemma keeps_case_option [keeps_rules]:
  "(v = None \<Longrightarrow> keeps I m) \<Longrightarrow> (\<And>x. v = Some x \<Longrightarrow> keeps I (f x)) \<Longrightarrow>
     keeps I (case v of None \<Rightarrow> m | Some x \<Rightarrow> f x)"
  by (cases v) auto

lemma keeps_case_prod [keeps_rules]:
  "(\<And>x y. keeps I (f x y)) \<Longrightarrow> keeps I (case p of (x, y) \<Rightarrow> f x y)"
  by (cases p) auto

lemma keeps_Let [keeps_rules]: "(\<And>x. keeps I (f x)) \<Longrightarrow> keeps I (let x = v in f x)"
  by simp

lemma keeps_for [keeps_rules]: "(\<And>x. keeps I (f x)) \<Longrightarrow> keeps I (act_for xs f)"
  by (induction xs) (auto intro: keeps_rules)

section \<open>Sessions and the committed database\<close>

text \<open>In a session of tenant \<open>t\<close> the open transaction and the committed database satisfy \<open>I\<close>.\<close>

definition sess :: "(uuid \<Rightarrow> db \<Rightarrow> bool) \<Rightarrow> uuid \<Rightarrow> world \<Rightarrow> bool" where
  "sess I t w = (w_tenant w = t \<and> I t (w_db w) \<and> I t (w_committed w))"

definition durable :: "(uuid \<Rightarrow> db \<Rightarrow> bool) \<Rightarrow> uuid \<Rightarrow> 'a handler \<Rightarrow> bool" where
  "durable I t m = keeps (\<lambda>w. I t (w_committed w)) m"

definition session_start :: "uuid \<Rightarrow> world \<Rightarrow> world" where
  "session_start t w = w\<lparr>w_calls := Suc (w_calls w), w_db := w_committed w, w_tenant := t\<rparr>"

lemma in_uow_connected:
  "env_connect E (w_calls w) = None \<Longrightarrow>
     in_uow E t body w = (fst (body (session_start t w)),
       (snd (body (session_start t w)))\<lparr>w_db := w_committed (snd (body (session_start t w)))\<rparr>)"
  by (simp add: in_uow_def session_start_def Let_def case_prod_beta)

lemma in_uow_Inr:
  assumes "in_uow E t body w = (Inr r, w')"
  shows "env_connect E (w_calls w) = None"
    "\<exists>w''. body (session_start t w) = (Inr r, w'') \<and> w' = w''\<lparr>w_db := w_committed w''\<rparr>"
  using assms by (auto simp: in_uow_def session_start_def Let_def split: option.splits prod.splits)

lemma durable_in_uow [keeps_rules]:
  assumes "keeps (sess I t) body"
  shows "durable I t (in_uow E t body)"
  unfolding durable_def keeps_def
proof (intro allI impI)
  fix w :: world
  assume "I t (w_committed w)"
  then have "sess I t (session_start t w)" by (simp add: sess_def session_start_def)
  then have s: "sess I t (snd (body (session_start t w)))"
    using assms unfolding keeps_def by blast
  show "I t (w_committed (snd (in_uow E t body w)))"
  proof (cases "env_connect E (w_calls w)")
    case None
    then show ?thesis using s by (simp add: sess_def in_uow_connected)
  next
    case (Some e)
    then show ?thesis using \<open>I t (w_committed w)\<close> by (simp add: in_uow_def)
  qed
qed

lemma durable_bind [keeps_rules]:
  "durable I t m \<Longrightarrow> (\<And>x. durable I t (f x)) \<Longrightarrow> durable I t (act_bind m f)"
  unfolding durable_def by (rule keeps_bind)

lemma durable_ret [keeps_rules]: "durable I t (act_ret x)"
  unfolding durable_def by (rule keeps_ret)

lemma durable_raise [keeps_rules]: "durable I t (act_raise c m)"
  unfolding durable_def by (rule keeps_raise)

lemma durable_lift [keeps_rules]: "durable I t (act_lift r)"
  unfolding durable_def by (rule keeps_lift)

lemma durable_require [keeps_rules]: "durable I t (act_require b c m)"
  unfolding durable_def by (rule keeps_require)

lemma durable_when [keeps_rules]: "(b \<Longrightarrow> durable I t m) \<Longrightarrow> durable I t (act_when b m)"
  unfolding durable_def by (rule keeps_when)

lemma durable_suppress [keeps_rules]: "durable I t m \<Longrightarrow> durable I t (act_suppress m)"
  unfolding durable_def by (rule keeps_suppress)

lemma durable_if [keeps_rules]:
  "(b \<Longrightarrow> durable I t m) \<Longrightarrow> (\<not> b \<Longrightarrow> durable I t n) \<Longrightarrow> durable I t (if b then m else n)"
  by simp

lemma durable_case_option [keeps_rules]:
  "(v = None \<Longrightarrow> durable I t m) \<Longrightarrow> (\<And>x. v = Some x \<Longrightarrow> durable I t (f x)) \<Longrightarrow>
     durable I t (case v of None \<Rightarrow> m | Some x \<Rightarrow> f x)"
  by (cases v) auto

lemma durable_Let [keeps_rules]: "(\<And>x. durable I t (f x)) \<Longrightarrow> durable I t (let x = v in f x)"
  by simp

subsection \<open>Ports do not touch the database\<close>

definition db_blind :: "'a handler \<Rightarrow> bool" where
  "db_blind m = (\<forall>w. w_db (snd (m w)) = w_db w \<and> w_committed (snd (m w)) = w_committed w
     \<and> w_tenant (snd (m w)) = w_tenant w)"

lemma db_blind_ports:
  "db_blind (clock_now E)" "db_blind (new_uuid E)" "db_blind (put_object E k d c)"
  "db_blind (send_email E m)"
  by (auto simp: db_blind_def clock_now_def new_uuid_def put_object_def send_email_def
      split: sum.splits)

lemma keeps_db_blind:
  "db_blind m \<Longrightarrow> keeps (sess I t) m"
  by (simp add: keeps_def db_blind_def sess_def)

lemma durable_db_blind: "db_blind m \<Longrightarrow> durable I t m"
  by (simp add: durable_def keeps_def db_blind_def)

lemmas keeps_ports [keeps_rules] = db_blind_ports [THEN keeps_db_blind]

lemmas durable_ports [keeps_rules] = db_blind_ports [THEN durable_db_blind]

lemma keeps_commit [keeps_rules]: "keeps (sess I t) commit"
  by (simp add: keeps_def sess_def commit_def)

lemma keeps_queries [keeps_rules]:
  "keeps I (cases_get i)" "keeps I (documents_list_for_case i)" "keeps I (artifacts_get i)"
  "keeps I (artifacts_list_for_case i)" "keeps I (artifacts_latest i ty)"
  "keeps I (find_recipient_for_role r x)" "keeps I (notifications_list_for_case i)"
  "keeps I (rework_events_get i)" "keeps I (rework_events_list_for_creator u s)"
  "keeps I (explanations_get i)" "keeps I (explanations_has_approved_since u s)"
  "keeps I (explanations_list_pending n)" "keeps I (explanations_list_pending_overdue s)"
  "keeps I (approvals_get i)" "keeps I (approvals_list_pending n)" "keeps I (cases_list_recent n)"
  "keeps I (cases_list_due_for_closing s)" "keeps I (runs_find i)" "keeps I (tool_executions_find nm ky)"
  by (simp_all add: runs_find_def tool_executions_find_def keeps_get cases_get_def documents_list_for_case_def artifacts_get_def
      artifacts_list_for_case_def artifacts_latest_def find_recipient_for_role_def
      notifications_list_for_case_def rework_events_get_def rework_events_list_for_creator_def
      explanations_get_def explanations_has_approved_since_def explanations_list_pending_def
      explanations_list_pending_overdue_def approvals_get_def approvals_list_pending_def
      cases_list_recent_def cases_list_due_for_closing_def)

section \<open>The interface of a database invariant\<close>

text \<open>
  What a provider has to show: every statement that writes keeps the invariant in the session that
  issues it. The clients (the handler theories) prove inside this locale that every handler keeps it
  on the committed database.
\<close>

locale case_invariant =
  fixes I :: "uuid \<Rightarrow> db \<Rightarrow> bool"
  assumes add_case: "I t d \<Longrightarrow> c_tenant_id c = t \<Longrightarrow> c_id c \<notin> c_id ` set (t_cases d) \<Longrightarrow>
      I t (d\<lparr>t_cases := t_cases d @ [case_insert_row c]\<rparr>)"
    and save_case: "I t d \<Longrightarrow>
      I t (d\<lparr>t_cases := update_where (case_update_hits t c) (case_update_row c) (t_cases d)\<rparr>)"
    and add_document: "I t d \<Longrightarrow> d_tenant_id x = t \<Longrightarrow> d_id x \<notin> d_id ` set (t_documents d) \<Longrightarrow>
      I t (d\<lparr>t_documents := t_documents d @ [x]\<rparr>)"
    and add_artifact: "I t d \<Longrightarrow> a_tenant_id a = t \<Longrightarrow> a_id a \<notin> a_id ` set (t_artifacts d) \<Longrightarrow>
      artifact_key a \<notin> artifact_key ` set (t_artifacts d) \<Longrightarrow>
      I t (d\<lparr>t_artifacts := t_artifacts d @ [a]\<rparr>)"
    and mark_artifact: "I t d \<Longrightarrow>
      I t (d\<lparr>t_artifacts := update_where (official_hits t i) official_row (t_artifacts d)\<rparr>)"
    and add_job: "I t d \<Longrightarrow> n_tenant_id j = t \<Longrightarrow> n_id j \<notin> n_id ` set (t_jobs d) \<Longrightarrow>
      n_idempotency_key j \<notin> n_idempotency_key ` set (t_jobs d) \<Longrightarrow>
      I t (d\<lparr>t_jobs := t_jobs d @ [j]\<rparr>)"
    and add_rework: "I t d \<Longrightarrow> re_tenant_id e = t \<Longrightarrow> re_id e \<notin> re_id ` set (t_rework_events d) \<Longrightarrow>
      I t (d\<lparr>t_rework_events := t_rework_events d @ [rework_insert_row e]\<rparr>)"
    and void_rework: "I t d \<Longrightarrow>
      I t (d\<lparr>t_rework_events := update_where (void_hits t i) (void_row u m at) (t_rework_events d)\<rparr>)"
    and add_explanation: "I t d \<Longrightarrow> ex_tenant_id x' = t \<Longrightarrow> ex_id x' \<notin> ex_id ` set (t_explanations d) \<Longrightarrow>
      I t (d\<lparr>t_explanations := t_explanations d @ [explanation_insert_row x']\<rparr>)"
    and save_explanation: "I t d \<Longrightarrow>
      I t (d\<lparr>t_explanations := update_where (decision_hits t r') (decision_row r') (t_explanations d)\<rparr>)"
    and add_approval: "I t d \<Longrightarrow> r_tenant_id r = t \<Longrightarrow> r_id r \<notin> r_id ` set (t_approvals d) \<Longrightarrow>
      I t (d\<lparr>t_approvals := t_approvals d @ [r\<lparr>r_decided_at := None\<rparr>]\<rparr>)"
    and save_approval: "I t d \<Longrightarrow>
      I t (d\<lparr>t_approvals := update_where (approval_update_hits t r) (approval_update_row r) (t_approvals d)\<rparr>)"
    and add_decision: "I t d \<Longrightarrow> ad_tenant_id q = t \<Longrightarrow> ad_id q \<notin> ad_id ` set (t_decisions d) \<Longrightarrow>
      I t (d\<lparr>t_decisions := t_decisions d @ [q]\<rparr>)"
    and add_audit: "I t d \<Longrightarrow> au_tenant_id v = t \<Longrightarrow> au_id v \<notin> au_id ` set (t_audit d) \<Longrightarrow>
      I t (d\<lparr>t_audit := t_audit d @ [v]\<rparr>)"
begin

lemma keeps_insert_row:
  assumes "\<And>w. I t (w_db w) \<Longrightarrow> w_tenant w = t \<Longrightarrow> rt = t \<Longrightarrow> adm w \<Longrightarrow> I t (ins (w_db w))"
  shows "keeps (sess I t) (\<lambda>w. insert_row rt (adm w) ins w)"
  using assms by (simp add: keeps_def sess_def insert_row_def)

lemma keeps_cases_add: "keeps (sess I t) (cases_add c)"
  unfolding cases_add_def [abs_def] by (rule keeps_insert_row) (simp add: add_case)

lemma keeps_documents_add: "keeps (sess I t) (documents_add x)"
  unfolding documents_add_def [abs_def] by (rule keeps_insert_row) (simp add: add_document)

lemma keeps_artifacts_add: "keeps (sess I t) (artifacts_add a)"
  unfolding artifacts_add_def [abs_def] by (rule keeps_insert_row) (simp add: add_artifact)

lemma keeps_rework_add: "keeps (sess I t) (rework_events_add e)"
  unfolding rework_events_add_def [abs_def] by (rule keeps_insert_row) (simp add: add_rework)

lemma keeps_explanations_add: "keeps (sess I t) (explanations_add x')"
  unfolding explanations_add_def [abs_def] by (rule keeps_insert_row) (simp add: add_explanation)

lemma keeps_approvals_add: "keeps (sess I t) (approvals_add r)"
  unfolding approvals_add_def [abs_def] by (rule keeps_insert_row) (simp add: add_approval)

lemma keeps_add_decision: "keeps (sess I t) (approvals_add_decision q)"
  unfolding approvals_add_decision_def [abs_def] by (rule keeps_insert_row) (simp add: add_decision)

lemma keeps_audit_append: "keeps (sess I t) (audit_append v)"
  unfolding audit_append_def [abs_def] by (rule keeps_insert_row) (simp add: add_audit)

lemma keeps_enqueue: "keeps (sess I t) (notifications_enqueue j)"
  by (simp add: keeps_def sess_def notifications_enqueue_def insert_row_def add_job)

lemma keeps_cases_save: "keeps (sess I t) (cases_save c)"
  by (simp add: keeps_def sess_def cases_save_def Let_def save_case)

lemma keeps_approvals_save: "keeps (sess I t) (approvals_save r)"
  by (simp add: keeps_def sess_def approvals_save_def Let_def save_approval)

lemma keeps_mark_official: "keeps (sess I t) (artifacts_mark_official i)"
  by (simp add: keeps_def sess_def artifacts_mark_official_def mark_artifact)

lemma keeps_rework_void: "keeps (sess I t) (rework_events_void i u m at)"
  by (simp add: keeps_def sess_def rework_events_void_def void_rework)

lemma keeps_explanations_save: "keeps (sess I t) (explanations_save r')"
  by (simp add: keeps_def sess_def explanations_save_def save_explanation)

lemmas statement_rules = keeps_cases_add keeps_cases_save keeps_documents_add keeps_artifacts_add
  keeps_mark_official keeps_enqueue keeps_rework_add keeps_rework_void keeps_explanations_add
  keeps_explanations_save keeps_approvals_add keeps_approvals_save keeps_add_decision
  keeps_audit_append

end

text \<open>The run store and the executions of tools write too; the handlers of cases never call them.\<close>

locale repository_invariant = case_invariant +
  assumes add_run: "I t d \<Longrightarrow> wr_tenant_id s = t \<Longrightarrow> wr_id s \<notin> wr_id ` set (t_runs d) \<Longrightarrow>
      I t (d\<lparr>t_runs := t_runs d @ [s]\<rparr>)"
    and set_run: "I t d \<Longrightarrow>
      I t (d\<lparr>t_runs := update_where (run_hits t i) (run_status_row st j1 j2 ap) (t_runs d)\<rparr>)"
    and add_execution: "I t d \<Longrightarrow> te_tenant_id y = t \<Longrightarrow>
      te_id y \<notin> te_id ` set (t_tool_executions d) \<Longrightarrow>
      succeeded_key y = None \<or> succeeded_key y \<notin> succeeded_key ` set (t_tool_executions d) \<Longrightarrow>
      I t (d\<lparr>t_tool_executions := t_tool_executions d @ [y]\<rparr>)"
begin

lemma keeps_runs_insert: "keeps (sess I t) (runs_insert s)"
  unfolding runs_insert_def [abs_def] by (rule keeps_insert_row) (simp add: add_run)

lemma keeps_runs_update: "keeps (sess I t) (runs_update i st j1 j2 ap)"
  by (simp add: keeps_def sess_def runs_update_def set_run)

lemma keeps_tool_executions_insert: "keeps (sess I t) (tool_executions_insert y)"
  unfolding tool_executions_insert_def [abs_def] by (rule keeps_insert_row) (simp add: add_execution)

end

subsection \<open>First provider: tenant isolation\<close>

text \<open>Two databases agree on every row of the tenants other than \<open>t\<close>.\<close>

definition others_same :: "db \<Rightarrow> uuid \<Rightarrow> db \<Rightarrow> bool" where
  "others_same d0 t d =
     (filter (\<lambda>c. c_tenant_id c \<noteq> t) (t_cases d) = filter (\<lambda>c. c_tenant_id c \<noteq> t) (t_cases d0)
      \<and> filter (\<lambda>c. d_tenant_id c \<noteq> t) (t_documents d) = filter (\<lambda>c. d_tenant_id c \<noteq> t) (t_documents d0)
      \<and> filter (\<lambda>c. a_tenant_id c \<noteq> t) (t_artifacts d) = filter (\<lambda>c. a_tenant_id c \<noteq> t) (t_artifacts d0)
      \<and> filter (\<lambda>c. n_tenant_id c \<noteq> t) (t_jobs d) = filter (\<lambda>c. n_tenant_id c \<noteq> t) (t_jobs d0)
      \<and> filter (\<lambda>c. re_tenant_id c \<noteq> t) (t_rework_events d) = filter (\<lambda>c. re_tenant_id c \<noteq> t) (t_rework_events d0)
      \<and> filter (\<lambda>c. ex_tenant_id c \<noteq> t) (t_explanations d) = filter (\<lambda>c. ex_tenant_id c \<noteq> t) (t_explanations d0)
      \<and> filter (\<lambda>c. r_tenant_id c \<noteq> t) (t_approvals d) = filter (\<lambda>c. r_tenant_id c \<noteq> t) (t_approvals d0)
      \<and> filter (\<lambda>c. ad_tenant_id c \<noteq> t) (t_decisions d) = filter (\<lambda>c. ad_tenant_id c \<noteq> t) (t_decisions d0)
      \<and> filter (\<lambda>c. au_tenant_id c \<noteq> t) (t_audit d) = filter (\<lambda>c. au_tenant_id c \<noteq> t) (t_audit d0)
      \<and> filter (\<lambda>c. wr_tenant_id c \<noteq> t) (t_runs d) = filter (\<lambda>c. wr_tenant_id c \<noteq> t) (t_runs d0)
      \<and> filter (\<lambda>c. te_tenant_id c \<noteq> t) (t_tool_executions d) = filter (\<lambda>c. te_tenant_id c \<noteq> t) (t_tool_executions d0)
      \<and> t_memberships d = t_memberships d0)"

lemma filter_update_where:
  assumes "\<And>r. p r \<Longrightarrow> \<not> q r \<and> \<not> q (f r)"
  shows "filter q (update_where p f rows) = filter q rows"
  using assms by (induction rows) (auto simp: update_where_def)

lemma others_same_refl: "others_same d t d"
  by (simp add: others_same_def)

lemma filter_updates:
  "filter (\<lambda>r. c_tenant_id r \<noteq> t) (update_where (case_update_hits t c) (case_update_row c) cs)
     = filter (\<lambda>r. c_tenant_id r \<noteq> t) cs"
  "filter (\<lambda>r. a_tenant_id r \<noteq> t) (update_where (official_hits t i) official_row as)
     = filter (\<lambda>r. a_tenant_id r \<noteq> t) as"
  "filter (\<lambda>r. re_tenant_id r \<noteq> t) (update_where (void_hits t i) (void_row u m at) es)
     = filter (\<lambda>r. re_tenant_id r \<noteq> t) es"
  "filter (\<lambda>r. ex_tenant_id r \<noteq> t) (update_where (decision_hits t x) (decision_row x) xs)
     = filter (\<lambda>r. ex_tenant_id r \<noteq> t) xs"
  "filter (\<lambda>r. r_tenant_id r \<noteq> t) (update_where (approval_update_hits t q) (approval_update_row q) qs)
     = filter (\<lambda>r. r_tenant_id r \<noteq> t) qs"
  "filter (\<lambda>r. wr_tenant_id r \<noteq> t) (update_where (run_hits t i) (run_status_row st j1 j2 ap) rs)
     = filter (\<lambda>r. wr_tenant_id r \<noteq> t) rs"
  by (rule filter_update_where; simp add: case_update_hits_def case_update_row_def official_hits_def
      official_row_def void_hits_def void_row_def decision_hits_def decision_row_def
      approval_update_hits_def approval_update_row_def run_hits_def run_status_row_def)+

lemmas insert_row_defs = case_insert_row_def rework_insert_row_def explanation_insert_row_def

interpretation isolation: repository_invariant "others_same d0"
  by unfold_locales (simp_all add: others_same_def insert_row_defs filter_updates)

subsection \<open>Second provider: keys stay unique\<close>

definition keys_unique :: "uuid \<Rightarrow> db \<Rightarrow> bool" where
  "keys_unique t d =
     (distinct (map c_id (t_cases d)) \<and> distinct (map d_id (t_documents d))
      \<and> distinct (map a_id (t_artifacts d)) \<and> distinct (map artifact_key (t_artifacts d))
      \<and> distinct (map n_id (t_jobs d)) \<and> distinct (map n_idempotency_key (t_jobs d))
      \<and> distinct (map re_id (t_rework_events d)) \<and> distinct (map ex_id (t_explanations d))
      \<and> distinct (map r_id (t_approvals d)) \<and> distinct (map ad_id (t_decisions d))
      \<and> distinct (map au_id (t_audit d)) \<and> distinct (map wr_id (t_runs d))
      \<and> distinct (map te_id (t_tool_executions d))
      \<and> distinct (filter (\<lambda>k. k \<noteq> None) (map succeeded_key (t_tool_executions d))))"

lemma map_update_where: "(\<And>r. k (f r) = k r) \<Longrightarrow> map k (update_where p f rows) = map k rows"
  by (induction rows) (auto simp: update_where_def)

lemma map_updates:
  "map c_id (update_where p (case_update_row c) cs) = map c_id cs"
  "map a_id (update_where p2 official_row as) = map a_id as"
  "map artifact_key (update_where p2 official_row as) = map artifact_key as"
  "map re_id (update_where p3 (void_row u m at) es) = map re_id es"
  "map ex_id (update_where p4 (decision_row x) xs) = map ex_id xs"
  "map r_id (update_where p5 (approval_update_row q) qs) = map r_id qs"
  "map wr_id (update_where p6 (run_status_row st j1 j2 ap) rs) = map wr_id rs"
  by (rule map_update_where; simp add: case_update_row_def official_row_def void_row_def
      decision_row_def approval_update_row_def artifact_key_def run_status_row_def)+

interpretation keys: repository_invariant keys_unique
  by unfold_locales (auto simp: keys_unique_def insert_row_defs map_updates)

subsection \<open>Third provider: the record is append-only\<close>

text \<open>
  What was committed stays: every artifact with its content (only its status may be raised), every
  decision and audit entry, every returned case (only the void columns may be filled in), every
  explanation with what its author wrote, and a decided explanation entirely.
\<close>

definition artifact_core :: "PreparationArtifact \<Rightarrow> PreparationArtifact" where
  "artifact_core a = a\<lparr>a_status := AS_DRAFT\<rparr>"

definition explanation_core :: "ExplanationRecord \<Rightarrow> ExplanationRecord" where
  "explanation_core x = x\<lparr>ex_status := ES_PENDING, ex_decided_by := None, ex_decided_at := None,
     ex_decision_comment := ''''\<rparr>"

definition extends :: "'a list \<Rightarrow> 'a list \<Rightarrow> bool" where
  "extends xs ys = (take (length xs) ys = xs)"

definition record_kept :: "db \<Rightarrow> uuid \<Rightarrow> db \<Rightarrow> bool" where
  "record_kept d0 t d =
     (extends (map artifact_core (t_artifacts d0)) (map artifact_core (t_artifacts d))
      \<and> extends (t_documents d0) (t_documents d) \<and> extends (t_decisions d0) (t_decisions d)
      \<and> extends (t_audit d0) (t_audit d) \<and> extends (t_jobs d0) (t_jobs d)
      \<and> extends (t_tool_executions d0) (t_tool_executions d)
      \<and> extends (map rework_insert_row (t_rework_events d0)) (map rework_insert_row (t_rework_events d))
      \<and> extends (map explanation_core (t_explanations d0)) (map explanation_core (t_explanations d))
      \<and> (\<forall>x \<in> set (t_explanations d0). ex_status x \<noteq> ES_PENDING \<longrightarrow> x \<in> set (t_explanations d)))"

lemma extends_refl [simp]: "extends xs xs"
  by (simp add: extends_def)

lemma extends_snoc [simp]:
  assumes "extends xs ys"
  shows "extends xs (ys @ [y])"
proof -
  have "length xs \<le> length ys" using assms unfolding extends_def by (metis length_take min.cobounded1)
  then show ?thesis using assms by (simp add: extends_def)
qed

lemma record_kept_refl: "record_kept d t d"
  by (simp add: record_kept_def)

lemma map_core_updates:
  "map artifact_core (update_where p official_row as) = map artifact_core as"
  "map rework_insert_row (update_where p2 (void_row u m at) es) = map rework_insert_row es"
  "map explanation_core (update_where p3 (decision_row x) xs) = map explanation_core xs"
  by (rule map_update_where; simp add: official_row_def artifact_core_def rework_insert_row_def
      void_row_def explanation_core_def decision_row_def)+

lemma decided_explanation_stays:
  "x \<in> set xs \<Longrightarrow> ex_status x \<noteq> ES_PENDING \<Longrightarrow> x \<in> set (update_where (decision_hits t r) (decision_row r) xs)"
  by (force simp: update_where_def decision_hits_def)

interpretation history: repository_invariant "record_kept d0"
  by unfold_locales (auto simp: record_kept_def map_core_updates intro: decided_explanation_stays)

subsection \<open>Fourth provider: the run table\<close>

text \<open>The statements of the case repositories, and so the handlers of cases, leave the runs alone.\<close>

definition runs_are :: "WorkerRun list \<Rightarrow> uuid \<Rightarrow> db \<Rightarrow> bool" where
  "runs_are rs t d = (t_runs d = rs)"

interpretation run_table: case_invariant "runs_are rs" for rs
  by unfold_locales (simp_all add: runs_are_def)

section \<open>Atomicity\<close>

definition uncommitted :: "'a handler \<Rightarrow> bool" where
  "uncommitted m = (\<forall>w. w_committed (snd (m w)) = w_committed w)"

definition atomic :: "'a handler \<Rightarrow> bool" where
  "atomic m = (\<forall>w e w'. m w = (Inl e, w') \<longrightarrow> w_committed w' = w_committed w)"

named_theorems atomic_rules \<open>a handler that raises has committed nothing\<close>

lemma uncommitted_bind [atomic_rules]:
  "uncommitted m \<Longrightarrow> (\<And>x. uncommitted (f x)) \<Longrightarrow> uncommitted (act_bind m f)"
  by (simp add: uncommitted_def act_bind_def split: prod.splits sum.splits) (metis snd_conv)

lemma uncommitted_basic [atomic_rules]:
  "uncommitted (act_ret x)" "uncommitted (act_raise c s)" "uncommitted (act_get g)"
  "uncommitted (act_require b c s)" "uncommitted (act_some v c s)" "uncommitted (act_lift r)"
  by (simp_all add: uncommitted_def act_ret_def act_raise_def act_get_def act_require_def act_some_def
      act_lift_def split: option.splits)

lemma uncommitted_when [atomic_rules]: "uncommitted m \<Longrightarrow> uncommitted (act_when b m)"
  by (simp add: act_when_def uncommitted_basic)

lemma uncommitted_if [atomic_rules]:
  "uncommitted m \<Longrightarrow> uncommitted n \<Longrightarrow> uncommitted (if b then m else n)"
  by simp

lemma uncommitted_case_option [atomic_rules]:
  "uncommitted m \<Longrightarrow> (\<And>x. uncommitted (f x)) \<Longrightarrow> uncommitted (case v of None \<Rightarrow> m | Some x \<Rightarrow> f x)"
  by (cases v) auto

lemma uncommitted_Let [atomic_rules]: "(\<And>x. uncommitted (f x)) \<Longrightarrow> uncommitted (let x = v in f x)"
  by simp

lemma uncommitted_for [atomic_rules]: "(\<And>x. uncommitted (f x)) \<Longrightarrow> uncommitted (act_for xs f)"
  by (induction xs) (auto intro: atomic_rules)

lemma uncommitted_ports [atomic_rules]:
  "uncommitted (clock_now E)" "uncommitted (new_uuid E)" "uncommitted (put_object E k d ct)"
  "uncommitted (send_email E em)"
  using db_blind_ports [of E] by (simp_all add: db_blind_def uncommitted_def)

lemma uncommitted_statements [atomic_rules]:
  "uncommitted (cases_add c)" "uncommitted (cases_save c)" "uncommitted (documents_add x)"
  "uncommitted (artifacts_add a)" "uncommitted (artifacts_mark_official i)"
  "uncommitted (notifications_enqueue j)" "uncommitted (rework_events_add e)"
  "uncommitted (rework_events_void i u s at)" "uncommitted (explanations_add y)"
  "uncommitted (explanations_save y)" "uncommitted (approvals_add r)" "uncommitted (approvals_save r)"
  "uncommitted (approvals_add_decision q)" "uncommitted (audit_append v)"
  "uncommitted (runs_insert rn)" "uncommitted (runs_update i st j1 j2 ap)"
  "uncommitted (tool_executions_insert te)"
  by (simp_all add: runs_insert_def runs_update_def tool_executions_insert_def uncommitted_def cases_add_def cases_save_def documents_add_def artifacts_add_def
      artifacts_mark_official_def notifications_enqueue_def rework_events_add_def
      rework_events_void_def explanations_add_def explanations_save_def approvals_add_def
      approvals_save_def approvals_add_decision_def audit_append_def insert_row_def Let_def)

lemma uncommitted_queries [atomic_rules]:
  "uncommitted (cases_get i)" "uncommitted (documents_list_for_case i)" "uncommitted (artifacts_get i)"
  "uncommitted (artifacts_list_for_case i)" "uncommitted (artifacts_latest i ty)"
  "uncommitted (find_recipient_for_role s x)" "uncommitted (rework_events_get i)"
  "uncommitted (rework_events_list_for_creator u at)" "uncommitted (explanations_get i)"
  "uncommitted (explanations_has_approved_since u at)" "uncommitted (explanations_list_pending n)"
  "uncommitted (explanations_list_pending_overdue at)" "uncommitted (approvals_get i)"
  "uncommitted (approvals_list_pending n)" "uncommitted (runs_find i)"
  "uncommitted (tool_executions_find nm ky)"
  by (simp_all add: runs_find_def tool_executions_find_def uncommitted_basic cases_get_def documents_list_for_case_def artifacts_get_def
      artifacts_list_for_case_def artifacts_latest_def find_recipient_for_role_def
      rework_events_get_def rework_events_list_for_creator_def explanations_get_def
      explanations_has_approved_since_def explanations_list_pending_def
      explanations_list_pending_overdue_def approvals_get_def approvals_list_pending_def)

lemma atomic_bind_uncommitted [atomic_rules]:
  "uncommitted m \<Longrightarrow> (\<And>x. atomic (f x)) \<Longrightarrow> atomic (act_bind m f)"
  by (auto simp: atomic_def uncommitted_def act_bind_def split: prod.splits sum.splits)
    (metis snd_conv)+

lemma atomic_uncommitted: "uncommitted m \<Longrightarrow> atomic m"
  by (auto simp: atomic_def uncommitted_def) (metis snd_conv)

lemma atomic_commit_last [atomic_rules]: "atomic (act_bind commit (\<lambda>_. act_ret x))" "atomic commit"
  by (simp_all add: atomic_def act_bind_def commit_def act_ret_def)

lemma atomic_basic [atomic_rules]:
  "atomic (act_ret x)" "atomic (act_raise c s)"
  by (simp_all add: atomic_uncommitted uncommitted_basic)

lemma atomic_if [atomic_rules]: "atomic m \<Longrightarrow> atomic n \<Longrightarrow> atomic (if b then m else n)"
  by simp

lemma atomic_case_option [atomic_rules]:
  "atomic m \<Longrightarrow> (\<And>x. atomic (f x)) \<Longrightarrow> atomic (case v of None \<Rightarrow> m | Some x \<Rightarrow> f x)"
  by (cases v) auto

lemma atomic_Let [atomic_rules]: "(\<And>x. atomic (f x)) \<Longrightarrow> atomic (let x = v in f x)"
  by simp

lemma atomic_in_uow [atomic_rules]: "atomic m \<Longrightarrow> atomic (in_uow E t m)"
  by (auto simp: atomic_def in_uow_def Let_def split: prod.splits option.splits)

lemma atomic_in_uow_ret:
  "atomic m \<Longrightarrow> atomic (act_bind (in_uow E t m) (\<lambda>x. act_ret (g x)))"
  using atomic_in_uow [of m E t]
  by (auto simp: atomic_def act_bind_def act_ret_def split: prod.splits sum.splits)

lemma uncommitted_in_uow [atomic_rules]: "uncommitted m \<Longrightarrow> uncommitted (in_uow E t m)"
  by (simp add: uncommitted_def in_uow_def Let_def case_prod_beta split: option.splits)

section \<open>Version-checked saves\<close>

text \<open>
  The contract both version-checked repositories promise: a save by a writer that read the current
  version goes through and makes its version current; any other save raises a conflict.
\<close>

locale optimistic_repository =
  fixes get :: "uuid \<Rightarrow> 's \<Rightarrow> 'r option"
    and save :: "'r \<Rightarrow> ('s, unit) act"
    and ident :: "'r \<Rightarrow> uuid"
    and version :: "'r \<Rightarrow> int"
    and ok :: "'s \<Rightarrow> bool"
  assumes save_hit: "ok s \<Longrightarrow> get (ident r) s = Some r0 \<Longrightarrow> version r0 = version r - 1 \<Longrightarrow>
      \<exists>s' r1. save r s = (Inr (), s') \<and> ok s' \<and> get (ident r) s' = Some r1 \<and> version r1 = version r"
    and save_miss: "ok s \<Longrightarrow> get (ident r) s = Some r0 \<Longrightarrow> version r0 \<noteq> version r - 1 \<Longrightarrow>
      \<exists>m. fst (save r s) = Inl (Err ConflictError m)"
begin

text \<open>Of two writers that start from the same row, the second one is told.\<close>

lemma second_writer_conflicts:
  assumes "ok s" "get i s = Some r0" "ident ra = i" "ident rb = i"
    "version ra = version r0 + 1" "version rb = version r0 + 1" "save ra s = (Inr (), s')"
  shows "\<exists>m. fst (save rb s') = Inl (Err ConflictError m)"
proof -
  obtain r1 where "ok s'" "get i s' = Some r1" "version r1 = version ra"
    using save_hit [of s ra r0] assms by auto
  then show ?thesis using save_miss [of s' rb r1] assms by simp
qed

end

lemma find_filter: "find p (filter q xs) = find (\<lambda>x. q x \<and> p x) xs"
  by (induction xs) auto

lemma find_update_where:
  assumes "distinct (map k rows)" "find (\<lambda>r. q r \<and> k r = i) rows = Some r0" "h r0"
    "\<And>r. k (f r) = k r" "\<And>r. q (f r) = q r"
  shows "find (\<lambda>r. q r \<and> k r = i) (update_where (\<lambda>r. q r \<and> k r = i \<and> h r) f rows) = Some (f r0)
    \<and> length (filter (\<lambda>r. q r \<and> k r = i \<and> h r) rows) = 1"
  using assms(1,2)
proof (induction rows)
  case (Cons a rows)
  have "filter (\<lambda>r. q r \<and> k r = i \<and> h r) rows = []" if "k a = i"
    using Cons.prems(1) that by (auto simp: filter_empty_conv image_iff)
  then show ?case
    using Cons assms(3-5) by (auto simp: update_where_def split: if_splits)
qed simp

lemma no_hits:
  assumes "distinct (map k rows)" "find (\<lambda>r. q r \<and> k r = i) rows = Some r0" "\<not> h r0"
  shows "filter (\<lambda>r. q r \<and> k r = i \<and> h r) rows = []"
proof -
  have "r = r0" if "r \<in> set rows" "k r = i" for r
    using assms(1,2) that find_Some_in [OF assms(2)] by (auto simp: distinct_map inj_on_def)
  then show ?thesis using assms(3) by (auto simp: filter_empty_conv)
qed

text \<open>The case repository and the approval repository are both providers.\<close>

definition get_case :: "uuid \<Rightarrow> world \<Rightarrow> PreparationCase option" where
  "get_case i w = find (\<lambda>c. c_id c = i) (case_visible w)"

definition get_approval :: "uuid \<Rightarrow> world \<Rightarrow> ApprovalRequest option" where
  "get_approval i w = find (\<lambda>r. r_id r = i) (approval_visible w)"

lemma cases_save_hit:
  assumes "distinct (map c_id (t_cases (w_db w)))" "get_case (c_id c) w = Some c0"
    "c_version c0 = c_version c - 1"
  shows "cases_save c w = (Inr (), w\<lparr>w_db := (w_db w)\<lparr>t_cases :=
      update_where (case_update_hits (w_tenant w) c) (case_update_row c) (t_cases (w_db w))\<rparr>\<rparr>)"
    and "get_case (c_id c) (snd (cases_save c w)) = Some (case_update_row c c0)"
proof -
  have hits: "case_update_hits (w_tenant w) c = (\<lambda>r. c_tenant_id r = w_tenant w \<and> c_id r = c_id c
      \<and> c_version r = c_version c - 1)"
    by (rule ext) (simp add: case_update_hits_def)
  have "find (\<lambda>r. c_tenant_id r = w_tenant w \<and> c_id r = c_id c) (t_cases (w_db w)) = Some c0"
    using assms(2) by (simp add: get_case_def case_visible_def find_filter)
  note upd = find_update_where [OF assms(1) this, of "\<lambda>r. c_version r = c_version c - 1"
      "case_update_row c", OF assms(3)]
  then show "cases_save c w = (Inr (), w\<lparr>w_db := (w_db w)\<lparr>t_cases :=
      update_where (case_update_hits (w_tenant w) c) (case_update_row c) (t_cases (w_db w))\<rparr>\<rparr>)"
    by (simp add: cases_save_def Let_def hits case_update_row_def)
  with upd show "get_case (c_id c) (snd (cases_save c w)) = Some (case_update_row c c0)"
    by (simp add: get_case_def case_visible_def find_filter hits case_update_row_def)
qed

lemma cases_save_miss:
  assumes "distinct (map c_id (t_cases (w_db w)))" "get_case (c_id c) w = Some c0"
    "c_version c0 \<noteq> c_version c - 1"
  shows "fst (cases_save c w) = Inl (Err ConflictError ''preparation case was modified concurrently'')"
proof -
  have hits: "case_update_hits (w_tenant w) c = (\<lambda>r. c_tenant_id r = w_tenant w \<and> c_id r = c_id c
      \<and> c_version r = c_version c - 1)"
    by (rule ext) (simp add: case_update_hits_def)
  have "find (\<lambda>r. c_tenant_id r = w_tenant w \<and> c_id r = c_id c) (t_cases (w_db w)) = Some c0"
    using assms(2) by (simp add: get_case_def case_visible_def find_filter)
  from no_hits [OF assms(1) this, of "\<lambda>r. c_version r = c_version c - 1"] assms(3)
  show ?thesis by (simp add: cases_save_def Let_def hits)
qed

lemma approval_hits_eq: "approval_update_hits t r = (\<lambda>q. r_tenant_id q = t \<and> r_id q = r_id r
    \<and> r_version q = r_version r - 1)"
  by (rule ext) (simp add: approval_update_hits_def)

lemma approvals_save_hit:
  assumes "distinct (map r_id (t_approvals (w_db w)))" "get_approval (r_id r) w = Some r0"
    "r_version r0 = r_version r - 1"
  shows "approvals_save r w = (Inr (), w\<lparr>w_db := (w_db w)\<lparr>t_approvals :=
      update_where (approval_update_hits (w_tenant w) r) (approval_update_row r) (t_approvals (w_db w))\<rparr>\<rparr>)"
    and "get_approval (r_id r) (snd (approvals_save r w)) = Some (approval_update_row r r0)"
proof -
  have "find (\<lambda>q. r_tenant_id q = w_tenant w \<and> r_id q = r_id r) (t_approvals (w_db w)) = Some r0"
    using assms(2) by (simp add: get_approval_def approval_visible_def find_filter)
  note upd = find_update_where [OF assms(1) this, of "\<lambda>q. r_version q = r_version r - 1"
      "approval_update_row r", OF assms(3)]
  then show "approvals_save r w = (Inr (), w\<lparr>w_db := (w_db w)\<lparr>t_approvals :=
      update_where (approval_update_hits (w_tenant w) r) (approval_update_row r) (t_approvals (w_db w))\<rparr>\<rparr>)"
    by (simp add: approvals_save_def Let_def approval_hits_eq approval_update_row_def)
  with upd show "get_approval (r_id r) (snd (approvals_save r w)) = Some (approval_update_row r r0)"
    by (simp add: get_approval_def approval_visible_def find_filter approval_hits_eq
        approval_update_row_def)
qed

lemma approvals_save_miss:
  assumes "distinct (map r_id (t_approvals (w_db w)))" "get_approval (r_id r) w = Some r0"
    "r_version r0 \<noteq> r_version r - 1"
  shows "fst (approvals_save r w) = Inl (Err ConflictError ''approval request was modified concurrently'')"
proof -
  have "find (\<lambda>q. r_tenant_id q = w_tenant w \<and> r_id q = r_id r) (t_approvals (w_db w)) = Some r0"
    using assms(2) by (simp add: get_approval_def approval_visible_def find_filter)
  from no_hits [OF assms(1) this, of "\<lambda>q. r_version q = r_version r - 1"] assms(3)
  show ?thesis by (simp add: approvals_save_def Let_def approval_hits_eq)
qed

interpretation case_repo: optimistic_repository get_case cases_save c_id c_version
  "\<lambda>w. distinct (map c_id (t_cases (w_db w)))"
proof (unfold_locales, goal_cases)
  case (1 w c c0)
  then show ?case
    using cases_save_hit [OF 1] by (auto simp: map_updates case_update_row_def)
next
  case (2 w c c0)
  then show ?case using cases_save_miss by blast
qed

interpretation approval_repo: optimistic_repository get_approval approvals_save r_id r_version
  "\<lambda>w. distinct (map r_id (t_approvals (w_db w)))"
proof (unfold_locales, goal_cases)
  case (1 w r r0)
  then show ?case
    using approvals_save_hit [OF 1] by (auto simp: map_updates approval_update_row_def)
next
  case (2 w r r0)
  then show ?case using approvals_save_miss by blast
qed

section \<open>Inversion of a run that returned\<close>

text \<open>What is known of a computation that returned a value, statement by statement.\<close>

named_theorems run_simps \<open>a returned run, decomposed into its statements\<close>

lemma run_bind [run_simps]:
  "act_bind m f w = (Inr r, w') \<longleftrightarrow> (\<exists>x v. m w = (Inr x, v) \<and> f x v = (Inr r, w'))"
  by (auto simp: act_bind_def split: prod.splits sum.splits)

lemma run_basic [run_simps]:
  "act_ret x w = (Inr r, w') \<longleftrightarrow> r = x \<and> w' = w"
  "act_raise c s w = (Inr r, w') \<longleftrightarrow> False"
  "act_get g w = (Inr r, w') \<longleftrightarrow> r = g w \<and> w' = w"
  "act_require b c s w = (Inr u, w') \<longleftrightarrow> b \<and> w' = w"
  "act_some v c s w = (Inr r, w') \<longleftrightarrow> v = Some r \<and> w' = w"
  "act_lift q w = (Inr r, w') \<longleftrightarrow> q = Inr r \<and> w' = w"
  by (auto simp: act_ret_def act_raise_def act_get_def act_require_def act_some_def act_lift_def
      split: option.splits)

lemma run_when [run_simps]:
  "act_when b m w = (Inr u, w') \<longleftrightarrow> (if b then m w = (Inr u, w') else w' = w)"
  by (simp add: act_when_def act_ret_def eq_commute)

lemma run_if [run_simps]:
  "(if b then m else n) w = (Inr r, w') \<longleftrightarrow> (if b then m w = (Inr r, w') else n w = (Inr r, w'))"
  by simp

lemma run_ports [run_simps]:
  "clock_now E w = (Inr t, w') \<longleftrightarrow> t = env_clock E (w_ticks w) \<and> w' = w\<lparr>w_ticks := Suc (w_ticks w)\<rparr>"
  "new_uuid E w = (Inr i, w') \<longleftrightarrow> i = env_ids E (w_fresh w) \<and> w' = w\<lparr>w_fresh := Suc (w_fresh w)\<rparr>"
  "commit w = (Inr u, w') \<longleftrightarrow> w' = w\<lparr>w_committed := w_db w\<rparr>"
  by (auto simp: clock_now_def new_uuid_def commit_def)

lemma run_put_object [run_simps]:
  "put_object E k d ct w = (Inr r, w') \<longleftrightarrow> env_put E (w_calls w) k d ct = Inr r
     \<and> w' = w\<lparr>w_calls := Suc (w_calls w), w_blobs := (k, d) # w_blobs w\<rparr>"
  by (auto simp: put_object_def split: sum.splits)

lemma run_send_email [run_simps]:
  "send_email E m w = (Inr r, w') \<longleftrightarrow> env_send E (w_calls w) m = Inr r
     \<and> w' = w\<lparr>w_calls := Suc (w_calls w), w_emails := m # w_emails w\<rparr>"
  by (auto simp: send_email_def split: sum.splits)

lemma run_insert_row [run_simps]:
  "insert_row rt adm ins w = (Inr u, w') \<longleftrightarrow>
     rt = w_tenant w \<and> adm \<and> w' = w\<lparr>w_db := ins (w_db w)\<rparr>"
  by (auto simp: insert_row_def)

lemma run_queries [run_simps]:
  "cases_get i w = (Inr c, w') \<longleftrightarrow> c = get_case i w \<and> w' = w"
  "approvals_get i w = (Inr q, w') \<longleftrightarrow> q = get_approval i w \<and> w' = w"
  "artifacts_latest i ty w = (Inr a, w') \<longleftrightarrow> a = latest_artifact i ty w \<and> w' = w"
  by (auto simp: cases_get_def approvals_get_def artifacts_latest_def act_get_def get_case_def
      get_approval_def)

lemma run_in_uow [run_simps]:
  "in_uow E t body w = (Inr r, w') \<longleftrightarrow> env_connect E (w_calls w) = None
     \<and> (\<exists>v. body (session_start t w) = (Inr r, v) \<and> w' = v\<lparr>w_db := w_committed v\<rparr>)"
  by (auto simp: in_uow_def session_start_def Let_def split: option.splits prod.splits)

lemma run_cases_save [run_simps]:
  "cases_save c w = (Inr u, w') \<longleftrightarrow>
     length (filter (case_update_hits (w_tenant w) c) (t_cases (w_db w))) = 1
     \<and> w' = w\<lparr>w_db := (w_db w)\<lparr>t_cases :=
          update_where (case_update_hits (w_tenant w) c) (case_update_row c) (t_cases (w_db w))\<rparr>\<rparr>"
  by (auto simp: cases_save_def Let_def)

lemma run_approvals_save [run_simps]:
  "approvals_save r w = (Inr u, w') \<longleftrightarrow>
     length (filter (approval_update_hits (w_tenant w) r) (t_approvals (w_db w))) = 1
     \<and> w' = w\<lparr>w_db := (w_db w)\<lparr>t_approvals :=
          update_where (approval_update_hits (w_tenant w) r) (approval_update_row r) (t_approvals (w_db w))\<rparr>\<rparr>"
  by (auto simp: approvals_save_def Let_def)

lemma run_updates [run_simps]:
  "explanations_save r w = (Inr u, w') \<longleftrightarrow> w' = w\<lparr>w_db := (w_db w)\<lparr>t_explanations :=
     update_where (decision_hits (w_tenant w) r) (decision_row r) (t_explanations (w_db w))\<rparr>\<rparr>"
  "rework_events_void i b n at w = (Inr u, w') \<longleftrightarrow> w' = w\<lparr>w_db := (w_db w)\<lparr>t_rework_events :=
     update_where (void_hits (w_tenant w) i) (void_row b n at) (t_rework_events (w_db w))\<rparr>\<rparr>"
  by (auto simp: explanations_save_def rework_events_void_def)

lemma session_start_sel [simp]:
  "w_tenant (session_start t w) = t" "w_db (session_start t w) = w_committed w"
  "w_committed (session_start t w) = w_committed w" "w_ticks (session_start t w) = w_ticks w"
  "w_fresh (session_start t w) = w_fresh w" "w_calls (session_start t w) = Suc (w_calls w)"
  "w_emails (session_start t w) = w_emails w" "w_blobs (session_start t w) = w_blobs w"
  by (simp_all add: session_start_def)

lemma run_more_queries [run_simps]:
  "documents_list_for_case i w = (Inr ds, w') \<longleftrightarrow>
     ds = filter (\<lambda>d. d_tenant_id d = w_tenant w \<and> d_case_id d = i) (t_documents (w_db w)) \<and> w' = w"
  "artifacts_list_for_case i w = (Inr as, w') \<longleftrightarrow>
     as = filter (\<lambda>a. a_case_id a = i) (artifact_visible w) \<and> w' = w"
  "find_recipient_for_role role ex w = (Inr u, w') \<longleftrightarrow>
     u = map_option mb_user_id (find (\<lambda>m. mb_tenant_id m = w_tenant w \<and> role \<in> set (mb_role_keys m)
           \<and> Some (mb_user_id m) \<noteq> ex) (t_memberships (w_db w))) \<and> w' = w"
  by (auto simp: documents_list_for_case_def artifacts_list_for_case_def find_recipient_for_role_def
      act_get_def)

text \<open>What an insert that went through did, with as much detail as most proofs need.\<close>

named_theorems frames \<open>the table a statement extends\<close>

lemma enqueue_frame [frames]:
  "notifications_enqueue j w = (Inr u, w') \<Longrightarrow> n_tenant_id j = w_tenant w \<and>
     (\<exists>js. set js \<subseteq> {j} \<and> w' = w\<lparr>w_db := (w_db w)\<lparr>t_jobs := t_jobs (w_db w) @ js\<rparr>\<rparr>)"
  by (cases "n_idempotency_key j \<in> n_idempotency_key ` set (t_jobs (w_db w))")
    (auto simp: notifications_enqueue_def insert_row_def intro: exI [of _ "[]"] exI [of _ "[j]"]
      split: if_splits)

lemma enqueue_new:
  "notifications_enqueue j w = (Inr u, w') \<Longrightarrow> n_idempotency_key j \<notin> n_idempotency_key ` set (t_jobs (w_db w)) \<Longrightarrow>
     t_jobs (w_db w') = t_jobs (w_db w) @ [j]"
  by (auto simp: notifications_enqueue_def insert_row_def split: if_splits)

lemma documents_add_frame [frames]:
  "documents_add d w = (Inr u, w') \<Longrightarrow> d_tenant_id d = w_tenant w
     \<and> w' = w\<lparr>w_db := (w_db w)\<lparr>t_documents := t_documents (w_db w) @ [d]\<rparr>\<rparr>"
  by (simp add: documents_add_def run_simps)

lemma artifacts_add_frame [frames]:
  "artifacts_add a w = (Inr u, w') \<Longrightarrow> a_tenant_id a = w_tenant w
     \<and> w' = w\<lparr>w_db := (w_db w)\<lparr>t_artifacts := t_artifacts (w_db w) @ [a]\<rparr>\<rparr>"
  by (simp add: artifacts_add_def run_simps)

lemma cases_add_frame [frames]:
  "cases_add c w = (Inr u, w') \<Longrightarrow> c_id c \<notin> c_id ` set (t_cases (w_db w))
     \<and> w' = w\<lparr>w_db := (w_db w)\<lparr>t_cases := t_cases (w_db w) @ [case_insert_row c]\<rparr>\<rparr>"
  by (simp add: cases_add_def run_simps)

lemma rework_add_frame [frames]:
  "rework_events_add e w = (Inr u, w') \<Longrightarrow>
     w' = w\<lparr>w_db := (w_db w)\<lparr>t_rework_events := t_rework_events (w_db w) @ [rework_insert_row e]\<rparr>\<rparr>"
  by (simp add: rework_events_add_def run_simps)

lemma get_case_Some:
  "get_case i w = Some c \<Longrightarrow> c \<in> set (t_cases (w_db w)) \<and> c_id c = i \<and> c_tenant_id c = w_tenant w"
  by (auto simp: get_case_def case_visible_def dest!: find_Some_in)

text \<open>
  After a save that went through, the saved case is in the table: the columns the update does not
  set are those the methods of the aggregate never change.
\<close>

definition same_fixed_columns :: "PreparationCase \<Rightarrow> PreparationCase \<Rightarrow> bool" where
  "same_fixed_columns c c' = (case_update_row c' c = c')"

lemma saved_case_in_table:
  assumes "c \<in> set rows" "c_tenant_id c = t" "c_id c' = c_id c" "c_version c' = c_version c + 1"
    "same_fixed_columns c c'"
  shows "c' \<in> set (update_where (case_update_hits t c') (case_update_row c') rows)"
proof -
  have "case_update_row c' c = c'" using assms(5) by (simp add: same_fixed_columns_def)
  then show ?thesis
    using assms(1-4) by (force simp: update_where_def case_update_hits_def)
qed

lemma apply_case_op_fixed_columns:
  "apply_case_op opr c = Inr c' \<Longrightarrow> same_fixed_columns c c'"
  by (cases opr) (auto simp: same_fixed_columns_def case_update_row_def case_method_defs advance_def
      case_moved_def split: if_splits option.splits)

lemma saved_op_in_table:
  assumes "get_case i w = Some c" "apply_case_op opr c = Inr c'"
  shows "c' \<in> set (update_where (case_update_hits (w_tenant w) c') (case_update_row c') (t_cases (w_db w)))"
  using saved_case_in_table [of c "t_cases (w_db w)" "w_tenant w" c'] get_case_Some [OF assms(1)]
    apply_case_op_frame [OF assms(2)] apply_case_op_fixed_columns [OF assms(2)]
  by simp

lemmas [evaluation] = in_uow_def commit_def clock_now_def new_uuid_def put_object_def send_email_def
  insert_row_def update_where_def cases_add_def cases_get_def case_visible_def cases_save_def
  case_update_hits_def documents_add_def case_exists_def documents_list_for_case_def artifacts_add_def
  artifact_visible_def artifact_key_def artifacts_latest_def latest_artifact_def artifacts_list_for_case_def
  find_recipient_for_role_def notifications_enqueue_def rework_events_add_def

end
