(* ===== verification/DW_Rework_App.thy ===== *)
theory DW_Rework_App
  imports DW_Store_Laws
begin

text \<open>
  The application layer around the rework ladder: the wording (\<open>rework_wording.py\<close>), the guard
  that can stop someone from filing new work (\<open>rework_guard.py\<close>), the recording of a returned
  case inside the caller's transaction (\<open>rework_recording.py\<close>) and the handlers of
  \<open>rework_handlers.py\<close>. The last part shows that the guard fails open, what lifts a block, and
  that each handler keeps every repository invariant.
\<close>

section \<open>Wording\<close>

definition support_headline :: "ReworkAssessment \<Rightarrow> json" where
  "support_headline a =
     (if as_level a = SL_BLOCK
      then JText ''support_headline_block'' [int_str (as_block_count a), int_str (as_block_window_days a)]
      else if as_level a = SL_NUDGE
      then JText ''support_headline_nudge'' [int_str (as_nudge_count a), int_str (as_nudge_window_days a)]
      else JStr '''')"

definition support_lines :: "ReworkAssessment \<Rightarrow> json list" where
  "support_lines a =
     (if as_level a = SL_NONE then []
      else (if as_top_reason_label a \<noteq> '''' then [JText ''most_common'' [as_top_reason_label a]] else [])
           @ (if as_guidance a \<noteq> '''' then [JStr (as_guidance a)] else [])
           @ (if as_level a = SL_BLOCK then [JText ''describe_to_continue'' []]
              else [JText ''describe_if_stuck'' []]))"

definition explanation_prompt :: "ReworkAssessment \<Rightarrow> json" where
  "explanation_prompt a =
     (if as_level a = SL_BLOCK then JText ''explanation_prompt_block'' []
      else JText ''explanation_prompt_nudge'' [])"

definition blocked_message :: "ReworkAssessment \<Rightarrow> json" where
  "blocked_message a =
     JText ''blocked_message'' [int_str (as_block_count a), int_str (as_block_window_days a)]"

definition supporter_lines :: "ReworkAssessment \<Rightarrow> json \<Rightarrow> json list" where
  "supporter_lines a creator_label =
     [JArr [creator_label,
            JText ''supporter_count'' [int_str (as_block_count a), int_str (as_block_window_days a)]]]
     @ (if as_top_reason_label a \<noteq> '''' then [JText ''most_common'' [as_top_reason_label a]] else [])
     @ [JText ''supporter_please_help'' []]"

definition escalation_lines :: "ReworkAssessment \<Rightarrow> json \<Rightarrow> json list" where
  "escalation_lines a creator_label =
     [JArr [creator_label, JText ''nobody_has_read'' []], JText ''please_assign'' []]"

section \<open>The guard\<close>

definition event_view :: "ReworkEvent \<Rightarrow> ReworkEventView" where
  "event_view e = \<lparr>ev_event_id = re_id e, ev_occurred_at = re_occurred_at e,
     ev_reason_code = re_reason_code e, ev_checkpoint = checkpoint_value (re_checkpoint e),
     ev_voided = event_voided e\<rparr>"

text \<open>What is left of a block once somebody has approved an explanation.\<close>

definition lifted :: "ReworkAssessment \<Rightarrow> ReworkAssessment" where
  "lifted a = a\<lparr>as_available := True,
     as_level := (if as_nudge_count a \<noteq> 0 then SL_NUDGE else SL_NONE)\<rparr>"

definition guard_assess_inner ::
  "env \<Rightarrow> ReworkSupportRules \<Rightarrow> AccessContext \<Rightarrow> ReworkAssessment handler" where
  "guard_assess_inner E rules x =
     act_bind (clock_now E) (\<lambda>at.
     let since = at - timedelta_days (max (rr_nudge_window_days rules) (rr_block_window_days rules))
     in in_uow E (x_tenant_id x)
          (act_bind (rework_events_list_for_creator (x_principal_id x) since) (\<lambda>events.
           let assessment = assess_rework (map event_view events) at rules
           in if as_level assessment \<noteq> SL_BLOCK then act_ret assessment
              else act_bind (explanations_has_approved_since (x_principal_id x) since) (\<lambda>approved.
                   if approved then act_ret (lifted assessment) else act_ret assessment))))"

text \<open>\<open>assess\<close> turns every exception into \<open>unavailable\<close>.\<close>

definition guard_assess ::
  "env \<Rightarrow> ReworkSupportRules \<Rightarrow> AccessContext \<Rightarrow> ReworkAssessment handler" where
  "guard_assess E rules x w =
     (if \<not> rules_is_enabled rules then (Inr (assessment_disabled rules), w)
      else case guard_assess_inner E rules x w of
             (Inl _, w') \<Rightarrow> (Inr (assessment_unavailable (Some rules)), w')
           | (Inr a, w') \<Rightarrow> (Inr a, w'))"

definition require_not_blocked :: "env \<Rightarrow> ReworkSupportRules \<Rightarrow> AccessContext \<Rightarrow> unit handler" where
  "require_not_blocked E rules x =
     act_bind (guard_assess E rules x) (\<lambda>a.
     if as_level a \<noteq> SL_BLOCK then act_ret ()
     else act_raise ConflictError (env_text E (blocked_message a)))"

text \<open>\<open>if self.rework_guard is not None: await self.rework_guard.require_not_blocked(context)\<close>.\<close>

definition guard_if_wired :: "env \<Rightarrow> ReworkSupportRules option \<Rightarrow> AccessContext \<Rightarrow> unit handler" where
  "guard_if_wired E rules x =
     (case rules of None \<Rightarrow> act_ret () | Some r \<Rightarrow> require_not_blocked E r x)"

section \<open>Recording a returned case\<close>

definition FALLBACK_REASON_CODE :: string where
  "FALLBACK_REASON_CODE = ''other''"

definition normalise_reason_code :: "string \<Rightarrow> ReworkSupportRules \<Rightarrow> string result" where
  "normalise_reason_code reason_code rules =
     (let code = py_strip reason_code
      in if code = '''' then Inr FALLBACK_REASON_CODE
         else if \<not> is_known rules code then Inl (Err DomainError ''unknown rework reason code'')
         else Inr code)"

definition record_rework_event ::
  "env \<Rightarrow> PreparationCase \<Rightarrow> uuid \<Rightarrow> ReworkCheckpoint \<Rightarrow> string \<Rightarrow> string \<Rightarrow> ReworkSupportRules
    \<Rightarrow> ReworkEvent option handler" where
  "record_rework_event E c decided_by checkpoint reason_code reason_text rules =
     (if \<not> rules_is_enabled rules then act_ret None
      else let txt = py_strip reason_text in
        act_bind (act_require (txt \<noteq> '''') DomainError ''returning a case requires a reason'') (\<lambda>_.
        act_bind (new_uuid E) (\<lambda>i.
        act_bind (act_lift (normalise_reason_code reason_code rules)) (\<lambda>code.
        act_bind (clock_now E) (\<lambda>at.
        act_bind (act_lift (mk_ReworkEvent i (c_tenant_id c) (c_workspace_id c) (c_id c)
                    (c_created_by c) decided_by checkpoint code txt (rr_policy_version rules)
                    (Aware at))) (\<lambda>event.
        act_bind (rework_events_add event) (\<lambda>_.
        act_ret (Some event))))))))"

section \<open>Handlers\<close>

definition authorize :: "AccessContext \<Rightarrow> string \<Rightarrow> unit handler" where
  "authorize x action = act_lift (require_action x action)"

definition assess_rework_support ::
  "env \<Rightarrow> ReworkSupportRules \<Rightarrow> AccessContext \<Rightarrow> ReworkAssessment handler" where
  "assess_rework_support E rules x = guard_assess E rules x"

record SubmitExplanationCommand =
  se_context_text :: string
  se_difficulty_text :: string
  se_support_request_text :: string
  se_case_id :: "uuid option"

definition submit_explanation ::
  "env \<Rightarrow> ReworkSupportRules \<Rightarrow> SubmitExplanationCommand \<Rightarrow> AccessContext \<Rightarrow> uuid handler" where
  "submit_explanation E rules cmd x =
     act_bind (authorize x ''tender.write'') (\<lambda>_.
     let txt = py_strip (se_context_text cmd) in
     act_bind (act_require (\<not> int (length txt) < rr_explanation_min_chars rules) DomainError
                 (env_text E (JText ''explanation_too_short'' []))) (\<lambda>_.
     act_bind (guard_assess E rules x) (\<lambda>assessment.
     act_bind (clock_now E) (\<lambda>at.
     act_bind (new_uuid E) (\<lambda>i.
     act_bind (act_lift (mk_ExplanationRecord
        \<lparr>ex_id = i, ex_tenant_id = x_tenant_id x, ex_workspace_id = x_workspace_id x,
         ex_case_id = se_case_id cmd, ex_creator_user_id = x_principal_id x,
         ex_context_text = txt, ex_difficulty_text = py_strip (se_difficulty_text cmd),
         ex_support_request_text = py_strip (se_support_request_text cmd),
         ex_policy_version = as_policy_version assessment, ex_submitted_at = at,
         ex_counted_event_ids = as_counted_event_ids assessment,
         ex_nudge_count = as_nudge_count assessment, ex_block_count = as_block_count assessment,
         ex_top_reason_code = (case as_top_reason_code assessment of Some c \<Rightarrow> c | None \<Rightarrow> ''''),
         ex_status = ES_PENDING, ex_decided_by = None, ex_decided_at = None,
         ex_decision_comment = ''''\<rparr>)) (\<lambda>rec.
     act_bind (in_uow E (x_tenant_id x)
       (act_bind (explanations_add rec) (\<lambda>_.
        act_bind
          (case se_case_id cmd of
             None \<Rightarrow> act_ret ()
           | Some cid \<Rightarrow>
               act_when (as_level assessment = SL_BLOCK)
                 (act_bind (find_recipient_for_role (rr_supporter_role rules)
                              (Some (x_principal_id x))) (\<lambda>recipient.
                  case recipient of
                    None \<Rightarrow> act_ret ()
                  | Some u \<Rightarrow>
                      act_bind (new_uuid E) (\<lambda>j.
                      notifications_enqueue
                        (new_job j (x_tenant_id x) (x_workspace_id x) cid
                           NT_REWORK_SUPPORT_REQUIRED u at (''dw01:rework:explanation:'' @ ex_id rec)
                           [(''explanation_id'', JStr (ex_id rec)),
                            (''lines'', JArr (supporter_lines assessment (JText ''case_creator'' []))),
                            (''block_count'', JInt (as_block_count assessment))])))))
          (\<lambda>_. commit)))) (\<lambda>_.
     act_ret (ex_id rec))))))))"

text \<open>The second of the two checks on deciding explanations.\<close>

definition require_supporter :: "env \<Rightarrow> ReworkSupportRules \<Rightarrow> AccessContext \<Rightarrow> string \<Rightarrow> unit handler" where
  "require_supporter E rules x key =
     act_require (\<not> (rr_supporter_role rules \<noteq> '''' \<and> rr_supporter_role rules \<notin> x_roles x))
       ConflictError (env_text E (JText key []))"

definition list_pending_explanations ::
  "env \<Rightarrow> ReworkSupportRules \<Rightarrow> AccessContext \<Rightarrow> ExplanationRecord list handler" where
  "list_pending_explanations E rules x =
     act_bind (authorize x ''approvals.decide'') (\<lambda>_.
     act_bind (require_supporter E rules x ''list_for_other_role'') (\<lambda>_.
     in_uow E (x_tenant_id x) (explanations_list_pending 50)))"

definition decide_explanation_handler ::
  "env \<Rightarrow> ReworkSupportRules \<Rightarrow> uuid \<Rightarrow> bool \<Rightarrow> string \<Rightarrow> AccessContext \<Rightarrow> unit handler" where
  "decide_explanation_handler E rules i approve comment x =
     act_bind (authorize x ''approvals.decide'') (\<lambda>_.
     act_bind (require_supporter E rules x ''explanation_for_other_role'') (\<lambda>_.
     in_uow E (x_tenant_id x)
       (act_bind (explanations_get i) (\<lambda>found.
        act_bind (act_some found NotFoundError ''explanation not found'') (\<lambda>rec.
        act_bind (clock_now E) (\<lambda>at.
        act_bind (act_lift (decide_explanation rec approve (x_principal_id x) (Aware at) comment)) (\<lambda>rec'.
        act_bind (explanations_save rec') (\<lambda>_.
        commit))))))))"

definition void_rework_event :: "env \<Rightarrow> uuid \<Rightarrow> string \<Rightarrow> AccessContext \<Rightarrow> unit handler" where
  "void_rework_event E i why x =
     act_bind (authorize x ''approvals.decide'') (\<lambda>_.
     let note = py_strip why in
     act_bind (act_require (note \<noteq> '''') DomainError ''undoing a recorded return requires a reason'') (\<lambda>_.
     in_uow E (x_tenant_id x)
       (act_bind (rework_events_get i) (\<lambda>found.
        act_bind (act_some found NotFoundError ''rework event not found'') (\<lambda>event.
        act_bind (act_require (\<not> event_voided event) ConflictError
                    ''this record has already been corrected'') (\<lambda>_.
        act_bind (clock_now E) (\<lambda>at.
        act_bind (rework_events_void i (x_principal_id x) note at) (\<lambda>_.
        commit))))))))"

fun escalate_each :: "env \<Rightarrow> datetime \<Rightarrow> ExplanationRecord list \<Rightarrow> int \<Rightarrow> int handler" where
  "escalate_each E at [] n = act_ret n"
| "escalate_each E at (rec # rest) n =
     (case ex_case_id rec of
        None \<Rightarrow> escalate_each E at rest n
      | Some cid \<Rightarrow>
          act_bind (find_recipient_for_role ''platform_admin'' (Some (ex_creator_user_id rec))) (\<lambda>recipient.
          case recipient of
            None \<Rightarrow> escalate_each E at rest n
          | Some u \<Rightarrow>
              act_bind (new_uuid E) (\<lambda>j.
              act_bind (notifications_enqueue
                (new_job j (ex_tenant_id rec) (ex_workspace_id rec) cid NT_REWORK_EXPLANATION_ESCALATED
                   u at (''dw01:rework:escalated:'' @ ex_id rec)
                   [(''explanation_id'', JStr (ex_id rec))])) (\<lambda>_.
              escalate_each E at rest (n + 1)))))"

definition escalate_stale_explanations :: "env \<Rightarrow> ReworkSupportRules \<Rightarrow> uuid \<Rightarrow> int handler" where
  "escalate_stale_explanations E rules tenant =
     (if \<not> rules_is_enabled rules \<or> rr_escalate_after_hours rules \<le> 0 then act_ret 0
      else
        act_bind (clock_now E) (\<lambda>at.
        in_uow E tenant
          (act_bind (explanations_list_pending_overdue (at - timedelta_hours (rr_escalate_after_hours rules)))
             (\<lambda>recs.
           act_bind (escalate_each E at recs 0) (\<lambda>n.
           act_bind commit (\<lambda>_. act_ret n))))))"

section \<open>Every handler keeps every repository invariant\<close>

lemma keeps_authorize [keeps_rules]: "keeps I (authorize x a)"
  by (simp add: authorize_def keeps_lift)

lemma durable_authorize [keeps_rules]: "durable I t (authorize x a)"
  by (simp add: durable_def keeps_authorize)

lemma uncommitted_authorize [atomic_rules]: "uncommitted (authorize x a)"
  by (simp add: authorize_def uncommitted_basic)

lemma guard_assess_total: "\<exists>a w'. guard_assess E rules x w = (Inr a, w')"
  by (auto simp: guard_assess_def split: prod.splits sum.splits)

lemma keeps_guard_wrap:
  assumes "keeps I (guard_assess_inner E rules x)"
  shows "keeps I (guard_assess E rules x)"
  unfolding keeps_def
proof (intro allI impI)
  fix w
  assume "I w"
  then have "I (snd (guard_assess_inner E rules x w))" using assms by (simp add: keeps_def)
  then show "I (snd (guard_assess E rules x w))"
    using \<open>I w\<close> by (auto simp: guard_assess_def split: prod.splits sum.splits)
qed

lemma guard_assess_inner_uncommitted: "uncommitted (guard_assess_inner E rules x)"
  unfolding guard_assess_inner_def by (intro atomic_rules)

lemma guard_assess_uncommitted [atomic_rules]: "uncommitted (guard_assess E rules x)"
  using guard_assess_inner_uncommitted [of E rules x]
  by (auto simp: uncommitted_def guard_assess_def split: prod.splits sum.splits) (metis snd_conv)+

lemma require_not_blocked_uncommitted [atomic_rules]: "uncommitted (require_not_blocked E rules x)"
  unfolding require_not_blocked_def by (intro atomic_rules)

lemma guard_if_wired_uncommitted [atomic_rules]: "uncommitted (guard_if_wired E rules x)"
  unfolding guard_if_wired_def by (intro atomic_rules)

lemma durable_uncommitted: "uncommitted m \<Longrightarrow> durable I t m"
  by (simp add: uncommitted_def durable_def keeps_def)

lemmas durable_guard [keeps_rules] =
  guard_assess_uncommitted [THEN durable_uncommitted]
  require_not_blocked_uncommitted [THEN durable_uncommitted]
  guard_if_wired_uncommitted [THEN durable_uncommitted]

context case_invariant
begin

lemma keeps_record_rework_event:
  "keeps (sess I t) (record_rework_event E c u cp code txt rules)"
  unfolding record_rework_event_def by (intro keeps_rules statement_rules)

lemma durable_submit_explanation:
  "durable I (x_tenant_id x) (submit_explanation E rules cmd x)"
  unfolding submit_explanation_def by (intro keeps_rules statement_rules)

lemma durable_require_supporter: "durable I t (require_supporter E rules x k)"
  unfolding require_supporter_def by (intro keeps_rules)

lemma durable_decide_explanation:
  "durable I (x_tenant_id x) (decide_explanation_handler E rules i ap m x)"
  unfolding decide_explanation_handler_def
  by (intro keeps_rules statement_rules durable_require_supporter)

lemma durable_void_rework_event:
  "durable I (x_tenant_id x) (void_rework_event E i why x)"
  unfolding void_rework_event_def by (intro keeps_rules statement_rules)

lemma keeps_escalate_each: "keeps (sess I t) (escalate_each E at recs n)"
  by (induction recs arbitrary: n) (auto intro!: keeps_rules statement_rules)

lemma durable_escalate: "durable I t (escalate_stale_explanations E rules t)"
  unfolding escalate_stale_explanations_def by (intro keeps_rules keeps_escalate_each)

end

lemma uncommitted_record_rework_event [atomic_rules]:
  "uncommitted (record_rework_event E c u cp code txt rules)"
  unfolding record_rework_event_def by (intro atomic_rules)

section \<open>Properties\<close>

text \<open>The guard fails open. Whatever the state of the database, and even when no session can
  be opened, \<open>assess\<close> returns an assessment rather than raising; the guard itself raises nothing
  but the conflict that asks for an explanation; an unreachable database blocks nobody and is reported
  as unavailable, and asking never changes committed data.\<close>

theorem guard_fails_open:
  "(\<exists>a w'. guard_assess E rules x w = (Inr a, w') \<and> w_committed w' = w_committed w
      \<and> (rules_is_enabled rules \<and> (\<forall>n. env_connect E n \<noteq> None) \<longrightarrow> \<not> as_available a \<and> as_level a = SL_NONE))
   \<and> (\<forall>e w'. require_not_blocked E rules x w = (Inl e, w') \<longrightarrow> err_class e = ConflictError)
   \<and> ((\<forall>n. env_connect E n \<noteq> None) \<longrightarrow> (\<exists>w'. require_not_blocked E rules x w = (Inr (), w')))"
proof -
  obtain a w' where a: "guard_assess E rules x w = (Inr a, w')"
    using guard_assess_total by blast
  have same: "w_committed w' = w_committed w"
    using guard_assess_uncommitted [of E rules x] a by (auto simp: uncommitted_def dest: spec [of _ w])
  have down: "as_level a = SL_NONE \<and> (rules_is_enabled rules \<longrightarrow> \<not> as_available a)"
    if unreachable: "\<forall>n. env_connect E n \<noteq> None"
  proof (cases "rules_is_enabled rules")
    case True
    obtain e w1 where "guard_assess_inner E rules x w = (Inl e, w1)"
      using spec [OF unreachable, of "w_calls w"]
      by (auto simp: guard_assess_inner_def clock_now_def act_bind_def in_uow_def Let_def)
    then show ?thesis using a True
      by (auto simp: guard_assess_def assessment_unavailable_def)
  next
    case False
    then show ?thesis using a by (auto simp: guard_assess_def assessment_disabled_def)
  qed
  have "require_not_blocked E rules x w
      = (if as_level a \<noteq> SL_BLOCK then (Inr (), w')
         else (Inl (Err ConflictError (env_text E (blocked_message a))), w'))"
    using a by (simp add: require_not_blocked_def act_bind_def act_ret_def act_raise_def)
  then show ?thesis using a same down by (auto split: if_splits)
qed

fun demo_id :: "nat \<Rightarrow> string" where
  "demo_id 0 = ''i''"
| "demo_id (Suc n) = CHR ''i'' # demo_id n"

definition demo_env :: env where
  "demo_env = \<lparr>env_clock = (\<lambda>n. timedelta_days 31 + int n), env_ids = demo_id,
     env_connect = (\<lambda>_. None), env_put = (\<lambda>_ k _ _. Inr (''s3://'' @ k)), env_send = (\<lambda>_ _. Inr ''msg-1''),
     env_sha256 = (\<lambda>b. b), env_dumps = (\<lambda>_. ''{}''), env_dumps_with = (\<lambda>_ _. ''{}''), env_text = (\<lambda>_. ''text'')\<rparr>"

definition down_env :: env where
  "down_env = demo_env\<lparr>env_connect := (\<lambda>_. Some (Err OtherException ''connection refused''))\<rparr>"

definition start_world :: "db \<Rightarrow> world" where
  "start_world d = \<lparr>w_db = d, w_committed = d, w_tenant = '''', w_blobs = [], w_emails = [],
     w_ticks = 0, w_fresh = 0, w_calls = 0\<rparr>"

definition demo_ctx :: "uuid \<Rightarrow> string list \<Rightarrow> string list \<Rightarrow> AccessContext" where
  "demo_ctx u rs ss = \<lparr>x_tenant_id = ''t1'', x_workspace_id = ''w1'', x_principal_id = u,
     x_roles = set rs, x_groups = {}, x_scopes = set ss, x_clearance = ''internal'',
     x_plan_id = ''professional'', x_feature_flags = {}\<rparr>"

lemma demo_env_sel [evaluation]:
  "env_clock demo_env n = timedelta_days 31 + int n" "env_ids demo_env n = demo_id n"
  "env_connect demo_env n = None" "env_put demo_env n k b ct = Inr (''s3://'' @ k)"
  "env_send demo_env n m = Inr ''msg-1''" "env_sha256 demo_env b = b" "env_dumps demo_env v = ''{}''"
  "env_dumps_with demo_env opts v = ''{}''" "env_text demo_env v = ''text''"
  by (simp_all add: demo_env_def)

lemma start_world_sel [evaluation]:
  "w_db (start_world d) = d" "w_committed (start_world d) = d" "w_calls (start_world d) = 0"
  "w_ticks (start_world d) = 0" "w_fresh (start_world d) = 0" "w_emails (start_world d) = []"
  by (simp_all add: start_world_def)

text \<open>Two members of the tenant: somebody who files, and an the_approver.\<close>

definition the_requester :: AccessContext where
  "the_requester = demo_ctx ''u1'' [] [''tender.write'']"

definition the_approver :: AccessContext where
  "the_approver = demo_ctx ''u2'' [] [''approvals.decide'']"

lemma demo_ctx_sel [evaluation]:
  "x_tenant_id the_requester = ''t1''" "x_workspace_id the_requester = ''w1''" "x_principal_id the_requester = ''u1''"
  "x_roles the_requester = {}" "x_scopes the_requester = {''tender.write''}" "x_plan_id the_requester = ''professional''"
  "x_feature_flags the_requester = {}"
  "x_tenant_id the_approver = ''t1''" "x_workspace_id the_approver = ''w1''" "x_principal_id the_approver = ''u2''"
  "x_roles the_approver = {}" "x_scopes the_approver = {''approvals.decide''}" "x_plan_id the_approver = ''professional''"
  by (simp_all add: the_requester_def the_approver_def demo_ctx_def)

lemmas [evaluation] = authorize_def require_action_def is_allowed_def

theorem guard_fails_open_witness:
  "\<exists>w'. require_not_blocked down_env demo_rules (demo_ctx ''u1'' [] []) (start_world empty_db) = (Inr (), w')"
  using guard_fails_open [of down_env demo_rules "demo_ctx ''u1'' [] []" "start_world empty_db"]
  by (simp add: down_env_def)

text \<open>What blocks and what lifts. With a reachable database the guard refuses exactly when the
  person's returned cases of this tenant in the longer window put them on the blocking level and no
  explanation of theirs was approved within that window.\<close>

theorem guard_blocks_iff:
  fixes x :: AccessContext
  assumes "env_connect E (w_calls w) = None" "rules_is_enabled rules"
  defines "at \<equiv> env_clock E (w_ticks w)"
  defines "since \<equiv> at - timedelta_days (max (rr_nudge_window_days rules) (rr_block_window_days rules))"
  defines "mine \<equiv> filter (\<lambda>e. re_tenant_id e = x_tenant_id x \<and> re_creator_user_id e = x_principal_id x
                        \<and> since \<le> re_occurred_at e) (t_rework_events (w_committed w))"
  defines "lifted_by \<equiv> (\<lambda>y. ex_tenant_id y = x_tenant_id x \<and> ex_creator_user_id y = x_principal_id x
              \<and> ex_status y = ES_APPROVED \<and> (\<exists>t. ex_decided_at y = Some t \<and> since \<le> t))"
  shows "(\<exists>e w'. require_not_blocked E rules x w = (Inl e, w')) \<longleftrightarrow>
     as_level (assess_rework (map event_view mine) at rules) = SL_BLOCK
     \<and> (\<forall>y \<in> set (t_explanations (w_committed w)). \<not> lifted_by y)"
proof -
  let ?seen = "sort_key (\<lambda>e. - re_occurred_at e) (filter (\<lambda>e. re_creator_user_id e = x_principal_id x
      \<and> since \<le> re_occurred_at e) (filter (\<lambda>e. re_tenant_id e = x_tenant_id x)
        (t_rework_events (w_committed w))))"
  let ?a = "assess_rework (map event_view ?seen) at rules"
  let ?ex = "list_ex lifted_by (t_explanations (w_committed w))"
  have perm: "mset (map event_view ?seen) = mset (map event_view mine)"
    by (simp add: mine_def)
  have "tally_in rules at d (map event_view ?seen) = tally_in rules at d (map event_view mine)" for d
    using perm by (simp add: tally_in_mset)
  then have lvl: "as_level ?a = as_level (assess_rework (map event_view mine) at rules)"
    by (simp add: assess_level)
  have ex: "list_ex (\<lambda>y. ex_creator_user_id y = x_principal_id x \<and> ex_status y = ES_APPROVED
        \<and> (case ex_decided_at y of Some t \<Rightarrow> since \<le> t | None \<Rightarrow> False))
      (filter (\<lambda>y. ex_tenant_id y = x_tenant_id x) (t_explanations (w_committed w))) = ?ex"
    by (auto simp: list_ex_iff lifted_by_def split: option.splits)
  have inner: "\<exists>w'. guard_assess_inner E rules x w
      = (Inr (if as_level ?a = SL_BLOCK \<and> ?ex then lifted ?a else ?a), w')"
    by (simp add: run_simps guard_assess_inner_def assms(1) Let_def rework_events_list_for_creator_def
        explanations_has_approved_since_def rework_visible_def explanation_visible_def ex
        flip: at_def since_def) blast
  have "as_level (lifted ?a) \<noteq> SL_BLOCK" by (simp add: lifted_def)
  then show ?thesis
    using inner assms(2) unfolding lvl [symmetric]
    by (auto simp: require_not_blocked_def guard_assess_def act_bind_def act_ret_def act_raise_def
        list_ex_iff split: if_splits)
qed

definition demo_return :: "uuid \<Rightarrow> int \<Rightarrow> ReworkEvent" where
  "demo_return i day = \<lparr>re_id = i, re_tenant_id = ''t1'', re_workspace_id = ''w1'', re_case_id = ''c1'',
     re_creator_user_id = ''u1'', re_decided_by_user_id = ''u2'', re_checkpoint = RC_CP1,
     re_reason_code = ''WRONG'', re_reason_text = ''r'', re_policy_version = ''v1'',
     re_occurred_at = timedelta_days day, re_voided_at = None, re_voided_by = None,
     re_void_reason = ''''\<rparr>"

definition blocked_db :: db where
  "blocked_db = empty_db\<lparr>t_rework_events := [demo_return ''e1'' 20, demo_return ''e2'' 21, demo_return ''e3'' 22]\<rparr>"

theorem guard_blocks_iff_witness:
  "\<exists>e w'. require_not_blocked demo_env demo_rules (demo_ctx ''u1'' [] []) (start_world blocked_db) = (Inl e, w')"
  using guard_blocks_iff [of demo_env "start_world blocked_db" demo_rules "demo_ctx ''u1'' [] []"]
  by (simp add: demo_env_def demo_rules_def rules_is_enabled_def start_world_def blocked_db_def
      empty_db_def demo_ctx_def demo_return_def timedelta_days_def usec_per_day_def event_view_def
      event_voided_def assess_level level_of_tallies_def tally_in_def counts_in_def)

text \<open>A block also lapses by itself. The same history, with nobody having written or approved
  an explanation, blocks a person on one day and no longer blocks them once the returned cases have
  aged out of the window: it is the counter, not a person, that releases them.\<close>

theorem block_lapses_by_age:
  "\<exists>w w'. w_committed w = blocked_db \<and> w_committed w' = blocked_db \<and> t_explanations blocked_db = []
     \<and> (\<exists>e v. require_not_blocked demo_env demo_rules (demo_ctx ''u1'' [] []) w = (Inl e, v))
     \<and> (\<exists>v. require_not_blocked (demo_env\<lparr>env_clock := (\<lambda>n. timedelta_days 60)\<rparr>) demo_rules
              (demo_ctx ''u1'' [] []) w' = (Inr (), v))"
proof -
  let ?w = "start_world blocked_db"
  have "\<exists>e v. require_not_blocked demo_env demo_rules (demo_ctx ''u1'' [] []) ?w = (Inl e, v)"
    by (rule exE [of "\<lambda>r. require_not_blocked demo_env demo_rules (demo_ctx ''u1'' [] []) ?w = r"])
      (simp_all add: require_not_blocked_def guard_assess_def guard_assess_inner_def act_bind_def
        clock_now_def in_uow_def demo_env_def demo_rules_def rules_is_enabled_def start_world_def
        blocked_db_def empty_db_def demo_ctx_def demo_return_def timedelta_days_def usec_per_day_def
        event_view_def event_voided_def assess_level level_of_tallies_def tally_in_def counts_in_def
        Let_def rework_events_list_for_creator_def rework_visible_def act_get_def act_ret_def
        act_raise_def explanations_has_approved_since_def explanation_visible_def)
  moreover have "\<exists>v. require_not_blocked (demo_env\<lparr>env_clock := (\<lambda>n. timedelta_days 60)\<rparr>) demo_rules
      (demo_ctx ''u1'' [] []) ?w = (Inr (), v)"
    by (simp add: require_not_blocked_def guard_assess_def guard_assess_inner_def act_bind_def
        clock_now_def in_uow_def demo_env_def demo_rules_def rules_is_enabled_def start_world_def
        blocked_db_def empty_db_def demo_ctx_def demo_return_def timedelta_days_def usec_per_day_def
        event_view_def event_voided_def assess_level level_of_tallies_def tally_in_def counts_in_def
        Let_def rework_events_list_for_creator_def rework_visible_def act_get_def act_ret_def)
  moreover have "w_committed ?w = blocked_db" "t_explanations blocked_db = []"
    by (simp_all add: start_world_def blocked_db_def empty_db_def)
  ultimately show ?thesis by blast
qed

text \<open>An explanation is decided by somebody entitled to. When the decision handler returns, the
  caller may decide approvals (or is the platform administrator), holds the supporter role if the rule
  pack names one, is not the author, and left a note; the committed record was pending and now carries
  the decision; when it raises, nothing is committed.\<close>

theorem decide_explanation_sound:
  assumes "decide_explanation_handler E rules i approve comment x w = (r, w')"
  shows "(case r of
      Inl e \<Rightarrow> w_committed w' = w_committed w
    | Inr _ \<Rightarrow> (PLATFORM_ADMIN_ROLE \<in> x_roles x \<or> ''approvals.decide'' \<in> x_scopes x)
        \<and> (rr_supporter_role rules = '''' \<or> rr_supporter_role rules \<in> x_roles x)
        \<and> (\<exists>rec at. find (\<lambda>y. ex_tenant_id y = x_tenant_id x \<and> ex_id y = i) (t_explanations (w_committed w)) = Some rec
             \<and> ex_status rec = ES_PENDING \<and> ex_creator_user_id rec \<noteq> x_principal_id x \<and> py_strip comment \<noteq> ''''
             \<and> rec\<lparr>ex_status := (if approve then ES_APPROVED else ES_REJECTED),
                   ex_decided_by := Some (x_principal_id x), ex_decided_at := Some at,
                   ex_decision_comment := py_strip comment\<rparr> \<in> set (t_explanations (w_committed w'))))"
proof (cases r)
  case (Inl e)
  have "atomic (decide_explanation_handler E rules i approve comment x)"
    unfolding decide_explanation_handler_def require_supporter_def by (intro atomic_rules)
  then show ?thesis using assms Inl by (simp add: atomic_def)
next
  case (Inr u)
  let ?at = "env_clock E (w_ticks w)"
  from assms Inr obtain rec rec' where g: "PLATFORM_ADMIN_ROLE \<in> x_roles x \<or> ''approvals.decide'' \<in> x_scopes x"
    "rr_supporter_role rules = '''' \<or> rr_supporter_role rules \<in> x_roles x"
    and f: "find (\<lambda>y. ex_tenant_id y = x_tenant_id x \<and> ex_id y = i) (t_explanations (w_committed w)) = Some rec"
    and d: "decide_explanation rec approve (x_principal_id x) (Aware ?at) comment = Inr rec'"
    and w': "t_explanations (w_committed w')
        = update_where (decision_hits (x_tenant_id x) rec') (decision_row rec') (t_explanations (w_committed w))"
    by (auto simp: decide_explanation_handler_def authorize_def require_supporter_def run_simps
        explanations_get_def explanation_visible_def find_filter)
  have "rec \<in> set (t_explanations (w_committed w))" "ex_tenant_id rec = x_tenant_id x"
    using find_Some_in [OF f] by auto
  then have "decision_row rec' rec \<in> set (t_explanations (w_committed w'))"
    using d unfolding w' by (force simp: decide_explanation_Inr update_where_def decision_hits_def)
  moreover have "decision_row rec' rec = rec'"
    using d by (auto simp: decide_explanation_Inr decision_row_def)
  ultimately show ?thesis using Inr g f d by (auto simp: decide_explanation_Inr)
qed

definition explained_db :: db where
  "explained_db = empty_db\<lparr>t_explanations := [demo_explanation\<lparr>ex_tenant_id := ''t1''\<rparr>]\<rparr>"

theorem decide_explanation_sound_witness:
  "\<exists>w'. decide_explanation_handler demo_env demo_rules ''x1'' True ''ok''
      (demo_ctx ''u2'' [''head''] [''approvals.decide'']) (start_world explained_db) = (Inr (), w')
    \<and> (\<exists>rec. find (\<lambda>y. ex_tenant_id y = ''t1'' \<and> ex_id y = ''x1'') (t_explanations explained_db) = Some rec
         \<and> ex_creator_user_id rec \<noteq> ''u2'')"
proof -
  have "\<exists>w'. decide_explanation_handler demo_env demo_rules ''x1'' True ''ok''
      (demo_ctx ''u2'' [''head''] [''approvals.decide'']) (start_world explained_db) = (Inr (), w')"
    by (simp add: decide_explanation_handler_def authorize_def require_supporter_def run_simps
        explanations_get_def explanation_visible_def decide_explanation_Inr demo_env_def demo_rules_def
        demo_ctx_def start_world_def explained_db_def empty_db_def demo_explanation_def py_strip_def
        py_lstrip_def py_rstrip_def py_isspace_def)
  then obtain w' where "decide_explanation_handler demo_env demo_rules ''x1'' True ''ok''
      (demo_ctx ''u2'' [''head''] [''approvals.decide'']) (start_world explained_db) = (Inr (), w')" ..
  from this decide_explanation_sound [OF this] show ?thesis
    by (auto simp: demo_ctx_def start_world_def)
qed

end
