(* ===== verification/DW_Intake.thy ===== *)
theory DW_Intake
  imports DW_Rework_App DW_Rules
begin

text \<open>
  The first half of \<open>application/preparation/handlers.py\<close>: filing a case, verifying or rejecting
  its intake, starting the workflow on it, and answering clarification questions; with the helpers
  at the end of that file. A handler object's collaborators are parameters: \<open>E\<close> holds the ports,
  \<open>plans\<close> the entitlement catalogue, \<open>guard\<close> the rework rules when the guard is wired, and
  \<open>runner\<close> is the workflow runner, which executes outside this file.
\<close>

section \<open>Helpers\<close>

definition TENDER_FEATURE :: string where
  "TENDER_FEATURE = ''tender_worker''"

text \<open>\<open>str(value)\<close> of a JSON value; a container's text is left to the renderer.\<close>

fun py_str :: "env \<Rightarrow> json \<Rightarrow> string" where
  "py_str E JNull = ''None''"
| "py_str E (JBool b) = (if b then ''True'' else ''False'')"
| "py_str E (JInt i) = int_str i"
| "py_str E (JStr s) = s"
| "py_str E v = env_text E v"

fun dicts :: "json option \<Rightarrow> jdict list" where
  "dicts (Some (JArr xs)) = obj_items xs"
| "dicts _ = []"

definition content_hash :: "env \<Rightarrow> jdict \<Rightarrow> string" where
  "content_hash E content = env_sha256 E (utf8_encode (env_dumps E (JObj content)))"

text \<open>\<open>tuple(dict.fromkeys(xs))\<close>: duplicates dropped, first occurrences kept in order.\<close>

definition unique_first :: "'a list \<Rightarrow> 'a list" where
  "unique_first xs = rev (remdups (rev xs))"

text \<open>A job about a case.\<close>

definition case_job ::
  "uuid \<Rightarrow> PreparationCase \<Rightarrow> IntakeNotificationType \<Rightarrow> uuid \<Rightarrow> datetime \<Rightarrow> string \<Rightarrow> jdict
    \<Rightarrow> IntakeNotificationJob" where
  "case_job j c event recipient due key payload =
     new_job j (c_tenant_id c) (c_workspace_id c) (c_id c) event recipient due key payload"

definition case_artifact ::
  "env \<Rightarrow> uuid \<Rightarrow> PreparationCase \<Rightarrow> uuid \<Rightarrow> ArtifactType \<Rightarrow> int \<Rightarrow> ArtifactStatus \<Rightarrow> jdict \<Rightarrow> PreparationArtifact"
where
  "case_artifact E i c actor ty ver status content =
     \<lparr>a_id = i, a_tenant_id = c_tenant_id c, a_workspace_id = c_workspace_id c, a_case_id = c_id c,
      a_type = ty, a_schema_version = ''1.0'', a_version = ver, a_status = status,
      a_content = content, a_created_by = actor, a_evidence_refs = [], a_source_artifact_ids = [],
      a_content_hash = content_hash E content\<rparr>"

definition source_storage_key :: "PreparationCase \<Rightarrow> uuid \<Rightarrow> string \<Rightarrow> string" where
  "source_storage_key c i filename =
     c_tenant_id c @ ''/'' @ c_workspace_id c @ ''/preparation/'' @ c_id c @ ''/sources/'' @ i @ ''/'' @ filename"

definition source_document ::
  "env \<Rightarrow> PreparationCase \<Rightarrow> uuid \<Rightarrow> uuid \<Rightarrow> DocumentKind \<Rightarrow> json \<Rightarrow> string \<Rightarrow> string \<Rightarrow> bytes \<Rightarrow> PreparationDocument"
where
  "source_document E c i actor kind title filename content_type content =
     \<lparr>d_id = i, d_tenant_id = c_tenant_id c, d_workspace_id = c_workspace_id c,
      d_case_id = c_id c, d_kind = kind, d_title = title, d_filename = filename,
      d_content_type = content_type, d_size_bytes = int (length content),
      d_storage_key = source_storage_key c i filename, d_content_hash = env_sha256 E content,
      d_uploaded_by = actor\<rparr>"

definition store_source_document ::
  "env \<Rightarrow> PreparationCase \<Rightarrow> uuid \<Rightarrow> DocumentKind \<Rightarrow> json \<Rightarrow> string \<Rightarrow> string \<Rightarrow> bytes \<Rightarrow> PreparationDocument handler"
where
  "store_source_document E c actor kind title filename content_type content =
     act_bind (act_require (content \<noteq> []) DomainError ''uploaded evidence file must not be empty'') (\<lambda>_.
     act_bind (new_uuid E) (\<lambda>i.
     act_bind (put_object E (source_storage_key c i filename) content content_type) (\<lambda>_.
     act_ret (source_document E c i actor kind title filename content_type content))))"

definition next_version :: "PreparationArtifact option \<Rightarrow> int" where
  "next_version latest = (case latest of Some a \<Rightarrow> a_version a + 1 | None \<Rightarrow> 1)"

definition add_application_artifact ::
  "env \<Rightarrow> PreparationCase \<Rightarrow> uuid \<Rightarrow> ArtifactType \<Rightarrow> jdict \<Rightarrow> ArtifactStatus \<Rightarrow> PreparationArtifact handler"
where
  "add_application_artifact E c actor ty content status =
     act_bind (artifacts_latest (c_id c) ty) (\<lambda>latest.
     act_bind (new_uuid E) (\<lambda>i.
     let artifact = case_artifact E i c actor ty (next_version latest) status content in
     act_bind (artifacts_add artifact) (\<lambda>_.
     act_ret artifact)))"

section \<open>Audit\<close>

definition audit_record :: "env \<Rightarrow> AccessContext \<Rightarrow> string \<Rightarrow> uuid \<Rightarrow> jdict \<Rightarrow> unit handler" where
  "audit_record E x action cid details =
     in_uow E (x_tenant_id x)
       (act_bind (new_uuid E) (\<lambda>i.
        act_bind (clock_now E) (\<lambda>ts.
        act_bind (act_lift (mk_AuditEvent
          \<lparr>au_id = i, au_tenant_id = x_tenant_id x, au_workspace_id = x_workspace_id x,
           au_actor_id = x_principal_id x, au_action = action,
           au_resource_type = ''preparation_case'', au_resource_id = cid, au_occurred_at = ts,
           au_run_id = None, au_policy_decision = Some ''allow'', au_trace_id = None,
           au_details = details\<rparr>)) (\<lambda>event.
        act_bind (audit_append event) (\<lambda>_.
        commit)))))"

section \<open>Filing a case\<close>

record CreatePreparationCaseCommand =
  cc_title :: string
  cc_description :: string
  cc_source_pr_ref :: string
  cc_estimated_value_minor :: int
  cc_currency :: string
  cc_deadline :: "string option"
  cc_owner_name :: string
  cc_procurement_type :: ProcurementType
  cc_business_domain :: BusinessDomain
  cc_pr_text :: string
  cc_pr_filename :: string
  cc_pr_content_type :: string
  cc_supplier_names :: "string list"

definition intake_payload :: "PreparationCase \<Rightarrow> jdict" where
  "intake_payload c =
     [(''title'', JStr (c_title c)), (''source_pr_ref'', JStr (c_source_pr_ref c)),
      (''owner_name'', JStr (c_owner_name c)),
      (''procurement_type'', JStr (procurement_type_value (c_procurement_type c))),
      (''business_domain'', JStr (business_domain_value (c_business_domain c))),
      (''estimated_value_minor'', JInt (c_estimated_value_minor c)),
      (''currency'', JStr (c_currency c))]"

text \<open>Somebody other than the person who files: an approver, else the head of procurement.\<close>

definition intake_approver :: "AccessContext \<Rightarrow> uuid option handler" where
  "intake_approver x =
     act_bind (find_recipient_for_role ''approver'' (Some (x_principal_id x))) (\<lambda>approver.
     if approver = None then find_recipient_for_role ''procurement_head'' (Some (x_principal_id x))
     else act_ret approver)"

text \<open>The transaction of the handler: recipients, the three rows, the two jobs.\<close>

definition file_case_tx ::
  "env \<Rightarrow> AccessContext \<Rightarrow> int \<Rightarrow> PreparationCase \<Rightarrow> PreparationDocument \<Rightarrow> PreparationArtifact \<Rightarrow> unit handler"
where
  "file_case_tx E x reminder_seconds c document supplier_artifact =
     act_bind (intake_approver x) (\<lambda>approver1.
     act_bind (find_recipient_for_role ''platform_admin'' None) (\<lambda>escalation.
     act_bind (act_some approver1 DomainError ''DW01 intake requires an approver membership'') (\<lambda>approver.
     act_bind (act_some escalation DomainError
                 ''DW01 intake requires a platform_admin escalation owner'') (\<lambda>owner.
     act_bind (cases_add c) (\<lambda>_.
     act_bind (documents_add document) (\<lambda>_.
     act_bind (artifacts_add supplier_artifact) (\<lambda>_.
     act_bind (clock_now E) (\<lambda>ts.
     act_bind (new_uuid E) (\<lambda>j1.
     act_bind (notifications_enqueue (case_job j1 c NT_APPROVAL_REQUESTED approver ts
                 (''dw01:'' @ c_id c @ '':intake:requested'') (intake_payload c))) (\<lambda>_.
     act_bind (new_uuid E) (\<lambda>j2.
     act_bind (notifications_enqueue (case_job j2 c NT_APPROVAL_ESCALATED owner
                 (ts + timedelta_seconds reminder_seconds)
                 (''dw01:'' @ c_id c @ '':intake:escalated'') (intake_payload c))) (\<lambda>_.
     commit))))))))))))"

definition pr_storage_key :: "AccessContext \<Rightarrow> PreparationCase \<Rightarrow> CreatePreparationCaseCommand \<Rightarrow> string" where
  "pr_storage_key x c cmd =
     x_tenant_id x @ ''/'' @ x_workspace_id x @ ''/preparation/'' @ c_id c @ ''/sources/'' @ cc_pr_filename cmd"

definition pr_document ::
  "env \<Rightarrow> uuid \<Rightarrow> AccessContext \<Rightarrow> PreparationCase \<Rightarrow> CreatePreparationCaseCommand \<Rightarrow> PreparationDocument" where
  "pr_document E did x c cmd =
     \<lparr>d_id = did, d_tenant_id = x_tenant_id x, d_workspace_id = x_workspace_id x,
      d_case_id = c_id c, d_kind = APPROVED_PR, d_title = JText ''purchase_request'' [],
      d_filename = cc_pr_filename cmd, d_content_type = cc_pr_content_type cmd,
      d_size_bytes = int (length (utf8_encode (cc_pr_text cmd))),
      d_storage_key = pr_storage_key x c cmd,
      d_content_hash = env_sha256 E (utf8_encode (cc_pr_text cmd)), d_uploaded_by = x_principal_id x\<rparr>"

definition supplier_content :: "string list \<Rightarrow> jdict" where
  "supplier_content suppliers =
     [(''source'', JStr ''manual_entry''),
      (''suppliers'', JArr (map (\<lambda>n. JObj [(''name'', JStr n)]) suppliers))]"

definition create_preparation_case ::
  "env \<Rightarrow> (string \<times> Plan) list \<Rightarrow> ReworkSupportRules option \<Rightarrow> int \<Rightarrow> CreatePreparationCaseCommand
    \<Rightarrow> AccessContext \<Rightarrow> uuid handler" where
  "create_preparation_case E plans guard reminder_seconds cmd x =
     act_bind (authorize x ''tender.write'') (\<lambda>_.
     act_bind (act_lift (require_feature plans x TENDER_FEATURE)) (\<lambda>_.
     act_bind (guard_if_wired E guard x) (\<lambda>_.
     act_bind (new_uuid E) (\<lambda>cid.
     act_bind (act_lift (new_preparation_case cid (x_tenant_id x) (x_workspace_id x) (cc_title cmd)
                 (x_principal_id x) (cc_source_pr_ref cmd) (cc_description cmd)
                 (cc_estimated_value_minor cmd) (cc_currency cmd) (cc_deadline cmd)
                 (cc_owner_name cmd) (cc_procurement_type cmd) (cc_business_domain cmd))) (\<lambda>c.
     let pr_bytes = utf8_encode (cc_pr_text cmd) in
     act_bind (act_require (pr_bytes \<noteq> []) DomainError ''purchase request file must not be empty'') (\<lambda>_.
     act_bind (act_require (int (length pr_bytes) \<le> 5 * 1024 * 1024) DomainError
                 ''purchase request file exceeds 5 MiB'') (\<lambda>_.
     let suppliers = unique_first (filter (\<lambda>n. n \<noteq> '''') (map py_strip (cc_supplier_names cmd))) in
     act_bind (act_require (suppliers \<noteq> []) DomainError
                 ''at least one supplier candidate is required'') (\<lambda>_.
     act_bind (put_object E (pr_storage_key x c cmd) pr_bytes (cc_pr_content_type cmd)) (\<lambda>_.
     act_bind (new_uuid E) (\<lambda>did.
     act_bind (new_uuid E) (\<lambda>aid.
     let supplier_artifact =
           case_artifact E aid c (x_principal_id x) SUPPLIER_INPUT 1 AS_DRAFT (supplier_content suppliers) in
     act_bind (in_uow E (x_tenant_id x)
                 (file_case_tx E x reminder_seconds c (pr_document E did x c cmd) supplier_artifact)) (\<lambda>_.
     act_ret (c_id c)))))))))))))"

section \<open>Starting the workflow\<close>

record RunContext =
  rc_run_id :: uuid
  rc_tenant_id :: uuid
  rc_workspace_id :: uuid
  rc_actor_id :: uuid
  rc_worker_id :: string
  rc_worker_version :: string
  rc_channel :: string
  rc_plan_id :: string
  rc_roles :: "string set"
  rc_scopes :: "string set"
  rc_trace_id :: string
  rc_locale :: string

type_synonym runner = "RunContext \<Rightarrow> jdict \<Rightarrow> unit handler"

text \<open>The transaction of \<open>_start\<close>; it returns who the run is attributed to.\<close>

definition start_run_tx :: "env \<Rightarrow> uuid \<Rightarrow> uuid \<Rightarrow> AccessContext \<Rightarrow> bool \<Rightarrow> uuid handler" where
  "start_run_tx E case_id run_id x on_behalf =
     act_bind (cases_get case_id) (\<lambda>found.
     act_bind (act_some found NotFoundError ''preparation case not found'') (\<lambda>c.
     let actor = (if on_behalf then c_created_by c else x_principal_id x) in
     act_bind (act_lift (start_run c run_id)) (\<lambda>c'.
     act_bind (new_uuid E) (\<lambda>j.
     act_bind (clock_now E) (\<lambda>ts.
     act_bind (notifications_enqueue (case_job j c' NT_RUN_PROGRESS (c_created_by c') ts
                 (''dw01:'' @ c_id c' @ '':progress:run_started:'' @ take 12 (uuid_hex run_id))
                 [(''title'', JStr (c_title c')), (''heading'', JText ''run_started'' []),
                  (''lines'', JArr [JText ''run_sequence'' [], JText ''run_updates'' []])])) (\<lambda>_.
     act_bind (cases_save c') (\<lambda>_.
     act_bind commit (\<lambda>_.
     act_ret actor))))))))"

definition start_preparation_run ::
  "env \<Rightarrow> (string \<times> Plan) list \<Rightarrow> runner \<Rightarrow> uuid \<Rightarrow> AccessContext \<Rightarrow> bool \<Rightarrow> string \<Rightarrow> uuid handler" where
  "start_preparation_run E plans runner case_id x on_behalf channel =
     act_bind (act_lift (require_feature plans x TENDER_FEATURE)) (\<lambda>_.
     act_bind (new_uuid E) (\<lambda>run_id.
     act_bind (in_uow E (x_tenant_id x) (start_run_tx E case_id run_id x on_behalf)) (\<lambda>actor.
     act_bind (runner
        \<lparr>rc_run_id = run_id, rc_tenant_id = x_tenant_id x, rc_workspace_id = x_workspace_id x,
         rc_actor_id = actor, rc_worker_id = ''preparation'', rc_worker_version = ''1.0.0'',
         rc_channel = channel, rc_plan_id = x_plan_id x, rc_roles = x_roles x,
         rc_scopes = x_scopes x, rc_trace_id = ''run-'' @ take 12 (uuid_hex run_id),
         rc_locale = ''vi-VN''\<rparr>
        [(''case_id'', JStr case_id)]) (\<lambda>_.
     act_ret run_id))))"

definition run_preparation ::
  "env \<Rightarrow> (string \<times> Plan) list \<Rightarrow> ReworkSupportRules option \<Rightarrow> runner \<Rightarrow> uuid \<Rightarrow> AccessContext \<Rightarrow> string \<Rightarrow> uuid handler"
where
  "run_preparation E plans guard runner case_id x channel =
     act_bind (authorize x ''tender.write'') (\<lambda>_.
     act_bind (guard_if_wired E guard x) (\<lambda>_.
     start_preparation_run E plans runner case_id x False channel))"

definition run_preparation_auto ::
  "env \<Rightarrow> (string \<times> Plan) list \<Rightarrow> runner \<Rightarrow> uuid \<Rightarrow> AccessContext \<Rightarrow> uuid handler" where
  "run_preparation_auto E plans runner case_id x =
     start_preparation_run E plans runner case_id x True ''auto_intake''"

section \<open>Verifying and rejecting the intake\<close>

definition verification_content ::
  "string \<Rightarrow> string \<Rightarrow> AccessContext \<Rightarrow> datetime \<Rightarrow> PreparationDocument list \<Rightarrow> jdict" where
  "verification_content approval_reference comment x verified_at documents =
     [(''source_mode'', JStr ''manual_upload''),
      (''approval_reference'', JStr (py_strip approval_reference)),
      (''comment'', JStr (py_strip comment)), (''verified_by'', JStr (x_principal_id x)),
      (''verified_at'', JStr (isoformat verified_at)),
      (''document_hashes'', JArr (map (\<lambda>d. JStr (d_content_hash d)) documents)),
      (''declaration'', JText ''verification_declaration'' [])]"

definition verify_intake_tx :: "env \<Rightarrow> uuid \<Rightarrow> string \<Rightarrow> string \<Rightarrow> AccessContext \<Rightarrow> unit handler" where
  "verify_intake_tx E case_id approval_reference comment x =
     act_bind (cases_get case_id) (\<lambda>found.
     act_bind (act_some found NotFoundError ''preparation case not found'') (\<lambda>c.
     act_bind (act_require (c_created_by c \<noteq> x_principal_id x) ConflictError
                 ''case creator cannot verify their own intake'') (\<lambda>_.
     act_bind (documents_list_for_case (c_id c)) (\<lambda>documents.
     act_bind (act_require (documents \<noteq> []) DomainError ''intake has no source document'') (\<lambda>_.
     act_bind (clock_now E) (\<lambda>verified_at.
     act_bind (act_lift (verify_intake c (x_principal_id x) verified_at)) (\<lambda>c'.
     act_bind (new_uuid E) (\<lambda>i.
     act_bind (artifacts_add (case_artifact E i c' (x_principal_id x) INTAKE_VERIFICATION 1
                 AS_APPROVED (verification_content approval_reference comment x verified_at documents))) (\<lambda>_.
     act_bind (new_uuid E) (\<lambda>j.
     act_bind (notifications_enqueue (case_job j c' NT_APPROVED (c_created_by c') verified_at
                 (''dw01:'' @ c_id c' @ '':intake:approved:v'' @ int_str (c_version c'))
                 [(''title'', JStr (c_title c')),
                  (''approval_reference'', JStr (py_strip approval_reference)),
                  (''comment'', JStr (py_strip comment))])) (\<lambda>_.
     act_bind (cases_save c') (\<lambda>_.
     commit))))))))))))"

text \<open>\<open>auto_run\<close> is \<open>run_case.handle_auto\<close> when a run handler is wired; its failure is swallowed.\<close>

definition verify_preparation_intake ::
  "env \<Rightarrow> (uuid \<Rightarrow> AccessContext \<Rightarrow> uuid handler) option \<Rightarrow> uuid \<Rightarrow> string \<Rightarrow> string \<Rightarrow> AccessContext \<Rightarrow> unit handler"
where
  "verify_preparation_intake E auto_run case_id approval_reference comment x =
     act_bind (authorize x ''approvals.decide'') (\<lambda>_.
     act_bind (act_require (py_strip approval_reference \<noteq> '''') DomainError
                 ''approval reference must not be blank'') (\<lambda>_.
     act_bind (in_uow E (x_tenant_id x) (verify_intake_tx E case_id approval_reference comment x)) (\<lambda>_.
     case auto_run of
       None \<Rightarrow> act_ret ()
     | Some run \<Rightarrow> act_suppress (run case_id x))))"

definition reject_intake_tx ::
  "env \<Rightarrow> ReworkSupportRules option \<Rightarrow> uuid \<Rightarrow> string \<Rightarrow> string \<Rightarrow> AccessContext \<Rightarrow> unit handler" where
  "reject_intake_tx E rework_rules case_id why reason_code x =
     act_bind (cases_get case_id) (\<lambda>found.
     act_bind (act_some found NotFoundError ''preparation case not found'') (\<lambda>c.
     act_bind (act_lift (reject_intake c (x_principal_id x))) (\<lambda>c'.
     act_bind (clock_now E) (\<lambda>ts.
     act_bind (case rework_rules of
                 None \<Rightarrow> act_ret None
               | Some rules \<Rightarrow> record_rework_event E c' (x_principal_id x) RC_INTAKE reason_code why rules) (\<lambda>_.
     act_bind (new_uuid E) (\<lambda>j.
     act_bind (notifications_enqueue (case_job j c' NT_REJECTED (c_created_by c') ts
                 (''dw01:'' @ c_id c' @ '':intake:rejected:v'' @ int_str (c_version c'))
                 [(''title'', JStr (c_title c')), (''comment'', JStr why)])) (\<lambda>_.
     act_bind (cases_save c') (\<lambda>_.
     commit))))))))"

definition reject_preparation_intake ::
  "env \<Rightarrow> ReworkSupportRules option \<Rightarrow> uuid \<Rightarrow> string \<Rightarrow> AccessContext \<Rightarrow> string \<Rightarrow> unit handler" where
  "reject_preparation_intake E rework_rules case_id comment x reason_code =
     act_bind (authorize x ''approvals.decide'') (\<lambda>_.
     let why = py_strip comment in
     act_bind (act_require (why \<noteq> '''') DomainError ''intake rejection requires a reason'') (\<lambda>_.
     in_uow E (x_tenant_id x) (reject_intake_tx E rework_rules case_id why reason_code x)))"

section \<open>Answering clarifications\<close>

record ClarificationAnswer =
  cl_clarification_id :: string
  cl_question :: string
  cl_answer :: string
  cl_source_note :: string

definition blocking_ids :: "env \<Rightarrow> PreparationArtifact option \<Rightarrow> string set" where
  "blocking_ids E listing =
     (case listing of
        None \<Rightarrow> {}
      | Some a \<Rightarrow> (\<lambda>item. py_str E (jget_or item ''id'' JNull)) `
                   set (filter (\<lambda>item. py_truthy (jget_or item ''blocking'' JNull))
                          (dicts (jget (a_content a) ''items''))))"

definition answered_ids_in :: "env \<Rightarrow> PreparationArtifact list \<Rightarrow> string set" where
  "answered_ids_in E artifacts =
     (\<Union>a \<in> set (filter (\<lambda>a. a_type a = CLARIFICATION_RESPONSE) artifacts).
        (\<lambda>item. py_str E (jget_or item ''id'' JNull)) `
          set (filter (\<lambda>item. py_strip (py_str E (jget_or item ''answer'' (JStr ''''))) \<noteq> '''')
                 (dicts (jget (a_content a) ''items''))))"

definition answer_content :: "AccessContext \<Rightarrow> datetime \<Rightarrow> ClarificationAnswer list \<Rightarrow> jdict" where
  "answer_content x answered_at answers =
     [(''answered_by'', JStr (x_principal_id x)), (''answered_at'', JStr (isoformat answered_at)),
      (''items'', JArr (map (\<lambda>a. JObj [(''id'', JStr (cl_clarification_id a)),
          (''question'', JStr (py_strip (cl_question a))),
          (''answer'', JStr (py_strip (cl_answer a))),
          (''source_note'', JStr (py_strip (cl_source_note a)))]) answers))]"

text \<open>The response artifact, and whether every blocking question is now covered.\<close>

definition record_answers ::
  "env \<Rightarrow> PreparationCase \<Rightarrow> ClarificationAnswer list \<Rightarrow> AccessContext \<Rightarrow> bool handler" where
  "record_answers E c answers x =
     act_bind (artifacts_latest (c_id c) CLARIFICATION_RESPONSE) (\<lambda>latest.
     act_bind (clock_now E) (\<lambda>answered_at.
     act_bind (new_uuid E) (\<lambda>i.
     act_bind (artifacts_add (case_artifact E i c (x_principal_id x) CLARIFICATION_RESPONSE
                 (next_version latest) AS_SUBMITTED (answer_content x answered_at answers))) (\<lambda>_.
     act_bind (artifacts_latest (c_id c) CLARIFICATION_LIST) (\<lambda>listing.
     act_bind (artifacts_list_for_case (c_id c)) (\<lambda>artifacts.
     act_ret (blocking_ids E listing
                \<subseteq> cl_clarification_id ` set answers \<union> answered_ids_in E artifacts)))))))"

definition answer_clarifications_tx ::
  "env \<Rightarrow> uuid \<Rightarrow> ClarificationAnswer list \<Rightarrow> AccessContext \<Rightarrow> unit handler" where
  "answer_clarifications_tx E case_id answers x =
     act_bind (cases_get case_id) (\<lambda>found.
     act_bind (act_some found NotFoundError ''preparation case not found'') (\<lambda>c.
     act_bind (act_require (c_state c = CS_WAITING_CLARIFICATION) ConflictError
                 ''case is not waiting for clarification'') (\<lambda>_.
     act_bind (record_answers E c answers x) (\<lambda>covered.
     act_bind (if covered
               then act_bind (act_lift (reopen_after_clarification c)) (\<lambda>c'. cases_save c')
               else act_ret ()) (\<lambda>_.
     commit)))))"

definition answer_clarifications ::
  "env \<Rightarrow> uuid \<Rightarrow> ClarificationAnswer list \<Rightarrow> AccessContext \<Rightarrow> unit handler" where
  "answer_clarifications E case_id answers x =
     act_bind (authorize x ''tender.write'') (\<lambda>_.
     act_bind (act_require (\<not> (answers = [] \<or> list_ex (\<lambda>a. py_strip (cl_answer a) = '''') answers))
                 DomainError ''every clarification requires a non-empty answer'') (\<lambda>_.
     in_uow E (x_tenant_id x) (answer_clarifications_tx E case_id answers x)))"

section \<open>Invariants and atomicity\<close>

context case_invariant
begin

lemma keeps_add_application_artifact: "keeps (sess I t) (add_application_artifact E c u ty ct s)"
  unfolding add_application_artifact_def by (intro keeps_rules statement_rules)

lemma keeps_store_source_document: "keeps (sess I t) (store_source_document E c u k ti fn ty d)"
  unfolding store_source_document_def by (intro keeps_rules)

lemma durable_audit_record: "durable I (x_tenant_id x) (audit_record E x a i d)"
  unfolding audit_record_def by (intro keeps_rules statement_rules)

lemma durable_create_preparation_case:
  "durable I (x_tenant_id x) (create_preparation_case E plans guard n cmd x)"
  unfolding create_preparation_case_def file_case_tx_def intake_approver_def by (intro keeps_rules statement_rules)

lemma durable_start_preparation_run:
  assumes "\<And>rc p. durable I (x_tenant_id x) (runner rc p)"
  shows "durable I (x_tenant_id x) (start_preparation_run E plans runner i x b ch)"
  unfolding start_preparation_run_def start_run_tx_def by (intro keeps_rules statement_rules assms)

lemma durable_run_preparation:
  assumes "\<And>rc p. durable I (x_tenant_id x) (runner rc p)"
  shows "durable I (x_tenant_id x) (run_preparation E plans guard runner i x ch)"
  unfolding run_preparation_def by (intro keeps_rules durable_start_preparation_run assms)

lemma durable_verify_preparation_intake:
  assumes "\<And>run. auto_run = Some run \<Longrightarrow> durable I (x_tenant_id x) (run i x)"
  shows "durable I (x_tenant_id x) (verify_preparation_intake E auto_run i ref m x)"
  unfolding verify_preparation_intake_def verify_intake_tx_def
  by (intro keeps_rules statement_rules assms)

lemma durable_reject_preparation_intake:
  "durable I (x_tenant_id x) (reject_preparation_intake E rules i m x code)"
  unfolding reject_preparation_intake_def reject_intake_tx_def
  by (intro keeps_rules statement_rules keeps_record_rework_event)

lemma durable_answer_clarifications:
  "durable I (x_tenant_id x) (answer_clarifications E i ans x)"
  unfolding answer_clarifications_def answer_clarifications_tx_def record_answers_def
  by (intro keeps_rules statement_rules)

end

lemma atomic_create_preparation_case: "atomic (create_preparation_case E plans guard n cmd x)"
  unfolding create_preparation_case_def file_case_tx_def intake_approver_def
  by (intro atomic_in_uow_ret atomic_rules)

lemma atomic_verify_intake_tx: "atomic (verify_intake_tx E i ref m x)"
  unfolding verify_intake_tx_def by (intro atomic_rules)

lemma atomic_reject_preparation_intake: "atomic (reject_preparation_intake E rules i m x code)"
  unfolding reject_preparation_intake_def reject_intake_tx_def by (intro atomic_rules)

lemma atomic_answer_clarifications: "atomic (answer_clarifications E i ans x)"
  unfolding answer_clarifications_def answer_clarifications_tx_def record_answers_def
  by (intro atomic_rules)

lemma atomic_start_run_tx: "atomic (start_run_tx E i r x b)"
  unfolding start_run_tx_def by (intro atomic_rules)

section \<open>What a returned transaction did\<close>

lemma find_recipient_frame:
  "find_recipient_for_role role (Some u) w = (Inr r, w') \<Longrightarrow> w' = w \<and> r \<noteq> Some u"
  "find_recipient_for_role role None w = (Inr r', w') \<Longrightarrow> w' = w"
  by (auto simp: run_more_queries dest: find_Some_in)

lemma case_job_sel [simp]:
  "n_case_id (case_job j c ev u due k p) = c_id c" "n_event_type (case_job j c ev u due k p) = ev"
  "n_recipient_user_id (case_job j c ev u due k p) = u" "n_tenant_id (case_job j c ev u due k p) = c_tenant_id c"
  "n_idempotency_key (case_job j c ev u due k p) = k" "n_id (case_job j c ev u due k p) = j"
  by (simp_all add: case_job_def new_job_def)

lemma case_artifact_sel [simp]:
  "a_type (case_artifact E i c u ty v st ct) = ty" "a_version (case_artifact E i c u ty v st ct) = v"
  "a_case_id (case_artifact E i c u ty v st ct) = c_id c" "a_status (case_artifact E i c u ty v st ct) = st"
  "a_tenant_id (case_artifact E i c u ty v st ct) = c_tenant_id c" "a_id (case_artifact E i c u ty v st ct) = i"
  "a_content (case_artifact E i c u ty v st ct) = ct" "a_created_by (case_artifact E i c u ty v st ct) = u"
  by (simp_all add: case_artifact_def)

lemma source_document_sel [simp]:
  "d_id (source_document E c i u k ti fn ty b) = i" "d_kind (source_document E c i u k ti fn ty b) = k"
  "d_tenant_id (source_document E c i u k ti fn ty b) = c_tenant_id c"
  "d_case_id (source_document E c i u k ti fn ty b) = c_id c"
  "d_filename (source_document E c i u k ti fn ty b) = fn"
  "d_content_hash (source_document E c i u k ti fn ty b) = env_sha256 E b"
  by (simp_all add: source_document_def)

lemma intake_approver_frame:
  assumes "intake_approver x w = (Inr r, w')"
  shows "w' = w \<and> r \<noteq> Some (x_principal_id x)"
proof -
  from assms obtain r0 v where "find_recipient_for_role ''approver'' (Some (x_principal_id x)) w = (Inr r0, v)"
    "(if r0 = None then find_recipient_for_role ''procurement_head'' (Some (x_principal_id x))
      else act_ret r0) v = (Inr r, w')"
    by (auto simp: intake_approver_def run_bind)
  then show ?thesis
    by (cases r0) (auto simp: run_basic dest!: find_recipient_frame)
qed

lemma file_case_tx_run:
  assumes "file_case_tx E x n c d a w = (Inr u, w')"
  shows "w_committed w' = w_db w' \<and> t_cases (w_db w') = t_cases (w_db w) @ [case_insert_row c]
    \<and> c_id c \<notin> c_id ` set (t_cases (w_db w))
    \<and> t_documents (w_db w') = t_documents (w_db w) @ [d]
    \<and> t_artifacts (w_db w') = t_artifacts (w_db w) @ [a]
    \<and> (\<exists>js. t_jobs (w_db w') = t_jobs (w_db w) @ js \<and> (\<forall>j \<in> set js. n_case_id j = c_id c \<and>
        (n_event_type j = NT_APPROVAL_REQUESTED \<longrightarrow> n_recipient_user_id j \<noteq> x_principal_id x)))"
  using assms unfolding file_case_tx_def
  by (clarsimp simp: run_simps simp del: run_more_queries(3) dest!: frames find_recipient_frame
      intake_approver_frame) fastforce

lemma verify_intake_tx_run:
  assumes "verify_intake_tx E i ref m x w = (Inr u, w')"
  shows "\<exists>c c'. get_case i w = Some c \<and> c_created_by c \<noteq> x_principal_id x
     \<and> (\<exists>d \<in> set (t_documents (w_db w)). d_case_id d = i)
     \<and> verify_intake c (x_principal_id x) (env_clock E (w_ticks w)) = Inr c'
     \<and> w_committed w' = w_db w' \<and> c' \<in> set (t_cases (w_db w'))"
proof -
  from assms obtain c c' where c: "get_case i w = Some c" "c_created_by c \<noteq> x_principal_id x"
    "verify_intake c (x_principal_id x) (env_clock E (w_ticks w)) = Inr c'"
    "filter (\<lambda>d. d_tenant_id d = w_tenant w \<and> d_case_id d = c_id c) (t_documents (w_db w)) \<noteq> []"
    "w_committed w' = w_db w'"
    "t_cases (w_db w') = update_where (case_update_hits (w_tenant w) c') (case_update_row c') (t_cases (w_db w))"
    unfolding verify_intake_tx_def Let_def by (auto simp: run_simps dest!: frames)
  have "c' \<in> set (t_cases (w_db w'))"
    using saved_op_in_table [OF c(1), of "Op_verify_intake (x_principal_id x) (env_clock E (w_ticks w))"] c
    by simp
  moreover have "\<exists>d \<in> set (t_documents (w_db w)). d_case_id d = i"
    using c(4) get_case_Some [OF c(1)] by (auto simp: filter_empty_conv)
  ultimately show ?thesis using c by blast
qed

text \<open>Exactly one returned-case record about the creator of a case, when the rules are wired and enabled.\<close>

definition rework_counted ::
  "ReworkSupportRules option \<Rightarrow> PreparationCase \<Rightarrow> uuid \<Rightarrow> ReworkCheckpoint \<Rightarrow> db \<Rightarrow> db \<Rightarrow> bool" where
  "rework_counted rules c decider checkpoint before after =
     (if rules \<noteq> None \<and> rules_is_enabled (the rules)
      then \<exists>e. t_rework_events after = t_rework_events before @ [e]
             \<and> re_creator_user_id e = c_created_by c \<and> re_decided_by_user_id e = decider
             \<and> re_case_id e = c_id c \<and> re_checkpoint e = checkpoint
             \<and> (re_reason_code e = FALLBACK_REASON_CODE \<or> is_known (the rules) (re_reason_code e))
      else t_rework_events after = t_rework_events before)"

lemma reject_intake_tx_run:
  assumes "reject_intake_tx E rules i why code x w = (Inr u, w')"
  shows "\<exists>c c'. get_case i w = Some c \<and> reject_intake c (x_principal_id x) = Inr c'
     \<and> w_committed w' = w_db w' \<and> c' \<in> set (t_cases (w_db w'))
     \<and> rework_counted rules c (x_principal_id x) RC_INTAKE (w_db w) (w_db w')"
proof -
  from assms obtain c c' where c: "get_case i w = Some c" "reject_intake c (x_principal_id x) = Inr c'"
    "w_committed w' = w_db w'"
    "t_cases (w_db w') = update_where (case_update_hits (w_tenant w) c') (case_update_row c') (t_cases (w_db w))"
    "rework_counted rules c' (x_principal_id x) RC_INTAKE (w_db w) (w_db w')"
    unfolding reject_intake_tx_def Let_def
    by (cases rules) (auto simp: run_simps record_rework_event_def Let_def mk_ReworkEvent_def rework_counted_def
        normalise_reason_code_def rework_insert_row_def split: if_splits dest!: frames)
  have op: "apply_case_op (Op_reject_intake (x_principal_id x)) c = Inr c'" using c(2) by simp
  have "c' \<in> set (t_cases (w_db w'))" using saved_op_in_table [OF c(1) op] c(4) by simp
  then show ?thesis using c get_case_Some [OF c(1)] apply_case_op_frame [OF op]
    by (auto simp: rework_counted_def split: option.splits)
qed

lemma start_run_tx_run:
  assumes "start_run_tx E i r x b w = (Inr actor, w')"
  shows "\<exists>c c'. get_case i w = Some c \<and> start_run c r = Inr c' \<and> w_committed w' = w_db w'
     \<and> c' \<in> set (t_cases (w_db w')) \<and> actor = (if b then c_created_by c else x_principal_id x)"
proof -
  from assms obtain c c' where c: "get_case i w = Some c" "start_run c r = Inr c'"
    "w_committed w' = w_db w'" "actor = (if b then c_created_by c else x_principal_id x)"
    "t_cases (w_db w') = update_where (case_update_hits (w_tenant w) c') (case_update_row c') (t_cases (w_db w))"
    unfolding start_run_tx_def Let_def by (auto simp: run_simps dest!: frames)
  then show ?thesis using saved_op_in_table [OF c(1), of "Op_start_run r"] by auto
qed

lemma artifacts_cong:
  assumes "t_artifacts (w_db v) = t_artifacts (w_db w)" "w_tenant v = w_tenant w"
  shows "latest_artifact i ty v = latest_artifact i ty w" "artifact_visible v = artifact_visible w"
  using assms by (simp_all add: latest_artifact_def artifact_visible_def)

definition all_covered :: "env \<Rightarrow> uuid \<Rightarrow> ClarificationAnswer list \<Rightarrow> world \<Rightarrow> bool" where
  "all_covered E i answers w =
     (blocking_ids E (latest_artifact i CLARIFICATION_LIST w)
        \<subseteq> cl_clarification_id ` set answers
          \<union> answered_ids_in E (filter (\<lambda>a. a_case_id a = i) (artifact_visible w)))"

lemma record_answers_run:
  assumes "record_answers E c ans x w = (Inr b, w')"
  shows "b = all_covered E (c_id c) ans w' \<and> w_tenant w' = w_tenant w
    \<and> t_cases (w_db w') = t_cases (w_db w) \<and> w_committed w' = w_committed w
    \<and> (\<exists>a. t_artifacts (w_db w') = t_artifacts (w_db w) @ [a] \<and> a_type a = CLARIFICATION_RESPONSE
         \<and> a_version a = next_version (latest_artifact (c_id c) CLARIFICATION_RESPONSE w))"
  using assms unfolding record_answers_def
  by (auto simp: run_simps all_covered_def dest!: frames)

lemma answer_clarifications_tx_run:
  assumes "answer_clarifications_tx E i ans x w = (Inr u, w')"
  shows "\<exists>c a. get_case i w = Some c \<and> c_state c = CS_WAITING_CLARIFICATION \<and> w_committed w' = w_db w'
     \<and> t_artifacts (w_db w') = t_artifacts (w_db w) @ [a] \<and> a_type a = CLARIFICATION_RESPONSE
     \<and> a_version a = next_version (latest_artifact i CLARIFICATION_RESPONSE w)
     \<and> w_tenant w' = w_tenant w
     \<and> (if all_covered E i ans w'
        then (\<exists>c'. reopen_after_clarification c = Inr c' \<and> c' \<in> set (t_cases (w_db w')))
        else t_cases (w_db w') = t_cases (w_db w))"
proof -
  let ?save = "\<lambda>c b. if b then act_bind (act_lift (reopen_after_clarification c)) (\<lambda>c'. cases_save c')
    else act_ret ()"
  from assms obtain c b v u' v' where c: "get_case i w = Some c" "c_state c = CS_WAITING_CLARIFICATION"
    and v: "record_answers E c ans x w = (Inr b, v)"
    and sv: "?save c b v = (Inr u', v')" and w': "w' = v'\<lparr>w_committed := w_db v'\<rparr>"
    unfolding answer_clarifications_tx_def by (auto simp: run_simps simp del: run_if split del: if_split)
  have fin: "w_committed w' = w_db w'" "t_artifacts (w_db w') = t_artifacts (w_db v)" "w_tenant w' = w_tenant v"
      "if b then \<exists>c'. reopen_after_clarification c = Inr c' \<and> t_cases (w_db w')
            = update_where (case_update_hits (w_tenant v) c') (case_update_row c') (t_cases (w_db v))
       else t_cases (w_db w') = t_cases (w_db v)"
    using sv w' by (cases b; auto simp: run_simps)+
  note rec = record_answers_run [OF v]
  have i: "c_id c = i" using get_case_Some [OF c(1)] by simp
  have b: "b = all_covered E i ans w'"
    using rec artifacts_cong [OF fin(2,3)] by (simp add: all_covered_def i)
  have "c' \<in> set (t_cases (w_db w'))" if "b" "reopen_after_clarification c = Inr c'" for c'
    using saved_op_in_table [OF c(1), of Op_reopen_after_clarification c'] that fin(4) rec by auto
  then show ?thesis using c fin rec b i by (auto split: if_splits)
qed

section \<open>Properties\<close>

lemma guard_frame: "guard_if_wired E g x w = (Inr u, v) \<Longrightarrow> w_committed v = w_committed w"
  using guard_if_wired_uncommitted [of E g x] by (auto simp: uncommitted_def dest: spec [of _ w])

lemma pr_document_sel: "d_case_id (pr_document E i x c cmd) = c_id c" "d_kind (pr_document E i x c cmd) = APPROVED_PR"
  by (simp_all add: pr_document_def)

lemma create_preparation_case_run:
  assumes "create_preparation_case E plans guard n cmd x w = (Inr i, w')"
  obtains c did a v v1 u where
    "PLATFORM_ADMIN_ROLE \<in> x_roles x \<or> ''tender.write'' \<in> x_scopes x"
    "has_feature plans x TENDER_FEATURE"
    "new_preparation_case i (x_tenant_id x) (x_workspace_id x) (cc_title cmd)
                 (x_principal_id x) (cc_source_pr_ref cmd) (cc_description cmd)
                 (cc_estimated_value_minor cmd) (cc_currency cmd) (cc_deadline cmd)
                 (cc_owner_name cmd) (cc_procurement_type cmd) (cc_business_domain cmd) = Inr c"
    "file_case_tx E x n c (pr_document E did x c cmd) a v = (Inr u, v1)" "w_db v = w_committed w"
    "w_committed w' = w_committed v1"
proof -
  from assms show ?thesis
    unfolding create_preparation_case_def Let_def authorize_def
    by (clarsimp simp: run_simps simp del: unit_eq dest!: guard_frame) (erule that [rotated 3]; simp add: new_preparation_case_props(5))
qed

text \<open>Filing a case. A case is created only by somebody who may write tenders and whose plan
  includes the tender worker; it is committed as one new draft of version 1, created by and belonging
  to the caller, unverified, with its purchase request as a document; the request to verify it never
  goes to the person who filed it; and when filing raises, nothing is committed.\<close>

theorem create_case_effect:
  assumes "create_preparation_case E plans guard n cmd x w = (r, w')"
  shows "case r of
      Inl e \<Rightarrow> w_committed w' = w_committed w
    | Inr i \<Rightarrow> (PLATFORM_ADMIN_ROLE \<in> x_roles x \<or> ''tender.write'' \<in> x_scopes x)
        \<and> has_feature plans x TENDER_FEATURE
        \<and> i \<notin> c_id ` set (t_cases (w_committed w))
        \<and> (\<exists>c. t_cases (w_committed w') = t_cases (w_committed w) @ [c] \<and> c_id c = i
             \<and> c_state c = CS_DRAFT \<and> c_version c = 1 \<and> c_created_by c = x_principal_id x
             \<and> c_tenant_id c = x_tenant_id x \<and> c_intake_verified_by c = None
             \<and> py_strip (c_title c) \<noteq> '''')
        \<and> (\<exists>d. t_documents (w_committed w') = t_documents (w_committed w) @ [d]
             \<and> d_case_id d = i \<and> d_kind d = APPROVED_PR)
        \<and> (\<exists>js. t_jobs (w_committed w') = t_jobs (w_committed w) @ js
             \<and> (\<forall>j \<in> set js. n_case_id j = i \<and> (n_event_type j = NT_APPROVAL_REQUESTED
                   \<longrightarrow> n_recipient_user_id j \<noteq> x_principal_id x)))"
proof (cases r)
  case (Inl e)
  then show ?thesis using assms atomic_create_preparation_case by (simp add: atomic_def)
next
  case (Inr i)
  from assms [unfolded Inr] obtain c did a v v1 u where
    g: "PLATFORM_ADMIN_ROLE \<in> x_roles x \<or> ''tender.write'' \<in> x_scopes x"
      "has_feature plans x TENDER_FEATURE"
    and c: "new_preparation_case i (x_tenant_id x) (x_workspace_id x) (cc_title cmd)
                 (x_principal_id x) (cc_source_pr_ref cmd) (cc_description cmd)
                 (cc_estimated_value_minor cmd) (cc_currency cmd) (cc_deadline cmd)
                 (cc_owner_name cmd) (cc_procurement_type cmd) (cc_business_domain cmd) = Inr c"
    and tx: "file_case_tx E x n c (pr_document E did x c cmd) a v = (Inr u, v1)" "w_db v = w_committed w"
      "w_committed w' = w_committed v1"
    by (rule create_preparation_case_run)
  have "py_strip (c_title c) \<noteq> ''''" using c by (auto simp: new_preparation_case_def split: if_splits)
  moreover have "c_bids_close_at c = None" using c by (auto simp: new_preparation_case_def split: if_splits)
  ultimately show ?thesis
    using file_case_tx_run [OF tx(1)] new_preparation_case_props [OF c] tx g Inr
    by (auto simp: case_insert_row_def pr_document_sel)
qed

text \<open>C9: Separation of duties at intake. A verification that returns was made by somebody allowed
  to decide approvals, who is not the creator of the case, on a draft with a source document; without
  an automatic run the committed case is then ready and names that person as its verifier, one version
  up. If the transaction raises, the committed data stay as they were.\<close>

theorem verify_intake_effect:
  assumes "verify_preparation_intake E auto_run i ref m x w = (r, w')"
  shows "case r of
      Inl e \<Rightarrow> w_committed w' = w_committed w
    | Inr _ \<Rightarrow> (PLATFORM_ADMIN_ROLE \<in> x_roles x \<or> ''approvals.decide'' \<in> x_scopes x) \<and> py_strip ref \<noteq> ''''
        \<and> (\<exists>c \<in> set (t_cases (w_committed w)). c_id c = i \<and> c_tenant_id c = x_tenant_id x
             \<and> c_created_by c \<noteq> x_principal_id x \<and> c_state c = CS_DRAFT
             \<and> (\<exists>d \<in> set (t_documents (w_committed w)). d_case_id d = i)
             \<and> (auto_run = None \<longrightarrow> (\<exists>c' \<in> set (t_cases (w_committed w')). c_id c' = i
                  \<and> c_state c' = CS_INTAKE_READY \<and> c_intake_verified_by c' = Some (x_principal_id x)
                  \<and> c_version c' = c_version c + 1 \<and> verifier_ok c')))"
proof -
  let ?tx = "in_uow E (x_tenant_id x) (verify_intake_tx E i ref m x)"
  show ?thesis
  proof (cases r)
    case (Inl e)
    have "atomic ?tx" by (intro atomic_rules atomic_verify_intake_tx)
    then show ?thesis using assms Inl
      by (auto simp: verify_preparation_intake_def authorize_def act_bind_def act_lift_def act_require_def
          act_ret_def act_suppress_def atomic_def split: sum.splits prod.splits option.splits if_splits)
  next
    case (Inr u)
    from assms Inr obtain v u1 where a: "PLATFORM_ADMIN_ROLE \<in> x_roles x \<or> ''approvals.decide'' \<in> x_scopes x"
      "py_strip ref \<noteq> ''''" and tx: "verify_intake_tx E i ref m x (session_start (x_tenant_id x) w) = (Inr u1, v)"
      and fin: "auto_run = None \<longrightarrow> w_committed w' = w_committed v"
      by (auto simp: verify_preparation_intake_def authorize_def run_simps split: option.splits)
    from verify_intake_tx_run [OF tx] obtain c c' where
      c: "get_case i (session_start (x_tenant_id x) w) = Some c" "c_created_by c \<noteq> x_principal_id x"
      "\<exists>d \<in> set (t_documents (w_committed w)). d_case_id d = i"
      and v: "verify_intake c (x_principal_id x) (env_clock E (w_ticks w)) = Inr c'"
      "w_committed v = w_db v" "c' \<in> set (t_cases (w_db v))"
      by auto
    have c': "c_state c = CS_DRAFT" "c_state c' = CS_INTAKE_READY"
      "c_intake_verified_by c' = Some (x_principal_id x)" "c_version c' = c_version c + 1"
      "verifier_ok c'" "c_id c' = c_id c"
      using v(1) by (auto simp: verify_intake_def verifier_ok_def split: if_splits)
    have in_db: "c \<in> set (t_cases (w_committed w))" "c_id c = i" "c_tenant_id c = x_tenant_id x"
      using get_case_Some [OF c(1)] by auto
    have "\<exists>c' \<in> set (t_cases (w_committed w')). c_id c' = i
        \<and> c_state c' = CS_INTAKE_READY \<and> c_intake_verified_by c' = Some (x_principal_id x)
        \<and> c_version c' = c_version c + 1 \<and> verifier_ok c'" if "auto_run = None"
      using c' v fin in_db that by (intro bexI [of _ c']) auto
    then show ?thesis unfolding Inr sum.case using a c in_db c'(1)
      by (intro conjI bexI [of _ c]) blast+
  qed
qed

text \<open>A returned intake is counted. A rejection that returns was made by somebody allowed to
  decide approvals who gave a reason and is not the creator; the case is committed as rejected and, when the
  rework rules are wired and enabled, exactly one returned-case record about its creator is committed
  in the same transaction, under a reason code of the catalogue or the fallback code; when it
  raises, neither is.\<close>

theorem reject_intake_effect:
  assumes "reject_preparation_intake E rules i comment x code w = (r, w')"
  shows "case r of
      Inl e \<Rightarrow> w_committed w' = w_committed w
    | Inr _ \<Rightarrow> (PLATFORM_ADMIN_ROLE \<in> x_roles x \<or> ''approvals.decide'' \<in> x_scopes x) \<and> py_strip comment \<noteq> ''''
        \<and> (\<exists>c \<in> set (t_cases (w_committed w)). c_id c = i \<and> c_created_by c \<noteq> x_principal_id x
             \<and> (\<exists>c' \<in> set (t_cases (w_committed w')). c_id c' = i \<and> c_state c' = CS_INTAKE_REJECTED
                  \<and> c_version c' = c_version c + 1)
             \<and> rework_counted rules c (x_principal_id x) RC_INTAKE (w_committed w) (w_committed w'))"
proof (cases r)
  case (Inl e)
  then show ?thesis using assms atomic_reject_preparation_intake by (simp add: atomic_def)
next
  case (Inr u)
  from assms Inr obtain v u1 where a: "PLATFORM_ADMIN_ROLE \<in> x_roles x \<or> ''approvals.decide'' \<in> x_scopes x"
    "py_strip comment \<noteq> ''''"
    and tx: "reject_intake_tx E rules i (py_strip comment) code x (session_start (x_tenant_id x) w) = (Inr u1, v)"
    and fin: "w_committed w' = w_committed v"
    by (auto simp: reject_preparation_intake_def authorize_def run_simps Let_def)
  from reject_intake_tx_run [OF tx] obtain c c' where
    c: "get_case i (session_start (x_tenant_id x) w) = Some c"
    and rj: "reject_intake c (x_principal_id x) = Inr c'"
    and v: "w_committed v = w_db v" "c' \<in> set (t_cases (w_db v))"
    and ev: "rework_counted rules c (x_principal_id x) RC_INTAKE (w_committed w) (w_db v)"
    by auto
  have in_db: "c \<in> set (t_cases (w_committed w))" "c_id c = i" using get_case_Some [OF c] by auto
  have c': "c_created_by c \<noteq> x_principal_id x" "c_state c' = CS_INTAKE_REJECTED"
    "c_version c' = c_version c + 1" "c_id c' = c_id c"
    using rj by (auto simp: reject_intake_def split: if_splits)
  then have "\<exists>c' \<in> set (t_cases (w_committed w')). c_id c' = i \<and> c_state c' = CS_INTAKE_REJECTED
      \<and> c_version c' = c_version c + 1"
    using v fin in_db by (intro bexI [of _ c']) auto
  moreover have "rework_counted rules c (x_principal_id x) RC_INTAKE (w_committed w) (w_committed w')"
    using ev fin v(1) by simp
  ultimately show ?thesis unfolding Inr sum.case using a in_db c'(1) by blast
qed

text \<open>Clarification answers. A call that returns was made by somebody who may write tenders, on
  a case waiting for clarification, with no blank answer; it commits one response artifact with the
  next version number, and the case becomes ready again exactly when every blocking question is
  answered by this or an earlier response; otherwise no case changes.\<close>

theorem answer_clarifications_effect:
  assumes "answer_clarifications E i answers x w = (r, w')"
  shows "case r of
      Inl e \<Rightarrow> w_committed w' = w_committed w
    | Inr _ \<Rightarrow> (PLATFORM_ADMIN_ROLE \<in> x_roles x \<or> ''tender.write'' \<in> x_scopes x)
        \<and> (\<forall>a \<in> set answers. py_strip (cl_answer a) \<noteq> '''')
        \<and> (\<exists>c \<in> set (t_cases (w_committed w)). c_id c = i \<and> c_state c = CS_WAITING_CLARIFICATION)
        \<and> (\<exists>a. t_artifacts (w_committed w') = t_artifacts (w_committed w) @ [a]
             \<and> a_type a = CLARIFICATION_RESPONSE
             \<and> a_version a = next_version (latest_artifact i CLARIFICATION_RESPONSE (session_start (x_tenant_id x) w)))
        \<and> (if all_covered E i answers (session_start (x_tenant_id x) w')
           then \<exists>c \<in> set (t_cases (w_committed w')). c_id c = i \<and> c_state c = CS_INTAKE_READY
           else t_cases (w_committed w') = t_cases (w_committed w))"
proof (cases r)
  case (Inl e)
  then show ?thesis using assms atomic_answer_clarifications by (simp add: atomic_def)
next
  case (Inr u)
  let ?w = "session_start (x_tenant_id x) w"
  from assms Inr obtain v u1 where a: "PLATFORM_ADMIN_ROLE \<in> x_roles x \<or> ''tender.write'' \<in> x_scopes x"
    "\<forall>a \<in> set answers. py_strip (cl_answer a) \<noteq> ''''"
    and tx: "answer_clarifications_tx E i answers x ?w = (Inr u1, v)"
    and fin: "w_committed w' = w_committed v"
    by (auto simp: answer_clarifications_def authorize_def run_simps list_ex_iff)
  from answer_clarifications_tx_run [OF tx] obtain c a where
    c: "get_case i ?w = Some c" "c_state c = CS_WAITING_CLARIFICATION" "w_committed v = w_db v"
    and art: "t_artifacts (w_db v) = t_artifacts (w_committed w) @ [a]" "a_type a = CLARIFICATION_RESPONSE"
      "a_version a = next_version (latest_artifact i CLARIFICATION_RESPONSE ?w)" "w_tenant v = x_tenant_id x"
    and cov: "if all_covered E i answers v
        then (\<exists>c'. reopen_after_clarification c = Inr c' \<and> c' \<in> set (t_cases (w_db v)))
        else t_cases (w_db v) = t_cases (w_committed w)"
    by auto
  have in_db: "c \<in> set (t_cases (w_committed w))" "c_id c = i" using get_case_Some [OF c(1)] by auto
  have same: "all_covered E i answers v = all_covered E i answers (session_start (x_tenant_id x) w')"
    using artifacts_cong [of v "session_start (x_tenant_id x) w'"] fin c(3) art(4)
    by (simp add: all_covered_def)
  have "\<exists>c \<in> set (t_cases (w_committed w')). c_id c = i \<and> c_state c = CS_INTAKE_READY"
    if "all_covered E i answers v"
  proof -
    from that cov obtain c' where "reopen_after_clarification c = Inr c'" "c' \<in> set (t_cases (w_db v))" by auto
    then show ?thesis using in_db fin c(3)
      by (intro bexI [of _ c']) (auto simp: reopen_after_clarification_def case_moved_def split: if_splits)
  qed
  moreover have "t_cases (w_committed w') = t_cases (w_committed w)" if "\<not> all_covered E i answers v"
    using that cov fin c(3) by simp
  ultimately show ?thesis unfolding Inr sum.case same [symmetric] using a c art in_db fin by auto
qed

section \<open>Closed runs\<close>

definition demo_command :: CreatePreparationCaseCommand where
  "demo_command = \<lparr>cc_title = ''Laptops'', cc_description = '''', cc_source_pr_ref = ''PR-1'',
     cc_estimated_value_minor = 100, cc_currency = ''VND'', cc_deadline = None, cc_owner_name = ''o'',
     cc_procurement_type = GOODS, cc_business_domain = GENERAL, cc_pr_text = ''pr'', cc_pr_filename = ''f'',
     cc_pr_content_type = ''text/plain'', cc_supplier_names = [''S1'', '' S1 '']\<rparr>"

definition demo_case :: "CaseState \<Rightarrow> PreparationCase" where
  "demo_case s = \<lparr>c_id = ''c1'', c_tenant_id = ''t1'', c_workspace_id = ''w1'', c_title = ''Laptops'',
     c_created_by = ''u1'', c_source_pr_ref = ''PR-1'', c_description = '''', c_estimated_value_minor = 100,
     c_currency = ''VND'', c_deadline = None, c_owner_name = ''o'', c_procurement_type = GOODS,
     c_business_domain = GENERAL, c_method_key = None, c_state = s, c_current_step = '''',
     c_last_run_id = None, c_current_official_artifact_id = None, c_export_ref = None,
     c_intake_verified_by = None, c_intake_verified_at = None, c_bids_close_at = Some 0,
     c_version = 1\<rparr>"

definition demo_document :: "uuid \<Rightarrow> DocumentKind \<Rightarrow> PreparationDocument" where
  "demo_document i k = \<lparr>d_id = i, d_tenant_id = ''t1'', d_workspace_id = ''w1'', d_case_id = ''c1'',
     d_kind = k, d_title = JNull, d_filename = ''f'', d_content_type = ''text/plain'',
     d_size_bytes = 2, d_storage_key = ''k'', d_content_hash = ''h'', d_uploaded_by = ''u1''\<rparr>"

definition demo_member :: "uuid \<Rightarrow> string \<Rightarrow> membership_row" where
  "demo_member u r = \<lparr>mb_tenant_id = ''t1'', mb_workspace_id = ''w1'', mb_user_id = u, mb_role_keys = [r]\<rparr>"

lemma demo_row_sel [evaluation]:
  "c_id (demo_case s) = ''c1''" "c_tenant_id (demo_case s) = ''t1''" "c_workspace_id (demo_case s) = ''w1''"
  "c_created_by (demo_case s) = ''u1''" "c_state (demo_case s) = s" "c_version (demo_case s) = 1"
  "c_estimated_value_minor (demo_case s) = 100" "c_bids_close_at (demo_case s) = Some 0"
  "c_last_run_id (demo_case s) = None"
  "d_id (demo_document i k) = i" "d_tenant_id (demo_document i k) = ''t1''"
  "d_case_id (demo_document i k) = ''c1''" "d_kind (demo_document i k) = k"
  "mb_tenant_id (demo_member u r) = ''t1''" "mb_user_id (demo_member u r) = u" "mb_role_keys (demo_member u r) = [r]"
  by (simp_all add: demo_case_def demo_document_def demo_member_def)

definition staff_db :: db where
  "staff_db = empty_db\<lparr>t_memberships := [demo_member ''u2'' ''approver'', demo_member ''u9'' ''platform_admin'']\<rparr>"

definition case_db :: "CaseState \<Rightarrow> db" where
  "case_db s = staff_db\<lparr>t_cases := [demo_case s], t_documents := [demo_document ''d1'' APPROVED_PR]\<rparr>"

lemma demo_db_sel [evaluation]:
  "t_memberships staff_db = [demo_member ''u2'' ''approver'', demo_member ''u9'' ''platform_admin'']"
  "t_cases staff_db = []" "t_documents staff_db = []" "t_artifacts staff_db = []" "t_jobs staff_db = []"
  "t_rework_events staff_db = []"
  "t_memberships (case_db s) = t_memberships staff_db" "t_cases (case_db s) = [demo_case s]"
  "t_documents (case_db s) = [demo_document ''d1'' APPROVED_PR]" "t_artifacts (case_db s) = []"
  "t_jobs (case_db s) = []" "t_rework_events (case_db s) = []"
  by (simp_all add: case_db_def staff_db_def empty_db_def)

lemmas [evaluation] = py_strip_def py_lstrip_def py_rstrip_def py_isspace_def case_method_defs

theorem create_case_effect_witness:
  "\<exists>i w'. create_preparation_case demo_env DEFAULT_PLANS None 60 demo_command the_requester
      (start_world staff_db) = (Inr i, w')
    \<and> (\<exists>c. t_cases (w_committed w') = [c] \<and> c_state c = CS_DRAFT \<and> c_created_by c = ''u1'')"
proof -
  let ?run = "create_preparation_case demo_env DEFAULT_PLANS None 60 demo_command the_requester (start_world staff_db)"
  have "ran_ok ?run"
    by (simp add: evaluation create_preparation_case_def file_case_tx_def intake_approver_def demo_command_def
        require_feature_def has_feature_def ctx_has_feature_def DEFAULT_PLANS_def TENDER_FEATURE_def
        utf8_encode_def guard_if_wired_def new_preparation_case_def unique_first_def case_insert_row_def pr_document_def
        cong: act_bind_weak)
  from ran_ok_elim [OF this] obtain i w' where run: "?run = (Inr i, w')" by blast
  show ?thesis using create_case_effect [OF run] run by (auto simp: evaluation)
qed

theorem verify_intake_effect_witness:
  "\<exists>w'. verify_preparation_intake demo_env None ''c1'' ''REF'' '''' the_approver
      (start_world (case_db CS_DRAFT)) = (Inr (), w')
    \<and> (\<exists>c' \<in> set (t_cases (w_committed w')). c_state c' = CS_INTAKE_READY \<and> c_intake_verified_by c' = Some ''u2'')"
proof -
  let ?run = "verify_preparation_intake demo_env None ''c1'' ''REF'' '''' the_approver (start_world (case_db CS_DRAFT))"
  have "ran_ok ?run"
    by (simp add: evaluation verify_preparation_intake_def verify_intake_tx_def cong: act_bind_weak)
  from ran_ok_elim [OF this] obtain w' where run: "?run = (Inr (), w')" by fastforce
  show ?thesis using verify_intake_effect [OF run] run by (auto simp: evaluation)
qed

theorem reject_intake_effect_witness:
  "\<exists>w'. reject_preparation_intake demo_env (Some demo_rules) ''c1'' ''no'' the_approver ''WRONG''
      (start_world (case_db CS_DRAFT)) = (Inr (), w')
    \<and> (\<exists>e. t_rework_events (w_committed w') = [e] \<and> re_creator_user_id e = ''u1'')"
proof -
  let ?run = "reject_preparation_intake demo_env (Some demo_rules) ''c1'' ''no'' the_approver ''WRONG'' (start_world (case_db CS_DRAFT))"
  have "ran_ok ?run"
    by (simp add: evaluation reject_preparation_intake_def reject_intake_tx_def record_rework_event_def
        rules_is_enabled_def demo_rules_def normalise_reason_code_def is_known_def mk_ReworkEvent_def
        cong: act_bind_weak)
  from ran_ok_elim [OF this] obtain w' where run: "?run = (Inr (), w')" by fastforce
  show ?thesis using reject_intake_effect [OF run] run
    by (auto simp: evaluation demo_rules_def rules_is_enabled_def rework_counted_def)
qed

theorem answer_clarifications_effect_witness:
  "\<exists>w'. answer_clarifications demo_env ''c1'' [\<lparr>cl_clarification_id = ''q1'', cl_question = ''q'', cl_answer = ''a'', cl_source_note = ''''\<rparr>]
      the_requester (start_world (case_db CS_WAITING_CLARIFICATION)) = (Inr (), w')
    \<and> (\<exists>a. t_artifacts (w_committed w') = [a] \<and> a_type a = CLARIFICATION_RESPONSE)"
proof -
  let ?run = "answer_clarifications demo_env ''c1'' [\<lparr>cl_clarification_id = ''q1'', cl_question = ''q'', cl_answer = ''a'', cl_source_note = ''''\<rparr>]
      the_requester (start_world (case_db CS_WAITING_CLARIFICATION))"
  have "ran_ok ?run"
    by (simp add: evaluation answer_clarifications_def answer_clarifications_tx_def record_answers_def
        blocking_ids_def next_version_def cong: act_bind_weak)
  from ran_ok_elim [OF this] obtain w' where run: "?run = (Inr (), w')" by fastforce
  show ?thesis using answer_clarifications_effect [OF run] run by (auto simp: evaluation)
qed

end
