(* ===== verification/DW_Tendering.thy ===== *)
theory DW_Tendering
  imports DW_Intake
begin

text \<open>
  The second half of \<open>application/preparation/handlers.py\<close>: publishing the official package
  (with uploaded evidence or by mail), proposing, filing and deciding an addendum (CP3), registering
  bids, and closing the register (CP4); with the helpers between them.
\<close>

section \<open>Helpers\<close>

definition load_case :: "uuid \<Rightarrow> PreparationCase handler" where
  "load_case case_id =
     act_bind (cases_get case_id) (\<lambda>found.
     act_some found NotFoundError ''preparation case not found'')"

definition save_and_commit :: "PreparationCase \<Rightarrow> unit handler" where
  "save_and_commit c = act_bind (cases_save c) (\<lambda>_. commit)"

text \<open>A job for a recipient, if there is one: a fresh id, then the clock, then the insert.\<close>

definition enqueue_for ::
  "env \<Rightarrow> uuid option \<Rightarrow> (uuid \<Rightarrow> uuid \<Rightarrow> datetime \<Rightarrow> IntakeNotificationJob) \<Rightarrow> unit handler" where
  "enqueue_for E recipient job =
     (case recipient of
        None \<Rightarrow> act_ret ()
      | Some u \<Rightarrow>
          act_bind (new_uuid E) (\<lambda>j.
          act_bind (clock_now E) (\<lambda>ts.
          notifications_enqueue (job j u ts))))"

text \<open>\<open>for r in value\<close>: the elements, or \<open>TypeError\<close>.\<close>

fun py_elements :: "env \<Rightarrow> json \<Rightarrow> json list result" where
  "py_elements E (JArr xs) = Inr xs"
| "py_elements E (JStr s) = Inr (map (\<lambda>c. JStr [c]) s)"
| "py_elements E (JText k vs) = Inr (map (\<lambda>c. JStr [c]) (env_text E (JText k vs)))"
| "py_elements E (JObj d) = Inr (map (\<lambda>(k, _). JStr k) d)"
| "py_elements E _ = Inl (Err PyTypeError ''object is not iterable'')"

definition shortlist_rows :: "PreparationArtifact option \<Rightarrow> jdict list" where
  "shortlist_rows shortlist = dicts (case shortlist of None \<Rightarrow> None | Some a \<Rightarrow> jget (a_content a) ''shortlist'')"

definition row_name :: "env \<Rightarrow> jdict \<Rightarrow> string" where
  "row_name E row = py_str E (jget_or row ''name'' (JStr ''''))"

definition invited_supplier_names :: "env \<Rightarrow> PreparationCase \<Rightarrow> string handler" where
  "invited_supplier_names E c =
     act_bind (artifacts_latest (c_id c) SUPPLIER_SHORTLIST) (\<lambda>shortlist.
     act_ret (py_join '', '' (filter (\<lambda>n. n \<noteq> '''')
                (map (\<lambda>row. py_strip (row_name E row)) (shortlist_rows shortlist)))))"

text \<open>\<open>int(raw)\<close> for an \<open>int | str\<close>; anything else, and an unreadable number, is \<open>None\<close>.\<close>

fun window_days :: "env \<Rightarrow> json option \<Rightarrow> int option" where
  "window_days E (Some (JInt i)) = Some i"
| "window_days E (Some (JBool b)) = Some (if b then 1 else 0)"
| "window_days E (Some (JStr s)) = py_int_of_str s"
| "window_days E (Some (JText k vs)) = py_int_of_str (env_text E (JText k vs))"
| "window_days E _ = None"

definition closing_moment :: "env \<Rightarrow> PreparationArtifact option \<Rightarrow> datetime \<Rightarrow> datetime option" where
  "closing_moment E approach published_at =
     (case approach of
        None \<Rightarrow> None
      | Some a \<Rightarrow>
          (case jget (a_content a) ''legal_constraints'' of
             Some (JObj constraints) \<Rightarrow>
               (case window_days E (jget constraints ''applied_window_days'') of
                  Some days \<Rightarrow> if days > 0 then Some (published_at + timedelta_days days) else None
                | None \<Rightarrow> None)
           | _ \<Rightarrow> None))"

definition bids_close_at :: "env \<Rightarrow> PreparationCase \<Rightarrow> datetime \<Rightarrow> datetime option handler" where
  "bids_close_at E c published_at =
     act_bind (artifacts_latest (c_id c) PROCUREMENT_APPROACH) (\<lambda>approach.
     act_ret (closing_moment E approach published_at))"

definition or_default :: "string \<Rightarrow> string \<Rightarrow> string" where
  "or_default s d = (if s \<noteq> '''' then s else d)"

section \<open>Recording a publication from uploaded evidence\<close>

record RecordPublicationCommand =
  rp_filename :: string
  rp_content_type :: string
  rp_content :: bytes
  rp_channel :: string
  rp_recipient_summary :: string
  rp_published_at :: string
  rp_external_reference :: string

definition publication_content ::
  "RecordPublicationCommand \<Rightarrow> PreparationDocument \<Rightarrow> AccessContext \<Rightarrow> datetime \<Rightarrow> jdict" where
  "publication_content cmd document x recorded_at =
     [(''source_mode'', JStr ''manual_evidence_upload''), (''channel'', JStr (py_strip (rp_channel cmd))),
      (''recipient_summary'', JStr (py_strip (rp_recipient_summary cmd))),
      (''published_at'', JStr (py_strip (rp_published_at cmd))),
      (''external_reference'', JStr (py_strip (rp_external_reference cmd))),
      (''receipt_document_id'', JStr (d_id document)), (''receipt_hash'', JStr (d_content_hash document)),
      (''recorded_by'', JStr (x_principal_id x)), (''recorded_at'', JStr (isoformat recorded_at))]"

definition record_publication_tx ::
  "env \<Rightarrow> uuid \<Rightarrow> RecordPublicationCommand \<Rightarrow> AccessContext \<Rightarrow> unit handler" where
  "record_publication_tx E case_id cmd x =
     act_bind (load_case case_id) (\<lambda>c.
     act_bind (act_require (c_state c = CS_PACKAGE_OFFICIAL) ConflictError
                 ''only the official package can be recorded as published'') (\<lambda>_.
     act_bind (store_source_document E c (x_principal_id x) PUBLICATION_RECEIPT
                 (JText ''publication_evidence'' []) (rp_filename cmd) (rp_content_type cmd) (rp_content cmd)) (\<lambda>document.
     act_bind (documents_add document) (\<lambda>_.
     act_bind (clock_now E) (\<lambda>recorded_at.
     act_bind (add_application_artifact E c (x_principal_id x) PUBLICATION_RECORD
                 (publication_content cmd document x recorded_at) AS_OFFICIAL) (\<lambda>_.
     act_bind (bids_close_at E c recorded_at) (\<lambda>closes.
     act_bind (act_lift (record_publication c closes)) (\<lambda>c'.
     save_and_commit c'))))))))"

definition record_preparation_publication ::
  "env \<Rightarrow> uuid \<Rightarrow> RecordPublicationCommand \<Rightarrow> AccessContext \<Rightarrow> unit handler" where
  "record_preparation_publication E case_id cmd x =
     act_bind (authorize x ''tender.write'') (\<lambda>_.
     act_bind (act_require (py_strip (rp_external_reference cmd) \<noteq> '''') DomainError
                 ''publication external reference must not be blank'') (\<lambda>_.
     in_uow E (x_tenant_id x) (record_publication_tx E case_id cmd x)))"

section \<open>Publishing by mail\<close>

text \<open>The body goes to one supplier at a time, so it names no supplier.\<close>

definition build_rfq_email_body :: "env \<Rightarrow> PreparationCase \<Rightarrow> jdict \<Rightarrow> json result" where
  "build_rfq_email_body E c package =
     (let scope = py_strip (py_str E (jget_or package ''scope'' (JStr '''')))
      in case py_elements E (jget_or package ''requirements'' (JArr [])) of
           Inl e \<Rightarrow> Inl e
         | Inr reqs \<Rightarrow> Inr (JArr (
             [JText ''rfq_greeting'' [], JText ''rfq_invitation'' [c_title c],
              (if c_source_pr_ref c \<noteq> '''' then JText ''rfq_reference'' [c_source_pr_ref c]
               else JText ''rfq_no_reference'' []),
              JText ''rfq_scope_heading'' [],
              (if scope \<noteq> '''' then JStr scope else JText ''as_attached'' []),
              JText ''rfq_requirements_heading'' []]
             @ (if reqs \<noteq> [] then map (\<lambda>r. JStr (''- '' @ py_str E r)) reqs else [JText ''bullet_as_attached'' []])
             @ [JText ''rfq_deadline_14_days'' [], JText ''rfq_quote_form'' [], JText ''regards'' [],
                JText ''procurement_department'' []])))"

definition rfq_email :: "string \<Rightarrow> PreparationCase \<Rightarrow> json \<Rightarrow> email" where
  "rfq_email recipient c body =
     \<lparr>em_subject = JText ''rfq_subject'' [c_id c, c_title c, c_source_pr_ref c],
      em_body = body, em_to = recipient\<rparr>"

definition email_evidence :: "env \<Rightarrow> string \<Rightarrow> string \<Rightarrow> datetime \<Rightarrow> json \<Rightarrow> bytes" where
  "email_evidence E recipient message_id sent_at body =
     utf8_encode (env_text E (JArr [JText ''sent_automatically'' [recipient, message_id, isoformat sent_at], body]))"

definition auto_publication_content ::
  "string \<Rightarrow> string list \<Rightarrow> string \<Rightarrow> PreparationDocument \<Rightarrow> AccessContext \<Rightarrow> datetime \<Rightarrow> jdict" where
  "auto_publication_content recipient suppliers message_id document x recorded_at =
     [(''source_mode'', JStr ''auto_email''), (''channel'', JText ''official_email'' []),
      (''recipient_summary'', JStr (if suppliers \<noteq> [] then py_join '', '' suppliers else recipient)),
      (''published_at'', JStr (isoformat recorded_at)), (''external_reference'', JStr message_id),
      (''sent_to'', JStr recipient), (''receipt_document_id'', JStr (d_id document)),
      (''receipt_hash'', JStr (d_content_hash document)), (''recorded_by'', JStr (x_principal_id x)),
      (''recorded_at'', JStr (isoformat recorded_at))]"

definition published_payload :: "PreparationCase \<Rightarrow> string \<Rightarrow> string list \<Rightarrow> jdict" where
  "published_payload c recipient suppliers =
     [(''title'', JStr (c_title c)), (''heading'', JText ''published_by_email'' []),
      (''lines'', JArr [JText ''sent_to'' [if suppliers \<noteq> [] then py_join '', '' suppliers else recipient],
                        JText ''suppliers_will_submit'' [], JText ''requester_may_propose'' []])]"

fun receipt_buttons :: "PreparationCase \<Rightarrow> nat \<Rightarrow> string list \<Rightarrow> json list" where
  "receipt_buttons c i [] = []"
| "receipt_buttons c i (n # ns) =
     JObj [(''action_id'', JStr (''dw01_record_sub:'' @ nat_str i)), (''label'', JText ''has_submitted'' [n]),
           (''value'', JStr (c_id c @ ''|'' @ n))] # receipt_buttons c (Suc i) ns"

definition receipt_desk_payload :: "PreparationCase \<Rightarrow> string list \<Rightarrow> jdict" where
  "receipt_desk_payload c suppliers =
     [(''title'', JStr (c_title c)), (''heading'', JText ''receive_bids'' []),
      (''lines'', JArr [JText ''rfq_sent_to_n'' [nat_str (if suppliers \<noteq> [] then length suppliers else 1)],
                        JText ''press_and_drop_file'' [], JText ''close_button_later'' []]),
      (''buttons'', JArr (receipt_buttons c 0 (take 4 suppliers)))]"

text \<open>The receipt desk goes to an approver, when the tenant has one.\<close>

definition open_receipt_desk ::
  "env \<Rightarrow> PreparationCase \<Rightarrow> string list \<Rightarrow> datetime \<Rightarrow> unit handler" where
  "open_receipt_desk E c suppliers recorded_at =
     act_bind (find_recipient_for_role ''approver'' None) (\<lambda>approver.
     case approver of
       None \<Rightarrow> act_ret ()
     | Some u \<Rightarrow>
         act_bind (new_uuid E) (\<lambda>j.
         notifications_enqueue (case_job j c NT_RUN_PROGRESS u recorded_at
           (''dw01:'' @ c_id c @ '':progress:receipt_desk'') (receipt_desk_payload c suppliers))))"

definition auto_publish_tx :: "env \<Rightarrow> string \<Rightarrow> uuid \<Rightarrow> AccessContext \<Rightarrow> string handler" where
  "auto_publish_tx E recipient case_id x =
     act_bind (load_case case_id) (\<lambda>c.
     act_bind (act_require (c_state c = CS_PACKAGE_OFFICIAL) ConflictError
                 ''only the official package can be published'') (\<lambda>_.
     act_bind (artifacts_latest (c_id c) SOLICITATION_PACKAGE) (\<lambda>package.
     act_bind (artifacts_latest (c_id c) SUPPLIER_SHORTLIST) (\<lambda>shortlist.
     let suppliers = filter (\<lambda>n. py_strip n \<noteq> '''') (map (row_name E) (shortlist_rows shortlist)) in
     act_bind (act_lift (build_rfq_email_body E c (case package of None \<Rightarrow> [] | Some p \<Rightarrow> a_content p))) (\<lambda>body.
     act_bind (send_email E (rfq_email recipient c body)) (\<lambda>message_id.
     act_bind (clock_now E) (\<lambda>recorded_at.
     act_bind (store_source_document E c (x_principal_id x) PUBLICATION_RECEIPT
                 (JText ''publication_evidence_email'' []) ''publication_email.txt''
                 ''text/plain; charset=utf-8'' (email_evidence E recipient message_id recorded_at body)) (\<lambda>document.
     act_bind (documents_add document) (\<lambda>_.
     act_bind (add_application_artifact E c (x_principal_id x) PUBLICATION_RECORD
                 (auto_publication_content recipient suppliers message_id document x recorded_at) AS_OFFICIAL) (\<lambda>_.
     act_bind (bids_close_at E c recorded_at) (\<lambda>closes.
     act_bind (act_lift (record_publication c closes)) (\<lambda>c'.
     act_bind (new_uuid E) (\<lambda>j.
     act_bind (notifications_enqueue (case_job j c' NT_RUN_PROGRESS (c_created_by c') recorded_at
                 (''dw01:'' @ c_id c' @ '':progress:published'') (published_payload c' recipient suppliers))) (\<lambda>_.
     act_bind (open_receipt_desk E c' suppliers recorded_at) (\<lambda>_.
     act_bind (save_and_commit c') (\<lambda>_.
     act_ret message_id))))))))))))))))"

definition auto_publish_preparation :: "env \<Rightarrow> string \<Rightarrow> uuid \<Rightarrow> AccessContext \<Rightarrow> string handler" where
  "auto_publish_preparation E recipient case_id x =
     act_bind (authorize x ''tender.write'') (\<lambda>_.
     in_uow E (x_tenant_id x) (auto_publish_tx E recipient case_id x))"

section \<open>Addenda\<close>

record ProposeAddendumCommand =
  pa_change_summary :: string
  pa_impact_summary :: string
  pa_proposer_name :: string
  pa_extend_bids_by_days :: int

definition proposal_button_value :: "env \<Rightarrow> PreparationCase \<Rightarrow> ProposeAddendumCommand \<Rightarrow> string" where
  "proposal_button_value E c cmd =
     env_dumps_with E ''ensure_ascii=False''
       (JObj [(''case_id'', JStr (c_id c)), (''change'', JStr (take 600 (py_strip (pa_change_summary cmd)))),
              (''impact'', JStr (take 400 (py_strip (pa_impact_summary cmd)))),
              (''proposer'', JStr (take 80 (pa_proposer_name cmd))),
              (''extend_days'', JInt (pa_extend_bids_by_days cmd))])"

definition proposal_payload :: "env \<Rightarrow> PreparationCase \<Rightarrow> ProposeAddendumCommand \<Rightarrow> jdict" where
  "proposal_payload E c cmd =
     (let impact = take 200 (py_strip (pa_impact_summary cmd))
      in [(''title'', JStr (c_title c)), (''heading'', JText ''addendum_proposed'' []),
          (''case_id'', JStr (c_id c)),
          (''lines'', JArr [JText ''proposer'' [pa_proposer_name cmd],
             JText ''change'' [take 300 (py_strip (pa_change_summary cmd))],
             (if impact \<noteq> '''' then JText ''impact_declared'' [impact] else JText ''impact_not_declared'' []),
             JText ''you_decide'' []]),
          (''buttons'', JArr
             [JObj [(''action_id'', JStr ''dw01_addendum_submit''), (''label'', JText ''file_addendum'' []),
                    (''value'', JStr (proposal_button_value E c cmd)), (''style'', JStr ''primary'')],
              JObj [(''action_id'', JStr ''dw01_addendum_dismiss''), (''label'', JText ''dismiss'' []),
                    (''value'', JStr (c_id c))]])])"

definition propose_addendum_tx ::
  "env \<Rightarrow> uuid \<Rightarrow> ProposeAddendumCommand \<Rightarrow> AccessContext \<Rightarrow> unit handler" where
  "propose_addendum_tx E case_id cmd x =
     act_bind (load_case case_id) (\<lambda>c.
     act_bind (act_require (c_state c = CS_PUBLISHED) ConflictError
                 ''addendum can only be proposed while the package is published'') (\<lambda>_.
     act_bind (find_recipient_for_role ''approver'' None) (\<lambda>found.
     act_bind (act_some found NotFoundError
                 ''no procurement recipient configured for addendum proposals'') (\<lambda>recipient.
     act_bind (new_uuid E) (\<lambda>j.
     act_bind (clock_now E) (\<lambda>ts.
     act_bind (notifications_enqueue (case_job j c NT_ADDENDUM_PROPOSED recipient ts
                 (''dw01:'' @ c_id c @ '':addm-proposal:''
                   @ take 12 (env_sha256 E (utf8_encode (py_strip (pa_change_summary cmd)))))
                 (proposal_payload E c cmd))) (\<lambda>_.
     commit)))))))"

definition propose_preparation_addendum ::
  "env \<Rightarrow> uuid \<Rightarrow> ProposeAddendumCommand \<Rightarrow> AccessContext \<Rightarrow> unit handler" where
  "propose_preparation_addendum E case_id cmd x =
     act_bind (authorize x ''tender.write'') (\<lambda>_.
     in_uow E (x_tenant_id x) (propose_addendum_tx E case_id cmd x))"

record SubmitAddendumCommand =
  sa_filename :: string
  sa_content_type :: string
  sa_content :: bytes
  sa_change_summary :: string
  sa_impact_summary :: string
  sa_extend_bids_by_days :: int

definition addendum_content ::
  "SubmitAddendumCommand \<Rightarrow> PreparationDocument \<Rightarrow> AccessContext \<Rightarrow> datetime \<Rightarrow> jdict" where
  "addendum_content cmd document x submitted_at =
     [(''document_id'', JStr (d_id document)), (''document_hash'', JStr (d_content_hash document)),
      (''change_summary'', JStr (py_strip (sa_change_summary cmd))),
      (''impact_summary'', JStr (py_strip (sa_impact_summary cmd))),
      (''extend_bids_by_days'', JInt (sa_extend_bids_by_days cmd)),
      (''submitted_by'', JStr (x_principal_id x)), (''submitted_at'', JStr (isoformat submitted_at))]"

definition cp3_card_payload :: "PreparationCase \<Rightarrow> SubmitAddendumCommand \<Rightarrow> jdict" where
  "cp3_card_payload c cmd =
     (let impact = take 200 (py_strip (sa_impact_summary cmd))
      in [(''title'', JStr (c_title c)), (''checkpoint'', JStr ''CP3''), (''case_id'', JStr (c_id c)),
          (''lines'', JArr [JText ''change'' [take 200 (py_strip (sa_change_summary cmd))],
             (if impact \<noteq> '''' then JText ''impact'' [impact] else JText ''impact_not_assessed'' []),
             JText ''drafted_from_chat'' []])])"

definition submit_addendum_tx ::
  "env \<Rightarrow> uuid \<Rightarrow> SubmitAddendumCommand \<Rightarrow> AccessContext \<Rightarrow> unit handler" where
  "submit_addendum_tx E case_id cmd x =
     act_bind (load_case case_id) (\<lambda>c.
     act_bind (act_require (c_state c = CS_PUBLISHED) ConflictError
                 ''addendum can only be submitted before receiving bids'') (\<lambda>_.
     act_bind (store_source_document E c (x_principal_id x) ADDENDUM (JText ''addendum_draft'' [])
                 (sa_filename cmd) (sa_content_type cmd) (sa_content cmd)) (\<lambda>document.
     act_bind (documents_add document) (\<lambda>_.
     act_bind (clock_now E) (\<lambda>submitted_at.
     act_bind (add_application_artifact E c (x_principal_id x) ADDENDUM_DRAFT
                 (addendum_content cmd document x submitted_at) AS_SUBMITTED) (\<lambda>_.
     act_bind (act_lift (submit_addendum c)) (\<lambda>c'.
     act_bind (find_recipient_for_role ''approver'' None) (\<lambda>approver.
     act_bind (enqueue_for E approver (\<lambda>j u ts. case_job j c' NT_CP_APPROVAL_REQUESTED u ts
                 (''dw01:'' @ c_id c' @ '':cpcard:CP3:'' @ take 12 (d_content_hash document))
                 (cp3_card_payload c' cmd))) (\<lambda>_.
     save_and_commit c')))))))))"

definition submit_preparation_addendum ::
  "env \<Rightarrow> uuid \<Rightarrow> SubmitAddendumCommand \<Rightarrow> AccessContext \<Rightarrow> unit handler" where
  "submit_preparation_addendum E case_id cmd x =
     act_bind (authorize x ''approvals.decide'') (\<lambda>_.
     in_uow E (x_tenant_id x) (submit_addendum_tx E case_id cmd x))"

section \<open>Deciding CP3\<close>

text \<open>The body of the addendum mail; the closing moment is the one of the case as loaded.\<close>

definition build_addendum_email_body :: "PreparationCase \<Rightarrow> string \<Rightarrow> string \<Rightarrow> json" where
  "build_addendum_email_body c change impact =
     JArr ([JText ''rfq_greeting'' [], JText ''addendum_notice'' [c_title c], JText ''addendum_heading'' [],
            (if change \<noteq> '''' then JStr change else JText ''not_stated'' [])]
           @ (if impact \<noteq> '''' then [JText ''impact_heading'' [], JStr impact] else [])
           @ (case c_bids_close_at c of
                Some t \<Rightarrow> [JText ''bid_deadline'' [isoformat t]]
              | None \<Rightarrow> [])
           @ [JText ''part_of_invitation'' [], JText ''regards'' [], JText ''procuring_entity'' []])"

definition addendum_effect_lines ::
  "bool \<Rightarrow> jdict \<Rightarrow> int \<Rightarrow> datetime option \<Rightarrow> datetime option \<Rightarrow> json list" where
  "addendum_effect_lines approve issued extend_days closed_before closes_at =
     (if \<not> approve then [JText ''addendum_without_effect'' []]
      else [(case jget issued ''issued_to'' of
               Some (JStr s) \<Rightarrow> if s \<noteq> '''' then JText ''amendment_sent_to'' [s] else JText ''not_sent'' []
             | _ \<Rightarrow> JText ''not_sent'' [])]
           @ (if extend_days > 0 \<and> closes_at \<noteq> None \<and> closes_at \<noteq> closed_before
              then [JText ''deadline_moved'' [int_str extend_days, isoformat (the closes_at)]]
              else if extend_days > 0 then [JText ''extension_without_deadline'' [int_str extend_days]]
              else [])
           @ [JText ''keep_receiving'' []])"

text \<open>\<open>isinstance(raw, int) and raw > 0\<close>; a Python \<open>bool\<close> is an \<open>int\<close>.\<close>

fun positive_int :: "json option \<Rightarrow> int" where
  "positive_int (Some (JInt i)) = (if i > 0 then i else 0)"
| "positive_int (Some (JBool b)) = (if b then 1 else 0)"
| "positive_int _ = 0"

definition addendum_email :: "env \<Rightarrow> string \<Rightarrow> PreparationCase \<Rightarrow> PreparationArtifact \<Rightarrow> email" where
  "addendum_email E recipient c draft =
     \<lparr>em_subject = JText ''addendum_subject'' [c_id c, c_title c],
      em_body = build_addendum_email_body c
        (py_strip (py_str E (jget_or (a_content draft) ''change_summary'' (JStr ''''))))
        (py_strip (py_str E (jget_or (a_content draft) ''impact_summary'' (JStr '''')))),
      em_to = recipient\<rparr>"

definition addendum_record_content ::
  "string \<Rightarrow> string \<Rightarrow> string \<Rightarrow> PreparationDocument \<Rightarrow> PreparationArtifact \<Rightarrow> AccessContext \<Rightarrow> datetime \<Rightarrow> jdict" where
  "addendum_record_content recipient invited message_id document draft x sent_at =
     [(''source_mode'', JStr ''addendum_email''), (''channel'', JText ''official_email'' []),
      (''recipient_summary'', JStr (or_default invited recipient)),
      (''published_at'', JStr (isoformat sent_at)), (''external_reference'', JStr message_id),
      (''sent_to'', JStr recipient), (''receipt_document_id'', JStr (d_id document)),
      (''receipt_hash'', JStr (d_content_hash document)), (''addendum_artifact_id'', JStr (a_id draft)),
      (''recorded_by'', JStr (x_principal_id x)), (''recorded_at'', JStr (isoformat sent_at))]"

text \<open>
  \<open>publisher\<close> is the recipient address when both an email publisher and a document storage are
  configured; without one, or with an empty address, nobody is sent to and nothing is recorded.
\<close>

definition issue_to_suppliers ::
  "env \<Rightarrow> string option \<Rightarrow> PreparationCase \<Rightarrow> PreparationArtifact \<Rightarrow> AccessContext \<Rightarrow> jdict handler" where
  "issue_to_suppliers E publisher c draft x =
     (if publisher = None \<or> publisher = Some '''' then act_ret []
      else
        let recipient = the publisher; mail = addendum_email E recipient c draft in
        act_bind (send_email E mail) (\<lambda>message_id.
        act_bind (clock_now E) (\<lambda>sent_at.
        act_bind (store_source_document E c (x_principal_id x) PUBLICATION_RECEIPT
                    (JText ''addendum_evidence_email'' []) ''addendum_email.txt''
                    ''text/plain; charset=utf-8'' (email_evidence E recipient message_id sent_at (em_body mail))) (\<lambda>document.
        act_bind (documents_add document) (\<lambda>_.
        act_bind (invited_supplier_names E c) (\<lambda>invited.
        act_bind (add_application_artifact E c (x_principal_id x) PUBLICATION_RECORD
                    (addendum_record_content recipient invited message_id document draft x sent_at) AS_OFFICIAL) (\<lambda>_.
        act_bind (invited_supplier_names E c) (\<lambda>invited'.
        act_ret [(''issued_message_id'', JStr message_id), (''issued_to'', JStr (or_default invited' recipient)),
                 (''issued_at'', JStr (isoformat sent_at))]))))))))"

definition cp3_decision_content ::
  "bool \<Rightarrow> string \<Rightarrow> string \<Rightarrow> PreparationArtifact \<Rightarrow> int \<Rightarrow> AccessContext \<Rightarrow> datetime \<Rightarrow> jdict \<Rightarrow> jdict" where
  "cp3_decision_content approve approval_reference comment draft extend_days x decided_at issued =
     [(''decision'', JStr (if approve then ''approved'' else ''rejected'')),
      (''approval_reference'', JStr (py_strip approval_reference)), (''comment'', JStr (py_strip comment)),
      (''addendum_artifact_id'', JStr (a_id draft)), (''addendum_hash'', JStr (a_content_hash draft)),
      (''extend_bids_by_days'', JInt (if approve then extend_days else 0)),
      (''decided_by'', JStr (x_principal_id x)), (''decided_at'', JStr (isoformat decided_at))] @ issued"

definition cp3_decided_payload ::
  "PreparationCase \<Rightarrow> bool \<Rightarrow> string \<Rightarrow> string \<Rightarrow> jdict \<Rightarrow> int \<Rightarrow> datetime option \<Rightarrow> jdict" where
  "cp3_decided_payload c approve approval_reference comment issued extend_days closed_before =
     [(''title'', JStr (c_title c)),
      (''heading'', if approve then JText ''cp3_approved'' [] else JText ''cp3_rejected'' []),
      (''lines'', JArr ([JText ''approval_reference'' [py_strip approval_reference],
          (if py_strip comment \<noteq> '''' then JStr (py_strip comment) else JText ''no_comment'' [])]
          @ addendum_effect_lines approve issued extend_days closed_before (c_bids_close_at c)))]"

definition decide_cp3_tx ::
  "env \<Rightarrow> string option \<Rightarrow> uuid \<Rightarrow> bool \<Rightarrow> string \<Rightarrow> string \<Rightarrow> AccessContext \<Rightarrow> unit handler" where
  "decide_cp3_tx E publisher case_id approve approval_reference comment x =
     act_bind (load_case case_id) (\<lambda>c.
     act_bind (act_require (c_created_by c \<noteq> x_principal_id x) ConflictError
                 ''case creator cannot decide CP3 for their own case'') (\<lambda>_.
     act_bind (act_require (c_state c = CS_CP3_PENDING) ConflictError ''case is not waiting for CP3'') (\<lambda>_.
     act_bind (artifacts_latest (c_id c) ADDENDUM_DRAFT) (\<lambda>found.
     act_bind (act_some found DomainError ''CP3 has no addendum draft'') (\<lambda>draft.
     let extend_days = positive_int (jget (a_content draft) ''extend_bids_by_days'') in
     act_bind (if approve then issue_to_suppliers E publisher c draft x else act_ret []) (\<lambda>issued.
     act_bind (clock_now E) (\<lambda>decided_at.
     act_bind (add_application_artifact E c (x_principal_id x) ADDENDUM_DECISION
                 (cp3_decision_content approve approval_reference comment draft extend_days x decided_at issued)
                 (if approve then AS_APPROVED else AS_DRAFT)) (\<lambda>_.
     act_bind (act_lift (resolve_cp3 c (if approve then extend_days else 0))) (\<lambda>c'.
     act_bind (enqueue_for E (Some (c_created_by c')) (\<lambda>j u ts. case_job j c' NT_RUN_PROGRESS u ts
                 (''dw01:'' @ c_id c' @ '':progress:cp3_decision:'' @ take 12 (a_content_hash draft))
                 (cp3_decided_payload c' approve approval_reference comment issued extend_days (c_bids_close_at c)))) (\<lambda>_.
     save_and_commit c'))))))))))"

definition decide_preparation_cp3 ::
  "env \<Rightarrow> string option \<Rightarrow> uuid \<Rightarrow> bool \<Rightarrow> string \<Rightarrow> string \<Rightarrow> AccessContext \<Rightarrow> unit handler" where
  "decide_preparation_cp3 E publisher case_id approve approval_reference comment x =
     act_bind (authorize x ''approvals.decide'') (\<lambda>_.
     act_bind (act_require (py_strip approval_reference \<noteq> '''') DomainError
                 ''CP3 approval reference must not be blank'') (\<lambda>_.
     in_uow E (x_tenant_id x) (decide_cp3_tx E publisher case_id approve approval_reference comment x)))"

section \<open>Registering bids\<close>

record RecordSubmissionCommand =
  rs_filename :: string
  rs_content_type :: string
  rs_content :: bytes
  rs_supplier_name :: string
  rs_received_at :: string
  rs_receipt_status :: string
  rs_external_reference :: string

definition register_items :: "PreparationArtifact option \<Rightarrow> jdict list" where
  "register_items latest =
     (case latest of None \<Rightarrow> [] | Some a \<Rightarrow> dicts (jget (a_content a) ''items''))"

definition register_entry ::
  "RecordSubmissionCommand \<Rightarrow> PreparationDocument \<Rightarrow> AccessContext \<Rightarrow> datetime \<Rightarrow> jdict" where
  "register_entry cmd document x recorded_at =
     [(''submission_id'', JStr (d_id document)), (''supplier_name'', JStr (py_strip (rs_supplier_name cmd))),
      (''filename'', JStr (d_filename document)), (''content_hash'', JStr (d_content_hash document)),
      (''received_at'', JStr (py_strip (rs_received_at cmd))),
      (''receipt_status'', JStr (rs_receipt_status cmd)),
      (''external_reference'', JStr (py_strip (rs_external_reference cmd))),
      (''recorded_by'', JStr (x_principal_id x)), (''recorded_at'', JStr (isoformat recorded_at))]"

definition register_content :: "jdict list \<Rightarrow> jdict" where
  "register_content items =
     [(''source_mode'', JStr ''manual_evidence_upload''), (''items'', JArr (map JObj items))]"

definition bid_payload :: "PreparationCase \<Rightarrow> RecordSubmissionCommand \<Rightarrow> nat \<Rightarrow> PreparationDocument \<Rightarrow> jdict" where
  "bid_payload c cmd n document =
     [(''title'', JStr (c_title c)), (''heading'', JText ''bid_received'' [py_strip (rs_supplier_name cmd)]),
      (''lines'', JArr [JText ''register_holds'' [nat_str n], JText ''sealed_file'' [d_filename document],
                        JText ''receipt_issued'' []])]"

definition record_submission_tx ::
  "env \<Rightarrow> ProcurementRules \<Rightarrow> uuid \<Rightarrow> RecordSubmissionCommand \<Rightarrow> AccessContext \<Rightarrow> unit handler" where
  "record_submission_tx E rules case_id cmd x =
     act_bind (load_case case_id) (\<lambda>c.
     act_bind (act_require (c_state c \<in> {CS_PUBLISHED, CS_RECEIVING_BIDS}) ConflictError
                 ''case is not accepting supplier submissions'') (\<lambda>_.
     act_bind (store_source_document E c (x_principal_id x) SUPPLIER_SUBMISSION
                 (JText ''bid_of'' [py_strip (rs_supplier_name cmd)]) (rs_filename cmd) (rs_content_type cmd)
                 (rs_content cmd)) (\<lambda>document.
     act_bind (documents_add document) (\<lambda>_.
     act_bind (artifacts_latest (c_id c) SUBMISSION_REGISTER) (\<lambda>latest.
     act_bind (clock_now E) (\<lambda>recorded_at.
     let items = register_items latest @ [register_entry cmd document x recorded_at] in
     act_bind (add_application_artifact E c (x_principal_id x) SUBMISSION_REGISTER
                 (register_content items) AS_SUBMITTED) (\<lambda>_.
     act_bind (act_lift (record_submission c)) (\<lambda>c'.
     act_bind (find_recipient_for_role (approver_role_for rules (c_estimated_value_minor c') ''CP4'') None) (\<lambda>opener.
     act_bind (enqueue_for E opener (\<lambda>j u ts. case_job j c' NT_RUN_PROGRESS u ts
                 (''dw01:'' @ c_id c' @ '':progress:bid:'' @ take 12 (d_content_hash document))
                 (bid_payload c' cmd (length items) document))) (\<lambda>_.
     save_and_commit c'))))))))))"

definition record_preparation_submission ::
  "env \<Rightarrow> ProcurementRules \<Rightarrow> uuid \<Rightarrow> RecordSubmissionCommand \<Rightarrow> AccessContext \<Rightarrow> unit handler" where
  "record_preparation_submission E rules case_id cmd x =
     act_bind (authorize x ''tender.write'') (\<lambda>_.
     act_bind (act_require (rs_receipt_status cmd \<in> {''on_time'', ''late'', ''replacement''}) DomainError
                 ''invalid supplier submission receipt status'') (\<lambda>_.
     in_uow E (x_tenant_id x) (record_submission_tx E rules case_id cmd x)))"

section \<open>Closing the register\<close>

definition submissions_of :: "PreparationDocument list \<Rightarrow> PreparationDocument list" where
  "submissions_of documents = filter (\<lambda>d. d_kind d = SUPPLIER_SUBMISSION) documents"

definition cp4_card_payload :: "PreparationCase \<Rightarrow> nat \<Rightarrow> jdict" where
  "cp4_card_payload c n =
     [(''title'', JStr (c_title c)), (''checkpoint'', JStr ''CP4''), (''case_id'', JStr (c_id c)),
      (''lines'', JArr [JText ''register_holds'' [nat_str n], JText ''creator_asks_to_open'' [],
                        JText ''confirming_hands_off'' []])]"

definition request_cp4_tx :: "env \<Rightarrow> ProcurementRules \<Rightarrow> uuid \<Rightarrow> AccessContext \<Rightarrow> nat handler" where
  "request_cp4_tx E rules case_id x =
     act_bind (load_case case_id) (\<lambda>c.
     act_bind (act_require (c_state c = CS_RECEIVING_BIDS) ConflictError ''case is not receiving bids'') (\<lambda>_.
     act_bind (documents_list_for_case (c_id c)) (\<lambda>documents.
     let submissions = submissions_of documents in
     act_bind (act_require (submissions \<noteq> []) DomainError ''no bid yet: the register cannot be opened'') (\<lambda>_.
     act_bind (find_recipient_for_role (approver_role_for rules (c_estimated_value_minor c) ''CP4'') None) (\<lambda>approver.
     act_bind (enqueue_for E approver (\<lambda>j u ts. case_job j c NT_CP_APPROVAL_REQUESTED u ts
                 (''dw01:'' @ c_id c @ '':cpcard:CP4:n'' @ nat_str (length submissions))
                 (cp4_card_payload c (length submissions)))) (\<lambda>_.
     act_bind commit (\<lambda>_.
     act_ret (length submissions))))))))"

definition request_cp4 :: "env \<Rightarrow> ProcurementRules \<Rightarrow> uuid \<Rightarrow> AccessContext \<Rightarrow> nat handler" where
  "request_cp4 E rules case_id x =
     act_bind (authorize x ''tender.write'') (\<lambda>_.
     in_uow E (x_tenant_id x) (request_cp4_tx E rules case_id x))"

record CompleteCp4Command =
  c4_filename :: string
  c4_content_type :: string
  c4_content :: bytes
  c4_opening_at :: string
  c4_witnesses :: "string list"
  c4_approval_reference :: string
  c4_comment :: string

definition opening_content ::
  "CompleteCp4Command \<Rightarrow> PreparationDocument \<Rightarrow> AccessContext \<Rightarrow> datetime \<Rightarrow> jdict" where
  "opening_content cmd minutes x completed_at =
     [(''opening_at'', JStr (py_strip (c4_opening_at cmd))),
      (''witnesses'', JArr (map JStr (c4_witnesses cmd))),
      (''approval_reference'', JStr (py_strip (c4_approval_reference cmd))),
      (''comment'', JStr (py_strip (c4_comment cmd))),
      (''minutes_document_id'', JStr (d_id minutes)), (''minutes_hash'', JStr (d_content_hash minutes)),
      (''confirmed_by'', JStr (x_principal_id x)), (''confirmed_at'', JStr (isoformat completed_at))]"

definition index_entry :: "PreparationArtifact \<Rightarrow> json" where
  "index_entry a = JObj [(''type'', JStr (artifact_type_value (a_type a))), (''version'', JInt (a_version a)),
     (''hash'', JStr (a_content_hash a))]"

definition handoff_content ::
  "PreparationCase \<Rightarrow> PreparationDocument list \<Rightarrow> PreparationArtifact list \<Rightarrow> CompleteCp4Command \<Rightarrow> datetime \<Rightarrow> jdict" where
  "handoff_content c submissions artifacts cmd completed_at =
     [(''case_id'', JStr (c_id c)), (''source_mode'', JStr ''manual_evidence_upload''),
      (''official_package_artifact_id'',
         (case c_current_official_artifact_id c of Some i \<Rightarrow> JStr i | None \<Rightarrow> JNull)),
      (''submission_count'', JInt (int (length submissions))),
      (''submission_document_ids'', JArr (map (\<lambda>d. JStr (d_id d)) submissions)),
      (''artifact_index'', JArr (map index_entry artifacts)),
      (''cp4_reference'', JStr (py_strip (c4_approval_reference cmd))),
      (''handoff_ready_at'', JStr (isoformat completed_at))]"

definition handoff_key :: "AccessContext \<Rightarrow> PreparationCase \<Rightarrow> string" where
  "handoff_key x c = x_tenant_id x @ ''/'' @ x_workspace_id x @ ''/exports/preparation/'' @ c_id c
     @ ''/evaluation-handoff.json''"

definition cp4_done_payload :: "PreparationCase \<Rightarrow> nat \<Rightarrow> jdict" where
  "cp4_done_payload c n =
     [(''title'', JStr (c_title c)), (''heading'', JText ''bids_opened'' []),
      (''lines'', JArr [JText ''n_bids_opened'' [nat_str n], JText ''handoff_sealed'' [],
                        JText ''nothing_bought_yet'' [], JText ''next_is_evaluation'' []])]"

definition complete_cp4_tx ::
  "env \<Rightarrow> uuid \<Rightarrow> CompleteCp4Command \<Rightarrow> AccessContext \<Rightarrow> unit handler" where
  "complete_cp4_tx E case_id cmd x =
     act_bind (load_case case_id) (\<lambda>c.
     act_bind (act_require (c_created_by c \<noteq> x_principal_id x) ConflictError
                 ''case creator cannot confirm CP4 for their own case'') (\<lambda>_.
     act_bind (act_require (c_state c = CS_RECEIVING_BIDS) ConflictError ''case is not ready for CP4'') (\<lambda>_.
     act_bind (documents_list_for_case (c_id c)) (\<lambda>documents.
     let submissions = submissions_of documents in
     act_bind (act_require (submissions \<noteq> []) DomainError ''CP4 requires at least one supplier submission'') (\<lambda>_.
     act_bind (store_source_document E c (x_principal_id x) BID_OPENING_MINUTES (JText ''opening_minutes'' [])
                 (c4_filename cmd) (c4_content_type cmd) (c4_content cmd)) (\<lambda>minutes.
     act_bind (documents_add minutes) (\<lambda>_.
     act_bind (clock_now E) (\<lambda>completed_at.
     act_bind (add_application_artifact E c (x_principal_id x) BID_OPENING_RECORD
                 (opening_content cmd minutes x completed_at) AS_APPROVED) (\<lambda>_.
     act_bind (artifacts_list_for_case (c_id c)) (\<lambda>all_artifacts.
     let handoff = handoff_content c submissions all_artifacts cmd completed_at in
     act_bind (put_object E (handoff_key x c)
                 (utf8_encode (env_dumps_with E ''ensure_ascii=False, indent=2'' (JObj handoff)))
                 ''application/json'') (\<lambda>handoff_ref.
     act_bind (add_application_artifact E c (x_principal_id x) EVALUATION_HANDOFF
                 (handoff @ [(''handoff_ref'', JStr handoff_ref)]) AS_OFFICIAL) (\<lambda>_.
     act_bind (act_lift (complete_cp4_handoff c)) (\<lambda>c'.
     act_bind (enqueue_for E (Some (c_created_by c')) (\<lambda>j u ts. case_job j c' NT_RUN_PROGRESS u ts
                 (''dw01:'' @ c_id c' @ '':progress:cp4_done'') (cp4_done_payload c' (length submissions)))) (\<lambda>_.
     save_and_commit c'))))))))))))))"

definition complete_preparation_cp4 ::
  "env \<Rightarrow> uuid \<Rightarrow> CompleteCp4Command \<Rightarrow> AccessContext \<Rightarrow> unit handler" where
  "complete_preparation_cp4 E case_id cmd x =
     act_bind (authorize x ''approvals.decide'') (\<lambda>_.
     act_bind (act_require (py_strip (c4_approval_reference cmd) \<noteq> '''' \<and> c4_witnesses cmd \<noteq> []) DomainError
                 ''CP4 requires approval reference and at least one witness'') (\<lambda>_.
     in_uow E (x_tenant_id x) (complete_cp4_tx E case_id cmd x)))"

section \<open>Queries\<close>

text \<open>The view of a case: the entity with what belongs to it; file previews are read from storage.\<close>

record PreparationCaseView =
  cv_case :: PreparationCase
  cv_artifacts :: "PreparationArtifact list"
  cv_documents :: "PreparationDocument list"
  cv_notifications :: "IntakeNotificationJob list"

definition get_preparation_case :: "env \<Rightarrow> uuid \<Rightarrow> AccessContext \<Rightarrow> PreparationCaseView handler" where
  "get_preparation_case E case_id x =
     act_bind (authorize x ''tender.read'') (\<lambda>_.
     in_uow E (x_tenant_id x)
       (act_bind (load_case case_id) (\<lambda>c.
        act_bind (artifacts_list_for_case (c_id c)) (\<lambda>artifacts.
        act_bind (documents_list_for_case (c_id c)) (\<lambda>documents.
        act_bind (notifications_list_for_case (c_id c)) (\<lambda>notifications.
        act_ret \<lparr>cv_case = c, cv_artifacts = artifacts, cv_documents = documents,
                 cv_notifications = notifications\<rparr>))))))"

definition list_preparation_cases :: "env \<Rightarrow> AccessContext \<Rightarrow> PreparationCase list handler" where
  "list_preparation_cases E x =
     act_bind (authorize x ''tender.read'') (\<lambda>_.
     in_uow E (x_tenant_id x) (cases_list_recent 50))"

section \<open>Invariants and atomicity\<close>

lemmas tendering_defs = load_case_def save_and_commit_def enqueue_for_def bids_close_at_def
  store_source_document_def add_application_artifact_def invited_supplier_names_def open_receipt_desk_def
  issue_to_suppliers_def record_publication_tx_def auto_publish_tx_def propose_addendum_tx_def
  submit_addendum_tx_def decide_cp3_tx_def record_submission_tx_def request_cp4_tx_def complete_cp4_tx_def

context case_invariant
begin

lemma durable_tendering:
  "durable I (x_tenant_id x) (record_preparation_publication E i pc x)"
  "durable I (x_tenant_id x) (auto_publish_preparation E to i x)"
  "durable I (x_tenant_id x) (propose_preparation_addendum E i prc x)"
  "durable I (x_tenant_id x) (submit_preparation_addendum E i sc x)"
  "durable I (x_tenant_id x) (decide_preparation_cp3 E pub i ap ref m x)"
  "durable I (x_tenant_id x) (record_preparation_submission E rules i rc x)"
  "durable I (x_tenant_id x) (request_cp4 E rules i x)"
  "durable I (x_tenant_id x) (complete_preparation_cp4 E i cc x)"
  unfolding record_preparation_publication_def auto_publish_preparation_def propose_preparation_addendum_def
    submit_preparation_addendum_def decide_preparation_cp3_def record_preparation_submission_def
    request_cp4_def complete_preparation_cp4_def tendering_defs
  by (intro keeps_rules statement_rules)+

end

lemma uncommitted_helpers [atomic_rules]:
  "uncommitted (load_case i)" "uncommitted (enqueue_for E r job)" "uncommitted (bids_close_at E c ts)"
  "uncommitted (store_source_document E c u k ti fn ty d)"
  "uncommitted (add_application_artifact E c u aty ct st)"
  "uncommitted (issue_to_suppliers E p c a x)" "uncommitted (open_receipt_desk E c ss ts)"
  unfolding tendering_defs by (intro atomic_rules)+

lemma atomic_save_and_commit [atomic_rules]:
  "atomic (save_and_commit c)" "atomic (act_bind (save_and_commit c) (\<lambda>_. act_ret y))"
proof -
  show *: "atomic (save_and_commit c)" unfolding save_and_commit_def by (intro atomic_rules)
  show "atomic (act_bind (save_and_commit c) (\<lambda>_. act_ret y))"
    using * by (auto simp: atomic_def act_bind_def act_ret_def split: prod.splits sum.splits)
qed

lemma atomic_tendering:
  "atomic (record_preparation_publication E i pc x)"
  "atomic (auto_publish_preparation E to i x)"
  "atomic (propose_preparation_addendum E i prc x)"
  "atomic (submit_preparation_addendum E i sc x)"
  "atomic (decide_preparation_cp3 E pub i ap ref m x)"
  "atomic (record_preparation_submission E rules i rc x)"
  "atomic (request_cp4 E rules i x)"
  "atomic (complete_preparation_cp4 E i cc x)"
  unfolding record_preparation_publication_def auto_publish_preparation_def propose_preparation_addendum_def
    submit_preparation_addendum_def decide_preparation_cp3_def record_preparation_submission_def
    request_cp4_def complete_preparation_cp4_def record_publication_tx_def auto_publish_tx_def
    propose_addendum_tx_def submit_addendum_tx_def decide_cp3_tx_def record_submission_tx_def
    request_cp4_tx_def complete_cp4_tx_def
  by (intro atomic_rules)+

section \<open>What a returned transaction did\<close>

lemma run_load_case [run_simps]: "load_case i w = (Inr c, w') \<longleftrightarrow> get_case i w = Some c \<and> w' = w"
  by (auto simp: load_case_def run_simps)

lemma run_bids_close_at [run_simps]:
  "bids_close_at E c ts w = (Inr r, w') \<longleftrightarrow>
     r = closing_moment E (latest_artifact (c_id c) PROCUREMENT_APPROACH w) ts \<and> w' = w"
  by (auto simp: bids_close_at_def run_simps)

lemma enqueue_for_frame [frames]:
  assumes "enqueue_for E r job w = (Inr u, w')"
  shows "\<exists>js n m. w' = w\<lparr>w_db := (w_db w)\<lparr>t_jobs := t_jobs (w_db w) @ js\<rparr>, w_ticks := n, w_fresh := m\<rparr>"
proof (cases r)
  case None
  then show ?thesis using assms
    by (intro exI [of _ "[]"] exI [of _ "w_ticks w"] exI [of _ "w_fresh w"])
      (simp add: enqueue_for_def run_simps)
next
  case (Some q)
  then obtain js where "w' = (w\<lparr>w_fresh := Suc (w_fresh w), w_ticks := Suc (w_ticks w)\<rparr>)
      \<lparr>w_db := (w_db w)\<lparr>t_jobs := t_jobs (w_db w) @ js\<rparr>\<rparr>"
    using assms by (auto simp: enqueue_for_def run_simps dest!: enqueue_frame)
  then show ?thesis
    by (intro exI [of _ js] exI [of _ "Suc (w_ticks w)"] exI [of _ "Suc (w_fresh w)"]) simp
qed

lemma open_receipt_desk_frame [frames]:
  assumes "open_receipt_desk E c ss ts w = (Inr u, w')"
  shows "\<exists>js m. w' = w\<lparr>w_db := (w_db w)\<lparr>t_jobs := t_jobs (w_db w) @ js\<rparr>, w_fresh := m\<rparr>"
proof -
  from assms obtain r where run: "(case r of None \<Rightarrow> act_ret () | Some u \<Rightarrow> act_bind (new_uuid E) (\<lambda>j.
         notifications_enqueue (case_job j c NT_RUN_PROGRESS u ts
           (''dw01:'' @ c_id c @ '':progress:receipt_desk'') (receipt_desk_payload c ss)))) w = (Inr u, w')"
    unfolding open_receipt_desk_def find_recipient_for_role_def run_bind run_basic by blast
  then show ?thesis
  proof (cases r)
    case None
    then show ?thesis using run
      by (intro exI [of _ "[]"] exI [of _ "w_fresh w"]) (simp add: run_simps)
  next
    case (Some q)
    then obtain js where "w' = (w\<lparr>w_fresh := Suc (w_fresh w)\<rparr>)
        \<lparr>w_db := (w_db w)\<lparr>t_jobs := t_jobs (w_db w) @ js\<rparr>\<rparr>"
      using run by (auto simp: run_simps dest!: enqueue_frame)
    then show ?thesis by (intro exI [of _ js] exI [of _ "Suc (w_fresh w)"]) simp
  qed
qed

lemma store_source_document_frame [frames]:
  "store_source_document E c u k ti fn ty content w = (Inr d, w') \<Longrightarrow> content \<noteq> []
     \<and> d_case_id d = c_id c \<and> d_kind d = k \<and> d_tenant_id d = c_tenant_id c \<and> d_filename d = fn
     \<and> d_content_hash d = env_sha256 E content
     \<and> (\<exists>n m bs. w' = w\<lparr>w_fresh := n, w_calls := m, w_blobs := bs\<rparr>)"
  by (auto simp: store_source_document_def run_simps Let_def)

lemma add_application_artifact_frame [frames]:
  "add_application_artifact E c u ty ct st w = (Inr a, w') \<Longrightarrow>
     \<exists>i. a = case_artifact E i c u ty (next_version (latest_artifact (c_id c) ty w)) st ct
       \<and> w' = w\<lparr>w_fresh := Suc (w_fresh w), w_db := (w_db w)\<lparr>t_artifacts := t_artifacts (w_db w) @ [a]\<rparr>\<rparr>"
  by (auto simp: add_application_artifact_def run_simps Let_def dest!: artifacts_add_frame)

lemma save_and_commit_frame [frames]:
  "save_and_commit c w = (Inr u, w') \<Longrightarrow>
     (let d = (w_db w)\<lparr>t_cases := update_where (case_update_hits (w_tenant w) c) (case_update_row c) (t_cases (w_db w))\<rparr>
      in w' = w\<lparr>w_db := d, w_committed := d\<rparr>)"
  by (simp add: save_and_commit_def run_simps)

lemma latest_artifact_cong:
  assumes "w_tenant v = w_tenant w"
  shows "t_artifacts (w_db v) = t_artifacts (w_db w) \<Longrightarrow> latest_artifact i ty v = latest_artifact i ty w"
    "t_artifacts (w_db v) = t_artifacts (w_db w) @ [a] \<Longrightarrow> a_type a \<noteq> ty \<Longrightarrow>
       latest_artifact i ty v = latest_artifact i ty w"
  using assms by (simp_all add: latest_artifact_def artifact_visible_def)

text \<open>The effect every one of these transactions has on the case table.\<close>

definition case_moved_by :: "case_op \<Rightarrow> PreparationCase \<Rightarrow> db \<Rightarrow> db \<Rightarrow> bool" where
  "case_moved_by opr c before after =
     (\<exists>c'. apply_case_op opr c = Inr c' \<and> c' \<in> set (t_cases after)
        \<and> t_cases after = update_where (case_update_hits (c_tenant_id c) c') (case_update_row c') (t_cases before))"

lemma case_moved_by_saved:
  assumes "get_case i w = Some c" "apply_case_op opr c = Inr c'"
    "t_cases d = update_where (case_update_hits (w_tenant w) c') (case_update_row c') (t_cases (w_db w))"
  shows "case_moved_by opr c (w_db w) d"
  using saved_op_in_table [OF assms(1,2)] get_case_Some [OF assms(1)] assms(2,3)
  by (auto simp: case_moved_by_def)

lemma auto_publish_tx_run:
  assumes "auto_publish_tx E to i x w = (Inr mid, w')"
  shows "\<exists>c body a d. get_case i w = Some c \<and> c_state c = CS_PACKAGE_OFFICIAL
     \<and> w_emails w' = rfq_email to c body # w_emails w
     \<and> case_moved_by (Op_record_publication (closing_moment E (latest_artifact i PROCUREMENT_APPROACH w)
          (env_clock E (w_ticks w)))) c (w_db w) (w_db w')
     \<and> t_artifacts (w_db w') = t_artifacts (w_db w) @ [a] \<and> a_type a = PUBLICATION_RECORD
     \<and> a_status a = AS_OFFICIAL \<and> a_case_id a = i
     \<and> t_documents (w_db w') = t_documents (w_db w) @ [d] \<and> d_kind d = PUBLICATION_RECEIPT
     \<and> w_committed w' = w_db w'"
proof -
  from assms obtain c c' body a d cl where
    c: "get_case i w = Some c" "c_state c = CS_PACKAGE_OFFICIAL"
    "w_emails w' = rfq_email to c body # w_emails w"
    "record_publication c cl = Inr c'"
    "cl = closing_moment E (latest_artifact (c_id c) PROCUREMENT_APPROACH w) (env_clock E (w_ticks w))"
    "t_cases (w_db w') = update_where (case_update_hits (w_tenant w) c') (case_update_row c') (t_cases (w_db w))"
    "t_artifacts (w_db w') = t_artifacts (w_db w) @ [a]" "a_type a = PUBLICATION_RECORD"
    "a_status a = AS_OFFICIAL" "a_case_id a = c_id c"
    "t_documents (w_db w') = t_documents (w_db w) @ [d]" "d_kind d = PUBLICATION_RECEIPT"
    "w_committed w' = w_db w'"
    unfolding auto_publish_tx_def
    by (clarsimp simp: run_simps Let_def dest!: frames)
      (fastforce simp: latest_artifact_def artifact_visible_def)
  then show ?thesis
    using case_moved_by_saved [of i w c "Op_record_publication cl" c'] get_case_Some [OF c(1)] by auto
qed

lemma decide_cp3_tx_run:
  assumes "decide_cp3_tx E pub i ap ref m x w = (Inr u, w')"
  shows "\<exists>c draft. get_case i w = Some c \<and> c_created_by c \<noteq> x_principal_id x \<and> c_state c = CS_CP3_PENDING
     \<and> latest_artifact i ADDENDUM_DRAFT w = Some draft
     \<and> case_moved_by (Op_resolve_cp3 (if ap then positive_int (jget (a_content draft) ''extend_bids_by_days'') else 0))
          c (w_db w) (w_db w')
     \<and> w_emails w' = (if ap \<and> pub \<noteq> None \<and> pub \<noteq> Some '''' then [addendum_email E (the pub) c draft] else []) @ w_emails w
     \<and> w_committed w' = w_db w'"
proof -
  let ?n = "\<lambda>draft. positive_int (jget (a_content draft) ''extend_bids_by_days'')"
  let ?issue = "\<lambda>c draft. if ap then issue_to_suppliers E pub c draft x else act_ret []"
  from assms obtain c draft issued v where
    c: "get_case i w = Some c" "c_created_by c \<noteq> x_principal_id x" "c_state c = CS_CP3_PENDING"
      "latest_artifact (c_id c) ADDENDUM_DRAFT w = Some draft"
    and iss: "?issue c draft w = (Inr issued, v)"
    and rest: "\<exists>c'. resolve_cp3 c (if ap then ?n draft else 0) = Inr c'
      \<and> t_cases (w_db w') = update_where (case_update_hits (w_tenant v) c') (case_update_row c') (t_cases (w_db v))
      \<and> w_emails w' = w_emails v \<and> w_committed w' = w_db w'"
    unfolding decide_cp3_tx_def
    by (clarsimp simp: run_simps Let_def simp del: run_if split del: if_split dest!: frames)
  have "w_tenant v = w_tenant w \<and> t_cases (w_db v) = t_cases (w_db w)
    \<and> w_emails v = (if ap \<and> pub \<noteq> None \<and> pub \<noteq> Some '''' then [addendum_email E (the pub) c draft] else []) @ w_emails w"
  proof (cases "ap \<and> pub \<noteq> None \<and> pub \<noteq> Some ''''")
    case True
    then show ?thesis using iss
      by (clarsimp simp: issue_to_suppliers_def invited_supplier_names_def run_simps Let_def dest!: frames)
  next
    case False
    then show ?thesis using iss by (auto simp: issue_to_suppliers_def run_basic split: if_splits)
  qed
  then show ?thesis
    using c rest case_moved_by_saved [OF c(1), of "Op_resolve_cp3 (if ap then ?n draft else 0)"]
      get_case_Some [OF c(1)] by auto
qed

lemma record_submission_tx_run:
  assumes "record_submission_tx E rules i cmd x w = (Inr u, w')"
  shows "\<exists>c d a. get_case i w = Some c \<and> case_moved_by Op_record_submission c (w_db w) (w_db w')
     \<and> t_documents (w_db w') = t_documents (w_db w) @ [d] \<and> d_kind d = SUPPLIER_SUBMISSION \<and> d_case_id d = i
     \<and> d_content_hash d = env_sha256 E (rs_content cmd)
     \<and> t_artifacts (w_db w') = t_artifacts (w_db w) @ [a] \<and> a_type a = SUBMISSION_REGISTER
     \<and> a_version a = next_version (latest_artifact i SUBMISSION_REGISTER w)
     \<and> a_content a = register_content (register_items (latest_artifact i SUBMISSION_REGISTER w)
          @ [register_entry cmd d x (env_clock E (w_ticks w))])
     \<and> w_committed w' = w_db w'"
proof -
  from assms obtain c c' d a where
    c: "get_case i w = Some c" "record_submission c = Inr c'"
    "t_cases (w_db w') = update_where (case_update_hits (w_tenant w) c') (case_update_row c') (t_cases (w_db w))"
    "t_documents (w_db w') = t_documents (w_db w) @ [d]" "d_kind d = SUPPLIER_SUBMISSION" "d_case_id d = c_id c"
    "d_content_hash d = env_sha256 E (rs_content cmd)"
    "t_artifacts (w_db w') = t_artifacts (w_db w) @ [a]" "a_type a = SUBMISSION_REGISTER"
    "a_version a = next_version (latest_artifact (c_id c) SUBMISSION_REGISTER w)"
    "a_content a = register_content (register_items (latest_artifact (c_id c) SUBMISSION_REGISTER w)
          @ [register_entry cmd d x (env_clock E (w_ticks w))])"
    "w_committed w' = w_db w'"
    unfolding record_submission_tx_def
    by (clarsimp simp: run_simps Let_def simp del: run_more_queries(3) insert_iff
        dest!: frames find_recipient_frame)
      (fastforce simp: latest_artifact_def artifact_visible_def)
  then show ?thesis
    using case_moved_by_saved [OF c(1), of Op_record_submission c'] get_case_Some [OF c(1)] by auto
qed

lemma complete_cp4_tx_run:
  assumes "complete_cp4_tx E i cmd x w = (Inr u, w')"
  shows "\<exists>c d a h ref. get_case i w = Some c \<and> c_created_by c \<noteq> x_principal_id x
     \<and> case_moved_by Op_complete_cp4 c (w_db w) (w_db w')
     \<and> submissions_of (filter (\<lambda>d. d_tenant_id d = w_tenant w \<and> d_case_id d = i) (t_documents (w_db w))) \<noteq> []
     \<and> t_documents (w_db w') = t_documents (w_db w) @ [d] \<and> d_kind d = BID_OPENING_MINUTES
     \<and> t_artifacts (w_db w') = t_artifacts (w_db w) @ [a, h] \<and> a_type a = BID_OPENING_RECORD
     \<and> a_status h = AS_OFFICIAL
     \<and> a_content h = handoff_content c
          (submissions_of (filter (\<lambda>d. d_tenant_id d = w_tenant w \<and> d_case_id d = i) (t_documents (w_db w))))
          (filter (\<lambda>y. a_case_id y = i) (artifact_visible w) @ [a]) cmd (env_clock E (w_ticks w))
          @ [(''handoff_ref'', JStr ref)]
     \<and> w_committed w' = w_db w'"
proof -
  from assms obtain c c' d a h ref where
    c: "get_case i w = Some c" "complete_cp4_handoff c = Inr c'" "c_created_by c \<noteq> x_principal_id x"
    "t_cases (w_db w') = update_where (case_update_hits (w_tenant w) c') (case_update_row c') (t_cases (w_db w))"
    "submissions_of (filter (\<lambda>d. d_tenant_id d = w_tenant w \<and> d_case_id d = c_id c) (t_documents (w_db w))) \<noteq> []"
    "t_documents (w_db w') = t_documents (w_db w) @ [d]" "d_kind d = BID_OPENING_MINUTES"
    "t_artifacts (w_db w') = t_artifacts (w_db w) @ [a, h]" "a_type a = BID_OPENING_RECORD"
    "a_status h = AS_OFFICIAL" "a_case_id a = c_id c" "a_tenant_id a = c_tenant_id c"
    "a_content h = handoff_content c
          (submissions_of (filter (\<lambda>d. d_tenant_id d = w_tenant w \<and> d_case_id d = c_id c) (t_documents (w_db w))))
          (filter (\<lambda>y. a_case_id y = c_id c) (filter (\<lambda>a. a_tenant_id a = w_tenant w) (t_artifacts (w_db w) @ [a])))
          cmd (env_clock E (w_ticks w)) @ [(''handoff_ref'', JStr ref)]"
    "w_committed w' = w_db w'"
    unfolding complete_cp4_tx_def
    by (clarsimp simp: run_simps Let_def artifact_visible_def simp del: filter_append filter_filter dest!: frames)
  then show ?thesis
    using case_moved_by_saved [OF c(1), of Op_complete_cp4 c'] get_case_Some [OF c(1)]
    by (intro exI [of _ c] exI [of _ d] exI [of _ a] exI [of _ h] exI [of _ ref])
      (auto simp: artifact_visible_def)
qed

end
