(* ===== verification/DW_Tendering_Props.thy ===== *)
theory DW_Tendering_Props
  imports DW_Tendering
begin

text \<open>
  What the tendering handlers guarantee, from the caller's side: each theorem starts from a call on a
  committed database and reads off the database it leaves. The facts about single transactions are in
  \<open>DW_Tendering\<close>; here they are lifted through authorization and the unit of work, and evaluated
  on closed runs.
\<close>

section \<open>From the transaction to the call\<close>

definition may :: "AccessContext \<Rightarrow> string \<Rightarrow> bool" where
  "may x action = is_allowed PLATFORM_ADMIN_ROLE x action"

lemma run_authorize: "authorize x a w = (Inr u, w') \<longleftrightarrow> may x a \<and> w' = w"
  by (auto simp: authorize_def may_def run_basic require_action_def)

lemma authorized_tx:
  assumes "act_bind (authorize x a) (\<lambda>_. in_uow E (x_tenant_id x) tx) w = (Inr r, w')"
  obtains v where "may x a" "tx (session_start (x_tenant_id x) w) = (Inr r, v)"
    "w_committed w' = w_committed v" "w_emails w' = w_emails v"
  using assms by (auto simp: run_bind run_authorize run_in_uow)

lemma authorized_checked_tx:
  assumes "act_bind (authorize x a) (\<lambda>_. act_bind (act_require b cl m) (\<lambda>_. in_uow E (x_tenant_id x) tx)) w = (Inr r, w')"
  obtains v where "may x a" "b" "tx (session_start (x_tenant_id x) w) = (Inr r, v)"
    "w_committed w' = w_committed v" "w_emails w' = w_emails v"
  using assms by (auto simp: run_bind run_authorize run_in_uow run_basic)

lemma get_case_session:
  "get_case i (session_start t w) = Some c \<Longrightarrow>
     c \<in> set (t_cases (w_committed w)) \<and> c_id c = i \<and> c_tenant_id c = t"
  by (auto dest!: get_case_Some)

text \<open>The row a transaction leaves for the case it moved.\<close>

lemma case_moved_by_row:
  assumes "case_moved_by opr c before after"
  obtains c' where "apply_case_op opr c = Inr c'" "c' \<in> set (t_cases after)" "c_id c' = c_id c"
    "c_version c' = c_version c + 1" "c_created_by c' = c_created_by c"
  using assms by (auto simp: case_moved_by_def dest: apply_case_op_frame)

lemma record_publication_Inr:
  "record_publication c t = Inr c' \<Longrightarrow> c_state c = CS_PACKAGE_OFFICIAL \<and> c_state c' = CS_PUBLISHED \<and> c_bids_close_at c' = t"
  by (auto simp: record_publication_def split: if_splits)

lemma resolve_cp3_Inr:
  "resolve_cp3 c n = Inr c' \<Longrightarrow> c_state c' = CS_PUBLISHED
     \<and> c_bids_close_at c' = map_option (\<lambda>t. t + timedelta_days (max n 0)) (c_bids_close_at c)"
  by (auto simp: resolve_cp3_def timedelta_days_def split: if_splits option.splits)

lemma register_items_content: "a_content a = register_content ds \<Longrightarrow> register_items (Some a) = ds"
  by (simp add: register_items_def register_content_def jget_def obj_items_map_JObj)

lemma positive_int_nonneg: "0 \<le> positive_int v"
  by (cases v rule: positive_int.cases) auto

lemma record_submission_Inr:
  "record_submission c = Inr c' \<Longrightarrow> c_state c \<in> {CS_PUBLISHED, CS_RECEIVING_BIDS} \<and> c_state c' = CS_RECEIVING_BIDS
     \<and> c_bids_close_at c' = c_bids_close_at c"
  by (auto simp: record_submission_def split: if_splits)

lemma complete_cp4_Inr:
  "complete_cp4_handoff c = Inr c' \<Longrightarrow> c_state c = CS_RECEIVING_BIDS \<and> c_state c' = CS_COMPLETED"
  by (auto simp: complete_cp4_handoff_def split: if_splits)

section \<open>Publication\<close>

text \<open>Publishing by mail. A call that returns was made by somebody who may write tenders on a
  case whose package is official; the invitation went out by mail before anything was recorded; the
  committed case is published and closes at publication plus the window the approach recorded, and
  one official publication record with its receipt is committed. If the mail fails, or anything else
  raises, nothing is recorded.\<close>

theorem auto_publish_effect:
  assumes "auto_publish_preparation E to i x w = (r, w')"
  shows "case r of
      Inl e \<Rightarrow> w_committed w' = w_committed w
    | Inr mid \<Rightarrow> may x ''tender.write''
        \<and> (\<exists>c \<in> set (t_cases (w_committed w)). c_id c = i \<and> c_state c = CS_PACKAGE_OFFICIAL
             \<and> (\<exists>body. w_emails w' = rfq_email to c body # w_emails w)
             \<and> (\<exists>c' \<in> set (t_cases (w_committed w')). c_id c' = i \<and> c_state c' = CS_PUBLISHED
                  \<and> c_bids_close_at c' = closing_moment E
                       (latest_artifact i PROCUREMENT_APPROACH (session_start (x_tenant_id x) w))
                       (env_clock E (w_ticks w))))
        \<and> (\<exists>a d. t_artifacts (w_committed w') = t_artifacts (w_committed w) @ [a]
             \<and> a_type a = PUBLICATION_RECORD \<and> a_status a = AS_OFFICIAL \<and> a_case_id a = i
             \<and> t_documents (w_committed w') = t_documents (w_committed w) @ [d] \<and> d_kind d = PUBLICATION_RECEIPT)"
proof (cases r)
  case (Inl e)
  then show ?thesis using assms atomic_tendering(2) by (simp add: atomic_def)
next
  case (Inr mid)
  let ?w = "session_start (x_tenant_id x) w"
  from assms [unfolded Inr auto_publish_preparation_def] obtain v where
    may: "may x ''tender.write''" and tx: "auto_publish_tx E to i x ?w = (Inr mid, v)"
    and fin: "w_committed w' = w_committed v" "w_emails w' = w_emails v" by (rule authorized_tx)
  from auto_publish_tx_run [OF tx] obtain c body a d where
    c: "get_case i ?w = Some c" "c_state c = CS_PACKAGE_OFFICIAL" "w_emails v = rfq_email to c body # w_emails w"
    and mv: "case_moved_by (Op_record_publication (closing_moment E (latest_artifact i PROCUREMENT_APPROACH ?w)
          (env_clock E (w_ticks w)))) c (w_committed w) (w_db v)"
    and tb: "t_artifacts (w_db v) = t_artifacts (w_committed w) @ [a]" "a_type a = PUBLICATION_RECORD"
      "a_status a = AS_OFFICIAL" "a_case_id a = i" "t_documents (w_db v) = t_documents (w_committed w) @ [d]"
      "d_kind d = PUBLICATION_RECEIPT" "w_committed v = w_db v"
    by auto
  from mv obtain c' where "record_publication c (closing_moment E (latest_artifact i PROCUREMENT_APPROACH ?w)
          (env_clock E (w_ticks w))) = Inr c'" "c' \<in> set (t_cases (w_db v))" "c_id c' = c_id c"
    by (auto elim: case_moved_by_row)
  then show ?thesis unfolding Inr sum.case
    using may c tb fin get_case_session [OF c(1)] record_publication_Inr by fastforce
qed

section \<open>CP3\<close>

text \<open>C5: Deciding an addendum. A decision that returns was made by somebody allowed to decide
  approvals who is not the creator of the case, with a reference, on a case waiting for CP3 that has a
  draft; the case is published again; on approval the closing moment moves forward by the positive
  number of days the draft names, on rejection it stays; and the suppliers are mailed exactly on approval
  when a publisher is configured. If it raises, nothing is committed.\<close>

theorem decide_cp3_effect:
  assumes "decide_preparation_cp3 E pub i ap ref m x w = (r, w')"
  shows "case r of
      Inl e \<Rightarrow> w_committed w' = w_committed w
    | Inr _ \<Rightarrow> may x ''approvals.decide'' \<and> py_strip ref \<noteq> ''''
        \<and> (\<exists>draft c. latest_artifact i ADDENDUM_DRAFT (session_start (x_tenant_id x) w) = Some draft
             \<and> c \<in> set (t_cases (w_committed w)) \<and> c_id c = i \<and> c_created_by c \<noteq> x_principal_id x
             \<and> c_state c = CS_CP3_PENDING
             \<and> w_emails w' = (if ap \<and> pub \<noteq> None \<and> pub \<noteq> Some '''' then [addendum_email E (the pub) c draft] else []) @ w_emails w
             \<and> (\<exists>c' \<in> set (t_cases (w_committed w')). c_id c' = i \<and> c_state c' = CS_PUBLISHED
                  \<and> c_bids_close_at c' = map_option (\<lambda>t. t + timedelta_days
                       (if ap then positive_int (jget (a_content draft) ''extend_bids_by_days'') else 0)) (c_bids_close_at c)))"
proof (cases r)
  case (Inl e)
  then show ?thesis using assms atomic_tendering(5) by (simp add: atomic_def)
next
  case (Inr u)
  let ?w = "session_start (x_tenant_id x) w"
  let ?n = "\<lambda>draft. if ap then positive_int (jget (a_content draft) ''extend_bids_by_days'') else 0"
  from assms [unfolded Inr decide_preparation_cp3_def] obtain v where
    may: "may x ''approvals.decide''" "py_strip ref \<noteq> ''''"
    and tx: "decide_cp3_tx E pub i ap ref m x ?w = (Inr u, v)"
    and fin: "w_committed w' = w_committed v" "w_emails w' = w_emails v" by (rule authorized_checked_tx)
  from decide_cp3_tx_run [OF tx] obtain c draft where
    c: "get_case i ?w = Some c" "c_created_by c \<noteq> x_principal_id x" "c_state c = CS_CP3_PENDING"
      "latest_artifact i ADDENDUM_DRAFT ?w = Some draft"
    and mv: "case_moved_by (Op_resolve_cp3 (?n draft)) c (w_committed w) (w_db v)"
    and tb: "w_emails v = (if ap \<and> pub \<noteq> None \<and> pub \<noteq> Some '''' then [addendum_email E (the pub) c draft] else []) @ w_emails w"
      "w_committed v = w_db v"
    by auto
  from mv obtain c' where "resolve_cp3 c (?n draft) = Inr c'" "c' \<in> set (t_cases (w_db v))" "c_id c' = c_id c"
    by (auto elim: case_moved_by_row)
  moreover have "max (?n draft) 0 = ?n draft"
    using positive_int_nonneg [of "jget (a_content draft) ''extend_bids_by_days''"] by simp
  ultimately have "\<exists>c' \<in> set (t_cases (w_committed w')). c_id c' = i \<and> c_state c' = CS_PUBLISHED
      \<and> c_bids_close_at c' = map_option (\<lambda>t. t + timedelta_days (?n draft)) (c_bids_close_at c)"
    using fin(1) tb(2) get_case_session [OF c(1)] by (intro bexI [of _ c']) (auto dest: resolve_cp3_Inr)
  moreover have "w_emails w' = (if ap \<and> pub \<noteq> None \<and> pub \<noteq> Some '''' then [addendum_email E (the pub) c draft] else []) @ w_emails w"
    using fin(2) tb(1) by (rule trans)
  ultimately show ?thesis unfolding Inr sum.case
    using may c get_case_session [OF c(1)] by blast
qed

text \<open>The mail of an approved extension names the old deadline. When CP3 approves an addendum
  that moves the closing moment and the suppliers are mailed, the mail's deadline line shows the moment
  before the extension, while the committed case closes later.\<close>

theorem cp3_mail_names_old_deadline:
  assumes "decide_preparation_cp3 E (Some to) i True ref m x w = (Inr u, w')" "to \<noteq> ''''"
    "get_case i (session_start (x_tenant_id x) w) = Some c" "c_bids_close_at c = Some t"
    "latest_artifact i ADDENDUM_DRAFT (session_start (x_tenant_id x) w) = Some draft"
    "jget (a_content draft) ''extend_bids_by_days'' = Some (JInt n)" "0 < n"
  shows "\<exists>lines mail. w_emails w' = mail # w_emails w \<and> em_to mail = to \<and> em_body mail = JArr lines
     \<and> JText ''bid_deadline'' [isoformat t] \<in> set lines
     \<and> (\<exists>c' \<in> set (t_cases (w_committed w')). c_id c' = i
          \<and> c_bids_close_at c' = Some (t + timedelta_days n) \<and> t < t + timedelta_days n)"
proof -
  let ?w = "session_start (x_tenant_id x) w"
  from assms(1) [unfolded decide_preparation_cp3_def] obtain v where
    tx: "decide_cp3_tx E (Some to) i True ref m x ?w = (Inr u, v)"
    and fin: "w_committed w' = w_committed v" "w_emails w' = w_emails v" by (rule authorized_checked_tx)
  from decide_cp3_tx_run [OF tx] have
    mv: "case_moved_by (Op_resolve_cp3 n) c (w_committed w) (w_db v)"
    and tb: "w_emails v = addendum_email E to c draft # w_emails w" "w_committed v = w_db v"
    using assms by auto
  from mv obtain c' where "resolve_cp3 c n = Inr c'" "c' \<in> set (t_cases (w_db v))" "c_id c' = c_id c"
    by (auto elim: case_moved_by_row)
  then have "\<exists>c' \<in> set (t_cases (w_committed w')). c_id c' = i \<and> c_bids_close_at c' = Some (t + timedelta_days n)"
    using fin(1) tb(2) get_case_session [OF assms(3)] assms(4,7)
    by (intro bexI [of _ c']) (auto dest: resolve_cp3_Inr)
  moreover have "\<exists>lines. em_body (addendum_email E to c draft) = JArr lines
      \<and> JText ''bid_deadline'' [isoformat t] \<in> set lines"
    using assms(4) by (simp add: addendum_email_def build_addendum_email_body_def)
  moreover have "em_to (addendum_email E to c draft) = to" by (simp add: addendum_email_def)
  moreover have "t < t + timedelta_days n" using assms(7) by (simp add: timedelta_days_def usec_per_day_def)
  ultimately show ?thesis using fin(2) tb(1) by auto
qed

section \<open>Bids\<close>

text \<open>Registering a bid. A call that returns was made by somebody who may write tenders, with a
  known receipt status, on a case that accepts bids; the bid's file is committed under its digest; the new
  version of the register holds every earlier entry in order and then exactly this one; the case is
  receiving bids and its closing moment is untouched.\<close>

theorem record_submission_effect:
  assumes "record_preparation_submission E rules i cmd x w = (r, w')"
  shows "case r of
      Inl e \<Rightarrow> w_committed w' = w_committed w
    | Inr _ \<Rightarrow> may x ''tender.write'' \<and> rs_receipt_status cmd \<in> {''on_time'', ''late'', ''replacement''}
        \<and> (\<exists>c \<in> set (t_cases (w_committed w)). c_id c = i \<and> c_state c \<in> {CS_PUBLISHED, CS_RECEIVING_BIDS}
             \<and> (\<exists>c' \<in> set (t_cases (w_committed w')). c_id c' = i \<and> c_state c' = CS_RECEIVING_BIDS
                  \<and> c_bids_close_at c' = c_bids_close_at c))
        \<and> (\<exists>a d. t_documents (w_committed w') = t_documents (w_committed w) @ [d]
             \<and> d_kind d = SUPPLIER_SUBMISSION \<and> d_content_hash d = env_sha256 E (rs_content cmd)
             \<and> t_artifacts (w_committed w') = t_artifacts (w_committed w) @ [a] \<and> a_type a = SUBMISSION_REGISTER
             \<and> a_version a = next_version (latest_artifact i SUBMISSION_REGISTER (session_start (x_tenant_id x) w))
             \<and> register_items (Some a)
                 = register_items (latest_artifact i SUBMISSION_REGISTER (session_start (x_tenant_id x) w))
                   @ [register_entry cmd d x (env_clock E (w_ticks w))])"
proof (cases r)
  case (Inl e)
  then show ?thesis using assms atomic_tendering(6) by (simp add: atomic_def)
next
  case (Inr u)
  let ?w = "session_start (x_tenant_id x) w"
  let ?prior = "register_items (latest_artifact i SUBMISSION_REGISTER ?w)"
  from assms [unfolded Inr record_preparation_submission_def] obtain v where
    may: "may x ''tender.write''" "rs_receipt_status cmd \<in> {''on_time'', ''late'', ''replacement''}"
    and tx: "record_submission_tx E rules i cmd x ?w = (Inr u, v)"
    and fin: "w_committed w' = w_committed v" by (rule authorized_checked_tx)
  from record_submission_tx_run [OF tx] obtain c d a where
    c: "get_case i ?w = Some c" and mv: "case_moved_by Op_record_submission c (w_committed w) (w_db v)"
    and tb: "t_documents (w_db v) = t_documents (w_committed w) @ [d]" "d_kind d = SUPPLIER_SUBMISSION"
      "d_content_hash d = env_sha256 E (rs_content cmd)"
      "t_artifacts (w_db v) = t_artifacts (w_committed w) @ [a]" "a_type a = SUBMISSION_REGISTER"
      "a_version a = next_version (latest_artifact i SUBMISSION_REGISTER ?w)"
      "a_content a = register_content (?prior @ [register_entry cmd d x (env_clock E (w_ticks w))])"
      "w_committed v = w_db v"
    by auto
  have "register_items (Some a) = ?prior @ [register_entry cmd d x (env_clock E (w_ticks w))]"
    using tb(7) by (simp add: register_items_content)
  moreover from mv obtain c' where c': "record_submission c = Inr c'" "c' \<in> set (t_cases (w_db v))" "c_id c' = c_id c"
    by (auto elim: case_moved_by_row)
  moreover have "\<exists>c' \<in> set (t_cases (w_committed w')). c_id c' = i \<and> c_state c' = CS_RECEIVING_BIDS
      \<and> c_bids_close_at c' = c_bids_close_at c"
    using c' fin tb(8) get_case_session [OF c] record_submission_Inr [OF c'(1)]
    by (intro bexI [of _ c']) simp_all
  ultimately show ?thesis unfolding Inr sum.case fin tb(8)
    using may tb get_case_session [OF c] record_submission_Inr [OF c'(1)] by blast
qed

text \<open>C11: Closing the register. A confirmation of CP4 that returns was made by somebody allowed to
  decide approvals who is not the creator, with a reference and a witness, on a case receiving bids with
  at least one bid; it completes the case and commits the opening record and an official handoff that
  lists exactly the bids of the case, their number, and every artifact of the case including the opening
  record. If it raises, nothing is committed.\<close>

theorem complete_cp4_effect:
  assumes "complete_preparation_cp4 E i cmd x w = (r, w')"
  defines "bids \<equiv> submissions_of (filter (\<lambda>d. d_tenant_id d = x_tenant_id x \<and> d_case_id d = i) (t_documents (w_committed w)))"
  defines "mine \<equiv> \<lambda>d. filter (\<lambda>a. a_case_id a = i \<and> a_tenant_id a = x_tenant_id x) (t_artifacts d)"
  shows "case r of
      Inl e \<Rightarrow> w_committed w' = w_committed w
    | Inr _ \<Rightarrow> may x ''approvals.decide'' \<and> py_strip (c4_approval_reference cmd) \<noteq> '''' \<and> c4_witnesses cmd \<noteq> []
        \<and> bids \<noteq> []
        \<and> (\<exists>c \<in> set (t_cases (w_committed w)). c_id c = i \<and> c_created_by c \<noteq> x_principal_id x
             \<and> c_state c = CS_RECEIVING_BIDS)
        \<and> (\<exists>c' \<in> set (t_cases (w_committed w')). c_id c' = i \<and> c_state c' = CS_COMPLETED)
        \<and> (\<exists>a h. t_artifacts (w_committed w') = t_artifacts (w_committed w) @ [a, h]
             \<and> a_type a = BID_OPENING_RECORD \<and> a_status h = AS_OFFICIAL
             \<and> jget (a_content h) ''submission_count'' = Some (JInt (int (length bids)))
             \<and> jget (a_content h) ''submission_document_ids'' = Some (JArr (map (\<lambda>d. JStr (d_id d)) bids))
             \<and> jget (a_content h) ''artifact_index'' = Some (JArr (map index_entry (mine (w_committed w) @ [a]))))"
proof (cases r)
  case (Inl e)
  then show ?thesis using assms(1) atomic_tendering(8) by (simp add: atomic_def)
next
  case (Inr u)
  let ?w = "session_start (x_tenant_id x) w"
  from assms(1) [unfolded Inr complete_preparation_cp4_def] obtain v where
    may: "may x ''approvals.decide''" "py_strip (c4_approval_reference cmd) \<noteq> '''' \<and> c4_witnesses cmd \<noteq> []"
    and tx: "complete_cp4_tx E i cmd x ?w = (Inr u, v)"
    and fin: "w_committed w' = w_committed v" by (rule authorized_checked_tx)
  have vis: "filter (\<lambda>y. a_case_id y = i) (artifact_visible ?w) = mine (w_committed w)"
    by (auto simp: mine_def artifact_visible_def intro!: filter_cong)
  from complete_cp4_tx_run [OF tx] obtain c d a h ref where
    c: "get_case i ?w = Some c" "c_created_by c \<noteq> x_principal_id x"
    and mv: "case_moved_by Op_complete_cp4 c (w_committed w) (w_db v)" and bids: "bids \<noteq> []"
    and tb: "t_artifacts (w_db v) = t_artifacts (w_committed w) @ [a, h]" "a_type a = BID_OPENING_RECORD"
      "a_status h = AS_OFFICIAL" "w_committed v = w_db v"
    and h: "a_content h = handoff_content c bids (mine (w_committed w) @ [a]) cmd (env_clock E (w_ticks w))
          @ [(''handoff_ref'', JStr ref)]"
    unfolding vis by (auto simp: bids_def)
  from mv obtain c' where c': "complete_cp4_handoff c = Inr c'" "c' \<in> set (t_cases (w_db v))" "c_id c' = c_id c"
    by (auto elim: case_moved_by_row)
  have "jget (a_content h) ''submission_count'' = Some (JInt (int (length bids)))"
    "jget (a_content h) ''submission_document_ids'' = Some (JArr (map (\<lambda>d. JStr (d_id d)) bids))"
    "jget (a_content h) ''artifact_index'' = Some (JArr (map index_entry (mine (w_committed w) @ [a])))"
    unfolding h by (simp_all add: handoff_content_def jget_def)
  moreover have "\<exists>c' \<in> set (t_cases (w_committed w')). c_id c' = i \<and> c_state c' = CS_COMPLETED"
    using c' fin tb(4) get_case_session [OF c(1)] complete_cp4_Inr [OF c'(1)]
    by (intro bexI [of _ c']) simp_all
  ultimately show ?thesis unfolding Inr sum.case fin tb(4)
    using may bids tb c get_case_session [OF c(1)] complete_cp4_Inr [OF c'(1)] by blast
qed

section \<open>Closed runs\<close>

text \<open>A case with one bid, a draft that asks for three more days, and an approach of eighteen days.\<close>

definition demo_draft :: PreparationArtifact where
  "demo_draft = case_artifact demo_env ''a1'' (demo_case CS_PUBLISHED) ''u2'' ADDENDUM_DRAFT 1 AS_SUBMITTED
     [(''change_summary'', JStr ''c''), (''extend_bids_by_days'', JInt 3)]"

definition demo_approach :: PreparationArtifact where
  "demo_approach = case_artifact demo_env ''a2'' (demo_case CS_PUBLISHED) ''u2'' PROCUREMENT_APPROACH 1 AS_APPROVED
     [(''legal_constraints'', JObj [(''applied_window_days'', JInt 18)])]"

definition tender_db :: "CaseState \<Rightarrow> db" where
  "tender_db s = (case_db s)\<lparr>t_documents := [demo_document ''d1'' APPROVED_PR, demo_document ''d2'' SUPPLIER_SUBMISSION],
     t_artifacts := [demo_draft, demo_approach]\<rparr>"

lemma demo_artifact_sel [evaluation]:
  "a_id demo_draft = ''a1''" "a_tenant_id demo_draft = ''t1''" "a_case_id demo_draft = ''c1''"
  "a_type demo_draft = ADDENDUM_DRAFT" "a_version demo_draft = 1" "a_content_hash demo_draft = ''{}''"
  "jget (a_content demo_draft) ''extend_bids_by_days'' = Some (JInt 3)"
  "a_id demo_approach = ''a2''" "a_tenant_id demo_approach = ''t1''" "a_case_id demo_approach = ''c1''"
  "a_type demo_approach = PROCUREMENT_APPROACH" "a_version demo_approach = 1"
  by (simp_all add: demo_draft_def demo_approach_def demo_row_sel jget_def content_hash_def demo_env_sel
      utf8_encode_def case_artifact_def)

lemma tender_db_sel [evaluation]:
  "t_memberships (tender_db s) = t_memberships staff_db" "t_cases (tender_db s) = [demo_case s]"
  "t_documents (tender_db s) = [demo_document ''d1'' APPROVED_PR, demo_document ''d2'' SUPPLIER_SUBMISSION]"
  "t_artifacts (tender_db s) = [demo_draft, demo_approach]" "t_jobs (tender_db s) = []"
  by (simp_all add: tender_db_def demo_db_sel)

lemma email_evidence_demo [evaluation]: "email_evidence demo_env to mid t b \<noteq> []"
  by (simp add: email_evidence_def demo_env_sel)

lemmas [evaluation] = load_case_def save_and_commit_def enqueue_for_def store_source_document_def
  add_application_artifact_def next_version_def may_def

definition demo_submission :: RecordSubmissionCommand where
  "demo_submission = \<lparr>rs_filename = ''b.pdf'', rs_content_type = ''application/pdf'', rs_content = ''bid'',
     rs_supplier_name = ''S1'', rs_received_at = ''now'', rs_receipt_status = ''on_time'', rs_external_reference = ''x''\<rparr>"

definition demo_cp4 :: CompleteCp4Command where
  "demo_cp4 = \<lparr>c4_filename = ''m'', c4_content_type = ''text/plain'', c4_content = ''minutes'', c4_opening_at = ''now'',
     c4_witnesses = [''w''], c4_approval_reference = ''R'', c4_comment = ''''\<rparr>"

theorem auto_publish_effect_witness:
  "\<exists>mid w'. auto_publish_preparation demo_env ''s@x'' ''c1'' the_requester
      (start_world (tender_db CS_PACKAGE_OFFICIAL)) = (Inr mid, w')
    \<and> (\<exists>c' \<in> set (t_cases (w_committed w')). c_state c' = CS_PUBLISHED)"
proof -
  let ?run = "auto_publish_preparation demo_env ''s@x'' ''c1'' the_requester (start_world (tender_db CS_PACKAGE_OFFICIAL))"
  have "ran_ok ?run"
    by (simp add: evaluation auto_publish_preparation_def auto_publish_tx_def build_rfq_email_body_def
        bids_close_at_def open_receipt_desk_def jget_or_def cong: act_bind_weak)
  from ran_ok_elim [OF this] obtain mid w' where run: "?run = (Inr mid, w')" by blast
  show ?thesis using auto_publish_effect [OF run] run by auto
qed

theorem decide_cp3_effect_witness:
  "\<exists>w'. decide_preparation_cp3 demo_env None ''c1'' False ''R'' '''' the_approver
      (start_world (tender_db CS_CP3_PENDING)) = (Inr (), w')
    \<and> (\<exists>c' \<in> set (t_cases (w_committed w')). c_state c' = CS_PUBLISHED)"
proof -
  let ?run = "decide_preparation_cp3 demo_env None ''c1'' False ''R'' '''' the_approver (start_world (tender_db CS_CP3_PENDING))"
  have "ran_ok ?run"
    by (simp add: evaluation decide_preparation_cp3_def decide_cp3_tx_def cong: act_bind_weak)
  from ran_ok_elim [OF this] obtain w' where run: "?run = (Inr (), w')" by fastforce
  show ?thesis using decide_cp3_effect [OF run] run by auto
qed

theorem cp3_mail_names_old_deadline_witness:
  "\<exists>w' mail lines. decide_preparation_cp3 demo_env (Some ''s@x'') ''c1'' True ''R'' '''' the_approver
      (start_world (tender_db CS_CP3_PENDING)) = (Inr (), w') \<and> w_emails w' = [mail] \<and> em_body mail = JArr lines
    \<and> JText ''bid_deadline'' [isoformat 0] \<in> set lines
    \<and> (\<exists>c' \<in> set (t_cases (w_committed w')). c_bids_close_at c' = Some (timedelta_days 3))"
proof -
  let ?w = "start_world (tender_db CS_CP3_PENDING)"
  let ?run = "decide_preparation_cp3 demo_env (Some ''s@x'') ''c1'' True ''R'' '''' the_approver ?w"
  have "ran_ok ?run"
    by (simp add: evaluation decide_preparation_cp3_def decide_cp3_tx_def issue_to_suppliers_def
        invited_supplier_names_def cong: act_bind_weak)
  from ran_ok_elim [OF this] obtain w' where run: "?run = (Inr (), w')" by fastforce
  have c: "get_case ''c1'' (session_start (x_tenant_id the_approver) ?w) = Some (demo_case CS_CP3_PENDING)"
    and d: "latest_artifact ''c1'' ADDENDUM_DRAFT (session_start (x_tenant_id the_approver) ?w) = Some demo_draft"
    by (simp_all add: get_case_def evaluation)
  show ?thesis using cp3_mail_names_old_deadline [OF run _ c _ d, of 0 3] run
    by (fastforce simp: evaluation)
qed

theorem record_submission_effect_witness:
  "\<exists>w'. record_preparation_submission demo_env demo_procurement_rules ''c1'' demo_submission
      the_requester (start_world (tender_db CS_PUBLISHED)) = (Inr (), w')
    \<and> (\<exists>c' \<in> set (t_cases (w_committed w')). c_state c' = CS_RECEIVING_BIDS)"
proof -
  let ?run = "record_preparation_submission demo_env demo_procurement_rules ''c1'' demo_submission
      the_requester (start_world (tender_db CS_PUBLISHED))"
  have "ran_ok ?run"
    by (simp add: evaluation record_preparation_submission_def record_submission_tx_def demo_submission_def
        approver_role_for_def demo_procurement_rules_def covers_def tier_role_def cong: act_bind_weak)
  from ran_ok_elim [OF this] obtain w' where run: "?run = (Inr (), w')" by fastforce
  show ?thesis using record_submission_effect [OF run] run by auto
qed

theorem complete_cp4_effect_witness:
  "\<exists>w'. complete_preparation_cp4 demo_env ''c1'' demo_cp4 the_approver
      (start_world (tender_db CS_RECEIVING_BIDS)) = (Inr (), w')
    \<and> (\<exists>c' \<in> set (t_cases (w_committed w')). c_state c' = CS_COMPLETED)"
proof -
  let ?run = "complete_preparation_cp4 demo_env ''c1'' demo_cp4 the_approver (start_world (tender_db CS_RECEIVING_BIDS))"
  have "ran_ok ?run"
    by (simp add: evaluation complete_preparation_cp4_def complete_cp4_tx_def demo_cp4_def submissions_of_def
        cong: act_bind_weak)
  from ran_ok_elim [OF this] obtain w' where run: "?run = (Inr (), w')" by fastforce
  show ?thesis using complete_cp4_effect [OF run] run by auto
qed

end
