(* ===== verification/DW_Amend.thy ===== *)
theory DW_Amend
  imports DW_Tendering_Props
begin

text \<open>
  \<open>application/preparation/amend.py\<close>: changing the figures of a case while its package is still
  internal. The handler commits the amendment, then withdraws the checkpoints still waiting for a
  decision, tells the creator, and starts the workflow again: four steps with a commit after each of
  the first three. The workflow start is a parameter, as everywhere.
\<close>

section \<open>Command and changes\<close>

record AmendCaseCommand =
  am_estimated_value_minor :: "int option"
  am_deadline :: "string option"
  am_supplier_names :: "string list option"
  am_note :: string

record AmendResult =
  ar_case_id :: uuid
  ar_changes :: "json list"
  ar_withdrew_checkpoint :: string
  ar_rerun_id :: "uuid option"

definition describe_change :: "string \<Rightarrow> string \<Rightarrow> string \<Rightarrow> json" where
  "describe_change field before after = JText ''change'' [field, before, after]"

definition py_opt_str :: "string option \<Rightarrow> string" where
  "py_opt_str v = (case v of None \<Rightarrow> ''None'' | Some s \<Rightarrow> s)"

definition apply_value :: "AmendCaseCommand \<Rightarrow> PreparationCase \<Rightarrow> json list \<times> PreparationCase" where
  "apply_value cmd c =
     (case am_estimated_value_minor cmd of
        None \<Rightarrow> ([], c)
      | Some v \<Rightarrow>
          if v \<noteq> c_estimated_value_minor c
          then ([describe_change ''package_value'' (int_str (c_estimated_value_minor c)) (int_str v)],
                c\<lparr>c_estimated_value_minor := v\<rparr>)
          else ([], c))"

definition apply_deadline :: "AmendCaseCommand \<Rightarrow> PreparationCase \<Rightarrow> json list \<times> PreparationCase" where
  "apply_deadline cmd c =
     (case am_deadline cmd of
        None \<Rightarrow> ([], c)
      | Some d \<Rightarrow>
          if Some d \<noteq> c_deadline c
          then ([describe_change ''deadline'' (py_opt_str (c_deadline c)) d], c\<lparr>c_deadline := Some d\<rparr>)
          else ([], c))"

definition apply_amendment :: "PreparationCase \<Rightarrow> AmendCaseCommand \<Rightarrow> json list \<times> PreparationCase" where
  "apply_amendment c cmd =
     (let (ch1, c1) = apply_value cmd c; (ch2, c2) = apply_deadline cmd c1 in (ch1 @ ch2, c2))"

section \<open>The amendment itself\<close>

definition supplier_names_of :: "env \<Rightarrow> PreparationArtifact option \<Rightarrow> string list" where
  "supplier_names_of E previous =
     map (row_name E) (dicts (case previous of None \<Rightarrow> None | Some a \<Rightarrow> jget (a_content a) ''suppliers''))"

definition chat_supplier_content :: "string list \<Rightarrow> jdict" where
  "chat_supplier_content names =
     [(''source'', JStr ''chat_amendment''),
      (''suppliers'', JArr (map (\<lambda>n. JObj [(''name'', JStr n)]) names))]"

text \<open>Suppliers live on an artifact: a change of them is a new version of it.\<close>

definition amend_suppliers ::
  "env \<Rightarrow> PreparationCase \<Rightarrow> AmendCaseCommand \<Rightarrow> AccessContext \<Rightarrow> json list handler" where
  "amend_suppliers E c cmd x =
     (case am_supplier_names cmd of
        None \<Rightarrow> act_ret []
      | Some names \<Rightarrow>
          act_bind (artifacts_latest (c_id c) SUPPLIER_INPUT) (\<lambda>previous.
          let before = supplier_names_of E previous;
              after = filter (\<lambda>n. n \<noteq> '''') (map py_strip names)
          in if after \<noteq> [] \<and> after \<noteq> before
             then act_bind (add_application_artifact E c (x_principal_id x) SUPPLIER_INPUT
                              (chat_supplier_content after) AS_DRAFT) (\<lambda>_.
                  act_ret [if py_join '', '' before = ''''
                           then JText ''first_suppliers'' [py_join '', '' after]
                           else describe_change ''invited_suppliers'' (py_join '', '' before) (py_join '', '' after)])
             else act_ret []))"

definition amendment_content ::
  "PreparationCase \<Rightarrow> AmendCaseCommand \<Rightarrow> json list \<Rightarrow> AccessContext \<Rightarrow> datetime \<Rightarrow> jdict" where
  "amendment_content c cmd changes x ts =
     [(''amended_at'', JStr (isoformat ts)), (''amended_by'', JStr (x_principal_id x)),
      (''changes'', JArr changes), (''note'', JStr (take 400 (am_note cmd))),
      (''estimated_value_minor'', JInt (c_estimated_value_minor c)),
      (''deadline'', (case c_deadline c of None \<Rightarrow> JNull | Some d \<Rightarrow> JStr d))]"

definition amend_tx ::
  "env \<Rightarrow> uuid \<Rightarrow> AmendCaseCommand \<Rightarrow> AccessContext \<Rightarrow> json list handler" where
  "amend_tx E case_id cmd x =
     act_bind (load_case case_id) (\<lambda>c.
     act_bind (act_require (accepts_amendment (c_state c)) ConflictError
                 ''the package is already official - a change now needs an addendum'') (\<lambda>_.
     let (applied, c1) = apply_amendment c cmd in
     act_bind (amend_suppliers E c1 cmd x) (\<lambda>suppliers.
     let changes = applied @ suppliers in
     act_bind (act_require (changes \<noteq> []) DomainError ''nothing to change'') (\<lambda>_.
     act_bind (clock_now E) (\<lambda>ts.
     act_bind (add_application_artifact E c1 (x_principal_id x) DEMAND_SNAPSHOT
                 (amendment_content c1 cmd changes x ts) AS_DRAFT) (\<lambda>_.
     act_bind (act_lift (reopen_for_amendment c1)) (\<lambda>c2.
     act_bind (save_and_commit c2) (\<lambda>_.
     act_ret changes))))))))"

section \<open>Withdrawing the checkpoints\<close>

definition concerns_case :: "env \<Rightarrow> uuid \<Rightarrow> ApprovalRequest \<Rightarrow> bool" where
  "concerns_case E case_id q =
     (py_startswith (r_approval_type q) ''preparation.''
      \<and> py_str E (jget_or (r_payload q) ''case_id'' (JStr '''')) = case_id)"

text \<open>
  The checkpoint's name: the payload's, else the last segment of the wire name in capitals (the wire
  names are ASCII).
\<close>

definition after_last_dot :: "string \<Rightarrow> string" where
  "after_last_dot s = rev (takeWhile (\<lambda>c. c \<noteq> CHR ''.'') (rev s))"

definition checkpoint_label :: "env \<Rightarrow> ApprovalRequest \<Rightarrow> string" where
  "checkpoint_label E q =
     (let named = py_str E (jget_or (r_payload q) ''checkpoint'' (JStr ''''))
      in if named \<noteq> '''' then named else map py_upper_char (after_last_dot (r_approval_type q)))"

fun withdraw_each :: "env \<Rightarrow> uuid \<Rightarrow> ApprovalRequest list \<Rightarrow> string \<Rightarrow> string handler" where
  "withdraw_each E case_id [] withdrawn = act_ret withdrawn"
| "withdraw_each E case_id (q # qs) withdrawn =
     (if \<not> concerns_case E case_id q then withdraw_each E case_id qs withdrawn
      else act_bind (act_lift (cancel_request q)) (\<lambda>q'.
           act_bind (approvals_save q') (\<lambda>_.
           withdraw_each E case_id qs (checkpoint_label E q'))))"

text \<open>\<open>list_pending()\<close> without an argument reads the fifty newest.\<close>

definition withdraw_tx :: "env \<Rightarrow> uuid \<Rightarrow> string handler" where
  "withdraw_tx E case_id =
     act_bind (approvals_list_pending 50) (\<lambda>qs.
     act_bind (withdraw_each E case_id qs '''') (\<lambda>withdrawn.
     act_bind (act_when (withdrawn \<noteq> '''') commit) (\<lambda>_.
     act_ret withdrawn)))"

definition withdrawal_payload :: "PreparationCase \<Rightarrow> string \<Rightarrow> json list \<Rightarrow> jdict" where
  "withdrawal_payload c withdrawn changes =
     [(''title'', JStr (c_title c)), (''heading'', JText ''case_amended'' [withdrawn]),
      (''lines'', JArr (changes @ [JText ''card_withdrawn'' [withdrawn], JText ''checks_rerun'' []]))]"

definition announce_withdrawal_tx :: "env \<Rightarrow> uuid \<Rightarrow> string \<Rightarrow> json list \<Rightarrow> unit handler" where
  "announce_withdrawal_tx E case_id withdrawn changes =
     act_bind (cases_get case_id) (\<lambda>found.
     act_bind (act_some found PyAssertionError ''case is not None'') (\<lambda>c.
     act_bind (new_uuid E) (\<lambda>j.
     act_bind (clock_now E) (\<lambda>ts.
     act_bind (notifications_enqueue (case_job j c NT_RUN_PROGRESS (c_created_by c) ts
                 (''dw01:'' @ case_id @ '':amended:v'' @ int_str (c_version c))
                 (withdrawal_payload c withdrawn changes))) (\<lambda>_.
     commit)))))"

definition withdraw_pending_checkpoint ::
  "env \<Rightarrow> uuid \<Rightarrow> json list \<Rightarrow> AccessContext \<Rightarrow> string handler" where
  "withdraw_pending_checkpoint E case_id changes x =
     act_bind (in_uow E (x_tenant_id x) (withdraw_tx E case_id)) (\<lambda>withdrawn.
     if withdrawn = '''' then act_ret ''''
     else act_bind (in_uow E (x_tenant_id x) (announce_withdrawal_tx E case_id withdrawn changes)) (\<lambda>_.
          act_ret withdrawn))"

section \<open>The handler\<close>

text \<open>What follows the amendment's commit.\<close>

definition amend_rest ::
  "env \<Rightarrow> (uuid \<Rightarrow> AccessContext \<Rightarrow> uuid handler) option \<Rightarrow> uuid \<Rightarrow> json list \<Rightarrow> AccessContext
    \<Rightarrow> AmendResult handler" where
  "amend_rest E run case_id changes x =
     act_bind (withdraw_pending_checkpoint E case_id changes x) (\<lambda>withdrew.
     act_bind (case run of None \<Rightarrow> act_ret None
               | Some f \<Rightarrow> act_bind (f case_id x) (\<lambda>rid. act_ret (Some rid))) (\<lambda>rerun.
     act_ret \<lparr>ar_case_id = case_id, ar_changes = changes, ar_withdrew_checkpoint = withdrew,
              ar_rerun_id = rerun\<rparr>))"

definition amend_preparation_case ::
  "env \<Rightarrow> (uuid \<Rightarrow> AccessContext \<Rightarrow> uuid handler) option \<Rightarrow> uuid \<Rightarrow> AmendCaseCommand \<Rightarrow> AccessContext
    \<Rightarrow> AmendResult handler" where
  "amend_preparation_case E run case_id cmd x =
     act_bind (authorize x ''tender.write'') (\<lambda>_.
     act_bind (in_uow E (x_tenant_id x) (amend_tx E case_id cmd x)) (\<lambda>changes.
     amend_rest E run case_id changes x))"

section \<open>Invariants and atomicity\<close>

lemma keeps_withdraw_each:
  assumes "\<And>q. keeps I (approvals_save q)"
  shows "keeps I (withdraw_each E i qs l)"
proof (induction qs arbitrary: l)
  case (Cons q qs)
  then show ?case unfolding withdraw_each.simps by (intro keeps_rules assms)
qed (simp add: keeps_ret)

lemmas amend_defs = amend_tx_def amend_suppliers_def withdraw_tx_def announce_withdrawal_tx_def
  withdraw_pending_checkpoint_def load_case_def save_and_commit_def add_application_artifact_def

context case_invariant
begin

lemma durable_amend:
  assumes "\<And>f. run = Some f \<Longrightarrow> durable I (x_tenant_id x) (f i x)"
  shows "durable I (x_tenant_id x) (amend_preparation_case E run i cmd x)"
  unfolding amend_preparation_case_def amend_rest_def amend_defs
  by (intro keeps_rules statement_rules keeps_withdraw_each assms)

end

lemma uncommitted_amend_suppliers [atomic_rules]: "uncommitted (amend_suppliers E c cmd x)"
  unfolding amend_suppliers_def by (intro atomic_rules)

lemma atomic_case_prod [atomic_rules]:
  "(\<And>x y. atomic (f x y)) \<Longrightarrow> atomic (case p of (x, y) \<Rightarrow> f x y)"
  by (cases p) auto

lemma atomic_amend_tx: "atomic (amend_tx E i cmd x)"
  unfolding amend_tx_def by (intro atomic_rules)

section \<open>What a returned transaction did\<close>

lemma amend_suppliers_frame [frames]:
  assumes "amend_suppliers E c cmd x w = (Inr ch, w')"
  shows "\<exists>as n. w' = w\<lparr>w_fresh := n, w_db := (w_db w)\<lparr>t_artifacts := t_artifacts (w_db w) @ as\<rparr>\<rparr>
     \<and> (\<forall>a \<in> set as. a_type a = SUPPLIER_INPUT)"
proof (cases "w' = w")
  case True
  then show ?thesis by (intro exI [of _ "[]"] exI [of _ "w_fresh w"]) simp
next
  case False
  then obtain n a where "w' = w\<lparr>w_fresh := n, w_db := (w_db w)\<lparr>t_artifacts := t_artifacts (w_db w) @ [a]\<rparr>\<rparr>"
    "a_type a = SUPPLIER_INPUT"
    using assms by (auto simp: amend_suppliers_def run_simps Let_def case_artifact_def
        dest!: add_application_artifact_frame split: option.splits if_splits)
  then show ?thesis by (intro exI [of _ "[a]"] exI [of _ n]) simp
qed

lemma apply_amendment_case:
  assumes "apply_amendment c cmd = (ch, c1)"
  shows "c1 = c\<lparr>c_estimated_value_minor := (case am_estimated_value_minor cmd of None \<Rightarrow> c_estimated_value_minor c | Some v \<Rightarrow> v),
      c_deadline := (case am_deadline cmd of None \<Rightarrow> c_deadline c | Some d \<Rightarrow> Some d)\<rparr>"
  using assms by (auto simp: apply_amendment_def apply_value_def apply_deadline_def split: option.splits if_splits)

definition amended :: "AmendCaseCommand \<Rightarrow> PreparationCase \<Rightarrow> PreparationCase" where
  "amended cmd c = case_moved CS_INTAKE_READY ''intake''
     (c\<lparr>c_estimated_value_minor := (case am_estimated_value_minor cmd of None \<Rightarrow> c_estimated_value_minor c | Some v \<Rightarrow> v),
        c_deadline := (case am_deadline cmd of None \<Rightarrow> c_deadline c | Some d \<Rightarrow> Some d)\<rparr>)"

lemma amend_tx_run:
  assumes "amend_tx E i cmd x w = (Inr changes, w')"
  shows "\<exists>c as a. get_case i w = Some c \<and> accepts_amendment (c_state c) \<and> changes \<noteq> []
     \<and> amended cmd c \<in> set (t_cases (w_db w'))
     \<and> t_cases (w_db w') = update_where (case_update_hits (w_tenant w) (amended cmd c))
          (case_update_row (amended cmd c)) (t_cases (w_db w))
     \<and> t_artifacts (w_db w') = t_artifacts (w_db w) @ as @ [a] \<and> (\<forall>b \<in> set as. a_type b = SUPPLIER_INPUT)
     \<and> a_type a = DEMAND_SNAPSHOT \<and> a_case_id a = i
     \<and> jget (a_content a) ''changes'' = Some (JArr changes)
     \<and> t_approvals (w_db w') = t_approvals (w_db w) \<and> w_committed w' = w_db w'"
proof -
  from assms obtain c ch c2 as j ver where
    c: "get_case i w = Some c" "accepts_amendment (c_state c)" "changes \<noteq> []"
    and am0: "reopen_for_amendment (snd (apply_amendment c cmd)) = Inr c2"
    and tb0: "t_cases (w_db w') = update_where (case_update_hits (w_tenant w) c2) (case_update_row c2) (t_cases (w_db w))"
      "t_artifacts (w_db w') = t_artifacts (w_db w) @ as @ [case_artifact E j (snd (apply_amendment c cmd))
         (x_principal_id x) DEMAND_SNAPSHOT ver AS_DRAFT
         (amendment_content (snd (apply_amendment c cmd)) cmd changes x (env_clock E (w_ticks w)))]"
      "\<forall>a \<in> set as. a_type a = SUPPLIER_INPUT"
      "t_approvals (w_db w') = t_approvals (w_db w)" "w_committed w' = w_db w'"
    unfolding amend_tx_def
    by (clarsimp simp: run_simps Let_def case_prod_beta dest!: frames)
  obtain ch c1 where ap: "apply_amendment c cmd = (ch, c1)" by fastforce
  define a where "a = case_artifact E j c1 (x_principal_id x) DEMAND_SNAPSHOT ver AS_DRAFT
      (amendment_content c1 cmd changes x (env_clock E (w_ticks w)))"
  have am: "apply_amendment c cmd = (ch, c1)" "reopen_for_amendment c1 = Inr c2" using ap am0 by simp_all
  have tb: "t_cases (w_db w') = update_where (case_update_hits (w_tenant w) c2) (case_update_row c2) (t_cases (w_db w))"
      "t_artifacts (w_db w') = t_artifacts (w_db w) @ as @ [a]" "\<forall>a \<in> set as. a_type a = SUPPLIER_INPUT"
      "a_type a = DEMAND_SNAPSHOT" "a_case_id a = c_id c1" "a_content a = amendment_content c1 cmd changes x (env_clock E (w_ticks w))"
      "t_approvals (w_db w') = t_approvals (w_db w)" "w_committed w' = w_db w'"
    using tb0 ap by (simp_all add: a_def case_artifact_def)
  have c2: "c2 = amended cmd c"
    using am(2) unfolding apply_amendment_case [OF am(1)]
    by (auto simp: reopen_for_amendment_def amended_def split: if_splits)
  have "same_fixed_columns c c2" "c_id c2 = c_id c" "c_version c2 = c_version c + 1"
    by (simp_all add: c2 amended_def same_fixed_columns_def case_update_row_def case_moved_def)
  from saved_case_in_table [OF _ _ this(2,3,1)] have "c2 \<in> set (t_cases (w_db w'))"
    using get_case_Some [OF c(1)] tb(1) by auto
  moreover have "c_id c1 = i" using get_case_Some [OF c(1)] by (simp add: apply_amendment_case [OF am(1)])
  moreover have "jget (a_content a) ''changes'' = Some (JArr changes)"
    by (simp add: tb(6) amendment_content_def jget_def)
  ultimately show ?thesis using c tb c2 by metis
qed

text \<open>No request that the loop went through is pending any more.\<close>

lemma withdraw_each_run:
  assumes "withdraw_each E i qs l w = (Inr l', w')"
    "\<forall>q \<in> set qs. r_tenant_id q = w_tenant w"
  shows "(\<forall>q \<in> set (t_approvals (w_db w')). r_status q = AP_PENDING \<longrightarrow>
        q \<in> set (t_approvals (w_db w)) \<and> \<not> (q \<in> set qs \<and> concerns_case E i q))
     \<and> (l' = l \<or> (\<exists>q \<in> set qs. concerns_case E i q \<and> l' = checkpoint_label E q))
     \<and> (filter (concerns_case E i) qs = [] \<longrightarrow> l' = l)
     \<and> (filter (concerns_case E i) qs \<noteq> [] \<longrightarrow> (\<exists>q \<in> set qs. concerns_case E i q \<and> l' = checkpoint_label E q))
     \<and> w_committed w' = w_committed w"
  using assms
proof (induction qs arbitrary: l w)
  case Nil
  then show ?case by (simp add: run_simps)
next
  case (Cons q qs)
  show ?case
  proof (cases "concerns_case E i q")
    case False
    then show ?thesis using Cons.IH [of l w] Cons.prems by (auto)
  next
    case True
    let ?q = "q\<lparr>r_status := AP_CANCELLED, r_version := r_version q + 1\<rparr>"
    let ?rows = "update_where (approval_update_hits (w_tenant w) ?q) (approval_update_row ?q) (t_approvals (w_db w))"
    let ?v = "w\<lparr>w_db := (w_db w)\<lparr>t_approvals := ?rows\<rparr>\<rparr>"
    have lab: "checkpoint_label E ?q = checkpoint_label E q" by (simp add: checkpoint_label_def Let_def cong: if_cong)
    from Cons.prems(1) True have run: "withdraw_each E i qs (checkpoint_label E q) ?v = (Inr l', w')"
      by (auto simp: run_simps cancel_request_Inr lab)
    have old: "p \<in> set (t_approvals (w_db w)) \<and> p \<noteq> q" if "p \<in> set ?rows" "r_status p = AP_PENDING" for p
    proof -
      from that(1) obtain y where y: "y \<in> set (t_approvals (w_db w))"
        "p = (if approval_update_hits (w_tenant w) ?q y then approval_update_row ?q y else y)"
        by (auto simp: update_where_def)
      then have "\<not> approval_update_hits (w_tenant w) ?q y"
        using that(2) by (auto simp: approval_update_row_def)
      moreover have "approval_update_hits (w_tenant w) ?q q"
        using Cons.prems(2) by (simp add: approval_update_hits_def)
      ultimately show ?thesis using y by auto
    qed
    show ?thesis using Cons.IH [OF run] Cons.prems(2) old True by auto
  qed
qed

lemma pending_take:
  assumes "length (filter (\<lambda>q. r_status q = AP_PENDING) (approval_visible w)) \<le> n"
  shows "set (take n (rev (filter (\<lambda>q. r_status q = AP_PENDING) (approval_visible w))))
    = {q \<in> set (t_approvals (w_db w)). r_status q = AP_PENDING \<and> r_tenant_id q = w_tenant w}"
  using assms by (auto simp: approval_visible_def)

lemma withdraw_tx_run:
  assumes "withdraw_tx E i w = (Inr l, w')" "w_committed w = w_db w"
    "length (filter (\<lambda>q. r_status q = AP_PENDING) (approval_visible w)) \<le> 50"
    "\<forall>q \<in> set (t_approvals (w_db w)). concerns_case E i q \<longrightarrow> checkpoint_label E q \<noteq> ''''"
  shows "\<forall>q \<in> set (t_approvals (w_committed w')). r_status q = AP_PENDING \<longrightarrow>
      q \<in> set (t_approvals (w_db w)) \<and> (r_tenant_id q = w_tenant w \<longrightarrow> \<not> concerns_case E i q)"
proof -
  define pending where "pending = {q \<in> set (t_approvals (w_db w)). r_status q = AP_PENDING \<and> r_tenant_id q = w_tenant w}"
  let ?qs = "take 50 (rev (filter (\<lambda>q. r_status q = AP_PENDING) (approval_visible w)))"
  have set_qs: "set ?qs = pending" using pending_take [OF assms(3)] by (simp add: pending_def)
  from assms(1) obtain v where run: "withdraw_each E i ?qs '''' w = (Inr l, v)"
    and cm: "act_when (l \<noteq> '''') commit v = (Inr (), w')"
    unfolding withdraw_tx_def approvals_list_pending_def run_bind run_basic by auto
  have fin: "w_committed w' = (if l \<noteq> '''' then w_db v else w_committed v)"
    using cm by (cases "l = ''''") (auto simp: act_when_def act_ret_def commit_def)
  have ten: "\<forall>q \<in> set ?qs. r_tenant_id q = w_tenant w" unfolding set_qs by (simp add: pending_def)
  note each = withdraw_each_run [OF run ten, unfolded set_qs]
  show ?thesis
  proof (cases "filter (concerns_case E i) ?qs = []")
    case True
    then have "\<not> concerns_case E i q" if "q \<in> pending" for q
      using that set_qs by (auto simp: filter_empty_conv)
    moreover have "w_committed w' = w_db w" using True each fin assms(2) by auto
    ultimately show ?thesis by (auto simp: pending_def)
  next
    case False
    then have "l \<noteq> ''''" using each assms(4) by (auto simp: pending_def)
    then show ?thesis using each fin by (auto simp: pending_def)
  qed
qed

lemma announce_frame:
  "announce_withdrawal_tx E i l changes w = (Inr u, w') \<Longrightarrow>
     t_approvals (w_committed w') = t_approvals (w_db w)"
  by (clarsimp simp: announce_withdrawal_tx_def run_simps dest!: enqueue_frame)

section \<open>Properties\<close>

text \<open>Amending a case. Either nothing was committed and the call raised, or the caller may write
  tenders, the case was still amendable, and its row now carries exactly the figures asked for, is back
  at intake with its creator and its verification untouched, and an amendment record listing the changes
  was committed; what follows (withdrawing checkpoints, the new run) starts from that committed state,
  so that when it raises the amendment stays.\<close>

theorem amend_effect:
  assumes "amend_preparation_case E run i cmd x w = (r, w')"
  shows "(\<exists>e. r = Inl e \<and> w_committed w' = w_committed w)
    \<or> may x ''tender.write'' \<and> (\<exists>c c' changes w1. amend_rest E run i changes x w1 = (r, w')
        \<and> c \<in> set (t_cases (w_committed w)) \<and> c_id c = i \<and> accepts_amendment (c_state c) \<and> changes \<noteq> []
        \<and> c' \<in> set (t_cases (w_committed w1)) \<and> c_id c' = i \<and> c_state c' = CS_INTAKE_READY
        \<and> c_version c' = c_version c + 1 \<and> c_created_by c' = c_created_by c
        \<and> c_intake_verified_by c' = c_intake_verified_by c
        \<and> (\<forall>v. am_estimated_value_minor cmd = Some v \<longrightarrow> c_estimated_value_minor c' = v)
        \<and> (\<forall>d. am_deadline cmd = Some d \<longrightarrow> c_deadline c' = Some d)
        \<and> (\<exists>as a. t_artifacts (w_committed w1) = t_artifacts (w_committed w) @ as @ [a]
             \<and> (\<forall>b \<in> set as. a_type b = SUPPLIER_INPUT) \<and> a_type a = DEMAND_SNAPSHOT \<and> a_case_id a = i
             \<and> jget (a_content a) ''changes'' = Some (JArr changes)))"
proof (cases "may x ''tender.write''")
  case False
  then have "\<exists>e. r = Inl e \<and> w' = w" using assms
    by (auto simp: amend_preparation_case_def authorize_def act_simps may_def require_action_def split: sum.splits)
  then show ?thesis by blast
next
  case True
  let ?s = "session_start (x_tenant_id x) w"
  obtain q w1 where tx: "in_uow E (x_tenant_id x) (amend_tx E i cmd x) w = (q, w1)" by fastforce
  have whole: "(case q of Inl e \<Rightarrow> (Inl e, w1) | Inr changes \<Rightarrow> amend_rest E run i changes x w1) = (r, w')"
    using assms True tx
    by (auto simp: amend_preparation_case_def authorize_def act_simps may_def require_action_def act_bind_def
        split: sum.splits)
  show ?thesis
  proof (cases q)
    case (Inl e)
    then have "w_committed w1 = w_committed w"
      using tx atomic_in_uow [OF atomic_amend_tx, of E "x_tenant_id x" E i cmd x] by (simp add: atomic_def)
    then show ?thesis using whole Inl by auto
  next
    case (Inr changes)
    with tx obtain v where v: "amend_tx E i cmd x ?s = (Inr changes, v)" "w_committed w1 = w_committed v"
      by (auto simp: run_in_uow)
    obtain c as a where c: "get_case i ?s = Some c" "accepts_amendment (c_state c)" "changes \<noteq> []"
      and tb: "amended cmd c \<in> set (t_cases (w_db v))" "t_artifacts (w_db v) = t_artifacts (w_committed w) @ as @ [a]"
        "\<forall>b \<in> set as. a_type b = SUPPLIER_INPUT" "a_type a = DEMAND_SNAPSHOT" "a_case_id a = i"
        "jget (a_content a) ''changes'' = Some (JArr changes)" "w_committed v = w_db v"
      using amend_tx_run [OF v(1)] by (auto simp del: case_moved_sel)
    have "amend_rest E run i changes x w1 = (r, w')" using whole Inr by simp
    moreover have "\<exists>as a. t_artifacts (w_committed w1) = t_artifacts (w_committed w) @ as @ [a]
        \<and> (\<forall>b \<in> set as. a_type b = SUPPLIER_INPUT) \<and> a_type a = DEMAND_SNAPSHOT \<and> a_case_id a = i
        \<and> jget (a_content a) ''changes'' = Some (JArr changes)"
      using tb v(2) by auto
    ultimately show ?thesis using True c tb(1,7) v(2) get_case_session [OF c(1)]
      by (intro disjI2 conjI exI [of _ c] exI [of _ "amended cmd c"] exI [of _ changes] exI [of _ w1])
        (auto simp: amended_def)
  qed
qed

text \<open>What the withdrawal leaves behind.\<close>

lemma withdrawal_clears:
  assumes "withdraw_pending_checkpoint E i changes x w = (Inr l, w')"
    "length (filter (\<lambda>q. r_status q = AP_PENDING \<and> r_tenant_id q = x_tenant_id x) (t_approvals (w_committed w))) \<le> 50"
    "\<forall>q \<in> set (t_approvals (w_committed w)). concerns_case E i q \<longrightarrow> checkpoint_label E q \<noteq> ''''"
  shows "\<forall>q \<in> set (t_approvals (w_committed w')). r_status q = AP_PENDING \<longrightarrow>
      q \<in> set (t_approvals (w_committed w)) \<and> (r_tenant_id q = x_tenant_id x \<longrightarrow> \<not> concerns_case E i q)"
proof -
  let ?s = "session_start (x_tenant_id x) w"
  from assms(1) obtain v where run: "withdraw_tx E i ?s = (Inr l, v)"
    and fin: "t_approvals (w_committed w') = t_approvals (w_committed v)"
    unfolding withdraw_pending_checkpoint_def
    by (auto simp: run_bind run_in_uow run_basic split: if_splits dest!: announce_frame)
  have "length (filter (\<lambda>q. r_status q = AP_PENDING) (approval_visible ?s)) \<le> 50"
    using assms(2) by (simp add: approval_visible_def conj_commute)
  then show ?thesis using withdraw_tx_run [OF run] assms(3) fin by simp
qed

lemma amend_returned:
  assumes "amend_preparation_case E run i cmd x w = (Inr r, w')"
  obtains v w1 changes where "may x ''tender.write''"
    "amend_tx E i cmd x (session_start (x_tenant_id x) w) = (Inr changes, v)"
    "w_committed w1 = w_committed v" "amend_rest E run i changes x w1 = (Inr r, w')"
proof -
  from assms obtain changes v where v: "may x ''tender.write''"
    "amend_tx E i cmd x (session_start (x_tenant_id x) w) = (Inr changes, v)"
    "amend_rest E run i changes x (v\<lparr>w_db := w_committed v\<rparr>) = (Inr r, w')"
    by (auto simp: amend_preparation_case_def run_bind run_authorize run_in_uow)
  show ?thesis by (rule that [OF v(1,2) _ v(3)]) simp
qed

text \<open>The transaction of the amendment does not touch the checkpoints.\<close>

definition approvals_are :: "ApprovalRequest list \<Rightarrow> world \<Rightarrow> bool" where
  "approvals_are qs w = (t_approvals (w_db w) = qs \<and> t_approvals (w_committed w) = qs)"

lemma keeps_approvals:
  "keeps (approvals_are qs) (cases_save c)" "keeps (approvals_are qs) (artifacts_add a)" "keeps (approvals_are qs) commit"
  "keeps (approvals_are qs) (new_uuid E)" "keeps (approvals_are qs) (clock_now E)"
  by (simp_all add: keeps_def approvals_are_def cases_save_def artifacts_add_def insert_row_def commit_def new_uuid_def
      clock_now_def Let_def)

lemma amend_tx_approvals: "keeps (approvals_are qs) (amend_tx E i cmd x)"
  unfolding amend_tx_def amend_suppliers_def load_case_def save_and_commit_def add_application_artifact_def
  by (rule keeps_rules keeps_approvals)+

text \<open>C21: A checkpoint for the old figures is not left standing. When an amendment returns, then before the case is
  run again every pending checkpoint of the case has been withdrawn, and what is still pending was pending before,
  unchanged; only the new run, if one is wired, follows. This holds while the tenant has at most fifty requests
  pending (the withdrawal reads the fifty newest) and the requests about the case have a name to be announced by.
  The amendment is committed before the withdrawal: if the withdrawal raises, the call does, and nothing is claimed.\<close>

theorem amend_withdraws_checkpoints:
  assumes "amend_preparation_case E run i cmd x w = (Inr r, w')"
    "length (filter (\<lambda>q. r_status q = AP_PENDING \<and> r_tenant_id q = x_tenant_id x) (t_approvals (w_committed w))) \<le> 50"
    "\<forall>q \<in> set (t_approvals (w_committed w)). concerns_case E i q \<longrightarrow> checkpoint_label E q \<noteq> ''''"
  shows "\<exists>v. (\<forall>q \<in> set (t_approvals (w_committed v)). r_status q = AP_PENDING \<longrightarrow>
        q \<in> set (t_approvals (w_committed w)) \<and> (r_tenant_id q = x_tenant_id x \<longrightarrow> \<not> concerns_case E i q))
    \<and> (case run of None \<Rightarrow> w' = v \<and> ar_rerun_id r = None | Some f \<Rightarrow> \<exists>rid. f i x v = (Inr rid, w') \<and> ar_rerun_id r = Some rid)"
proof -
  from assms(1) obtain v w1 changes where
    tx: "amend_tx E i cmd x (session_start (x_tenant_id x) w) = (Inr changes, v)"
    and w1: "w_committed w1 = w_committed v" "amend_rest E run i changes x w1 = (Inr r, w')"
    by (rule amend_returned)
  have "approvals_are (t_approvals (w_committed w)) (session_start (x_tenant_id x) w)"
    by (simp add: approvals_are_def session_start_def)
  then have same: "t_approvals (w_committed w1) = t_approvals (w_committed w)"
    using amend_tx_approvals tx w1(1) unfolding keeps_def approvals_are_def by (metis snd_conv)
  from w1(2) obtain l v2 where wd: "withdraw_pending_checkpoint E i changes x w1 = (Inr l, v2)"
    and rest: "(case run of None \<Rightarrow> act_ret None | Some f \<Rightarrow> act_bind (f i x) (\<lambda>rid. act_ret (Some rid))) v2 = (Inr (ar_rerun_id r), w')"
    by (auto simp: amend_rest_def run_bind run_basic)
  have "case run of None \<Rightarrow> w' = v2 \<and> ar_rerun_id r = None | Some f \<Rightarrow> \<exists>rid. f i x v2 = (Inr rid, w') \<and> ar_rerun_id r = Some rid"
    using rest by (cases run) (auto simp: run_bind run_basic)
  then show ?thesis using withdrawal_clears [OF wd] assms(2,3) same by auto
qed

lemma rest_keeps_cases:
  "durable (\<lambda>_ d. t_cases d = cs) t (amend_rest E None i changes (x :: AccessContext))"
proof -
  have save: "keeps (sess (\<lambda>_ d. t_cases d = cs) t) (approvals_save q)" for t q
    by (simp add: keeps_def sess_def approvals_save_def Let_def)
  have enq: "keeps (sess (\<lambda>_ d. t_cases d = cs) t) (notifications_enqueue j)" for t j
    by (simp add: keeps_def sess_def notifications_enqueue_def insert_row_def)
  have uow: "durable (\<lambda>_ d. t_cases d = cs) t (in_uow E t' m)"
    if "keeps (sess (\<lambda>_ d. t_cases d = cs) t') m" for t' and m :: "'z handler"
    using durable_in_uow [OF that, of E] by (simp add: durable_def)
  show ?thesis
    unfolding amend_rest_def withdraw_pending_checkpoint_def withdraw_tx_def announce_withdrawal_tx_def
    by (intro keeps_rules uow keeps_withdraw_each save enq) (simp add: durable_ret)
qed

text \<open>A draft nobody has verified can be amended by anyone who may write tenders, and the amendment
  puts it past the intake: the case is left in the state that a verified intake leads to, with no verifier
  recorded, and the workflow accepts to start on it.\<close>

theorem amend_draft_skips_intake:
  assumes "amend_preparation_case E None i cmd x w = (Inr r, w')"
    "get_case i (session_start (x_tenant_id x) w) = Some c" "c_state c = CS_DRAFT" "c_intake_verified_by c = None"
  shows "may x ''tender.write'' \<and> (\<exists>c' \<in> set (t_cases (w_committed w')). c_id c' = i
     \<and> c_state c' = CS_INTAKE_READY \<and> c_intake_verified_by c' = None \<and> (\<forall>run_id. \<exists>c''. start_run c' run_id = Inr c''))"
proof -
  from assms(1) obtain v w1 changes where may: "may x ''tender.write''"
    and tx: "amend_tx E i cmd x (session_start (x_tenant_id x) w) = (Inr changes, v)"
    and w1: "w_committed w1 = w_committed v" "amend_rest E None i changes x w1 = (Inr r, w')"
    by (rule amend_returned)
  have "t_cases (w_committed w') = t_cases (w_committed w1)"
    using rest_keeps_cases [of "t_cases (w_committed w1)" "x_tenant_id x" E i changes x] w1(2)
    by (force simp: durable_def keeps_def)
  moreover have "amended cmd c \<in> set (t_cases (w_db v))" "w_committed v = w_db v"
    using amend_tx_run [OF tx] assms(2) by auto
  ultimately have "amended cmd c \<in> set (t_cases (w_committed w'))" using w1(1) by simp
  moreover have "c_id c = i" using get_case_Some [OF assms(2)] by simp
  ultimately show ?thesis using may assms(4)
    by (intro conjI bexI [of _ "amended cmd c"]) (auto simp: amended_def start_run_def)
qed

section \<open>Closed runs\<close>

definition demo_amendment :: AmendCaseCommand where
  "demo_amendment = \<lparr>am_estimated_value_minor = Some 200, am_deadline = None, am_supplier_names = None, am_note = ''''\<rparr>"

lemma demo_amendment_sel [evaluation]:
  "am_estimated_value_minor demo_amendment = Some 200" "am_deadline demo_amendment = None"
  "am_supplier_names demo_amendment = None" "am_note demo_amendment = ''''"
  by (simp_all add: demo_amendment_def)

definition demo_request :: "uuid \<Rightarrow> uuid \<Rightarrow> ApprovalRequest" where
  "demo_request i cid = \<lparr>r_id = i, r_tenant_id = ''t1'', r_workspace_id = ''w1'',
     r_approval_type = ''preparation.cp1'', r_requested_by = ''u1'', r_reason = '''',
     r_payload = [(''case_id'', JStr cid)], r_run_id = None, r_status = AP_PENDING, r_created_at = 0,
     r_decided_at = None, r_version = 1\<rparr>"

definition cp1_db :: db where
  "cp1_db = (case_db CS_CP1_PENDING)\<lparr>t_approvals := [demo_request ''q1'' ''c1'', demo_request ''q2'' ''c2'']\<rparr>"

lemma upper_cp1: "map py_upper_char ''cp1'' = ''CP1''"
  by code_simp

lemma cp1_db_sel [evaluation]:
  "t_cases cp1_db = [demo_case CS_CP1_PENDING]" "t_artifacts cp1_db = []" "t_jobs cp1_db = []"
  "t_approvals cp1_db = [demo_request ''q1'' ''c1'', demo_request ''q2'' ''c2'']"
  "r_id (demo_request i cid) = i" "r_tenant_id (demo_request i cid) = ''t1''" "r_version (demo_request i cid) = 1"
  "r_status (demo_request i cid) = AP_PENDING" "t_approvals (case_db s) = []"
  "concerns_case demo_env d (demo_request i cid) \<longleftrightarrow> cid = d" "checkpoint_label demo_env (demo_request i cid) = ''CP1''"
  by (simp_all add: cp1_db_def demo_request_def demo_db_sel concerns_case_def py_startswith_def jget_or_def
      checkpoint_label_def after_last_dot_def upper_cp1 [simplified] Let_def case_db_def staff_db_def empty_db_def)

lemmas [evaluation] = amend_preparation_case_def amend_tx_def amend_suppliers_def amend_rest_def
  withdraw_pending_checkpoint_def withdraw_tx_def announce_withdrawal_tx_def approvals_list_pending_def
  approval_visible_def approvals_save_def approval_update_hits_def apply_amendment_def apply_value_def
  apply_deadline_def case_update_row_def accepts_amendment_def AMENDABLE_def cancel_request_def require_pending_def

lemma checkpoint_label_cancelled [evaluation]:
  "checkpoint_label E (q\<lparr>r_status := s, r_version := v\<rparr>) = checkpoint_label E q"
  by (simp add: checkpoint_label_def Let_def cong: if_cong)

theorem amend_effect_witness:
  "\<exists>r w' w1 changes. amend_preparation_case demo_env None ''c1'' demo_amendment the_requester (start_world cp1_db) = (Inr r, w')
    \<and> amend_rest demo_env None ''c1'' changes the_requester w1 = (Inr r, w')
    \<and> (\<exists>c' \<in> set (t_cases (w_committed w1)). c_state c' = CS_INTAKE_READY \<and> c_estimated_value_minor c' = 200)"
proof -
  let ?run = "amend_preparation_case demo_env None ''c1'' demo_amendment the_requester (start_world cp1_db)"
  have "ran_ok ?run" by (simp add: evaluation cong: act_bind_weak)
  from ran_ok_elim [OF this] obtain r w' where run: "?run = (Inr r, w')" by blast
  show ?thesis using amend_effect [OF run] run by (fastforce simp: demo_amendment_sel)
qed

theorem amend_withdraws_checkpoints_witness:
  "\<exists>r w'. amend_preparation_case demo_env None ''c1'' demo_amendment the_requester (start_world cp1_db) = (Inr r, w')
    \<and> (\<forall>q \<in> set (t_approvals (w_committed w')). r_status q = AP_PENDING \<longrightarrow> q = demo_request ''q2'' ''c2'')"
proof -
  let ?run = "amend_preparation_case demo_env None ''c1'' demo_amendment the_requester (start_world cp1_db)"
  have "ran_ok ?run" by (simp add: evaluation cong: act_bind_weak)
  from ran_ok_elim [OF this] obtain r w' where run: "?run = (Inr r, w')" by blast
  have few: "length (filter (\<lambda>q. r_status q = AP_PENDING \<and> r_tenant_id q = x_tenant_id the_requester)
      (t_approvals (w_committed (start_world cp1_db)))) \<le> 50"
    and named: "\<forall>q \<in> set (t_approvals (w_committed (start_world cp1_db))). concerns_case demo_env ''c1'' q \<longrightarrow> checkpoint_label demo_env q \<noteq> ''''"
    by (simp_all add: evaluation)
  from amend_withdraws_checkpoints [OF run few named] have "\<forall>q \<in> set (t_approvals (w_committed w')). r_status q = AP_PENDING \<longrightarrow>
      q \<in> {demo_request ''q1'' ''c1'', demo_request ''q2'' ''c2''} \<and> (r_tenant_id q = ''t1'' \<longrightarrow> \<not> concerns_case demo_env ''c1'' q)"
    by (auto simp: evaluation)
  moreover have "concerns_case demo_env ''c1'' (demo_request ''q1'' ''c1'')" "r_tenant_id (demo_request ''q1'' ''c1'') = ''t1''"
    by (simp_all add: evaluation)
  ultimately show ?thesis using run by blast
qed

theorem amend_draft_skips_intake_witness:
  "\<exists>r w'. amend_preparation_case demo_env None ''c1'' demo_amendment the_requester (start_world (case_db CS_DRAFT)) = (Inr r, w')
    \<and> (\<exists>c' \<in> set (t_cases (w_committed w')). c_state c' = CS_INTAKE_READY \<and> c_intake_verified_by c' = None)"
proof -
  let ?w = "start_world (case_db CS_DRAFT)"
  let ?run = "amend_preparation_case demo_env None ''c1'' demo_amendment the_requester ?w"
  have "ran_ok ?run" by (simp add: evaluation cong: act_bind_weak)
  from ran_ok_elim [OF this] obtain r w' where run: "?run = (Inr r, w')" by blast
  have c: "get_case ''c1'' (session_start (x_tenant_id the_requester) ?w) = Some (demo_case CS_DRAFT)"
    by (simp add: get_case_def evaluation)
  have "c_intake_verified_by (demo_case CS_DRAFT) = None" by (simp add: demo_case_def)
  from amend_draft_skips_intake [OF run c _ this] run show ?thesis by (auto simp: evaluation)
qed

end
