(* ===== verification/DW_Readiness.thy ===== *)
theory DW_Readiness
  imports DW_Tendering_Props
begin

text \<open>
  \<open>application/preparation/readiness.py\<close>: whether the package, as it stands now, is safe to
  publish. The five deterministic checks are pure functions of the newest artifact of each type; the
  red team is a model gateway, a parameter that answers with findings or raises.
\<close>

section \<open>Findings\<close>

datatype Severity = SV_BLOCKER | SV_RISK | SV_WARNING

fun severity_weight :: "Severity \<Rightarrow> int" where
  "severity_weight SV_BLOCKER = 25"
| "severity_weight SV_RISK = 10"
| "severity_weight SV_WARNING = 4"

record Finding =
  fi_severity :: Severity
  fi_code :: string
  fi_title :: json
  fi_detail :: json

record ReadinessReport =
  rd_ready :: bool
  rd_score :: int
  rd_findings :: "Finding list"

definition findings_of :: "ReadinessReport \<Rightarrow> Severity \<Rightarrow> Finding list" where
  "findings_of r s = filter (\<lambda>f. fi_severity f = s) (rd_findings r)"

definition blocker :: "string \<Rightarrow> json \<Rightarrow> json \<Rightarrow> Finding" where
  "blocker code title detail =
     \<lparr>fi_severity = SV_BLOCKER, fi_code = code, fi_title = title, fi_detail = detail\<rparr>"

section \<open>Reading the artifacts\<close>

text \<open>A computation that may raise, followed by another.\<close>

definition res_bind :: "'a result \<Rightarrow> ('a \<Rightarrow> 'b result) \<Rightarrow> 'b result" where
  "res_bind r f = (case r of Inl e \<Rightarrow> Inl e | Inr x \<Rightarrow> f x)"

text \<open>
  \<open>_items\<close>: the dict items of a list; an absent or falsy value has none, a true value that cannot
  be iterated is a \<open>TypeError\<close>, and strings and dicts iterate over strings.
\<close>

fun items_of :: "json option \<Rightarrow> jdict list result" where
  "items_of (Some (JArr xs)) = Inr (obj_items xs)"
| "items_of (Some (JInt i)) = (if i = 0 then Inr [] else Inl (Err PyTypeError ''object is not iterable''))"
| "items_of (Some (JBool b)) = (if b then Inl (Err PyTypeError ''object is not iterable'') else Inr [])"
| "items_of _ = Inr []"

text \<open>\<open>int(value or 0)\<close>.\<close>

fun int_or_zero :: "env \<Rightarrow> json \<Rightarrow> int result" where
  "int_or_zero E (JInt i) = Inr i"
| "int_or_zero E (JBool b) = Inr (if b then 1 else 0)"
| "int_or_zero E JNull = Inr 0"
| "int_or_zero E (JStr s) =
     (if s = '''' then Inr 0
      else case py_int_of_str s of Some i \<Rightarrow> Inr i
           | None \<Rightarrow> Inl (Err PyValueError ''invalid literal for int()''))"
| "int_or_zero E (JText k vs) =
     (case py_int_of_str (env_text E (JText k vs)) of Some i \<Rightarrow> Inr i
      | None \<Rightarrow> Inl (Err PyValueError ''invalid literal for int()''))"
| "int_or_zero E (JArr xs) =
     (if xs = [] then Inr 0 else Inl (Err PyTypeError ''int() argument must be a string or a number''))"
| "int_or_zero E (JObj d) =
     (if d = [] then Inr 0 else Inl (Err PyTypeError ''int() argument must be a string or a number''))"

text \<open>\<open>latest\<close>: a dict from the wire name of a type to its artifact of highest version.\<close>

type_synonym latest_map = "string \<Rightarrow> PreparationArtifact option"

definition latest_step :: "latest_map \<Rightarrow> PreparationArtifact \<Rightarrow> latest_map" where
  "latest_step m a =
     (let key = artifact_type_value (a_type a)
      in case m key of
           None \<Rightarrow> m(key := Some a)
         | Some current \<Rightarrow> if a_version a > a_version current then m(key := Some a) else m)"

definition latest_by_type :: "PreparationArtifact list \<Rightarrow> latest_map" where
  "latest_by_type artifacts = foldl latest_step (\<lambda>_. None) artifacts"

definition latest_content :: "latest_map \<Rightarrow> ArtifactType \<Rightarrow> jdict option" where
  "latest_content m t = map_option a_content (m (artifact_type_value t))"

section \<open>The checks\<close>

definition package_exists :: "latest_map \<Rightarrow> Finding list" where
  "package_exists m =
     (if m (artifact_type_value SOLICITATION_PACKAGE) \<noteq> None then []
      else [blocker ''no_package'' (JText ''no_package'' []) (JText ''not_built_yet'' [])])"

text \<open>One entry of the manifest: its kind, the version sealed, and whether the artifact moved on.\<close>

definition drift_of :: "env \<Rightarrow> latest_map \<Rightarrow> jdict \<Rightarrow> Finding list result" where
  "drift_of E m entry =
     (let kind = py_str E (jget_or entry ''type'' (JStr ''''))
      in res_bind (int_or_zero E (jget_or entry ''version'' (JInt 0))) (\<lambda>sealed.
         Inr (case m kind of
                None \<Rightarrow> []
              | Some current \<Rightarrow>
                  if a_version current \<le> sealed then []
                  else [blocker ''package_drift'' (JText ''changed_after_seal'' [kind])
                          (JText ''sealed_versions'' [int_str sealed, int_str (a_version current)])])))"

fun drift_each :: "env \<Rightarrow> latest_map \<Rightarrow> jdict list \<Rightarrow> Finding list result" where
  "drift_each E m [] = Inr []"
| "drift_each E m (e # es) =
     res_bind (drift_of E m e) (\<lambda>f. res_bind (drift_each E m es) (\<lambda>fs. Inr (f @ fs)))"

definition package_drift :: "env \<Rightarrow> latest_map \<Rightarrow> Finding list result" where
  "package_drift E m =
     (case latest_content m OFFICIAL_PACKAGE_MANIFEST of
        None \<Rightarrow> Inr []
      | Some content \<Rightarrow> res_bind (items_of (jget content ''artifacts'')) (drift_each E m))"

fun sum_weights :: "env \<Rightarrow> jdict list \<Rightarrow> int result" where
  "sum_weights E [] = Inr 0"
| "sum_weights E (item # items) =
     res_bind (int_or_zero E (jget_or item ''weight'' (JInt 0))) (\<lambda>w.
     res_bind (sum_weights E items) (\<lambda>s. Inr (w + s)))"

definition criteria_weights :: "env \<Rightarrow> ProcurementRules \<Rightarrow> latest_map \<Rightarrow> Finding list result" where
  "criteria_weights E rules m =
     (case latest_content m EVALUATION_CRITERIA of
        None \<Rightarrow> Inr []
      | Some content \<Rightarrow>
          res_bind (items_of (jget content ''weighted'')) (\<lambda>weighted.
          res_bind (sum_weights E weighted) (\<lambda>s.
          let required = pr_weighted_total_must_equal rules
          in Inr (if s = required then []
                  else [blocker ''criteria_weight'' (JText ''weight_sum'' [int_str s, int_str required])
                          (JText ''weight_rule'' [int_str required])]))))"

definition supplier_shortfall :: "ProcurementRules \<Rightarrow> latest_map \<Rightarrow> int \<Rightarrow> Finding list result" where
  "supplier_shortfall rules m value_minor =
     (case latest_content m SUPPLIER_SHORTLIST of
        None \<Rightarrow> Inr []
      | Some content \<Rightarrow>
          res_bind (items_of (jget content ''shortlist'')) (\<lambda>rows.
          res_bind (select_method rules value_minor) (\<lambda>method.
          let count = int (length rows); minimum = m_min_suppliers method
          in Inr (if count \<ge> minimum then []
                  else [blocker ''supplier_shortfall'' (JText ''supplier_count'' [int_str count, int_str minimum])
                          (JText ''supplier_rule'' [int_str minimum])]))))"

definition answered_ids :: "env \<Rightarrow> latest_map \<Rightarrow> string set result" where
  "answered_ids E m =
     (case latest_content m CLARIFICATION_RESPONSE of
        None \<Rightarrow> Inr {}
      | Some content \<Rightarrow> res_bind (items_of (jget content ''answers'')) (\<lambda>items.
          Inr ((\<lambda>item. py_str E (jget_or item ''clarification_id'' (JStr ''''))) ` set items)))"

definition open_question :: "env \<Rightarrow> string set \<Rightarrow> jdict \<Rightarrow> bool" where
  "open_question E answered item =
     (py_truthy (jget_or item ''blocking'' JNull)
      \<and> py_str E (jget_or item ''id'' (JStr '''')) \<notin> answered)"

definition open_clarifications :: "env \<Rightarrow> latest_map \<Rightarrow> Finding list result" where
  "open_clarifications E m =
     (case latest_content m CLARIFICATION_LIST of
        None \<Rightarrow> Inr []
      | Some content \<Rightarrow>
          res_bind (answered_ids E m) (\<lambda>answered.
          res_bind (items_of (jget content ''items'')) (\<lambda>items.
          let open_blocking = filter (open_question E answered) items
          in Inr (if open_blocking = [] then []
                  else [blocker ''open_clarification''
                          (JText ''open_count'' [nat_str (length open_blocking)])
                          (JStr (py_join ''; '' (map (\<lambda>item. take 120 (py_str E (jget_or item ''question'' (JStr ''''))))
                                   (take 3 open_blocking))))]))))"

section \<open>The red team\<close>

datatype RedTeamSeverity = RT_RISK | RT_WARNING

record RedTeamFinding =
  rt_severity :: RedTeamSeverity
  rt_title :: string
  rt_detail :: string

fun red_severity :: "RedTeamSeverity \<Rightarrow> Severity" where
  "red_severity RT_RISK = SV_RISK"
| "red_severity RT_WARNING = SV_WARNING"

type_synonym red_gateway = "nat \<Rightarrow> json list \<Rightarrow> RunContext \<Rightarrow> RedTeamFinding list result"

definition red_team_sections :: "env \<Rightarrow> latest_map \<Rightarrow> json list" where
  "red_team_sections E m =
     (case latest_content m SOLICITATION_PACKAGE of None \<Rightarrow> []
      | Some c \<Rightarrow> [JText ''tender_documents'' [take 4000 (py_str E (JObj c))]])
     @ (case latest_content m EVALUATION_CRITERIA of None \<Rightarrow> []
      | Some c \<Rightarrow> [JText ''evaluation_criteria'' [take 2000 (py_str E (JObj c))]])"

definition red_team_context :: "uuid \<Rightarrow> AccessContext \<Rightarrow> RunContext" where
  "red_team_context i x =
     \<lparr>rc_run_id = i, rc_tenant_id = x_tenant_id x, rc_workspace_id = x_workspace_id x,
      rc_actor_id = x_principal_id x, rc_worker_id = ''dw01.red_team'', rc_worker_version = ''1.0.0'',
      rc_channel = ''agent'', rc_plan_id = x_plan_id x, rc_roles = x_roles x, rc_scopes = x_scopes x,
      rc_trace_id = ''redteam'', rc_locale = ''vi-VN''\<rparr>"

definition redteam_unavailable :: Finding where
  "redteam_unavailable = \<lparr>fi_severity = SV_WARNING, fi_code = ''redteam_unavailable'',
     fi_title = JText ''redteam_unavailable'' [], fi_detail = JText ''rule_checks_stand'' []\<rparr>"

definition red_team :: "env \<Rightarrow> red_gateway option \<Rightarrow> latest_map \<Rightarrow> AccessContext \<Rightarrow> Finding list handler" where
  "red_team E gateway m x =
     (case gateway of
        None \<Rightarrow> act_ret []
      | Some generate \<Rightarrow>
          if red_team_sections E m = [] then act_ret []
          else act_bind (new_uuid E) (\<lambda>i w.
            let w' = w\<lparr>w_calls := Suc (w_calls w)\<rparr>
            in case generate (w_calls w) (red_team_sections E m) (red_team_context i x) of
                 Inl _ \<Rightarrow> (Inr [redteam_unavailable], w')
               | Inr items \<Rightarrow>
                   (Inr (map (\<lambda>item. \<lparr>fi_severity = red_severity (rt_severity item), fi_code = ''red_team'',
                                fi_title = JStr (py_strip (rt_title item)),
                                fi_detail = JStr (py_strip (rt_detail item))\<rparr>)
                          (filter (\<lambda>item. py_strip (rt_title item) \<noteq> '''') items)), w')))"

section \<open>The handler\<close>

definition rule_findings ::
  "env \<Rightarrow> ProcurementRules \<Rightarrow> latest_map \<Rightarrow> int \<Rightarrow> Finding list result" where
  "rule_findings E rules m value_minor =
     res_bind (package_drift E m) (\<lambda>drift.
     res_bind (criteria_weights E rules m) (\<lambda>weights.
     res_bind (supplier_shortfall rules m value_minor) (\<lambda>shortfall.
     res_bind (open_clarifications E m) (\<lambda>clarifications.
     Inr (package_exists m @ drift @ weights @ shortfall @ clarifications)))))"

definition readiness_report :: "Finding list \<Rightarrow> ReadinessReport" where
  "readiness_report findings =
     \<lparr>rd_ready = \<not> list_ex (\<lambda>f. fi_severity f = SV_BLOCKER) findings,
      rd_score = max 0 (100 - sum_list (map (\<lambda>f. severity_weight (fi_severity f)) findings)),
      rd_findings = findings\<rparr>"

definition read_case_artifacts ::
  "env \<Rightarrow> uuid \<Rightarrow> AccessContext \<Rightarrow> (PreparationCase \<times> PreparationArtifact list) handler" where
  "read_case_artifacts E case_id x =
     in_uow E (x_tenant_id x)
       (act_bind (load_case case_id) (\<lambda>c.
        act_bind (artifacts_list_for_case (c_id c)) (\<lambda>artifacts.
        act_ret (c, artifacts))))"

definition judge_package ::
  "env \<Rightarrow> ProcurementRules \<Rightarrow> red_gateway option \<Rightarrow> AccessContext \<Rightarrow> PreparationCase \<Rightarrow> latest_map
    \<Rightarrow> ReadinessReport handler" where
  "judge_package E rules gateway x c m =
     act_bind (act_lift (rule_findings E rules m (c_estimated_value_minor c))) (\<lambda>findings.
     act_bind (red_team E gateway m x) (\<lambda>opinions.
     act_ret (readiness_report (findings @ opinions))))"

definition assess_tender_readiness ::
  "env \<Rightarrow> ProcurementRules \<Rightarrow> red_gateway option \<Rightarrow> uuid \<Rightarrow> AccessContext \<Rightarrow> ReadinessReport handler" where
  "assess_tender_readiness E rules gateway case_id x =
     act_bind (authorize x ''tender.read'') (\<lambda>_.
     act_bind (read_case_artifacts E case_id x) (\<lambda>(c, artifacts).
     judge_package E rules gateway x c (latest_by_type artifacts)))"

section \<open>Lemmas\<close>

lemma res_bind_Inr: "res_bind r f = Inr y \<longleftrightarrow> (\<exists>x. r = Inr x \<and> f x = Inr y)"
  by (cases r) (auto simp: res_bind_def)

lemma items_of_Inr: "items_of v = Inr xs \<Longrightarrow> xs = dicts v"
  by (cases v rule: items_of.cases) (auto split: if_splits)

lemma greatest_by_snoc:
  "greatest_by k (xs @ [y]) = Some (case greatest_by k xs of None \<Rightarrow> y | Some r \<Rightarrow> if k y < k r then r else y)"
  by (induction xs) (auto split: option.splits)

lemma greatest_by_in: "greatest_by k xs = Some r \<Longrightarrow> r \<in> set xs"
  by (induction xs arbitrary: r) (auto split: option.splits if_splits)

text \<open>The dict built by the loop holds what the repository's query for one type returns.\<close>

lemma latest_by_type_greatest:
  assumes "distinct (map artifact_key as)" "\<forall>a \<in> set as. a_case_id a = i"
  shows "latest_by_type as (artifact_type_value ty) = greatest_by a_version (filter (\<lambda>a. a_type a = ty) as)"
  using assms
proof (induction as rule: rev_induct)
  case Nil
  then show ?case by (simp add: latest_by_type_def)
next
  case (snoc a as)
  have IH: "foldl latest_step (\<lambda>_. None) as (artifact_type_value ty)
      = greatest_by a_version (filter (\<lambda>a. a_type a = ty) as)"
    using snoc by (simp add: latest_by_type_def)
  have "a_version b \<noteq> a_version a"
    if "greatest_by a_version (filter (\<lambda>a. a_type a = ty) as) = Some b" "a_type a = ty" for b
  proof
    assume "a_version b = a_version a"
    then have "artifact_key b = artifact_key a" "b \<in> set as"
      using greatest_by_in [OF that(1)] that(2) snoc.prems by (auto simp: artifact_key_def)
    then have "artifact_key a \<in> artifact_key ` set as" by (metis imageI)
    then show False using snoc.prems(1) by auto
  qed
  then show ?case
    using IH by (auto simp: latest_by_type_def latest_step_def Let_def greatest_by_snoc split: option.splits)
qed

lemma latest_by_type_latest:
  assumes "distinct (map artifact_key (t_artifacts (w_db w)))"
  shows "latest_by_type (filter (\<lambda>a. a_case_id a = i) (artifact_visible w)) (artifact_type_value ty)
    = latest_artifact i ty w"
proof -
  have "distinct (map artifact_key (filter (\<lambda>a. a_case_id a = i) (artifact_visible w)))"
    using assms by (auto simp: artifact_visible_def intro!: distinct_map_filter)
  from latest_by_type_greatest [OF this, of i ty] show ?thesis
    by (simp add: latest_artifact_def conj_commute)
qed

lemma latest_by_type_key: "latest_by_type as k = Some a \<Longrightarrow> k = artifact_type_value (a_type a)"
proof (induction as arbitrary: a rule: rev_induct)
  case (snoc b as)
  then show ?case
    by (auto simp: latest_by_type_def latest_step_def Let_def split: option.splits if_splits)
qed (simp add: latest_by_type_def)

lemma blocker_severity [simp]: "fi_severity (blocker c ti d) = SV_BLOCKER"
  by (simp add: blocker_def)

lemma drift_each_Inr:
  "drift_each E m es = Inr fs \<Longrightarrow> fs = [] \<longleftrightarrow>
     (\<forall>e \<in> set es. \<forall>a n. m (py_str E (jget_or e ''type'' (JStr ''''))) = Some a \<longrightarrow>
        int_or_zero E (jget_or e ''version'' (JInt 0)) = Inr n \<longrightarrow> a_version a \<le> n)"
  by (induction es arbitrary: fs)
    (auto simp: drift_of_def res_bind_Inr Let_def split: option.splits if_splits)

text \<open>A rule finding is always a blocker.\<close>

lemma drift_of_blocks: "drift_of E m e = Inr fs \<Longrightarrow> f \<in> set fs \<Longrightarrow> fi_severity f = SV_BLOCKER"
  by (cases "m (py_str E (jget_or e ''type'' (JStr '''')))")
    (auto simp: drift_of_def res_bind_Inr Let_def split: if_splits)

lemma drift_each_blocks: "drift_each E m es = Inr fs \<Longrightarrow> f \<in> set fs \<Longrightarrow> fi_severity f = SV_BLOCKER"
  by (induction es arbitrary: fs) (auto simp: res_bind_Inr drift_of_blocks)

lemma checks_block:
  "f \<in> set (package_exists m) \<Longrightarrow> fi_severity f = SV_BLOCKER"
  "package_drift E m = Inr fs \<Longrightarrow> f \<in> set fs \<Longrightarrow> fi_severity f = SV_BLOCKER"
  "criteria_weights E rules m = Inr fs \<Longrightarrow> f \<in> set fs \<Longrightarrow> fi_severity f = SV_BLOCKER"
  "supplier_shortfall rules m v = Inr fs \<Longrightarrow> f \<in> set fs \<Longrightarrow> fi_severity f = SV_BLOCKER"
  "open_clarifications E m = Inr fs \<Longrightarrow> f \<in> set fs \<Longrightarrow> fi_severity f = SV_BLOCKER"
      apply (auto simp: package_exists_def split: if_splits)[1]
     apply (cases "latest_content m OFFICIAL_PACKAGE_MANIFEST"; auto simp: package_drift_def res_bind_Inr drift_each_blocks)
    apply (cases "latest_content m EVALUATION_CRITERIA"; auto simp: criteria_weights_def res_bind_Inr Let_def split: if_splits)
   apply (cases "latest_content m SUPPLIER_SHORTLIST"; auto simp: supplier_shortfall_def res_bind_Inr Let_def split: if_splits)
  apply (cases "latest_content m CLARIFICATION_LIST"; auto simp: open_clarifications_def res_bind_Inr Let_def split: if_splits)
  done

lemma rule_findings_block:
  "rule_findings E rules m v = Inr fs \<Longrightarrow> f \<in> set fs \<Longrightarrow> fi_severity f = SV_BLOCKER"
  by (auto simp: rule_findings_def res_bind_Inr intro: checks_block)

lemma red_team_advisory:
  "\<exists>ops w'. red_team E g m x w = (Inr ops, w') \<and> list_all (\<lambda>f. fi_severity f \<noteq> SV_BLOCKER) ops
     \<and> w_committed w' = w_committed w"
proof -
  have "red_severity s \<noteq> SV_BLOCKER" for s by (cases s) auto
  then show ?thesis
    by (auto simp: red_team_def act_simps new_uuid_def act_bind_def Let_def redteam_unavailable_def list_all_iff
        split: option.splits sum.splits)
qed

lemma ready_report: "list_all (\<lambda>f. fi_severity f \<noteq> SV_BLOCKER) ops \<Longrightarrow>
    rd_ready (readiness_report (fs @ ops)) = rd_ready (readiness_report fs)"
  by (auto simp: readiness_report_def list_ex_iff list_all_iff)

lemma ready_iff_none: "rule_findings E rules m v = Inr fs \<Longrightarrow> rd_ready (readiness_report fs) \<longleftrightarrow> fs = []"
  using rule_findings_block [of E rules m v fs] by (cases fs) (auto simp: readiness_report_def list_ex_iff)

lemma run_read_case_artifacts:
  assumes "read_case_artifacts E i x w = (Inr q, v)"
  obtains c where "get_case i (session_start (x_tenant_id x) w) = Some c" "c_id c = i"
    "q = (c, filter (\<lambda>a. a_case_id a = i) (artifact_visible (session_start (x_tenant_id x) w)))"
    "w_committed v = w_committed w"
proof -
  from assms obtain c where c: "get_case i (session_start (x_tenant_id x) w) = Some c"
    "q = (c, filter (\<lambda>a. a_case_id a = c_id c) (artifact_visible (session_start (x_tenant_id x) w)))"
    "w_committed v = w_committed w"
    by (auto simp: read_case_artifacts_def run_in_uow run_bind run_load_case run_more_queries run_basic)
  moreover have "c_id c = i" using get_case_Some [OF c(1)] by simp
  ultimately show ?thesis using that by blast
qed

lemma run_judge_package:
  assumes "judge_package E rules gw x c m v = (Inr r, w')"
  obtains fs ops where "rule_findings E rules m (c_estimated_value_minor c) = Inr fs"
    "red_team E gw m x v = (Inr ops, w')" "r = readiness_report (fs @ ops)"
  using assms by (auto simp: judge_package_def run_bind run_basic)

section \<open>Properties\<close>

text \<open>C20: What a verdict of readiness means. Somebody who may read tenders asked, nothing was written, and the
  package is called ready exactly when the checks find nothing: a solicitation package exists; no entry of the official
  manifest states an older version than the latest artifact of its type (also when the entry is itself one of several
  versions that were sealed); the criteria weights, if recorded, add up to the rule pack's total; the shortlist, if
  recorded, has the minimum number of suppliers for the value of the case; and every blocking question of the latest
  list has its id among the ones the check reads as answered, which are the \<open>clarification_id\<close>s under
  \<open>answers\<close> of the latest response. (The handler that records answers stores them under other keys.)\<close>

theorem readiness_verdict:
  assumes run: "assess_tender_readiness E rules gw i x w = (Inr r, w')"
    and keys: "distinct (map artifact_key (t_artifacts (w_committed w)))"
  defines "newest \<equiv> \<lambda>ty. latest_artifact i ty (session_start (x_tenant_id x) w)"
  shows "may x ''tender.read'' \<and> w_committed w' = w_committed w
    \<and> (\<exists>c answered. get_case i (session_start (x_tenant_id x) w) = Some c
        \<and> answered = (case newest CLARIFICATION_RESPONSE of None \<Rightarrow> {}
             | Some a \<Rightarrow> (\<lambda>e. py_str E (jget_or e ''clarification_id'' (JStr ''''))) ` set (dicts (jget (a_content a) ''answers'')))
        \<and> (rd_ready r \<longleftrightarrow>
             newest SOLICITATION_PACKAGE \<noteq> None
           \<and> (\<forall>p e ty a n. newest OFFICIAL_PACKAGE_MANIFEST = Some p \<longrightarrow> e \<in> set (dicts (jget (a_content p) ''artifacts'')) \<longrightarrow>
                artifact_type_value ty = py_str E (jget_or e ''type'' (JStr '''')) \<longrightarrow> newest ty = Some a \<longrightarrow>
                int_or_zero E (jget_or e ''version'' (JInt 0)) = Inr n \<longrightarrow> a_version a \<le> n)
           \<and> (\<forall>p. newest EVALUATION_CRITERIA = Some p \<longrightarrow>
                sum_weights E (dicts (jget (a_content p) ''weighted'')) = Inr (pr_weighted_total_must_equal rules))
           \<and> (\<forall>p meth. newest SUPPLIER_SHORTLIST = Some p \<longrightarrow> select_method rules (c_estimated_value_minor c) = Inr meth \<longrightarrow>
                m_min_suppliers meth \<le> int (length (dicts (jget (a_content p) ''shortlist''))))
           \<and> (\<forall>p q. newest CLARIFICATION_LIST = Some p \<longrightarrow> q \<in> set (dicts (jget (a_content p) ''items'')) \<longrightarrow>
                \<not> open_question E answered q)))"
proof -
  let ?s = "session_start (x_tenant_id x) w"
  define m where "m = latest_by_type (filter (\<lambda>a. a_case_id a = i) (artifact_visible ?s))"
  have m_newest: "m (artifact_type_value ty) = newest ty" for ty
    using latest_by_type_latest [of ?s i ty] keys by (simp add: m_def newest_def)
  have m_key: "m k = Some a \<longleftrightarrow> (\<exists>ty. artifact_type_value ty = k \<and> newest ty = Some a)" for k a
    using latest_by_type_key [of _ k a] m_newest unfolding m_def by metis
  from run obtain q v where may: "may x ''tender.read''" and q: "read_case_artifacts E i x w = (Inr q, v)"
    and rest: "(case q of (c, artifacts) \<Rightarrow> judge_package E rules gw x c (latest_by_type artifacts)) v = (Inr r, w')"
    unfolding assess_tender_readiness_def run_bind run_authorize by blast
  from q obtain c where c: "get_case i ?s = Some c"
    "q = (c, filter (\<lambda>a. a_case_id a = i) (artifact_visible ?s))" and wc: "w_committed v = w_committed w"
    by (rule run_read_case_artifacts)
  have "judge_package E rules gw x c m v = (Inr r, w')" using rest c(2) by (simp add: m_def)
  then obtain fs ops where fs: "rule_findings E rules m (c_estimated_value_minor c) = Inr fs"
    and ops: "red_team E gw m x v = (Inr ops, w')" and r: "r = readiness_report (fs @ ops)"
    by (rule run_judge_package)
  have ops': "list_all (\<lambda>f. fi_severity f \<noteq> SV_BLOCKER) ops" "w_committed w' = w_committed w"
    using red_team_advisory [of E gw m x v] ops wc by auto
  have ready: "rd_ready r \<longleftrightarrow> fs = []"
    using ready_report [OF ops'(1)] ready_iff_none [OF fs] r by simp
  from fs obtain f1 f2 f3 f4 where f: "package_drift E m = Inr f1" "criteria_weights E rules m = Inr f2"
    "supplier_shortfall rules m (c_estimated_value_minor c) = Inr f3" "open_clarifications E m = Inr f4"
    "fs = package_exists m @ f1 @ f2 @ f3 @ f4"
    by (auto simp: rule_findings_def res_bind_Inr)
  have content: "latest_content m ty = map_option a_content (newest ty)" for ty
    by (simp add: latest_content_def m_newest)
  have e0: "package_exists m = [] \<longleftrightarrow> newest SOLICITATION_PACKAGE \<noteq> None"
    unfolding package_exists_def m_newest by simp
  have e1: "f1 = [] \<longleftrightarrow> (\<forall>p e ty a n. newest OFFICIAL_PACKAGE_MANIFEST = Some p \<longrightarrow> e \<in> set (dicts (jget (a_content p) ''artifacts'')) \<longrightarrow>
                artifact_type_value ty = py_str E (jget_or e ''type'' (JStr '''')) \<longrightarrow> newest ty = Some a \<longrightarrow>
                int_or_zero E (jget_or e ''version'' (JInt 0)) = Inr n \<longrightarrow> a_version a \<le> n)"
  proof (cases "newest OFFICIAL_PACKAGE_MANIFEST")
    case None
    then show ?thesis using f(1) by (simp add: package_drift_def content)
  next
    case (Some p)
    then have "drift_each E m (dicts (jget (a_content p) ''artifacts'')) = Inr f1"
      using f(1) by (auto simp: package_drift_def content res_bind_Inr dest!: items_of_Inr)
    from drift_each_Inr [OF this] show ?thesis by (auto simp: Some m_key)
  qed
  have e2: "f2 = [] \<longleftrightarrow> (\<forall>p. newest EVALUATION_CRITERIA = Some p \<longrightarrow>
                sum_weights E (dicts (jget (a_content p) ''weighted'')) = Inr (pr_weighted_total_must_equal rules))"
    using f(2) by (cases "newest EVALUATION_CRITERIA")
      (auto simp: criteria_weights_def content res_bind_Inr Let_def dest!: items_of_Inr split: if_splits)
  have e3: "f3 = [] \<longleftrightarrow> (\<forall>p meth. newest SUPPLIER_SHORTLIST = Some p \<longrightarrow> select_method rules (c_estimated_value_minor c) = Inr meth \<longrightarrow>
                m_min_suppliers meth \<le> int (length (dicts (jget (a_content p) ''shortlist''))))"
    using f(3) by (cases "newest SUPPLIER_SHORTLIST")
      (auto simp: supplier_shortfall_def content res_bind_Inr Let_def dest!: items_of_Inr split: if_splits)
  define answered where "answered = (case newest CLARIFICATION_RESPONSE of None \<Rightarrow> {}
     | Some a \<Rightarrow> (\<lambda>e. py_str E (jget_or e ''clarification_id'' (JStr ''''))) ` set (dicts (jget (a_content a) ''answers'')))"
  have an: "answered_ids E m = Inr ids \<Longrightarrow> ids = answered" for ids
    by (cases "newest CLARIFICATION_RESPONSE")
      (auto simp: answered_ids_def answered_def content res_bind_Inr dest!: items_of_Inr)
  have e4: "f4 = [] \<longleftrightarrow> (\<forall>p q. newest CLARIFICATION_LIST = Some p \<longrightarrow> q \<in> set (dicts (jget (a_content p) ''items'')) \<longrightarrow>
                \<not> open_question E answered q)"
    using f(4) by (cases "newest CLARIFICATION_LIST")
      (auto simp: open_clarifications_def content res_bind_Inr Let_def filter_empty_conv
        dest!: items_of_Inr an split: if_splits)
  have "rd_ready r \<longleftrightarrow> package_exists m = [] \<and> f1 = [] \<and> f2 = [] \<and> f3 = [] \<and> f4 = []"
    by (simp add: ready f(5))
  then show ?thesis unfolding e0 e1 e2 e3 e4
    using may c(1) ops'(2) by (intro conjI exI [of _ c] exI [of _ answered]) (auto simp: answered_def)
qed

lemma score_nonneg: "0 \<le> sum_list (map (\<lambda>f. severity_weight (fi_severity f)) fs)"
proof -
  have "0 \<le> severity_weight s" for s by (cases s) auto
  then show ?thesis by (intro sum_list_nonneg) auto
qed

lemma score_more: "rd_score (readiness_report (fs @ ops)) \<le> rd_score (readiness_report fs)"
  using score_nonneg [of ops] by (simp add: readiness_report_def)

lemma judge_package_fst:
  "fst (judge_package E rules gw x c m v) =
     (case rule_findings E rules m (c_estimated_value_minor c) of Inl e \<Rightarrow> Inl e
      | Inr fs \<Rightarrow> (case fst (red_team E gw m x v) of Inl e \<Rightarrow> Inl e | Inr ops \<Rightarrow> Inr (readiness_report (fs @ ops))))"
  by (auto simp: judge_package_def act_bind_def act_lift_def act_ret_def split: sum.splits prod.splits)

lemma assess_fst:
  "fst (assess_tender_readiness E rules gw i x w) =
     (if \<not> may x ''tender.read'' then Inl (Err PermissionDeniedError ''action not permitted'')
      else case read_case_artifacts E i x w of (Inl e, v) \<Rightarrow> Inl e
           | (Inr (c, as), v) \<Rightarrow> fst (judge_package E rules gw x c (latest_by_type as) v))"
  by (auto simp: assess_tender_readiness_def authorize_def act_bind_def act_lift_def may_def require_action_def
      split: sum.splits prod.splits)

text \<open>C24: The model only advises. Wiring a red team never changes whether the call raises nor the
  verdict: whatever the gateway answers, and also when it raises, the report is the rule pack's report with
  findings appended none of which is a blocker, so the score can only drop, and it stays between 0 and 100.\<close>

theorem red_team_only_advises:
  "case fst (assess_tender_readiness E rules None i x w) of
      Inl e \<Rightarrow> fst (assess_tender_readiness E rules (Some gw) i x w) = Inl e
    | Inr r0 \<Rightarrow> \<exists>ops r. fst (assess_tender_readiness E rules (Some gw) i x w) = Inr r
        \<and> rd_findings r = rd_findings r0 @ ops \<and> list_all (\<lambda>f. fi_severity f \<noteq> SV_BLOCKER) ops
        \<and> rd_ready r = rd_ready r0 \<and> 0 \<le> rd_score r \<and> rd_score r \<le> rd_score r0 \<and> rd_score r0 \<le> 100"
proof -
  have judge: "case fst (judge_package E rules None x c m v) of
        Inl e \<Rightarrow> fst (judge_package E rules (Some gw) x c m v) = Inl e
      | Inr r0 \<Rightarrow> \<exists>ops r. fst (judge_package E rules (Some gw) x c m v) = Inr r
          \<and> rd_findings r = rd_findings r0 @ ops \<and> list_all (\<lambda>f. fi_severity f \<noteq> SV_BLOCKER) ops
          \<and> rd_ready r = rd_ready r0 \<and> 0 \<le> rd_score r \<and> rd_score r \<le> rd_score r0 \<and> rd_score r0 \<le> 100" for c m v
  proof (cases "rule_findings E rules m (c_estimated_value_minor c)")
    case (Inl e)
    then show ?thesis by (simp add: judge_package_fst)
  next
    case (Inr fs)
    obtain ops v' where ops: "red_team E (Some gw) m x v = (Inr ops, v')"
      "list_all (\<lambda>f. fi_severity f \<noteq> SV_BLOCKER) ops"
      using red_team_advisory [of E "Some gw" m x v] by blast
    have none: "red_team E None m x v = (Inr [], v)" by (simp add: red_team_def act_ret_def)
    have "rd_score (readiness_report fs) \<le> 100" using score_nonneg [of fs] by (simp add: readiness_report_def)
    then show ?thesis
      using Inr ops none ready_report [OF ops(2), of fs] score_more [of fs ops]
      by (auto simp: judge_package_fst readiness_report_def intro!: exI [of _ ops])
  qed
  show ?thesis
  proof (cases "may x ''tender.read'' \<and> (\<exists>c as v. read_case_artifacts E i x w = (Inr (c, as), v))")
    case True
    then obtain c as v where "may x ''tender.read''" "read_case_artifacts E i x w = (Inr (c, as), v)" by blast
    then have "fst (assess_tender_readiness E rules g i x w) = fst (judge_package E rules g x c (latest_by_type as) v)" for g
      by (simp add: assess_fst)
    then show ?thesis using judge [of c "latest_by_type as" v] by (simp only:)
  next
    case False
    then show ?thesis by (auto simp: assess_fst split: prod.splits sum.splits)
  qed
qed

text \<open>The readiness check does not see answers. Whatever the requester answers through the
  clarification handler, every case with a blocking question keeps an open-clarification blocker: the
  handler stores the answers under other keys than the ones this check reads.\<close>

theorem answered_questions_reported_open:
  assumes "m (artifact_type_value CLARIFICATION_LIST) = Some listing"
    "m (artifact_type_value CLARIFICATION_RESPONSE) = Some response"
    "a_content response = answer_content y t answers"
    "blocking_ids E (Some listing) \<noteq> {}"
  shows "\<exists>f. open_clarifications E m = Inr [f] \<and> fi_severity f = SV_BLOCKER"
proof -
  have "latest_content m CLARIFICATION_RESPONSE = Some (answer_content y t answers)"
    "latest_content m CLARIFICATION_LIST = Some (a_content listing)"
    using assms(1-3) unfolding latest_content_def by simp_all
  moreover have "answered_ids E m = Inr {}"
    using calculation(1) by (simp add: answered_ids_def answer_content_def jget_def res_bind_def)
  moreover obtain q where q: "q \<in> set (dicts (jget (a_content listing) ''items''))" "py_truthy (jget_or q ''blocking'' JNull)"
    using assms(4) by (auto simp: blocking_ids_def)
  moreover have "items_of (jget (a_content listing) ''items'') = Inr (dicts (jget (a_content listing) ''items''))"
    using q(1) by (cases "jget (a_content listing) ''items''" rule: items_of.cases) auto
  moreover have "filter (open_question E {}) (dicts (jget (a_content listing) ''items'')) \<noteq> []"
    using q by (auto simp: filter_empty_conv open_question_def)
  ultimately show ?thesis by (simp add: open_clarifications_def res_bind_def Let_def)
qed

section \<open>Closed runs\<close>

definition demo_listing :: PreparationArtifact where
  "demo_listing = case_artifact demo_env ''a5'' (demo_case CS_ANALYZING) ''u1'' CLARIFICATION_LIST 1 AS_DRAFT
     [(''items'', JArr [JObj [(''id'', JStr ''q1''), (''blocking'', JBool True), (''question'', JStr ''?'')]])]"

definition demo_answer :: ClarificationAnswer where
  "demo_answer = \<lparr>cl_clarification_id = ''q1'', cl_question = ''?'', cl_answer = ''yes'', cl_source_note = ''''\<rparr>"

definition demo_response :: PreparationArtifact where
  "demo_response = case_artifact demo_env ''a6'' (demo_case CS_ANALYZING) ''u1'' CLARIFICATION_RESPONSE 1 AS_SUBMITTED
     (answer_content the_requester 0 [demo_answer])"

theorem answered_questions_reported_open_witness:
  "\<exists>f. open_clarifications demo_env (latest_by_type [demo_listing, demo_response]) = Inr [f] \<and> fi_severity f = SV_BLOCKER
    \<and> blocking_ids demo_env (Some demo_listing) \<subseteq> answered_ids_in demo_env [demo_response]"
proof -
  have m: "latest_by_type [demo_listing, demo_response] (artifact_type_value CLARIFICATION_LIST) = Some demo_listing"
    "latest_by_type [demo_listing, demo_response] (artifact_type_value CLARIFICATION_RESPONSE) = Some demo_response"
    by (simp_all add: latest_by_type_def latest_step_def demo_listing_def demo_response_def case_artifact_def Let_def)
  have ids: "blocking_ids demo_env (Some demo_listing) = {''q1''}" "answered_ids_in demo_env [demo_response] = {''q1''}"
    by (simp_all add: blocking_ids_def answered_ids_in_def demo_listing_def demo_response_def case_artifact_def jget_def
        jget_or_def answer_content_def demo_answer_def py_strip_def py_lstrip_def py_rstrip_def py_isspace_def)
  have "a_content demo_response = answer_content the_requester 0 [demo_answer]"
    by (simp add: demo_response_def case_artifact_def)
  from answered_questions_reported_open [OF m this, of demo_env] ids show ?thesis by simp
qed

definition ready_ctx :: AccessContext where
  "ready_ctx = demo_ctx ''u1'' [] [''tender.read'']"

definition ready_artifact :: "uuid \<Rightarrow> ArtifactType \<Rightarrow> jdict \<Rightarrow> PreparationArtifact" where
  "ready_artifact i ty content = case_artifact demo_env i (demo_case CS_PACKAGE_OFFICIAL) ''u1'' ty 1 AS_DRAFT content"

definition sealed_parts :: "PreparationArtifact list" where
  "sealed_parts =
     [ready_artifact ''a1'' SOLICITATION_PACKAGE [],
      ready_artifact ''a2'' EVALUATION_CRITERIA [(''weighted'', JArr [JObj [(''weight'', JInt 60)], JObj [(''weight'', JInt 40)]])],
      ready_artifact ''a3'' SUPPLIER_SHORTLIST [(''shortlist'', JArr [JObj [], JObj [], JObj []])],
      ready_artifact ''a4'' CLARIFICATION_LIST [(''items'', JArr [JObj [(''id'', JStr ''c1''), (''blocking'', JBool False)]])],
      ready_artifact ''a5'' OFFICIAL_PACKAGE_MANIFEST
        [(''artifacts'', JArr [JObj [(''type'', JStr ''solicitation_package''), (''version'', JInt 1)]])]]"

definition ready_db :: db where
  "ready_db = (case_db CS_PACKAGE_OFFICIAL)\<lparr>t_artifacts := sealed_parts\<rparr>"

lemma ready_sel:
  "a_id (ready_artifact i ty ct) = i" "a_tenant_id (ready_artifact i ty ct) = ''t1''" "a_case_id (ready_artifact i ty ct) = ''c1''"
  "a_type (ready_artifact i ty ct) = ty" "a_version (ready_artifact i ty ct) = 1" "a_content (ready_artifact i ty ct) = ct"
  "t_cases ready_db = [demo_case CS_PACKAGE_OFFICIAL]" "t_artifacts ready_db = sealed_parts"
  "x_tenant_id ready_ctx = ''t1''" "x_roles ready_ctx = {}" "x_scopes ready_ctx = {''tender.read''}"
  by (simp_all add: ready_artifact_def case_artifact_def demo_row_sel ready_db_def case_db_def ready_ctx_def demo_ctx_def)

theorem readiness_verdict_witness:
  "\<exists>r w'. assess_tender_readiness demo_env demo_procurement_rules None ''c1'' ready_ctx (start_world ready_db) = (Inr r, w')
     \<and> rd_ready r"
proof -
  let ?w = "start_world ready_db"
  let ?newest = "\<lambda>ty. latest_artifact ''c1'' ty (session_start ''t1'' ?w)"
  have arts: "artifact_visible (session_start ''t1'' ?w) = sealed_parts"
    by (simp add: artifact_visible_def session_start_def evaluation ready_sel) (simp add: sealed_parts_def ready_sel)
  have newest: "?newest CLARIFICATION_RESPONSE = None"
    "?newest SOLICITATION_PACKAGE = Some (ready_artifact ''a1'' SOLICITATION_PACKAGE [])"
    "?newest EVALUATION_CRITERIA = Some (ready_artifact ''a2'' EVALUATION_CRITERIA
       [(''weighted'', JArr [JObj [(''weight'', JInt 60)], JObj [(''weight'', JInt 40)]])])"
    "?newest SUPPLIER_SHORTLIST = Some (ready_artifact ''a3'' SUPPLIER_SHORTLIST [(''shortlist'', JArr [JObj [], JObj [], JObj []])])"
    "?newest CLARIFICATION_LIST = Some (ready_artifact ''a4'' CLARIFICATION_LIST
       [(''items'', JArr [JObj [(''id'', JStr ''c1''), (''blocking'', JBool False)]])])"
    "?newest OFFICIAL_PACKAGE_MANIFEST = Some (ready_artifact ''a5'' OFFICIAL_PACKAGE_MANIFEST
        [(''artifacts'', JArr [JObj [(''type'', JStr ''solicitation_package''), (''version'', JInt 1)]])])"
    by (simp_all add: latest_artifact_def arts sealed_parts_def ready_sel)
  have visible: "get_case ''c1'' (session_start ''t1'' ?w) = Some (demo_case CS_PACKAGE_OFFICIAL)"
    by (simp add: get_case_def evaluation ready_sel)
  have "ran_ok (assess_tender_readiness demo_env demo_procurement_rules None ''c1'' ready_ctx ?w)"
    by (simp add: evaluation ready_sel assess_tender_readiness_def read_case_artifacts_def judge_package_def sealed_parts_def
        rule_findings_def package_drift_def drift_of_def criteria_weights_def supplier_shortfall_def open_clarifications_def
        answered_ids_def latest_by_type_def latest_step_def latest_content_def res_bind_def red_team_def Let_def jget_def jget_or_def select_method_def
        demo_procurement_rules_def demo_method_def covers_def cong: act_bind_weak)
  from ran_ok_elim [OF this] obtain r w' where
    run: "assess_tender_readiness demo_env demo_procurement_rules None ''c1'' ready_ctx ?w = (Inr r, w')" by blast
  have keys: "distinct (map artifact_key (t_artifacts (w_committed ?w)))"
    by (simp add: evaluation ready_sel sealed_parts_def artifact_key_def)
  have kind: "artifact_type_value ty = ''solicitation_package'' \<longleftrightarrow> ty = SOLICITATION_PACKAGE" for ty
    by (cases ty) simp_all
  have worth: "c_estimated_value_minor (demo_case CS_PACKAGE_OFFICIAL) = 100" by (simp add: demo_case_def)
  have total: "pr_weighted_total_must_equal demo_procurement_rules = 100" by (simp add: demo_procurement_rules_def)
  have few: "select_method demo_procurement_rules 100 = Inr meth \<Longrightarrow> m_min_suppliers meth \<le> 3" for meth
    by (auto simp: demo_procurement_rules_def demo_method_def select_method_def covers_def)
  have closed: "\<not> open_question demo_env ids [(''id'', JStr ''c1''), (''blocking'', JBool False)]" for ids
    by (simp add: open_question_def jget_or_def)
  have "rd_ready r" using readiness_verdict [OF run keys, unfolded ready_sel]
    by (elim conjE exE) (auto simp: visible newest ready_sel kind worth total few closed jget_def jget_or_def res_bind_def)
  then show ?thesis using run by blast
qed

end
