(* ===== verification/DW_Notify.thy ===== *)
theory DW_Notify
  imports DW_Intake
begin

text \<open>
  The delivery of notification jobs: the worker's store
  (\<open>adapters/preparation/notification_store.py\<close>) and the consumer that polls it
  (\<open>apps/worker/consumers/slack_approvals.py\<close>). A store operation is one transaction on the
  committed database, outside any tenant; several workers are an interleaving of these transactions.
  The users table is the parameter \<open>subject_of\<close>, the outbound messenger the parameter
  \<open>notifier\<close>, which answers with a reference or an exception and its \<open>slack_error\<close> detail.
\<close>

section \<open>Values\<close>

fun notification_type_value :: "IntakeNotificationType \<Rightarrow> string" where
  "notification_type_value NT_APPROVAL_REQUESTED = ''intake.approval_requested''"
| "notification_type_value NT_APPROVAL_ESCALATED = ''intake.approval_escalated''"
| "notification_type_value NT_APPROVED = ''intake.approved''"
| "notification_type_value NT_REJECTED = ''intake.rejected''"
| "notification_type_value NT_RUN_PROGRESS = ''run.progress''"
| "notification_type_value NT_CP_APPROVAL_REQUESTED = ''cp.approval_requested''"
| "notification_type_value NT_ADDENDUM_PROPOSED = ''addendum.proposed''"
| "notification_type_value NT_LAW_CHANGE_DETECTED = ''law.change_detected''"
| "notification_type_value NT_REWORK_SUPPORT_OFFERED = ''rework.support_offered''"
| "notification_type_value NT_REWORK_SUPPORT_REQUIRED = ''rework.support_required''"
| "notification_type_value NT_REWORK_EXPLANATION_ESCALATED = ''rework.explanation_escalated''"

record IntakeNotificationDelivery =
  dl_job :: IntakeNotificationJob
  dl_recipient_subject :: string
  dl_case_state :: string

section \<open>The store\<close>

text \<open>\<open>async with session_factory() as session, session.begin()\<close>: the block commits when it ends.\<close>

definition drain :: "env \<Rightarrow> 'a handler \<Rightarrow> 'a handler" where
  "drain E body w =
     (case env_connect E (w_calls w) of
        Some e \<Rightarrow> (Inl e, w\<lparr>w_calls := Suc (w_calls w)\<rparr>)
      | None \<Rightarrow>
          (case body (w\<lparr>w_calls := Suc (w_calls w), w_db := w_committed w\<rparr>) of
             (Inl e, w') \<Rightarrow> (Inl e, w'\<lparr>w_db := w_committed w'\<rparr>)
           | (Inr r, w') \<Rightarrow> (Inr r, w'\<lparr>w_committed := w_db w'\<rparr>)))"

definition claimable :: "datetime \<Rightarrow> datetime \<Rightarrow> IntakeNotificationJob \<Rightarrow> bool" where
  "claimable now stale_before j =
     (n_due_at j \<le> now
      \<and> (n_status j = NJ_QUEUED
         \<or> n_status j = NJ_PROCESSING
           \<and> (case n_claimed_at j of Some t \<Rightarrow> t < stale_before | None \<Rightarrow> False)))"

text \<open>The inner joins: the recipient's subject and the state of the case.\<close>

definition delivery_of ::
  "(uuid \<Rightarrow> string option) \<Rightarrow> db \<Rightarrow> IntakeNotificationJob \<Rightarrow> IntakeNotificationDelivery option" where
  "delivery_of subject_of d j =
     (case (subject_of (n_recipient_user_id j), find (\<lambda>c. c_id c = n_case_id j) (t_cases d)) of
        (Some s, Some c) \<Rightarrow>
          Some \<lparr>dl_job = j, dl_recipient_subject = s, dl_case_state = case_state_value (c_state c)\<rparr>
      | _ \<Rightarrow> None)"

definition claim_candidates ::
  "(uuid \<Rightarrow> string option) \<Rightarrow> datetime \<Rightarrow> datetime \<Rightarrow> db \<Rightarrow> IntakeNotificationJob list" where
  "claim_candidates subject_of now stale_before d =
     sort_key n_due_at (filter (\<lambda>j. claimable now stale_before j \<and> delivery_of subject_of d j \<noteq> None) (t_jobs d))"

definition claimed_row :: "datetime \<Rightarrow> int \<Rightarrow> IntakeNotificationJob \<Rightarrow> IntakeNotificationJob" where
  "claimed_row now attempts r =
     r\<lparr>n_status := NJ_PROCESSING, n_attempts := attempts, n_claimed_at := Some now\<rparr>"

definition claim_tx ::
  "(uuid \<Rightarrow> string option) \<Rightarrow> datetime \<Rightarrow> datetime \<Rightarrow> IntakeNotificationDelivery option handler" where
  "claim_tx subject_of now stale_before w =
     (case claim_candidates subject_of now stale_before (w_db w) of
        [] \<Rightarrow> (Inr None, w)
      | j # _ \<Rightarrow>
          (let attempts = n_attempts j + 1;
               w' = w\<lparr>w_db := (w_db w)\<lparr>t_jobs := update_where (\<lambda>r. n_id r = n_id j)
                       (claimed_row now attempts) (t_jobs (w_db w))\<rparr>\<rparr>
           in (Inr (map_option (\<lambda>dl. dl\<lparr>dl_job := j\<lparr>n_attempts := attempts, n_claimed_at := Some now\<rparr>\<rparr>)
                      (delivery_of subject_of (w_db w) j)), w')))"

definition claim_next ::
  "env \<Rightarrow> (uuid \<Rightarrow> string option) \<Rightarrow> int \<Rightarrow> IntakeNotificationDelivery option handler" where
  "claim_next E subject_of stale_after_seconds =
     act_bind (clock_now E) (\<lambda>now.
     drain E (claim_tx subject_of now (now - timedelta_seconds stale_after_seconds)))"

definition update_hits :: "IntakeNotificationDelivery \<Rightarrow> IntakeNotificationJob \<Rightarrow> bool" where
  "update_hits d r = (n_id r = n_id (dl_job d) \<and> n_status r = NJ_PROCESSING)"

text \<open>\<open>_update\<close>: it reads the clock for \<open>updated_at\<close>, a column nothing modelled reads.\<close>

definition update_job ::
  "env \<Rightarrow> IntakeNotificationDelivery \<Rightarrow> (IntakeNotificationJob \<Rightarrow> IntakeNotificationJob) \<Rightarrow> unit handler" where
  "update_job E d values =
     act_bind (clock_now E) (\<lambda>_.
     drain E (act_modify (\<lambda>w. w\<lparr>w_db := (w_db w)\<lparr>t_jobs := update_where (update_hits d) values (t_jobs (w_db w))\<rparr>\<rparr>)))"

definition mark_sent :: "env \<Rightarrow> IntakeNotificationDelivery \<Rightarrow> string \<Rightarrow> string \<Rightarrow> unit handler" where
  "mark_sent E d channel ts =
     act_bind (clock_now E) (\<lambda>now.
     update_job E d (\<lambda>r. r\<lparr>n_status := NJ_SENT, n_slack_channel_id := Some channel,
       n_slack_message_ts := Some ts, n_sent_at := Some now, n_last_error := None\<rparr>))"

definition mark_cancelled :: "env \<Rightarrow> IntakeNotificationDelivery \<Rightarrow> string \<Rightarrow> unit handler" where
  "mark_cancelled E d why =
     update_job E d (\<lambda>r. r\<lparr>n_status := NJ_CANCELLED, n_last_error := Some (take 2000 why)\<rparr>)"

definition mark_failed :: "env \<Rightarrow> IntakeNotificationDelivery \<Rightarrow> string \<Rightarrow> unit handler" where
  "mark_failed E d error =
     update_job E d (\<lambda>r. r\<lparr>n_status := NJ_FAILED, n_claimed_at := None, n_last_error := Some (take 2000 error)\<rparr>)"

definition retry_delay :: "int \<Rightarrow> int" where
  "retry_delay attempts = min (2 ^ nat (max (attempts - 1) 0)) 60"

definition mark_retry :: "env \<Rightarrow> IntakeNotificationDelivery \<Rightarrow> string \<Rightarrow> unit handler" where
  "mark_retry E d error =
     (let job = dl_job d in
      if n_attempts job \<ge> n_max_attempts job
      then update_job E d (\<lambda>r. r\<lparr>n_status := NJ_FAILED, n_last_error := Some (take 2000 error)\<rparr>)
      else act_bind (clock_now E) (\<lambda>now.
           update_job E d (\<lambda>r. r\<lparr>n_status := NJ_QUEUED,
             n_due_at := now + timedelta_seconds (retry_delay (n_attempts job)),
             n_claimed_at := None, n_last_error := Some (take 2000 error)\<rparr>)))"

section \<open>The consumer\<close>

record SlackApprovalMessage =
  sm_message_id :: uuid
  sm_recipient_slack_user_id :: string
  sm_event_type :: string
  sm_case_id :: uuid
  sm_case_title :: string
  sm_web_url :: string
  sm_source_pr_ref :: string
  sm_owner_name :: string
  sm_estimated_value_minor :: int
  sm_currency :: string
  sm_comment :: string
  sm_heading :: string
  sm_lines :: "string list"
  sm_buttons :: "(string \<times> string) list list"
  sm_checkpoint :: string

type_synonym notifier = "nat \<Rightarrow> SlackApprovalMessage \<Rightarrow> (dw_error \<times> string) + (string \<times> string)"

definition PERMANENT_SLACK_ERRORS :: "string list" where
  "PERMANENT_SLACK_ERRORS = [''account_inactive'', ''channel_not_found'', ''invalid_auth'', ''invalid_member_id'',
     ''missing_scope'', ''not_allowed_token_type'', ''token_expired'', ''token_revoked'', ''user_not_found'']"

text \<open>\<open>_slack_failure\<close>: the sentence shown, and whether the failure is permanent.\<close>

definition slack_failure :: "env \<Rightarrow> dw_error \<times> string \<Rightarrow> string \<times> bool" where
  "slack_failure E exc =
     (let code = (if is_dw_error (err_class (fst exc)) then snd exc else '''')
      in if code \<noteq> '''' then
           (env_text E (JText (if code \<in> set PERMANENT_SLACK_ERRORS then ''slack_error'' else ''slack_refused'') [code]),
            code \<in> set PERMANENT_SLACK_ERRORS)
         else (env_text E (JText ''slack_unreachable'' []), False))"

definition expected_state :: "string \<Rightarrow> string option" where
  "expected_state checkpoint = map_of
     [(''CP1'', ''cp1_pending''), (''CP2'', ''cp2_pending''), (''CP3'', ''cp3_pending''),
      (''CP4'', ''receiving_bids'')] checkpoint"

text \<open>Why a claimed job is not worth sending any more.\<close>

definition stale_reason :: "env \<Rightarrow> IntakeNotificationDelivery \<Rightarrow> string option" where
  "stale_reason E d =
     (let job = dl_job d; event = notification_type_value (n_event_type job); state = dl_case_state d
      in if event \<in> {''intake.approval_requested'', ''intake.approval_escalated''} \<and> state \<noteq> ''draft''
         then Some (''case no longer pending intake ('' @ state @ '')'')
         else if event = ''cp.approval_requested'' then
           (case expected_state (py_str E (jget_or (n_payload job) ''checkpoint'' (JStr ''''))) of
              None \<Rightarrow> None
            | Some expected \<Rightarrow>
                if state \<noteq> expected then Some (''checkpoint no longer pending ('' @ state @ '')'') else None)
         else None)"

text \<open>\<open>int(estimated_value)\<close> of an \<open>int | str\<close>, 0 for anything else.\<close>

definition payload_value :: "env \<Rightarrow> jdict \<Rightarrow> int result" where
  "payload_value E payload =
     (let unreadable = Err PyValueError ''invalid literal for int()'' in
      case jget_or payload ''estimated_value_minor'' (JInt 0) of
        JInt i \<Rightarrow> Inr i
      | JBool b \<Rightarrow> Inr (if b then 1 else 0)
      | JStr s \<Rightarrow> (case py_int_of_str s of Some i \<Rightarrow> Inr i | None \<Rightarrow> Inl unreadable)
      | JText k vs \<Rightarrow> (case py_int_of_str (env_text E (JText k vs)) of Some i \<Rightarrow> Inr i | None \<Rightarrow> Inl unreadable)
      | _ \<Rightarrow> Inr 0)"

definition payload_list :: "jdict \<Rightarrow> string \<Rightarrow> json list" where
  "payload_list payload key = (case jget payload key of Some (JArr xs) \<Rightarrow> xs | _ \<Rightarrow> [])"

definition payload_str :: "env \<Rightarrow> jdict \<Rightarrow> string \<Rightarrow> json \<Rightarrow> string" where
  "payload_str E payload key fallback = py_str E (jget_or payload key fallback)"

definition py_rstrip_slash :: "string \<Rightarrow> string" where
  "py_rstrip_slash s = rev (dropWhile (\<lambda>c. c = CHR ''/'') (rev s))"

definition slack_message ::
  "env \<Rightarrow> string \<Rightarrow> IntakeNotificationJob \<Rightarrow> string \<Rightarrow> int \<Rightarrow> SlackApprovalMessage" where
  "slack_message E web_base_url job slack_user estimated_value =
     (let p = n_payload job in
      \<lparr>sm_message_id = n_id job, sm_recipient_slack_user_id = slack_user,
       sm_event_type = notification_type_value (n_event_type job), sm_case_id = n_case_id job,
       sm_case_title = payload_str E p ''title'' (JText ''default_title'' []),
       sm_web_url = py_rstrip_slash web_base_url @ ''/procurement/dw01/cases/'' @ n_case_id job,
       sm_source_pr_ref = payload_str E p ''source_pr_ref'' (JStr ''''),
       sm_owner_name = payload_str E p ''owner_name'' (JStr ''''),
       sm_estimated_value_minor = estimated_value,
       sm_currency = payload_str E p ''currency'' (JStr ''VND''),
       sm_comment = payload_str E p ''comment'' (JStr ''''),
       sm_heading = payload_str E p ''heading'' (JStr ''''),
       sm_lines = map (py_str E) (payload_list p ''lines''),
       sm_buttons = map (\<lambda>b. map (\<lambda>(k, v). (k, py_str E v)) b) (obj_items (payload_list p ''buttons'')),
       sm_checkpoint = payload_str E p ''checkpoint'' (JStr '''')\<rparr>)"

text \<open>
  \<open>notifier.send(SlackApprovalMessage(...))\<close> inside the \<open>try\<close>: building the message may raise too.
\<close>

definition try_send ::
  "env \<Rightarrow> notifier \<Rightarrow> string \<Rightarrow> IntakeNotificationJob \<Rightarrow> string
    \<Rightarrow> ((dw_error \<times> string) + (string \<times> string)) handler" where
  "try_send E notifier web_base_url job slack_user w =
     (case payload_value E (n_payload job) of
        Inl e \<Rightarrow> (Inr (Inl (e, '''')), w)
      | Inr v \<Rightarrow> (Inr (notifier (w_calls w) (slack_message E web_base_url job slack_user v)),
                  w\<lparr>w_calls := Suc (w_calls w)\<rparr>))"

definition deliver ::
  "env \<Rightarrow> (string \<Rightarrow> string option) \<Rightarrow> notifier \<Rightarrow> string \<Rightarrow> IntakeNotificationDelivery \<Rightarrow> unit handler" where
  "deliver E user_map notifier web_base_url d =
     (case stale_reason E d of
        Some why \<Rightarrow> mark_cancelled E d why
      | None \<Rightarrow>
          (case user_map (dl_recipient_subject d) of
             None \<Rightarrow> mark_failed E d (env_text E (JText ''no_member_id'' []))
           | Some u \<Rightarrow>
               if u = '''' then mark_failed E d (env_text E (JText ''no_member_id'' []))
               else act_bind (try_send E notifier web_base_url (dl_job d) u) (\<lambda>answer.
                    case answer of
                      Inl exc \<Rightarrow>
                        (let (error, permanent) = slack_failure E exc
                         in if permanent then mark_failed E d error else mark_retry E d error)
                    | Inr ref \<Rightarrow> mark_sent E d (fst ref) (snd ref))))"

definition consume_one ::
  "env \<Rightarrow> (uuid \<Rightarrow> string option) \<Rightarrow> int \<Rightarrow> (string \<Rightarrow> string option) \<Rightarrow> notifier \<Rightarrow> string \<Rightarrow> unit handler" where
  "consume_one E subject_of stale user_map notifier web_base_url =
     act_bind (claim_next E subject_of stale) (\<lambda>claimed.
     case claimed of None \<Rightarrow> act_ret () | Some d \<Rightarrow> deliver E user_map notifier web_base_url d)"

section \<open>What the operations do to the jobs\<close>

abbreviation jobs_of :: "world \<Rightarrow> IntakeNotificationJob list" where
  "jobs_of w \<equiv> t_jobs (w_committed w)"

definition settled :: "IntakeNotificationJob \<Rightarrow> bool" where
  "settled j = (n_status j \<in> {NJ_SENT, NJ_FAILED, NJ_CANCELLED})"

lemma drain_Inr:
  assumes "drain E body w = (Inr r, w')"
  shows "\<exists>v. body (w\<lparr>w_calls := Suc (w_calls w), w_db := w_committed w\<rparr>) = (Inr r, v) \<and> w' = v\<lparr>w_committed := w_db v\<rparr>"
  using assms by (auto simp: drain_def split: option.splits prod.splits sum.splits)

lemma drain_Inl_modify:
  "drain E (act_modify h) w = (Inl e, w') \<Longrightarrow> w_committed w' = w_committed w"
  by (auto simp: drain_def act_modify_def split: option.splits)

lemma update_job_run:
  assumes "update_job E d f w = (Inr u, w')"
  shows "jobs_of w' = update_where (update_hits d) f (jobs_of w)
    \<and> w_committed w' = (w_committed w)\<lparr>t_jobs := update_where (update_hits d) f (jobs_of w)\<rparr>"
proof -
  from assms obtain v where "drain E (act_modify (\<lambda>w. w\<lparr>w_db := (w_db w)\<lparr>t_jobs :=
      update_where (update_hits d) f (t_jobs (w_db w))\<rparr>\<rparr>)) v = (Inr u, w')" "w_committed v = w_committed w"
    by (auto simp: update_job_def run_bind run_ports)
  from drain_Inr [OF this(1)] this(2) show ?thesis by (auto simp: act_modify_def)
qed

lemma claim_next_run:
  assumes "claim_next E s st w = (Inr r, v)"
  defines "now \<equiv> env_clock E (w_ticks w)"
  defines "cands \<equiv> claim_candidates s now (now - timedelta_seconds st) (w_committed w)"
  shows "w_calls v = Suc (w_calls w) \<and> w_ticks v = Suc (w_ticks w) \<and>
     (cands = [] \<and> r = None \<and> w_committed v = w_committed w
      \<or> (\<exists>j rest d. cands = j # rest \<and> delivery_of s (w_committed w) j = Some d
           \<and> r = Some (d\<lparr>dl_job := j\<lparr>n_attempts := n_attempts j + 1, n_claimed_at := Some now\<rparr>\<rparr>)
           \<and> w_committed v = (w_committed w)\<lparr>t_jobs := update_where (\<lambda>q. n_id q = n_id j)
                (claimed_row now (n_attempts j + 1)) (jobs_of w)\<rparr>))"
proof -
  from assms(1) have "drain E (claim_tx s now (now - timedelta_seconds st)) (w\<lparr>w_ticks := Suc (w_ticks w)\<rparr>) = (Inr r, v)"
    by (auto simp: claim_next_def run_bind run_ports now_def)
  from drain_Inr [OF this] obtain u where u: "claim_tx s now (now - timedelta_seconds st)
      (w\<lparr>w_ticks := Suc (w_ticks w), w_calls := Suc (w_calls w), w_db := w_committed w\<rparr>) = (Inr r, u)"
    "v = u\<lparr>w_committed := w_db u\<rparr>" by auto
  have cands: "j \<in> set cands \<Longrightarrow> delivery_of s (w_committed w) j \<noteq> None" for j
    by (auto simp: cands_def claim_candidates_def)
  show ?thesis
  proof (cases cands)
    case Nil
    then show ?thesis using u by (auto simp: claim_tx_def cands_def)
  next
    case (Cons j rest)
    then obtain d where "delivery_of s (w_committed w) j = Some d" using cands by fastforce
    then show ?thesis using u Cons by (auto simp: claim_tx_def cands_def Let_def)
  qed
qed

text \<open>The candidate taken is claimable, and none is due earlier.\<close>

lemma candidates_Cons:
  assumes "claim_candidates s now before d = j # rest"
  shows "j \<in> set (t_jobs d)" "claimable now before j"
    "\<And>q. q \<in> set (t_jobs d) \<Longrightarrow> claimable now before q \<Longrightarrow> delivery_of s d q \<noteq> None \<Longrightarrow> n_due_at j \<le> n_due_at q"
proof -
  let ?f = "filter (\<lambda>j. claimable now before j \<and> delivery_of s d j \<noteq> None) (t_jobs d)"
  have eq: "sort_key n_due_at ?f = j # rest" using assms by (simp add: claim_candidates_def)
  then have set: "set ?f = insert j (set rest)" by (metis set_sort list.simps(15))
  then have "j \<in> set ?f" by blast
  then show "j \<in> set (t_jobs d)" "claimable now before j" by auto
  fix q
  assume "q \<in> set (t_jobs d)" "claimable now before q" "delivery_of s d q \<noteq> None"
  then have "q \<in> set ?f" by simp
  moreover have "sorted (map n_due_at (j # rest))" using sorted_sort_key [of n_due_at ?f] unfolding eq .
  ultimately show "n_due_at j \<le> n_due_at q" using set by auto
qed

section \<open>The abstract specification of a delivery\<close>

datatype verdict = V_cancel | V_fail | V_retry | V_sent string string

definition delivery_verdict ::
  "env \<Rightarrow> (string \<Rightarrow> string option) \<Rightarrow> notifier \<Rightarrow> string \<Rightarrow> nat \<Rightarrow> IntakeNotificationDelivery \<Rightarrow> verdict" where
  "delivery_verdict E user_map notifier web k d =
     (if stale_reason E d \<noteq> None then V_cancel
      else if user_map (dl_recipient_subject d) = None \<or> user_map (dl_recipient_subject d) = Some '''' then V_fail
      else case payload_value E (n_payload (dl_job d)) of
             Inl _ \<Rightarrow> V_retry
           | Inr v \<Rightarrow>
               (case notifier k (slack_message E web (dl_job d) (the (user_map (dl_recipient_subject d))) v) of
                  Inl exc \<Rightarrow> (if is_dw_error (err_class (fst exc)) \<and> snd exc \<in> set PERMANENT_SLACK_ERRORS
                             then V_fail else V_retry)
                | Inr ref \<Rightarrow> V_sent (fst ref) (snd ref)))"

text \<open>What a verdict makes of a job whose attempt has just been counted.\<close>

definition settles :: "datetime \<Rightarrow> verdict \<Rightarrow> IntakeNotificationJob \<Rightarrow> IntakeNotificationJob \<Rightarrow> bool" where
  "settles now v j j' =
     (n_id j' = n_id j \<and> n_attempts j' = n_attempts j \<and> n_max_attempts j' = n_max_attempts j
      \<and> n_payload j' = n_payload j
      \<and> (case v of
           V_cancel \<Rightarrow> n_status j' = NJ_CANCELLED
         | V_fail \<Rightarrow> n_status j' = NJ_FAILED
         | V_retry \<Rightarrow> (if n_max_attempts j \<le> n_attempts j then n_status j' = NJ_FAILED
                      else n_status j' = NJ_QUEUED
                        \<and> n_due_at j' = now + timedelta_seconds (retry_delay (n_attempts j)))
         | V_sent channel ts \<Rightarrow> n_status j' = NJ_SENT \<and> n_slack_channel_id j' = Some channel
             \<and> n_slack_message_ts j' = Some ts \<and> n_sent_at j' = Some now))"

lemma permanent_nonempty: "code \<in> set PERMANENT_SLACK_ERRORS \<Longrightarrow> code \<noteq> ''''"
  by (auto simp: PERMANENT_SLACK_ERRORS_def)

lemma slack_failure_permanent:
  "snd (slack_failure E exc) \<longleftrightarrow> is_dw_error (err_class (fst exc)) \<and> snd exc \<in> set PERMANENT_SLACK_ERRORS"
  using permanent_nonempty by (auto simp: slack_failure_def Let_def)

definition applies :: "datetime \<Rightarrow> verdict \<Rightarrow> IntakeNotificationDelivery \<Rightarrow> db \<Rightarrow> db \<Rightarrow> bool" where
  "applies now k d before after =
     (\<exists>g. after = before\<lparr>t_jobs := update_where (update_hits d) g (t_jobs before)\<rparr>
        \<and> (\<forall>r. n_attempts r = n_attempts (dl_job d) \<longrightarrow> n_max_attempts r = n_max_attempts (dl_job d)
             \<longrightarrow> settles now k r (g r)))"

lemma update_job_applies:
  assumes "update_job E d f w = (Inr u, w')"
    "\<And>r. n_attempts r = n_attempts (dl_job d) \<Longrightarrow> n_max_attempts r = n_max_attempts (dl_job d) \<Longrightarrow> settles now k r (f r)"
  shows "applies now k d (w_committed w) (w_committed w')"
  using update_job_run [OF assms(1)] assms(2) by (auto simp: applies_def)

lemma marks_apply:
  "mark_cancelled E d m w = (Inr u, w') \<Longrightarrow> applies (env_clock E (w_ticks w)) V_cancel d (w_committed w) (w_committed w')"
  "mark_failed E d m w = (Inr u, w') \<Longrightarrow> applies (env_clock E (w_ticks w)) V_fail d (w_committed w) (w_committed w')"
  "mark_sent E d ch ts w = (Inr u, w') \<Longrightarrow> applies (env_clock E (w_ticks w)) (V_sent ch ts) d (w_committed w) (w_committed w')"
proof -
  assume "mark_sent E d ch ts w = (Inr u, w')"
  then have "update_job E d (\<lambda>r. r\<lparr>n_status := NJ_SENT, n_slack_channel_id := Some ch,
       n_slack_message_ts := Some ts, n_sent_at := Some (env_clock E (w_ticks w)), n_last_error := None\<rparr>)
       (w\<lparr>w_ticks := Suc (w_ticks w)\<rparr>) = (Inr u, w')"
    by (auto simp: mark_sent_def run_bind run_ports)
  from update_job_applies [OF this] show "applies (env_clock E (w_ticks w)) (V_sent ch ts) d (w_committed w) (w_committed w')"
    by (simp add: settles_def)
qed (auto simp: mark_cancelled_def mark_failed_def settles_def dest!: update_job_applies)

lemma mark_retry_applies:
  assumes "mark_retry E d m w = (Inr u, w')"
  shows "applies (env_clock E (w_ticks w)) V_retry d (w_committed w) (w_committed w')"
proof (cases "n_max_attempts (dl_job d) \<le> n_attempts (dl_job d)")
  case True
  then have "update_job E d (\<lambda>r. r\<lparr>n_status := NJ_FAILED, n_last_error := Some (take 2000 m)\<rparr>) w = (Inr u, w')"
    using assms by (simp add: mark_retry_def Let_def)
  from update_job_applies [OF this] show ?thesis using True by (simp add: settles_def)
next
  case False
  then have "update_job E d (\<lambda>r. r\<lparr>n_status := NJ_QUEUED,
             n_due_at := env_clock E (w_ticks w) + timedelta_seconds (retry_delay (n_attempts (dl_job d))),
             n_claimed_at := None, n_last_error := Some (take 2000 m)\<rparr>) (w\<lparr>w_ticks := Suc (w_ticks w)\<rparr>) = (Inr u, w')"
    using assms by (auto simp: mark_retry_def Let_def run_bind run_ports)
  from update_job_applies [OF this, of "env_clock E (w_ticks w)" V_retry] show ?thesis using False by (auto simp: settles_def)
qed

lemma try_send_Inr:
  "try_send E nt web j s w = (Inr a, w') \<Longrightarrow> w_committed w' = w_committed w \<and> w_ticks w' = w_ticks w
     \<and> a = (case payload_value E (n_payload j) of Inl e \<Rightarrow> Inl (e, '''')
            | Inr v \<Rightarrow> nt (w_calls w) (slack_message E web j s v))"
  by (auto simp: try_send_def split: sum.splits)

lemma deliver_run:
  assumes "deliver E um nt web d w = (Inr u, w')"
  shows "applies (env_clock E (w_ticks w)) (delivery_verdict E um nt web (w_calls w) d) d (w_committed w) (w_committed w')"
proof (cases "stale_reason E d")
  case (Some why)
  then show ?thesis using assms by (auto simp: deliver_def delivery_verdict_def intro: marks_apply)
next
  case fresh: None
  show ?thesis
  proof (cases "um (dl_recipient_subject d) = None \<or> um (dl_recipient_subject d) = Some ''''")
    case True
    then show ?thesis using assms fresh
      by (auto simp: deliver_def delivery_verdict_def intro: marks_apply)
  next
    case False
    then obtain s where s: "um (dl_recipient_subject d) = Some s" "s \<noteq> ''''" by auto
    with assms fresh obtain a v where a: "try_send E nt web (dl_job d) s w = (Inr a, v)"
      and rest: "(case a of Inl exc \<Rightarrow> (case slack_failure E exc of (error, permanent) \<Rightarrow>
                         if permanent then mark_failed E d error else mark_retry E d error)
                    | Inr ref \<Rightarrow> mark_sent E d (fst ref) (snd ref)) v = (Inr u, w')"
      unfolding deliver_def by (auto simp: run_bind)
    note send = try_send_Inr [OF a]
    show ?thesis
    proof (cases a)
      case (Inr ref)
      then have "applies (env_clock E (w_ticks w)) (V_sent (fst ref) (snd ref)) d (w_committed w) (w_committed w')"
        using rest send marks_apply(3) [of E d "fst ref" "snd ref" v u w'] by simp
      moreover have "delivery_verdict E um nt web (w_calls w) d = V_sent (fst ref) (snd ref)"
        using Inr send s fresh by (auto simp: delivery_verdict_def split: sum.splits)
      ultimately show ?thesis by simp
    next
      case (Inl exc)
      have vd: "delivery_verdict E um nt web (w_calls w) d = (if snd (slack_failure E exc) then V_fail else V_retry)"
        using Inl send s fresh
        by (auto simp: delivery_verdict_def slack_failure_permanent permanent_nonempty
            dest: permanent_nonempty split: sum.splits)
      have "(if snd (slack_failure E exc) then mark_failed E d (fst (slack_failure E exc))
          else mark_retry E d (fst (slack_failure E exc))) v = (Inr u, w')"
        using rest Inl by (simp add: case_prod_beta)
      then show ?thesis using send vd
        by (auto dest!: marks_apply mark_retry_applies split: if_splits)
    qed
  qed
qed

text \<open>The job a poll takes, with its attempt counted, as the delivery sees it.\<close>

definition counted :: "datetime \<Rightarrow> IntakeNotificationJob \<Rightarrow> IntakeNotificationJob" where
  "counted now j = j\<lparr>n_attempts := n_attempts j + 1, n_claimed_at := Some now\<rparr>"

lemma map_update_unique:
  assumes "distinct (map n_id js)" "j \<in> set js" "n_id (h j) = n_id j" "n_status (h j) = NJ_PROCESSING"
  shows "update_where (\<lambda>r. n_id r = n_id j \<and> n_status r = NJ_PROCESSING) g (update_where (\<lambda>r. n_id r = n_id j) h js)
    = map (\<lambda>q. if q = j then g (h j) else q) js"
proof -
  have "q = j" if "q \<in> set js" "n_id q = n_id j" for q
    using assms(1,2) that by (auto simp: distinct_map inj_on_def)
  then show ?thesis using assms(3,4) by (auto simp: update_where_def)
qed

text \<open>One poll of the queue, in the terms of the specification.\<close>

definition poll_outcome ::
  "env \<Rightarrow> (uuid \<Rightarrow> string option) \<Rightarrow> int \<Rightarrow> (string \<Rightarrow> string option) \<Rightarrow> notifier \<Rightarrow> string \<Rightarrow> world \<Rightarrow> db \<Rightarrow> bool" where
  "poll_outcome E s st um nt web w after =
     (let now = env_clock E (w_ticks w); before = now - timedelta_seconds st; d0 = w_committed w;
          cand = (\<lambda>q. claimable now before q \<and> delivery_of s d0 q \<noteq> None)
      in filter cand (t_jobs d0) = [] \<and> after = d0
         \<or> (\<exists>j j' d. j \<in> set (filter cand (t_jobs d0)) \<and> list_all (\<lambda>q. n_due_at j \<le> n_due_at q) (filter cand (t_jobs d0))
              \<and> delivery_of s d0 j = Some d
              \<and> settles (env_clock E (Suc (w_ticks w))) (delivery_verdict E um nt web (Suc (w_calls w)) (d\<lparr>dl_job := counted now j\<rparr>)) (counted now j) j'
              \<and> after = d0\<lparr>t_jobs := map (\<lambda>q. if q = j then j' else q) (t_jobs d0)\<rparr>))"

lemma settles_same:
  "settles now k i j' \<Longrightarrow> n_id i = n_id j \<Longrightarrow> n_attempts i = n_attempts j \<Longrightarrow> n_max_attempts i = n_max_attempts j
    \<Longrightarrow> n_payload i = n_payload j \<Longrightarrow> settles now k j j'"
  by (cases k) (simp_all add: settles_def)

lemma sort_key_empty: "sort_key f xs = [] \<longleftrightarrow> xs = []"
  by (metis length_0_conv length_sort)

lemma consume_one_outcome:
  assumes "consume_one E s st um nt web w = (Inr u, w')" "distinct (map n_id (jobs_of w))"
  shows "poll_outcome E s st um nt web w (w_committed w')"
proof -
  let ?now = "env_clock E (w_ticks w)"
  let ?before = "?now - timedelta_seconds st"
  let ?cand = "\<lambda>q. claimable ?now ?before q \<and> delivery_of s (w_committed w) q \<noteq> None"
  from assms(1) obtain r v where claim: "claim_next E s st w = (Inr r, v)"
    and rest: "(case r of None \<Rightarrow> act_ret () | Some d \<Rightarrow> deliver E um nt web d) v = (Inr u, w')"
    unfolding consume_one_def run_bind by blast
  from claim_next_run [OF claim] have calls: "w_calls v = Suc (w_calls w)" "w_ticks v = Suc (w_ticks w)" by simp_all
  show ?thesis
  proof (cases "claim_candidates s ?now ?before (w_committed w)")
    case Nil
    then have "filter ?cand (jobs_of w) = []"
      unfolding claim_candidates_def by (simp only: sort_key_empty)
    moreover have "r = None" "w_committed v = w_committed w"
      using claim_next_run [OF claim] Nil by auto
    ultimately show ?thesis using rest by (auto simp: poll_outcome_def Let_def run_basic)
  next
    case (Cons j js)
    note c = candidates_Cons [OF Cons]
    from claim_next_run [OF claim] Cons obtain d where d: "delivery_of s (w_committed w) j = Some d"
      "r = Some (d\<lparr>dl_job := counted ?now j\<rparr>)"
      "w_committed v = (w_committed w)\<lparr>t_jobs := update_where (\<lambda>q. n_id q = n_id j) (claimed_row ?now (n_attempts j + 1)) (jobs_of w)\<rparr>"
      by (auto simp: counted_def)
    let ?d = "d\<lparr>dl_job := counted ?now j\<rparr>"
    let ?k = "delivery_verdict E um nt web (w_calls v) ?d"
    have "applies (env_clock E (w_ticks v)) ?k ?d (w_committed v) (w_committed w')"
      using rest d(2) deliver_run [of E um nt web ?d v u w'] by simp
    then obtain g where g: "w_committed w' = (w_committed v)\<lparr>t_jobs := update_where (update_hits ?d) g (jobs_of v)\<rparr>"
      "\<And>q. n_attempts q = n_attempts j + 1 \<Longrightarrow> n_max_attempts q = n_max_attempts j \<Longrightarrow> settles (env_clock E (w_ticks v)) ?k q (g q)"
      by (auto simp: applies_def counted_def)
    let ?row = "claimed_row ?now (n_attempts j + 1) j"
    have hits: "update_hits ?d = (\<lambda>q. n_id q = n_id j \<and> n_status q = NJ_PROCESSING)"
      by (rule ext) (simp add: update_hits_def counted_def)
    have "settles (env_clock E (w_ticks v)) ?k ?row (g ?row)" by (rule g(2)) (simp_all add: claimed_row_def)
    then have "settles (env_clock E (w_ticks v)) ?k (counted ?now j) (g ?row)"
      by (rule settles_same) (simp_all add: counted_def claimed_row_def)
    moreover have "w_committed w' = (w_committed w)\<lparr>t_jobs := map (\<lambda>q. if q = j then g ?row else q) (jobs_of w)\<rparr>"
      using g(1) d(3) hits map_update_unique [OF assms(2) c(1), of "claimed_row ?now (n_attempts j + 1)" g]
      by (simp add: claimed_row_def)
    moreover have "j \<in> set (filter ?cand (jobs_of w))" using c(1,2) d(1) by simp
    moreover have "list_all (\<lambda>q. n_due_at j \<le> n_due_at q) (filter ?cand (jobs_of w))"
      using c(3) by (simp add: list_all_iff)
    ultimately show ?thesis using d(1) unfolding poll_outcome_def Let_def calls by blast
  qed
qed

section \<open>Termination of the deliveries\<close>

text \<open>How many more polls a job can cost.\<close>

definition job_fuel :: "IntakeNotificationJob \<Rightarrow> nat" where
  "job_fuel j = (if settled j then 0 else Suc (nat (n_max_attempts j - n_attempts j)))"

definition pending_work :: "db \<Rightarrow> nat" where
  "pending_work d = sum_list (map job_fuel (t_jobs d))"

lemma sum_list_replace:
  fixes f :: "'a \<Rightarrow> nat"
  shows "j \<in> set xs \<Longrightarrow> f j' < f j \<Longrightarrow> sum_list (map f (map (\<lambda>q. if q = j then j' else q) xs)) < sum_list (map f xs)"
proof (induction xs)
  case (Cons a xs)
  have le: "sum_list (map f (map (\<lambda>q. if q = j then j' else q) xs)) \<le> sum_list (map f xs)"
    using Cons.prems(2) by (induction xs) auto
  show ?case
  proof (cases "a = j")
    case True
    then show ?thesis using Cons.prems(2) le by simp
  next
    case False
    then show ?thesis using Cons by auto
  qed
qed simp

lemma settles_progress:
  assumes "settles t k (counted now j) j'" "claimable now before j"
  shows "job_fuel j' < job_fuel j"
proof -
  have "\<not> settled j" using assms(2) by (auto simp: claimable_def settled_def)
  moreover have "settled j' \<or> n_attempts j' = n_attempts j + 1 \<and> n_max_attempts j' = n_max_attempts j
      \<and> n_attempts j + 1 < n_max_attempts j"
    using assms(1) by (cases k) (auto simp: settles_def settled_def counted_def split: if_splits)
  ultimately show ?thesis by (auto simp: job_fuel_def)
qed

lemma poll_progress:
  assumes "consume_one E s st um nt web w = (Inr u, w')" "distinct (map n_id (jobs_of w))"
  shows "claim_candidates s (env_clock E (w_ticks w)) (env_clock E (w_ticks w) - timedelta_seconds st) (w_committed w) = []
      \<or> pending_work (w_committed w') < pending_work (w_committed w)"
    and "map n_id (jobs_of w') = map n_id (jobs_of w)"
proof -
  let ?now = "env_clock E (w_ticks w)"
  let ?before = "?now - timedelta_seconds st"
  let ?cand = "\<lambda>q. claimable ?now ?before q \<and> delivery_of s (w_committed w) q \<noteq> None"
  from consume_one_outcome [OF assms, unfolded poll_outcome_def Let_def]
  consider "filter ?cand (jobs_of w) = []" "w_committed w' = w_committed w"
    | j j' k t where "j \<in> set (jobs_of w)" "claimable ?now ?before j" "settles t k (counted ?now j) j'"
      "jobs_of w' = map (\<lambda>q. if q = j then j' else q) (jobs_of w)"
    by fastforce
  then have "(claim_candidates s ?now ?before (w_committed w) = []
      \<or> pending_work (w_committed w') < pending_work (w_committed w)) \<and> map n_id (jobs_of w') = map n_id (jobs_of w)"
  proof cases
    case 1
    then show ?thesis by (simp add: claim_candidates_def)
  next
    case 2
    have "n_id j' = n_id j" using 2(3) by (simp add: settles_def counted_def)
    moreover have "pending_work (w_committed w') < pending_work (w_committed w)"
      unfolding pending_work_def 2(4) using sum_list_replace [OF 2(1), of job_fuel j'] settles_progress [OF 2(3,2)] by blast
    ultimately show ?thesis by (simp add: 2(4))
  qed
  then show "claim_candidates s ?now ?before (w_committed w) = []
      \<or> pending_work (w_committed w') < pending_work (w_committed w)" "map n_id (jobs_of w') = map n_id (jobs_of w)"
    by auto
qed

fun polls :: "nat \<Rightarrow> unit handler \<Rightarrow> unit handler" where
  "polls 0 m = act_ret ()"
| "polls (Suc n) m = act_bind m (\<lambda>_. polls n m)"

text \<open>C22: What a poll does. It either finds no job that is due, addressed to a known user and about an
  existing case, and changes nothing; or it takes one with the earliest due time, counts the attempt, and
  leaves that job alone changed, as the specification of a delivery says: cancelled when its card is stale
  (and then whatever the messenger would have answered), failed without a recipient or on a permanent refusal,
  sent with the messenger's reference, and otherwise queued again after the back-off or failed when its
  attempts are used up.\<close>

theorem consume_one_refines:
  assumes "consume_one E subject_of stale user_map notifier web w = (Inr u, w')"
    "distinct (map n_id (t_jobs (w_committed w)))"
  shows "poll_outcome E subject_of stale user_map notifier web w (w_committed w')"
  using assms by (rule consume_one_outcome)

text \<open>C23: Retrying ends. However the messenger answers, among the first \<open>pending_work + 1\<close> polls of a
  queue (one more than the attempts left over all unsettled jobs, plus one for each) there is one that finds
  nothing to deliver.\<close>

theorem deliveries_terminate:
  assumes "polls n (consume_one E subject_of stale user_map notifier web) w = (Inr (), w')"
    "distinct (map n_id (t_jobs (w_committed w)))" "pending_work (w_committed w) < n"
  shows "\<exists>k v. k < n \<and> polls k (consume_one E subject_of stale user_map notifier web) w = (Inr (), v)
     \<and> claim_candidates subject_of (env_clock E (w_ticks v)) (env_clock E (w_ticks v) - timedelta_seconds stale)
         (w_committed v) = []"
  using assms
proof (induction n arbitrary: w)
  case (Suc n)
  let ?m = "consume_one E subject_of stale user_map notifier web"
  from Suc.prems(1) obtain u where u: "?m w = (Inr (), u)" "polls n ?m u = (Inr (), w')"
    by (auto simp: run_bind)
  note pr = poll_progress [OF u(1) Suc.prems(2)]
  show ?case
  proof (cases "claim_candidates subject_of (env_clock E (w_ticks w)) (env_clock E (w_ticks w) - timedelta_seconds stale) (w_committed w) = []")
    case True
    then show ?thesis by (intro exI [of _ 0] exI [of _ w]) (simp add: run_basic)
  next
    case False
    then have "pending_work (w_committed u) < n" "distinct (map n_id (jobs_of u))"
      using pr Suc.prems(2,3) by auto
    from Suc.IH [OF u(2) this(2,1)] obtain k v where "k < n" "polls k ?m u = (Inr (), v)"
      "claim_candidates subject_of (env_clock E (w_ticks v)) (env_clock E (w_ticks v) - timedelta_seconds stale) (w_committed v) = []"
      by blast
    then show ?thesis using u(1) by (intro exI [of _ "Suc k"] exI [of _ v]) (auto simp: run_bind)
  qed
qed simp

section \<open>The queue under any interleaving\<close>

text \<open>
  Any number of workers, each holding deliveries it claimed some time ago, and handlers that enqueue:
  every statement is a transaction of its own, so an execution is a sequence of them, failed ones included.
\<close>

inductive queue_step :: "env \<Rightarrow> (uuid \<Rightarrow> string option) \<Rightarrow> world \<Rightarrow> world \<Rightarrow> bool" for E s where
  q_claim: "claim_next E s st w = (r, w') \<Longrightarrow> queue_step E s w w'"
| q_sent: "mark_sent E d ch ts w = (r', w') \<Longrightarrow> queue_step E s w w'"
| q_cancelled: "mark_cancelled E d m w = (r', w') \<Longrightarrow> queue_step E s w w'"
| q_failed: "mark_failed E d m w = (r', w') \<Longrightarrow> queue_step E s w w'"
| q_retry: "mark_retry E d m w = (r', w') \<Longrightarrow> queue_step E s w w'"
| q_enqueue: "in_uow E t (act_bind (notifications_enqueue j) (\<lambda>_. commit)) w = (r', w') \<Longrightarrow>
     n_status j = NJ_QUEUED \<Longrightarrow> queue_step E s w w'"

inductive queue_run :: "env \<Rightarrow> (uuid \<Rightarrow> string option) \<Rightarrow> world \<Rightarrow> world \<Rightarrow> bool" for E s where
  qr_start: "queue_run E s w w"
| qr_step: "queue_run E s w w' \<Longrightarrow> queue_step E s w' w'' \<Longrightarrow> queue_run E s w w''"

definition queue_ok :: "db \<Rightarrow> bool" where
  "queue_ok d = (distinct (map n_id (t_jobs d))
     \<and> (\<forall>j \<in> set (t_jobs d). n_status j = NJ_PROCESSING \<longrightarrow> n_claimed_at j \<noteq> None))"

text \<open>What a statement does to the committed jobs, as far as the invariant needs it.\<close>

definition job_change :: "db \<Rightarrow> db \<Rightarrow> bool" where
  "job_change d d' =
     (d' = d
      \<or> (\<exists>h p. t_jobs d' = update_where p h (t_jobs d) \<and> (\<forall>r. n_id (h r) = n_id r)
           \<and> (\<forall>r. n_status (h r) = NJ_PROCESSING \<longrightarrow> n_claimed_at (h r) \<noteq> None)
           \<and> (\<forall>r \<in> set (t_jobs d). settled r \<longrightarrow> \<not> p r))
      \<or> (\<exists>js. t_jobs d' = t_jobs d @ js \<and> distinct (map n_id (t_jobs d @ js))
           \<and> (\<forall>j \<in> set js. n_status j = NJ_QUEUED)))"

lemma update_job_change:
  assumes "update_job E d f w = (r, w')" "\<And>q. n_id (f q) = n_id q"
    "\<And>q. n_status (f q) \<noteq> NJ_PROCESSING"
  shows "job_change (w_committed w) (w_committed w')"
proof (cases r)
  case (Inr u)
  then have "jobs_of w' = update_where (update_hits d) f (jobs_of w)" using assms(1) update_job_run by blast
  then show ?thesis using assms(2,3) unfolding job_change_def
    by (intro disjI2 disjI1 exI [of _ f] exI [of _ "update_hits d"]) (auto simp: update_hits_def settled_def)
next
  case (Inl e)
  then have "w_committed w' = w_committed w"
    using assms(1) by (auto simp: update_job_def act_bind_def clock_now_def dest!: drain_Inl_modify)
  then show ?thesis by (simp add: job_change_def)
qed

lemma claim_change:
  assumes "claim_next E s st w = (r, w')" "queue_ok (w_committed w)"
  shows "job_change (w_committed w) (w_committed w')"
proof (cases r)
  case (Inl e)
  then have "w_committed w' = w_committed w"
    using assms(1) by (auto simp: claim_next_def act_bind_def clock_now_def drain_def claim_tx_def Let_def
        split: option.splits list.splits prod.splits sum.splits)
  then show ?thesis by (simp add: job_change_def)
next
  case (Inr q)
  let ?now = "env_clock E (w_ticks w)"
  from claim_next_run [OF assms(1) [unfolded Inr]] consider "w_committed w' = w_committed w"
    | j js where "claim_candidates s ?now (?now - timedelta_seconds st) (w_committed w) = j # js"
      "jobs_of w' = update_where (\<lambda>q. n_id q = n_id j) (claimed_row ?now (n_attempts j + 1)) (jobs_of w)"
    by auto
  then show ?thesis
  proof cases
    case 1
    then show ?thesis by (simp add: job_change_def)
  next
    case 2
    have "\<not> settled q" if "q \<in> set (jobs_of w)" "n_id q = n_id j" for q
    proof -
      have "q = j" using that candidates_Cons(1) [OF 2(1)] assms(2)
        by (auto simp: queue_ok_def distinct_map inj_on_def)
      then show ?thesis using candidates_Cons(2) [OF 2(1)] by (auto simp: claimable_def settled_def)
    qed
    then show ?thesis using 2(2) unfolding job_change_def
      by (intro disjI2 disjI1 exI [of _ "claimed_row ?now (n_attempts j + 1)"] exI [of _ "\<lambda>q. n_id q = n_id j"])
        (auto simp: claimed_row_def)
  qed
qed

lemma enqueue_change:
  assumes "in_uow E t (act_bind (notifications_enqueue j) (\<lambda>_. commit)) w = (r, w')" "n_status j = NJ_QUEUED"
    "queue_ok (w_committed w)"
  shows "job_change (w_committed w) (w_committed w')"
proof (cases r)
  case (Inl e)
  have "atomic (in_uow E t (act_bind (notifications_enqueue j) (\<lambda>_. commit)))" by (intro atomic_rules)
  then have "w_committed w' = w_committed w" using assms(1) Inl by (simp add: atomic_def)
  then show ?thesis by (simp add: job_change_def)
next
  case (Inr u)
  then obtain v where v: "notifications_enqueue j (session_start t w) = (Inr (), v)" "w_committed w' = w_db v"
    using assms(1) by (auto simp: run_in_uow run_bind run_ports)
  then have "w_db v = w_committed w \<or> w_db v = (w_committed w)\<lparr>t_jobs := jobs_of w @ [j]\<rparr> \<and> n_id j \<notin> n_id ` set (jobs_of w)"
    by (auto simp: notifications_enqueue_def insert_row_def split: if_splits)
  then show ?thesis
  proof
    assume "w_db v = w_committed w"
    then show ?thesis using v(2) by (simp add: job_change_def)
  next
    assume "w_db v = (w_committed w)\<lparr>t_jobs := jobs_of w @ [j]\<rparr> \<and> n_id j \<notin> n_id ` set (jobs_of w)"
    then show ?thesis using v(2) assms(2,3) unfolding job_change_def queue_ok_def
      by (intro disjI2 exI [of _ "[j]"]) auto
  qed
qed

lemma queue_step_change:
  assumes "queue_step E s w w'" "queue_ok (w_committed w)"
  shows "job_change (w_committed w) (w_committed w')"
  using assms
proof (cases rule: queue_step.cases)
  case (q_sent d ch ts r)
  let ?f = "\<lambda>q. q\<lparr>n_status := NJ_SENT, n_slack_channel_id := Some ch, n_slack_message_ts := Some ts,
      n_sent_at := Some (env_clock E (w_ticks w)), n_last_error := None\<rparr>"
  have "update_job E d ?f (w\<lparr>w_ticks := Suc (w_ticks w)\<rparr>) = (r, w')"
    using q_sent by (simp add: mark_sent_def act_bind_def clock_now_def)
  from update_job_change [OF this] show ?thesis by simp
next
  case (q_retry d m r)
  let ?f = "\<lambda>q. q\<lparr>n_status := NJ_QUEUED,
      n_due_at := env_clock E (w_ticks w) + timedelta_seconds (retry_delay (n_attempts (dl_job d))),
      n_claimed_at := None, n_last_error := Some (take 2000 m)\<rparr>"
  show ?thesis
  proof (cases "n_max_attempts (dl_job d) \<le> n_attempts (dl_job d)")
    case True
    then show ?thesis using q_retry by (auto simp: mark_retry_def dest!: update_job_change)
  next
    case False
    then have "update_job E d ?f (w\<lparr>w_ticks := Suc (w_ticks w)\<rparr>) = (r, w')"
      using q_retry by (simp add: mark_retry_def act_bind_def clock_now_def Let_def)
    from update_job_change [OF this] show ?thesis by simp
  qed
qed (auto simp: mark_cancelled_def mark_failed_def intro: claim_change enqueue_change dest!: update_job_change)

lemma job_change_ok: "job_change d d' \<Longrightarrow> queue_ok d \<Longrightarrow> queue_ok d'"
  unfolding job_change_def queue_ok_def
  by (elim disjE exE conjE) (auto simp: map_update_where, auto simp: update_where_def)

lemma job_change_settled: "job_change d d' \<Longrightarrow> j \<in> set (t_jobs d) \<Longrightarrow> settled j \<Longrightarrow> j \<in> set (t_jobs d')"
  by (force simp: job_change_def update_where_def)

lemma queue_run_inv:
  "queue_run E s w w' \<Longrightarrow> queue_ok (w_committed w) \<Longrightarrow> queue_ok (w_committed w')
     \<and> (\<forall>j \<in> set (jobs_of w). settled j \<longrightarrow> j \<in> set (jobs_of w'))"
  by (induction rule: queue_run.induct) (auto dest: queue_step_change job_change_ok job_change_settled)

text \<open>C12: Under any interleaving of workers and handlers, what has been settled stays exactly as it was:
  a sent, failed or cancelled job is never claimed, changed or sent again. And no other job is ever stuck:
  whatever crashed, from some moment on every poll may claim it.\<close>

theorem queue_safe_and_live:
  assumes "queue_run E subject_of w w'" "queue_ok (w_committed w)"
  shows "(\<forall>j \<in> set (t_jobs (w_committed w)). settled j \<longrightarrow> j \<in> set (t_jobs (w_committed w')))
     \<and> (\<forall>j \<in> set (t_jobs (w_committed w')). settled j \<or>
          (\<exists>t. \<forall>now \<ge> t. claimable now (now - timedelta_seconds stale) j))"
proof -
  note inv = queue_run_inv [OF assms]
  have "\<exists>t. \<forall>now \<ge> t. claimable now (now - timedelta_seconds stale) j"
    if j: "j \<in> set (jobs_of w')" "\<not> settled j" for j
  proof (cases "n_status j = NJ_QUEUED")
    case True
    then show ?thesis by (auto simp: claimable_def intro!: exI [of _ "n_due_at j"])
  next
    case False
    then have "n_status j = NJ_PROCESSING" using j(2) by (cases "n_status j") (auto simp: settled_def)
    then obtain t where "n_claimed_at j = Some t" using inv j(1) by (auto simp: queue_ok_def)
    then show ?thesis using \<open>n_status j = NJ_PROCESSING\<close>
      by (auto simp: claimable_def intro!: exI [of _ "max (n_due_at j) (t + timedelta_seconds stale + 1)"])
  qed
  then show ?thesis using inv by blast
qed

section \<open>Closed runs\<close>

definition demo_job :: "uuid \<Rightarrow> NotificationJobStatus \<Rightarrow> int \<Rightarrow> IntakeNotificationJob" where
  "demo_job i s n = (new_job i ''t1'' ''w1'' ''c1'' NT_RUN_PROGRESS ''u1'' 0 i [])\<lparr>n_status := s, n_attempts := n\<rparr>"

definition queue_db :: db where
  "queue_db = (case_db CS_ANALYZING)\<lparr>t_jobs := [demo_job ''j1'' NJ_SENT 1, demo_job ''j2'' NJ_QUEUED 4]\<rparr>"

definition demo_subject :: "uuid \<Rightarrow> string option" where
  "demo_subject u = Some ''an''"

definition demo_users :: "string \<Rightarrow> string option" where
  "demo_users s = Some ''U1''"

definition demo_notifier :: notifier where
  "demo_notifier n m = Inr (''C1'', ''ts1'')"

lemma demo_job_sel [evaluation]:
  "n_id (demo_job i s n) = i" "n_status (demo_job i s n) = s" "n_attempts (demo_job i s n) = n"
  "n_max_attempts (demo_job i s n) = 5" "n_due_at (demo_job i s n) = 0" "n_case_id (demo_job i s n) = ''c1''"
  "n_claimed_at (demo_job i s n) = None" "n_payload (demo_job i s n) = []" "n_event_type (demo_job i s n) = NT_RUN_PROGRESS"
  "t_jobs queue_db = [demo_job ''j1'' NJ_SENT 1, demo_job ''j2'' NJ_QUEUED 4]"
  "t_cases queue_db = [demo_case CS_ANALYZING]"
  by (simp_all add: demo_job_def new_job_def queue_db_def demo_db_sel)

lemmas [evaluation] = demo_subject_def demo_users_def demo_notifier_def claimable_def delivery_of_def

lemmas queue_evaluation = evaluation consume_one_def claim_next_def drain_def claim_tx_def claim_candidates_def
  deliver_def stale_reason_def try_send_def payload_value_def mark_sent_def update_job_def act_modify_def
  update_hits_def claimed_row_def timedelta_days_def usec_per_day_def timedelta_seconds_def jget_or_def

theorem consume_one_refines_witness:
  "\<exists>w'. consume_one demo_env demo_subject 120 demo_users demo_notifier ''http://x/'' (start_world queue_db) = (Inr (), w')
    \<and> poll_outcome demo_env demo_subject 120 demo_users demo_notifier ''http://x/'' (start_world queue_db) (w_committed w')"
proof -
  let ?run = "consume_one demo_env demo_subject 120 demo_users demo_notifier ''http://x/'' (start_world queue_db)"
  have "ran_ok ?run" by (simp add: queue_evaluation cong: act_bind_weak)
  from ran_ok_elim [OF this] obtain w' where run: "?run = (Inr (), w')" by fastforce
  show ?thesis using consume_one_refines [OF run] run by (simp add: evaluation)
qed

theorem deliveries_terminate_witness:
  "\<exists>k v. k < (3 :: nat) \<and> polls k (consume_one demo_env demo_subject 120 demo_users demo_notifier ''http://x/'') (start_world queue_db) = (Inr (), v)
     \<and> claim_candidates demo_subject (env_clock demo_env (w_ticks v)) (env_clock demo_env (w_ticks v) - timedelta_seconds 120)
         (w_committed v) = []"
proof -
  let ?m = "consume_one demo_env demo_subject 120 demo_users demo_notifier ''http://x/''"
  have "ran_ok (polls 3 ?m (start_world queue_db))"
    by (simp add: queue_evaluation numeral_3_eq_3 cong: act_bind_weak)
  from ran_ok_elim [OF this] obtain w' where run: "polls 3 ?m (start_world queue_db) = (Inr (), w')" by fastforce
  show ?thesis
    by (rule deliveries_terminate [OF run]) (simp_all add: evaluation pending_work_def job_fuel_def settled_def)
qed

theorem queue_safe_and_live_witness:
  "\<exists>w'. queue_run demo_env demo_subject (start_world queue_db) w' \<and> demo_job ''j1'' NJ_SENT 1 \<in> set (t_jobs (w_committed w'))"
proof -
  obtain r w' where "claim_next demo_env demo_subject 120 (start_world queue_db) = (r, w')" by fastforce
  then have run: "queue_run demo_env demo_subject (start_world queue_db) w'"
    by (intro qr_step [OF qr_start] q_claim)
  have "queue_ok queue_db" by (simp add: queue_ok_def evaluation)
  with queue_safe_and_live [OF run, of 120] run show ?thesis
    by (auto simp: evaluation settled_def)
qed

end
