(* ===== verification/DW_Observability.thy ===== *)
theory DW_Observability
  imports DW_Prelude
begin

text \<open>
  \<open>dw_observability/redaction.py\<close>: what is removed from a payload before it reaches a log, a trace
  or the audit trail. The two regular expressions are written out as scanners.
\<close>

section \<open>Sensitive keys\<close>

definition REDACTED :: string where
  "REDACTED = ''[REDACTED]''"

definition ascii_lower :: "char \<Rightarrow> char" where
  "ascii_lower c = (let n = (of_char c :: int)
     in if 65 \<le> n \<and> n \<le> 90 then char_of (n + 32) else c)"

text \<open>The alternatives of the pattern, the optional separator written out.\<close>

definition SENSITIVE_WORDS :: "string list" where
  "SENSITIVE_WORDS = [''password'', ''passwd'', ''secret'', ''token'',
     ''apikey'', ''api_key'', ''api-key'', ''authorization'', ''credential'',
     ''privatekey'', ''private_key'', ''private-key'',
     ''clientsecret'', ''client_secret'', ''client-secret'',
     ''accesskey'', ''access_key'', ''access-key'', ''session'']"

text \<open>A word followed by an underscore or the end (\<open>$\<close> also matches before a final line feed).\<close>

definition word_here :: "string \<Rightarrow> string \<Rightarrow> bool" where
  "word_here u s =
     (map ascii_lower (take (length u) s) = u
      \<and> (case drop (length u) s of
            [] \<Rightarrow> True
          | c # cs \<Rightarrow> c = CHR ''_'' \<or> c = CHR 0x0A \<and> cs = []))"

text \<open>\<open>search\<close>: the flag says that the position is the start or follows an underscore.\<close>

fun sensitive_from :: "bool \<Rightarrow> string \<Rightarrow> bool" where
  "sensitive_from b [] = False"
| "sensitive_from b (c # cs) =
     (b \<and> list_ex (\<lambda>u. word_here u (c # cs)) SENSITIVE_WORDS \<or> sensitive_from (c = CHR ''_'') cs)"

definition is_sensitive_key :: "string \<Rightarrow> bool" where
  "is_sensitive_key k = sensitive_from True k"

section \<open>Credentials in free text\<close>

text \<open>\<open>\w\<close> on the code points below 256.\<close>

definition re_word_char :: "char \<Rightarrow> bool" where
  "re_word_char c = (let n = (of_char c :: int)
     in 48 \<le> n \<and> n \<le> 57 \<or> 65 \<le> n \<and> n \<le> 90 \<or> 97 \<le> n \<and> n \<le> 122 \<or> n = 95
        \<or> n \<in> {170, 178, 179, 181, 185, 186, 188, 189, 190}
        \<or> 192 \<le> n \<and> n \<le> 255 \<and> n \<noteq> 215 \<and> n \<noteq> 247)"

definition token_char :: "char \<Rightarrow> bool" where
  "token_char c = (let n = (of_char c :: int)
     in 48 \<le> n \<and> n \<le> 57 \<or> 65 \<le> n \<and> n \<le> 90 \<or> 97 \<le> n \<and> n \<le> 122
        \<or> c \<in> {CHR ''.'', CHR ''_'', CHR ''~'', CHR ''+'', CHR ''/'', CHR ''='', CHR ''-''})"

text \<open>
  A match of the bearer pattern at this position, given whether the previous character is a word
  character: what follows it and whether its own last character is one.
\<close>

definition bearer_here :: "bool \<Rightarrow> string \<Rightarrow> (bool \<times> string) option" where
  "bearer_here after_word s =
     (let rest = drop 6 s; tail = dropWhile py_isspace rest; credential = takeWhile token_char tail
      in if \<not> after_word \<and> map ascii_lower (take 6 s) = ''bearer''
            \<and> takeWhile py_isspace rest \<noteq> [] \<and> 8 \<le> length credential
         then Some (re_word_char (last credential), dropWhile token_char tail) else None)"

lemma bearer_here_shorter: "bearer_here b s = Some (b', rest) \<Longrightarrow> length rest < length s"
proof -
  assume m: "bearer_here b s = Some (b', rest)"
  then have "map ascii_lower (take 6 s) = ''bearer''"
    and r: "rest = dropWhile token_char (dropWhile py_isspace (drop 6 s))"
    by (auto simp: bearer_here_def Let_def split: if_splits)
  then have "length (take 6 s) = 6" using arg_cong [of _ "''bearer''" length] by fastforce
  moreover have "length rest \<le> length (drop 6 s)"
    unfolding r by (meson length_dropWhile_le order_trans)
  ultimately show "length rest < length s" by simp
qed

function redact_from :: "bool \<Rightarrow> string \<Rightarrow> string" where
  "redact_from b [] = []"
| "redact_from b (c # cs) =
     (case bearer_here b (c # cs) of
        Some (b', rest) \<Rightarrow> ''Bearer '' @ REDACTED @ redact_from b' rest
      | None \<Rightarrow> c # redact_from (re_word_char c) cs)"
  by pat_completeness auto
termination
  by (relation "measure (\<lambda>(b, s). length s)") (auto dest: bearer_here_shorter)

definition redact_text :: "string \<Rightarrow> string" where
  "redact_text s = redact_from False s"

section \<open>Mappings\<close>

text \<open>
  Only a mapping is entered: a list, whatever it holds, is kept as it is. Prose the code wrote itself
  (\<open>JText\<close>) is left alone too.
\<close>

fun redact_value :: "json \<Rightarrow> json" and redact_mapping :: "jdict \<Rightarrow> jdict" where
  "redact_value (JObj d) = JObj (redact_mapping d)"
| "redact_value (JStr s) = JStr (redact_text s)"
| "redact_value JNull = JNull"
| "redact_value (JBool b) = JBool b"
| "redact_value (JInt i) = JInt i"
| "redact_value (JText k vs) = JText k vs"
| "redact_value (JArr xs) = JArr xs"
| "redact_mapping [] = []"
| "redact_mapping ((k, v) # d) =
     (k, if is_sensitive_key k then JStr REDACTED else redact_value v) # redact_mapping d"

text \<open>What a reader of the payload can reach through mappings alone: the values under a path of keys.\<close>

fun reach :: "string list \<Rightarrow> jdict \<Rightarrow> json set" where
  "reach [] d = {}"
| "reach [k] d = {v. (k, v) \<in> set d}"
| "reach (k # p) d = (\<Union>(k', v) \<in> set d. if k' = k then (case v of JObj d' \<Rightarrow> reach p d' | _ \<Rightarrow> {}) else {})"

section \<open>Lemmas\<close>

lemma redact_keys: "map fst (redact_mapping d) = map fst d"
  by (induction d) auto

lemma in_redacted:
  "(k, v) \<in> set (redact_mapping d) \<longleftrightarrow>
     (\<exists>v0. (k, v0) \<in> set d \<and> v = (if is_sensitive_key k then JStr REDACTED else redact_value v0))"
proof -
  have "redact_mapping d = map (\<lambda>(k, v). (k, if is_sensitive_key k then JStr REDACTED else redact_value v)) d"
    by (induction d) auto
  then show ?thesis by (force simp: image_iff)
qed

lemma redact_value_JObj: "redact_value v = JObj d' \<Longrightarrow> \<exists>d. v = JObj d \<and> d' = redact_mapping d"
  by (cases v) auto

text \<open>What leaves through the redactor. Its output has the keys of its input, and under a path of
  mappings every key that names a secret holds the marker and nothing else, at whatever depth.\<close>

theorem redaction_sound:
  "map fst (redact_mapping d) = map fst d
   \<and> (is_sensitive_key k \<longrightarrow> reach (p @ [k]) (redact_mapping d) \<subseteq> {JStr REDACTED})"
proof (intro conjI impI redact_keys)
  assume k: "is_sensitive_key k"
  show "reach (p @ [k]) (redact_mapping d) \<subseteq> {JStr REDACTED}"
  proof (induction p arbitrary: d)
    case Nil
    then show ?case using k by (auto simp: in_redacted)
  next
    case (Cons a p)
    obtain b q where q: "p @ [k] = b # q" by (cases p) auto
    have "reach (a # b # q) (redact_mapping d) \<subseteq> {JStr REDACTED}"
    proof
      fix x
      assume "x \<in> reach (a # b # q) (redact_mapping d)"
      then obtain d' where "(a, JObj d') \<in> set (redact_mapping d)" "x \<in> reach (b # q) d'"
        by (auto split: json.splits if_splits)
      moreover then obtain d0 where "d' = redact_mapping d0"
        by (auto simp: in_redacted dest!: redact_value_JObj [OF sym] split: if_splits)
      ultimately show "x \<in> {JStr REDACTED}" using Cons.IH [of d0] q by auto
    qed
    then show ?case using q by simp
  qed
qed

theorem redaction_sound_witness:
  "reach [''nested'', ''Api_Key''] (redact_mapping [(''nested'', JObj [(''Api_Key'', JStr ''sk-1''), (''note'', JStr ''ok'')])])
     \<subseteq> {JStr REDACTED}"
proof -
  have "is_sensitive_key ''Api_Key''" by code_simp
  then show ?thesis
    using redaction_sound [of "[(''nested'', JObj [(''Api_Key'', JStr ''sk-1''), (''note'', JStr ''ok'')])]" "''Api_Key''" "[''nested'']"]
    by simp
qed

text \<open>A secret inside a list of mappings is let through, whatever its key.\<close>

lemma redaction_skips_lists:
  "redact_mapping [(''accounts'', JArr [JObj [(''password'', JStr s)]])]
     = [(''accounts'', JArr [JObj [(''password'', JStr s)]])]"
proof -
  have "\<not> is_sensitive_key ''accounts''" by code_simp
  then show ?thesis by simp
qed

end
