(* ===== verification/DW_Runtime.thy ===== *)
theory DW_Runtime
  imports DW_Amend DW_Observability "HOL-Library.List_Lexorder" "HOL-Library.Char_ord"
begin

text \<open>
  \<open>dw_agent_runtime\<close>: the versioned contracts (\<open>contracts.py\<close>), the registries of graphs, workers
  and tools (\<open>registry.py\<close>, \<open>tools.py\<close>), the run store, the workflow runner
  (\<open>adapters/langgraph_runner.py\<close>), the decision of a checkpoint (\<open>approval_flow.py\<close>) and the
  pipeline every tool call goes through (\<open>executor.py\<close>).

  A workflow graph runs on LangGraph, and a tool's handler is bound at startup: both are parameters, a
  computation on the world that may raise.
\<close>

section \<open>Contracts\<close>

text \<open>\<open>^\d+\.\d+\.\d+$\<close>.\<close>

fun split_on :: "char \<Rightarrow> string \<Rightarrow> string list" where
  "split_on c [] = [[]]"
| "split_on c (x # xs) =
     (if x = c then [] # split_on c xs
      else case split_on c xs of [] \<Rightarrow> [[x]] | y # ys \<Rightarrow> (x # y) # ys)"

definition is_semver :: "string \<Rightarrow> bool" where
  "is_semver s =
     (let parts = split_on (CHR ''.'') s
      in length parts = 3 \<and> list_all (\<lambda>p. p \<noteq> [] \<and> list_all is_digit p) parts)"

datatype AutonomyLevel = LEVEL_A0 | LEVEL_A1 | LEVEL_A2 | LEVEL_A3 | LEVEL_A4

datatype SideEffectLevel = SE_NONE | SE_INTERNAL | SE_EXTERNAL | SE_CRITICAL

datatype ApprovalPolicy = POLICY_NEVER | POLICY_CONDITIONAL | POLICY_ALWAYS

datatype WorkerDomain = WD_TENDER | WD_WORK_OPS | WD_PREPARATION

record WorkerDefinition =
  wd_worker_id :: string
  wd_worker_version :: string
  wd_domain :: WorkerDomain
  wd_graph_version :: string
  wd_prompt_bundle_version :: string
  wd_toolset_version :: string
  wd_policy_version :: string
  wd_memory_policy_version :: string
  wd_default_model_profile :: string
  wd_supported_channels :: "string set"
  wd_autonomy_level :: AutonomyLevel

definition invalid_model :: "'a result" where
  "invalid_model = Inl (Err PydanticValidationError ''validation error'')"

definition mk_WorkerDefinition :: "WorkerDefinition \<Rightarrow> WorkerDefinition result" where
  "mk_WorkerDefinition d =
     (if list_all is_semver [wd_worker_version d, wd_graph_version d, wd_prompt_bundle_version d,
           wd_toolset_version d, wd_policy_version d, wd_memory_policy_version d]
         \<and> py_strip (wd_worker_id d) \<noteq> '''' \<and> py_strip (wd_default_model_profile d) \<noteq> ''''
      then Inr d else invalid_model)"

definition mk_RunContext :: "RunContext \<Rightarrow> RunContext result" where
  "mk_RunContext rc = (if is_semver (rc_worker_version rc) then Inr rc else invalid_model)"

record ToolDefinition =
  td_name :: string
  td_version :: string
  td_required_scopes :: "string set"
  td_side_effect_level :: SideEffectLevel
  td_approval_policy :: ApprovalPolicy
  td_timeout_seconds :: int
  td_max_retries :: int
  td_idempotent :: bool

definition mk_ToolDefinition :: "ToolDefinition \<Rightarrow> ToolDefinition result" where
  "mk_ToolDefinition d =
     (if is_semver (td_version d) \<and> 0 < td_timeout_seconds d \<and> td_timeout_seconds d \<le> 600
         \<and> 0 \<le> td_max_retries d \<and> td_max_retries d \<le> 10
         \<and> CHR ''.'' \<in> set (td_name d) \<and> hd (td_name d) \<noteq> CHR ''.'' \<and> last (td_name d) \<noteq> CHR ''.''
      then Inr d else invalid_model)"

definition requires_approval :: "ToolDefinition \<Rightarrow> bool" where
  "requires_approval d = (td_approval_policy d = POLICY_ALWAYS \<or> td_side_effect_level d = SE_CRITICAL)"

definition access_context_from_run :: "RunContext \<Rightarrow> AccessContext result" where
  "access_context_from_run rc =
     mk_AccessContext \<lparr>x_tenant_id = rc_tenant_id rc, x_workspace_id = rc_workspace_id rc,
       x_principal_id = rc_actor_id rc, x_roles = rc_roles rc, x_groups = {}, x_scopes = rc_scopes rc,
       x_clearance = ''internal'', x_plan_id = rc_plan_id rc, x_feature_flags = {}\<rparr>"

section \<open>Registries\<close>

text \<open>A registry is a dict keyed by identity and version, in insertion order.\<close>

type_synonym 'v registry = "((string \<times> string) \<times> 'v) list"

definition registry_add :: "string \<Rightarrow> 'v registry \<Rightarrow> string \<times> string \<Rightarrow> 'v \<Rightarrow> 'v registry result" where
  "registry_add what reg key v =
     (if key \<in> fst ` set reg then Inl (Err ConfigError (what @ '' already registered''))
      else Inr (reg @ [(key, v)]))"

definition registry_resolve :: "string \<Rightarrow> 'v registry \<Rightarrow> string \<times> string \<Rightarrow> 'v result" where
  "registry_resolve what reg key =
     (case map_of reg key of
        None \<Rightarrow> Inl (Err NotFoundError (what @ '' version not registered''))
      | Some v \<Rightarrow> Inr v)"

definition all_registered :: "'v registry \<Rightarrow> 'v list" where
  "all_registered reg = map snd reg"

subsection \<open>Loading workers from configuration files\<close>

record LoadedWorker =
  lw_definition :: WorkerDefinition
  lw_checksum :: string
  lw_source_path :: string

fun json_str :: "json option \<Rightarrow> string option" where
  "json_str (Some (JStr s)) = Some s"
| "json_str _ = None"

fun json_strs :: "json list \<Rightarrow> string list option" where
  "json_strs [] = Some []"
| "json_strs (JStr s # xs) = map_option ((#) s) (json_strs xs)"
| "json_strs _ = None"

definition domain_of :: "string \<Rightarrow> WorkerDomain option" where
  "domain_of s = map_of [(''tender'', WD_TENDER), (''work_ops'', WD_WORK_OPS), (''preparation'', WD_PREPARATION)] s"

definition autonomy_of :: "string \<Rightarrow> AutonomyLevel option" where
  "autonomy_of s = map_of [(''A0'', LEVEL_A0), (''A1'', LEVEL_A1), (''A2'', LEVEL_A2), (''A3'', LEVEL_A3),
     (''A4'', LEVEL_A4)] s"

text \<open>\<open>WorkerDefinition.model_validate\<close> of a parsed mapping; unknown keys are ignored.\<close>

definition worker_of_json :: "jdict \<Rightarrow> WorkerDefinition option" where
  "worker_of_json d =
     Option.bind (json_str (jget d ''worker_id'')) (\<lambda>wid.
     Option.bind (json_str (jget d ''worker_version'')) (\<lambda>wv.
     Option.bind (Option.bind (json_str (jget d ''domain'')) domain_of) (\<lambda>dm.
     Option.bind (json_str (jget d ''graph_version'')) (\<lambda>gv.
     Option.bind (json_str (jget d ''prompt_bundle_version'')) (\<lambda>pv.
     Option.bind (json_str (jget d ''toolset_version'')) (\<lambda>tv.
     Option.bind (json_str (jget d ''policy_version'')) (\<lambda>yv.
     Option.bind (json_str (jget d ''memory_policy_version'')) (\<lambda>mv.
     Option.bind (json_str (jget d ''default_model_profile'')) (\<lambda>mp.
     Option.bind (case jget d ''supported_channels'' of Some (JArr xs) \<Rightarrow> json_strs xs | _ \<Rightarrow> None) (\<lambda>ch.
     Option.bind (Option.bind (json_str (jget d ''autonomy_level'')) autonomy_of) (\<lambda>al.
       Some \<lparr>wd_worker_id = wid, wd_worker_version = wv, wd_domain = dm, wd_graph_version = gv,
             wd_prompt_bundle_version = pv, wd_toolset_version = tv, wd_policy_version = yv,
             wd_memory_policy_version = mv, wd_default_model_profile = mp,
             wd_supported_channels = set ch, wd_autonomy_level = al\<rparr>)))))))))))"

definition config_error :: "'a result" where
  "config_error = Inl (Err ConfigError ''worker config invalid'')"

text \<open>\<open>yaml_load\<close> is the YAML parser: \<open>None\<close> when it raises.\<close>

definition parse_worker :: "(bytes \<Rightarrow> json option) \<Rightarrow> bytes \<Rightarrow> WorkerDefinition result" where
  "parse_worker yaml_load raw =
     (case yaml_load raw of
        None \<Rightarrow> config_error
      | Some data \<Rightarrow>
          (case data of
             JObj d \<Rightarrow>
               if jget d ''schema_version'' \<noteq> Some (JStr ''1.0'') then config_error
               else (case Option.bind (worker_of_json (filter (\<lambda>(k, v). k \<noteq> ''schema_version'') d))
                            (\<lambda>w. case mk_WorkerDefinition w of Inl _ \<Rightarrow> None | Inr v \<Rightarrow> Some v) of
                       None \<Rightarrow> config_error
                     | Some w \<Rightarrow> Inr w)
           | _ \<Rightarrow> config_error))"

definition load_file ::
  "(bytes \<Rightarrow> json option) \<Rightarrow> (bytes \<Rightarrow> string) \<Rightarrow> 'g registry \<Rightarrow> string \<times> bytes \<Rightarrow> LoadedWorker registry
    \<Rightarrow> LoadedWorker registry result" where
  "load_file yaml_load sha graphs file workers =
     (case parse_worker yaml_load (snd file) of
        Inl e \<Rightarrow> Inl e
      | Inr d \<Rightarrow>
          (case registry_resolve ''graph'' graphs (wd_worker_id d, wd_graph_version d) of
             Inl e \<Rightarrow> Inl e
           | Inr _ \<Rightarrow> registry_add ''worker'' workers (wd_worker_id d, wd_worker_version d)
                       \<lparr>lw_definition = d, lw_checksum = sha (snd file), lw_source_path = fst file\<rparr>))"

fun load_files ::
  "(bytes \<Rightarrow> json option) \<Rightarrow> (bytes \<Rightarrow> string) \<Rightarrow> 'g registry \<Rightarrow> (string \<times> bytes) list
    \<Rightarrow> LoadedWorker registry \<Rightarrow> LoadedWorker registry result" where
  "load_files yaml_load sha graphs [] workers = Inr workers"
| "load_files yaml_load sha graphs (f # fs) workers =
     (case load_file yaml_load sha graphs f workers of
        Inl e \<Rightarrow> Inl e
      | Inr workers' \<Rightarrow> load_files yaml_load sha graphs fs workers')"

text \<open>\<open>load_directory\<close>: the files in the order of their names, until one raises.\<close>

definition load_directory ::
  "(bytes \<Rightarrow> json option) \<Rightarrow> (bytes \<Rightarrow> string) \<Rightarrow> 'g registry \<Rightarrow> (string \<times> bytes) list
    \<Rightarrow> LoadedWorker registry \<Rightarrow> LoadedWorker registry result" where
  "load_directory yaml_load sha graphs files workers =
     load_files yaml_load sha graphs (sort_key fst files) workers"

section \<open>Tool executor\<close>

record RegisteredTool =
  rt_definition :: ToolDefinition
  rt_input_model :: "jdict \<Rightarrow> jdict option"
  rt_output_model :: "jdict \<Rightarrow> jdict option"
  rt_handler :: "jdict \<Rightarrow> RunContext \<Rightarrow> jdict handler"

text \<open>
  The models validate and dump (\<open>None\<close> is a validation error); the handler is the bound coroutine
  under its timeout, so it may raise \<open>TimeoutError\<close>.
\<close>

text \<open>\<open>type(exc).__name__\<close>.\<close>

fun err_class_name :: "err_class \<Rightarrow> string" where
  "err_class_name DWError = ''DWError''"
| "err_class_name DomainError = ''DomainError''"
| "err_class_name NotFoundError = ''NotFoundError''"
| "err_class_name ConflictError = ''ConflictError''"
| "err_class_name PermissionDeniedError = ''PermissionDeniedError''"
| "err_class_name EntitlementDeniedError = ''EntitlementDeniedError''"
| "err_class_name ApprovalRequiredError = ''ApprovalRequiredError''"
| "err_class_name TenantContextMissingError = ''TenantContextMissingError''"
| "err_class_name IdempotencyConflictError = ''IdempotencyConflictError''"
| "err_class_name InfrastructureError = ''InfrastructureError''"
| "err_class_name CircuitOpenError = ''CircuitOpenError''"
| "err_class_name OutboundUrlError = ''OutboundUrlError''"
| "err_class_name ConfigError = ''ConfigError''"
| "err_class_name TenderDomainError = ''TenderDomainError''"
| "err_class_name InvalidScoringConfigError = ''InvalidScoringConfigError''"
| "err_class_name PyValueError = ''ValueError''"
| "err_class_name PydanticValidationError = ''ValidationError''"
| "err_class_name PyTypeError = ''TypeError''"
| "err_class_name PyAssertionError = ''AssertionError''"
| "err_class_name PyIndexError = ''IndexError''"
| "err_class_name PyTimeoutError = ''TimeoutError''"
| "err_class_name DbIntegrityError = ''IntegrityError''"
| "err_class_name OtherException = ''Exception''"

definition canonical_hash :: "env \<Rightarrow> jdict \<Rightarrow> string" where
  "canonical_hash E payload =
     env_sha256 E (utf8_encode (env_dumps_with E ''sort_keys, separators'' (JObj payload)))"

definition run_event ::
  "uuid \<Rightarrow> datetime \<Rightarrow> RunContext \<Rightarrow> string \<Rightarrow> string \<Rightarrow> string \<Rightarrow> string option \<Rightarrow> jdict \<Rightarrow> AuditEvent" where
  "run_event i now rc action rtype rid policy details =
     \<lparr>au_id = i, au_tenant_id = rc_tenant_id rc, au_workspace_id = rc_workspace_id rc,
      au_actor_id = rc_actor_id rc, au_action = action, au_resource_type = rtype,
      au_resource_id = rid, au_occurred_at = now, au_run_id = Some (rc_run_id rc),
      au_policy_decision = policy, au_trace_id = Some (rc_trace_id rc), au_details = details\<rparr>"

text \<open>One audit entry in its own committed transaction.\<close>

definition append_event :: "env \<Rightarrow> AccessContext \<Rightarrow> AuditEvent \<Rightarrow> unit handler" where
  "append_event E x e =
     in_uow E (x_tenant_id x) (act_bind (audit_append e) (\<lambda>_. commit))"

definition audit_tool ::
  "env \<Rightarrow> RunContext \<Rightarrow> string \<Rightarrow> ToolDefinition \<Rightarrow> string \<Rightarrow> string \<Rightarrow> jdict \<Rightarrow> unit handler" where
  "audit_tool E rc action d input_hash policy details =
     act_bind (new_uuid E) (\<lambda>i.
     act_bind (clock_now E) (\<lambda>now.
     act_bind (act_lift (mk_AuditEvent (run_event i now rc action ''tool''
         (td_name d @ ''@'' @ td_version d) (Some policy)
         ((''input_hash'', JStr input_hash) # details)))) (\<lambda>e.
     act_bind (act_lift (access_context_from_run rc)) (\<lambda>x.
       append_event E x e))))"

subsection \<open>Execution store\<close>

definition find_succeeded :: "env \<Rightarrow> RunContext \<Rightarrow> string \<Rightarrow> string \<Rightarrow> ToolExecution option handler" where
  "find_succeeded E rc name key = in_uow E (rc_tenant_id rc)
     (act_bind (tool_executions_find name key) (\<lambda>r. act_bind commit (\<lambda>_. act_ret r)))"

definition record_execution :: "env \<Rightarrow> RunContext \<Rightarrow> ToolExecution \<Rightarrow> unit handler" where
  "record_execution E rc x = in_uow E (rc_tenant_id rc)
     (act_bind (tool_executions_insert x) (\<lambda>_. commit))"

definition execution_of ::
  "uuid \<Rightarrow> RunContext \<Rightarrow> string \<Rightarrow> string \<Rightarrow> string \<Rightarrow> string \<Rightarrow> (string \<times> jdict) option \<Rightarrow> string option
    \<Rightarrow> string option \<Rightarrow> int \<Rightarrow> datetime \<Rightarrow> datetime \<Rightarrow> ToolExecution" where
  "execution_of i rc name version status input_hash output key err attempts started finished =
     \<lparr>te_id = i, te_tenant_id = rc_tenant_id rc, te_workspace_id = rc_workspace_id rc,
      te_run_id = rc_run_id rc, te_tool_name = name, te_tool_version = version, te_status = status,
      te_idempotency_key = key, te_input_hash = input_hash,
      te_output_hash = map_option fst output, te_output = map_option snd output, te_error = err,
      te_attempts = attempts, te_started_at = started, te_finished_at = finished\<rparr>"

subsection \<open>Attempts\<close>

definition attempts_allowed :: "ToolDefinition \<Rightarrow> int" where
  "attempts_allowed d = 1 + (if td_idempotent d then td_max_retries d else 0)"

definition output_invalid :: dw_error where
  "output_invalid = Err DomainError ''tool output failed schema validation''"

text \<open>
  The loop: its result is the number of attempts made and either the validated output or the last
  error. A timeout or an infrastructure failure is tried again while attempts are left (the back-off
  sleep leaves no trace); an output that does not validate ends the loop; any other exception leaves
  the executor at once.
\<close>

function attempt_loop ::
  "RegisteredTool \<Rightarrow> jdict \<Rightarrow> RunContext \<Rightarrow> int \<Rightarrow> int \<Rightarrow> dw_error option
    \<Rightarrow> (int \<times> (dw_error option + jdict)) handler" where
  "attempt_loop tool input rc allowed attempt last_error w =
     (if attempt < allowed then
        (case rt_handler tool input rc w of
           (Inr raw, w') \<Rightarrow>
             (case rt_output_model tool raw of
                Some out \<Rightarrow> (Inr (attempt + 1, Inr out), w')
              | None \<Rightarrow> (Inr (attempt + 1, Inl (Some output_invalid)), w'))
         | (Inl e, w') \<Rightarrow>
             if err_class e = PyTimeoutError \<or> is_infrastructure_error (err_class e)
             then attempt_loop tool input rc allowed (attempt + 1) (Some e) w'
             else if err_class e = PydanticValidationError
             then (Inr (attempt + 1, Inl (Some output_invalid)), w')
             else (Inl e, w'))
      else (Inr (attempt, Inl last_error), w))"
  by pat_completeness auto
termination
  by (relation "measure (\<lambda>(tool, input, rc, allowed, attempt, last_error, w). nat (allowed - attempt))") auto

declare attempt_loop.simps [simp del]

subsection \<open>The pipeline\<close>

definition missing_scopes :: "ToolDefinition \<Rightarrow> RunContext \<Rightarrow> string set" where
  "missing_scopes d rc = td_required_scopes d - rc_scopes rc"

text \<open>Step 3: scopes, approval, idempotency key.\<close>

definition check_policy ::
  "env \<Rightarrow> ToolDefinition \<Rightarrow> RunContext \<Rightarrow> string \<Rightarrow> string option \<Rightarrow> bool \<Rightarrow> unit handler" where
  "check_policy E d rc input_hash key approved =
     (if missing_scopes d rc \<noteq> {} then
        act_bind (audit_tool E rc ''tool.denied'' d input_hash ''deny_missing_scope''
            [(''missing_scopes'', JArr (map JStr (sorted_list_of_set (missing_scopes d rc))))])
          (\<lambda>_. act_raise PermissionDeniedError ''run context lacks required tool scopes'')
      else if requires_approval d \<and> \<not> approved then
        act_bind (audit_tool E rc ''tool.approval_required'' d input_hash ''require_approval'' [])
          (\<lambda>_. act_raise ApprovalRequiredError ''tool requires human approval before execution'')
      else if td_side_effect_level d \<in> {SE_EXTERNAL, SE_CRITICAL} \<and> (key = None \<or> key = Some '''') then
        act_raise DomainError ''side-effect tools require an idempotency key''
      else act_ret ())"

text \<open>Step 5a: the stored result of an earlier success under the key, if there is one.\<close>

definition replay ::
  "env \<Rightarrow> RegisteredTool \<Rightarrow> string \<Rightarrow> RunContext \<Rightarrow> string \<Rightarrow> string option \<Rightarrow> jdict option handler" where
  "replay E tool name rc input_hash key =
     (case key of
        None \<Rightarrow> act_ret None
      | Some k \<Rightarrow>
          if k = '''' then act_ret None
          else act_bind (find_succeeded E rc name k) (\<lambda>existing.
            case existing of
              None \<Rightarrow> act_ret None
            | Some x \<Rightarrow>
                act_bind (act_require (te_input_hash x = input_hash) IdempotencyConflictError
                    ''idempotency key reused with a different payload'') (\<lambda>_.
                act_bind (audit_tool E rc ''tool.replayed'' (rt_definition tool) input_hash ''allow''
                    [(''idempotency_key'', JStr k)]) (\<lambda>_.
                act_bind (act_some (rt_output_model tool (case te_output x of None \<Rightarrow> [] | Some d \<Rightarrow> d))
                    PydanticValidationError ''validation error'') (\<lambda>out.
                  act_ret (Some out))))))"

text \<open>Steps 5b to 8.\<close>

definition settle_failure ::
  "env \<Rightarrow> ToolDefinition \<Rightarrow> string \<Rightarrow> string \<Rightarrow> RunContext \<Rightarrow> jdict \<Rightarrow> string \<Rightarrow> string option \<Rightarrow> int
    \<Rightarrow> datetime \<Rightarrow> datetime \<Rightarrow> dw_error option \<Rightarrow> jdict handler" where
  "settle_failure E d name version rc input input_hash key attempt started finished last_error =
     act_bind (act_some last_error PyAssertionError ''last_error is not None'') (\<lambda>err.
     act_bind (new_uuid E) (\<lambda>i.
     act_bind (record_execution E rc (execution_of i rc name version ''failed'' input_hash None key
         (Some (err_class_name (err_class err))) attempt started finished)) (\<lambda>_.
     act_bind (audit_tool E rc ''tool.failed'' d input_hash ''allow''
         [(''error'', JStr (err_class_name (err_class err))), (''attempts'', JInt attempt),
          (''input'', JObj (redact_mapping input))]) (\<lambda>_.
       if err_class err = DomainError \<or> is_domain_error (err_class err) then act_lift (Inl err)
       else act_raise InfrastructureError ''tool execution failed''))))"

definition settle_success ::
  "env \<Rightarrow> ToolDefinition \<Rightarrow> string \<Rightarrow> string \<Rightarrow> RunContext \<Rightarrow> string \<Rightarrow> string option \<Rightarrow> int
    \<Rightarrow> datetime \<Rightarrow> datetime \<Rightarrow> jdict \<Rightarrow> jdict handler" where
  "settle_success E d name version rc input_hash key attempt started finished out =
     act_bind (new_uuid E) (\<lambda>i.
     act_bind (record_execution E rc (execution_of i rc name version ''succeeded'' input_hash
         (Some (canonical_hash E out, out)) key None attempt started finished)) (\<lambda>_.
     act_bind (audit_tool E rc ''tool.executed'' d input_hash ''allow''
         [(''output_hash'', JStr (canonical_hash E out)), (''attempts'', JInt attempt)]) (\<lambda>_.
       act_ret out)))"

definition run_tool ::
  "env \<Rightarrow> RegisteredTool \<Rightarrow> string \<Rightarrow> string \<Rightarrow> RunContext \<Rightarrow> jdict \<Rightarrow> string \<Rightarrow> string option \<Rightarrow> jdict handler"
where
  "run_tool E tool name version rc input input_hash key =
     act_bind (clock_now E) (\<lambda>started.
     act_bind (attempt_loop tool input rc (attempts_allowed (rt_definition tool)) 0 None) (\<lambda>(attempt, outcome).
     act_bind (clock_now E) (\<lambda>finished.
       case outcome of
         Inl last_error \<Rightarrow> settle_failure E (rt_definition tool) name version rc input input_hash key
                             attempt started finished last_error
       | Inr out \<Rightarrow> settle_success E (rt_definition tool) name version rc input_hash key
                      attempt started finished out)))"

definition execute_tool ::
  "env \<Rightarrow> RegisteredTool registry \<Rightarrow> string \<Rightarrow> string \<Rightarrow> jdict \<Rightarrow> RunContext \<Rightarrow> string option \<Rightarrow> bool
    \<Rightarrow> jdict handler" where
  "execute_tool E tools name version raw_input rc key approved =
     act_bind (act_lift (registry_resolve ''tool'' tools (name, version))) (\<lambda>tool.
     act_bind (act_some (rt_input_model tool raw_input) DomainError
         ''tool input failed schema validation'') (\<lambda>input.
     let input_hash = canonical_hash E input
     in act_bind (check_policy E (rt_definition tool) rc input_hash key approved) (\<lambda>_.
        act_bind (replay E tool name rc input_hash key) (\<lambda>stored.
          case stored of
            Some out \<Rightarrow> act_ret out
          | None \<Rightarrow> run_tool E tool name version rc input input_hash key))))"

section \<open>Run store\<close>

record RunPorts =
  rp_workers :: "LoadedWorker registry"
  rp_manifest_ref :: "string option"

definition run_row :: "RunContext \<Rightarrow> string \<Rightarrow> jdict \<Rightarrow> string option \<Rightarrow> WorkerRun" where
  "run_row rc graph_version input manifest =
     \<lparr>wr_id = rc_run_id rc, wr_tenant_id = rc_tenant_id rc, wr_workspace_id = rc_workspace_id rc,
      wr_worker_id = rc_worker_id rc, wr_worker_version = rc_worker_version rc,
      wr_graph_version = graph_version, wr_status = RS_RUNNING, wr_input = input, wr_result = None,
      wr_error = None, wr_approval_request_id = None, wr_release_manifest_ref = manifest,
      wr_requested_by = rc_actor_id rc, wr_trace_id = rc_trace_id rc\<rparr>"

definition run_create :: "env \<Rightarrow> RunContext \<Rightarrow> string \<Rightarrow> jdict \<Rightarrow> string option \<Rightarrow> unit handler" where
  "run_create E rc graph_version input manifest = in_uow E (rc_tenant_id rc)
     (act_bind (runs_insert (run_row rc graph_version input manifest)) (\<lambda>_. commit))"

definition run_set_status ::
  "env \<Rightarrow> RunContext \<Rightarrow> uuid \<Rightarrow> RunStatus \<Rightarrow> json option \<Rightarrow> json option \<Rightarrow> uuid option \<Rightarrow> unit handler"
where
  "run_set_status E rc i status res err approval = in_uow E (rc_tenant_id rc)
     (act_bind (runs_update i status res err approval) (\<lambda>_. commit))"

definition run_get :: "env \<Rightarrow> RunContext \<Rightarrow> uuid \<Rightarrow> WorkerRun handler" where
  "run_get E rc i =
     act_bind (in_uow E (rc_tenant_id rc) (act_bind (runs_find i) (\<lambda>r. act_bind commit (\<lambda>_. act_ret r)))) (\<lambda>row.
       act_some row NotFoundError ''run not found'')"

section \<open>Workflow runner\<close>

text \<open>
  A graph is invoked with an input or resumed with a payload; it stops at an interrupt, whose value it
  reports, or ends with its final state.
\<close>

datatype graph_input = Start_graph jdict | Resume_graph jdict

datatype graph_outcome = Interrupted json | Finished jdict

type_synonym graph = "graph_input \<Rightarrow> RunContext \<Rightarrow> uuid \<Rightarrow> graph_outcome handler"

text \<open>\<open>_jsonable\<close>: keys with a leading double underscore are dropped, at every level.\<close>

fun jsonable :: "json \<Rightarrow> json" and jsonable_items :: "jdict \<Rightarrow> jdict" and jsonable_list :: "json list \<Rightarrow> json list" where
  "jsonable (JObj d) = JObj (jsonable_items d)"
| "jsonable (JArr xs) = JArr (jsonable_list xs)"
| "jsonable JNull = JNull"
| "jsonable (JBool b) = JBool b"
| "jsonable (JInt i) = JInt i"
| "jsonable (JStr s) = JStr s"
| "jsonable (JText k vs) = JText k vs"
| "jsonable_items [] = []"
| "jsonable_items ((k, v) # d) =
     (if py_startswith k ''__'' then jsonable_items d else (k, jsonable v) # jsonable_items d)"
| "jsonable_list [] = []"
| "jsonable_list (x # xs) = jsonable x # jsonable_list xs"

definition audit_run :: "env \<Rightarrow> RunContext \<Rightarrow> string \<Rightarrow> uuid \<Rightarrow> jdict \<Rightarrow> unit handler" where
  "audit_run E rc action resource details =
     act_bind (act_lift (access_context_from_run rc)) (\<lambda>x.
     act_bind (new_uuid E) (\<lambda>i.
     act_bind (clock_now E) (\<lambda>now.
     act_bind (act_lift (mk_AuditEvent (run_event i now rc action ''worker_run'' resource None details))) (\<lambda>e w.
       case append_event E x e w of
         (Inl _, w') \<Rightarrow> (Inl (Err InfrastructureError ''failed to write audit event''), w')
       | (Inr _, w') \<Rightarrow> (Inr (), w')))))"

text \<open>The checkpoint a paused run raises; its creation time is the database's.\<close>

definition checkpoint_request :: "env \<Rightarrow> uuid \<Rightarrow> datetime \<Rightarrow> RunContext \<Rightarrow> uuid \<Rightarrow> jdict \<Rightarrow> ApprovalRequest" where
  "checkpoint_request E i now rc run payload =
     \<lparr>r_id = i, r_tenant_id = rc_tenant_id rc, r_workspace_id = rc_workspace_id rc,
      r_approval_type = py_str E (jget_or payload ''approval_type'' (JStr ''workflow.review'')),
      r_requested_by = rc_actor_id rc,
      r_reason = py_str E (jget_or payload ''reason'' (JStr ''workflow requested human review'')),
      r_payload = jsonable_items payload, r_run_id = Some run, r_status = AP_PENDING,
      r_created_at = now, r_decided_at = None, r_version = 1\<rparr>"

definition create_approval :: "env \<Rightarrow> RunContext \<Rightarrow> uuid \<Rightarrow> jdict \<Rightarrow> uuid handler" where
  "create_approval E rc run payload =
     act_bind (new_uuid E) (\<lambda>i.
     act_bind (act_lift (access_context_from_run rc)) (\<lambda>x.
     act_bind (in_uow E (x_tenant_id x)
         (act_bind (act_get (\<lambda>w. env_clock E (w_ticks w))) (\<lambda>now.
          act_bind (approvals_add (checkpoint_request E i now rc run payload)) (\<lambda>_. commit)))) (\<lambda>_.
       act_ret i)))"

fun interrupt_payload :: "json \<Rightarrow> jdict" where
  "interrupt_payload (JObj d) = d"
| "interrupt_payload v = [(''value'', jsonable v)]"

definition handle_outcome :: "env \<Rightarrow> RunContext \<Rightarrow> uuid \<Rightarrow> graph_outcome \<Rightarrow> unit handler" where
  "handle_outcome E rc run outcome =
     (case outcome of
        Interrupted v \<Rightarrow>
          act_bind (create_approval E rc run (interrupt_payload v)) (\<lambda>approval.
          act_bind (run_set_status E rc run RS_WAITING_APPROVAL None None (Some approval)) (\<lambda>_.
            audit_run E rc ''run.waiting_approval'' run [(''approval_request_id'', JStr approval)]))
      | Finished state \<Rightarrow>
          act_bind (run_set_status E rc run RS_COMPLETED (Some (jsonable (JObj state))) None None) (\<lambda>_.
            audit_run E rc ''run.completed'' run []))"

definition start_workflow :: "env \<Rightarrow> RunPorts \<Rightarrow> graph registry \<Rightarrow> RunContext \<Rightarrow> jdict \<Rightarrow> uuid handler" where
  "start_workflow E ports graphs rc input =
     act_bind (act_lift (registry_resolve ''worker'' (rp_workers ports) (rc_worker_id rc, rc_worker_version rc))) (\<lambda>worker.
     let d = lw_definition worker
     in act_bind (act_lift (registry_resolve ''graph'' graphs (wd_worker_id d, wd_graph_version d))) (\<lambda>graph.
        act_bind (run_create E rc (wd_graph_version d) input (rp_manifest_ref ports)) (\<lambda>_.
        act_bind (audit_run E rc ''run.started'' (rc_run_id rc) []) (\<lambda>_.
        act_bind (graph (Start_graph input) rc (rc_run_id rc)) (\<lambda>outcome.
        act_bind (handle_outcome E rc (rc_run_id rc) outcome) (\<lambda>_.
          act_ret (rc_run_id rc)))))))"

definition resume_workflow :: "env \<Rightarrow> graph registry \<Rightarrow> RunContext \<Rightarrow> uuid \<Rightarrow> jdict \<Rightarrow> unit handler" where
  "resume_workflow E graphs rc run payload =
     act_bind (run_get E rc run) (\<lambda>row.
     act_bind (act_require (wr_status row = RS_WAITING_APPROVAL) ConflictError
         ''run is not waiting for approval'') (\<lambda>_.
     act_bind (act_lift (registry_resolve ''graph'' graphs (wr_worker_id row, wr_graph_version row))) (\<lambda>graph.
     act_bind (audit_run E rc ''run.resumed'' run []) (\<lambda>_.
     act_bind (graph (Resume_graph payload) rc run) (\<lambda>outcome.
       handle_outcome E rc run outcome)))))"

section \<open>Deciding a checkpoint\<close>

definition required_role :: "env \<Rightarrow> ApprovalRequest \<Rightarrow> string" where
  "required_role E r =
     (let v = jget_or (r_payload r) ''required_role'' (JStr '''')
      in if py_truthy v then py_str E v else '''')"

definition is_preparation :: "ApprovalRequest \<Rightarrow> bool" where
  "is_preparation r = py_startswith (r_approval_type r) ''preparation.''"

text \<open>The transaction: separation of duties, authority, a comment, then the decision.\<close>

definition decide_tx :: "env \<Rightarrow> uuid \<Rightarrow> bool \<Rightarrow> string \<Rightarrow> AccessContext \<Rightarrow> ApprovalRequest handler" where
  "decide_tx E i approve comment x =
     act_bind (approvals_get i) (\<lambda>found.
     act_bind (act_some found NotFoundError ''approval request not found'') (\<lambda>r.
     act_bind (act_require (\<not> (is_preparation r \<and> r_requested_by r = x_principal_id x)) ConflictError
         ''separation of duties: requester cannot approve their own DW01 checkpoint'') (\<lambda>_.
     act_bind (act_require (required_role E r = '''' \<or> required_role E r \<in> x_roles x) ConflictError
         ''this checkpoint is reserved for another role'') (\<lambda>_.
     act_bind (act_require (\<not> (is_preparation r \<and> py_strip comment = '''')) ConflictError
         ''DW01 checkpoint decisions require a review comment'') (\<lambda>_.
     act_bind (new_uuid E) (\<lambda>decision_id.
     act_bind (clock_now E) (\<lambda>now.
     act_bind (act_lift (decide_request r decision_id (x_principal_id x)
         (if approve then DO_APPROVED else DO_REJECTED) now comment)) (\<lambda>(r', decision).
     act_bind (approvals_save r') (\<lambda>_.
     act_bind (approvals_add_decision decision) (\<lambda>_.
     act_bind commit (\<lambda>_.
       act_ret r')))))))))))"

text \<open>The payload the run wakes up with.\<close>

definition resume_payload ::
  "bool \<Rightarrow> string \<Rightarrow> uuid \<Rightarrow> string \<Rightarrow> string list option \<Rightarrow> jdict" where
  "resume_payload approve comment decider reason_code action_ids =
     [(''approved'', JBool approve), (''comment'', JStr comment), (''decided_by'', JStr decider)]
     @ (if py_strip reason_code = '''' then [] else [(''reason_code'', JStr (py_strip reason_code))])
     @ (case action_ids of None \<Rightarrow> [] | Some xs \<Rightarrow> [(''approved_action_ids'', JArr (map JStr xs))])"

text \<open>\<open>run_context_for\<close>: the placeholder the run row is read with; \<open>resume_context\<close>: the requester's.\<close>

definition run_context_for :: "AccessContext \<Rightarrow> uuid \<Rightarrow> string \<Rightarrow> RunContext result" where
  "run_context_for x run channel =
     mk_RunContext \<lparr>rc_run_id = run, rc_tenant_id = x_tenant_id x, rc_workspace_id = x_workspace_id x,
       rc_actor_id = x_principal_id x, rc_worker_id = ''unknown'', rc_worker_version = ''0.0.0'',
       rc_channel = channel, rc_plan_id = x_plan_id x, rc_roles = x_roles x, rc_scopes = x_scopes x,
       rc_trace_id = ''lookup-'' @ take 12 (uuid_hex run), rc_locale = ''vi-VN''\<rparr>"

definition resume_context :: "AccessContext \<Rightarrow> uuid \<Rightarrow> string \<Rightarrow> WorkerRun \<Rightarrow> RunContext result" where
  "resume_context x run channel row =
     mk_RunContext \<lparr>rc_run_id = run, rc_tenant_id = x_tenant_id x, rc_workspace_id = x_workspace_id x,
       rc_actor_id = wr_requested_by row, rc_worker_id = wr_worker_id row,
       rc_worker_version = wr_worker_version row, rc_channel = channel, rc_plan_id = x_plan_id x,
       rc_roles = x_roles x, rc_scopes = x_scopes x,
       rc_trace_id = ''resume-'' @ take 12 (uuid_hex run), rc_locale = ''vi-VN''\<rparr>"

definition wake_run ::
  "env \<Rightarrow> graph registry \<Rightarrow> AccessContext \<Rightarrow> string \<Rightarrow> uuid \<Rightarrow> jdict \<Rightarrow> unit handler" where
  "wake_run E graphs x channel run payload =
     act_bind (act_lift (run_context_for x run channel)) (\<lambda>lookup.
     act_bind (run_get E lookup run) (\<lambda>row.
     act_bind (act_lift (resume_context x run channel row)) (\<lambda>rc.
       resume_workflow E graphs rc run payload)))"

definition decide_checkpoint ::
  "env \<Rightarrow> graph registry \<Rightarrow> uuid \<Rightarrow> bool \<Rightarrow> string \<Rightarrow> AccessContext \<Rightarrow> string \<Rightarrow> string list option \<Rightarrow> string
    \<Rightarrow> ApprovalRequest handler" where
  "decide_checkpoint E graphs i approve comment x channel action_ids reason_code =
     act_bind (authorize x ''approvals.decide'') (\<lambda>_.
     act_bind (in_uow E (x_tenant_id x) (decide_tx E i approve comment x)) (\<lambda>r.
       case r_run_id r of
         None \<Rightarrow> act_ret r
       | Some run \<Rightarrow>
           act_bind (wake_run E graphs x channel run
               (resume_payload approve comment (x_principal_id x) reason_code action_ids)) (\<lambda>_.
             act_ret r)))"

section \<open>Lemmas\<close>

subsection \<open>Registries\<close>

lemma registry_add_Inr:
  "registry_add what reg key v = Inr reg' \<longleftrightarrow> key \<notin> fst ` set reg \<and> reg' = reg @ [(key, v)]"
  by (auto simp: registry_add_def)

lemma registry_resolve_Inr: "registry_resolve what reg key = Inr v \<longleftrightarrow> map_of reg key = Some v"
  by (auto simp: registry_resolve_def split: option.splits)

lemma mk_WorkerDefinition_same: "mk_WorkerDefinition d = Inr d' \<Longrightarrow> d' = d"
  by (simp add: mk_WorkerDefinition_def invalid_model_def split: if_splits)

lemma parse_worker_valid: "parse_worker y raw = Inr d \<Longrightarrow> mk_WorkerDefinition d = Inr d"
  by (auto simp: parse_worker_def config_error_def bind_eq_Some_conv
      split: option.splits json.splits if_splits sum.splits dest: mk_WorkerDefinition_same)

text \<open>A registry entry is well formed: valid, filed under its own key, its graph registered.\<close>

definition worker_ok :: "'g registry \<Rightarrow> (string \<times> string) \<times> LoadedWorker \<Rightarrow> bool" where
  "worker_ok graphs e =
     (let d = lw_definition (snd e)
      in fst e = (wd_worker_id d, wd_worker_version d) \<and> mk_WorkerDefinition d = Inr d
         \<and> (wd_worker_id d, wd_graph_version d) \<in> fst ` set graphs)"

lemma load_file_ok:
  assumes "load_file y sha graphs f ws = Inr ws'" "distinct (map fst ws)" "\<forall>e \<in> set ws. worker_ok graphs e"
  shows "distinct (map fst ws') \<and> (\<forall>e \<in> set ws'. worker_ok graphs e)"
  using assms
  by (auto simp: load_file_def registry_add_Inr registry_resolve_def worker_ok_def Let_def
      dest!: parse_worker_valid map_of_SomeD split: sum.splits option.splits intro: rev_image_eqI)

lemma load_files_ok:
  "load_files y sha graphs fs ws = Inr ws' \<Longrightarrow> distinct (map fst ws) \<Longrightarrow> \<forall>e \<in> set ws. worker_ok graphs e \<Longrightarrow>
     distinct (map fst ws') \<and> (\<forall>e \<in> set ws'. worker_ok graphs e)"
proof (induction fs arbitrary: ws)
  case (Cons f fs)
  then obtain ws1 where "load_file y sha graphs f ws = Inr ws1" "load_files y sha graphs fs ws1 = Inr ws'"
    by (auto split: sum.splits)
  then show ?case using load_file_ok [of y sha graphs f ws ws1] Cons by blast
qed auto

text \<open>C25: What a started registry holds. After the configuration directory has been loaded into an
  empty registry, no two workers share an identity and version, each is filed under its own, each
  satisfies the contract of \<open>WorkerDefinition\<close>, and the graph version each names is registered.\<close>

theorem workers_well_formed:
  assumes "load_directory y sha graphs files [] = Inr ws"
  shows "distinct (map fst ws) \<and> (\<forall>e \<in> set ws. worker_ok graphs e)"
  using assms load_files_ok unfolding load_directory_def by fastforce

subsection \<open>Tool calls\<close>

text \<open>Nothing changed but the audit trail, which grew.\<close>

definition only_audited :: "world \<Rightarrow> world \<Rightarrow> bool" where
  "only_audited w w' =
     ((\<exists>entries. w_committed w' = (w_committed w)\<lparr>t_audit := t_audit (w_committed w) @ entries\<rparr>)
      \<and> w_emails w' = w_emails w \<and> w_blobs w' = w_blobs w)"

lemma only_audited_refl: "w_committed w' = w_committed w \<Longrightarrow> w_emails w' = w_emails w \<Longrightarrow>
    w_blobs w' = w_blobs w \<Longrightarrow> only_audited w w'"
  by (simp add: only_audited_def exI [of _ "[]"])

lemma only_audited_trans: "only_audited u v \<Longrightarrow> only_audited v w \<Longrightarrow> only_audited u w"
  by (auto simp: only_audited_def)

lemma only_audited_executions:
  "only_audited w w' \<Longrightarrow> t_tool_executions (w_committed w') = t_tool_executions (w_committed w)"
  by (auto simp: only_audited_def)

lemma append_event_audits: "append_event E x e w = (r, w') \<Longrightarrow> only_audited w w'"
  by (auto simp: append_event_def in_uow_def act_bind_def audit_append_def insert_row_def commit_def
      only_audited_def Let_def exI [of _ "[]"] split: option.splits prod.splits sum.splits if_splits)

lemma audit_tool_audits:
  assumes "audit_tool E rc a d h p ds w = (r, w')"
  shows "only_audited w w'"
proof -
  let ?v = "w\<lparr>w_fresh := Suc (w_fresh w), w_ticks := Suc (w_ticks w)\<rparr>"
  have v: "only_audited w ?v" by (simp add: only_audited_refl)
  have "w' = ?v \<or> (\<exists>x e. append_event E x e ?v = (r, w'))"
    using assms
    by (auto simp: audit_tool_def act_bind_def act_lift_def new_uuid_def clock_now_def
        split: sum.splits)
  then show ?thesis using v append_event_audits only_audited_trans by blast
qed

lemma audited_bind:
  assumes "act_bind m f w = (r, w')" "\<And>r v. m w = (r, v) \<Longrightarrow> only_audited w v"
    "\<And>x v r w'. f x v = (r, w') \<Longrightarrow> only_audited v w'"
  shows "only_audited w w'"
  using assms by (auto simp: act_bind_def split: prod.splits sum.splits) (metis only_audited_trans)+

lemma only_audited_self [simp]: "only_audited w w"
  by (simp add: only_audited_refl)

lemma check_policy_audits:
  assumes "check_policy E d rc h key ok w = (r, w')"
  shows "only_audited w w'"
  using assms
  by (auto simp: check_policy_def act_raise_def act_ret_def split: if_splits
      elim!: audited_bind dest: audit_tool_audits)

lemma check_policy_Inr:
  assumes "check_policy E d rc h key ok w = (Inr u, w')"
  shows "missing_scopes d rc = {} \<and> (requires_approval d \<longrightarrow> ok)
    \<and> (td_side_effect_level d \<in> {SE_EXTERNAL, SE_CRITICAL} \<longrightarrow> (\<exists>k. key = Some k \<and> k \<noteq> '''')) \<and> w' = w"
  using assms
  by (auto simp: check_policy_def act_bind_def act_raise_def act_ret_def split: if_splits prod.splits sum.splits)

text \<open>The stored success a call would be answered with.\<close>

definition stored_success :: "RunContext \<Rightarrow> string \<Rightarrow> string \<Rightarrow> db \<Rightarrow> ToolExecution option" where
  "stored_success rc name k d =
     find (\<lambda>x. te_tool_name x = name \<and> te_idempotency_key x = Some k \<and> te_status x = ''succeeded'')
       (filter (\<lambda>x. te_tenant_id x = rc_tenant_id rc) (t_tool_executions d))"

lemma find_succeeded_read: "find_succeeded E rc name k w = (r, w') \<Longrightarrow> only_audited w w'"
  "find_succeeded E rc name k w = (Inr found, w') \<Longrightarrow> found = stored_success rc name k (w_committed w)"
  by (auto simp: stored_success_def find_succeeded_def in_uow_def act_bind_def tool_executions_find_def act_get_def commit_def
      act_ret_def only_audited_refl Let_def split: option.splits)

lemma replay_audits:
  assumes "replay E tool name rc h key w = (r, w')"
  shows "only_audited w w'"
  using assms
  by (auto simp: replay_def act_ret_def act_require_def act_some_def split: option.splits if_splits
      elim!: audited_bind dest: audit_tool_audits find_succeeded_read(1))

definition tool_allowed :: "ToolDefinition \<Rightarrow> RunContext \<Rightarrow> string option \<Rightarrow> bool \<Rightarrow> bool" where
  "tool_allowed d rc key approved =
     (td_required_scopes d \<subseteq> rc_scopes rc \<and> (requires_approval d \<longrightarrow> approved)
      \<and> (td_side_effect_level d \<in> {SE_EXTERNAL, SE_CRITICAL} \<longrightarrow> (\<exists>k. key = Some k \<and> k \<noteq> '''')))"

lemma replay_Inr:
  assumes "replay E tool name rc h key w = (Inr r, w')"
  shows "case r of
      None \<Rightarrow> \<forall>k. key = Some k \<and> k \<noteq> '''' \<longrightarrow> stored_success rc name k (w_committed w) = None
    | Some out \<Rightarrow> \<exists>k x. key = Some k \<and> k \<noteq> '''' \<and> stored_success rc name k (w_committed w) = Some x
        \<and> te_input_hash x = h \<and> rt_output_model tool (case te_output x of None \<Rightarrow> [] | Some d \<Rightarrow> d) = Some out"
proof (cases "\<exists>k. key = Some k \<and> k \<noteq> ''''")
  case False
  then show ?thesis using assms by (auto simp: replay_def act_ret_def split: option.splits)
next
  case True
  then obtain k where k: "key = Some k" "k \<noteq> ''''" by blast
  with assms obtain found v where "find_succeeded E rc name k w = (Inr found, v)"
    and rest: "(case found of
              None \<Rightarrow> act_ret None
            | Some x \<Rightarrow>
                act_bind (act_require (te_input_hash x = h) IdempotencyConflictError
                    ''idempotency key reused with a different payload'') (\<lambda>_.
                act_bind (audit_tool E rc ''tool.replayed'' (rt_definition tool) h ''allow''
                    [(''idempotency_key'', JStr k)]) (\<lambda>_.
                act_bind (act_some (rt_output_model tool (case te_output x of None \<Rightarrow> [] | Some d \<Rightarrow> d))
                    PydanticValidationError ''validation error'') (\<lambda>out.
                  act_ret (Some out))))) v = (Inr r, w')"
    by (auto simp: replay_def run_bind)
  then show ?thesis using k find_succeeded_read(2) [of E rc name k w found v]
    by (auto simp: run_bind run_basic split: option.splits)
qed

lemma execute_tool_eq:
  assumes "registry_resolve ''tool'' tools (name, version) = Inr tool" "rt_input_model tool raw = Some input"
  shows "execute_tool E tools name version raw rc key ok w =
    (case check_policy E (rt_definition tool) rc (canonical_hash E input) key ok w of
       (Inl e, v) \<Rightarrow> (Inl e, v)
     | (Inr _, v) \<Rightarrow>
         (case replay E tool name rc (canonical_hash E input) key v of
            (Inl e, u) \<Rightarrow> (Inl e, u)
          | (Inr None, u) \<Rightarrow> run_tool E tool name version rc input (canonical_hash E input) key u
          | (Inr (Some out), u) \<Rightarrow> (Inr out, u)))"
  using assms
  by (simp add: execute_tool_def act_simps Let_def)
    (auto simp: act_bind_def act_ret_def split: prod.splits sum.splits option.splits)

lemma execute_tool_cases:
  assumes "execute_tool E tools name version raw rc key ok w = (res, w')"
  shows "only_audited w w' \<and> (\<forall>out. res = Inr out \<longrightarrow>
        (\<exists>tool input k x. registry_resolve ''tool'' tools (name, version) = Inr tool \<and> rt_input_model tool raw = Some input
          \<and> key = Some k \<and> k \<noteq> '''' \<and> stored_success rc name k (w_committed w) = Some x
          \<and> te_input_hash x = canonical_hash E input
          \<and> rt_output_model tool (case te_output x of None \<Rightarrow> [] | Some d \<Rightarrow> d) = Some out))
    \<or> (\<exists>tool input v. registry_resolve ''tool'' tools (name, version) = Inr tool \<and> rt_input_model tool raw = Some input
         \<and> tool_allowed (rt_definition tool) rc key ok
         \<and> (\<forall>k. key = Some k \<and> k \<noteq> '''' \<longrightarrow> stored_success rc name k (w_committed w) = None)
         \<and> only_audited w v
         \<and> run_tool E tool name version rc input (canonical_hash E input) key v = (res, w'))"
proof (cases "registry_resolve ''tool'' tools (name, version)")
  case (Inl e)
  then show ?thesis using assms by (auto simp: execute_tool_def act_simps)
next
  case tool: (Inr tool)
  show ?thesis
  proof (cases "rt_input_model tool raw")
    case None
    then show ?thesis using assms tool by (auto simp: execute_tool_def act_simps)
  next
    case input: (Some input)
    let ?h = "canonical_hash E input" and ?d = "rt_definition tool"
    obtain p v1 where p: "check_policy E ?d rc ?h key ok w = (p, v1)" by fastforce
    have a1: "only_audited w v1" using p by (rule check_policy_audits)
    note eq = execute_tool_eq [OF tool input, of E rc key ok w, unfolded assms p]
    show ?thesis
    proof (cases p)
      case (Inl e)
      then show ?thesis using eq a1 by auto
    next
      case (Inr u)
      have allowed: "tool_allowed ?d rc key ok" and v1: "v1 = w"
        using check_policy_Inr [OF p [unfolded Inr]] by (auto simp: tool_allowed_def missing_scopes_def)
      obtain q v2 where q: "replay E tool name rc ?h key w = (q, v2)" by fastforce
      have a2: "only_audited w v2" using q replay_audits by blast
      show ?thesis
      proof (cases q)
        case (Inl e)
        then show ?thesis using eq Inr v1 q a2 by auto
      next
        case r: (Inr stored)
        show ?thesis
          using eq Inr v1 q a2 r tool input allowed replay_Inr [OF q [unfolded r]]
          by (cases stored) auto
      qed
    qed
  qed
qed

text \<open>C10: A tool runs only when policy lets it. Whatever the outcome of a call, either the world changed by
  audit entries alone and the tool's handler was not run, or the tool is registered, the run holds every scope
  it requires, a human approved it if it is critical or always needs approval, an idempotency key came with
  an external effect, nothing has succeeded under that key before, and the rest is the execution itself.\<close>

theorem tool_policy_enforced:
  assumes "execute_tool E tools name version raw rc key ok w = (res, w')"
  shows "only_audited w w'
    \<or> (\<exists>tool input v. registry_resolve ''tool'' tools (name, version) = Inr tool \<and> rt_input_model tool raw = Some input
         \<and> tool_allowed (rt_definition tool) rc key ok
         \<and> (\<forall>k. key = Some k \<and> k \<noteq> '''' \<longrightarrow> stored_success rc name k (w_committed w) = None)
         \<and> only_audited w v
         \<and> run_tool E tool name version rc input (canonical_hash E input) key v = (res, w'))"
  using execute_tool_cases [OF assms] by blast

lemma attempt_loop_output:
  "attempt_loop tool input rc allowed n err0 w = (Inr (n', Inr out), w') \<Longrightarrow> \<exists>raw. rt_output_model tool raw = Some out"
proof (induction tool input rc allowed n err0 w rule: attempt_loop.induct)
  case (1 tool input rc allowed n err0 w)
  show ?case
    using "1.prems" "1.IH"
    by (subst (asm) attempt_loop.simps)
      (auto split: if_splits prod.splits sum.splits option.splits)
qed

lemma record_execution_Inr:
  "record_execution E rc x w = (Inr u, w') \<Longrightarrow> te_tenant_id x = rc_tenant_id rc \<and>
     (succeeded_key x = None \<or> succeeded_key x \<notin> succeeded_key ` set (t_tool_executions (w_committed w)))
     \<and> t_tool_executions (w_committed w') = t_tool_executions (w_committed w) @ [x]"
  by (auto simp: record_execution_def run_simps tool_executions_insert_def)

lemma find_snoc_new: "p y \<Longrightarrow> \<forall>x \<in> set xs. \<not> p x \<Longrightarrow> find p (xs @ [y]) = Some y"
  by (induction xs) auto

lemma succeeded_key_Some: "succeeded_key x = Some (t, name, k) \<longleftrightarrow>
    te_tenant_id x = t \<and> te_tool_name x = name \<and> te_idempotency_key x = Some k \<and> te_status x = ''succeeded''"
  by (auto simp: succeeded_key_def split: option.splits)

lemma stored_success_key:
  "stored_success rc name k d = find (\<lambda>x. succeeded_key x = Some (rc_tenant_id rc, name, k)) (t_tool_executions d)"
  by (simp add: stored_success_def find_filter succeeded_key_Some)

lemma stored_success_snoc:
  assumes "succeeded_key x = Some (rc_tenant_id rc, name, k)"
    "succeeded_key x \<notin> succeeded_key ` set (t_tool_executions d)"
    "t_tool_executions d' = t_tool_executions d @ [x]"
  shows "stored_success rc name k d' = Some x"
  unfolding stored_success_key assms(3)
  by (rule find_snoc_new) (use assms(1,2) in \<open>auto simp: image_iff\<close>)

lemma find_append_Some: "find p xs = Some x \<Longrightarrow> find p (xs @ ys) = Some x"
  by (induction xs) auto

lemma stored_success_later:
  "stored_success rc name k d = Some x \<Longrightarrow> t_tool_executions d' = t_tool_executions d @ later \<Longrightarrow>
     rc_tenant_id rc' = rc_tenant_id rc \<Longrightarrow> stored_success rc' name k d' = Some x"
  by (simp add: stored_success_def find_append_Some)

lemma settle_success_stored:
  assumes "settle_success E d name version rc h (Some k) n st fi out w = (Inr out', w')"
  shows "out' = out \<and> (\<exists>x. stored_success rc name k (w_committed w') = Some x \<and> te_input_hash x = h
    \<and> te_output x = Some out)"
proof -
  from assms obtain i v u v0 where
    rec: "record_execution E rc (execution_of i rc name version ''succeeded'' h
         (Some (canonical_hash E out, out)) (Some k) None n st fi) v0 = (Inr u, v)"
    and aud: "\<exists>r. audit_tool E rc ''tool.executed'' d h ''allow''
         [(''output_hash'', JStr (canonical_hash E out)), (''attempts'', JInt n)] v = (r, w')" and "out' = out"
    unfolding settle_success_def run_bind run_basic by blast
  let ?x = "execution_of i rc name version ''succeeded'' h (Some (canonical_hash E out, out)) (Some k) None n st fi"
  have key: "succeeded_key ?x = Some (rc_tenant_id rc, name, k)"
    by (simp add: succeeded_key_def execution_of_def)
  have "stored_success rc name k (w_committed v) = Some ?x"
    by (rule stored_success_snoc) (use key record_execution_Inr [OF rec] in auto)
  moreover have "t_tool_executions (w_committed w') = t_tool_executions (w_committed v) @ []"
    using aud audit_tool_audits only_audited_executions by fastforce
  ultimately have "stored_success rc name k (w_committed w') = Some ?x"
    using stored_success_later by blast
  then show ?thesis using \<open>out' = out\<close> by (auto simp: execution_of_def)
qed

lemma settle_failure_raises: "\<exists>e w'. settle_failure E d name version rc input h key n st fi err w = (Inl e, w')"
  by (auto simp: settle_failure_def act_bind_def act_raise_def act_lift_def act_some_def
      split: prod.splits sum.splits option.splits)

lemma run_tool_stored:
  assumes "run_tool E tool name version rc input h (Some k) w = (Inr out, w')"
  shows "\<exists>x raw. stored_success rc name k (w_committed w') = Some x \<and> te_input_hash x = h
    \<and> te_output x = Some out \<and> rt_output_model tool raw = Some out"
proof -
  from assms obtain st v1 p v2 where
    "attempt_loop tool input rc (attempts_allowed (rt_definition tool)) 0 None v1 = (Inr p, v2)"
    and "(case p of (n, oc) \<Rightarrow> act_bind (clock_now E) (\<lambda>fi.
       case oc of
         Inl last_error \<Rightarrow> settle_failure E (rt_definition tool) name version rc input h (Some k) n st fi last_error
       | Inr out \<Rightarrow> settle_success E (rt_definition tool) name version rc h (Some k) n st fi out)) v2 = (Inr out, w')"
    unfolding run_tool_def run_bind by blast
  then obtain n oc fi v3 where
    loop: "attempt_loop tool input rc (attempts_allowed (rt_definition tool)) 0 None v1 = (Inr (n, oc), v2)"
    and rest: "(case oc of
         Inl last_error \<Rightarrow> settle_failure E (rt_definition tool) name version rc input h (Some k) n st fi last_error
       | Inr out \<Rightarrow> settle_success E (rt_definition tool) name version rc h (Some k) n st fi out) v3 = (Inr out, w')"
    by (cases p) (auto simp: run_bind)
  show ?thesis
  proof (cases oc)
    case (Inl e)
    then show ?thesis using rest settle_failure_raises by (metis Inl_Inr_False prod.inject sum.simps(5))
  next
    case (Inr o')
    then show ?thesis using rest loop settle_success_stored attempt_loop_output by fastforce
  qed
qed

text \<open>What a returned call leaves behind, and what a stored success makes of a call.\<close>

lemma execute_tool_stored:
  assumes run: "execute_tool E tools name version raw rc (Some k) ok w = (Inr out, w1)" and "k \<noteq> ''''"
    and idem: "\<And>tool d e. registry_resolve ''tool'' tools (name, version) = Inr tool \<Longrightarrow>
           rt_output_model tool d = Some e \<Longrightarrow> rt_output_model tool e = Some e"
  shows "\<exists>tool x. registry_resolve ''tool'' tools (name, version) = Inr tool
      \<and> stored_success rc name k (w_committed w1) = Some x
      \<and> rt_output_model tool (case te_output x of None \<Rightarrow> [] | Some d \<Rightarrow> d) = Some out"
  using execute_tool_cases [OF run]
proof (elim disjE conjE exE)
  fix tool input v
  assume tool: "registry_resolve ''tool'' tools (name, version) = Inr tool"
    and "run_tool E tool name version rc input (canonical_hash E input) (Some k) v = (Inr out, w1)"
  from run_tool_stored [OF this(2)] obtain x raw' where x: "stored_success rc name k (w_committed w1) = Some x"
    "te_output x = Some out" "rt_output_model tool raw' = Some out" by blast
  then show ?thesis using tool idem [OF tool x(3)] by (intro exI [of _ tool] exI [of _ x]) simp
next
  assume audited: "only_audited w w1"
    and "\<forall>o'. Inr out = Inr o' \<longrightarrow>
      (\<exists>tool input k' x. registry_resolve ''tool'' tools (name, version) = Inr tool \<and> rt_input_model tool raw = Some input
        \<and> Some k = Some k' \<and> k' \<noteq> '''' \<and> stored_success rc name k' (w_committed w) = Some x
        \<and> te_input_hash x = canonical_hash E input
        \<and> rt_output_model tool (case te_output x of None \<Rightarrow> [] | Some d \<Rightarrow> d) = Some o')"
  then obtain tool x where t: "registry_resolve ''tool'' tools (name, version) = Inr tool"
    "stored_success rc name k (w_committed w) = Some x"
    "rt_output_model tool (case te_output x of None \<Rightarrow> [] | Some d \<Rightarrow> d) = Some out" by blast
  have "t_tool_executions (w_committed w1) = t_tool_executions (w_committed w) @ []"
    using only_audited_executions [OF audited] by simp
  from stored_success_later [OF t(2) this refl] t show ?thesis by blast
qed

lemma execute_tool_replays:
  assumes run: "execute_tool E tools name version raw rc (Some k) ok w = (res, w')" and "k \<noteq> ''''"
    and x: "stored_success rc name k (w_committed w) = Some x"
  shows "only_audited w w' \<and> (\<forall>out. res = Inr out \<longrightarrow> (\<exists>tool. registry_resolve ''tool'' tools (name, version) = Inr tool
      \<and> rt_output_model tool (case te_output x of None \<Rightarrow> [] | Some d \<Rightarrow> d) = Some out))"
  using execute_tool_cases [OF run]
proof (elim disjE conjE exE)
  assume "\<forall>k'. Some k = Some k' \<and> k' \<noteq> '''' \<longrightarrow> stored_success rc name k' (w_committed w) = None"
  then show ?thesis using assms by simp
next
  assume "only_audited w w'" and "\<forall>o'. res = Inr o' \<longrightarrow>
      (\<exists>tool input k' x. registry_resolve ''tool'' tools (name, version) = Inr tool \<and> rt_input_model tool raw = Some input
        \<and> Some k = Some k' \<and> k' \<noteq> '''' \<and> stored_success rc name k' (w_committed w) = Some x
        \<and> te_input_hash x = canonical_hash E input
        \<and> rt_output_model tool (case te_output x of None \<Rightarrow> [] | Some d \<Rightarrow> d) = Some o')"
  then show ?thesis using x by (metis option.inject)
qed

text \<open>C6: A call that returned is not repeated. After a call under an idempotency key has returned, every later call
  of the tool under that key in the same tenant, whoever makes it and however many other executions were recorded in
  between, adds audit entries and nothing else; and if it returns, it returns what the first call returned (a different
  payload is refused). Nothing is said of calls that raise: within one call an idempotent tool is tried again after a
  timeout, and a call that failed before its execution was recorded runs the tool anew. The output models are assumed
  to accept what they have dumped.\<close>

theorem tool_runs_once_per_key:
  assumes "execute_tool E tools name version raw rc (Some k) ok w = (Inr out, w1)" "k \<noteq> ''''"
    and "t_tool_executions (w_committed w2) = t_tool_executions (w_committed w1) @ later"
    and "execute_tool E tools name version raw' rc' (Some k) ok' w2 = (res, w3)" "rc_tenant_id rc' = rc_tenant_id rc"
    and "\<And>tool d e. registry_resolve ''tool'' tools (name, version) = Inr tool \<Longrightarrow>
           rt_output_model tool d = Some e \<Longrightarrow> rt_output_model tool e = Some e"
  shows "only_audited w2 w3 \<and> (\<forall>out'. res = Inr out' \<longrightarrow> out' = out)"
proof -
  obtain tool x where tool: "registry_resolve ''tool'' tools (name, version) = Inr tool"
    and x: "stored_success rc name k (w_committed w1) = Some x"
    and out: "rt_output_model tool (case te_output x of None \<Rightarrow> [] | Some d \<Rightarrow> d) = Some out"
    using execute_tool_stored [OF assms(1,2)] assms(6) by blast
  have "stored_success rc' name k (w_committed w2) = Some x"
    using x assms(3,5) by (rule stored_success_later)
  from execute_tool_replays [OF assms(4,2) this] show ?thesis using tool out by simp
qed

lemma attempt_loop_calls:
  assumes "\<And>i c v. calls (snd (rt_handler tool i c v)) = calls v + (1::int)"
  shows "n \<le> allowed \<Longrightarrow> attempt_loop tool input rc allowed n err0 w = (r, w') \<Longrightarrow>
     0 \<le> calls w' - calls w \<and> calls w' - calls w \<le> allowed - n \<and> (n < allowed \<longrightarrow> 1 \<le> calls w' - calls w)
     \<and> (\<forall>n' oc. r = Inr (n', oc) \<longrightarrow> n' - n = calls w' - calls w)"
proof (induction "nat (allowed - n)" arbitrary: n err0 w)
  case 0
  then show ?case by (subst (asm) attempt_loop.simps) auto
next
  case (Suc left)
  obtain a v where h: "rt_handler tool input rc w = (a, v)" by fastforce
  have c: "calls v = calls w + 1" using assms [of input rc w] h by simp
  have lt: "n < allowed" using Suc.hyps(2) by simp
  note step = Suc.prems(2) [unfolded attempt_loop.simps [of tool input rc allowed n err0 w] h, simplified lt, simplified]
  show ?case
  proof (cases "\<exists>e. a = Inl e \<and> (err_class e = PyTimeoutError \<or> is_infrastructure_error (err_class e))")
    case True
    then obtain e where "attempt_loop tool input rc allowed (n + 1) (Some e) v = (r, w')"
      using step by auto
    moreover have "left = nat (allowed - (n + 1))" "n + 1 \<le> allowed" using Suc.hyps(2) lt by auto
    ultimately show ?thesis using Suc.hyps(1) [of "n + 1" "Some e" v] lt c by force
  next
    case False
    then show ?thesis using step c lt by (auto split: sum.splits option.splits if_splits)
  qed
qed

text \<open>Attempts are bounded. Whatever a tool's handler does, one call of the executor runs it at least
  once and, if the tool is not declared idempotent, exactly once; a tool that is runs at most its
  retries more, never over eleven times; and the number the execution record carries is the
  number of times it ran. (\<open>calls\<close> is any count the handler advances by one.)\<close>

theorem tool_attempts_bounded:
  assumes "mk_ToolDefinition (rt_definition tool) = Inr d"
    and "\<And>i c v. calls (snd (rt_handler tool i c v)) = calls v + (1::int)"
    and "attempt_loop tool input rc (attempts_allowed (rt_definition tool)) 0 None w = (r, w')"
  shows "1 \<le> calls w' - calls w
    \<and> calls w' - calls w \<le> (if td_idempotent (rt_definition tool) then 1 + td_max_retries (rt_definition tool) else 1)
    \<and> calls w' - calls w \<le> 11 \<and> (\<forall>n oc. r = Inr (n, oc) \<longrightarrow> n = calls w' - calls w)"
proof -
  have "0 \<le> td_max_retries (rt_definition tool) \<and> td_max_retries (rt_definition tool) \<le> 10"
    using assms(1) by (auto simp: mk_ToolDefinition_def invalid_model_def split: if_splits)
  then show ?thesis
    using attempt_loop_calls [OF assms(2) _ assms(3)] by (auto simp: attempts_allowed_def split: if_splits)
qed

text \<open>A task connector: a tool with an external effect, which sends a message and says so.\<close>

definition demo_tool :: RegisteredTool where
  "demo_tool = \<lparr>rt_definition = \<lparr>td_name = ''task.create'', td_version = ''1.0.0'',
       td_required_scopes = {''tools.task''}, td_side_effect_level = SE_EXTERNAL,
       td_approval_policy = POLICY_NEVER, td_timeout_seconds = 30, td_max_retries = 2, td_idempotent = True\<rparr>,
     rt_input_model = Some, rt_output_model = Some,
     rt_handler = (\<lambda>d rc w. (Inr [(''task_id'', JStr ''T-1'')],
        w\<lparr>w_emails := \<lparr>em_subject = JNull, em_body = JObj d, em_to = ''board''\<rparr> # w_emails w\<rparr>))\<rparr>"

definition demo_run :: RunContext where
  "demo_run = \<lparr>rc_run_id = ''r1'', rc_tenant_id = ''t1'', rc_workspace_id = ''w1'', rc_actor_id = ''u1'',
     rc_worker_id = ''prep'', rc_worker_version = ''1.0.0'', rc_channel = ''web'', rc_plan_id = ''professional'',
     rc_roles = {}, rc_scopes = {''tools.task''}, rc_trace_id = ''tr'', rc_locale = ''vi-VN''\<rparr>"

lemma demo_tool_sel [evaluation]:
  "td_required_scopes (rt_definition demo_tool) = {''tools.task''}" "td_name (rt_definition demo_tool) = ''task.create''"
  "td_version (rt_definition demo_tool) = ''1.0.0''" "td_side_effect_level (rt_definition demo_tool) = SE_EXTERNAL"
  "td_approval_policy (rt_definition demo_tool) = POLICY_NEVER" "attempts_allowed (rt_definition demo_tool) = 3"
  "rt_input_model demo_tool = Some" "rt_output_model demo_tool = Some"
  by (simp_all add: demo_tool_def attempts_allowed_def)

lemma demo_run_sel [evaluation]:
  "rc_tenant_id demo_run = ''t1''" "rc_workspace_id demo_run = ''w1''" "rc_actor_id demo_run = ''u1''"
  "rc_run_id demo_run = ''r1''" "rc_scopes demo_run = {''tools.task''}" "rc_trace_id demo_run = ''tr''"
  "rc_worker_id demo_run = ''prep''" "rc_worker_version demo_run = ''1.0.0''"
  "access_context_from_run demo_run = Inr (demo_ctx ''u1'' [] [''tools.task''])"
  by (simp_all add: demo_run_def access_context_from_run_def mk_AccessContext_def demo_ctx_def py_strip_def
      py_lstrip_def py_rstrip_def py_isspace_def)

lemma demo_ctx_tenant [evaluation]: "x_tenant_id (demo_ctx u rs ss) = ''t1''"
  by (simp add: demo_ctx_def)

lemma demo_tool_valid: "\<exists>d. mk_ToolDefinition (rt_definition demo_tool) = Inr d"
proof -
  have "is_semver ''1.0.0''" by code_simp
  then show ?thesis by (simp add: demo_tool_def mk_ToolDefinition_def)
qed

theorem tool_attempts_bounded_witness:
  "int (length (w_emails (snd (attempt_loop demo_tool [] demo_run (attempts_allowed (rt_definition demo_tool)) 0 None
     (start_world empty_db))))) - 0 \<le> 3"
proof -
  obtain d where "mk_ToolDefinition (rt_definition demo_tool) = Inr d" using demo_tool_valid by blast
  from tool_attempts_bounded [OF this, of "\<lambda>w. int (length (w_emails w))" "[]" demo_run "start_world empty_db",
      OF _ surjective_pairing]
  show ?thesis by (simp add: demo_tool_def start_world_sel)
qed

definition demo_tools :: "RegisteredTool registry" where
  "demo_tools = [((''task.create'', ''1.0.0''), demo_tool)]"

theorem tool_runs_once_per_key_witness:
  "\<exists>out w1. execute_tool demo_env demo_tools ''task.create'' ''1.0.0'' [] demo_run (Some ''k1'') False (start_world empty_db) = (Inr out, w1)
     \<and> only_audited w1 (snd (execute_tool demo_env demo_tools ''task.create'' ''1.0.0'' [] demo_run (Some ''k1'') False w1))"
proof -
  let ?run = "execute_tool demo_env demo_tools ''task.create'' ''1.0.0'' [] demo_run (Some ''k1'') False (start_world empty_db)"
  have reg: "registry_resolve ''tool'' demo_tools (''task.create'', ''1.0.0'') = Inr demo_tool"
    by (simp add: registry_resolve_def demo_tools_def)
  have loop: "attempt_loop demo_tool i demo_run 3 0 None v
      = (Inr (1, Inr [(''task_id'', JStr ''T-1'')]), v\<lparr>w_emails := \<lparr>em_subject = JNull, em_body = JObj i, em_to = ''board''\<rparr> # w_emails v\<rparr>)" for i v
    by (subst attempt_loop.simps) (simp add: demo_tool_def)
  have none: "t_tool_executions empty_db = []" "t_audit empty_db = []" by (simp_all add: empty_db_def)
  have "ran_ok ?run"
    by (simp add: evaluation none execute_tool_def reg check_policy_def missing_scopes_def requires_approval_def
        replay_def find_succeeded_def tool_executions_find_def in_uow_def commit_def
        run_tool_def clock_now_def new_uuid_def loop settle_success_def record_execution_def
        tool_executions_insert_def insert_row_def execution_of_def audit_tool_def mk_AuditEvent_def
        run_event_def append_event_def audit_append_def cong: act_bind_weak)
  then obtain out w1 where run: "?run = (Inr out, w1)" using ran_ok_elim by blast
  have "rt_output_model tool d = Some e \<Longrightarrow> rt_output_model tool e = Some e"
    if "registry_resolve ''tool'' demo_tools (''task.create'', ''1.0.0'') = Inr tool" for tool d e
    using that reg by (simp add: evaluation)
  then show ?thesis
    using tool_runs_once_per_key [OF run, of w1 "[]" "[]" demo_run False] run
    by (metis append_Nil2 list.distinct(1) surjective_pairing)
qed

subsection \<open>Decisions\<close>

text \<open>What a checkpoint asks of the person who decides it.\<close>

definition may_decide :: "env \<Rightarrow> AccessContext \<Rightarrow> string \<Rightarrow> ApprovalRequest \<Rightarrow> bool" where
  "may_decide E x comment r =
     (r_status r = AP_PENDING \<and> (required_role E r = '''' \<or> required_role E r \<in> x_roles x)
      \<and> \<not> (is_preparation r \<and> (r_requested_by r = x_principal_id x \<or> py_strip comment = '''')))"

text \<open>What the decision writes.\<close>

definition decided_db :: "ApprovalRequest \<Rightarrow> ApprovalDecision \<Rightarrow> db \<Rightarrow> db" where
  "decided_db r d db0 = db0\<lparr>
     t_approvals := update_where (approval_update_hits (r_tenant_id r) r) (approval_update_row r) (t_approvals db0),
     t_decisions := t_decisions db0 @ [d]\<rparr>"

lemma get_approval_row: "get_approval i w = Some r \<Longrightarrow> r \<in> set (t_approvals (w_db w)) \<and> r_id r = i \<and> r_tenant_id r = w_tenant w"
  by (auto simp: get_approval_def approval_visible_def dest: find_Some_in)

lemma atomic_decide_tx: "atomic (decide_tx E i approve comment x)"
  unfolding decide_tx_def by (intro atomic_rules)

lemma decide_tx_run:
  assumes "decide_tx E i approve comment x w = (Inr r', v)"
  shows "\<exists>r d n. get_approval i w = Some r \<and> may_decide E x comment r
    \<and> decide_request r n (x_principal_id x) (if approve then DO_APPROVED else DO_REJECTED)
       (env_clock E (w_ticks w)) comment = Inr (r', d)
    \<and> w_committed v = decided_db r' d (w_db w)"
proof -
  from assms obtain r p n where r: "get_approval i w = Some r"
    and ok: "\<not> (is_preparation r \<and> r_requested_by r = x_principal_id x)"
      "required_role E r = '''' \<or> required_role E r \<in> x_roles x" "\<not> (is_preparation r \<and> py_strip comment = '''')"
    and dec: "decide_request r n (x_principal_id x) (if approve then DO_APPROVED else DO_REJECTED)
       (env_clock E (w_ticks w)) comment = Inr p"
    and rest: "(case p of (r2, d) \<Rightarrow> act_bind (approvals_save r2) (\<lambda>_. act_bind (approvals_add_decision d) (\<lambda>_.
        act_bind commit (\<lambda>_. act_ret r2)))) (w\<lparr>w_fresh := Suc (w_fresh w), w_ticks := Suc (w_ticks w)\<rparr>) = (Inr r', v)"
    by (auto simp: decide_tx_def run_bind run_basic run_queries run_ports)
  obtain r2 d where p: "p = (r2, d)" by (cases p)
  have "r2 = r'" and w: "w_db v = decided_db r2 d (w_db w)" "w_committed v = w_db v"
    using rest p dec get_approval_row [OF r]
    by (auto simp: run_simps approvals_add_decision_def decided_db_def decide_request_Inr)
  moreover have "may_decide E x comment r" using ok dec p by (auto simp: may_decide_def decide_request_Inr)
  ultimately show ?thesis using r dec [unfolded p] by fastforce
qed

lemma decide_checkpoint_cases:
  assumes "decide_checkpoint E graphs i approve comment x channel ids reason_code w = (res, w')"
  shows "(\<exists>e. res = Inl e) \<and> w_committed w' = w_committed w
    \<or> (\<exists>r r' d n v. may x ''approvals.decide'' \<and> get_approval i (session_start (x_tenant_id x) w) = Some r
         \<and> may_decide E x comment r
         \<and> decide_request r n (x_principal_id x) (if approve then DO_APPROVED else DO_REJECTED)
             (env_clock E (w_ticks w)) comment = Inr (r', d)
         \<and> w_committed v = decided_db r' d (w_committed w)
         \<and> (res, w') = (case r_run_id r' of None \<Rightarrow> (Inr r', v)
             | Some run \<Rightarrow> act_bind (wake_run E graphs x channel run
                   (resume_payload approve comment (x_principal_id x) reason_code ids)) (\<lambda>_. act_ret r') v))"
proof (cases "may x ''approvals.decide''")
  case False
  then show ?thesis using assms
    by (auto simp: decide_checkpoint_def act_bind_def authorize_def act_lift_def require_action_def is_allowed_def may_def)
next
  case may: True
  let ?tx = "in_uow E (x_tenant_id x) (decide_tx E i approve comment x)"
  have auth: "authorize x ''approvals.decide'' w = (Inr (), w)" using may by (simp add: run_authorize)
  obtain q v where q: "?tx w = (q, v)" by fastforce
  have eq: "(res, w') = (case q of Inl e \<Rightarrow> (Inl e, v) | Inr r' \<Rightarrow>
      (case r_run_id r' of None \<Rightarrow> (Inr r', v)
             | Some run \<Rightarrow> act_bind (wake_run E graphs x channel run
                   (resume_payload approve comment (x_principal_id x) reason_code ids)) (\<lambda>_. act_ret r') v))"
    using assms q auth
    by (auto simp: decide_checkpoint_def act_bind_cong_world act_ret_def
        act_bind_def [of ?tx] split: sum.splits option.splits)
  show ?thesis
  proof (cases q)
    case (Inl e)
    then show ?thesis using eq q atomic_in_uow [OF atomic_decide_tx] by (auto simp: atomic_def)
  next
    case (Inr r')
    with q obtain u where u: "decide_tx E i approve comment x (session_start (x_tenant_id x) w) = (Inr r', u)"
      and v: "v = u\<lparr>w_db := w_committed u\<rparr>" by (auto simp: run_in_uow)
    from decide_tx_run [OF u] obtain r d n where
      r: "get_approval i (session_start (x_tenant_id x) w) = Some r" "may_decide E x comment r"
      and dec: "decide_request r n (x_principal_id x) (if approve then DO_APPROVED else DO_REJECTED)
         (env_clock E (w_ticks w)) comment = Inr (r', d)"
      and db: "w_committed u = decided_db r' d (w_committed w)"
      unfolding session_start_sel by blast
    show ?thesis
      using may r dec db v eq Inr
      by (intro disjI2 exI [of _ r] exI [of _ r'] exI [of _ d] exI [of _ n] exI [of _ v] conjI) simp_all
  qed
qed

text \<open>C1: Who decides a checkpoint. A call of the decision service either raises and commits nothing, or the
  checkpoint was visible and pending, the person may decide approvals and holds the role the checkpoint is reserved for,
  if any; and where it is a checkpoint of a preparation (\<open>preparation.*\<close>; other approvals have no such rule) the person
  is not its requester and left a comment. Exactly the request and one decision in that person's name are then written,
  and what follows is the run waking up on that database, if the checkpoint paused one.\<close>

theorem checkpoint_authority:
  assumes "decide_checkpoint E graphs i approve comment x channel ids reason_code w = (res, w')"
  shows "(\<exists>e. res = Inl e) \<and> w_committed w' = w_committed w
    \<or> (\<exists>r r' d n v. may x ''approvals.decide'' \<and> get_approval i (session_start (x_tenant_id x) w) = Some r
         \<and> may_decide E x comment r
         \<and> decide_request r n (x_principal_id x) (if approve then DO_APPROVED else DO_REJECTED)
             (env_clock E (w_ticks w)) comment = Inr (r', d)
         \<and> w_committed v = decided_db r' d (w_committed w)
         \<and> (res, w') = (case r_run_id r' of None \<Rightarrow> (Inr r', v)
             | Some run \<Rightarrow> act_bind (wake_run E graphs x channel run
                   (resume_payload approve comment (x_principal_id x) reason_code ids)) (\<lambda>_. act_ret r') v))"
  using assms by (rule decide_checkpoint_cases)

subsection \<open>Runs\<close>

lemma audit_run_audits:
  assumes "audit_run E rc a res ds w = (r, w')"
  shows "only_audited w w'"
proof -
  let ?v = "w\<lparr>w_fresh := Suc (w_fresh w), w_ticks := Suc (w_ticks w)\<rparr>"
  have v: "only_audited w ?v" by (simp add: only_audited_refl)
  have "w' = w \<or> w' = ?v \<or> (\<exists>x e q. append_event E x e ?v = (q, w'))"
    using assms
    by (auto simp: audit_run_def act_bind_def act_lift_def new_uuid_def clock_now_def
        split: sum.splits prod.splits)
  then show ?thesis using v append_event_audits only_audited_trans by (metis only_audited_self)
qed

lemma run_create_Inr:
  "run_create E rc gv input man w = (Inr u, w') \<Longrightarrow>
     w_committed w' = (w_committed w)\<lparr>t_runs := t_runs (w_committed w) @ [run_row rc gv input man]\<rparr>"
  by (auto simp: run_create_def run_simps runs_insert_def)

lemma run_set_status_Inr:
  "run_set_status E rc i st j1 j2 ap w = (Inr u, w') \<Longrightarrow>
     w_committed w' = (w_committed w)\<lparr>t_runs :=
       update_where (run_hits (rc_tenant_id rc) i) (run_status_row st j1 j2 ap) (t_runs (w_committed w))\<rparr>"
  by (auto simp: run_set_status_def run_simps runs_update_def)

lemma access_context_tenant: "access_context_from_run rc = Inr x \<Longrightarrow> x_tenant_id x = rc_tenant_id rc"
  by (auto simp: access_context_from_run_def mk_AccessContext_def split: if_splits)

lemma create_approval_Inr:
  assumes "create_approval E rc run payload w = (Inr i, w')"
  shows "\<exists>now. w_committed w' = (w_committed w)\<lparr>t_approvals :=
      t_approvals (w_committed w) @ [checkpoint_request E i now rc run payload]\<rparr>"
proof -
  have same: "q\<lparr>r_decided_at := None\<rparr> = q" if "r_decided_at q = None" for q :: ApprovalRequest
    using that by simp
  from assms show ?thesis
    by (auto simp: create_approval_def run_simps approvals_add_def same checkpoint_request_def
        dest!: access_context_tenant)
qed

text \<open>Where a run stands once its graph has stopped.\<close>

definition run_settled :: "RunContext \<Rightarrow> uuid \<Rightarrow> db \<Rightarrow> bool" where
  "run_settled rc run d =
     (\<exists>row \<in> set (t_runs d). run_hits (rc_tenant_id rc) run row
        \<and> (wr_status row = RS_COMPLETED \<and> wr_result row \<noteq> None
           \<or> wr_status row = RS_WAITING_APPROVAL
             \<and> (\<exists>q \<in> set (t_approvals d). wr_approval_request_id row = Some (r_id q) \<and> r_run_id q = Some run
                  \<and> r_status q = AP_PENDING \<and> r_requested_by q = rc_actor_id rc
                  \<and> r_tenant_id q = rc_tenant_id rc)))"

lemma run_settled_audited: "only_audited w w' \<Longrightarrow> run_settled rc run (w_committed w') = run_settled rc run (w_committed w)"
  by (auto simp: only_audited_def run_settled_def)

lemma updated_row: "row \<in> set rows \<Longrightarrow> p row \<Longrightarrow> f row \<in> set (update_where p f rows)"
  by (force simp: update_where_def)

lemma run_set_status_raises: "run_set_status E rc i st j1 j2 ap w = (Inl e, w') \<Longrightarrow> w_committed w' = w_committed w"
proof -
  have "atomic (run_set_status E rc i st j1 j2 ap)"
    unfolding run_set_status_def by (intro atomic_in_uow atomic_rules)
  then show "run_set_status E rc i st j1 j2 ap w = (Inl e, w') \<Longrightarrow> w_committed w' = w_committed w"
    by (simp add: atomic_def)
qed

lemma create_approval_runs:
  assumes "create_approval E rc run payload w = (r, w')"
  shows "t_runs (w_committed w') = t_runs (w_committed w)"
proof -
  have add: "keeps (sess (runs_are rs) t) (act_bind (act_get (\<lambda>w. env_clock E (w_ticks w))) (\<lambda>now.
      act_bind (approvals_add (checkpoint_request E i now rc run payload)) (\<lambda>_. commit)))" for rs t i
    by (intro keeps_bind keeps_get keeps_commit run_table.keeps_approvals_add)
  have uow: "durable (runs_are rs) t (in_uow E t' m)" if "keeps (sess (runs_are rs) t') m" for rs t t' and m :: "'z handler"
    using durable_in_uow [OF that, of E] by (simp add: durable_def runs_are_def)
  have "durable (runs_are rs) t (create_approval E rc run payload)" for rs t
    unfolding create_approval_def
    by (intro durable_bind durable_ret durable_ports durable_lift uow add)
  from this [of "t_runs (w_committed w)" undefined] have
      "t_runs (w_committed (snd (create_approval E rc run payload w))) = t_runs (w_committed w)"
    by (simp add: durable_def keeps_def runs_are_def)
  then show ?thesis using assms by simp
qed

lemma outcome_recorded:
  assumes "handle_outcome E rc run outcome w = (r, w')"
    and row: "row \<in> set (t_runs (w_committed w))" "run_hits (rc_tenant_id rc) run row"
  shows "(\<exists>e. r = Inl e) \<and> t_runs (w_committed w') = t_runs (w_committed w) \<or> run_settled rc run (w_committed w')"
proof (cases outcome)
  case (Finished state)
  let ?set = "run_set_status E rc run RS_COMPLETED (Some (jsonable (JObj state))) None None"
  obtain q v where q: "?set w = (q, v)" by fastforce
  show ?thesis
  proof (cases q)
    case (Inl e)
    then show ?thesis using assms(1) q run_set_status_raises by (fastforce simp: Finished handle_outcome_def act_bind_def)
  next
    case (Inr u)
    have st: "?set w = (Inr (), v)" and aud: "only_audited v w'"
      using assms(1) q Inr by (auto simp: Finished handle_outcome_def act_bind_def dest: audit_run_audits)
    let ?row = "run_status_row RS_COMPLETED (Some (jsonable (JObj state))) None None row"
    have "?row \<in> set (t_runs (w_committed v))"
      using run_set_status_Inr [OF st] updated_row [of row _ "run_hits (rc_tenant_id rc) run", OF row] by simp
    then have "run_settled rc run (w_committed v)"
      using row(2) unfolding run_settled_def
      by (intro bexI [of _ ?row]) (simp_all add: run_status_row_def run_hits_def or_else_def)
    then show ?thesis using run_settled_audited [OF aud] by simp
  qed
next
  case (Interrupted iv)
  obtain z v1 where app: "create_approval E rc run (interrupt_payload iv) w = (z, v1)" by fastforce
  note same = create_approval_runs [OF app]
  show ?thesis
  proof (cases z)
    case (Inl e)
    then show ?thesis using assms(1) app same by (auto simp: Interrupted handle_outcome_def act_bind_def)
  next
    case (Inr i)
    let ?set = "run_set_status E rc run RS_WAITING_APPROVAL None None (Some i)"
    obtain q v2 where q: "?set v1 = (q, v2)" by fastforce
    show ?thesis
    proof (cases q)
      case (Inl e)
      then show ?thesis using assms(1) app q \<open>z = Inr i\<close> same run_set_status_raises [of E rc run]
        by (fastforce simp: Interrupted handle_outcome_def act_bind_def)
    next
      case (Inr u)
      have st: "?set v1 = (Inr (), v2)" and aud: "only_audited v2 w'"
        using assms(1) app q Inr \<open>z = Inr i\<close>
        by (auto simp: Interrupted handle_outcome_def act_bind_def dest: audit_run_audits)
      obtain now where v1: "w_committed v1 = (w_committed w)\<lparr>t_approvals :=
          t_approvals (w_committed w) @ [checkpoint_request E i now rc run (interrupt_payload iv)]\<rparr>"
        using create_approval_Inr app \<open>z = Inr i\<close> by blast
      let ?row = "run_status_row RS_WAITING_APPROVAL None None (Some i) row"
      let ?q = "checkpoint_request E i now rc run (interrupt_payload iv)"
      have "?row \<in> set (t_runs (w_committed v2))" "?q \<in> set (t_approvals (w_committed v2))"
        using run_set_status_Inr [OF st] updated_row [of row _ "run_hits (rc_tenant_id rc) run", OF row] v1 by simp_all
      then have "run_settled rc run (w_committed v2)"
        using row(2) unfolding run_settled_def
        by (intro bexI [of _ ?row]) (auto simp: run_status_row_def run_hits_def or_else_def checkpoint_request_def
            intro!: bexI [of _ ?q])
      then show ?thesis using run_settled_audited [OF aud] by simp
    qed
  qed
qed

text \<open>The row of a started run, while nothing has settled it.\<close>

definition run_open :: "RunContext \<Rightarrow> db \<Rightarrow> bool" where
  "run_open rc d = (\<exists>row \<in> set (t_runs d). run_hits (rc_tenant_id rc) (rc_run_id rc) row \<and> wr_status row = RS_RUNNING)"

lemma run_create_raises: "run_create E rc gv input man w = (Inl e, w') \<Longrightarrow> w_committed w' = w_committed w"
proof -
  have "atomic (run_create E rc gv input man)"
    unfolding run_create_def by (intro atomic_in_uow atomic_rules)
  then show "run_create E rc gv input man w = (Inl e, w') \<Longrightarrow> w_committed w' = w_committed w"
    by (simp add: atomic_def)
qed

lemma start_workflow_settles:
  assumes "start_workflow E ports graphs rc input w = (r, w')"
    and graphs: "\<And>g inp c u v. g \<in> snd ` set graphs \<Longrightarrow> t_runs (w_committed (snd (g inp c u v))) = t_runs (w_committed v)"
  shows "case r of
      Inr run \<Rightarrow> run = rc_run_id rc \<and> run_settled rc run (w_committed w')
    | Inl e \<Rightarrow> t_runs (w_committed w') = t_runs (w_committed w) \<or> run_open rc (w_committed w')
        \<or> run_settled rc (rc_run_id rc) (w_committed w')"
proof (cases "\<exists>worker graph. registry_resolve ''worker'' (rp_workers ports) (rc_worker_id rc, rc_worker_version rc) = Inr worker
    \<and> registry_resolve ''graph'' graphs (wd_worker_id (lw_definition worker), wd_graph_version (lw_definition worker)) = Inr graph")
  case False
  then have "\<exists>e. r = Inl e \<and> w' = w" using assms(1)
    by (auto simp: start_workflow_def act_bind_def act_lift_def Let_def split: sum.splits)
  then show ?thesis by auto
next
  case True
  then obtain worker g where reg: "registry_resolve ''worker'' (rp_workers ports) (rc_worker_id rc, rc_worker_version rc) = Inr worker"
    "registry_resolve ''graph'' graphs (wd_worker_id (lw_definition worker), wd_graph_version (lw_definition worker)) = Inr g" by blast
  let ?gv = "wd_graph_version (lw_definition worker)" and ?run = "rc_run_id rc"
  have g: "g \<in> snd ` set graphs" using reg(2) by (force simp: registry_resolve_Inr dest: map_of_SomeD)
  obtain q1 v1 where c: "run_create E rc ?gv input (rp_manifest_ref ports) w = (q1, v1)" by fastforce
  obtain q2 v2 where a: "audit_run E rc ''run.started'' ?run [] v1 = (q2, v2)" by fastforce
  obtain q3 v3 where run: "g (Start_graph input) rc ?run v2 = (q3, v3)" by fastforce
  let ?row = "run_row rc ?gv input (rp_manifest_ref ports)"
  have tail: "(case q1 of Inl e \<Rightarrow> (Inl e, v1) | Inr _ \<Rightarrow> (case q2 of Inl e \<Rightarrow> (Inl e, v2) | Inr _ \<Rightarrow>
      (case q3 of Inl e \<Rightarrow> (Inl e, v3) | Inr outcome \<Rightarrow>
        act_bind (handle_outcome E rc ?run outcome) (\<lambda>_. act_ret ?run) v3))) = (r, w')"
    using assms(1) reg c a run
    by (auto simp: start_workflow_def act_bind_def act_lift_def Let_def split: sum.splits prod.splits)
  show ?thesis
  proof (cases q1)
    case (Inl e)
    then show ?thesis using tail run_create_raises c by fastforce
  next
    case (Inr u)
    have t1: "t_runs (w_committed v1) = t_runs (w_committed w) @ [?row]" using run_create_Inr c Inr by fastforce
    have t2: "t_runs (w_committed v2) = t_runs (w_committed v1)" using audit_run_audits [OF a] by (auto simp: only_audited_def)
    have t3: "t_runs (w_committed v3) = t_runs (w_committed v2)" using graphs [OF g, of "Start_graph input" rc ?run v2] run by simp
    have row: "run_hits (rc_tenant_id rc) ?run ?row" "wr_status ?row = RS_RUNNING" by (simp_all add: run_hits_def run_row_def)
    have opened: "run_open rc d" if "t_runs d = t_runs (w_committed v1)" for d
      using row t1 that by (auto simp: run_open_def)
    show ?thesis
    proof (cases "\<exists>outcome. q2 = Inr () \<and> q3 = Inr outcome")
      case False
      then have "\<exists>e. r = Inl e" "w' = v2 \<or> w' = v3" using tail Inr by (auto split: sum.splits)
      then show ?thesis using opened t2 t3 by auto
    next
      case True
      then obtain outcome where o: "q2 = Inr ()" "q3 = Inr outcome" by blast
      obtain q4 where h: "handle_outcome E rc ?run outcome v3 = (q4, w')" and r: "r = (case q4 of Inl e \<Rightarrow> Inl e | Inr _ \<Rightarrow> Inr ?run)"
        using tail Inr o by (auto simp: act_bind_def act_ret_def split: sum.splits prod.splits)
      have "?row \<in> set (t_runs (w_committed v3))" using t1 t2 t3 by simp
      from outcome_recorded [OF h this row(1)] show ?thesis using r opened t2 t3 by (cases q4) auto
    qed
  qed
qed

subsection \<open>A decision whose run does not wake up\<close>

lemma keeps_bind_value:
  "keeps I m \<Longrightarrow> (\<And>x w w'. m w = (Inr x, w') \<Longrightarrow> keeps I (f x)) \<Longrightarrow> keeps I (act_bind m f)"
  unfolding keeps_def act_bind_def by (fastforce split: prod.splits sum.splits)

lemma keeps_only_audited: "(\<And>w r w'. m w = (r, w') \<Longrightarrow> only_audited w w') \<Longrightarrow> keeps (only_audited w0) m"
  by (auto simp: keeps_def) (metis only_audited_trans surjective_pairing)

lemma run_get_audits: "run_get E rc i w = (r, w') \<Longrightarrow> only_audited w w'"
  by (auto simp: run_get_def in_uow_def act_bind_def runs_find_def act_get_def commit_def act_ret_def
      act_some_def only_audited_refl Let_def split: option.splits)

text \<open>The engine is down: every registered graph raises as soon as it is woken up.\<close>

definition graphs_down :: "graph registry \<Rightarrow> bool" where
  "graphs_down graphs = (\<forall>g \<in> snd ` set graphs. \<forall>inp c u v. \<exists>e. g (Resume_graph inp) c u v = (Inl e, v))"

lemma graphs_downD:
  "graphs_down graphs \<Longrightarrow> registry_resolve ''graph'' graphs key = Inr g \<Longrightarrow> \<exists>e. g (Resume_graph inp) c u v = (Inl e, v)"
  unfolding graphs_down_def registry_resolve_Inr by (metis image_eqI map_of_SomeD snd_conv)

lemma down_bind:
  assumes "graphs_down graphs" "registry_resolve ''graph'' graphs key = Inr g"
    "act_bind (g (Resume_graph inp) c u) f v = (r, v')"
  shows "only_audited v v'"
proof -
  obtain e where "g (Resume_graph inp) c u v = (Inl e, v)" using graphs_downD [OF assms(1,2)] by blast
  then show ?thesis using assms(3) by (simp add: act_bind_def only_audited_refl)
qed

lemma resume_workflow_down:
  assumes "graphs_down graphs"
  shows "keeps (only_audited w0) (resume_workflow E graphs rc run payload)"
    "\<exists>e v'. resume_workflow E graphs rc run payload v = (Inl e, v')"
proof -
  show "keeps (only_audited w0) (resume_workflow E graphs rc run payload)"
    unfolding resume_workflow_def
    by (intro keeps_bind_value [of _ "run_get E rc run"] keeps_bind_value [of _ "act_require b c m" for b c m]
        keeps_bind_value [of _ "act_lift v" for v] keeps_bind_value [of _ "audit_run E rc a i d" for a i d]
        keeps_require keeps_lift keeps_only_audited)
      (auto simp: run_basic intro: run_get_audits audit_run_audits down_bind [OF assms])
  have "resume_workflow E graphs rc run payload v \<noteq> (Inr u, v')" for u v'
    using graphs_downD [OF assms] by (auto simp: resume_workflow_def run_bind run_basic) (metis Inl_Inr_False prod.inject)
  then show "\<exists>e v'. resume_workflow E graphs rc run payload v = (Inl e, v')" by (metis old.prod.exhaust old.sum.exhaust)
qed

lemma wake_run_down:
  assumes "graphs_down graphs" "wake_run E graphs x channel run payload w = (r, w')"
  shows "(\<exists>e. r = Inl e) \<and> only_audited w w'"
proof -
  have "keeps (only_audited w) (wake_run E graphs x channel run payload)"
    unfolding wake_run_def
    by (intro keeps_bind keeps_lift resume_workflow_down(1) [OF assms(1)] keeps_only_audited) (rule run_get_audits)
  then have "only_audited w w'" using assms(2) unfolding keeps_def by (metis only_audited_self snd_conv)
  moreover have "wake_run E graphs x channel run payload w \<noteq> (Inr u, w')" for u
    using resume_workflow_down(2) [OF assms(1)] by (auto simp: wake_run_def run_bind run_basic) (metis Inl_Inr_False prod.inject)
  ultimately show ?thesis using assms(2) by (cases r) auto
qed

lemma decided_approval:
  assumes "distinct (map r_id (t_approvals d0))" "decide_request r n u oc now comment = Inr (r', d)"
    "find (\<lambda>q. r_tenant_id q = t \<and> r_id q = i) (t_approvals d0) = Some r"
  shows "\<exists>q. find (\<lambda>q. r_tenant_id q = t \<and> r_id q = i) (t_approvals (decided_db r' d d0)) = Some q
    \<and> r_status q \<noteq> AP_PENDING"
proof -
  from assms(2) have r': "r_id r' = r_id r" "r_tenant_id r' = r_tenant_id r" "r_version r' = r_version r + 1"
    "r_status r' \<noteq> AP_PENDING" by (auto simp: decide_request_Inr)
  from assms(3) have r: "r_tenant_id r = t" "r_id r = i" by (auto dest: find_Some_in)
  from find_update_where [OF assms(1,3), of "\<lambda>q. r_version q = r_version r' - 1" "approval_update_row r'"]
  have "find (\<lambda>q. r_tenant_id q = t \<and> r_id q = i) (t_approvals (decided_db r' d d0)) = Some (approval_update_row r' r)"
    using r r' by (simp add: decided_db_def approval_hits_eq approval_update_row_def)
  then show ?thesis using r' by (auto simp: approval_update_row_def)
qed

lemma get_approval_session:
  "get_approval i (session_start t w) = find (\<lambda>q. r_tenant_id q = t \<and> r_id q = i) (t_approvals (w_committed w))"
  by (simp add: get_approval_def approval_visible_def session_start_sel find_filter)

text \<open>A settled request is never decided again.\<close>

lemma decided_refused:
  assumes "get_approval i (session_start (x_tenant_id x) w) = Some r" "r_status r \<noteq> AP_PENDING"
  shows "(\<exists>e. fst (decide_checkpoint E graphs i approve comment x channel ids reason_code w) = Inl e)
    \<and> w_committed (snd (decide_checkpoint E graphs i approve comment x channel ids reason_code w)) = w_committed w"
  using decide_checkpoint_cases [OF surjective_pairing, of E graphs i approve comment x channel ids reason_code w] assms
  by (auto simp: may_decide_def)

text \<open>C16: A decision is final, even when the run does not wake up. If the engine is down when a checkpoint
  of a waiting run is decided, the decision is committed, the caller gets an error, and the run stays as it
  was; from then on every attempt to decide that checkpoint, by anybody in the tenant, is refused
  and changes nothing. Since a run is only ever resumed by such a decision, it can no longer be.\<close>

theorem resume_failure_strands_run:
  assumes "distinct (map r_id (t_approvals (w_committed w)))" "graphs_down graphs"
    and "get_approval i (session_start (x_tenant_id x) w) = Some r" "r_run_id r = Some run"
    and "decide_checkpoint E graphs i approve comment x channel ids reason_code w = (res, w1)"
    and "w_committed w1 \<noteq> w_committed w"
  shows "(\<exists>e. res = Inl e) \<and> t_runs (w_committed w1) = t_runs (w_committed w)
    \<and> (\<forall>E' graphs' y approve' comment' channel' ids' reason' w2.
         (\<exists>e. fst (decide_checkpoint E' graphs' i approve' comment' (y\<lparr>x_tenant_id := x_tenant_id x\<rparr>) channel' ids' reason'
                 (w2\<lparr>w_committed := w_committed w1\<rparr>)) = Inl e)
         \<and> w_committed (snd (decide_checkpoint E' graphs' i approve' comment' (y\<lparr>x_tenant_id := x_tenant_id x\<rparr>) channel' ids' reason'
                 (w2\<lparr>w_committed := w_committed w1\<rparr>))) = w_committed w1)"
proof -
  from decide_checkpoint_cases [OF assms(5)] assms(3,6) obtain r' d n v where
    dec: "decide_request r n (x_principal_id x) (if approve then DO_APPROVED else DO_REJECTED)
        (env_clock E (w_ticks w)) comment = Inr (r', d)"
    and v: "w_committed v = decided_db r' d (w_committed w)"
    and rest: "(res, w1) = (case r_run_id r' of None \<Rightarrow> (Inr r', v)
        | Some run \<Rightarrow> act_bind (wake_run E graphs x channel run
              (resume_payload approve comment (x_principal_id x) reason_code ids)) (\<lambda>_. act_ret r') v)"
    by auto
  let ?wake = "wake_run E graphs x channel run (resume_payload approve comment (x_principal_id x) reason_code ids)"
  have "r_run_id r' = Some run" using dec assms(4) by (auto simp: decide_request_Inr)
  then have wake: "(res, w1) = act_bind ?wake (\<lambda>_. act_ret r') v" using rest by simp
  obtain q u where q: "?wake v = (q, u)" by fastforce
  from wake_run_down [OF assms(2) q] obtain e where e: "q = Inl e" and aud: "only_audited v u" by blast
  have w1: "res = Inl e" "w1 = u" using wake q e by (auto simp: act_bind_def)
  have find0: "find (\<lambda>q. r_tenant_id q = x_tenant_id x \<and> r_id q = i) (t_approvals (w_committed w)) = Some r"
    using assms(3) by (simp add: get_approval_session)
  obtain q' where q': "find (\<lambda>q. r_tenant_id q = x_tenant_id x \<and> r_id q = i) (t_approvals (w_committed w1)) = Some q'"
    "r_status q' \<noteq> AP_PENDING"
    using decided_approval [OF assms(1) dec find0] aud v w1 by (auto simp: only_audited_def)
  have "t_runs (w_committed w1) = t_runs (w_committed w)"
    using aud v w1 by (auto simp: only_audited_def decided_db_def)
  then show ?thesis using w1 q' decided_refused by (simp add: get_approval_session)
qed

section \<open>A worker, its graph and a paused run\<close>

definition demo_worker :: WorkerDefinition where
  "demo_worker = \<lparr>wd_worker_id = ''prep'', wd_worker_version = ''1.0.0'', wd_domain = WD_PREPARATION,
     wd_graph_version = ''1.0.0'', wd_prompt_bundle_version = ''1.0.0'', wd_toolset_version = ''1.0.0'',
     wd_policy_version = ''1.0.0'', wd_memory_policy_version = ''1.0.0'', wd_default_model_profile = ''balanced'',
     wd_supported_channels = {}, wd_autonomy_level = LEVEL_A2\<rparr>"

definition demo_yaml :: "bytes \<Rightarrow> json option" where
  "demo_yaml raw = Some (JObj [(''schema_version'', JStr ''1.0''), (''worker_id'', JStr ''prep''),
     (''worker_version'', JStr ''1.0.0''), (''domain'', JStr ''preparation''), (''graph_version'', JStr ''1.0.0''),
     (''prompt_bundle_version'', JStr ''1.0.0''), (''toolset_version'', JStr ''1.0.0''),
     (''policy_version'', JStr ''1.0.0''), (''memory_policy_version'', JStr ''1.0.0''),
     (''default_model_profile'', JStr ''balanced''), (''supported_channels'', JArr []), (''autonomy_level'', JStr ''A2'')])"

text \<open>A graph that asks for a decision, and finishes with the decision it got.\<close>

definition demo_graph :: graph where
  "demo_graph inp rc run w =
     (case inp of
        Start_graph d \<Rightarrow> (Inr (Interrupted (JObj [(''approval_type'', JStr ''preparation.cp1'')])), w)
      | Resume_graph d \<Rightarrow> (Inr (Finished d), w))"

definition down_graph :: graph where
  "down_graph inp rc run w = (Inl (Err InfrastructureError ''model gateway down''), w)"

definition demo_ports :: RunPorts where
  "demo_ports = \<lparr>rp_workers = [((''prep'', ''1.0.0''), \<lparr>lw_definition = demo_worker, lw_checksum = '''', lw_source_path = ''''\<rparr>)],
     rp_manifest_ref = None\<rparr>"

theorem workers_well_formed_witness:
  "\<exists>ws. load_directory demo_yaml (\<lambda>b. b) [((''prep'', ''1.0.0''), demo_graph)] [(''prep.yaml'', ''x'')] [] = Inr ws
     \<and> (\<forall>e \<in> set ws. worker_ok [((''prep'', ''1.0.0''), demo_graph)] e)"
proof -
  have sv: "is_semver ''1.0.0''" "py_strip ''prep'' = ''prep''" "py_strip ''balanced'' = ''balanced''" by code_simp+
  have "\<exists>ws. load_directory demo_yaml (\<lambda>b. b) [((''prep'', ''1.0.0''), demo_graph)] [(''prep.yaml'', ''x'')] [] = Inr ws"
    by (simp add: load_directory_def load_file_def parse_worker_def demo_yaml_def worker_of_json_def jget_def
        domain_of_def autonomy_of_def mk_WorkerDefinition_def sv registry_resolve_def registry_add_def)
  then show ?thesis using workers_well_formed by fast
qed

theorem tool_policy_enforced_witness:
  "only_audited (start_world empty_db)
     (snd (execute_tool demo_env demo_tools ''task.create'' ''1.0.0'' [] (demo_run\<lparr>rc_scopes := {}\<rparr>) (Some ''k1'') False (start_world empty_db)))"
proof -
  let ?res = "execute_tool demo_env demo_tools ''task.create'' ''1.0.0'' [] (demo_run\<lparr>rc_scopes := {}\<rparr>) (Some ''k1'') False (start_world empty_db)"
  have "registry_resolve ''tool'' demo_tools (''task.create'', ''1.0.0'') = Inr demo_tool"
    by (simp add: registry_resolve_def demo_tools_def)
  then show ?thesis
    using tool_policy_enforced [of demo_env demo_tools "''task.create''" "''1.0.0''" "[]" "demo_run\<lparr>rc_scopes := {}\<rparr>"
        "Some ''k1''" False "start_world empty_db" "fst ?res" "snd ?res"]
    by (auto simp: tool_allowed_def evaluation)
qed

lemmas [evaluation] = commit_def clock_now_def new_uuid_def insert_row_def audit_append_def append_event_def
  run_event_def mk_AuditEvent_def in_uow_def

definition waiting_run :: WorkerRun where
  "waiting_run = (run_row demo_run ''1.0.0'' [] None)\<lparr>wr_status := RS_WAITING_APPROVAL, wr_approval_request_id := Some ''q1''\<rparr>"

definition paused_db :: db where
  "paused_db = empty_db\<lparr>t_approvals := [(demo_request ''q1'' ''c1'')\<lparr>r_run_id := Some ''r1''\<rparr>], t_runs := [waiting_run]\<rparr>"

lemma paused_db_sel [evaluation]:
  "t_approvals paused_db = [(demo_request ''q1'' ''c1'')\<lparr>r_run_id := Some ''r1''\<rparr>]" "t_runs paused_db = [waiting_run]"
  "t_decisions paused_db = []" "t_audit paused_db = []"
  by (simp_all add: paused_db_def empty_db_def)

lemma paused_request [evaluation]:
  "is_preparation ((demo_request ''q1'' ''c1'')\<lparr>r_run_id := Some ''r1''\<rparr>)" "r_requested_by (demo_request ''q1'' ''c1'') = ''u1''"
  "required_role demo_env ((demo_request ''q1'' ''c1'')\<lparr>r_run_id := Some ''r1''\<rparr>) = ''''"
  by (simp_all add: is_preparation_def py_startswith_def required_role_def demo_request_def)

lemma strip_ok [evaluation]: "py_strip ''ok'' = ''ok''"
  by code_simp

lemma waiting_run_sel [evaluation]:
  "wr_id waiting_run = ''r1''" "wr_tenant_id waiting_run = ''t1''" "wr_status waiting_run = RS_WAITING_APPROVAL"
  "wr_requested_by waiting_run = ''u1''" "wr_worker_id waiting_run = ''prep''" "wr_graph_version waiting_run = ''1.0.0''"
  "wr_worker_version waiting_run = ''1.0.0''"
  by (simp_all add: waiting_run_def run_row_def evaluation)

text \<open>The approver's decision of the paused run, with the graph up and with the graph down.\<close>

definition decide_paused :: "graph \<Rightarrow> ApprovalRequest result \<times> world" where
  "decide_paused g = decide_checkpoint demo_env [((''prep'', ''1.0.0''), g)] ''q1'' True ''ok'' the_approver ''web'' None ''''
     (start_world paused_db)"

lemma decide_tx_paused:
  "ran_ok (in_uow demo_env ''t1'' (decide_tx demo_env ''q1'' True ''ok'' the_approver) (start_world paused_db))"
  by (simp add: evaluation decide_tx_def approvals_get_def approval_visible_def approvals_save_def
      approval_update_hits_def update_where_def approvals_add_decision_def decide_request_def require_pending_def
      approval_update_row_def cong: act_bind_weak)

lemma paused_contexts [evaluation]:
  "run_context_for the_approver ''r1'' ''web'' = Inr (demo_run\<lparr>rc_actor_id := ''u2'', rc_worker_id := ''unknown'',
     rc_worker_version := ''0.0.0'', rc_channel := ''web'', rc_scopes := {''approvals.decide''}, rc_trace_id := ''lookup-r1''\<rparr>)"
  "resume_context the_approver ''r1'' ''web'' waiting_run = Inr (demo_run\<lparr>rc_channel := ''web'',
     rc_scopes := {''approvals.decide''}, rc_trace_id := ''resume-r1''\<rparr>)"
proof -
  have "is_semver ''0.0.0''" "is_semver ''1.0.0''" by code_simp+
  then show "run_context_for the_approver ''r1'' ''web'' = Inr (demo_run\<lparr>rc_actor_id := ''u2'', rc_worker_id := ''unknown'',
     rc_worker_version := ''0.0.0'', rc_channel := ''web'', rc_scopes := {''approvals.decide''}, rc_trace_id := ''lookup-r1''\<rparr>)"
    "resume_context the_approver ''r1'' ''web'' waiting_run = Inr (demo_run\<lparr>rc_channel := ''web'',
     rc_scopes := {''approvals.decide''}, rc_trace_id := ''resume-r1''\<rparr>)"
    by (simp_all add: run_context_for_def resume_context_def mk_RunContext_def evaluation demo_run_def uuid_hex_def)
qed

lemma demo_run_access [evaluation]:
  "access_context_from_run (demo_run\<lparr>rc_channel := ch, rc_scopes := ss, rc_trace_id := tr\<rparr>)
     = Inr ((demo_ctx ''u1'' [] [])\<lparr>x_scopes := ss\<rparr>)"
  by (simp add: access_context_from_run_def demo_run_def mk_AccessContext_def demo_ctx_def py_strip_def
      py_lstrip_def py_rstrip_def py_isspace_def)

theorem checkpoint_authority_witness:
  "\<exists>r w'. decide_paused demo_graph = (Inr r, w') \<and> may the_approver ''approvals.decide''
     \<and> may_decide demo_env the_approver ''ok'' ((demo_request ''q1'' ''c1'')\<lparr>r_run_id := Some ''r1''\<rparr>)"
proof -
  have "ran_ok (decide_paused demo_graph)"
    by (simp add: evaluation decide_paused_def decide_checkpoint_def decide_tx_def approvals_get_def approval_visible_def
        approvals_save_def approval_update_hits_def update_where_def approvals_add_decision_def decide_request_def
        require_pending_def approval_update_row_def wake_run_def resume_workflow_def run_get_def runs_find_def
        run_visible_def audit_run_def registry_resolve_def demo_graph_def handle_outcome_def run_set_status_def
        runs_update_def cong: act_bind_weak)
  from ran_ok_elim [OF this] obtain r w' where run: "decide_paused demo_graph = (Inr r, w')" by blast
  have q: "get_approval ''q1'' (session_start (x_tenant_id the_approver) (start_world paused_db))
      = Some ((demo_request ''q1'' ''c1'')\<lparr>r_run_id := Some ''r1''\<rparr>)"
    by (simp add: get_approval_def approval_visible_def session_start_sel evaluation)
  show ?thesis using checkpoint_authority [OF run [unfolded decide_paused_def]] run q by auto
qed

lemma down_graph_down: "graphs_down [(key, down_graph)]"
  by (simp add: graphs_down_def down_graph_def)

lemma decide_paused_writes: "w_committed (snd (decide_paused down_graph)) \<noteq> paused_db"
proof -
  let ?graphs = "[((''prep'', ''1.0.0''), down_graph)]"
  from ran_ok_elim [OF decide_tx_paused] obtain r' v where
    tx: "in_uow demo_env ''t1'' (decide_tx demo_env ''q1'' True ''ok'' the_approver) (start_world paused_db) = (Inr r', v)" by blast
  then obtain u where u: "decide_tx demo_env ''q1'' True ''ok'' the_approver (session_start ''t1'' (start_world paused_db)) = (Inr r', u)"
    "v = u\<lparr>w_db := w_committed u\<rparr>" by (auto simp: run_in_uow)
  from decide_tx_run [OF u(1)] u(2) obtain d where d: "w_committed v = decided_db r' d paused_db"
    by (auto simp: session_start_sel evaluation)
  have auth: "authorize the_approver ''approvals.decide'' (start_world paused_db) = (Inr (), start_world paused_db)"
    by (simp add: evaluation)
  have "only_audited v (snd (decide_paused down_graph))"
  proof (cases "r_run_id r'")
    case None
    then show ?thesis
      by (simp add: decide_paused_def decide_checkpoint_def act_bind_def auth demo_ctx_sel
          tx act_ret_def)
  next
    case (Some run)
    let ?wake = "wake_run demo_env ?graphs the_approver ''web'' run (resume_payload True ''ok'' ''u2'' '''' None)"
    obtain q z where q: "?wake v = (q, z)" by fastforce
    from wake_run_down [OF down_graph_down q] q Some show ?thesis
      by (auto simp: decide_paused_def decide_checkpoint_def act_bind_def auth demo_ctx_sel
          tx )
  qed
  then have "t_decisions (w_committed (snd (decide_paused down_graph))) = [d]"
    using d by (auto simp: only_audited_def decided_db_def evaluation)
  then show ?thesis by (metis not_Cons_self2 paused_db_sel(3))
qed

theorem resume_failure_strands_run_witness:
  "(\<exists>e. fst (decide_paused down_graph) = Inl e) \<and> t_runs (w_committed (snd (decide_paused down_graph))) = [waiting_run]"
proof -
  have q: "get_approval ''q1'' (session_start (x_tenant_id the_approver) (start_world paused_db))
      = Some ((demo_request ''q1'' ''c1'')\<lparr>r_run_id := Some ''r1''\<rparr>)"
    by (simp add: get_approval_def approval_visible_def session_start_sel evaluation)
  have "distinct (map r_id (t_approvals (w_committed (start_world paused_db))))" by (simp add: evaluation)
  note strands = resume_failure_strands_run [OF this down_graph_down [of "(''prep'', ''1.0.0'')"] q, where run = "''r1''"
      and E = demo_env and approve = True and comment = "''ok''" and channel = "''web''" and ids = None
      and reason_code = "''''" and res = "fst (decide_paused down_graph)" and ?w1.0 = "snd (decide_paused down_graph)"]
  have "decide_checkpoint demo_env [((''prep'', ''1.0.0''), down_graph)] ''q1'' True ''ok'' the_approver ''web'' None ''''
      (start_world paused_db) = (fst (decide_paused down_graph), snd (decide_paused down_graph))"
    by (simp add: decide_paused_def)
  moreover have "w_committed (snd (decide_paused down_graph)) \<noteq> w_committed (start_world paused_db)"
    using decide_paused_writes by (simp add: start_world_sel)
  ultimately have "?thesis \<or> r_run_id ((demo_request ''q1'' ''c1'')\<lparr>r_run_id := Some ''r1''\<rparr>) \<noteq> Some ''r1''"
    using strands [THEN conjunct1] strands [THEN conjunct2, THEN conjunct1]
    unfolding start_world_sel paused_db_sel by blast
  then show ?thesis by simp
qed

end
