(* ===== verification/DW_Legal.thy ===== *)
theory DW_Legal
  imports DW_Rules "HOL-Library.Sublist"
begin

text \<open>
  What the drafting workflow accepts from a language model: \<open>application/preparation/legal.py\<close> (a number
  or a list of section names is taken over only if the retrieved passages support it literally),
  \<open>extraction.py\<close>, \<open>drafts.py\<close> and \<open>review.py\<close> (the validated schemas and the review card).

  A float the schemas carry (a confidence, a relevance score) is an integer number of ten-thousandths.
\<close>

section \<open>Text\<close>

text \<open>\<open>str.split()\<close>: the maximal runs of non-space characters.\<close>

fun split_where :: "('c \<Rightarrow> bool) \<Rightarrow> 'c list \<Rightarrow> 'c list list" where
  "split_where p [] = [[]]"
| "split_where p (x # xs) =
     (if p x then [] # split_where p xs
      else case split_where p xs of [] \<Rightarrow> [[x]] | y # ys \<Rightarrow> (x # y) # ys)"

definition py_words :: "string \<Rightarrow> string list" where
  "py_words s = filter (\<lambda>u. u \<noteq> []) (split_where py_isspace s)"

text \<open>\<open>str.splitlines()\<close> on the code points below 256; a final line break opens no further line.\<close>

definition line_break :: "char \<Rightarrow> bool" where
  "line_break c = (let n = (of_char c :: int) in 10 \<le> n \<and> n \<le> 13 \<or> 28 \<le> n \<and> n \<le> 30 \<or> n = 133)"

fun py_splitlines :: "string \<Rightarrow> string list" where
  "py_splitlines [] = []"
| "py_splitlines [c] = (if line_break c then [[]] else [[c]])"
| "py_splitlines (c # d # cs) =
     (if c = CHR 0x0D \<and> d = CHR 0x0A then [] # py_splitlines cs
      else if line_break c then [] # py_splitlines (d # cs)
      else case py_splitlines (d # cs) of [] \<Rightarrow> [[c]] | l # ls \<Rightarrow> (c # l) # ls)"

text \<open>\<open>str.casefold()\<close>: the sharp s unfolds, the micro sign (which folds out of the range) is kept.\<close>

definition casefold_char :: "char \<Rightarrow> string" where
  "casefold_char c = (let n = (of_char c :: int)
     in if 65 \<le> n \<and> n \<le> 90 \<or> 192 \<le> n \<and> n \<le> 222 \<and> n \<noteq> 215 then [char_of (n + 32)]
        else if n = 223 then ''ss'' else [c])"

definition norm_text :: "string \<Rightarrow> string" where
  "norm_text s = concat (map casefold_char (py_join '' '' (py_words s)))"

section \<open>Legal constraints\<close>

record LegalConstraintExtraction =
  le_days :: "int option"
  le_article :: string
  le_quote :: string

definition ok_legal :: "LegalConstraintExtraction \<Rightarrow> bool" where
  "ok_legal e = (case le_days e of None \<Rightarrow> True | Some d \<Rightarrow> 1 \<le> d \<and> d \<le> 365)"

record LegalConstraint =
  lc_days :: int
  lc_article :: string
  lc_quote :: string

text \<open>\<open>(?<!\d)0?n(?!\d)\<close>: the number, perhaps with a leading zero, between characters that are no digits.\<close>

definition number_here :: "string \<Rightarrow> string \<Rightarrow> bool" where
  "number_here u s =
     (take (length u) s = u \<and> (case drop (length u) s of [] \<Rightarrow> True | c # _ \<Rightarrow> \<not> is_digit c))"

fun number_from :: "bool \<Rightarrow> string \<Rightarrow> string \<Rightarrow> bool" where
  "number_from after_digit u [] = False"
| "number_from after_digit u (c # cs) =
     (\<not> after_digit \<and> (number_here (CHR ''0'' # u) (c # cs) \<or> number_here u (c # cs))
      \<or> number_from (is_digit c) u cs)"

definition has_number :: "int \<Rightarrow> string \<Rightarrow> bool" where
  "has_number d s = number_from False (int_str d) s"

definition quoted_in :: "string \<Rightarrow> string list \<Rightarrow> bool" where
  "quoted_in quote passages = list_ex (\<lambda>p. sublist quote (norm_text p)) passages"

definition verified_constraint :: "LegalConstraintExtraction \<Rightarrow> string list \<Rightarrow> LegalConstraint option" where
  "verified_constraint e passages =
     (case le_days e of
        None \<Rightarrow> None
      | Some d \<Rightarrow>
          let quote = norm_text (le_quote e)
          in if length quote < 15 then None
             else if \<not> quoted_in quote passages then None
             else if \<not> has_number d quote then None
             else Some \<lparr>lc_days = d, lc_article = py_strip (le_article e), lc_quote = py_strip (le_quote e)\<rparr>)"

definition constraint_json :: "LegalConstraint \<Rightarrow> jdict" where
  "constraint_json c = [(''min_bid_preparation_days'', JInt (lc_days c)), (''article_ref'', JStr (lc_article c)),
     (''source_quote'', JStr (lc_quote c))]"

fun number_passages :: "int \<Rightarrow> string list \<Rightarrow> string list" where
  "number_passages i [] = []"
| "number_passages i (p # ps) =
     (if p = '''' then number_passages (i + 1) ps
      else (''['' @ int_str i @ ''] '' @ p) # number_passages (i + 1) ps)"

definition numbered_passages :: "string list \<Rightarrow> string" where
  "numbered_passages quotes = py_join [CHR 0x0A] (number_passages 1 quotes)"

record RequiredSectionsExtraction =
  rs_sections :: "string list"
  rs_article :: string
  rs_quote :: string

definition ok_sections :: "RequiredSectionsExtraction \<Rightarrow> bool" where
  "ok_sections e = (length (rs_sections e) \<le> 20)"

definition verified_sections :: "RequiredSectionsExtraction \<Rightarrow> string list \<Rightarrow> RequiredSectionsExtraction option" where
  "verified_sections e passages =
     (let quote = norm_text (rs_quote e);
          names = filter (\<lambda>n. n \<noteq> '''') (map py_strip (rs_sections e));
          corpus = py_join '' '' (map norm_text passages)
      in if names = [] \<or> length quote < 15 then None
         else if \<not> quoted_in quote passages then None
         else if list_ex (\<lambda>n. \<not> sublist (norm_text n) corpus) names then None
         else Some \<lparr>rs_sections = names, rs_article = py_strip (rs_article e), rs_quote = py_strip (rs_quote e)\<rparr>)"

definition sections_json :: "RequiredSectionsExtraction \<Rightarrow> jdict" where
  "sections_json e = [(''sections'', JArr (map JStr (rs_sections e))), (''article_ref'', JStr (rs_article e)),
     (''source_quote'', JStr (rs_quote e))]"

section \<open>Schemas of the drafts\<close>

text \<open>
  The gateway validates a model's answer into these types, so an answer that misses a constraint is a
  failed call: \<open>ok_\<close> is the constraint of each schema. A schema that forbids extra fields, and the
  defaults, are the record itself.
\<close>

record ExtractedRequirement =
  xr_code :: string
  xr_statement :: string
  xr_kind :: string

record UnknownItem =
  ui_question :: string
  ui_suggested_answer :: string

record PreparationExtraction =
  px_requirements :: "ExtractedRequirement list"
  px_unknowns :: "UnknownItem list"

record SolicitationDraft =
  sd_scope :: string
  sd_technical_requirements :: "string list"

record WeightedCriterion =
  wc_code :: string
  wc_text :: string
  wc_weight :: int

record CriteriaDraft =
  cd_weighted :: "WeightedCriterion list"

definition between :: "nat \<Rightarrow> nat \<Rightarrow> string \<Rightarrow> bool" where
  "between lo hi s = (lo \<le> length s \<and> length s \<le> hi)"

definition ok_requirement :: "ExtractedRequirement \<Rightarrow> bool" where
  "ok_requirement r =
     (take 4 (xr_code r) = ''REQ-'' \<and> length (xr_code r) = 6 \<and> list_all is_digit (drop 4 (xr_code r))
      \<and> between 1 600 (xr_statement r) \<and> xr_kind r \<in> {''mandatory'', ''informational''})"

definition ok_unknown :: "UnknownItem \<Rightarrow> bool" where
  "ok_unknown u = (between 1 400 (ui_question u) \<and> between 0 600 (ui_suggested_answer u))"

definition ok_extraction :: "PreparationExtraction \<Rightarrow> bool" where
  "ok_extraction x = (list_all ok_requirement (px_requirements x) \<and> list_all ok_unknown (px_unknowns x))"

definition ok_solicitation :: "SolicitationDraft \<Rightarrow> bool" where
  "ok_solicitation d = between 1 1200 (sd_scope d)"

definition ok_criterion :: "WeightedCriterion \<Rightarrow> bool" where
  "ok_criterion c =
     (take 1 (wc_code c) = ''W'' \<and> between 2 3 (wc_code c) \<and> list_all is_digit (drop 1 (wc_code c))
      \<and> between 1 200 (wc_text c) \<and> 0 \<le> wc_weight c \<and> wc_weight c \<le> 100)"

definition ok_criteria :: "CriteriaDraft \<Rightarrow> bool" where
  "ok_criteria d = list_all ok_criterion (cd_weighted d)"

definition weights_valid :: "CriteriaDraft \<Rightarrow> bool" where
  "weights_valid d = (cd_weighted d \<noteq> [] \<and> sum_list (map wc_weight (cd_weighted d)) = 100)"

section \<open>Review recommendation\<close>

datatype ReviewVerdict = RV_APPROVE | RV_REJECT | RV_REQUEST_CHANGES

fun verdict_value :: "ReviewVerdict \<Rightarrow> string" where
  "verdict_value RV_APPROVE = ''approve''"
| "verdict_value RV_REJECT = ''reject''"
| "verdict_value RV_REQUEST_CHANGES = ''request_changes''"

datatype CheckResult = CR_PASS | CR_WARN | CR_FAIL

fun check_result_value :: "CheckResult \<Rightarrow> string" where
  "check_result_value CR_PASS = ''pass''"
| "check_result_value CR_WARN = ''warn''"
| "check_result_value CR_FAIL = ''fail''"

record ReviewCheck =
  rk_check :: string
  rk_result :: CheckResult
  rk_note :: string

record ReviewRecommendation =
  rv_recommendation :: ReviewVerdict
  rv_rationale_summary :: string
  rv_key_checks :: "ReviewCheck list"
  rv_risks :: "string list"
  rv_confidence :: int

definition ok_review :: "ReviewRecommendation \<Rightarrow> bool" where
  "ok_review r =
     (length (rv_key_checks r) \<le> 8 \<and> length (rv_risks r) \<le> 5 \<and> 0 \<le> rv_confidence r \<and> rv_confidence r \<le> 10000)"

definition review_json :: "ReviewRecommendation \<Rightarrow> jdict" where
  "review_json r =
     [(''recommendation'', JStr (verdict_value (rv_recommendation r))),
      (''rationale_summary'', JStr (rv_rationale_summary r)),
      (''key_checks'', JArr (map (\<lambda>c. JObj [(''check'', JStr (rk_check c)),
         (''result'', JStr (check_result_value (rk_result c))), (''note'', JStr (rk_note c))]) (rv_key_checks r))),
      (''risks'', JArr (map JStr (rv_risks r))), (''confidence'', JInt (rv_confidence r))]"

definition review_card_lines :: "ReviewRecommendation \<Rightarrow> json list" where
  "review_card_lines r =
     (let passed = length (filter (\<lambda>c. rk_result c = CR_PASS) (rv_key_checks r));
          flagged = filter (\<lambda>c. rk_result c \<noteq> CR_PASS) (rv_key_checks r)
      in [JText ''review_agent'' [verdict_value (rv_recommendation r), int_str (rv_confidence r)],
          JText ''review_reason'' [rv_rationale_summary r],
          JText ''review_passed'' [nat_str passed, nat_str (length (rv_key_checks r))]]
         @ map (\<lambda>c. JText (if rk_result c = CR_WARN then ''review_warn'' else ''review_fail'')
                  [rk_check c, if rk_note c \<noteq> '''' then rk_note c else check_result_value (rk_result c)]) (take 3 flagged)
         @ (if rv_risks r = [] then [] else [JText ''review_risks'' [py_join ''; '' (take 3 (rv_risks r))]]))"

section \<open>Lemmas\<close>

lemma split_where_nonempty [simp]: "split_where p xs \<noteq> []"
  by (induction xs) (auto split: list.split)

lemma split_where_snoc: "p x \<Longrightarrow> split_where p (xs @ [x]) = split_where p xs @ [[]]"
proof (induction xs)
  case (Cons a xs)
  then show ?case by (cases "split_where p xs") auto
qed simp

lemma py_words_lstrip: "py_words (py_lstrip s) = py_words s"
  by (induction s) (auto simp: py_words_def py_lstrip_def)

lemma py_words_rstrip: "py_words (py_rstrip s) = py_words s"
  by (induction s rule: rev_induct) (auto simp: py_words_def py_rstrip_def split_where_snoc)

lemma norm_text_strip [simp]: "norm_text (py_strip s) = norm_text s"
  by (simp add: norm_text_def py_strip_def py_words_lstrip py_words_rstrip)

text \<open>What an accepted figure rests on.\<close>

lemma verified_constraint_Some:
  "verified_constraint e passages = Some c \<Longrightarrow>
     le_days e = Some (lc_days c) \<and> 15 \<le> length (norm_text (lc_quote c))
     \<and> quoted_in (norm_text (lc_quote c)) passages \<and> has_number (lc_days c) (norm_text (lc_quote c))"
  by (auto simp: verified_constraint_def Let_def split: option.splits if_splits)

section \<open>Properties\<close>

text \<open>A list of required sections is taken over only when every name in it was retrieved: each name
  stands literally, up to case and spacing, in the passages; the quotation stands in one of them; and
  the accepted list is the proposed one without its blank entries.\<close>

theorem sections_are_quoted:
  assumes "verified_sections e passages = Some r"
  shows "rs_sections r = filter (\<lambda>n. n \<noteq> '''') (map py_strip (rs_sections e)) \<and> rs_sections r \<noteq> []
    \<and> (\<forall>n \<in> set (rs_sections r). sublist (norm_text n) (py_join '' '' (map norm_text passages)))
    \<and> (\<exists>p \<in> set passages. sublist (norm_text (rs_quote r)) (norm_text p))"
  using assms by (auto simp: verified_sections_def Let_def quoted_in_def list_ex_iff split: if_splits) blast+

theorem sections_are_quoted_witness:
  "verified_sections \<lparr>rs_sections = ['' Bid  Form''], rs_article = '''', rs_quote = ''must hold the bid form''\<rparr>
       [''The dossier must  hold the Bid form'']
     = Some \<lparr>rs_sections = [''Bid  Form''], rs_article = '''', rs_quote = ''must hold the bid form''\<rparr>
   \<and> sublist (norm_text ''Bid  Form'') (norm_text ''The dossier must  hold the Bid form'')"
proof -
  have v: "verified_sections \<lparr>rs_sections = ['' Bid  Form''], rs_article = '''', rs_quote = ''must hold the bid form''\<rparr>
       [''The dossier must  hold the Bid form'']
     = Some \<lparr>rs_sections = [''Bid  Form''], rs_article = '''', rs_quote = ''must hold the bid form''\<rparr>"
    by code_simp
  from sections_are_quoted [OF v] show ?thesis using v by simp
qed

text \<open>The check of a copied figure looks at the quotation only, and a quotation may start inside a
  number: from a passage that grants 118 days, the figure 18 is accepted.\<close>

theorem quote_cut_inside_number:
  "verified_constraint \<lparr>le_days = Some 18, le_article = '''', le_quote = ''18 days from issue''\<rparr>
       [''not less than 118 days from issue'']
     = Some \<lparr>lc_days = 18, lc_article = '''', lc_quote = ''18 days from issue''\<rparr>
   \<and> \<not> has_number 18 (norm_text ''not less than 118 days from issue'')"
  by code_simp

end
