(* ===== verification/DW_Drafting.thy ===== *)
theory DW_Drafting
  imports DW_Runtime DW_Legal
begin

text \<open>
  The parts the nodes of the preparation workflow are made of: \<open>workflows/preparation_v1/services.py\<close>,
  \<open>state.py\<close>, and the helpers of \<open>nodes.py\<close> (citations, artifacts, progress and decision cards, the
  calls of the language model and what the code accepts from them).

  Retrieval and the language model are ports: a call may fail, and which answer it gives depends on when
  it is made. An answer that violates its schema is a failed call. A relevance score is an integer number
  of ten-thousandths, to which the code rounds it. Display prose is \<open>JText\<close>, with the interpolated values;
  an empty value stands for the wording the source falls back to.
\<close>

section \<open>Ports and services\<close>

record EvidenceChunk =
  ek_content :: string
  ek_source_document_id :: string
  ek_source_version :: string
  ek_source_title :: "string option"
  ek_source_uri :: "string option"
  ek_relevance :: int
  ek_classification :: string

record SearchQuery =
  sq_text :: json
  sq_domain :: string
  sq_top_k :: int

record ModelRequest =
  mq_task :: string
  mq_prompt_id :: string
  mq_prompt_version :: string
  mq_variables :: "(string \<times> string) list"
  mq_model_profile :: string
  mq_route_kind :: string

type_synonym 'o model_call = "nat \<Rightarrow> ModelRequest \<Rightarrow> RunContext \<Rightarrow> 'o option"

record ModelGateway =
  mg_extraction :: "PreparationExtraction model_call"
  mg_solicitation :: "SolicitationDraft model_call"
  mg_criteria :: "CriteriaDraft model_call"
  mg_review :: "ReviewRecommendation model_call"
  mg_legal :: "LegalConstraintExtraction model_call"
  mg_sections :: "RequiredSectionsExtraction model_call"

text \<open>\<open>sv_read_text\<close> is \<open>storage.get_object\<close> followed by the UTF-8 decoding; both may raise.\<close>

record PreparationServices =
  sv_rules :: ProcurementRules
  sv_read_text :: "nat \<Rightarrow> string \<Rightarrow> string result"
  sv_knowledge :: "(nat \<Rightarrow> SearchQuery \<Rightarrow> AccessContext \<Rightarrow> EvidenceChunk list option) option"
  sv_model_gateway :: "ModelGateway option"
  sv_model_profile :: string
  sv_autonomy_profile :: string
  sv_rework_rules :: "ReworkSupportRules option"
  sv_prompt_bundle_version :: string
  sv_schema_version :: string
  sv_exports_bucket_prefix :: string

definition port_call :: "(nat \<Rightarrow> 'a) \<Rightarrow> 'a handler" where
  "port_call f w = (Inr (f (w_calls w)), w\<lparr>w_calls := Suc (w_calls w)\<rparr>)"

definition read_text :: "PreparationServices \<Rightarrow> string \<Rightarrow> string handler" where
  "read_text sv key = act_bind (port_call (\<lambda>n. sv_read_text sv n key)) act_lift"

text \<open>\<open>generate_structured\<close> inside \<open>try ... except Exception\<close>: an answer that passed its schema, or none.\<close>

definition generate :: "'o model_call \<Rightarrow> ('o \<Rightarrow> bool) \<Rightarrow> ModelRequest \<Rightarrow> RunContext \<Rightarrow> 'o option handler" where
  "generate call ok req rc =
     port_call (\<lambda>n. case call n req rc of Some x \<Rightarrow> if ok x then Some x else None | None \<Rightarrow> None)"

section \<open>State\<close>

text \<open>
  A key the graph has not set yet is the empty value, which is what its readers default to. Where
  they default to something else, the field is an option.
\<close>

record PreparationState =
  ps_schema_version :: string
  ps_case_id :: string
  ps_pr_text :: string
  ps_has_approved_pr :: bool
  ps_estimated_value_minor :: int
  ps_currency :: string
  ps_deadline :: "string option"
  ps_owner_name :: string
  ps_case_title :: string
  ps_source_pr_ref :: string
  ps_procurement_type :: string
  ps_business_domain :: string
  ps_requirements :: "jdict list"
  ps_unknowns :: "jdict list"
  ps_clarifications :: "jdict list"
  ps_clarification_answers :: "(string \<times> string) list"
  ps_supplier_candidates :: "jdict list"
  ps_method_key :: string
  ps_method_label :: "string option"
  ps_min_suppliers :: "int option"
  ps_supplier_count_planned :: int
  ps_solicitation_window_days :: int
  ps_legal_constraints :: jdict
  ps_approach_gate :: jdict
  ps_cp1_payload :: jdict
  ps_cp1_decision :: jdict
  ps_criteria :: jdict
  ps_shortlist :: "jdict list"
  ps_risk :: jdict
  ps_package_gate :: jdict
  ps_cp2_payload :: jdict
  ps_cp2_decision :: jdict
  ps_official_manifest :: jdict
  ps_export_ref :: string

definition initial_state :: "string \<Rightarrow> PreparationState" where
  "initial_state case_id = \<lparr>ps_schema_version = '''', ps_case_id = case_id, ps_pr_text = '''',
     ps_has_approved_pr = False, ps_estimated_value_minor = 0, ps_currency = '''', ps_deadline = None,
     ps_owner_name = '''', ps_case_title = '''', ps_source_pr_ref = '''', ps_procurement_type = '''',
     ps_business_domain = '''', ps_requirements = [], ps_unknowns = [], ps_clarifications = [],
     ps_clarification_answers = [], ps_supplier_candidates = [], ps_method_key = '''',
     ps_method_label = None, ps_min_suppliers = None, ps_supplier_count_planned = 0,
     ps_solicitation_window_days = 0, ps_legal_constraints = [], ps_approach_gate = [],
     ps_cp1_payload = [], ps_cp1_decision = [], ps_criteria = [], ps_shortlist = [], ps_risk = [],
     ps_package_gate = [], ps_cp2_payload = [], ps_cp2_decision = [], ps_official_manifest = [],
     ps_export_ref = ''''\<rparr>"

text \<open>\<open>_case_id\<close>.\<close>

definition case_id_of :: "PreparationState \<Rightarrow> uuid handler" where
  "case_id_of st =
     (if ps_case_id st = '''' then act_raise DomainError ''workflow state is missing case_id''
      else act_ret (ps_case_id st))"

section \<open>JSON helpers\<close>

text \<open>\<open>{**d, k: v}\<close>, and \<open>d[k] = v\<close>.\<close>

fun dict_set :: "string \<Rightarrow> json \<Rightarrow> jdict \<Rightarrow> jdict" where
  "dict_set k v [] = [(k, v)]"
| "dict_set k v ((k', v') # d) = (if k' = k then (k, v) # d else (k', v') # dict_set k v d)"

definition opt_json :: "string option \<Rightarrow> json" where
  "opt_json v = (case v of None \<Rightarrow> JNull | Some s \<Rightarrow> JStr s)"

definition opt_int_json :: "int option \<Rightarrow> json" where
  "opt_int_json v = (case v of None \<Rightarrow> JNull | Some i \<Rightarrow> JInt i)"

fun json_int :: "json option \<Rightarrow> int option" where
  "json_int (Some (JInt i)) = Some i"
| "json_int _ = None"

fun obj_or_empty :: "json option \<Rightarrow> jdict" where
  "obj_or_empty (Some (JObj d)) = d"
| "obj_or_empty _ = []"

definition jint_or :: "jdict \<Rightarrow> string \<Rightarrow> int \<Rightarrow> int" where
  "jint_or d k dflt = (case json_int (jget d k) of None \<Rightarrow> dflt | Some i \<Rightarrow> i)"

text \<open>\<open>str(d.get(k, "") or "")\<close>.\<close>

definition str_or_empty :: "env \<Rightarrow> jdict \<Rightarrow> string \<Rightarrow> string" where
  "str_or_empty E d k = (case jget d k of None \<Rightarrow> '''' | Some v \<Rightarrow> if py_truthy v then py_str E v else '''')"

text \<open>\<open>d[k]\<close>, which raises \<open>KeyError\<close>.\<close>

definition dict_at :: "jdict \<Rightarrow> string \<Rightarrow> json result" where
  "dict_at d k = (case jget d k of None \<Rightarrow> Inl (Err OtherException k) | Some v \<Rightarrow> Inr v)"

fun all_at :: "string \<Rightarrow> jdict list \<Rightarrow> json list result" where
  "all_at k [] = Inr []"
| "all_at k (d # ds) =
     (case dict_at d k of Inl e \<Rightarrow> Inl e
      | Inr v \<Rightarrow> (case all_at k ds of Inl e \<Rightarrow> Inl e | Inr vs \<Rightarrow> Inr (v # vs)))"

section \<open>Formatting and small rules\<close>

text \<open>\<open>f"{minor:,}"\<close> with dots: thousands groups, from the right.\<close>

fun group3 :: "string \<Rightarrow> string" where
  "group3 (a # b # c # d # r) = a # b # c # CHR ''.'' # group3 (d # r)"
| "group3 s = s"

definition fmt_vnd :: "int \<Rightarrow> string" where
  "fmt_vnd minor = (if minor < 0 then ''-'' else '''') @ rev (group3 (rev (int_str \<bar>minor\<bar>))) @ '' VND''"

definition default_window_days :: "string \<Rightarrow> int" where
  "default_window_days method_key =
     (if method_key = ''open_tender'' then 22 else if method_key = ''rfq'' then 14 else 7)"

text \<open>\<open>re.search(r"(\d+)\s*ng\<dots>y", deadline)\<close>: the first number the word for \<open>days\<close> follows.\<close>

definition days_word :: string where
  "days_word = ''ng'' @ [CHR 0xE0] @ ''y''"

fun number_before :: "string \<Rightarrow> string \<Rightarrow> int option" where
  "number_before word [] = None"
| "number_before word (c # cs) =
     (let digits = takeWhile is_digit (c # cs);
          rest = dropWhile py_isspace (dropWhile is_digit (c # cs))
      in if is_digit c \<and> py_startswith rest word then Some (digits_val digits)
         else number_before word cs)"

definition deadline_days :: "string option \<Rightarrow> int option" where
  "deadline_days deadline = (case deadline of None \<Rightarrow> None | Some s \<Rightarrow> number_before days_word s)"

text \<open>
  \<open>_citation_lines\<close>: a hit below ten percent or without a quote is hidden; a source's address is a line
  of its own; the loop stops once the limit is reached.
\<close>

definition citation_lines_of :: "env \<Rightarrow> jdict \<Rightarrow> json list" where
  "citation_lines_of E cite =
     (let quote = py_join '' '' (py_words (map (\<lambda>c. if c = CHR ''#'' then CHR '' '' else c)
                    (py_str E (jget_or cite ''quote'' (JStr '''')))));
          source = str_or_empty E cite ''source_title'';
          uri = str_or_empty E cite ''source_uri''
      in if jint_or cite ''relevance_score'' 0 < 1000 \<or> quote = '''' then []
         else JText ''citation'' [quote, source, int_str (jint_or cite ''relevance_score'' 0)]
              # (if uri = '''' then [] else [JText ''citation_uri'' [uri]]))"

fun citation_loop :: "env \<Rightarrow> nat \<Rightarrow> json list \<Rightarrow> jdict list \<Rightarrow> json list" where
  "citation_loop E limit lines [] = lines"
| "citation_loop E limit lines (c # cs) =
     (let new = citation_lines_of E c
      in if new = [] then citation_loop E limit lines cs
         else if limit \<le> length (lines @ new) then lines @ new
         else citation_loop E limit (lines @ new) cs)"

definition citation_lines :: "env \<Rightarrow> jdict list \<Rightarrow> nat \<Rightarrow> json list" where
  "citation_lines E citations limit = citation_loop E limit [] citations"

text \<open>
  The open questions. The caveat the source trims off a suggestion starts with a word outside the
  modelled code points, so there is none to trim; a suggestion beyond ninety characters is cut.
\<close>

fun question_lines :: "env \<Rightarrow> nat \<Rightarrow> jdict list \<Rightarrow> json list" where
  "question_lines E i [] = []"
| "question_lines E i (item # items) =
     (let question = py_strip (py_str E (jget_or item ''question'' (JStr '''')));
          suggestion = py_strip (py_str E (jget_or item ''suggested_answer'' (JStr '''')))
      in if question = '''' then question_lines E (i + 1) items
         else (if 90 < length suggestion
               then JText ''question_cut'' [nat_str i, question, take 87 suggestion]
               else JText ''question'' [nat_str i, question, suggestion])
              # question_lines E (i + 1) items)"

definition clarification_question_lines :: "env \<Rightarrow> PreparationState \<Rightarrow> json list" where
  "clarification_question_lines E st =
     question_lines E 1 (filter (\<lambda>c. py_truthy (jget_or c ''blocking'' JNull)) (ps_clarifications st))"

definition regulation_lines :: "ProcurementRules \<Rightarrow> int \<Rightarrow> json list" where
  "regulation_lines rules v =
     (if needs_tco rules v then [JText ''tco_required'' [fmt_vnd (pr_tco_required_above rules)]] else [])
     @ (if needs_legal_review rules v
        then [JText ''legal_review_required'' [fmt_vnd (pr_legal_review_required_above rules)]] else [])
     @ (if needs_specialist_review rules v
        then [JText ''specialist_review_required'' [fmt_vnd (pr_specialist_review_above rules)]] else [])"

text \<open>The retrieved passages a citation list carries.\<close>

definition quotes_of :: "env \<Rightarrow> jdict list \<Rightarrow> string list" where
  "quotes_of E citations =
     map (\<lambda>c. py_str E (jget_or c ''quote'' (JStr '''')))
       (filter (\<lambda>c. py_truthy (jget_or c ''quote'' JNull)) citations)"

definition passages_of :: "env \<Rightarrow> jdict list \<Rightarrow> string" where
  "passages_of E citations = numbered_passages (quotes_of E citations)"

definition grounding_source :: "jdict list \<Rightarrow> string" where
  "grounding_source citations =
     (if citations = [] then ''not_available''
      else if list_ex (\<lambda>c. py_truthy (jget_or c ''source_uri'' JNull)) citations then ''live''
      else ''indexed'')"

definition grounding_status :: "jdict list \<Rightarrow> string" where
  "grounding_status citations = (if citations = [] then ''not_available'' else ''grounded'')"

section \<open>Retrieval\<close>

definition citation :: "EvidenceChunk \<Rightarrow> jdict" where
  "citation k =
     [(''source_document_id'', JStr (ek_source_document_id k)),
      (''source_version'', JStr (ek_source_version k)),
      (''quote'', JStr (take 1200 (ek_content k))),
      (''source_title'', opt_json (ek_source_title k)),
      (''source_uri'', opt_json (ek_source_uri k)),
      (''relevance_score'', JInt (ek_relevance k)),
      (''classification'', JStr (ek_classification k))]"

definition cite_for :: "PreparationServices \<Rightarrow> RunContext \<Rightarrow> json \<Rightarrow> string \<Rightarrow> jdict list handler" where
  "cite_for sv rc query domain =
     (case sv_knowledge sv of
        None \<Rightarrow> act_ret []
      | Some search \<Rightarrow>
          (case access_context_from_run rc of
             Inl _ \<Rightarrow> act_ret []
           | Inr x \<Rightarrow>
               act_bind (port_call (\<lambda>n. search n \<lparr>sq_text = query, sq_domain = domain, sq_top_k = 3\<rparr> x))
                 (\<lambda>hits. act_ret (case hits of None \<Rightarrow> [] | Some ks \<Rightarrow> map citation ks))))"

section \<open>Artifacts\<close>

text \<open>\<open>_add_artifact\<close>: content identical to the latest version's keeps that version.\<close>

definition node_artifact ::
  "env \<Rightarrow> PreparationServices \<Rightarrow> uuid \<Rightarrow> PreparationCase \<Rightarrow> ArtifactType \<Rightarrow> int \<Rightarrow> ArtifactStatus \<Rightarrow> jdict
    \<Rightarrow> PreparationArtifact" where
  "node_artifact E sv i c ty ver status content =
     (case_artifact E i c (c_created_by c) ty ver status content)\<lparr>a_schema_version := sv_schema_version sv\<rparr>"

definition add_node_artifact ::
  "env \<Rightarrow> PreparationServices \<Rightarrow> PreparationCase \<Rightarrow> ArtifactType \<Rightarrow> jdict \<Rightarrow> ArtifactStatus
    \<Rightarrow> PreparationArtifact handler" where
  "add_node_artifact E sv c ty content status =
     act_bind (artifacts_latest (c_id c) ty) (\<lambda>latest.
       case filter (\<lambda>a. a_content_hash a = content_hash E content) (case latest of None \<Rightarrow> [] | Some a \<Rightarrow> [a]) of
         a # _ \<Rightarrow> act_ret a
       | [] \<Rightarrow>
           act_bind (new_uuid E) (\<lambda>i.
           let artifact = node_artifact E sv i c ty (next_version latest) status content in
           act_bind (artifacts_add artifact) (\<lambda>_.
           act_ret artifact)))"

section \<open>Cards\<close>

text \<open>\<open>_notify_progress\<close>; no node passes buttons.\<close>

definition notify_progress ::
  "env \<Rightarrow> PreparationCase \<Rightarrow> string \<Rightarrow> string \<Rightarrow> json \<Rightarrow> json list \<Rightarrow> uuid option \<Rightarrow> unit handler" where
  "notify_progress E c stage dedupe heading lines recipient =
     act_bind (new_uuid E) (\<lambda>j.
     act_bind (clock_now E) (\<lambda>now.
       notifications_enqueue (case_job j c NT_RUN_PROGRESS
         (case recipient of Some u \<Rightarrow> u | None \<Rightarrow> c_created_by c) now
         (''dw01:'' @ c_id c @ '':progress:'' @ stage @ '':'' @ dedupe)
         [(''title'', JStr (c_title c)), (''heading'', heading), (''lines'', JArr lines)])))"

definition notify_cp_approval ::
  "env \<Rightarrow> PreparationServices \<Rightarrow> PreparationCase \<Rightarrow> string \<Rightarrow> string \<Rightarrow> json list \<Rightarrow> unit handler" where
  "notify_cp_approval E sv c checkpoint dedupe lines =
     act_bind (find_recipient_for_role
         (approver_role_for (sv_rules sv) (c_estimated_value_minor c) checkpoint) None) (\<lambda>found.
     act_bind (case found of Some u \<Rightarrow> act_ret (Some u)
               | None \<Rightarrow> find_recipient_for_role (pr_default_approver_role (sv_rules sv)) None) (\<lambda>approver.
       case approver of
         None \<Rightarrow> act_ret ()
       | Some u \<Rightarrow>
           act_bind (new_uuid E) (\<lambda>j.
           act_bind (clock_now E) (\<lambda>now.
             notifications_enqueue (case_job j c NT_CP_APPROVAL_REQUESTED u now
               (''dw01:'' @ c_id c @ '':cpcard:'' @ checkpoint @ '':'' @ dedupe)
               [(''title'', JStr (c_title c)), (''checkpoint'', JStr checkpoint),
                (''lines'', JArr lines), (''case_id'', JStr (c_id c))])))))"

text \<open>\<open>case = await uow.cases.get(case_id); assert case is not None\<close>.\<close>

definition node_case :: "uuid \<Rightarrow> PreparationCase handler" where
  "node_case cid = act_bind (cases_get cid) (\<lambda>found. act_some found PyAssertionError '''')"

definition notify_working ::
  "env \<Rightarrow> RunContext \<Rightarrow> uuid \<Rightarrow> string \<Rightarrow> string \<Rightarrow> unit handler" where
  "notify_working E rc cid stage dedupe = in_uow E (rc_tenant_id rc)
     (act_bind (node_case cid) (\<lambda>c.
      act_bind (notify_progress E c stage dedupe (JText stage []) [JText (stage @ ''_line'') []] None) (\<lambda>_.
        commit)))"

definition short_hash :: "env \<Rightarrow> nat \<Rightarrow> jdict \<Rightarrow> string" where
  "short_hash E n content = take n (content_hash E content)"

section \<open>What the model is asked, and what is accepted\<close>

definition rules_summary :: "ProcurementRules \<Rightarrow> json" where
  "rules_summary rules = JText ''rules_summary''
     (pr_version rules # concat (map (\<lambda>m. [m_label m,
        (case m_max_value m of None \<Rightarrow> '''' | Some v \<Rightarrow> if v = 0 then '''' else fmt_vnd v),
        int_str (m_min_suppliers m)]) (pr_methods rules)))"

definition review_context :: "uuid \<Rightarrow> RunContext \<Rightarrow> RunContext" where
  "review_context i rc =
     rc\<lparr>rc_run_id := i, rc_worker_id := ''dw01.review_agent'', rc_worker_version := ''1.0.0'',
        rc_channel := ''agent'', rc_trace_id := ''review-'' @ take 12 (uuid_hex (rc_run_id rc)),
        rc_locale := ''vi-VN''\<rparr>"

definition run_review ::
  "env \<Rightarrow> PreparationServices \<Rightarrow> RunContext \<Rightarrow> string \<Rightarrow> jdict \<Rightarrow> jdict \<Rightarrow> ReviewRecommendation option handler"
where
  "run_review E sv rc checkpoint artifact gate =
     (case sv_model_gateway sv of
        None \<Rightarrow> act_ret None
      | Some g \<Rightarrow>
          act_bind (new_uuid E) (\<lambda>i.
            generate (mg_review g) ok_review
              \<lparr>mq_task = ''preparation.review'', mq_prompt_id = ''preparation.review_checkpoint'',
               mq_prompt_version = ''1.0.0'',
               mq_variables = [(''checkpoint'', checkpoint),
                 (''gate_json'', env_dumps_with E ''ensure_ascii=False'' (JObj gate)),
                 (''rules_summary'', env_text E (rules_summary (sv_rules sv))),
                 (''artifact_json'', take 12000 (env_dumps_with E ''ensure_ascii=False'' (JObj artifact)))],
               mq_model_profile = sv_model_profile sv, mq_route_kind = ''deep_reasoning''\<rparr>
              (review_context i rc)))"

definition extract_legal_constraints ::
  "env \<Rightarrow> PreparationServices \<Rightarrow> RunContext \<Rightarrow> string \<Rightarrow> jdict list \<Rightarrow> LegalConstraint option handler" where
  "extract_legal_constraints E sv rc method_label citations =
     (let passages = quotes_of E citations
      in case sv_model_gateway sv of
           None \<Rightarrow> act_ret None
         | Some g \<Rightarrow>
             if passages = [] then act_ret None
             else act_bind (generate (mg_legal g) ok_legal
                    \<lparr>mq_task = ''preparation.legal_constraints'',
                     mq_prompt_id = ''preparation.extract_legal_constraints'', mq_prompt_version = ''1.0.0'',
                     mq_variables = [(''method_label'', method_label), (''passages'', numbered_passages passages)],
                     mq_model_profile = sv_model_profile sv, mq_route_kind = ''auto''\<rparr> rc) (\<lambda>extraction.
                  act_ret (case extraction of None \<Rightarrow> None | Some e \<Rightarrow> verified_constraint e passages)))"

definition LEGAL_WINDOW_QUERY :: json where
  "LEGAL_WINDOW_QUERY = JText ''legal_window_query'' []"

definition live_legal_minimum ::
  "env \<Rightarrow> PreparationServices \<Rightarrow> RunContext \<Rightarrow> string \<Rightarrow> (int option \<times> string) handler" where
  "live_legal_minimum E sv rc method_label =
     act_bind (cite_for sv rc LEGAL_WINDOW_QUERY ''legal'') (\<lambda>citations.
       if citations = [] then act_ret (None, ''not_available'')
       else act_bind (extract_legal_constraints E sv rc method_label citations) (\<lambda>verified.
         act_ret (case verified of None \<Rightarrow> (None, ''not_available'')
                  | Some c \<Rightarrow> (Some (lc_days c), grounding_source citations))))"

definition extract_required_sections ::
  "env \<Rightarrow> PreparationServices \<Rightarrow> RunContext \<Rightarrow> jdict list \<Rightarrow> RequiredSectionsExtraction option handler" where
  "extract_required_sections E sv rc citations =
     (let passages = quotes_of E citations
      in case sv_model_gateway sv of
           None \<Rightarrow> act_ret None
         | Some g \<Rightarrow>
             if passages = [] then act_ret None
             else act_bind (generate (mg_sections g) ok_sections
                    \<lparr>mq_task = ''preparation.required_sections'',
                     mq_prompt_id = ''preparation.extract_required_sections'',
                     mq_prompt_version = sv_prompt_bundle_version sv,
                     mq_variables = [(''passages'', numbered_passages passages)],
                     mq_model_profile = sv_model_profile sv, mq_route_kind = ''auto''\<rparr> rc) (\<lambda>extraction.
                  act_ret (case extraction of None \<Rightarrow> None | Some e \<Rightarrow> verified_sections e passages)))"

text \<open>The fallback: every line of the request; a dashed line is a requirement, a marked one is unknown.\<close>

definition is_bullet :: "char \<Rightarrow> bool" where
  "is_bullet c = (c = CHR ''-'' \<or> c = CHR '' '')"

definition request_lines :: "string \<Rightarrow> string list" where
  "request_lines pr_text = filter (\<lambda>l. l \<noteq> '''') (map py_strip (py_splitlines pr_text))"

definition line_requirements :: "string \<Rightarrow> jdict list" where
  "line_requirements pr_text =
     map (\<lambda>l. [(''text'', JStr (py_strip (dropWhile is_bullet l)))])
       (filter (\<lambda>l. py_startswith l ''-'') (request_lines pr_text))"

definition line_unknowns :: "env \<Rightarrow> string \<Rightarrow> jdict list" where
  "line_unknowns E pr_text =
     map (\<lambda>l. [(''question'', JStr l), (''suggested_answer'', JStr '''')])
       (filter (sublist (env_text E (JText ''unknown_marker'' []))) (request_lines pr_text))"

definition model_requirements :: "PreparationExtraction \<Rightarrow> jdict list" where
  "model_requirements x = map (\<lambda>r. [(''code'', JStr (xr_code r)), (''text'', JStr (xr_statement r)),
     (''kind'', JStr (xr_kind r))]) (px_requirements x)"

definition model_unknowns :: "PreparationExtraction \<Rightarrow> jdict list" where
  "model_unknowns x = map (\<lambda>u. [(''question'', JStr (ui_question u)),
     (''suggested_answer'', JStr (ui_suggested_answer u))]) (px_unknowns x)"

definition extract_from_request ::
  "env \<Rightarrow> PreparationServices \<Rightarrow> RunContext \<Rightarrow> string \<Rightarrow> (jdict list \<times> jdict list \<times> string) handler" where
  "extract_from_request E sv rc pr_text =
     act_bind (case sv_model_gateway sv of
         None \<Rightarrow> act_ret None
       | Some g \<Rightarrow>
           if py_strip pr_text = '''' then act_ret None
           else generate (mg_extraction g) ok_extraction
                  \<lparr>mq_task = ''structured_extraction'', mq_prompt_id = ''preparation.extract_requirements'',
                   mq_prompt_version = sv_prompt_bundle_version sv, mq_variables = [(''pr_text'', pr_text)],
                   mq_model_profile = sv_model_profile sv, mq_route_kind = ''auto''\<rparr> rc) (\<lambda>extracted.
       act_ret (case extracted of
           Some x \<Rightarrow> if px_requirements x \<noteq> [] then (model_requirements x, model_unknowns x, ''ai'')
                     else (line_requirements pr_text, line_unknowns E pr_text, ''rule'')
         | None \<Rightarrow> (line_requirements pr_text, line_unknowns E pr_text, ''rule'')))"

definition dashed :: "env \<Rightarrow> json list \<Rightarrow> string" where
  "dashed E requirements = py_join [CHR 0x0A] (map (\<lambda>r. ''- '' @ py_str E r) requirements)"

definition llm_solicitation ::
  "env \<Rightarrow> PreparationServices \<Rightarrow> RunContext \<Rightarrow> string \<Rightarrow> string \<Rightarrow> json list \<Rightarrow> jdict list
    \<Rightarrow> SolicitationDraft option handler" where
  "llm_solicitation E sv rc ptype meth requirements citations =
     (case sv_model_gateway sv of
        None \<Rightarrow> act_ret None
      | Some g \<Rightarrow>
          if requirements = [] then act_ret None
          else generate (mg_solicitation g) ok_solicitation
                 \<lparr>mq_task = ''reasoning'', mq_prompt_id = ''preparation.draft_solicitation'',
                  mq_prompt_version = sv_prompt_bundle_version sv,
                  mq_variables = [(''procurement_type'', ptype), (''method'', meth),
                    (''requirements'', dashed E requirements), (''passages'', passages_of E citations)],
                  mq_model_profile = sv_model_profile sv, mq_route_kind = ''auto''\<rparr> rc)"

definition criterion_json :: "WeightedCriterion \<Rightarrow> jdict" where
  "criterion_json c = [(''code'', JStr (wc_code c)), (''text'', JStr (wc_text c)), (''weight'', JInt (wc_weight c))]"

definition llm_criteria ::
  "env \<Rightarrow> PreparationServices \<Rightarrow> RunContext \<Rightarrow> string \<Rightarrow> json list \<Rightarrow> jdict list
    \<Rightarrow> WeightedCriterion list option handler" where
  "llm_criteria E sv rc ptype requirements citations =
     (case sv_model_gateway sv of
        None \<Rightarrow> act_ret None
      | Some g \<Rightarrow>
          if requirements = [] then act_ret None
          else act_bind (generate (mg_criteria g) ok_criteria
                 \<lparr>mq_task = ''reasoning'', mq_prompt_id = ''preparation.draft_criteria'',
                  mq_prompt_version = sv_prompt_bundle_version sv,
                  mq_variables = [(''procurement_type'', ptype), (''requirements'', dashed E requirements),
                    (''passages'', passages_of E citations)],
                  mq_model_profile = sv_model_profile sv, mq_route_kind = ''auto''\<rparr> rc) (\<lambda>draft.
               act_ret (case draft of None \<Rightarrow> None
                        | Some d \<Rightarrow> if weights_valid d then Some (cd_weighted d) else None)))"

section \<open>Who turned a checkpoint down\<close>

definition is_hex_digit :: "char \<Rightarrow> bool" where
  "is_hex_digit c = (is_digit c \<or> c \<in> set ''abcdefABCDEF'')"

definition lower_hex :: "char \<Rightarrow> char" where
  "lower_hex c = (let n = (of_char c :: int) in if 65 \<le> n \<and> n \<le> 70 then char_of (n + 32) else c)"

text \<open>\<open>uuid.UUID(text)\<close> of thirty-two hexadecimal digits, with or without dashes.\<close>

definition uuid_of_str :: "string \<Rightarrow> uuid option" where
  "uuid_of_str s =
     (let h = map lower_hex (filter (\<lambda>c. c \<noteq> CHR ''-'') s)
      in if length h = 32 \<and> list_all is_hex_digit h
         then Some (take 8 h @ ''-'' @ take 4 (drop 8 h) @ ''-'' @ take 4 (drop 12 h) @ ''-''
                    @ take 4 (drop 16 h) @ ''-'' @ drop 20 h)
         else None)"

definition decider :: "env \<Rightarrow> jdict \<Rightarrow> RunContext \<Rightarrow> uuid" where
  "decider E decision rc =
     (let raw = str_or_empty E decision ''decided_by''
      in if raw = '''' then rc_actor_id rc
         else case uuid_of_str raw of Some u \<Rightarrow> u | None \<Rightarrow> rc_actor_id rc)"

end
