(* ===== verification/DW_Nodes.thy ===== *)
theory DW_Nodes
  imports DW_Drafting
begin

text \<open>
  The nodes of the preparation workflow (\<open>workflows/preparation_v1/nodes.py\<close>), one definition per node
  and one per transaction of the larger ones. A node reads the state, writes in units of work of the
  run's tenant, and returns the state updated with the keys it sets.
\<close>

section \<open>Intake: loading the case, extracting requirements, completeness\<close>

definition request_text :: "PreparationServices \<Rightarrow> PreparationDocument list \<Rightarrow> string handler" where
  "request_text sv docs =
     (case find (\<lambda>d. d_kind d = APPROVED_PR) docs of
        None \<Rightarrow> act_ret ''''
      | Some d \<Rightarrow> read_text sv (d_storage_key d))"

definition response_answers :: "env \<Rightarrow> PreparationArtifact option \<Rightarrow> (string \<times> string) list" where
  "response_answers E response =
     (case response of None \<Rightarrow> []
      | Some a \<Rightarrow> map (\<lambda>item. (py_str E (jget_or item ''id'' (JStr '''')),
                               py_strip (py_str E (jget_or item ''answer'' (JStr '''')))))
                   (dicts (jget (a_content a) ''items'')))"

definition loaded_state ::
  "env \<Rightarrow> PreparationCase \<Rightarrow> string \<Rightarrow> PreparationArtifact option \<Rightarrow> PreparationArtifact option
    \<Rightarrow> PreparationState \<Rightarrow> PreparationState" where
  "loaded_state E c pr_text response supplier_input st =
     st\<lparr>ps_schema_version := ''1.0'', ps_pr_text := pr_text,
        ps_has_approved_pr := c_source_pr_ref c \<noteq> '''' \<and> pr_text \<noteq> '''' \<and> c_intake_verified_by c \<noteq> None,
        ps_estimated_value_minor := c_estimated_value_minor c, ps_currency := c_currency c,
        ps_deadline := c_deadline c, ps_owner_name := c_owner_name c, ps_case_title := c_title c,
        ps_source_pr_ref := c_source_pr_ref c,
        ps_procurement_type := procurement_type_value (c_procurement_type c),
        ps_business_domain := business_domain_value (c_business_domain c),
        ps_clarification_answers := response_answers E response,
        ps_supplier_candidates :=
          (case supplier_input of None \<Rightarrow> [] | Some a \<Rightarrow> dicts (jget (a_content a) ''suppliers''))\<rparr>"

definition load_case_node ::
  "env \<Rightarrow> PreparationServices \<Rightarrow> RunContext \<Rightarrow> PreparationState \<Rightarrow> PreparationState handler" where
  "load_case_node E sv rc st =
     act_bind (case_id_of st) (\<lambda>cid.
       in_uow E (rc_tenant_id rc)
         (act_bind (cases_get cid) (\<lambda>found.
          act_bind (act_some found DomainError ''preparation case not found'') (\<lambda>c.
          act_bind (documents_list_for_case cid) (\<lambda>docs.
          act_bind (request_text sv docs) (\<lambda>pr_text.
          act_bind (artifacts_latest cid CLARIFICATION_RESPONSE) (\<lambda>response.
          act_bind (artifacts_latest cid SUPPLIER_INPUT) (\<lambda>supplier_input.
            act_ret (loaded_state E c pr_text response supplier_input st)))))))))"

text \<open>A transaction that appends one artifact to the case and commits.\<close>

definition artifact_tx ::
  "env \<Rightarrow> PreparationServices \<Rightarrow> RunContext \<Rightarrow> uuid \<Rightarrow> ArtifactType \<Rightarrow> jdict \<Rightarrow> unit handler" where
  "artifact_tx E sv rc cid ty content = in_uow E (rc_tenant_id rc)
     (act_bind (node_case cid) (\<lambda>c.
      act_bind (add_node_artifact E sv c ty content AS_DRAFT) (\<lambda>_.
        commit)))"

definition snapshot_content ::
  "PreparationState \<Rightarrow> jdict list \<Rightarrow> jdict list \<Rightarrow> string \<Rightarrow> json list \<Rightarrow> jdict" where
  "snapshot_content st requirements unknowns source texts =
     [(''estimated_value'', JStr (fmt_vnd (ps_estimated_value_minor st))),
      (''deadline'', opt_json (ps_deadline st)), (''owner'', JStr (ps_owner_name st)),
      (''procurement_type'', JStr (ps_procurement_type st)),
      (''business_domain'', JStr (ps_business_domain st)), (''extraction_source'', JStr source),
      (''requirement_lines'', JArr texts), (''requirements'', JArr (map JObj requirements)),
      (''unknowns'', JArr (map JObj unknowns)), (''unknown_count'', JInt (int (length unknowns)))]"

definition extract_requirements_node ::
  "env \<Rightarrow> PreparationServices \<Rightarrow> RunContext \<Rightarrow> PreparationState \<Rightarrow> PreparationState handler" where
  "extract_requirements_node E sv rc st =
     act_bind (case_id_of st) (\<lambda>cid.
     act_bind (in_uow E (rc_tenant_id rc) (artifacts_latest cid DEMAND_SNAPSHOT)) (\<lambda>existing.
       case existing of
         Some a \<Rightarrow>
           act_ret (st\<lparr>ps_requirements := dicts (jget (a_content a) ''requirements''),
                       ps_unknowns := dicts (jget (a_content a) ''unknowns'')\<rparr>)
       | None \<Rightarrow>
           act_bind (notify_working E rc cid ''working_requirements''
               (''wr-'' @ short_hash E 10 [(''c'', JStr cid)])) (\<lambda>_.
           act_bind (extract_from_request E sv rc (ps_pr_text st)) (\<lambda>(requirements, unknowns, source).
           act_bind (act_lift (all_at ''text'' requirements)) (\<lambda>texts.
           act_bind (artifact_tx E sv rc cid DEMAND_SNAPSHOT
               (snapshot_content st requirements unknowns source texts)) (\<lambda>_.
             act_ret (st\<lparr>ps_requirements := requirements, ps_unknowns := unknowns\<rparr>)))))))"

text \<open>The answer a question has: the last response item with its id.\<close>

definition answer_to :: "PreparationState \<Rightarrow> string \<Rightarrow> string" where
  "answer_to st i = (case map_of (rev (ps_clarification_answers st)) i of None \<Rightarrow> '''' | Some a \<Rightarrow> a)"

definition clarification_item :: "PreparationState \<Rightarrow> nat \<Rightarrow> jdict \<Rightarrow> jdict" where
  "clarification_item st i u =
     (let cid = ''c'' @ nat_str (i + 1);
          answered = py_strip (answer_to st cid) \<noteq> ''''
      in [(''id'', JStr cid), (''question'', jget_or u ''question'' (JStr '''')),
          (''suggested_answer'', jget_or u ''suggested_answer'' (JStr '''')),
          (''blocking'', JBool (\<not> answered)), (''answered'', JBool answered),
          (''answer'', JStr (answer_to st cid))])"

fun clarification_items :: "PreparationState \<Rightarrow> nat \<Rightarrow> jdict list \<Rightarrow> jdict list" where
  "clarification_items st i [] = []"
| "clarification_items st i (u # us) = clarification_item st i u # clarification_items st (i + 1) us"

definition blocking_count :: "jdict list \<Rightarrow> nat" where
  "blocking_count cs = length (filter (\<lambda>c. py_truthy (jget_or c ''blocking'' JNull)) cs)"

definition completeness_report :: "nat \<Rightarrow> nat \<Rightarrow> jdict" where
  "completeness_report unknowns blocking =
     [(''complete'', JBool (blocking = 0)), (''unknown_count'', JInt (int unknowns)),
      (''blocking_count'', JInt (int blocking)),
      (''note'', JText (if blocking = 0 then ''input_complete'' else ''answer_every_unknown'') [])]"

definition completeness_tx ::
  "env \<Rightarrow> PreparationServices \<Rightarrow> uuid \<Rightarrow> nat \<Rightarrow> jdict list \<Rightarrow> unit handler" where
  "completeness_tx E sv cid unknowns clarifications =
     act_bind (node_case cid) (\<lambda>c.
     act_bind (add_node_artifact E sv c COMPLETENESS_REPORT
         (completeness_report unknowns (blocking_count clarifications)) AS_DRAFT) (\<lambda>_.
     act_bind (add_node_artifact E sv c CLARIFICATION_LIST
         [(''items'', JArr (map JObj clarifications))] AS_DRAFT) (\<lambda>_.
     act_bind (cases_save (advance c CS_WAITING_CLARIFICATION ''clarification'' None)) (\<lambda>_.
       commit))))"

definition completeness_check_node ::
  "env \<Rightarrow> PreparationServices \<Rightarrow> RunContext \<Rightarrow> PreparationState \<Rightarrow> PreparationState handler" where
  "completeness_check_node E sv rc st =
     act_bind (case_id_of st) (\<lambda>cid.
     let clarifications = clarification_items st 0 (ps_unknowns st) in
     act_bind (in_uow E (rc_tenant_id rc)
         (completeness_tx E sv cid (length (ps_unknowns st)) clarifications)) (\<lambda>_.
       act_ret (st\<lparr>ps_clarifications := clarifications\<rparr>)))"

section \<open>The procurement approach\<close>

definition approach_head :: "ProcurementRules \<Rightarrow> Method \<Rightarrow> int \<Rightarrow> int \<Rightarrow> jdict" where
  "approach_head rules m v planned =
     [(''method'', JObj [(''key'', JStr (m_key m)), (''label'', JStr (m_label m))]),
      (''estimated_value'', JStr (fmt_vnd v)), (''min_suppliers'', JInt (m_min_suppliers m)),
      (''supplier_count_planned'', JInt planned),
      (''sourcing_strategy'', if m_key m \<noteq> ''direct_purchase''
         then JText ''invite_candidates'' [int_str planned] else JText ''invite_candidate'' [])]"

definition approach_rest :: "ProcurementRules \<Rightarrow> Method \<Rightarrow> int \<Rightarrow> jdict" where
  "approach_rest rules m v =
     [(''approval_path'', JArr [JText ''cp1_path'' [], JText ''cp2_path'' []]),
      (''legal_review_required'', JBool (needs_legal_review rules v)),
      (''finance_review_required'', JBool (needs_finance_review rules v)),
      (''tco_required'', JBool (needs_tco rules v)),
      (''specialist_review_required'', JBool (needs_specialist_review rules v)),
      (''regulation_notes'', JArr (regulation_lines rules v)),
      (''rationale'', JText ''method_rationale'' [fmt_vnd v, m_label m, pr_version rules])]"

definition same_passage :: "jdict \<Rightarrow> jdict \<Rightarrow> bool" where
  "same_passage a b = (jget a ''source_document_id'' = jget b ''source_document_id''
     \<and> jget a ''quote'' = jget b ''quote'')"

text \<open>The window passages that the method passages do not already hold.\<close>

definition merged_basis :: "jdict list \<Rightarrow> jdict list \<Rightarrow> jdict list" where
  "merged_basis legal window = legal @ filter (\<lambda>c. \<not> list_ex (same_passage c) legal) window"

definition opt_days :: "LegalConstraint option \<Rightarrow> int option" where
  "opt_days constraint = map_option lc_days constraint"

definition applied_window :: "string \<Rightarrow> LegalConstraint option \<Rightarrow> int" where
  "applied_window key constraint =
     max (default_window_days key) (case opt_days constraint of None \<Rightarrow> 0 | Some d \<Rightarrow> d)"

definition deadline_conflict :: "string option \<Rightarrow> LegalConstraint option \<Rightarrow> int \<Rightarrow> json" where
  "deadline_conflict deadline constraint window =
     (case (constraint, deadline_days deadline) of
        (Some c, Some days) \<Rightarrow>
          if days < window
          then JText ''deadline_conflict'' [int_str days, int_str (lc_days c), lc_article c, int_str window]
          else JNull
      | _ \<Rightarrow> JNull)"

definition legal_constraints_json :: "string \<Rightarrow> LegalConstraint option \<Rightarrow> json \<Rightarrow> jdict" where
  "legal_constraints_json key constraint conflict =
     [(''extracted'', case constraint of None \<Rightarrow> JNull | Some c \<Rightarrow> JObj (constraint_json c)),
      (''default_window_days'', JInt (default_window_days key)),
      (''applied_window_days'', JInt (applied_window key constraint)), (''deadline_conflict'', conflict)]"

definition timeline_step :: "string \<Rightarrow> int \<Rightarrow> json" where
  "timeline_step step offset = JObj [(''step'', JText step []), (''offset_days'', JInt offset)]"

definition approach_content ::
  "ProcurementRules \<Rightarrow> Method \<Rightarrow> int \<Rightarrow> int \<Rightarrow> jdict list \<Rightarrow> jdict list \<Rightarrow> LegalConstraint option \<Rightarrow> json \<Rightarrow> jdict"
where
  "approach_content rules m v planned legal policy constraint conflict =
     (let window = applied_window (m_key m) constraint;
          status = grounding_status (legal @ policy)
      in approach_head rules m v planned
         @ [(''timeline'', JArr [timeline_step ''issue'' 0, timeline_step ''submission_deadline'' window,
                                 timeline_step ''evaluation'' (window + 7)])]
         @ approach_rest rules m v
         @ [(''legal_basis'', JArr (map JObj legal)), (''policy_basis'', JArr (map JObj policy)),
            (''legal_constraints'', JObj (legal_constraints_json (m_key m) constraint conflict)),
            (''grounding_status'', JStr status), (''grounding_source'', JStr (grounding_source legal))]
         @ (if status = ''not_available'' then [(''grounding_warning'', JText ''no_grounding'' [])] else []))"

definition approach_card ::
  "env \<Rightarrow> Method \<Rightarrow> int \<Rightarrow> jdict list \<Rightarrow> jdict list \<Rightarrow> LegalConstraint option \<Rightarrow> json \<Rightarrow> json list" where
  "approach_card E m v legal policy constraint conflict =
     [JText ''approach_proposed'' [m_label m, fmt_vnd v]]
     @ (if legal \<noteq> [] \<or> policy \<noteq> []
        then JText ''passages_retrieved'' [nat_str (length legal), nat_str (length policy)]
             # citation_lines E (legal @ policy) 5
        else [JText ''nothing_retrieved'' []])
     @ (if grounding_source legal = ''indexed'' then [JText ''indexed_sources'' []] else [])
     @ (case constraint of None \<Rightarrow> []
        | Some c \<Rightarrow> [JText ''legal_window'' [int_str (lc_days c), lc_article c,
                                             int_str (applied_window (m_key m) constraint)]])
     @ (if py_truthy conflict then [JArr [conflict, JText ''adjust_deadline'' []]] else [])"

definition approach_tx ::
  "env \<Rightarrow> PreparationServices \<Rightarrow> uuid \<Rightarrow> Method \<Rightarrow> int \<Rightarrow> jdict \<Rightarrow> json list \<Rightarrow> unit handler" where
  "approach_tx E sv cid m v content lines =
     act_bind (node_case cid) (\<lambda>c.
     act_bind (add_node_artifact E sv c PROCUREMENT_APPROACH content AS_DRAFT) (\<lambda>_.
     let c' = advance c CS_APPROACH_READY ''approach'' (Some (m_key m)) in
     act_bind (notify_progress E c' ''approach_rag''
         (short_hash E 12 [(''m'', JStr (m_key m)), (''v'', JInt v), (''n'', JInt (int (length lines)))])
         (JText ''regulations_checked'' []) lines None) (\<lambda>_.
     act_bind (cases_save c') (\<lambda>_.
       commit))))"

definition draft_procurement_approach_node ::
  "env \<Rightarrow> PreparationServices \<Rightarrow> RunContext \<Rightarrow> PreparationState \<Rightarrow> PreparationState handler" where
  "draft_procurement_approach_node E sv rc st =
     act_bind (case_id_of st) (\<lambda>cid.
     act_bind (notify_working E rc cid ''working_approach''
         (''wa-'' @ short_hash E 10 [(''c'', JStr cid)])) (\<lambda>_.
     let v = ps_estimated_value_minor st; planned = int (length (ps_supplier_candidates st)) in
     act_bind (act_lift (select_method (sv_rules sv) v)) (\<lambda>m.
     act_bind (cite_for sv rc (JText ''method_query'' [m_label m]) ''legal'') (\<lambda>legal0.
     act_bind (cite_for sv rc LEGAL_WINDOW_QUERY ''legal'') (\<lambda>window_basis.
     act_bind (cite_for sv rc (JText ''policy_query'' [fmt_vnd v]) ''policy'') (\<lambda>policy.
     let legal = merged_basis legal0 window_basis in
     act_bind (extract_legal_constraints E sv rc (m_label m) legal) (\<lambda>constraint.
     let window = applied_window (m_key m) constraint;
         conflict = deadline_conflict (ps_deadline st) constraint window in
     act_bind (in_uow E (rc_tenant_id rc)
         (approach_tx E sv cid m v
            (approach_content (sv_rules sv) m v planned legal policy constraint conflict)
            (approach_card E m v legal policy constraint conflict))) (\<lambda>_.
       act_ret (st\<lparr>ps_method_key := m_key m, ps_method_label := Some (m_label m),
                   ps_min_suppliers := Some (m_min_suppliers m), ps_supplier_count_planned := planned,
                   ps_solicitation_window_days := window,
                   ps_legal_constraints := legal_constraints_json (m_key m) constraint conflict\<rparr>)))))))))"

section \<open>The CP1 gate\<close>

definition gate_json :: "GateResult \<Rightarrow> jdict" where
  "gate_json g = [(''passed'', JBool (g_passed g)), (''reasons'', JArr (g_reasons g))]"

definition cp1_gate :: "ProcurementRules \<Rightarrow> Method \<Rightarrow> PreparationState \<Rightarrow> GateResult" where
  "cp1_gate rules m st =
     approach_gate rules (ps_has_approved_pr st) (ps_estimated_value_minor st) (ps_currency st)
       (ps_deadline st) (ps_owner_name st) m (ps_supplier_count_planned st)
       (int (blocking_count (ps_clarifications st)))"

definition cp1_payload_of :: "ProcurementRules \<Rightarrow> Method \<Rightarrow> jdict \<Rightarrow> PreparationState \<Rightarrow> jdict" where
  "cp1_payload_of rules m gate st =
     [(''approval_type'', JStr ''preparation.cp1''),
      (''reason'', JText ''cp1_reason'' [case ps_method_label st of Some l \<Rightarrow> l | None \<Rightarrow> m_label m]),
      (''checkpoint'', JStr ''CP1''),
      (''required_role'', JStr (approver_role_for rules (ps_estimated_value_minor st) ''CP1'')),
      (''case_id'', JStr (ps_case_id st)), (''case_title'', JStr (ps_case_title st)),
      (''source_pr_ref'', JStr (ps_source_pr_ref st)), (''gate'', JObj gate),
      (''method'', JObj [(''key'', JStr (m_key m)), (''label'', JStr (m_label m))]),
      (''estimated_value'', JStr (fmt_vnd (ps_estimated_value_minor st))),
      (''supplier_count_planned'', JInt (ps_supplier_count_planned st))]"

definition approved_artifact_json :: "PreparationArtifact \<Rightarrow> json" where
  "approved_artifact_json a =
     JObj [(''artifact_id'', JStr (a_id a)), (''artifact_type'', JStr (artifact_type_value (a_type a))),
           (''artifact_version'', JInt (a_version a)), (''content_hash'', JStr (a_content_hash a))]"

text \<open>The gate's verdict is merged into the latest artifact of a type, when there is one.\<close>

definition merge_into_latest ::
  "env \<Rightarrow> PreparationServices \<Rightarrow> PreparationCase \<Rightarrow> ArtifactType \<Rightarrow> (jdict \<Rightarrow> jdict) handler
    \<Rightarrow> PreparationArtifact option handler" where
  "merge_into_latest E sv c ty merge =
     act_bind (artifacts_latest (c_id c) ty) (\<lambda>found.
       case found of
         None \<Rightarrow> act_ret None
       | Some a \<Rightarrow>
           act_bind merge (\<lambda>f.
           act_bind (add_node_artifact E sv c ty (f (a_content a)) AS_DRAFT) (\<lambda>a'.
             act_ret (Some a'))))"

definition with_approved :: "PreparationArtifact option \<Rightarrow> jdict \<Rightarrow> jdict" where
  "with_approved found payload =
     (case found of None \<Rightarrow> payload | Some a \<Rightarrow> dict_set ''approved_artifact'' (approved_artifact_json a) payload)"

definition autopilot_applies :: "PreparationServices \<Rightarrow> Method \<Rightarrow> GateResult \<Rightarrow> ReviewRecommendation option \<Rightarrow> bool" where
  "autopilot_applies sv m gate review =
     (g_passed gate
      \<and> (case review of None \<Rightarrow> False | Some r \<Rightarrow> rv_recommendation r = RV_APPROVE)
      \<and> m_min_suppliers m = 1 \<and> sv_autonomy_profile sv = ''autonomous_demo'')"

definition cp1_common_lines :: "ProcurementRules \<Rightarrow> Method \<Rightarrow> PreparationState \<Rightarrow> json list" where
  "cp1_common_lines rules m st =
     [JText ''method_applies'' [fmt_vnd (ps_estimated_value_minor st), m_label m],
      JText ''suppliers_planned'' [int_str (ps_supplier_count_planned st), int_str (m_min_suppliers m)]]
     @ regulation_lines rules (ps_estimated_value_minor st)"

definition constraint_lines :: "env \<Rightarrow> PreparationState \<Rightarrow> json list" where
  "constraint_lines E st =
     (let info = ps_legal_constraints st;
          extracted = obj_or_empty (jget info ''extracted'')
      in (if py_truthy (jget_or extracted ''min_bid_preparation_days'' JNull)
          then [JText ''window_respects_law''
                  [py_str E (jget_or info ''applied_window_days'' (JText ''dash'' [])),
                   py_str E (jget_or extracted ''min_bid_preparation_days'' JNull),
                   str_or_empty E extracted ''article_ref'']]
          else [])
         @ (if py_truthy (jget_or info ''deadline_conflict'' JNull)
            then [jget_or info ''deadline_conflict'' JNull] else []))"

definition evidence_lines :: "env \<Rightarrow> PreparationArtifact option \<Rightarrow> json list" where
  "evidence_lines E approach =
     (case approach of None \<Rightarrow> []
      | Some a \<Rightarrow> citation_lines E (dicts (jget (a_content a) ''legal_basis'')
                                    @ dicts (jget (a_content a) ''policy_basis'')) 4)"

definition cp1_card ::
  "env \<Rightarrow> ProcurementRules \<Rightarrow> Method \<Rightarrow> PreparationState \<Rightarrow> PreparationArtifact option
    \<Rightarrow> ReviewRecommendation option \<Rightarrow> json list" where
  "cp1_card E rules m st approach review =
     cp1_common_lines rules m st @ constraint_lines E st
     @ [JText ''automatic_check_passed'' [ps_source_pr_ref st]]
     @ (if evidence_lines E approach = [] then [] else JText ''passages_used'' [] # evidence_lines E approach)
     @ (case review of None \<Rightarrow> [] | Some r \<Rightarrow> review_card_lines r)"

definition review_content :: "string \<Rightarrow> jdict \<Rightarrow> ReviewRecommendation \<Rightarrow> jdict" where
  "review_content checkpoint mode r =
     [(''checkpoint'', JStr checkpoint), (''agent_id'', JStr ''dw01.review_agent''),
      (''prompt_version'', JStr ''1.0.0'')] @ mode @ review_json r"

definition record_review ::
  "env \<Rightarrow> PreparationServices \<Rightarrow> PreparationCase \<Rightarrow> string \<Rightarrow> jdict \<Rightarrow> ReviewRecommendation option \<Rightarrow> unit handler" where
  "record_review E sv c checkpoint mode review =
     (case review of None \<Rightarrow> act_ret ()
      | Some r \<Rightarrow> act_bind (add_node_artifact E sv c REVIEW_RECOMMENDATION
                    (review_content checkpoint mode r) AS_DRAFT) (\<lambda>_. act_ret ()))"

text \<open>Telling whoever would have decided CP1 that it was decided by delegation.\<close>

definition autonomy_notice ::
  "env \<Rightarrow> PreparationServices \<Rightarrow> PreparationCase \<Rightarrow> string \<Rightarrow> json list \<Rightarrow> unit handler" where
  "autonomy_notice E sv c dedupe lines =
     act_bind (find_recipient_for_role
         (approver_role_for (sv_rules sv) (c_estimated_value_minor c) ''CP1'') None) (\<lambda>approver.
       case approver of
         None \<Rightarrow> act_ret ()
       | Some u \<Rightarrow> notify_progress E c ''cp1_autonomy_fyi'' dedupe (JText ''cp1_delegated'' [])
                    (lines @ [JText ''autonomy_policy'' [], JText ''autonomy_override'' []]) (Some u))"

definition cp1_passed_cards ::
  "env \<Rightarrow> PreparationServices \<Rightarrow> PreparationCase \<Rightarrow> Method \<Rightarrow> PreparationState \<Rightarrow> jdict
    \<Rightarrow> PreparationArtifact option \<Rightarrow> ReviewRecommendation option \<Rightarrow> bool \<Rightarrow> unit handler" where
  "cp1_passed_cards E sv c m st gate approach review autopilot =
     (let lines = cp1_card E (sv_rules sv) m st approach review; dedupe = short_hash E 12 gate
      in act_bind (notify_progress E c ''cp1_gate'' dedupe
             (JText (if autopilot then ''cp1_gate_passed_delegated'' else ''cp1_gate_passed'') [])
             (cp1_common_lines (sv_rules sv) m st
              @ [JText (if autopilot then ''cp1_delegation'' else ''cp1_submitted'') []]) None) (\<lambda>_.
         act_bind (record_review E sv c ''CP1''
             [(''decision_mode'', JStr (if autopilot then ''delegated_autonomy'' else ''advisory''))] review) (\<lambda>_.
           if autopilot then autonomy_notice E sv c dedupe lines
           else notify_cp_approval E sv c ''CP1'' dedupe lines)))"

definition cp1_failed_card ::
  "env \<Rightarrow> PreparationCase \<Rightarrow> GateResult \<Rightarrow> PreparationState \<Rightarrow> unit handler" where
  "cp1_failed_card E c g st =
     notify_progress E c ''cp1_gate'' (short_hash E 12 (gate_json g)) (JText ''cp1_gate_failed'' [])
       (g_reasons g @ clarification_question_lines E st @ [JText ''answer_here'' []]) None"

definition approach_gate_tx ::
  "env \<Rightarrow> PreparationServices \<Rightarrow> uuid \<Rightarrow> Method \<Rightarrow> GateResult \<Rightarrow> PreparationState \<Rightarrow> ReviewRecommendation option
    \<Rightarrow> PreparationArtifact option handler" where
  "approach_gate_tx E sv cid m g st review =
     act_bind (node_case cid) (\<lambda>c.
     act_bind (merge_into_latest E sv c PROCUREMENT_APPROACH
         (act_ret (dict_set ''gate'' (JObj (gate_json g))))) (\<lambda>approach.
     let c' = advance c (if g_passed g then CS_CP1_PENDING else CS_WAITING_CLARIFICATION) ''cp1'' None in
     act_bind (if g_passed g
               then cp1_passed_cards E sv c' m st (gate_json g) approach review
                      (autopilot_applies sv m g review)
               else cp1_failed_card E c' g st) (\<lambda>_.
     act_bind (cases_save c') (\<lambda>_.
     act_bind commit (\<lambda>_.
       act_ret approach)))))"

definition delegated_decision :: "ReviewRecommendation \<Rightarrow> jdict" where
  "delegated_decision r =
     [(''approved'', JBool True), (''mode'', JStr ''delegated_autonomy''),
      (''decided_by_agent'', JStr ''dw01.review_agent''), (''policy'', JStr ''AUTONOMOUS_DEMO''),
      (''comment'', JStr (rv_rationale_summary r))]"

definition approach_gate_node ::
  "env \<Rightarrow> PreparationServices \<Rightarrow> RunContext \<Rightarrow> PreparationState \<Rightarrow> PreparationState handler" where
  "approach_gate_node E sv rc st =
     act_bind (case_id_of st) (\<lambda>cid.
     act_bind (act_lift (select_method (sv_rules sv) (ps_estimated_value_minor st))) (\<lambda>m.
     let g = cp1_gate (sv_rules sv) m st; gate = gate_json g;
         payload = cp1_payload_of (sv_rules sv) m gate st in
     act_bind (if g_passed g
               then act_bind (notify_working E rc cid ''review_wait_cp1'' (''rw1-'' @ short_hash E 10 gate)) (\<lambda>_.
                      run_review E sv rc ''CP1''
                        (dict_set ''requirements'' (JArr (map JObj (ps_requirements st))) payload) gate)
               else act_ret None) (\<lambda>review.
     act_bind (in_uow E (rc_tenant_id rc) (approach_gate_tx E sv cid m g st review)) (\<lambda>approach.
     let st' = st\<lparr>ps_approach_gate := gate, ps_cp1_payload := with_approved approach payload\<rparr> in
       act_ret (case review of
           Some r \<Rightarrow> if autopilot_applies sv m g review then st'\<lparr>ps_cp1_decision := delegated_decision r\<rparr> else st'
         | None \<Rightarrow> st')))))"

section \<open>Applying a decision\<close>

definition decision_approved :: "jdict \<Rightarrow> bool" where
  "decision_approved d = (case jget d ''approved'' of None \<Rightarrow> False | Some v \<Rightarrow> py_truthy v)"

text \<open>A turned-down checkpoint goes into the rework record in the transaction of the state change.\<close>

definition record_turned_down ::
  "env \<Rightarrow> PreparationServices \<Rightarrow> RunContext \<Rightarrow> PreparationCase \<Rightarrow> ReworkCheckpoint \<Rightarrow> jdict \<Rightarrow> string \<Rightarrow> unit handler" where
  "record_turned_down E sv rc c checkpoint decision comment =
     (case sv_rework_rules sv of
        None \<Rightarrow> act_ret ()
      | Some rules \<Rightarrow>
          if decision_approved decision then act_ret ()
          else act_bind (record_rework_event E c (decider E decision rc) checkpoint
                   (str_or_empty E decision ''reason_code'')
                   (if comment \<noteq> '''' then comment else env_text E (JText ''no_comment'' [])) rules) (\<lambda>_.
                 act_ret ()))"

definition turned_down_lines :: "string \<Rightarrow> string \<Rightarrow> json list" where
  "turned_down_lines comment ending =
     [if comment \<noteq> '''' then JText ''turned_down_because'' [comment] else JText ''no_comment'' [],
      JText ending []]"

definition apply_cp1_tx ::
  "env \<Rightarrow> PreparationServices \<Rightarrow> RunContext \<Rightarrow> uuid \<Rightarrow> jdict \<Rightarrow> unit handler" where
  "apply_cp1_tx E sv rc cid decision =
     (let approved = decision_approved decision;
          comment = py_strip (str_or_empty E decision ''comment'');
          delegated = (jget decision ''mode'' = Some (JStr ''delegated_autonomy''))
      in act_bind (node_case cid) (\<lambda>c.
         act_bind (record_turned_down E sv rc c RC_CP1 decision comment) (\<lambda>_.
         let c' = advance c (if approved then CS_CP1_APPROVED else CS_CP1_REJECTED)
                    (if approved then ''build_solicitation'' else ''cp1_rejected'') None in
         act_bind (notify_progress E c' ''cp1_decision'' (take 12 (uuid_hex (rc_run_id rc)))
             (JText (if approved \<and> delegated then ''cp1_self_approved''
                     else if approved then ''cp1_approved'' else ''cp1_rejected'') [])
             (if approved
              then [if delegated
                    then JText ''decided_by_delegation'' [py_str E (jget_or decision ''policy'' (JStr ''''))]
                    else JText ''approach_approved'' [], JText ''build_next'' []]
              else turned_down_lines comment ''prepare_again'') None) (\<lambda>_.
         act_bind (cases_save c') (\<lambda>_.
           commit)))))"

definition apply_cp1_node ::
  "env \<Rightarrow> PreparationServices \<Rightarrow> RunContext \<Rightarrow> PreparationState \<Rightarrow> PreparationState handler" where
  "apply_cp1_node E sv rc st =
     act_bind (case_id_of st) (\<lambda>cid.
     act_bind (in_uow E (rc_tenant_id rc) (apply_cp1_tx E sv rc cid (ps_cp1_decision st))) (\<lambda>_.
       act_ret st))"

definition apply_cp2_tx ::
  "env \<Rightarrow> PreparationServices \<Rightarrow> RunContext \<Rightarrow> uuid \<Rightarrow> jdict \<Rightarrow> unit handler" where
  "apply_cp2_tx E sv rc cid decision =
     (let approved = decision_approved decision;
          comment = py_strip (str_or_empty E decision ''comment'')
      in act_bind (node_case cid) (\<lambda>c.
         act_bind (record_turned_down E sv rc c RC_CP2 decision comment) (\<lambda>_.
         let c' = advance c (if approved then CS_CP2_APPROVED else CS_CP2_REJECTED)
                    (if approved then ''official'' else ''cp2_rejected'') None in
         act_bind (notify_progress E c' ''cp2_decision'' (take 12 (uuid_hex (rc_run_id rc)))
             (JText (if approved then ''cp2_approved'' else ''cp2_rejected'') [])
             (if approved then [JText ''sealing_package'' []]
              else turned_down_lines comment ''open_the_case'') None) (\<lambda>_.
         act_bind (cases_save c') (\<lambda>_.
           commit)))))"

definition apply_cp2_node ::
  "env \<Rightarrow> PreparationServices \<Rightarrow> RunContext \<Rightarrow> PreparationState \<Rightarrow> PreparationState handler" where
  "apply_cp2_node E sv rc st =
     act_bind (case_id_of st) (\<lambda>cid.
     act_bind (in_uow E (rc_tenant_id rc) (apply_cp2_tx E sv rc cid (ps_cp2_decision st))) (\<lambda>_.
       act_ret st))"

end
