(* ===== verification/DW_Package.thy ===== *)
theory DW_Package
  imports DW_Nodes
begin

text \<open>
  The nodes of \<open>workflows/preparation_v1/nodes.py\<close> between the two checkpoints and after the second:
  the solicitation package, the criteria, the shortlist, the risk check, the CP2 gate, and the official
  package with its manifest.
\<close>

section \<open>Drafting the package\<close>

definition window_in_force :: "PreparationState \<Rightarrow> int" where
  "window_in_force st =
     (if ps_solicitation_window_days st \<noteq> 0 then ps_solicitation_window_days st
      else default_window_days (ps_method_key st))"

definition method_label_of :: "PreparationState \<Rightarrow> string" where
  "method_label_of st = (case ps_method_label st of Some l \<Rightarrow> l | None \<Rightarrow> '''')"

definition min_suppliers_of :: "PreparationState \<Rightarrow> int" where
  "min_suppliers_of st = (case ps_min_suppliers st of Some n \<Rightarrow> n | None \<Rightarrow> 3)"

definition grounding_fields :: "jdict list \<Rightarrow> jdict" where
  "grounding_fields references =
     [(''references'', JArr (map JObj references)), (''grounding_status'', JStr (grounding_status references)),
      (''grounding_source'', JStr (grounding_source references))]"

definition package_content ::
  "ProcurementRules \<Rightarrow> PreparationState \<Rightarrow> SolicitationDraft option \<Rightarrow> json list \<Rightarrow> jdict list
    \<Rightarrow> RequiredSectionsExtraction option \<Rightarrow> jdict" where
  "package_content rules st draft requirements references required =
     [(''title'', JText ''package_title'' [method_label_of st]),
      (''drafted_by'', JStr (if draft = None then ''template'' else ''ai'')),
      (''scope'', case draft of Some d \<Rightarrow> JStr (sd_scope d) | None \<Rightarrow> JText ''default_scope'' []),
      (''requirements'', JArr (case draft of
          Some d \<Rightarrow> if sd_technical_requirements d \<noteq> [] then map JStr (sd_technical_requirements d)
                    else requirements
        | None \<Rightarrow> requirements)),
      (''commercial_terms'', JObj
         [(''payment'', JStr (pr_payment_term_template rules)),
          (''delivery'', JText ''delivery_within'' [case ps_deadline st of Some d \<Rightarrow> d | None \<Rightarrow> '''']),
          (''tax'', JStr (pr_tax_term_template rules))]),
      (''response_structure'', JArr (map JStr (pr_response_structure rules))),
      (''submission'', JObj
         [(''deadline_offset_days'', JInt (window_in_force st)), (''method'', JText ''submit_by_portal'' [])]),
      (''legal_constraints'', JObj (ps_legal_constraints st)),
      (''sections_present'', JArr (map JStr [''scope'', ''requirements'', ''commercial_terms'',
         ''response_structure'', ''submission'', ''confidentiality''])),
      (''confidentiality'', JText ''confidentiality'' [])]
     @ grounding_fields references
     @ [(''required_sections'', case required of None \<Rightarrow> JNull | Some r \<Rightarrow> JObj (sections_json r))]"

definition solicitation_tx :: "env \<Rightarrow> PreparationServices \<Rightarrow> uuid \<Rightarrow> jdict \<Rightarrow> unit handler" where
  "solicitation_tx E sv cid content =
     act_bind (node_case cid) (\<lambda>c.
     act_bind (add_node_artifact E sv c SOLICITATION_PACKAGE content AS_DRAFT) (\<lambda>_.
     act_bind (cases_save (advance c CS_BUILDING_SOLICITATION ''build_solicitation'' None)) (\<lambda>_.
       commit)))"

definition draft_solicitation_package_node ::
  "env \<Rightarrow> PreparationServices \<Rightarrow> RunContext \<Rightarrow> PreparationState \<Rightarrow> PreparationState handler" where
  "draft_solicitation_package_node E sv rc st =
     act_bind (case_id_of st) (\<lambda>cid.
     act_bind (act_lift (all_at ''text'' (ps_requirements st))) (\<lambda>requirements.
     act_bind (notify_working E rc cid ''build_start'' ''start'') (\<lambda>_.
     act_bind (cite_for sv rc (JText ''package_query'' []) ''legal'') (\<lambda>references.
     act_bind (llm_solicitation E sv rc (ps_procurement_type st) (method_label_of st) requirements references) (\<lambda>draft.
     act_bind (extract_required_sections E sv rc references) (\<lambda>required.
     act_bind (in_uow E (rc_tenant_id rc) (solicitation_tx E sv cid
         (package_content (sv_rules sv) st draft requirements references required))) (\<lambda>_.
       act_ret st)))))))"

section \<open>Criteria, shortlist, risk\<close>

definition default_criteria :: "ProcurementRules \<Rightarrow> WeightedCriterion list" where
  "default_criteria rules =
     map (\<lambda>(code, txt, w). \<lparr>wc_code = code, wc_text = txt, wc_weight = w\<rparr>) (pr_weighted_criteria rules)"

definition criteria_content ::
  "ProcurementRules \<Rightarrow> WeightedCriterion list option \<Rightarrow> jdict list \<Rightarrow> jdict" where
  "criteria_content rules drafted references =
     (let weighted = (case drafted of Some cs \<Rightarrow> cs | None \<Rightarrow> default_criteria rules)
      in [(''mandatory'', JArr (map (\<lambda>(code, txt). JObj [(''code'', JStr code), (''text'', JStr txt),
            (''pass_fail'', JBool True)]) (pr_mandatory_criteria rules))),
          (''weighted'', JArr (map (\<lambda>c. JObj (criterion_json c)) weighted)),
          (''method'', JText ''weighted_scoring'' []),
          (''weighted_source'', JStr (if drafted \<noteq> None then ''ai'' else ''rule_pack:'' @ pr_version rules)),
          (''weighted_total'', JInt (sum_list (map wc_weight weighted))),
          (''has_mandatory'', JBool (pr_mandatory_criteria rules \<noteq> []))]
         @ grounding_fields references)"

definition draft_evaluation_criteria_node ::
  "env \<Rightarrow> PreparationServices \<Rightarrow> RunContext \<Rightarrow> PreparationState \<Rightarrow> PreparationState handler" where
  "draft_evaluation_criteria_node E sv rc st =
     act_bind (case_id_of st) (\<lambda>cid.
     act_bind (act_lift (all_at ''text'' (ps_requirements st))) (\<lambda>requirements.
     act_bind (cite_for sv rc (JText ''criteria_query'' []) ''legal'') (\<lambda>references.
     act_bind (llm_criteria E sv rc (ps_procurement_type st) requirements references) (\<lambda>drafted.
     let content = criteria_content (sv_rules sv) drafted references in
     act_bind (artifact_tx E sv rc cid EVALUATION_CRITERIA content) (\<lambda>_.
       act_ret (st\<lparr>ps_criteria := content\<rparr>))))))"

definition shortlist_of :: "env \<Rightarrow> PreparationState \<Rightarrow> jdict list" where
  "shortlist_of E st =
     map (\<lambda>s. [(''name'', JStr (py_str E (jget_or s ''name'' (JStr '''')))),
               (''eligibility_status'', JStr ''pending_verification''), (''source'', JStr ''manual_case_input'')])
       (filter (\<lambda>s. py_strip (py_str E (jget_or s ''name'' (JStr ''''))) \<noteq> '''') (ps_supplier_candidates st))"

definition shortlist_content :: "PreparationState \<Rightarrow> jdict list \<Rightarrow> jdict" where
  "shortlist_content st shortlist =
     [(''shortlist'', JArr (map JObj shortlist)), (''excluded'', JArr []),
      (''count'', JInt (int (length shortlist))), (''min_required'', JInt (min_suppliers_of st)),
      (''warning'', JText ''verify_eligibility'' [])]"

definition build_supplier_shortlist_node ::
  "env \<Rightarrow> PreparationServices \<Rightarrow> RunContext \<Rightarrow> PreparationState \<Rightarrow> PreparationState handler" where
  "build_supplier_shortlist_node E sv rc st =
     act_bind (case_id_of st) (\<lambda>cid.
     let shortlist = shortlist_of E st in
     act_bind (artifact_tx E sv rc cid SUPPLIER_SHORTLIST (shortlist_content st shortlist)) (\<lambda>_.
       act_ret (st\<lparr>ps_shortlist := shortlist\<rparr>)))"

definition risk_check :: "string \<Rightarrow> bool \<Rightarrow> json \<Rightarrow> json" where
  "risk_check name ok detail = JObj [(''check'', JText name []), (''ok'', JBool ok), (''detail'', detail)]"

definition risk_content :: "PreparationState \<Rightarrow> jdict" where
  "risk_content st =
     (let n = int (length (ps_shortlist st));
          oks = [n \<ge> min_suppliers_of st, False, True]
      in [(''checks'', JArr
            [risk_check ''minimum_competition'' (oks ! 0) (JText ''suppliers_in_shortlist'' [int_str n]),
             risk_check ''conflict_of_interest'' (oks ! 1) (JText ''no_conflict_source'' []),
             risk_check ''unbiased_criteria'' (oks ! 2) (JText ''criteria_name_no_supplier'' [])]),
          (''all_ok'', JBool (list_all (\<lambda>b. b) oks))])"

definition run_risk_check_node ::
  "env \<Rightarrow> PreparationServices \<Rightarrow> RunContext \<Rightarrow> PreparationState \<Rightarrow> PreparationState handler" where
  "run_risk_check_node E sv rc st =
     act_bind (case_id_of st) (\<lambda>cid.
     act_bind (artifact_tx E sv rc cid RISK_COMPLIANCE_CHECK (risk_content st)) (\<lambda>_.
       act_ret (st\<lparr>ps_risk := risk_content st\<rparr>)))"

section \<open>The CP2 gate\<close>

definition extracted_constraint :: "PreparationState \<Rightarrow> jdict" where
  "extracted_constraint st = obj_or_empty (jget (ps_legal_constraints st) ''extracted'')"

definition drafted_minimum :: "PreparationState \<Rightarrow> int option" where
  "drafted_minimum st = json_int (jget (extracted_constraint st) ''min_bid_preparation_days'')"

definition cp2_gate :: "ProcurementRules \<Rightarrow> Method \<Rightarrow> PreparationState \<Rightarrow> int option \<Rightarrow> json \<Rightarrow> GateResult" where
  "cp2_gate rules m st legal_min note =
     solicitation_gate rules (jint_or (ps_criteria st) ''weighted_total'' 0)
       (py_truthy (jget_or (ps_criteria st) ''has_mandatory'' JNull)) (int (length (ps_shortlist st))) m []
       (window_in_force st) legal_min note"

definition cp2_payload_of :: "ProcurementRules \<Rightarrow> jdict \<Rightarrow> PreparationState \<Rightarrow> jdict" where
  "cp2_payload_of rules gate st =
     [(''approval_type'', JStr ''preparation.cp2''), (''reason'', JText ''cp2_reason'' []),
      (''checkpoint'', JStr ''CP2''),
      (''required_role'', JStr (approver_role_for rules (ps_estimated_value_minor st) ''CP2'')),
      (''case_id'', JStr (ps_case_id st)), (''case_title'', JStr (ps_case_title st)),
      (''source_pr_ref'', JStr (ps_source_pr_ref st)), (''gate'', JObj gate),
      (''weighted_total'', JInt (jint_or (ps_criteria st) ''weighted_total'' 0)),
      (''shortlist_count'', JInt (int (length (ps_shortlist st)))),
      (''estimated_value'', JStr (fmt_vnd (ps_estimated_value_minor st))),
      (''method'', JObj [(''key'', JStr (ps_method_key st)), (''label'', JStr (method_label_of st))]),
      (''risk'', JObj (ps_risk st)), (''decision_warning'', JText ''eligibility_unverified'' [])]"

definition legal_recheck ::
  "datetime \<Rightarrow> int option \<Rightarrow> int option \<Rightarrow> int option \<Rightarrow> string \<Rightarrow> jdict" where
  "legal_recheck now drafted live applied source =
     [(''at'', JStr (isoformat now)), (''drafted_min_days'', opt_int_json drafted),
      (''live_min_days'', opt_int_json live), (''applied_min_days'', opt_int_json applied),
      (''source'', JStr source)]"

definition cp2_card ::
  "env \<Rightarrow> PreparationState \<Rightarrow> int option \<Rightarrow> PreparationArtifact option \<Rightarrow> ReviewRecommendation option \<Rightarrow> json list"
where
  "cp2_card E st legal_min package review =
     (let content = (case package of None \<Rightarrow> [] | Some a \<Rightarrow> a_content a);
          refs = citation_lines E (dicts (jget content ''references'')) 3;
          required = obj_or_empty (jget content ''required_sections'');
          names = (case jget required ''sections'' of Some (JArr xs) \<Rightarrow> xs | _ \<Rightarrow> [])
      in [JText ''weights_total'' [int_str (jint_or (ps_criteria st) ''weighted_total'' 0)],
          JText ''shortlist_size'' [nat_str (length (ps_shortlist st))]]
         @ (case legal_min of None \<Rightarrow> []
            | Some d \<Rightarrow> [JText ''window_respects_law'' [int_str (window_in_force st), int_str d,
                          str_or_empty E (extracted_constraint st) ''article_ref'']])
         @ [JText ''cp2_gate_passed_line'' []]
         @ (if refs = [] then [] else JText ''package_passages'' [] # refs)
         @ (if names = [] then []
            else [JText ''required_sections_noted'' (str_or_empty E required ''article_ref''
                    # map (py_str E) (take 8 names))])
         @ (case review of None \<Rightarrow> [] | Some r \<Rightarrow> review_card_lines r))"

definition cp2_passed_cards ::
  "env \<Rightarrow> PreparationServices \<Rightarrow> PreparationCase \<Rightarrow> PreparationState \<Rightarrow> jdict \<Rightarrow> int option
    \<Rightarrow> PreparationArtifact option \<Rightarrow> ReviewRecommendation option \<Rightarrow> unit handler" where
  "cp2_passed_cards E sv c st gate legal_min package review =
     act_bind (notify_progress E c ''cp2_gate'' (short_hash E 12 gate) (JText ''cp2_gate_passed'' [])
         [JText ''weights_total'' [int_str (jint_or (ps_criteria st) ''weighted_total'' 0)],
          JText ''shortlist_size'' [nat_str (length (ps_shortlist st))], JText ''cp2_submitted'' []] None) (\<lambda>_.
     act_bind (record_review E sv c ''CP2'' [] review) (\<lambda>_.
       notify_cp_approval E sv c ''CP2'' (short_hash E 12 gate) (cp2_card E st legal_min package review)))"

definition package_gate_tx ::
  "env \<Rightarrow> PreparationServices \<Rightarrow> uuid \<Rightarrow> GateResult \<Rightarrow> PreparationState \<Rightarrow> int option \<Rightarrow> int option \<Rightarrow> string
    \<Rightarrow> ReviewRecommendation option \<Rightarrow> PreparationArtifact option handler" where
  "package_gate_tx E sv cid g st live legal_min source review =
     act_bind (node_case cid) (\<lambda>c.
     act_bind (merge_into_latest E sv c SOLICITATION_PACKAGE
         (act_bind (clock_now E) (\<lambda>now.
            act_ret (\<lambda>content. dict_set ''legal_recheck''
              (JObj (legal_recheck now (drafted_minimum st) live legal_min source))
              (dict_set ''gate'' (JObj (gate_json g)) content))))) (\<lambda>package.
     let c' = advance c (if g_passed g then CS_CP2_PENDING else CS_PACKAGE_READY) ''cp2'' None in
     act_bind (if g_passed g
               then cp2_passed_cards E sv c' st (gate_json g) legal_min package review
               else notify_progress E c' ''cp2_gate'' (short_hash E 12 (gate_json g))
                      (JText ''cp2_gate_failed'' []) (g_reasons g @ [JText ''open_the_case'' []]) None) (\<lambda>_.
     act_bind (cases_save c') (\<lambda>_.
     act_bind commit (\<lambda>_.
       act_ret package)))))"

definition package_gate_node ::
  "env \<Rightarrow> PreparationServices \<Rightarrow> RunContext \<Rightarrow> PreparationState \<Rightarrow> PreparationState handler" where
  "package_gate_node E sv rc st =
     act_bind (case_id_of st) (\<lambda>cid.
     act_bind (act_lift (select_method (sv_rules sv) (ps_estimated_value_minor st))) (\<lambda>m.
     act_bind (live_legal_minimum E sv rc (m_label m)) (\<lambda>(live, source).
     let (legal_min, note) = effective_legal_minimum (drafted_minimum st) live;
         g = cp2_gate (sv_rules sv) m st legal_min note; gate = gate_json g;
         payload = cp2_payload_of (sv_rules sv) gate st in
     act_bind (if g_passed g
               then act_bind (notify_working E rc cid ''review_wait_cp2'' (''rw2-'' @ short_hash E 10 gate)) (\<lambda>_.
                      run_review E sv rc ''CP2''
                        (dict_set ''shortlist'' (JArr (map JObj (ps_shortlist st)))
                          (dict_set ''criteria'' (JObj (ps_criteria st)) payload)) gate)
               else act_ret None) (\<lambda>review.
     act_bind (in_uow E (rc_tenant_id rc) (package_gate_tx E sv cid g st live legal_min source review)) (\<lambda>package.
       act_ret (st\<lparr>ps_package_gate := gate, ps_cp2_payload := with_approved package payload\<rparr>))))))"

section \<open>The official package\<close>

definition manifest_entry :: "PreparationArtifact \<Rightarrow> json" where
  "manifest_entry a = JObj [(''type'', JStr (artifact_type_value (a_type a))),
     (''version'', JInt (a_version a)), (''content_hash'', JStr (a_content_hash a))]"

definition official_manifest ::
  "ProcurementRules \<Rightarrow> PreparationState \<Rightarrow> PreparationCase \<Rightarrow> PreparationArtifact list \<Rightarrow> jdict" where
  "official_manifest rules st c artifacts =
     [(''case_id'', JStr (ps_case_id st)), (''title'', JStr (c_title c)),
      (''method'', opt_json (ps_method_label st)),
      (''estimated_value'', JStr (fmt_vnd (c_estimated_value_minor c))),
      (''rule_pack_version'', JStr (pr_version rules)),
      (''cp1_decision'', JObj (ps_cp1_decision st)), (''cp2_decision'', JObj (ps_cp2_decision st)),
      (''artifacts'', JArr (map manifest_entry artifacts))]"

text \<open>\<open>{a.artifact_type: a for a in artifacts}\<close>: the last artifact of a type.\<close>

definition last_of_type :: "PreparationArtifact list \<Rightarrow> ArtifactType \<Rightarrow> PreparationArtifact option" where
  "last_of_type artifacts ty = find (\<lambda>a. a_type a = ty) (rev artifacts)"

fun map_result :: "('a \<Rightarrow> 'b result) \<Rightarrow> 'a list \<Rightarrow> 'b list result" where
  "map_result f [] = Inr []"
| "map_result f (x # xs) =
     (case f x of Inl e \<Rightarrow> Inl e
      | Inr y \<Rightarrow> (case map_result f xs of Inl e \<Rightarrow> Inl e | Inr ys \<Rightarrow> Inr (y # ys)))"

definition requirement_line :: "env \<Rightarrow> jdict \<Rightarrow> json result" where
  "requirement_line E r =
     (case dict_at r ''text'' of Inl e \<Rightarrow> Inl e | Inr v \<Rightarrow> Inr (JStr (''- '' @ py_str E v)))"

definition criterion_line :: "env \<Rightarrow> jdict \<Rightarrow> json result" where
  "criterion_line E c =
     (case dict_at c ''weight'' of Inl e \<Rightarrow> Inl e
      | Inr w \<Rightarrow> (case dict_at c ''text'' of Inl e \<Rightarrow> Inl e
                 | Inr t \<Rightarrow> Inr (JStr (''- ['' @ py_str E w @ ''%] '' @ py_str E t))))"

definition supplier_line :: "env \<Rightarrow> jdict \<Rightarrow> json result" where
  "supplier_line E s =
     (case dict_at s ''name'' of Inl e \<Rightarrow> Inl e | Inr v \<Rightarrow> Inr (JStr (''- '' @ py_str E v)))"

definition section_of ::
  "json \<Rightarrow> (jdict \<Rightarrow> json result) \<Rightarrow> string \<Rightarrow> PreparationArtifact option \<Rightarrow> json list result" where
  "section_of heading line key found =
     (case found of None \<Rightarrow> Inr []
      | Some a \<Rightarrow> (case map_result line (dicts (jget (a_content a) key)) of
                    Inl e \<Rightarrow> Inl e | Inr ls \<Rightarrow> Inr ([JStr '''', heading] @ ls)))"

definition markdown_head :: "PreparationCase \<Rightarrow> PreparationState \<Rightarrow> json list" where
  "markdown_head c st =
     [JText ''md_title'' [c_title c], JStr '''', JText ''md_case'' [c_id c],
      JText ''md_method'' [method_label_of st], JText ''md_value'' [fmt_vnd (c_estimated_value_minor c)],
      JText ''md_rule_pack'' [ps_schema_version st], JStr '''', JText ''md_requirements'' []]"

definition render_package_markdown ::
  "env \<Rightarrow> PreparationCase \<Rightarrow> PreparationState \<Rightarrow> PreparationArtifact list \<Rightarrow> string result" where
  "render_package_markdown E c st artifacts =
     (case map_result (requirement_line E) (ps_requirements st) of
        Inl e \<Rightarrow> Inl e
      | Inr reqs \<Rightarrow>
          (case section_of (JText ''md_criteria'' []) (criterion_line E) ''weighted''
                  (last_of_type artifacts EVALUATION_CRITERIA) of
             Inl e \<Rightarrow> Inl e
           | Inr crits \<Rightarrow>
               (case section_of (JText ''md_suppliers'' []) (supplier_line E) ''shortlist''
                       (last_of_type artifacts SUPPLIER_SHORTLIST) of
                  Inl e \<Rightarrow> Inl e
                | Inr sups \<Rightarrow>
                    Inr (py_join [CHR 0x0A] (map (py_str E)
                      (markdown_head c st @ reqs @ crits @ sups
                       @ [JStr '''', JText ''md_approvals'' [], JStr ''- CP1: APPROVED'', JStr ''- CP2: APPROVED'']))))))"

definition export_path :: "PreparationServices \<Rightarrow> RunContext \<Rightarrow> PreparationState \<Rightarrow> string" where
  "export_path sv rc st =
     rc_tenant_id rc @ ''/'' @ rc_workspace_id rc @ ''/'' @ sv_exports_bucket_prefix sv @ ''/preparation/''
       @ ps_case_id st"

definition finalize_tx ::
  "env \<Rightarrow> PreparationServices \<Rightarrow> RunContext \<Rightarrow> uuid \<Rightarrow> PreparationState \<Rightarrow> (jdict \<times> string) handler" where
  "finalize_tx E sv rc cid st =
     act_bind (node_case cid) (\<lambda>c.
     act_bind (artifacts_list_for_case cid) (\<lambda>artifacts.
     let manifest = official_manifest (sv_rules sv) st c artifacts; prefix = export_path sv rc st in
     act_bind (act_lift (render_package_markdown E c st artifacts)) (\<lambda>markdown.
     act_bind (put_object E (prefix @ ''/official-manifest.json'')
         (utf8_encode (env_dumps_with E ''ensure_ascii=False, indent=2'' (JObj manifest)))
         ''application/json'') (\<lambda>manifest_ref.
     act_bind (put_object E (prefix @ ''/solicitation-package.md'') (utf8_encode markdown) ''text/markdown'') (\<lambda>_.
     act_bind (add_node_artifact E sv c OFFICIAL_PACKAGE_MANIFEST
         (manifest @ [(''manifest_ref'', JStr manifest_ref),
                      (''package_ref'', JStr (prefix @ ''/solicitation-package.md'')),
                      (''package_markdown'', JStr markdown)]) AS_OFFICIAL) (\<lambda>official.
     act_bind (act_lift (lock_official c (a_id official) manifest_ref)) (\<lambda>c'.
     act_bind (notify_progress E c' ''official'' (take 12 (uuid_hex (rc_run_id rc)))
         (JText ''package_sealed'' [])
         [JText ''method_line'' [method_label_of st], JText ''documents_sealed'' [nat_str (length artifacts)],
          JText ''rfq_goes_out'' []] None) (\<lambda>_.
     act_bind (cases_save c') (\<lambda>_.
     act_bind commit (\<lambda>_.
       act_ret (manifest, manifest_ref)))))))))))"

definition finalize_official_node ::
  "env \<Rightarrow> PreparationServices \<Rightarrow> RunContext \<Rightarrow> PreparationState \<Rightarrow> PreparationState handler" where
  "finalize_official_node E sv rc st =
     act_bind (case_id_of st) (\<lambda>cid.
     act_bind (in_uow E (rc_tenant_id rc) (finalize_tx E sv rc cid st)) (\<lambda>(manifest, manifest_ref).
       act_ret (st\<lparr>ps_official_manifest := manifest, ps_export_ref := manifest_ref\<rparr>)))"

end
