(* ===== verification/DW_Graph.thy ===== *)
theory DW_Graph
  imports DW_Package
begin

text \<open>
  The preparation graph (\<open>workflows/preparation_v1/graph.py\<close>) and what it promises: from the intake
  through CP1, the package and CP2 to the official package. LangGraph executes it: a node's update is
  merged into the state, an interrupt stops the run and leaves the state in a checkpoint, and a resume
  enters the interrupted node again with the payload as the interrupt's value.
\<close>

section \<open>Nodes and edges\<close>

datatype node =
    ND_load_case | ND_extract_requirements | ND_completeness_check | ND_draft_procurement_approach
  | ND_approach_gate | ND_cp1_review | ND_apply_cp1
  | ND_draft_solicitation_package | ND_draft_evaluation_criteria | ND_build_supplier_shortlist
  | ND_run_risk_check | ND_package_gate | ND_cp2_review | ND_apply_cp2
  | ND_finalize_official | ND_close_failed | ND_close_incomplete

definition route_after_approach_gate :: "PreparationState \<Rightarrow> node" where
  "route_after_approach_gate st =
     (if \<not> py_truthy (jget_or (ps_approach_gate st) ''passed'' JNull) then ND_close_incomplete
      else if ps_cp1_decision st \<noteq> [] then ND_apply_cp1
      else ND_cp1_review)"

definition route_after_cp1 :: "PreparationState \<Rightarrow> node" where
  "route_after_cp1 st =
     (if decision_approved (ps_cp1_decision st) then ND_draft_solicitation_package else ND_close_failed)"

definition route_after_cp2 :: "PreparationState \<Rightarrow> node" where
  "route_after_cp2 st =
     (if decision_approved (ps_cp2_decision st) then ND_finalize_official else ND_close_failed)"

text \<open>\<open>None\<close> is \<open>END\<close>.\<close>

fun next_node :: "node \<Rightarrow> PreparationState \<Rightarrow> node option" where
  "next_node ND_load_case st = Some ND_extract_requirements"
| "next_node ND_extract_requirements st = Some ND_completeness_check"
| "next_node ND_completeness_check st = Some ND_draft_procurement_approach"
| "next_node ND_draft_procurement_approach st = Some ND_approach_gate"
| "next_node ND_approach_gate st = Some (route_after_approach_gate st)"
| "next_node ND_cp1_review st = Some ND_apply_cp1"
| "next_node ND_apply_cp1 st = Some (route_after_cp1 st)"
| "next_node ND_draft_solicitation_package st = Some ND_draft_evaluation_criteria"
| "next_node ND_draft_evaluation_criteria st = Some ND_build_supplier_shortlist"
| "next_node ND_build_supplier_shortlist st = Some ND_run_risk_check"
| "next_node ND_run_risk_check st = Some ND_package_gate"
| "next_node ND_package_gate st = Some ND_cp2_review"
| "next_node ND_cp2_review st = Some ND_apply_cp2"
| "next_node ND_apply_cp2 st = Some (route_after_cp2 st)"
| "next_node ND_finalize_official st = None"
| "next_node ND_close_failed st = None"
| "next_node ND_close_incomplete st = None"

section \<open>One step\<close>

datatype node_result = Continue PreparationState | Pause json

fun updating :: "PreparationState handler \<Rightarrow> node_result handler" where
  "updating m = act_bind m (\<lambda>st. act_ret (Continue st))"

text \<open>\<open>interrupt(payload)\<close>: the first time it stops the run; on a resume it is the payload of the resume.\<close>

definition cp1_review_node :: "jdict option \<Rightarrow> PreparationState \<Rightarrow> node_result" where
  "cp1_review_node resume st =
     (case resume of None \<Rightarrow> Pause (JObj (ps_cp1_payload st))
      | Some d \<Rightarrow> Continue (st\<lparr>ps_cp1_decision := d\<rparr>))"

definition cp2_review_node :: "jdict option \<Rightarrow> PreparationState \<Rightarrow> node_result" where
  "cp2_review_node resume st =
     (case resume of None \<Rightarrow> Pause (JObj (ps_cp2_payload st))
      | Some d \<Rightarrow> Continue (st\<lparr>ps_cp2_decision := d\<rparr>))"

fun run_node ::
  "env \<Rightarrow> PreparationServices \<Rightarrow> RunContext \<Rightarrow> jdict option \<Rightarrow> node \<Rightarrow> PreparationState \<Rightarrow> node_result handler" where
  "run_node E sv rc resume ND_load_case st = updating (load_case_node E sv rc st)"
| "run_node E sv rc resume ND_extract_requirements st = updating (extract_requirements_node E sv rc st)"
| "run_node E sv rc resume ND_completeness_check st = updating (completeness_check_node E sv rc st)"
| "run_node E sv rc resume ND_draft_procurement_approach st =
     updating (draft_procurement_approach_node E sv rc st)"
| "run_node E sv rc resume ND_approach_gate st = updating (approach_gate_node E sv rc st)"
| "run_node E sv rc resume ND_cp1_review st = act_ret (cp1_review_node resume st)"
| "run_node E sv rc resume ND_apply_cp1 st = updating (apply_cp1_node E sv rc st)"
| "run_node E sv rc resume ND_draft_solicitation_package st =
     updating (draft_solicitation_package_node E sv rc st)"
| "run_node E sv rc resume ND_draft_evaluation_criteria st =
     updating (draft_evaluation_criteria_node E sv rc st)"
| "run_node E sv rc resume ND_build_supplier_shortlist st =
     updating (build_supplier_shortlist_node E sv rc st)"
| "run_node E sv rc resume ND_run_risk_check st = updating (run_risk_check_node E sv rc st)"
| "run_node E sv rc resume ND_package_gate st = updating (package_gate_node E sv rc st)"
| "run_node E sv rc resume ND_cp2_review st = act_ret (cp2_review_node resume st)"
| "run_node E sv rc resume ND_apply_cp2 st = updating (apply_cp2_node E sv rc st)"
| "run_node E sv rc resume ND_finalize_official st = updating (finalize_official_node E sv rc st)"
| "run_node E sv rc resume ND_close_failed st = act_ret (Continue st)"
| "run_node E sv rc resume ND_close_incomplete st = act_ret (Continue st)"

section \<open>A run\<close>

text \<open>The nodes in topological order: every edge lowers the rank, so a run visits a node once.\<close>

fun rank :: "node \<Rightarrow> nat" where
  "rank ND_load_case = 16" | "rank ND_extract_requirements = 15" | "rank ND_completeness_check = 14"
| "rank ND_draft_procurement_approach = 13" | "rank ND_approach_gate = 12" | "rank ND_cp1_review = 11"
| "rank ND_apply_cp1 = 10" | "rank ND_draft_solicitation_package = 9"
| "rank ND_draft_evaluation_criteria = 8" | "rank ND_build_supplier_shortlist = 7"
| "rank ND_run_risk_check = 6" | "rank ND_package_gate = 5" | "rank ND_cp2_review = 4"
| "rank ND_apply_cp2 = 3" | "rank ND_finalize_official = 2" | "rank ND_close_failed = 1"
| "rank ND_close_incomplete = 0"

lemma next_node_rank: "next_node n st = Some n' \<Longrightarrow> rank n' < rank n"
  by (cases n) (auto simp: route_after_approach_gate_def route_after_cp1_def route_after_cp2_def
      split: if_splits)

datatype run_end = Stopped_at node PreparationState json | Ended node PreparationState

function run_from ::
  "env \<Rightarrow> PreparationServices \<Rightarrow> RunContext \<Rightarrow> jdict option \<Rightarrow> node \<Rightarrow> PreparationState \<Rightarrow> run_end handler" where
  "run_from E sv rc resume n st =
     act_bind (run_node E sv rc resume n st) (\<lambda>r.
       case r of
         Pause v \<Rightarrow> act_ret (Stopped_at n st v)
       | Continue st' \<Rightarrow>
           (case next_node n st' of
              None \<Rightarrow> act_ret (Ended n st')
            | Some n' \<Rightarrow> run_from E sv rc None n' st'))"
  by auto
termination
  by (relation "measure (\<lambda>(E, sv, rc, resume, n, st). rank n)") (auto dest: next_node_rank)

declare run_from.simps [simp del]

text \<open>The final state as the runner stores it.\<close>

definition state_json :: "PreparationState \<Rightarrow> jdict" where
  "state_json st =
     [(''schema_version'', JStr (ps_schema_version st)), (''case_id'', JStr (ps_case_id st)),
      (''pr_text'', JStr (ps_pr_text st)), (''has_approved_pr'', JBool (ps_has_approved_pr st)),
      (''estimated_value_minor'', JInt (ps_estimated_value_minor st)), (''currency'', JStr (ps_currency st)),
      (''deadline'', opt_json (ps_deadline st)), (''owner_name'', JStr (ps_owner_name st)),
      (''case_title'', JStr (ps_case_title st)), (''source_pr_ref'', JStr (ps_source_pr_ref st)),
      (''procurement_type'', JStr (ps_procurement_type st)), (''business_domain'', JStr (ps_business_domain st)),
      (''requirements'', JArr (map JObj (ps_requirements st))), (''unknowns'', JArr (map JObj (ps_unknowns st))),
      (''clarifications'', JArr (map JObj (ps_clarifications st))),
      (''clarification_answers'', JObj (map (\<lambda>(k, a). (k, JStr a)) (ps_clarification_answers st))),
      (''supplier_candidates'', JArr (map JObj (ps_supplier_candidates st))),
      (''method_key'', JStr (ps_method_key st)), (''method_label'', opt_json (ps_method_label st)),
      (''min_suppliers'', opt_int_json (ps_min_suppliers st)),
      (''supplier_count_planned'', JInt (ps_supplier_count_planned st)),
      (''solicitation_window_days'', JInt (ps_solicitation_window_days st)),
      (''legal_constraints'', JObj (ps_legal_constraints st)), (''approach_gate'', JObj (ps_approach_gate st)),
      (''cp1_payload'', JObj (ps_cp1_payload st)), (''cp1_decision'', JObj (ps_cp1_decision st)),
      (''criteria'', JObj (ps_criteria st)), (''shortlist'', JArr (map JObj (ps_shortlist st))),
      (''risk'', JObj (ps_risk st)), (''package_gate'', JObj (ps_package_gate st)),
      (''cp2_payload'', JObj (ps_cp2_payload st)), (''cp2_decision'', JObj (ps_cp2_decision st)),
      (''official_manifest'', JObj (ps_official_manifest st)), (''export_ref'', JStr (ps_export_ref st))]"

text \<open>
  The graph as the runner of \<open>DW_Runtime\<close> calls it. \<open>saved\<close> is the checkpointer: the node and state a
  paused run was left in.
\<close>

definition outcome_of :: "run_end \<Rightarrow> graph_outcome" where
  "outcome_of e = (case e of Stopped_at n st v \<Rightarrow> Interrupted v | Ended n st \<Rightarrow> Finished (state_json st))"

definition prep_graph ::
  "env \<Rightarrow> PreparationServices \<Rightarrow> (uuid \<Rightarrow> (node \<times> PreparationState) option) \<Rightarrow> graph" where
  "prep_graph E sv saved input rc run =
     (case input of
        Start_graph d \<Rightarrow>
          act_bind (run_from E sv rc None ND_load_case (initial_state (str_or_empty E d ''case_id'')))
            (\<lambda>e. act_ret (outcome_of e))
      | Resume_graph payload \<Rightarrow>
          act_bind (act_some (saved run) OtherException ''no checkpoint'') (\<lambda>(n, st).
          act_bind (run_from E sv rc (Some payload) n st) (\<lambda>e. act_ret (outcome_of e))))"

end
