(* ===== verification/DW_Graph_Props.thy ===== *)
theory DW_Graph_Props
  imports DW_Graph DW_Readiness
begin

text \<open>
  What the preparation graph guarantees. The first part shows that a run keeps every invariant of the
  repositories; the second follows the state through the graph.
\<close>

section \<open>A run keeps the invariants of the database\<close>

lemma db_blind_port_call: "db_blind (port_call f)"
  by (simp add: db_blind_def port_call_def)

lemmas keeps_port_call [keeps_rules] = db_blind_port_call [THEN keeps_db_blind]

lemmas durable_port_call [keeps_rules] = db_blind_port_call [THEN durable_db_blind]

lemma durable_case_prod [keeps_rules]:
  "(\<And>x y. durable I t (f x y)) \<Longrightarrow> durable I t (case p of (x, y) \<Rightarrow> f x y)"
  by (cases p) auto

lemma keeps_case_list [keeps_rules]:
  "keeps I m \<Longrightarrow> (\<And>x xs. keeps I (f x xs)) \<Longrightarrow> keeps I (case v of [] \<Rightarrow> m | x # xs \<Rightarrow> f x xs)"
  by (cases v) auto

lemma durable_case_sum [keeps_rules]:
  "(\<And>e. durable I t (f e)) \<Longrightarrow> (\<And>x. durable I t (g x)) \<Longrightarrow>
     durable I t (case v of Inl e \<Rightarrow> f e | Inr x \<Rightarrow> g x)"
  by (cases v) auto

lemma durable_some [keeps_rules]: "durable I t (act_some v c m)"
  unfolding durable_def by (rule keeps_some)

context case_invariant
begin

lemma keeps_node_helpers:
  "keeps (sess I t) (node_case cid)"
  "keeps (sess I t) (read_text sv key)"
  "keeps (sess I t) (request_text sv docs)"
  "keeps (sess I t) (add_node_artifact E sv c ty content status)"
  "keeps (sess I t) (notify_progress E c stage dedupe heading lines recipient)"
  "keeps (sess I t) (notify_cp_approval E sv c checkpoint dedupe lines)"
  "keeps (sess I t) (record_rework_event E c u cp rcode rtext rules)"
  unfolding node_case_def read_text_def request_text_def add_node_artifact_def notify_progress_def
    notify_cp_approval_def record_rework_event_def
  by (rule keeps_rules statement_rules)+

lemma keeps_node_parts:
  "keeps (sess I t) m \<Longrightarrow> keeps (sess I t) (merge_into_latest E sv c ty m)"
  "keeps (sess I t) (record_review E sv c checkpoint mode review)"
  "keeps (sess I t) (autonomy_notice E sv c dedupe lines)"
  "keeps (sess I t) (cp1_failed_card E c g st)"
  "keeps (sess I t) (record_turned_down E sv rc c cp decision comment)"
  unfolding merge_into_latest_def record_review_def autonomy_notice_def cp1_failed_card_def
    record_turned_down_def
  by (rule keeps_rules statement_rules keeps_node_helpers | assumption)+

lemma keeps_node_transactions:
  "keeps (sess I t) (completeness_tx E sv cid n cs)"
  "keeps (sess I t) (approach_tx E sv cid m v content lines)"
  "keeps (sess I t) (cp1_passed_cards E sv c m st gate approach review autopilot)"
  "keeps (sess I t) (cp2_passed_cards E sv c st gate legal approach review)"
  "keeps (sess I t) (apply_cp1_tx E sv rc cid decision)"
  "keeps (sess I t) (apply_cp2_tx E sv rc cid decision)"
  "keeps (sess I t) (solicitation_tx E sv cid content)"
  "keeps (sess I t) (finalize_tx E sv rc cid st)"
  unfolding completeness_tx_def approach_tx_def cp1_passed_cards_def cp2_passed_cards_def
    apply_cp1_tx_def apply_cp2_tx_def solicitation_tx_def finalize_tx_def
  by (rule keeps_rules statement_rules keeps_node_helpers keeps_node_parts)+

lemma keeps_gate_transactions:
  "keeps (sess I t) (approach_gate_tx E sv cid m g st review)"
  "keeps (sess I t) (package_gate_tx E sv cid g st live legal source review)"
  unfolding approach_gate_tx_def package_gate_tx_def
  by (rule keeps_rules statement_rules keeps_node_helpers keeps_node_parts keeps_node_transactions)+

lemma durable_node_helpers:
  "durable I t (case_id_of st)"
  "rc_tenant_id rc = t \<Longrightarrow> durable I t (artifact_tx E sv rc cid ty content)"
  "rc_tenant_id rc = t \<Longrightarrow> durable I t (notify_working E rc cid stage dedupe)"
  "durable I t (cite_for sv rc query domain)"
  "durable I t (extract_legal_constraints E sv rc label citations)"
  "durable I t (extract_required_sections E sv rc citations)"
  "durable I t (run_review E sv rc checkpoint artifact gate)"
  "durable I t (extract_from_request E sv rc txt)"
  "durable I t (llm_solicitation E sv rc ptype meth reqs citations)"
  "durable I t (llm_criteria E sv rc ptype reqs citations)"
  unfolding case_id_of_def artifact_tx_def notify_working_def cite_for_def extract_legal_constraints_def
    extract_required_sections_def run_review_def extract_from_request_def llm_solicitation_def
    llm_criteria_def generate_def
  by (rule keeps_rules statement_rules keeps_node_helpers | simp only:)+

lemma durable_live_minimum: "durable I t (live_legal_minimum E sv rc label)"
  unfolding live_legal_minimum_def by (rule keeps_rules durable_node_helpers)+

lemma durable_nodes:
  assumes "rc_tenant_id rc = t"
  shows "durable I t (load_case_node E sv rc st)"
    "durable I t (extract_requirements_node E sv rc st)"
    "durable I t (completeness_check_node E sv rc st)"
    "durable I t (draft_procurement_approach_node E sv rc st)"
    "durable I t (approach_gate_node E sv rc st)"
    "durable I t (apply_cp1_node E sv rc st)"
    "durable I t (draft_solicitation_package_node E sv rc st)"
    "durable I t (draft_evaluation_criteria_node E sv rc st)"
    "durable I t (build_supplier_shortlist_node E sv rc st)"
    "durable I t (run_risk_check_node E sv rc st)"
    "durable I t (package_gate_node E sv rc st)"
    "durable I t (apply_cp2_node E sv rc st)"
    "durable I t (finalize_official_node E sv rc st)"
  unfolding load_case_node_def extract_requirements_node_def completeness_check_node_def
    draft_procurement_approach_node_def approach_gate_node_def apply_cp1_node_def
    draft_solicitation_package_node_def draft_evaluation_criteria_node_def
    build_supplier_shortlist_node_def run_risk_check_node_def package_gate_node_def apply_cp2_node_def
    finalize_official_node_def assms
  by (rule keeps_rules statement_rules keeps_node_helpers keeps_node_transactions
      keeps_gate_transactions durable_node_helpers durable_live_minimum assms)+

lemma durable_run_node: "rc_tenant_id rc = t \<Longrightarrow> durable I t (run_node E sv rc resume n st)"
  by (cases n) (simp_all, (rule keeps_rules durable_nodes | assumption)+)

lemma durable_run_from: "rc_tenant_id rc = t \<Longrightarrow> durable I t (run_from E sv rc resume n st)"
proof (induction E sv rc resume n st rule: run_from.induct)
  case (1 E sv rc resume n st)
  then show ?case
    by (subst run_from.simps)
      (rule durable_bind durable_run_node durable_ret | simp split: node_result.split option.split
        add: durable_ret)+
qed

lemma durable_prep_graph:
  "rc_tenant_id rc = t \<Longrightarrow> durable I t (prep_graph E sv saved input rc run)"
  unfolding prep_graph_def
  by (cases input) (simp_all, (rule keeps_rules durable_run_from | assumption)+)

end

section \<open>The state along the graph\<close>

subsection \<open>What a computation returns\<close>

definition returns :: "('a \<Rightarrow> bool) \<Rightarrow> ('w, 'a) act \<Rightarrow> bool" where
  "returns P m = (\<forall>w x w'. m w = (Inr x, w') \<longrightarrow> P x)"

named_theorems returns_rules \<open>decomposition of a computation by its results\<close>

lemma returns_bind_lift [returns_rules]:
  "(\<And>x. r = Inr x \<Longrightarrow> returns P (f x)) \<Longrightarrow> returns P (act_bind (act_lift r) f)"
  by (simp add: returns_def act_bind_lift split: sum.split)

lemma returns_bind [returns_rules]: "(\<And>x. returns P (f x)) \<Longrightarrow> returns P (act_bind m f)"
  by (auto simp: returns_def act_bind_def split: prod.splits sum.splits)

lemma returns_ret [returns_rules]: "P x \<Longrightarrow> returns P (act_ret x)"
  by (simp add: returns_def act_ret_def)

lemma returns_option [returns_rules]:
  "(v = None \<Longrightarrow> returns P m) \<Longrightarrow> (\<And>x. v = Some x \<Longrightarrow> returns P (f x)) \<Longrightarrow>
     returns P (case v of None \<Rightarrow> m | Some x \<Rightarrow> f x)"
  by (cases v) auto

lemma returns_prod [returns_rules]:
  "(\<And>x y. returns P (f x y)) \<Longrightarrow> returns P (case p of (x, y) \<Rightarrow> f x y)"
  by (cases p) auto

lemma returns_Let [returns_rules]: "(\<And>x. x = v \<Longrightarrow> returns P (f x)) \<Longrightarrow> returns P (let x = v in f x)"
  by simp

lemma returns_in_uow [returns_rules]: "returns P m \<Longrightarrow> returns P (in_uow E t m)"
  by (fastforce simp: returns_def dest: in_uow_Inr(2))

text \<open>The fields the CP1 gate judged, and what is decided so far.\<close>

definition kept :: "PreparationState \<Rightarrow> PreparationState \<Rightarrow> bool" where
  "kept st st' =
     (ps_has_approved_pr st' = ps_has_approved_pr st
      \<and> ps_estimated_value_minor st' = ps_estimated_value_minor st \<and> ps_currency st' = ps_currency st
      \<and> ps_deadline st' = ps_deadline st \<and> ps_owner_name st' = ps_owner_name st
      \<and> ps_supplier_count_planned st' = ps_supplier_count_planned st
      \<and> ps_clarifications st' = ps_clarifications st \<and> ps_approach_gate st' = ps_approach_gate st
      \<and> ps_cp1_payload st' = ps_cp1_payload st
      \<and> ps_cp1_decision st' = ps_cp1_decision st \<and> ps_cp2_decision st' = ps_cp2_decision st)"

definition undecided :: "PreparationState \<Rightarrow> bool" where
  "undecided st = (ps_cp1_decision st = [] \<and> ps_cp2_decision st = [])"

lemma early_nodes_undecided:
  assumes "undecided st"
  shows "returns undecided (load_case_node E sv rc st)"
    "returns undecided (extract_requirements_node E sv rc st)"
    "returns undecided (completeness_check_node E sv rc st)"
    "returns undecided (draft_procurement_approach_node E sv rc st)"
  unfolding load_case_node_def extract_requirements_node_def completeness_check_node_def
    draft_procurement_approach_node_def
  by (rule returns_rules | use assms in \<open>simp add: undecided_def loaded_state_def\<close>)+

lemma late_nodes_keep:
  "returns (kept st) (apply_cp1_node E sv rc st)"
  "returns (kept st) (draft_solicitation_package_node E sv rc st)"
  "returns (kept st) (draft_evaluation_criteria_node E sv rc st)"
  "returns (kept st) (build_supplier_shortlist_node E sv rc st)"
  "returns (kept st) (run_risk_check_node E sv rc st)"
  "returns (kept st) (package_gate_node E sv rc st)"
  "returns (kept st) (apply_cp2_node E sv rc st)"
  "returns (kept st) (finalize_official_node E sv rc st)"
  unfolding apply_cp1_node_def draft_solicitation_package_node_def draft_evaluation_criteria_node_def
    build_supplier_shortlist_node_def run_risk_check_node_def package_gate_node_def apply_cp2_node_def
    finalize_official_node_def
  by (rule returns_rules | simp add: kept_def)+

text \<open>CP1 was judged passed for the state at hand; delegation needs the demo profile and a direct purchase.\<close>

definition cp1_judged :: "PreparationServices \<Rightarrow> PreparationState \<Rightarrow> bool" where
  "cp1_judged sv st =
     (\<exists>m. select_method (sv_rules sv) (ps_estimated_value_minor st) = Inr m
        \<and> g_passed (cp1_gate (sv_rules sv) m st)
        \<and> ps_approach_gate st = gate_json (cp1_gate (sv_rules sv) m st)
        \<and> jget (ps_cp1_payload st) ''required_role''
            = Some (JStr (approver_role_for (sv_rules sv) (ps_estimated_value_minor st) ''CP1'')))"

definition delegated :: "PreparationServices \<Rightarrow> PreparationState \<Rightarrow> bool" where
  "delegated sv st =
     (\<exists>m r. select_method (sv_rules sv) (ps_estimated_value_minor st) = Inr m \<and> m_min_suppliers m = 1
        \<and> sv_autonomy_profile sv = ''autonomous_demo'' \<and> rv_recommendation r = RV_APPROVE
        \<and> ps_cp1_decision st = delegated_decision r)"

lemma cp1_judged_kept: "cp1_judged sv st \<Longrightarrow> kept st st' \<Longrightarrow> cp1_judged sv st'"
  by (simp add: cp1_judged_def kept_def cp1_gate_def)

lemma delegated_kept: "delegated sv st \<Longrightarrow> kept st st' \<Longrightarrow> delegated sv st'"
  by (simp add: delegated_def kept_def)

definition after_gate :: "PreparationServices \<Rightarrow> PreparationState \<Rightarrow> bool" where
  "after_gate sv st =
     (ps_cp2_decision st = []
      \<and> (py_truthy (jget_or (ps_approach_gate st) ''passed'' JNull) \<longrightarrow> cp1_judged sv st)
      \<and> (ps_cp1_decision st = [] \<or> delegated sv st))"

lemma jget_dict_set [simp]: "jget (dict_set k v d) k' = (if k' = k then Some v else jget d k')"
  by (induction k v d rule: dict_set.induct) auto

lemma jget_with_approved: "k \<noteq> ''approved_artifact'' \<Longrightarrow> jget (with_approved a p) k = jget p k"
  by (simp add: with_approved_def split: option.split)

lemma cp1_gate_cong:
  "cp1_gate rules m (st\<lparr>ps_approach_gate := a, ps_cp1_payload := b\<rparr>) = cp1_gate rules m st"
  "cp1_gate rules m (st\<lparr>ps_approach_gate := a, ps_cp1_payload := b, ps_cp1_decision := d\<rparr>) = cp1_gate rules m st"
  by (simp_all add: cp1_gate_def)

lemma approach_gate_returns:
  assumes "undecided st"
  shows "returns (after_gate sv) (approach_gate_node E sv rc st)"
  unfolding approach_gate_node_def
  by (rule returns_rules | use assms in \<open>auto simp: after_gate_def undecided_def cp1_judged_def
      delegated_def autopilot_applies_def cp1_gate_cong gate_json_def jget_with_approved cp1_payload_of_def
      split: option.split\<close>)+

subsection \<open>Reachable states\<close>

text \<open>
  The nodes a run can be at, with the decisions it was resumed with so far. Every step may run in
  another world: between a pause and the resume, other handlers run. The run context may change too.
\<close>

inductive reached ::
  "env \<Rightarrow> PreparationServices \<Rightarrow> (node \<times> jdict) list \<Rightarrow> node \<Rightarrow> PreparationState \<Rightarrow> bool"
  for E sv
where
  reached_start: "reached E sv [] ND_load_case (initial_state cid)"
| reached_step:
    "reached E sv ds n st \<Longrightarrow> run_node E sv rc None n st w = (Inr (Continue st'), w') \<Longrightarrow>
     next_node n st' = Some n' \<Longrightarrow> reached E sv ds n' st'"
| reached_resume:
    "reached E sv ds n st \<Longrightarrow> n \<in> {ND_cp1_review, ND_cp2_review} \<Longrightarrow>
     run_node E sv rc (Some d) n st w = (Inr (Continue st'), w') \<Longrightarrow>
     next_node n st' = Some n' \<Longrightarrow> reached E sv ((n, d) # ds) n' st'"

inductive_cases reached_startE: "reached E sv ds ND_load_case st"

text \<open>A run that starts in a reachable state stops, or ends, in one.\<close>

lemma run_from_reached:
  assumes "reached E sv ds n st" "run_from E sv rc None n st w = (Inr e, w')"
  shows "(\<forall>m s v. e = Stopped_at m s v \<longrightarrow> reached E sv ds m s
            \<and> (\<exists>w1 w2. run_node E sv rc None m s w1 = (Inr (Pause v), w2)))
       \<and> (\<forall>m s. e = Ended m s \<longrightarrow> (\<exists>s0 w1 w2. reached E sv ds m s0
            \<and> run_node E sv rc None m s0 w1 = (Inr (Continue s), w2) \<and> next_node m s = None))"
  using assms
proof (induction "rank n" arbitrary: n st w rule: less_induct)
  case less
  from less.prems(2) obtain r w1 where r: "run_node E sv rc None n st w = (Inr r, w1)"
    by (subst (asm) run_from.simps) (auto simp: act_bind_def split: prod.splits sum.splits)
  with less.prems(2) have rest: "(case r of Pause v \<Rightarrow> act_ret (Stopped_at n st v)
      | Continue st' \<Rightarrow> (case next_node n st' of None \<Rightarrow> act_ret (Ended n st')
          | Some n' \<Rightarrow> run_from E sv rc None n' st')) w1 = (Inr e, w')"
    by (subst (asm) run_from.simps) (simp add: act_bind_def)
  show ?case
  proof (cases r)
    case (Pause v)
    then show ?thesis using rest r less.prems(1) by (auto simp: act_ret_def)
  next
    case (Continue st')
    show ?thesis
    proof (cases "next_node n st'")
      case None
      then show ?thesis using rest r less.prems(1) Continue by (auto simp: act_ret_def)
    next
      case (Some n')
      then have "reached E sv ds n' st'"
        using less.prems(1) r Continue by (auto intro: reached_step)
      moreover have "run_from E sv rc None n' st' w1 = (Inr e, w')" using rest Continue Some by simp
      ultimately show ?thesis using less.hyps next_node_rank [OF Some] by blast
    qed
  qed
qed

definition decision_given :: "PreparationServices \<Rightarrow> (node \<times> jdict) list \<Rightarrow> PreparationState \<Rightarrow> bool" where
  "decision_given sv ds st = ((ND_cp1_review, ps_cp1_decision st) \<in> set ds \<or> delegated sv st)"

text \<open>What holds at each node, by the part of the graph it lies in.\<close>

definition node_invariant ::
  "PreparationServices \<Rightarrow> (node \<times> jdict) list \<Rightarrow> node \<Rightarrow> PreparationState \<Rightarrow> bool" where
  "node_invariant sv ds n st =
     (if n \<in> {ND_close_failed, ND_close_incomplete} then True
      else (12 \<le> rank n \<longrightarrow> undecided st)
         \<and> (rank n \<le> 11 \<longrightarrow> cp1_judged sv st)
         \<and> (rank n = 11 \<longrightarrow> undecided st)
         \<and> (rank n \<le> 10 \<longrightarrow> decision_given sv ds st)
         \<and> (4 \<le> rank n \<longrightarrow> ps_cp2_decision st = [])
         \<and> (rank n \<le> 9 \<longrightarrow> decision_approved (ps_cp1_decision st))
         \<and> (rank n \<le> 3 \<longrightarrow> (ND_cp2_review, ps_cp2_decision st) \<in> set ds)
         \<and> (n = ND_finalize_official \<longrightarrow> decision_approved (ps_cp2_decision st)))"

lemma updating_Inr:
  "updating m w = (Inr r, w') \<longleftrightarrow> (\<exists>st'. m w = (Inr st', w') \<and> r = Continue st')"
  by (auto simp: act_bind_def act_ret_def split: prod.splits sum.splits)

lemma returnsD: "returns P m \<Longrightarrow> m w = (Inr x, w') \<Longrightarrow> P x"
  by (auto simp: returns_def)

lemma kept_given: "decision_given sv ds st \<Longrightarrow> kept st st' \<Longrightarrow> decision_given sv ds st'"
  by (auto simp: decision_given_def kept_def delegated_def)

lemma kept_fields:
  "kept st st' \<Longrightarrow> ps_cp1_decision st' = ps_cp1_decision st"
  "kept st st' \<Longrightarrow> ps_cp2_decision st' = ps_cp2_decision st"
  by (simp_all add: kept_def)

lemma late_step:
  assumes "node_invariant sv ds n st" "n \<in> {ND_apply_cp1, ND_draft_solicitation_package,
      ND_draft_evaluation_criteria, ND_build_supplier_shortlist, ND_run_risk_check, ND_package_gate,
      ND_apply_cp2}"
    "kept st st'" "next_node n st' = Some n'"
  shows "node_invariant sv ds n' st'"
proof -
  have j: "cp1_judged sv st'" and g: "decision_given sv ds st'"
    using assms(1,2) cp1_judged_kept [OF _ assms(3)] kept_given [OF _ assms(3)]
    by (auto simp: node_invariant_def)
  note fields = kept_fields [OF assms(3)]
  show ?thesis using assms(2)
    by (elim insertE emptyE; use assms(1,4) j g fields in \<open>simp add: node_invariant_def
        route_after_cp1_def route_after_cp2_def split: if_splits\<close>)
qed

lemma updating_None: "run_node E sv rc resume n st w = (Inr (Continue st'), w') \<Longrightarrow>
    n \<notin> {ND_cp1_review, ND_cp2_review, ND_close_failed, ND_close_incomplete} \<Longrightarrow>
    run_node E sv rc None n st w = (Inr (Continue st'), w')"
  by (cases n) auto

lemma step_invariant:
  assumes "node_invariant sv ds n st" "run_node E sv rc None n st w = (Inr (Continue st'), w')"
    "next_node n st' = Some n'"
  shows "node_invariant sv ds n' st'"
proof (cases "n \<in> {ND_load_case, ND_extract_requirements, ND_completeness_check,
    ND_draft_procurement_approach, ND_approach_gate}")
  case True
  then have u: "undecided st" using assms(1) by (auto simp: node_invariant_def)
  note early = early_nodes_undecided [OF u, THEN returnsD] approach_gate_returns [OF u, THEN returnsD]
  from True show ?thesis
  proof (elim insertE)
    assume n: "n = ND_approach_gate"
    then have g: "after_gate sv st'" using assms(2) early(5) by (auto simp: updating_Inr simp del: updating.simps)
    then show ?thesis using n assms(3)
      by (auto simp: node_invariant_def route_after_approach_gate_def after_gate_def decision_given_def
          undecided_def split: if_splits)
  qed (use assms(2,3) early(1-4) in \<open>auto simp: updating_Inr node_invariant_def undecided_def
         simp del: updating.simps\<close>)
next
  case False
  show ?thesis
  proof (cases "n \<in> {ND_cp1_review, ND_cp2_review, ND_close_failed, ND_close_incomplete, ND_finalize_official}")
    case True
    then show ?thesis using assms(2,3) by (auto simp: act_ret_def cp1_review_node_def cp2_review_node_def)
  next
    case F2: False
    have "kept st st'" using False F2 assms(2)
      by (cases n) (auto simp: updating_Inr simp del: updating.simps dest: late_nodes_keep [THEN returnsD])
    then show ?thesis using late_step [OF assms(1) _ _ assms(3)] False F2 by (cases n) auto
  qed
qed

lemma judged_update:
  "cp1_judged sv (st\<lparr>ps_cp1_decision := d\<rparr>) = cp1_judged sv st"
  "cp1_judged sv (st\<lparr>ps_cp2_decision := d\<rparr>) = cp1_judged sv st"
  "delegated sv (st\<lparr>ps_cp2_decision := d\<rparr>) = delegated sv st"
  by (simp_all add: cp1_judged_def cp1_gate_def delegated_def)

lemma resume_invariant:
  assumes "node_invariant sv ds n st" "n \<in> {ND_cp1_review, ND_cp2_review}"
    "run_node E sv rc (Some d) n st w = (Inr (Continue st'), w')" "next_node n st' = Some n'"
  shows "node_invariant sv ((n, d) # ds) n' st'"
  using assms
  by (auto simp: node_invariant_def act_ret_def cp1_review_node_def cp2_review_node_def judged_update
      decision_given_def undecided_def)

lemma reached_invariant: "reached E sv ds n st \<Longrightarrow> node_invariant sv ds n st"
proof (induction rule: reached.induct)
  case (reached_start cid)
  then show ?case by (simp add: node_invariant_def undecided_def initial_state_def)
next
  case reached_step
  then show ?case by (blast intro: step_invariant)
next
  case reached_resume
  then show ?case by (blast intro: resume_invariant)
qed

section \<open>Closed runs\<close>

definition easy_rules :: ProcurementRules where
  "easy_rules = demo_procurement_rules\<lparr>pr_methods := [demo_method ''direct'' None 0],
     pr_require_approved_pr := False, pr_require_budget := False, pr_require_deadline := False,
     pr_require_owner := False\<rparr>"

definition demo_services :: PreparationServices where
  "demo_services = \<lparr>sv_rules = easy_rules, sv_read_text = (\<lambda>_ _. Inr ''''), sv_knowledge = None,
     sv_model_gateway = None, sv_model_profile = ''balanced'', sv_autonomy_profile = ''governed_production'',
     sv_rework_rules = None, sv_prompt_bundle_version = ''1.1.0'', sv_schema_version = ''1.0'',
     sv_exports_bucket_prefix = ''exports''\<rparr>"

lemma demo_services_sel [evaluation]:
  "sv_rules demo_services = easy_rules" "sv_read_text demo_services n k = Inr ''''"
  "sv_knowledge demo_services = None" "sv_model_gateway demo_services = None"
  "sv_rework_rules demo_services = None" "sv_autonomy_profile demo_services = ''governed_production''"
  by (simp_all add: demo_services_def)

lemma easy_rules_sel [evaluation]:
  "select_method easy_rules v = Inr (demo_method ''direct'' None 0)"
  by (simp_all add: easy_rules_def select_method_def demo_method_def covers_def)

abbreviation demo_start :: world where
  "demo_start \<equiv> start_world (case_db CS_DRAFT)"

lemma node_artifact_sel [evaluation]:
  "a_tenant_id (node_artifact E sv i c ty ver status content) = c_tenant_id c"
  "a_case_id (node_artifact E sv i c ty ver status content) = c_id c"
  "a_id (node_artifact E sv i c ty ver status content) = i"
  "a_version (node_artifact E sv i c ty ver status content) = ver"
  "a_type (node_artifact E sv i c ty ver status content) = ty"
  "a_content (node_artifact E sv i c ty ver status content) = content"
  "a_content_hash (node_artifact E sv i c ty ver status content) = content_hash E content"
  by (simp_all add: node_artifact_def case_artifact_def)

lemma advance_sel [evaluation]:
  "c_id (advance c s step k) = c_id c" "c_tenant_id (advance c s step k) = c_tenant_id c"
  "c_version (advance c s step k) = c_version c + 1" "c_workspace_id (advance c s step k) = c_workspace_id c"
  "c_created_by (advance c s step k) = c_created_by c" "c_state (advance c s step k) = s"
  "c_title (advance c s step k) = c_title c"
  "c_estimated_value_minor (advance c s step k) = c_estimated_value_minor c"
  by (simp_all add: advance_def case_moved_def)

lemma length_demo_id [simp]: "length (demo_id n) = Suc n"
  by (induction n) auto

lemma demo_id_inject [evaluation]: "demo_id n = demo_id m \<longleftrightarrow> n = m"
proof
  assume "demo_id n = demo_id m"
  then have "length (demo_id n) = length (demo_id m)" by simp
  then show "n = m" by simp
qed simp

lemmas node_evaluation = evaluation case_id_of_def node_case_def request_text_def read_text_def
  port_call_def notify_working_def notify_progress_def artifact_tx_def add_node_artifact_def
  extract_from_request_def cite_for_def extract_legal_constraints_def

lemma demo_load:
  "fst (load_case_node demo_env demo_services demo_run (initial_state ''c1'') demo_start)
     = Inr (loaded_state demo_env (demo_case CS_DRAFT) '''' None None (initial_state ''c1''))"
  by (simp add: node_evaluation load_case_node_def initial_state_def cong: act_bind_weak)

lemma demo_extract:
  "ps_case_id st = ''c1'' \<Longrightarrow> ps_pr_text st = '''' \<Longrightarrow>
   fst (extract_requirements_node demo_env demo_services demo_run st demo_start)
     = Inr (st\<lparr>ps_requirements := [], ps_unknowns := []\<rparr>)"
  by (simp add: node_evaluation extract_requirements_node_def line_requirements_def line_unknowns_def
      request_lines_def cong: act_bind_weak)

lemma demo_complete:
  "ps_case_id st = ''c1'' \<Longrightarrow> ps_unknowns st = [] \<Longrightarrow>
   fst (completeness_check_node demo_env demo_services demo_run st demo_start)
     = Inr (st\<lparr>ps_clarifications := []\<rparr>)"
  by (simp add: node_evaluation completeness_check_node_def completeness_tx_def artifact_key_def cong: act_bind_weak)

lemma demo_draft:
  "ps_case_id st = ''c1'' \<Longrightarrow> ps_supplier_candidates st = [] \<Longrightarrow>
   fst (draft_procurement_approach_node demo_env demo_services demo_run st demo_start)
     = Inr (st\<lparr>ps_method_key := ''direct'', ps_method_label := Some ''direct'', ps_min_suppliers := Some 0,
         ps_supplier_count_planned := 0, ps_solicitation_window_days := applied_window ''direct'' None,
         ps_legal_constraints := legal_constraints_json ''direct'' None (deadline_conflict (ps_deadline st) None
           (applied_window ''direct'' None))\<rparr>)"
  by (simp add: node_evaluation draft_procurement_approach_node_def approach_tx_def artifact_key_def
      merged_basis_def demo_method_def cong: act_bind_weak)

text \<open>The gates announce that a review is under way before they open their transaction.\<close>

definition announced :: "string \<Rightarrow> world \<Rightarrow> bool" where
  "announced key w =
     (let j = hd (t_jobs (w_committed w)) in w_committed w = (case_db CS_DRAFT)\<lparr>t_jobs := [j]\<rparr> \<and> n_id j = demo_id 0 \<and> n_tenant_id j = ''t1''
        \<and> n_idempotency_key j = key \<and> w_fresh w = 1)"

lemma demo_announce:
  "fst (notify_working demo_env demo_run ''c1'' stage dedupe demo_start) = Inr ()
   \<and> announced (''dw01:c1:progress:'' @ stage @ '':'' @ dedupe)
       (snd (notify_working demo_env demo_run ''c1'' stage dedupe demo_start))"
  by (simp add: node_evaluation announced_def case_job_def new_job_def cong: act_bind_weak)

lemma announcedE:
  assumes "announced key w"
  obtains j where "w_committed w = (case_db CS_DRAFT)\<lparr>t_jobs := [j]\<rparr>" "n_id j = demo_id 0" "n_tenant_id j = ''t1''"
    "n_idempotency_key j = key" "w_fresh w = 1"
  using assms by (auto simp: announced_def Let_def simp del: demo_id.simps)

lemma demo_hash: "short_hash demo_env k d = take k ''{}''"
  by (simp add: short_hash_def content_hash_def evaluation utf8_encode_def)

lemma demo_gate_tx:
  assumes "announced ''dw01:c1:progress:review_wait_cp1:rw1-{}'' w" "g_passed g"
  shows "fst (in_uow demo_env ''t1'' (approach_gate_tx demo_env demo_services ''c1'' m g st None) w) = Inr None"
  using assms(1) by (rule announcedE) (use assms in \<open>simp add: node_evaluation demo_hash approach_gate_tx_def session_start_def autopilot_applies_def
      merge_into_latest_def cp1_passed_cards_def record_review_def notify_cp_approval_def
      cong: act_bind_weak\<close>)

lemma demo_package_gate_tx:
  assumes "announced ''dw01:c1:progress:review_wait_cp2:rw2-{}'' w"
  shows "fst (in_uow demo_env ''t1'' (package_gate_tx demo_env demo_services ''c1'' g st live legal source None) w) = Inr None"
  using assms(1) by (rule announcedE) (use assms in \<open>simp add: node_evaluation demo_hash package_gate_tx_def session_start_def
      merge_into_latest_def cp2_passed_cards_def record_review_def notify_cp_approval_def
      cong: act_bind_weak\<close>)

lemma demo_gate:
  assumes "ps_case_id st = ''c1''" "g_passed (cp1_gate easy_rules (demo_method ''direct'' None 0) st)"
  shows "fst (approach_gate_node demo_env demo_services demo_run st demo_start)
     = Inr (st\<lparr>ps_approach_gate := gate_json (cp1_gate easy_rules (demo_method ''direct'' None 0) st),
         ps_cp1_payload := cp1_payload_of easy_rules (demo_method ''direct'' None 0)
           (gate_json (cp1_gate easy_rules (demo_method ''direct'' None 0) st)) st\<rparr>)"
proof -
  let ?key = "''rw1-{}''" and ?g = "cp1_gate easy_rules (demo_method ''direct'' None 0) st"
  let ?n = "notify_working demo_env demo_run ''c1'' ''review_wait_cp1'' ?key demo_start"
  have n: "?n = (Inr (), snd ?n)" using demo_announce by (metis prod.collapse)
  have "fst (in_uow demo_env ''t1'' (approach_gate_tx demo_env demo_services ''c1''
      (demo_method ''direct'' None 0) ?g st None) (snd ?n)) = Inr None"
    by (rule demo_gate_tx) (use demo_announce [of "''review_wait_cp1''" ?key] assms(2) in auto)
  then show ?thesis using n assms
    by (auto simp: approach_gate_node_def case_id_of_def demo_services_sel easy_rules_sel demo_hash demo_run_sel
        run_review_def with_approved_def Let_def act_simps act_bind_def split: prod.splits sum.splits)
qed

lemma demo_package_gate_failed:
  "\<not> g_passed g \<Longrightarrow>
   fst (in_uow demo_env ''t1'' (package_gate_tx demo_env demo_services ''c1'' g st live legal source None) demo_start) = Inr None"
  by (simp add: node_evaluation demo_hash package_gate_tx_def merge_into_latest_def cong: act_bind_weak)

lemma demo_package_gate:
  assumes "ps_case_id st = ''c1''"
  shows "\<exists>gate payload. fst (package_gate_node demo_env demo_services demo_run st demo_start)
       = Inr (st\<lparr>ps_package_gate := gate, ps_cp2_payload := payload\<rparr>)"
proof -
  let ?m = "demo_method ''direct'' None 0" and ?key = "''rw2-{}''"
  obtain legal remark where e: "effective_legal_minimum (drafted_minimum st) None = (legal, remark)" by fastforce
  let ?g = "cp2_gate easy_rules ?m st legal remark"
  let ?n = "notify_working demo_env demo_run ''c1'' ''review_wait_cp2'' ?key demo_start"
  have n: "?n = (Inr (), snd ?n)" using demo_announce by (metis prod.collapse)
  have "fst (in_uow demo_env ''t1'' (package_gate_tx demo_env demo_services ''c1''
      ?g st None legal ''not_available'' None) (snd ?n)) = Inr None"
    by (rule demo_package_gate_tx) (use demo_announce [of "''review_wait_cp2''" ?key] in auto)
  moreover have "\<not> g_passed ?g \<Longrightarrow> fst (in_uow demo_env ''t1'' (package_gate_tx demo_env demo_services ''c1''
      ?g st None legal ''not_available'' None) demo_start) = Inr None"
    by (rule demo_package_gate_failed)
  ultimately have "fst (package_gate_node demo_env demo_services demo_run st demo_start)
       = Inr (st\<lparr>ps_package_gate := gate_json ?g, ps_cp2_payload := cp2_payload_of easy_rules (gate_json ?g) st\<rparr>)"
    using n assms e
    by - (cases "g_passed ?g"; auto simp: package_gate_node_def case_id_of_def demo_services_sel easy_rules_sel demo_hash demo_run_sel
        run_review_def live_legal_minimum_def cite_for_def with_approved_def Let_def act_simps act_bind_def
        split: prod.splits sum.splits)
  then show ?thesis by blast
qed

lemma demo_finalize:
  "ps_case_id st = ''c1'' \<Longrightarrow> ps_requirements st = [] \<Longrightarrow>
   \<exists>m r. fst (finalize_official_node demo_env demo_services demo_run st demo_start)
     = Inr (st\<lparr>ps_official_manifest := m, ps_export_ref := r\<rparr>)"
  by (simp add: node_evaluation finalize_official_node_def finalize_tx_def render_package_markdown_def
      section_of_def last_of_type_def lock_official_def export_path_def cong: act_bind_weak)
    (intro exI, rule refl)

lemma demo_apply:
  "ps_case_id st = ''c1'' \<Longrightarrow> fst (apply_cp1_node demo_env demo_services demo_run st demo_start) = Inr st"
  "ps_case_id st = ''c1'' \<Longrightarrow> fst (apply_cp2_node demo_env demo_services demo_run st demo_start) = Inr st"
  by (simp_all add: node_evaluation apply_cp1_node_def apply_cp1_tx_def apply_cp2_node_def apply_cp2_tx_def
      record_turned_down_def cong: act_bind_weak)

lemma demo_build:
  "ps_case_id st = ''c1'' \<Longrightarrow> ps_requirements st = [] \<Longrightarrow>
     fst (draft_solicitation_package_node demo_env demo_services demo_run st demo_start) = Inr st"
  "ps_case_id st = ''c1'' \<Longrightarrow> ps_requirements st = [] \<Longrightarrow>
     fst (draft_evaluation_criteria_node demo_env demo_services demo_run st demo_start)
       = Inr (st\<lparr>ps_criteria := criteria_content easy_rules None []\<rparr>)"
  "ps_case_id st = ''c1'' \<Longrightarrow>
     fst (build_supplier_shortlist_node demo_env demo_services demo_run st demo_start)
       = Inr (st\<lparr>ps_shortlist := shortlist_of demo_env st\<rparr>)"
  "ps_case_id st = ''c1'' \<Longrightarrow>
     fst (run_risk_check_node demo_env demo_services demo_run st demo_start) = Inr (st\<lparr>ps_risk := risk_content st\<rparr>)"
  by (simp_all add: node_evaluation draft_solicitation_package_node_def llm_solicitation_def
      extract_required_sections_def solicitation_tx_def draft_evaluation_criteria_node_def llm_criteria_def
      build_supplier_shortlist_node_def run_risk_check_node_def cong: act_bind_weak)

subsection \<open>A run to the official package\<close>

lemma fst_updating:
  "fst (updating m w) = (case fst (m w) of Inl e \<Rightarrow> Inl e | Inr x \<Rightarrow> Inr (Continue x))"
  by (simp add: act_bind_def act_ret_def split: prod.split sum.split)

lemma demo_step:
  assumes "reached demo_env demo_services ds n st" "next_node n st' = Some n'"
    "fst (run_node demo_env demo_services demo_run None n st demo_start) = Inr (Continue st')"
  shows "reached demo_env demo_services ds n' st'"
  using assms by (metis prod.collapse reached_step)

definition at_case :: "PreparationState \<Rightarrow> bool" where
  "at_case st = (ps_case_id st = ''c1'' \<and> ps_requirements st = [])"

definition yes :: jdict where
  "yes = [(''approved'', JBool True), (''comment'', JStr ''ok''), (''decided_by'', JStr ''u2'')]"

lemma yes_approved: "decision_approved yes"
  by (simp add: yes_def decision_approved_def)

lemma demo_to_gate:
  "\<exists>st. reached demo_env demo_services [] ND_approach_gate st \<and> at_case st \<and> ps_cp1_decision st = []
     \<and> g_passed (cp1_gate easy_rules (demo_method ''direct'' None 0) st)"
proof -
  let ?s1 = "loaded_state demo_env (demo_case CS_DRAFT) '''' None None (initial_state ''c1'')"
  let ?s2 = "?s1\<lparr>ps_requirements := [], ps_unknowns := []\<rparr>"
  let ?s3 = "?s2\<lparr>ps_clarifications := []\<rparr>"
  have f: "ps_case_id ?s1 = ''c1''" "ps_pr_text ?s1 = ''''" "ps_supplier_candidates ?s1 = []"
    "ps_cp1_decision ?s1 = []" "ps_currency ?s1 = ''VND''"
    by (simp_all add: loaded_state_def initial_state_def demo_case_def)
  have "reached demo_env demo_services [] ND_extract_requirements ?s1"
    by (rule demo_step [OF reached_start [of _ _ "''c1''"]]) (simp_all add: fst_updating demo_load del: updating.simps)
  then have "reached demo_env demo_services [] ND_completeness_check ?s2"
    by (rule demo_step) (simp_all add: fst_updating demo_extract f del: updating.simps)
  then have r3: "reached demo_env demo_services [] ND_draft_procurement_approach ?s3"
    by (rule demo_step) (simp_all add: fst_updating demo_complete f del: updating.simps)
  let ?w = "applied_window ''direct'' None"
  let ?s4 = "?s3\<lparr>ps_method_key := ''direct'', ps_method_label := Some ''direct'', ps_min_suppliers := Some 0,
      ps_supplier_count_planned := 0, ps_solicitation_window_days := ?w,
      ps_legal_constraints := legal_constraints_json ''direct'' None (deadline_conflict (ps_deadline ?s3) None ?w)\<rparr>"
  have d: "fst (draft_procurement_approach_node demo_env demo_services demo_run ?s3 demo_start) = Inr ?s4"
    by (rule demo_draft) (simp_all add: f)
  have "reached demo_env demo_services [] ND_approach_gate ?s4"
    using r3 by (rule demo_step) (simp_all add: fst_updating d del: updating.simps)
  moreover have "g_passed (cp1_gate easy_rules (demo_method ''direct'' None 0) ?s4)"
    by (simp add: cp1_gate_def approach_gate_def easy_rules_def demo_method_def f
        blocking_count_def py_strip_def py_lstrip_def py_rstrip_def py_isspace_def)
  moreover have "at_case ?s4" "ps_cp1_decision ?s4 = []" by (simp_all add: at_case_def f)
  ultimately show ?thesis by blast
qed

lemma demo_to_package:
  "\<exists>st. reached demo_env demo_services [(ND_cp1_review, yes)] ND_draft_solicitation_package st \<and> at_case st"
proof -
  let ?m = "demo_method ''direct'' None 0"
  obtain st where st: "reached demo_env demo_services [] ND_approach_gate st" "at_case st"
    "ps_cp1_decision st = []" "g_passed (cp1_gate easy_rules ?m st)"
    using demo_to_gate by blast
  define s1 where "s1 = st\<lparr>ps_approach_gate := gate_json (cp1_gate easy_rules ?m st),
    ps_cp1_payload := cp1_payload_of easy_rules ?m (gate_json (cp1_gate easy_rules ?m st)) st\<rparr>"
  have g: "fst (approach_gate_node demo_env demo_services demo_run st demo_start) = Inr s1"
    unfolding s1_def by (rule demo_gate) (use st in \<open>simp_all add: at_case_def\<close>)
  have "route_after_approach_gate s1 = ND_cp1_review"
    using st by (simp add: s1_def route_after_approach_gate_def gate_json_def)
  then have "reached demo_env demo_services [] ND_cp1_review s1"
    using demo_step [OF st(1), of s1] g by (simp add: fst_updating del: updating.simps)
  then have "reached demo_env demo_services [(ND_cp1_review, yes)] ND_apply_cp1 (s1\<lparr>ps_cp1_decision := yes\<rparr>)"
    by (rule reached_resume) (auto simp: act_ret_def cp1_review_node_def)
  then have "reached demo_env demo_services [(ND_cp1_review, yes)] ND_draft_solicitation_package
      (s1\<lparr>ps_cp1_decision := yes\<rparr>)"
    by (rule demo_step) (use st(2) in \<open>simp_all add: fst_updating demo_apply s1_def at_case_def
        route_after_cp1_def yes_approved del: updating.simps\<close>)
  then show ?thesis
    by - (intro exI conjI, assumption, use st(2) in \<open>simp add: s1_def at_case_def\<close>)
qed

lemma demo_to_finalize:
  "\<exists>st. reached demo_env demo_services [(ND_cp2_review, yes), (ND_cp1_review, yes)] ND_finalize_official st
     \<and> at_case st"
proof -
  obtain st where st: "reached demo_env demo_services [(ND_cp1_review, yes)] ND_draft_solicitation_package st"
    "at_case st" using demo_to_package by blast
  let ?s2 = "st\<lparr>ps_criteria := criteria_content easy_rules None []\<rparr>"
  let ?s3 = "?s2\<lparr>ps_shortlist := shortlist_of demo_env ?s2\<rparr>"
  let ?s4 = "?s3\<lparr>ps_risk := risk_content ?s3\<rparr>"
  note c = st(2) [unfolded at_case_def]
  have "reached demo_env demo_services [(ND_cp1_review, yes)] ND_draft_evaluation_criteria st"
    using st(1) by (rule demo_step) (simp_all add: fst_updating demo_build c del: updating.simps)
  then have "reached demo_env demo_services [(ND_cp1_review, yes)] ND_build_supplier_shortlist ?s2"
    by (rule demo_step) (simp_all add: fst_updating demo_build c del: updating.simps)
  then have "reached demo_env demo_services [(ND_cp1_review, yes)] ND_run_risk_check ?s3"
    by (rule demo_step) (simp_all add: fst_updating demo_build c del: updating.simps)
  then have r4: "reached demo_env demo_services [(ND_cp1_review, yes)] ND_package_gate ?s4"
    by (rule demo_step) (simp_all add: fst_updating demo_build c del: updating.simps)
  obtain gate payload where "fst (package_gate_node demo_env demo_services demo_run ?s4 demo_start)
       = Inr (?s4\<lparr>ps_package_gate := gate, ps_cp2_payload := payload\<rparr>)"
    using demo_package_gate [of ?s4] c by auto
  then have "reached demo_env demo_services [(ND_cp1_review, yes)] ND_cp2_review
      (?s4\<lparr>ps_package_gate := gate, ps_cp2_payload := payload\<rparr>)"
    by (intro demo_step [OF r4]) (simp_all add: fst_updating del: updating.simps)
  then have "reached demo_env demo_services [(ND_cp2_review, yes), (ND_cp1_review, yes)] ND_apply_cp2
      (?s4\<lparr>ps_package_gate := gate, ps_cp2_payload := payload, ps_cp2_decision := yes\<rparr>)"
    by (rule reached_resume) (auto simp: act_ret_def cp2_review_node_def)
  then have "reached demo_env demo_services [(ND_cp2_review, yes), (ND_cp1_review, yes)] ND_finalize_official
      (?s4\<lparr>ps_package_gate := gate, ps_cp2_payload := payload, ps_cp2_decision := yes\<rparr>)"
    by (rule demo_step) (simp_all add: fst_updating demo_apply c route_after_cp2_def yes_approved del: updating.simps)
  then show ?thesis by - (intro exI conjI, assumption, simp add: c at_case_def)
qed

section \<open>Properties\<close>

text \<open>C2: The official package needs both approvals. Whenever the workflow reaches the step that seals
  the package, CP2 was approved by a decision the run was resumed with at CP2, and CP1 was approved,
  either by a decision the run was resumed with at CP1 or by delegation, which takes the demo profile, a
  method that asks for one supplier, and an approving review; and the approach meets the CP1 gate.\<close>

theorem official_needs_approvals:
  assumes "reached E sv ds ND_finalize_official st"
  shows "(ND_cp2_review, ps_cp2_decision st) \<in> set ds \<and> decision_approved (ps_cp2_decision st)
    \<and> ((ND_cp1_review, ps_cp1_decision st) \<in> set ds \<or> delegated sv st) \<and> decision_approved (ps_cp1_decision st)
    \<and> (\<exists>m. select_method (sv_rules sv) (ps_estimated_value_minor st) = Inr m
          \<and> g_passed (cp1_gate (sv_rules sv) m st))"
  using reached_invariant [OF assms] by (auto simp: node_invariant_def decision_given_def cp1_judged_def)

theorem official_needs_approvals_witness:
  "\<exists>st. reached demo_env demo_services [(ND_cp2_review, yes), (ND_cp1_review, yes)] ND_finalize_official st
     \<and> ps_cp2_decision st = yes \<and> decision_approved (ps_cp1_decision st)"
proof -
  obtain st where st: "reached demo_env demo_services [(ND_cp2_review, yes), (ND_cp1_review, yes)]
      ND_finalize_official st" using demo_to_finalize by blast
  from official_needs_approvals [OF st] show ?thesis using st by auto
qed

text \<open>C19: Where a run stops and asks. A run that stops asks for the CP1 decision, on an approach whose gate passed
  and that is not decided yet, with the question naming the role the approval matrix gives the authority to; or it asks
  for the CP2 decision, after CP1 was approved and with no CP2 decision yet. There is no third place where it stops.\<close>

theorem pauses_at_checkpoints:
  assumes "reached E sv ds n st" "run_from E sv rc None n st w = (Inr (Stopped_at m s v), w')"
  shows "(m = ND_cp1_review \<and> cp1_judged sv s \<and> undecided s \<and> v = JObj (ps_cp1_payload s))
    \<or> (m = ND_cp2_review \<and> cp1_judged sv s \<and> decision_approved (ps_cp1_decision s)
        \<and> ps_cp2_decision s = [] \<and> v = JObj (ps_cp2_payload s))"
proof -
  obtain w1 w2 where r: "reached E sv ds m s" and p: "run_node E sv rc None m s w1 = (Inr (Pause v), w2)"
    using run_from_reached [OF assms] by blast
  have "m = ND_cp1_review \<and> v = JObj (ps_cp1_payload s) \<or> m = ND_cp2_review \<and> v = JObj (ps_cp2_payload s)"
    using p by (cases m) (auto simp: updating_Inr cp1_review_node_def cp2_review_node_def act_ret_def
        simp del: updating.simps)
  then show ?thesis using reached_invariant [OF r] by (auto simp: node_invariant_def)
qed

lemma demo_at_cp1: "\<exists>s. reached demo_env demo_services [] ND_cp1_review s"
proof -
  let ?m = "demo_method ''direct'' None 0"
  obtain st where st: "reached demo_env demo_services [] ND_approach_gate st" "at_case st"
    "ps_cp1_decision st = []" "g_passed (cp1_gate easy_rules ?m st)"
    using demo_to_gate by blast
  then have "reached demo_env demo_services [] ND_cp1_review
      (st\<lparr>ps_approach_gate := gate_json (cp1_gate easy_rules ?m st),
         ps_cp1_payload := cp1_payload_of easy_rules ?m (gate_json (cp1_gate easy_rules ?m st)) st\<rparr>)"
    by (intro demo_step [OF st(1)]) (simp_all add: fst_updating demo_gate at_case_def
        route_after_approach_gate_def gate_json_def del: updating.simps)
  then show ?thesis by blast
qed

theorem pauses_at_checkpoints_witness:
  "\<exists>s v w'. run_from demo_env demo_services demo_run None ND_cp1_review s demo_start
       = (Inr (Stopped_at ND_cp1_review s v), w') \<and> cp1_judged demo_services s"
proof -
  obtain s where s: "reached demo_env demo_services [] ND_cp1_review s" using demo_at_cp1 by blast
  have "run_from demo_env demo_services demo_run None ND_cp1_review s demo_start
      = (Inr (Stopped_at ND_cp1_review s (JObj (ps_cp1_payload s))), demo_start)"
    by (subst run_from.simps) (simp add: cp1_review_node_def act_bind_def act_ret_def)
  with pauses_at_checkpoints [OF s this] show ?thesis by auto
qed

text \<open>C14: A failed CP2 gate does not stop the package: after the gate, whatever its verdict, the run
  pauses for the CP2 decision, and an approval seals the package without looking at the verdict.\<close>

theorem cp2_gate_only_advises:
  assumes "package_gate_node E sv rc st w = (Inr st', w')" "decision_approved d"
  shows "run_from E sv rc None ND_package_gate st w
      = (Inr (Stopped_at ND_cp2_review st' (JObj (ps_cp2_payload st'))), w')
    \<and> run_from E sv rc' (Some d) ND_cp2_review st' u
      = act_bind (apply_cp2_node E sv rc' (st'\<lparr>ps_cp2_decision := d\<rparr>)) (\<lambda>_.
        act_bind (finalize_official_node E sv rc' (st'\<lparr>ps_cp2_decision := d\<rparr>)) (\<lambda>s.
          act_ret (Ended ND_finalize_official s))) u"
proof
  show "run_from E sv rc None ND_package_gate st w
      = (Inr (Stopped_at ND_cp2_review st' (JObj (ps_cp2_payload st'))), w')"
    using assms(1)
    by (subst run_from.simps, subst run_from.simps)
      (simp add: act_bind_def act_ret_def cp2_review_node_def)
  have same: "st'' = st'\<lparr>ps_cp2_decision := d\<rparr>"
    if "apply_cp2_node E sv rc' (st'\<lparr>ps_cp2_decision := d\<rparr>) v = (Inr st'', v')" for st'' v v'
    using that by (auto simp: apply_cp2_node_def case_id_of_def act_bind_def act_ret_def act_raise_def
        split: if_splits prod.splits sum.splits)
  show "run_from E sv rc' (Some d) ND_cp2_review st' u
      = act_bind (apply_cp2_node E sv rc' (st'\<lparr>ps_cp2_decision := d\<rparr>)) (\<lambda>_.
        act_bind (finalize_official_node E sv rc' (st'\<lparr>ps_cp2_decision := d\<rparr>)) (\<lambda>s.
          act_ret (Ended ND_finalize_official s))) u"
    using assms(2)
    by (subst run_from.simps, subst run_from.simps, subst run_from.simps)
      (auto simp: act_bind_def act_ret_def cp2_review_node_def route_after_cp2_def
        split: prod.split sum.split dest!: same)
qed

text \<open>Adding an artifact twice is adding it once: with the same content, the second call returns the
  artifact of the first and writes nothing, whatever status it asks for.\<close>

theorem add_artifact_idempotent:
  assumes "add_node_artifact E sv c ty content status w = (Inr a, w')"
  shows "latest_artifact (c_id c) ty w' = Some a \<and> a_content_hash a = content_hash E content
    \<and> add_node_artifact E sv c ty content status' w' = (Inr a, w')"
proof (cases "\<exists>b. latest_artifact (c_id c) ty w = Some b \<and> a_content_hash b = content_hash E content")
  case True
  then show ?thesis using assms by (auto simp: add_node_artifact_def artifacts_latest_def act_simps)
next
  case False
  let ?l = "latest_artifact (c_id c) ty w"
  from False assms have a: "a = node_artifact E sv (env_ids E (w_fresh w)) c ty (next_version ?l) status content"
    and t: "t_artifacts (w_db w') = t_artifacts (w_db w) @ [a]" "w_tenant w' = w_tenant w" "c_tenant_id c = w_tenant w"
    by (auto simp: add_node_artifact_def artifacts_latest_def act_simps Let_def new_uuid_def artifacts_add_def
        insert_row_def act_bind_def node_artifact_sel split: option.splits if_splits)
  have "latest_artifact (c_id c) ty w' = Some a"
    using t a by (auto simp: latest_artifact_def artifact_visible_def greatest_by_snoc node_artifact_sel
        next_version_def split: option.splits)
  then show ?thesis
    by (auto simp: add_node_artifact_def artifacts_latest_def act_simps a node_artifact_sel)
qed

text \<open>C15: Answers given in two steps are lost. The handler counts the answers of every response of the case, but the
  run reads only the latest one. If an earlier response, filed by the handler, answered a question and the latest
  response does not mention it, then the question is among those the handler counts as answered, and yet after loading
  the case the run treats it as blocking again, with an empty answer.\<close>

theorem earlier_answers_forgotten:
  assumes i: "i = ''c'' @ nat_str (k + 1)"
    and run: "load_case_node E sv rc st w = (Inr st', w')"
    and arts: "arts = filter (\<lambda>a. a_case_id a = ps_case_id st) (artifact_visible (session_start (rc_tenant_id rc) w))"
    and earlier: "a0 \<in> set arts" "a_type a0 = CLARIFICATION_RESPONSE" "a_content a0 = answer_content x0 t0 answers0"
      "q \<in> set answers0" "cl_clarification_id q = i" "py_strip (cl_answer q) \<noteq> ''''"
    and last: "latest_artifact (ps_case_id st) CLARIFICATION_RESPONSE (session_start (rc_tenant_id rc) w) = Some a"
      "a_content a = answer_content x t answers" "i \<notin> cl_clarification_id ` set answers"
  shows "i \<in> answered_ids_in E arts
    \<and> jget (clarification_item st' k question) ''blocking'' = Some (JBool True)
    \<and> jget (clarification_item st' k question) ''answer'' = Some (JStr '''')"
proof -
  obtain c req si where "st' = loaded_state E c req (Some a) si st"
  proof -
    have frame: "t_artifacts (w_db v') = t_artifacts (w_db v) \<and> w_tenant v' = w_tenant v"
      if "request_text sv docs v = (y, v')" for docs v v' y
      using that by (auto simp: request_text_def read_text_def port_call_def act_bind_def act_ret_def
          act_lift_def split: option.splits)
    have "latest_artifact cid ty v' = latest_artifact cid ty v"
      if "request_text sv docs v = (y, v')" for docs v v' y cid ty
      using frame [OF that] by (simp add: latest_artifact_def artifact_visible_def)
    then show ?thesis using run last(1) that
      by (auto simp: load_case_node_def case_id_of_def act_simps run_in_uow cases_get_def artifacts_latest_def
          documents_list_for_case_def act_some_def act_bind_def split: if_splits option.splits prod.splits sum.splits)
  qed
  moreover have "map_of (rev (response_answers E (Some a))) i = None"
    using last(2,3) by (auto simp: map_of_eq_None_iff response_answers_def answer_content_def image_iff)
  ultimately have "jget (clarification_item st' k question) ''blocking'' = Some (JBool True)
      \<and> jget (clarification_item st' k question) ''answer'' = Some (JStr '''')"
    by (simp add: clarification_item_def Let_def answer_to_def loaded_state_def i)
  moreover have "i \<in> answered_ids_in E arts"
    unfolding answered_ids_in_def using earlier
    by (intro UN_I [of a0]) (auto simp: answer_content_def image_iff intro!: bexI [of _ q])
  ultimately show ?thesis by blast
qed

subsection \<open>The legal minimum is quoted\<close>

lemma returns_bind_value:
  "returns Q m \<Longrightarrow> (\<And>x. Q x \<Longrightarrow> returns P (f x)) \<Longrightarrow> returns P (act_bind m f)"
  unfolding returns_def run_bind by blast

lemma returns_port_call: "(\<And>n. P (f n)) \<Longrightarrow> returns P (port_call f)"
  by (simp add: returns_def port_call_def)

text \<open>A citation is a passage some search of the run returned.\<close>

definition retrieved :: "PreparationServices \<Rightarrow> EvidenceChunk \<Rightarrow> bool" where
  "retrieved sv k = (\<exists>search n q x ks. sv_knowledge sv = Some search \<and> search n q x = Some ks \<and> k \<in> set ks)"

definition retrieved_all :: "PreparationServices \<Rightarrow> jdict list \<Rightarrow> bool" where
  "retrieved_all sv cs = (\<forall>c \<in> set cs. \<exists>k. retrieved sv k \<and> c = citation k)"

lemma cite_returns: "returns (retrieved_all sv) (cite_for sv rc q d)"
  unfolding cite_for_def
proof (rule returns_option, goal_cases)
  case (2 search)
  have hit: "returns (\<lambda>hits. \<forall>ks. hits = Some ks \<longrightarrow> retrieved_all sv (map citation ks))
      (port_call (\<lambda>n. search n query x))" for query x
    using 2 by (intro returns_port_call) (auto simp: retrieved_all_def retrieved_def, blast)
  show ?case
    by (cases "access_context_from_run rc")
      (auto simp: retrieved_all_def returns_ret intro!: returns_bind_value [OF hit] returns_ret split: option.split)
qed (simp add: returns_ret retrieved_all_def)

lemma generate_returns: "returns (\<lambda>r. \<forall>x. r = Some x \<longrightarrow> ok x) (generate call ok req rc)"
  unfolding generate_def by (rule returns_port_call) (auto split: option.split)

text \<open>What an extracted figure rests on: a retrieved passage that holds the quotation, and the figure in it.\<close>

definition grounded :: "PreparationServices \<Rightarrow> int \<Rightarrow> bool" where
  "grounded sv d = (1 \<le> d \<and> d \<le> 365 \<and> (\<exists>k quote. retrieved sv k \<and> 15 \<le> length quote
     \<and> sublist quote (norm_text (take 1200 (ek_content k))) \<and> has_number d quote))"

lemma quotes_retrieved:
  "retrieved_all sv cs \<Longrightarrow> p \<in> set (quotes_of E cs) \<Longrightarrow> \<exists>k. retrieved sv k \<and> p = take 1200 (ek_content k)"
  by (fastforce simp: retrieved_all_def quotes_of_def citation_def)

lemma extract_legal_returns:
  assumes "retrieved_all sv cs"
  shows "returns (\<lambda>r. \<forall>c. r = Some c \<longrightarrow> grounded sv (lc_days c)) (extract_legal_constraints E sv rc label cs)"
proof -
  have ok: "grounded sv (lc_days c)"
    if "ok_legal e" "verified_constraint e (quotes_of E cs) = Some c" for e c
  proof -
    note v = verified_constraint_Some [OF that(2)]
    then obtain p where "p \<in> set (quotes_of E cs)" "sublist (norm_text (lc_quote c)) (norm_text p)"
      by (auto simp: quoted_in_def list_ex_iff)
    then obtain k where "retrieved sv k" "sublist (norm_text (lc_quote c)) (norm_text (take 1200 (ek_content k)))"
      using quotes_retrieved [OF assms] by blast
    then show ?thesis using v that(1) by (auto simp: grounded_def ok_legal_def)
  qed
  have call: "returns (\<lambda>r. \<forall>c. r = Some c \<longrightarrow> grounded sv (lc_days c))
      (act_bind (generate call ok_legal req rc) (\<lambda>x. act_ret (case x of None \<Rightarrow> None
         | Some e \<Rightarrow> verified_constraint e (quotes_of E cs))))" for call req
    by (rule returns_bind_value [OF generate_returns], rule returns_ret) (auto dest: ok split: option.splits)
  have none: "returns (\<lambda>r. \<forall>c. r = Some c \<longrightarrow> grounded sv (lc_days c)) (act_ret None)"
    by (simp add: returns_ret)
  show ?thesis
    unfolding extract_legal_constraints_def Let_def
    by (cases "sv_model_gateway sv"; cases "quotes_of E cs = []") (simp_all add: call none)
qed

text \<open>C8: The legal minimum the workflow enforces was read in a retrieved passage: when the approach step
  records a drafted minimum, it is a number of days between 1 and 365 that stands in a quotation of a
  passage some search returned, and the submission window it sets is at least that long.\<close>

theorem legal_minimum_is_quoted:
  assumes "draft_procurement_approach_node E sv rc st w = (Inr st', w')" "drafted_minimum st' = Some d"
  shows "grounded sv d \<and> d \<le> window_in_force st' \<and> default_window_days (ps_method_key st') \<le> window_in_force st'"
proof -
  have merged: "retrieved_all sv a \<Longrightarrow> retrieved_all sv b \<Longrightarrow> retrieved_all sv (merged_basis a b)" for a b
    by (auto simp: retrieved_all_def merged_basis_def)
  have pos: "max (default_window_days key) n \<noteq> 0" for key n by (simp add: default_window_days_def max_def)
  have "returns (\<lambda>s. \<forall>d. drafted_minimum s = Some d \<longrightarrow> grounded sv d \<and> d \<le> window_in_force s
      \<and> default_window_days (ps_method_key s) \<le> window_in_force s)
     (draft_procurement_approach_node E sv rc st)"
    unfolding draft_procurement_approach_node_def
    apply (rule returns_bind, rule returns_bind, rule returns_Let, rule returns_Let, rule returns_bind_lift)
    apply (rule returns_bind_value [OF cite_returns], rule returns_bind_value [OF cite_returns], rule returns_bind)
    apply (rule returns_Let, rule returns_bind_value [OF extract_legal_returns], simp add: merged)
    apply (rule returns_Let, rule returns_Let, rule returns_bind, rule returns_ret)
    using pos by (auto simp: drafted_minimum_def extracted_constraint_def legal_constraints_json_def
        constraint_json_def window_in_force_def applied_window_def opt_days_def split: option.splits)
  then show ?thesis using assms by (auto simp: returns_def)
qed

definition demo_chunk :: EvidenceChunk where
  "demo_chunk = \<lparr>ek_content = ''Bids: at least 18 days'', ek_source_document_id = ''law'', ek_source_version = ''1'',
     ek_source_title = None, ek_source_uri = None, ek_relevance = 9000, ek_classification = ''internal''\<rparr>"

definition demo_extraction :: LegalConstraintExtraction where
  "demo_extraction = \<lparr>le_days = Some 18, le_article = '''', le_quote = ''At least  18 days''\<rparr>"

definition legal_services :: PreparationServices where
  "legal_services = demo_services\<lparr>sv_knowledge := Some (\<lambda>n q x. Some [demo_chunk]),
     sv_model_gateway := Some \<lparr>mg_extraction = (\<lambda>_ _ _. None), mg_solicitation = (\<lambda>_ _ _. None),
       mg_criteria = (\<lambda>_ _ _. None), mg_review = (\<lambda>_ _ _. None), mg_legal = (\<lambda>_ _ _. Some demo_extraction),
       mg_sections = (\<lambda>_ _ _. None)\<rparr>\<rparr>"

lemma demo_verified:
  "verified_constraint demo_extraction (quotes_of demo_env (merged_basis [citation demo_chunk] [citation demo_chunk]))
     = Some \<lparr>lc_days = 18, lc_article = '''', lc_quote = ''At least  18 days''\<rparr>"
  "quotes_of demo_env (merged_basis [citation demo_chunk] [citation demo_chunk]) \<noteq> []" "ok_legal demo_extraction"
  by code_simp+

theorem legal_minimum_is_quoted_witness:
  "\<exists>st' w'. draft_procurement_approach_node demo_env legal_services demo_run (initial_state ''c1'') demo_start
       = (Inr st', w') \<and> drafted_minimum st' = Some 18 \<and> 18 \<le> window_in_force st'"
proof -
  let ?run = "draft_procurement_approach_node demo_env legal_services demo_run (initial_state ''c1'') demo_start"
  let ?c = "Some \<lparr>lc_days = 18, lc_article = '''', lc_quote = ''At least  18 days''\<rparr>"
  have "\<exists>s. fst ?run = Inr s \<and> drafted_minimum s = Some 18"
    by (simp add: node_evaluation draft_procurement_approach_node_def approach_tx_def artifact_key_def
        legal_services_def demo_verified generate_def demo_method_def initial_state_def demo_run_access
        drafted_minimum_def extracted_constraint_def legal_constraints_json_def constraint_json_def
        cong: act_bind_weak)
  then obtain s where s: "?run = (Inr s, snd ?run)" "drafted_minimum s = Some 18" by (metis prod.collapse)
  show ?thesis using legal_minimum_is_quoted [OF s] s by auto
qed

subsection \<open>Runs of single nodes\<close>

theorem cp2_gate_only_advises_witness:
  "\<exists>st' w'. run_from demo_env demo_services demo_run None ND_package_gate (initial_state ''c1'') demo_start
       = (Inr (Stopped_at ND_cp2_review st' (JObj (ps_cp2_payload st'))), w')
     \<and> jget (ps_package_gate st') ''passed'' = Some (JBool False) \<and> decision_approved yes"
proof -
  let ?run = "package_gate_node demo_env demo_services demo_run (initial_state ''c1'') demo_start"
  have e: "effective_legal_minimum (drafted_minimum (initial_state ''c1'')) None = (None, JStr '''')" by code_simp
  let ?g = "cp2_gate easy_rules (demo_method ''direct'' None 0) (initial_state ''c1'') None (JStr '''')"
  have f: "\<not> g_passed ?g"
    by (simp add: cp2_gate_def solicitation_gate_def initial_state_def jint_or_def easy_rules_def
        demo_procurement_rules_def fail_if_def)
  then have "\<exists>s. fst ?run = Inr s \<and> jget (ps_package_gate s) ''passed'' = Some (JBool False)"
    using demo_package_gate_failed [OF f, of "initial_state ''c1''" None None "''not_available''"] e
    by (auto simp: package_gate_node_def case_id_of_def demo_services_sel easy_rules_sel demo_run_sel
        live_legal_minimum_def cite_for_def Let_def act_simps act_bind_def gate_json_def initial_state_def
        split: prod.splits sum.splits)
  then obtain s where s: "?run = (Inr s, snd ?run)" "jget (ps_package_gate s) ''passed'' = Some (JBool False)"
    by (metis prod.collapse)
  show ?thesis using cp2_gate_only_advises [OF s(1) yes_approved] s(2) yes_approved by blast
qed

theorem add_artifact_idempotent_witness:
  "\<exists>a w'. add_node_artifact demo_env demo_services (demo_case CS_DRAFT) DEMAND_SNAPSHOT [(''k'', JInt 1)] AS_DRAFT
       (session_start ''t1'' demo_start) = (Inr a, w')
     \<and> add_node_artifact demo_env demo_services (demo_case CS_DRAFT) DEMAND_SNAPSHOT [(''k'', JInt 1)] AS_DRAFT w'
       = (Inr a, w')"
proof -
  let ?run = "add_node_artifact demo_env demo_services (demo_case CS_DRAFT) DEMAND_SNAPSHOT [(''k'', JInt 1)] AS_DRAFT
       (session_start ''t1'' demo_start)"
  have "ran_ok ?run" by (simp add: node_evaluation session_start_def cong: act_bind_weak)
  from ran_ok_elim [OF this] obtain a w' where run: "?run = (Inr a, w')" by blast
  show ?thesis using add_artifact_idempotent [OF run] run by blast
qed

definition response :: "uuid \<Rightarrow> int \<Rightarrow> string \<Rightarrow> PreparationArtifact" where
  "response i ver q = case_artifact demo_env i (demo_case CS_DRAFT) ''u1'' CLARIFICATION_RESPONSE ver AS_SUBMITTED
     (answer_content the_requester 0 [\<lparr>cl_clarification_id = q, cl_question = '''', cl_answer = ''yes'', cl_source_note = ''''\<rparr>])"

definition questions :: PreparationArtifact where
  "questions = case_artifact demo_env ''a0'' (demo_case CS_DRAFT) ''u1'' CLARIFICATION_LIST 1 AS_DRAFT
     [(''items'', JArr [JObj [(''id'', JStr ''c1''), (''blocking'', JBool True)],
                       JObj [(''id'', JStr ''c2''), (''blocking'', JBool True)]])]"

definition answered_db :: db where
  "answered_db = (case_db CS_DRAFT)\<lparr>t_artifacts := [questions, response ''a1'' 1 ''c1'', response ''a2'' 2 ''c2'']\<rparr>"

lemma response_sel [evaluation]:
  "a_tenant_id (response i v q) = ''t1''" "a_case_id (response i v q) = ''c1''"
  "a_type (response i v q) = CLARIFICATION_RESPONSE" "a_version (response i v q) = v"
  "a_tenant_id questions = ''t1''" "a_case_id questions = ''c1''" "a_type questions = CLARIFICATION_LIST"
  "t_artifacts answered_db = [questions, response ''a1'' 1 ''c1'', response ''a2'' 2 ''c2'']"
  "t_cases answered_db = [demo_case CS_DRAFT]" "t_documents answered_db = [demo_document ''d1'' APPROVED_PR]"
  by (simp_all add: response_def questions_def case_artifact_def demo_row_sel answered_db_def case_db_def)

lemma response_content: "a_content (response j v q) = answer_content the_requester 0
    [\<lparr>cl_clarification_id = q, cl_question = '''', cl_answer = ''yes'', cl_source_note = ''''\<rparr>]"
  by (simp add: response_def case_artifact_def)

theorem earlier_answers_forgotten_witness:
  "\<exists>st' w'. load_case_node demo_env demo_services demo_run (initial_state ''c1'') (start_world answered_db) = (Inr st', w')
     \<and> blocking_ids demo_env (Some questions)
         \<subseteq> answered_ids_in demo_env [questions, response ''a1'' 1 ''c1'', response ''a2'' 2 ''c2'']
     \<and> jget (clarification_item st' 0 []) ''blocking'' = Some (JBool True)"
proof -
  let ?run = "load_case_node demo_env demo_services demo_run (initial_state ''c1'') (start_world answered_db)"
  let ?q = "\<lambda>i. \<lparr>cl_clarification_id = i, cl_question = '''', cl_answer = ''yes'', cl_source_note = ''''\<rparr>"
  have "ran_ok ?run"
    by (simp add: node_evaluation response_sel load_case_node_def initial_state_def cong: act_bind_weak)
  from ran_ok_elim [OF this] obtain st' w' where run: "?run = (Inr st', w')" by blast
  have latest: "latest_artifact (ps_case_id (initial_state ''c1'')) CLARIFICATION_RESPONSE
      (session_start (rc_tenant_id demo_run) (start_world answered_db)) = Some (response ''a2'' 2 ''c2'')"
    by (simp add: evaluation initial_state_def)
  have arts: "[questions, response ''a1'' 1 ''c1'', response ''a2'' 2 ''c2''] =
      filter (\<lambda>a. a_case_id a = ps_case_id (initial_state ''c1''))
        (artifact_visible (session_start (rc_tenant_id demo_run) (start_world answered_db)))"
    by (simp add: evaluation initial_state_def artifact_visible_def session_start_def)
  have c1: "''c'' @ nat_str (0 + 1) = ''c1''" "py_strip ''yes'' \<noteq> ''''" by code_simp+
  have covered: "blocking_ids demo_env (Some questions)
      \<subseteq> answered_ids_in demo_env [questions, response ''a1'' 1 ''c1'', response ''a2'' 2 ''c2'']"
    by (simp add: blocking_ids_def answered_ids_in_def response_sel)
      (auto simp: questions_def response_def case_artifact_def answer_content_def py_strip_def py_lstrip_def
        py_rstrip_def py_isspace_def image_iff)
  have "jget (clarification_item st' 0 []) ''blocking'' = Some (JBool True)"
    using earlier_answers_forgotten [OF c1(1) [symmetric] run arts _ _ response_content [of "''a1''" 1 "''c1''"] _ _ _ latest
        response_content [of "''a2''" 2 "''c2''"], of "?q ''c1''" "[]"] c1 by (simp add: response_sel)
  then show ?thesis using run covered by blast
qed

subsection \<open>What a node leaves behind\<close>

lemma node_artifact_frame [frames]:
  assumes "add_node_artifact E sv c ty content status w = (Inr a, w')"
  shows "a_type a = ty \<and> a_case_id a = c_id c \<and> a_content_hash a = content_hash E content
    \<and> (\<exists>as n. set as \<subseteq> {a} \<and> a \<in> set (t_artifacts (w_db w) @ as)
          \<and> w' = w\<lparr>w_db := (w_db w)\<lparr>t_artifacts := t_artifacts (w_db w) @ as\<rparr>, w_fresh := n\<rparr>)"
proof (cases "\<exists>b. latest_artifact (c_id c) ty w = Some b \<and> a_content_hash b = content_hash E content")
  case True
  then have "latest_artifact (c_id c) ty w = Some a" "a_content_hash a = content_hash E content" "w' = w"
    using assms by (auto simp: add_node_artifact_def run_simps)
  then show ?thesis
    by (auto simp: latest_artifact_def artifact_visible_def dest!: greatest_by_in
        intro!: exI [of _ "[]"] exI [of _ "w_fresh w"])
next
  case False
  then show ?thesis using assms
    by (auto simp: add_node_artifact_def run_simps Let_def node_artifact_sel split: option.splits if_splits
        dest!: artifacts_add_frame intro!: exI [of _ "[a]"] exI [of _ "Suc (w_fresh w)"])
qed

lemma notify_progress_frame [frames]:
  assumes "notify_progress E c stage dedupe heading lines recipient w = (Inr u, w')"
  shows "\<exists>js m n. w' = w\<lparr>w_db := (w_db w)\<lparr>t_jobs := t_jobs (w_db w) @ js\<rparr>, w_ticks := m, w_fresh := n\<rparr>"
proof -
  from assms obtain js where "w' = (w\<lparr>w_fresh := Suc (w_fresh w), w_ticks := Suc (w_ticks w)\<rparr>)
      \<lparr>w_db := (w_db w)\<lparr>t_jobs := t_jobs (w_db w) @ js\<rparr>\<rparr>"
    by (auto simp: notify_progress_def run_simps dest!: enqueue_frame)
  then show ?thesis
    by (intro exI [of _ js] exI [of _ "Suc (w_ticks w)"] exI [of _ "Suc (w_fresh w)"]) simp
qed

lemma node_case_run: "node_case cid w = (Inr c, w') \<longleftrightarrow> get_case cid w = Some c \<and> w' = w"
  by (auto simp: node_case_def run_simps)

lemma node_artifact_new:
  assumes "add_node_artifact E sv c ty content status w = (Inr a, w')" "latest_artifact (c_id c) ty w = None"
  shows "a_content a = content \<and> a_version a = 1 \<and> a_tenant_id a = w_tenant w \<and> t_artifacts (w_db w') = t_artifacts (w_db w) @ [a]"
  using assms by (auto simp: add_node_artifact_def run_simps Let_def node_artifact_sel next_version_def
      dest!: artifacts_add_frame)

lemma committed_keeps:
  "durable I t m \<Longrightarrow> I t (w_committed w) \<Longrightarrow> I t (w_committed (snd (m w)))"
  by (simp add: durable_def keeps_def)

text \<open>The official artifact a sealing adds, in the world it is added in.\<close>

definition sealed_content ::
  "PreparationServices \<Rightarrow> RunContext \<Rightarrow> PreparationState \<Rightarrow> jdict \<Rightarrow> string \<Rightarrow> string \<Rightarrow> jdict" where
  "sealed_content sv rc st manifest mref markdown =
     manifest @ [(''manifest_ref'', JStr mref),
       (''package_ref'', JStr (export_path sv rc st @ ''/solicitation-package.md'')),
       (''package_markdown'', JStr markdown)]"

lemma finalize_tx_run:
  assumes "finalize_tx E sv rc cid st w = (Inr (manifest, mref), w')"
  shows "\<exists>c a as js. get_case cid w = Some c
    \<and> manifest = official_manifest (sv_rules sv) st c (filter (\<lambda>a. a_case_id a = cid) (artifact_visible w))
    \<and> py_strip mref \<noteq> '''' \<and> set as \<subseteq> {a} \<and> a \<in> set (t_artifacts (w_db w) @ as)
    \<and> a_type a = OFFICIAL_PACKAGE_MANIFEST \<and> a_case_id a = cid
    \<and> t_artifacts (w_db w') = t_artifacts (w_db w) @ as \<and> t_jobs (w_db w') = t_jobs (w_db w) @ js
    \<and> (\<exists>c'. lock_official c (a_id a) mref = Inr c' \<and> c' \<in> set (t_cases (w_db w')))
    \<and> w_committed w' = w_db w' \<and> w_tenant w' = w_tenant w
    \<and> (\<exists>markdown. a_content_hash a = content_hash E (sealed_content sv rc st manifest mref markdown)
        \<and> (latest_artifact cid OFFICIAL_PACKAGE_MANIFEST w = None \<longrightarrow> as = [a] \<and> a_tenant_id a = w_tenant w
            \<and> a_content a = sealed_content sv rc st manifest mref markdown))"
proof -
  from assms obtain c a u c' q b w1 vb markdown where
    c: "get_case cid w = Some c"
    and m: "manifest = official_manifest (sv_rules sv) st c (filter (\<lambda>a. a_case_id a = cid) (artifact_visible w))"
    and add: "add_node_artifact E sv c OFFICIAL_PACKAGE_MANIFEST (sealed_content sv rc st manifest mref markdown)
        AS_OFFICIAL (w\<lparr>w_calls := q, w_blobs := b\<rparr>) = (Inr a, w1)"
    and l: "lock_official c (a_id a) mref = Inr c'"
    and n: "notify_progress E c' ''official'' (take 12 (uuid_hex (rc_run_id rc))) (JText ''package_sealed'' [])
        [JText ''method_line'' [method_label_of st], JText ''documents_sealed''
           [nat_str (length (filter (\<lambda>a. a_case_id a = cid) (artifact_visible w)))], JText ''rfq_goes_out'' []] None w1 = (Inr (), u)"
    and s: "cases_save c' u = (Inr (), vb)" "w' = vb\<lparr>w_committed := w_db vb\<rparr>"
    unfolding finalize_tx_def sealed_content_def
    by (clarsimp simp: run_bind run_basic run_put_object run_more_queries node_case_run Let_def run_ports)
  let ?v = "w\<lparr>w_calls := q, w_blobs := b\<rparr>"
  have "latest_artifact cid OFFICIAL_PACKAGE_MANIFEST ?v = latest_artifact cid OFFICIAL_PACKAGE_MANIFEST w"
    by (rule artifacts_cong) simp_all
  moreover have id: "c_id c = cid" using get_case_Some [OF c] by simp
  moreover have "a_content_hash a = content_hash E (sealed_content sv rc st manifest mref markdown)"
    using node_artifact_frame [OF add] by simp
  moreover obtain as k where as: "a_type a = OFFICIAL_PACKAGE_MANIFEST" "a_case_id a = c_id c" "set as \<subseteq> {a}"
    "a \<in> set (t_artifacts (w_db w) @ as)"
    "w1 = ?v\<lparr>w_db := (w_db w)\<lparr>t_artifacts := t_artifacts (w_db w) @ as\<rparr>, w_fresh := k\<rparr>"
    using node_artifact_frame [OF add] by auto
  moreover obtain js i n where "u = w1\<lparr>w_db := (w_db w1)\<lparr>t_jobs := t_jobs (w_db w1) @ js\<rparr>, w_ticks := i, w_fresh := n\<rparr>"
    using notify_progress_frame [OF n] by blast
  moreover have op: "apply_case_op (Op_lock_official (a_id a) mref) c = Inr c'" using l by simp
  moreover have "c' \<in> set (t_cases (w_db vb))" using saved_op_in_table [OF c op] s(1) calculation
    by (auto simp: run_cases_save)
  moreover have "latest_artifact cid OFFICIAL_PACKAGE_MANIFEST w = None \<longrightarrow> as = [a] \<and> a_tenant_id a = w_tenant w
      \<and> a_content a = sealed_content sv rc st manifest mref markdown"
    using node_artifact_new [OF add] calculation by auto
  ultimately show ?thesis using c m l s
    by (intro exI [of _ c] exI [of _ a] exI [of _ as] exI [of _ js])
      (auto simp: lock_official_def run_cases_save split: if_splits)
qed

lemma finalize_node_run:
  assumes "finalize_official_node E sv rc st w = (Inr st', w')"
  obtains manifest mref v where
    "finalize_tx E sv rc (ps_case_id st) st (session_start (rc_tenant_id rc) w) = (Inr (manifest, mref), v)"
    "st' = st\<lparr>ps_official_manifest := manifest, ps_export_ref := mref\<rparr>" "w' = v\<lparr>w_db := w_committed v\<rparr>"
  using assms by (auto simp: finalize_official_node_def case_id_of_def run_simps split: if_splits)

text \<open>C4: Sealing the package. When the last step returns, the case is committed as official and points at an
  official manifest artifact of its own and at the exported copy. The manifest names both decisions of the run and every
  artifact the case had, with its version and digest. The artifact carries the digest of that manifest with the two
  export references and the rendered package appended; if the case had no official manifest before, that is its content
  (an artifact with the same digest is not written again). Nothing recorded before is lost, and the tables changed only
  in the run's tenant.\<close>

theorem sealing_effect:
  assumes "finalize_official_node E sv rc st w = (Inr st', w')"
  shows "\<exists>c c' a markdown. let manifest = ps_official_manifest st';
        content = sealed_content sv rc st manifest (ps_export_ref st') markdown
    in get_case (ps_case_id st) (session_start (rc_tenant_id rc) w) = Some c
    \<and> c' \<in> set (t_cases (w_committed w')) \<and> c_id c' = c_id c \<and> c_state c' = CS_PACKAGE_OFFICIAL
    \<and> c_version c' = c_version c + 1 \<and> c_current_official_artifact_id c' = Some (a_id a)
    \<and> c_export_ref c' = Some (ps_export_ref st') \<and> py_strip (ps_export_ref st') \<noteq> ''''
    \<and> a \<in> set (t_artifacts (w_committed w')) \<and> a_type a = OFFICIAL_PACKAGE_MANIFEST \<and> a_case_id a = c_id c
    \<and> jget manifest ''artifacts'' = Some (JArr (map manifest_entry
         (filter (\<lambda>a. a_case_id a = c_id c) (artifact_visible (session_start (rc_tenant_id rc) w)))))
    \<and> jget manifest ''cp1_decision'' = Some (JObj (ps_cp1_decision st))
    \<and> jget manifest ''cp2_decision'' = Some (JObj (ps_cp2_decision st))
    \<and> a_content_hash a = content_hash E content
    \<and> (latest_artifact (c_id c) OFFICIAL_PACKAGE_MANIFEST (session_start (rc_tenant_id rc) w) = None \<longrightarrow> a_content a = content)
    \<and> record_kept (w_committed w) (rc_tenant_id rc) (w_committed w')
    \<and> others_same (w_committed w) (rc_tenant_id rc) (w_committed w')"
proof -
  let ?s = "session_start (rc_tenant_id rc) w"
  obtain manifest mref v where run: "finalize_tx E sv rc (ps_case_id st) st ?s = (Inr (manifest, mref), v)"
    "st' = st\<lparr>ps_official_manifest := manifest, ps_export_ref := mref\<rparr>" "w' = v\<lparr>w_db := w_committed v\<rparr>"
    using finalize_node_run [OF assms] .
  have kept: "record_kept (w_committed w) (rc_tenant_id rc) (w_committed w')"
  proof -
    have "record_kept (w_committed w) (rc_tenant_id rc) (w_committed (snd (finalize_official_node E sv rc st w)))"
      by (rule committed_keeps [OF history.durable_nodes(13) [OF refl] record_kept_refl])
    then show ?thesis using assms by simp
  qed
  have same: "others_same (w_committed w) (rc_tenant_id rc) (w_committed w')"
  proof -
    have "others_same (w_committed w) (rc_tenant_id rc) (w_committed (snd (finalize_official_node E sv rc st w)))"
      by (rule committed_keeps [OF isolation.durable_nodes(13) [OF refl] others_same_refl])
    then show ?thesis using assms by simp
  qed
  obtain c a as c' markdown where fin: "get_case (ps_case_id st) ?s = Some c"
    "manifest = official_manifest (sv_rules sv) st c (filter (\<lambda>a. a_case_id a = ps_case_id st) (artifact_visible ?s))"
    "py_strip mref \<noteq> ''''" "a \<in> set (t_artifacts (w_db ?s) @ as)" "t_artifacts (w_db v) = t_artifacts (w_db ?s) @ as"
    "a_type a = OFFICIAL_PACKAGE_MANIFEST" "a_case_id a = ps_case_id st"
    "lock_official c (a_id a) mref = Inr c'" "c' \<in> set (t_cases (w_db v))" "w_committed v = w_db v"
    "a_content_hash a = content_hash E (sealed_content sv rc st manifest mref markdown)"
    "latest_artifact (ps_case_id st) OFFICIAL_PACKAGE_MANIFEST ?s = None \<longrightarrow>
       a_content a = sealed_content sv rc st manifest mref markdown"
    using finalize_tx_run [OF run(1)] by (elim exE conjE) (rule that, (assumption | blast)+)
  from fin have "c_id c = ps_case_id st" using get_case_Some by blast
  then show ?thesis using fin run(2,3) kept same unfolding Let_def
    by (intro exI [of _ c] exI [of _ c'] exI [of _ a] exI [of _ markdown])
      (auto simp: lock_official_def case_moved_def official_manifest_def split: if_splits)
qed

lemma greatest_by_ge: "x \<in> set xs \<Longrightarrow> \<exists>r. greatest_by k xs = Some r \<and> k x \<le> k r"
  by (induction xs) (auto split: option.splits)

lemma drift_each_entries:
  "\<exists>fs. drift_each E m (map (\<lambda>a. [(''type'', JStr (artifact_type_value (a_type a))), (''version'', JInt (a_version a)),
       (''content_hash'', JStr (a_content_hash a))]) as) = Inr fs
     \<and> (\<forall>a \<in> set as. \<forall>b. m (artifact_type_value (a_type a)) = Some b \<longrightarrow> a_version a < a_version b \<longrightarrow>
          (\<exists>f \<in> set fs. fi_code f = ''package_drift'' \<and> fi_severity f = SV_BLOCKER))"
proof (induction as)
  case (Cons a as)
  then obtain fs where "drift_each E m (map (\<lambda>a. [(''type'', JStr (artifact_type_value (a_type a))),
       (''version'', JInt (a_version a)), (''content_hash'', JStr (a_content_hash a))]) as) = Inr fs"
    "\<forall>a \<in> set as. \<forall>b. m (artifact_type_value (a_type a)) = Some b \<longrightarrow> a_version a < a_version b \<longrightarrow>
          (\<exists>f \<in> set fs. fi_code f = ''package_drift'' \<and> fi_severity f = SV_BLOCKER)" by blast
  then show ?case
    by (cases "m (artifact_type_value (a_type a))")
      (fastforce simp: drift_of_def Let_def res_bind_def blocker_def)+
qed simp

lemma manifest_rows: "obj_items (map manifest_entry as) = map (\<lambda>a. [(''type'', JStr (artifact_type_value (a_type a))),
     (''version'', JInt (a_version a)), (''content_hash'', JStr (a_content_hash a))]) as"
  by (induction as) (simp_all add: manifest_entry_def)

text \<open>C17: A sealed package is reported as changed after the seal. The manifest lists every version of every
  artifact, and the readiness check compares each entry with the latest version of its type; the gates
  write their verdict as a second version, so a case that went through them has an older version of an
  artifact, and the check finds a blocker although nothing changed after the sealing.\<close>

theorem sealed_package_reported_drifted:
  assumes "finalize_official_node E sv rc st w = (Inr st', w')" "keys_unique (rc_tenant_id rc) (w_committed w)"
    "arts = filter (\<lambda>a. a_case_id a = ps_case_id st) (artifact_visible (session_start (rc_tenant_id rc) w))"
    "a1 \<in> set arts" "a2 \<in> set arts" "a_type a1 = a_type a2" "a_version a1 < a_version a2"
    "\<forall>a \<in> set arts. a_type a \<noteq> OFFICIAL_PACKAGE_MANIFEST"
  shows "\<exists>fs. package_drift E (latest_by_type (filter (\<lambda>a. a_case_id a = ps_case_id st)
            (artifact_visible (session_start (rc_tenant_id rc) w')))) = Inr fs
    \<and> (\<exists>f \<in> set fs. fi_code f = ''package_drift'' \<and> fi_severity f = SV_BLOCKER)"
proof -
  let ?i = "ps_case_id st" and ?s = "session_start (rc_tenant_id rc) w" and ?s' = "session_start (rc_tenant_id rc) w'"
  obtain manifest mref v where run: "finalize_tx E sv rc ?i st ?s = (Inr (manifest, mref), v)"
    "w' = v\<lparr>w_db := w_committed v\<rparr>" using finalize_node_run [OF assms(1)] by metis
  have none: "latest_artifact ?i OFFICIAL_PACKAGE_MANIFEST ?s = None"
    using assms(3,8) by (auto simp: latest_artifact_def filter_empty_conv [THEN iffD2])
  obtain c a as markdown where fin:
    "manifest = official_manifest (sv_rules sv) st c (filter (\<lambda>a. a_case_id a = ?i) (artifact_visible ?s))"
    "w_committed v = w_db v" "t_artifacts (w_db v) = t_artifacts (w_db ?s) @ as" "as = [a]"
    "a_type a = OFFICIAL_PACKAGE_MANIFEST" "a_case_id a = ?i" "a_tenant_id a = w_tenant ?s"
    "a_content a = sealed_content sv rc st manifest mref markdown"
    using finalize_tx_run [OF run(1)] none by blast
  then have m: "manifest = official_manifest (sv_rules sv) st c arts" "w_committed v = w_db v"
    and a: "t_artifacts (w_db v) = t_artifacts (w_committed w) @ [a]" "a_type a = OFFICIAL_PACKAGE_MANIFEST"
      "a_case_id a = ?i" "a_content a = sealed_content sv rc st manifest mref markdown" "a_tenant_id a = rc_tenant_id rc"
    using assms(3) by (simp_all add: session_start_def)
  have "keys_unique (rc_tenant_id rc) (w_committed w')"
    using committed_keeps [OF keys.durable_nodes(13) [OF refl] assms(2), of E sv st] assms(1) by simp
  then have "distinct (map artifact_key (t_artifacts (w_db ?s')))" by (simp add: keys_unique_def)
  note latest = latest_by_type_latest [OF this, of ?i]
  let ?m = "latest_by_type (filter (\<lambda>a. a_case_id a = ?i) (artifact_visible ?s'))"
  have arts: "filter (\<lambda>a. a_case_id a = ?i) (artifact_visible ?s') = arts @ [a]"
    using a m(2) by (simp add: artifact_visible_def assms(3) run(2))
  have at_type: "latest_artifact ?i ty ?s' = greatest_by a_version (filter (\<lambda>a. a_type a = ty) (arts @ [a]))" for ty
    unfolding latest_artifact_def arts [symmetric] by (simp add: conj_commute)
  have "?m (artifact_type_value OFFICIAL_PACKAGE_MANIFEST) = Some a"
    using assms(8) a(2) by (subst latest) (simp add: at_type filter_empty_conv [THEN iffD2])
  then have content: "latest_content ?m OFFICIAL_PACKAGE_MANIFEST = Some (sealed_content sv rc st manifest mref markdown)"
    by (simp add: latest_content_def a(4))
  obtain b where "?m (artifact_type_value (a_type a1)) = Some b" "a_version a2 \<le> a_version b"
    using greatest_by_ge [of a2 "filter (\<lambda>a. a_type a = a_type a1) (arts @ [a])" a_version] assms(5,6)
    by (auto simp: latest at_type)
  moreover have "items_of (jget (sealed_content sv rc st manifest mref markdown) ''artifacts'')
      = Inr (map (\<lambda>a. [(''type'', JStr (artifact_type_value (a_type a))), (''version'', JInt (a_version a)),
          (''content_hash'', JStr (a_content_hash a))]) arts)"
    by (simp add: sealed_content_def m(1) official_manifest_def manifest_rows)
  moreover obtain fs where "drift_each E ?m (map (\<lambda>a. [(''type'', JStr (artifact_type_value (a_type a))),
       (''version'', JInt (a_version a)), (''content_hash'', JStr (a_content_hash a))]) arts) = Inr fs"
    "\<forall>a \<in> set arts. \<forall>b. ?m (artifact_type_value (a_type a)) = Some b \<longrightarrow> a_version a < a_version b \<longrightarrow>
          (\<exists>f \<in> set fs. fi_code f = ''package_drift'' \<and> fi_severity f = SV_BLOCKER)"
    using drift_each_entries by blast
  moreover have "a_version a1 < a_version b" using \<open>a_version a2 \<le> a_version b\<close> assms(7) by simp
  ultimately show ?thesis
    using assms(4) content by (auto simp: package_drift_def res_bind_def)
qed

theorem sealing_effect_witness:
  "\<exists>st' w'. finalize_official_node demo_env demo_services demo_run (initial_state ''c1'') demo_start = (Inr st', w')
     \<and> (\<exists>c' \<in> set (t_cases (w_committed w')). c_state c' = CS_PACKAGE_OFFICIAL)
     \<and> (\<exists>a \<in> set (t_artifacts (w_committed w')). jget (a_content a) ''cp1_decision'' = Some (JObj []))"
proof -
  let ?run = "finalize_official_node demo_env demo_services demo_run (initial_state ''c1'') demo_start"
  obtain s where s: "?run = (Inr s, snd ?run)"
    using demo_finalize [of "initial_state ''c1''"] by (auto simp: initial_state_def prod_eq_iff)
  from sealing_effect [OF s, unfolded Let_def] obtain c :: PreparationCase and c' a markdown where
    c': "c' \<in> set (t_cases (w_committed (snd ?run)))" "c_state c' = CS_PACKAGE_OFFICIAL"
    and a: "a \<in> set (t_artifacts (w_committed (snd ?run)))"
    and cp1: "jget (ps_official_manifest s) ''cp1_decision'' = Some (JObj (ps_cp1_decision (initial_state ''c1'')))"
    and content: "latest_artifact (c_id c) OFFICIAL_PACKAGE_MANIFEST (session_start (rc_tenant_id demo_run) demo_start) = None \<longrightarrow>
      a_content a = sealed_content demo_services demo_run (initial_state ''c1'') (ps_official_manifest s) (ps_export_ref s) markdown"
    by (elim exE conjE) (rule that, assumption+)
  have "latest_artifact (c_id c) OFFICIAL_PACKAGE_MANIFEST (session_start (rc_tenant_id demo_run) demo_start) = None"
    by (simp add: evaluation case_db_def)
  then have "jget (a_content a) ''cp1_decision'' = Some (JObj [])"
    using content cp1 by (simp add: sealed_content_def jget_def map_add_def initial_state_def)
  then show ?thesis using s c' a by blast
qed

definition package_version :: "uuid \<Rightarrow> int \<Rightarrow> PreparationArtifact" where
  "package_version i ver = case_artifact demo_env i (demo_case CS_DRAFT) ''u1'' SOLICITATION_PACKAGE ver AS_DRAFT []"

definition packaged_db :: db where
  "packaged_db = (case_db CS_DRAFT)\<lparr>t_artifacts := [package_version ''a1'' 1, package_version ''a2'' 2]\<rparr>"

lemma packaged_sel [evaluation]:
  "a_tenant_id (package_version i v) = ''t1''" "a_case_id (package_version i v) = ''c1''"
  "a_type (package_version i v) = SOLICITATION_PACKAGE" "a_version (package_version i v) = v"
  "t_artifacts packaged_db = [package_version ''a1'' 1, package_version ''a2'' 2]"
  "t_cases packaged_db = [demo_case CS_DRAFT]" "t_jobs packaged_db = []"
  "t_memberships packaged_db = t_memberships staff_db" "a_id (package_version i v) = i"
  by (simp_all add: evaluation package_version_def case_artifact_def demo_row_sel packaged_db_def case_db_def)

theorem sealed_package_reported_drifted_witness:
  "\<exists>st' w' fs. finalize_official_node demo_env demo_services demo_run (initial_state ''c1'') (start_world packaged_db)
       = (Inr st', w')
     \<and> package_drift demo_env (latest_by_type (filter (\<lambda>a. a_case_id a = ''c1'') (artifact_visible (session_start ''t1'' w')))) = Inr fs
     \<and> fs \<noteq> []"
proof -
  let ?st = "initial_state ''c1''" and ?w = "start_world packaged_db"
  let ?run = "finalize_official_node demo_env demo_services demo_run ?st ?w"
  let ?arts = "filter (\<lambda>a. a_case_id a = ps_case_id ?st) (artifact_visible (session_start (rc_tenant_id demo_run) ?w))"
  have "ran_ok ?run"
    by (simp add: node_evaluation packaged_sel finalize_official_node_def finalize_tx_def render_package_markdown_def initial_state_def
        section_of_def last_of_type_def lock_official_def export_path_def artifact_key_def cong: act_bind_weak)
  from ran_ok_elim [OF this] obtain s v where "?run = (Inr s, v)" by blast
  then have s: "?run = (Inr s, snd ?run)" by simp
  have arts: "?arts = [package_version ''a1'' 1, package_version ''a2'' 2]"
    by (simp add: evaluation artifact_visible_def initial_state_def session_start_def)
  have k: "keys_unique (rc_tenant_id demo_run) (w_committed ?w)"
    by (simp add: keys_unique_def evaluation artifact_key_def packaged_db_def case_db_def staff_db_def empty_db_def)
  have i: "ps_case_id ?st = ''c1''" "rc_tenant_id demo_run = ''t1''" by (simp_all add: initial_state_def evaluation)
  have "\<exists>fs. package_drift demo_env (latest_by_type (filter (\<lambda>a. a_case_id a = ''c1'')
      (artifact_visible (session_start ''t1'' (snd ?run))))) = Inr fs \<and> (\<exists>f \<in> set fs. fi_code f = ''package_drift'' \<and> fi_severity f = SV_BLOCKER)"
    using sealed_package_reported_drifted [OF s k refl, of "package_version ''a1'' 1" "package_version ''a2'' 2"]
    unfolding arts unfolding i by (simp add: packaged_sel)
  then obtain fs where "package_drift demo_env (latest_by_type (filter (\<lambda>a. a_case_id a = ''c1'')
      (artifact_visible (session_start ''t1'' (snd ?run))))) = Inr fs" "fs \<noteq> []" by force
  then show ?thesis using s by blast
qed

subsection \<open>Decisions applied\<close>

definition apply_node ::
  "ReworkCheckpoint \<Rightarrow> env \<Rightarrow> PreparationServices \<Rightarrow> RunContext \<Rightarrow> PreparationState \<Rightarrow> PreparationState handler" where
  "apply_node cp = (if cp = RC_CP1 then apply_cp1_node else apply_cp2_node)"

definition decision_of :: "ReworkCheckpoint \<Rightarrow> PreparationState \<Rightarrow> jdict" where
  "decision_of cp st = (if cp = RC_CP1 then ps_cp1_decision st else ps_cp2_decision st)"

definition state_after :: "ReworkCheckpoint \<Rightarrow> bool \<Rightarrow> CaseState" where
  "state_after cp ok = (if cp = RC_CP1 then if ok then CS_CP1_APPROVED else CS_CP1_REJECTED
                        else if ok then CS_CP2_APPROVED else CS_CP2_REJECTED)"

definition turned_down ::
  "env \<Rightarrow> PreparationServices \<Rightarrow> RunContext \<Rightarrow> PreparationCase \<Rightarrow> ReworkCheckpoint \<Rightarrow> jdict \<Rightarrow> db \<Rightarrow> db \<Rightarrow> bool" where
  "turned_down E sv rc c cp d before after =
     (if decision_approved d then t_rework_events after = t_rework_events before
      else rework_counted (sv_rework_rules sv) c (decider E d rc) cp before after)"

lemma record_turned_down_run:
  assumes "record_turned_down E sv rc c cp d comment w = (Inr u, w')"
  shows "turned_down E sv rc c cp d (w_db w) (w_db w') \<and> t_cases (w_db w') = t_cases (w_db w)
    \<and> w_tenant w' = w_tenant w"
  using assms
  by (auto simp: record_turned_down_def turned_down_def run_simps record_rework_event_def Let_def mk_ReworkEvent_def
      rework_counted_def normalise_reason_code_def rework_insert_row_def split: if_splits option.splits dest!: frames)

lemma atomic_apply_node: "atomic (apply_node cp E sv rc st)"
proof -
  have ports: "uncommitted (node_case i)" "uncommitted (record_turned_down E sv rc c k d t)"
    "uncommitted (notify_progress E c a b h ls r)" for i c k d t a b h ls r
    unfolding node_case_def record_turned_down_def record_rework_event_def notify_progress_def
    by (intro atomic_rules)+
  show ?thesis
    unfolding apply_node_def apply_cp1_node_def apply_cp2_node_def apply_cp1_tx_def apply_cp2_tx_def case_id_of_def
    by (auto intro!: atomic_in_uow_ret atomic_rules ports)
qed

text \<open>C7: A decision is applied in one transaction. Whoever resumes the run, the decision the state carries
  puts the case in the approved or the turned-down state, with one version more. Where the rework rules are wired and
  enabled, a case turned down is counted against its creator exactly once, under the name of who decided; without them,
  and for an approved case, nothing is counted. If anything fails nothing of this is committed.\<close>

theorem decision_applied_atomically:
  assumes "apply_node cp E sv rc st w = (r, w')" "cp \<in> {RC_CP1, RC_CP2}"
  shows "case r of Inl e \<Rightarrow> w_committed w' = w_committed w
    | Inr st' \<Rightarrow> st' = st \<and> (\<exists>c c'. get_case (ps_case_id st) (session_start (rc_tenant_id rc) w) = Some c
        \<and> c' \<in> set (t_cases (w_committed w')) \<and> c_id c' = c_id c \<and> c_version c' = c_version c + 1
        \<and> c_state c' = state_after cp (decision_approved (decision_of cp st))
        \<and> turned_down E sv rc c cp (decision_of cp st) (w_committed w) (w_committed w'))"
proof (cases r)
  case (Inl e)
  then show ?thesis using assms atomic_apply_node by (auto simp: atomic_def)
next
  case (Inr st')
  let ?s = "session_start (rc_tenant_id rc) w" and ?d = "decision_of cp st"
  obtain c k s a m ls q u v where run: "st' = st" "get_case (ps_case_id st) ?s = Some c"
    "record_turned_down E sv rc c cp ?d k ?s = (Inr (), q)"
    "notify_progress E (advance c (state_after cp (decision_approved ?d)) s None) a (take 12 (uuid_hex (rc_run_id rc)))
       m ls None q = (Inr (), u)"
    "cases_save (advance c (state_after cp (decision_approved ?d)) s None) u = (Inr (), v)" "w_committed w' = w_db v"
    using assms Inr unfolding state_after_def decision_of_def apply_node_def
    by (auto simp: apply_cp1_node_def apply_cp2_node_def apply_cp1_tx_def apply_cp2_tx_def case_id_of_def
        run_bind run_basic run_in_uow node_case_run Let_def run_ports split: if_splits)
  note rec = record_turned_down_run [OF run(3)]
  obtain js i n where u: "u = q\<lparr>w_db := (w_db q)\<lparr>t_jobs := t_jobs (w_db q) @ js\<rparr>, w_ticks := i, w_fresh := n\<rparr>"
    using notify_progress_frame [OF run(4)] by blast
  let ?c = "advance c (state_after cp (decision_approved ?d)) s None"
  have op: "apply_case_op (Op_advance (state_after cp (decision_approved ?d)) s None) c = Inr ?c" by simp
  have saved: "?c \<in> set (t_cases (w_db v))" "t_rework_events (w_db v) = t_rework_events (w_db q)"
    using saved_op_in_table [OF run(2) op] rec u run(5) by (auto simp: run_cases_save)
  then have "turned_down E sv rc c cp ?d (w_committed w) (w_committed w')"
    using rec run(6) by (auto simp: turned_down_def rework_counted_def split: if_splits)
  then show ?thesis using run saved(1)
    unfolding Inr sum.case by (intro conjI exI [of _ c] exI [of _ ?c]) (simp_all add: advance_def case_moved_def)
qed

definition counting_services :: PreparationServices where
  "counting_services = demo_services\<lparr>sv_rework_rules := Some demo_rules\<rparr>"

definition turned_down_state :: PreparationState where
  "turned_down_state = (initial_state ''c1'')\<lparr>ps_cp1_decision :=
     [(''approved'', JBool False), (''reason_code'', JStr ''WRONG''), (''comment'', JStr ''no'')]\<rparr>"

lemma counting_sel:
  "sv_rules counting_services = easy_rules" "sv_autonomy_profile counting_services = ''governed_production''"
  "sv_rework_rules counting_services = Some demo_rules" "sv_prompt_bundle_version counting_services = ''1.1.0''"
  "ps_case_id turned_down_state = ''c1''" "jget (ps_cp1_decision turned_down_state) ''approved'' = Some (JBool False)"
  "jget (ps_cp1_decision turned_down_state) ''reason_code'' = Some (JStr ''WRONG'')"
  "jget (ps_cp1_decision turned_down_state) ''comment'' = Some (JStr ''no'')"
  "jget (ps_cp1_decision turned_down_state) ''mode'' = None"
  "jget (ps_cp1_decision turned_down_state) ''decided_by'' = None"
  by (simp_all add: counting_services_def demo_services_def turned_down_state_def initial_state_def jget_def)

theorem decision_applied_atomically_witness:
  "\<exists>w' e. apply_node RC_CP1 demo_env counting_services demo_run turned_down_state demo_start = (Inr turned_down_state, w')
     \<and> (\<exists>c' \<in> set (t_cases (w_committed w')). c_state c' = CS_CP1_REJECTED)
     \<and> t_rework_events (w_committed w') = [e] \<and> re_creator_user_id e = ''u1''"
proof -
  let ?run = "apply_node RC_CP1 demo_env counting_services demo_run turned_down_state demo_start"
  have "ran_ok ?run"
    by (simp add: node_evaluation apply_node_def apply_cp1_node_def apply_cp1_tx_def counting_sel record_turned_down_def
        record_rework_event_def decider_def decision_approved_def str_or_empty_def rules_is_enabled_def demo_rules_def normalise_reason_code_def is_known_def
        mk_ReworkEvent_def jget_or_def cong: act_bind_weak)
  from ran_ok_elim [OF this] obtain s w' where run: "?run = (Inr s, w')" by blast
  have no: "\<not> decision_approved (decision_of RC_CP1 turned_down_state)"
    by (simp add: decision_of_def decision_approved_def counting_sel)
  have on: "rules_is_enabled demo_rules" by (simp add: rules_is_enabled_def demo_rules_def)
  have none: "t_rework_events (case_db CS_DRAFT) = []" by (simp add: evaluation)
  show ?thesis using decision_applied_atomically [OF run] run no on none
    by (auto simp: state_after_def turned_down_def rework_counted_def counting_sel evaluation get_case_def session_start_def demo_case_def)
qed

subsection \<open>An amendment empties the requirements\<close>

lemma amend_snapshot:
  assumes "amend_tx E i cmd x w = (Inr changes, w')"
  shows "\<exists>a. latest_artifact i DEMAND_SNAPSHOT w' = Some a
     \<and> jget (a_content a) ''requirements'' = None \<and> jget (a_content a) ''unknowns'' = None
     \<and> w_committed w' = w_db w' \<and> w_tenant w' = w_tenant w"
proof -
  from assms obtain c1 su v t a q c2 where
    c: "get_case i w = Some c1" "amend_suppliers E (snd (apply_amendment c1 cmd)) cmd x w = (Inr su, v)"
    and add: "add_application_artifact E (snd (apply_amendment c1 cmd)) (x_principal_id x) DEMAND_SNAPSHOT
         (amendment_content (snd (apply_amendment c1 cmd)) cmd changes x t) AS_DRAFT
         (v\<lparr>w_ticks := Suc (w_ticks v)\<rparr>) = (Inr a, q)"
    and save: "save_and_commit c2 q = (Inr (), w')"
    unfolding amend_tx_def
    by (clarsimp simp: run_simps Let_def case_prod_beta)
  have i: "c_id (snd (apply_amendment c1 cmd)) = i" "c_tenant_id (snd (apply_amendment c1 cmd)) = w_tenant w"
    using get_case_Some [OF c(1)] by (cases "apply_amendment c1 cmd"; auto dest!: apply_amendment_case)+
  have t: "w_tenant v = w_tenant w" using amend_suppliers_frame [OF c(2)] by auto
  note frame = add_application_artifact_frame [OF add]
  have "latest_artifact i DEMAND_SNAPSHOT q = Some a"
    using frame i t by (auto simp: latest_artifact_def artifact_visible_def greatest_by_snoc next_version_def case_artifact_def
        split: option.split)
  moreover have "t_artifacts (w_db w') = t_artifacts (w_db q)" "w_tenant w' = w_tenant w" "w_committed w' = w_db w'"
    using save_and_commit_frame [OF save] frame t by (auto simp: Let_def)
  ultimately show ?thesis
    using frame t latest_artifact_cong(1) [of w' q i DEMAND_SNAPSHOT]
    by (auto simp: case_artifact_def amendment_content_def)
qed

text \<open>C18: An amendment loses what the request asked for. After an amendment, the run that prepares the case again
  finds the amendment's record as the latest demand snapshot; it carries no requirements, so the case goes on
  with none, nothing is unknown, and no question stays blocking.\<close>

theorem amendment_empties_requirements:
  assumes "in_uow E (x_tenant_id x) (amend_tx E i cmd x) w = (Inr changes, w1)" "rc_tenant_id rc = x_tenant_id x"
    "ps_case_id st = i" "extract_requirements_node E sv rc st w1 = (Inr st', w2)"
  shows "ps_requirements st' = [] \<and> ps_unknowns st' = []
    \<and> blocking_count (clarification_items st' 0 (ps_unknowns st')) = 0"
proof -
  obtain v where v: "amend_tx E i cmd x (session_start (x_tenant_id x) w) = (Inr changes, v)" "w1 = v\<lparr>w_db := w_committed v\<rparr>"
    using assms(1) by (auto simp: run_in_uow)
  from amend_snapshot [OF v(1)] obtain a where a: "latest_artifact i DEMAND_SNAPSHOT v = Some a"
    "jget (a_content a) ''requirements'' = None" "jget (a_content a) ''unknowns'' = None"
    "w_committed v = w_db v" "w_tenant v = x_tenant_id x" by (auto simp: session_start_def)
  have "latest_artifact i DEMAND_SNAPSHOT (session_start (x_tenant_id x) w1) = Some a"
    using a v(2) by (subst latest_artifact_cong [where w = v]) (simp_all add: session_start_def)
  then show ?thesis using assms(2-4) a
    by (auto simp: extract_requirements_node_def case_id_of_def run_simps blocking_count_def split: if_splits)
qed

theorem amendment_empties_requirements_witness:
  "\<exists>changes w1 st' w2. in_uow demo_env (x_tenant_id the_requester) (amend_tx demo_env ''c1'' demo_amendment the_requester)
         (start_world (case_db CS_DRAFT)) = (Inr changes, w1)
     \<and> extract_requirements_node demo_env demo_services demo_run (initial_state ''c1'') w1 = (Inr st', w2)
     \<and> ps_requirements st' = []"
proof -
  let ?am = "in_uow demo_env (x_tenant_id the_requester) (amend_tx demo_env ''c1'' demo_amendment the_requester)
         (start_world (case_db CS_DRAFT))"
  have "ran_ok ?am" by (simp add: evaluation amend_tx_def cong: act_bind_weak)
  from ran_ok_elim [OF this] obtain changes w1 where am: "?am = (Inr changes, w1)" by blast
  let ?run = "extract_requirements_node demo_env demo_services demo_run (initial_state ''c1'') w1"
  obtain v where v: "amend_tx demo_env ''c1'' demo_amendment the_requester
      (session_start (x_tenant_id the_requester) demo_start) = (Inr changes, v)" "w1 = v\<lparr>w_db := w_committed v\<rparr>"
    using am by (auto simp: run_in_uow)
  from amend_snapshot [OF v(1)] obtain a where "latest_artifact ''c1'' DEMAND_SNAPSHOT v = Some a" "w_committed v = w_db v"
    "w_tenant v = ''t1''" by (auto simp: session_start_def evaluation)
  then have "latest_artifact ''c1'' DEMAND_SNAPSHOT (session_start ''t1'' w1) = Some a"
    using v(2) by (subst latest_artifact_cong [where w = v]) (simp_all add: session_start_def)
  then have "\<exists>st' w2. ?run = (Inr st', w2)"
    by (auto simp: extract_requirements_node_def case_id_of_def run_simps initial_state_def evaluation)
  then obtain st' w2 where run: "?run = (Inr st', w2)" by blast
  have "rc_tenant_id demo_run = x_tenant_id the_requester" "ps_case_id (initial_state ''c1'') = ''c1''"
    by (simp_all add: evaluation initial_state_def)
  from amendment_empties_requirements [OF am this run] am run show ?thesis by blast
qed

subsection \<open>A whole run\<close>

text \<open>C3: A run of the workflow keeps to its tenant and to the record. Started or resumed, in any world and
  state, whatever the connectors answer and wherever it fails, it commits no change to a row of another
  tenant, and loses or rewrites nothing of the append-only record.\<close>

theorem workflow_run_safe:
  "others_same (w_committed w) (rc_tenant_id rc) (w_committed (snd (prep_graph E sv saved input rc run w)))
   \<and> record_kept (w_committed w) (rc_tenant_id rc) (w_committed (snd (prep_graph E sv saved input rc run w)))"
  using committed_keeps [OF isolation.durable_prep_graph [OF refl] others_same_refl, where w = w]
    committed_keeps [OF history.durable_prep_graph [OF refl] record_kept_refl, where w = w]
  by blast

subsection \<open>Starting a run\<close>

text \<open>C13: A started run of the preparation workflow is not lost. When starting it returns, the run's row is committed
  either completed with a result, or waiting for an approval, and then a pending checkpoint that names the run and its
  requester is committed with it, so there is something to decide. When it raises, either no run was recorded, or its
  row is there: still marked as running (the workflow failed, or its outcome could not be stored), or settled as above.\<close>

theorem preparation_run_settles:
  assumes "start_workflow E ports [((worker, version), prep_graph E sv saved)] rc input w = (r, w')"
  shows "case r of
      Inr run \<Rightarrow> run = rc_run_id rc \<and> run_settled rc run (w_committed w')
    | Inl e \<Rightarrow> t_runs (w_committed w') = t_runs (w_committed w) \<or> run_open rc (w_committed w')
        \<or> run_settled rc (rc_run_id rc) (w_committed w')"
proof (rule start_workflow_settles [OF assms])
  fix g inp c u v
  assume "g \<in> snd ` set [((worker, version), prep_graph E sv saved)]"
  then have "g = prep_graph E sv saved" by simp
  then show "t_runs (w_committed (snd (g inp c u v))) = t_runs (w_committed v)"
    using committed_keeps [OF run_table.durable_prep_graph [OF refl], where w = v]
    unfolding runs_are_def by blast
qed

lemma graph_without_case: "\<exists>e. prep_graph E sv saved (Start_graph []) rc run = (\<lambda>w. (Inl e, w))"
  by (rule exI, rule ext) (simp add: prep_graph_def run_from.simps [of E sv rc None ND_load_case] load_case_node_def
    case_id_of_def initial_state_def str_or_empty_def jget_def act_bind_def act_raise_def)

theorem preparation_run_settles_witness:
  "\<exists>e w'. start_workflow demo_env demo_ports [((''prep'', ''1.0.0''), prep_graph demo_env demo_services (\<lambda>_. None))]
       demo_run [] (start_world empty_db) = (Inl e, w')
     \<and> (run_open demo_run (w_committed w') \<or> run_settled demo_run ''r1'' (w_committed w'))"
proof -
  let ?run = "start_workflow demo_env demo_ports [((''prep'', ''1.0.0''), prep_graph demo_env demo_services (\<lambda>_. None))]
       demo_run [] (start_world empty_db)"
  have none: "t_runs empty_db = []" "t_audit empty_db = []" by (simp_all add: empty_db_def)
  obtain err where "prep_graph demo_env demo_services (\<lambda>_. None) (Start_graph []) demo_run ''r1'' = (\<lambda>w. (Inl err, w))"
    using graph_without_case by blast
  then have "fst ?run = Inl err \<and> t_runs (w_committed (snd ?run)) \<noteq> []"
    by (simp add: evaluation none start_workflow_def registry_resolve_def demo_ports_def demo_worker_def
        run_create_def run_row_def runs_insert_def audit_run_def cong: act_bind_weak)
  then have run: "?run = (Inl err, snd ?run)" and some: "t_runs (w_committed (snd ?run)) \<noteq> []"
    by (simp_all add: prod_eq_iff)
  from preparation_run_settles [OF run] run some none show ?thesis
    by (intro exI [of _ err] exI [of _ "snd ?run"]) (auto simp: evaluation)
qed

end
