(* ===== verification/DW_Scanners.thy ===== *)
theory DW_Scanners
  imports DW_Graph_Props
begin

text \<open>
  The three loops that run beside the requests: closing the bid register when its moment arrives
  (\<open>application/preparation/bid_closing.py\<close>), recording bids that come in by mail (\<open>email_ingest.py\<close>), and
  reading the law again under packages that wait (\<open>law_watch.py\<close>). A scanner is an object: its
  memory (\<open>_seen\<close>, \<open>_cp4_requested\<close>, \<open>_announced\<close>) lives as long as the process and survives a poll
  that raises, so a poll is a computation on the memory and the world.
\<close>

section \<open>Computations on a scanner\<close>

type_synonym ('m, 'a) scan = "('m \<times> world, 'a) act"

definition in_world :: "'a handler \<Rightarrow> ('m, 'a) scan" where
  "in_world m s = (case m (snd s) of (r, w') \<Rightarrow> (r, (fst s, w')))"

definition recall :: "('m, 'm) scan" where
  "recall = act_get fst"

definition remember :: "('m \<Rightarrow> 'm) \<Rightarrow> ('m, unit) scan" where
  "remember h = act_modify (\<lambda>(mem, w). (h mem, w))"

text \<open>\<open>try: m except DWError\<close>: other exceptions pass.\<close>

definition attempt :: "('w, 'a) act \<Rightarrow> ('w, dw_error + 'a) act" where
  "attempt m w =
     (case m w of
        (Inl e, w') \<Rightarrow> if is_dw_error (err_class e) then (Inr (Inl e), w') else (Inl e, w')
      | (Inr x, w') \<Rightarrow> (Inr (Inr x), w'))"

text \<open>\<open>try: m except Exception: pass\<close>, with the value when there is one.\<close>

definition attempt_any :: "('w, 'a) act \<Rightarrow> ('w, 'a option) act" where
  "attempt_any m w = (case m w of (Inl e, w') \<Rightarrow> (Inr None, w') | (Inr x, w') \<Rightarrow> (Inr (Some x), w'))"

text \<open>A loop that threads a report.\<close>

fun act_fold :: "'a list \<Rightarrow> ('a \<Rightarrow> 'r \<Rightarrow> ('w, 'r) act) \<Rightarrow> 'r \<Rightarrow> ('w, 'r) act" where
  "act_fold [] f r = act_ret r"
| "act_fold (x # xs) f r = act_bind (f x r) (act_fold xs f)"

section \<open>Closing the register\<close>

record ClosingReport =
  cl_closed :: "json list"
  cl_skipped :: "json list"

definition closed_line :: "ProcurementRules \<Rightarrow> PreparationCase \<Rightarrow> nat \<Rightarrow> json result" where
  "closed_line rules c bids =
     (case select_method rules (c_estimated_value_minor c) of
        Inl e \<Rightarrow> Inl e
      | Inr m \<Rightarrow> Inr (if m_min_suppliers m \<le> int bids
            then JText ''closed'' [c_title c, nat_str bids]
            else JText ''closed_short'' [c_title c, nat_str bids, int_str (m_min_suppliers m)]))"

definition close_case ::
  "env \<Rightarrow> ProcurementRules \<Rightarrow> AccessContext \<Rightarrow> PreparationCase \<Rightarrow> ClosingReport \<Rightarrow> (uuid set, ClosingReport) scan"
where
  "close_case E rules x c report =
     act_bind recall (\<lambda>seen.
       if c_id c \<in> seen then act_ret report
       else act_bind (attempt (in_world (request_cp4 E rules (c_id c) x))) (\<lambda>r.
         case r of
           Inl e \<Rightarrow>
             act_bind (remember (insert (c_id c))) (\<lambda>_.
               act_ret (report\<lparr>cl_skipped := cl_skipped report @ [JText ''skipped'' [c_title c, err_msg e]]\<rparr>))
         | Inr bids \<Rightarrow>
             act_bind (act_lift (closed_line rules c bids)) (\<lambda>line.
             act_bind (remember (insert (c_id c))) (\<lambda>_.
               act_ret (report\<lparr>cl_closed := cl_closed report @ [line]\<rparr>)))))"

definition poll_closing :: "env \<Rightarrow> ProcurementRules \<Rightarrow> AccessContext \<Rightarrow> (uuid set, ClosingReport) scan" where
  "poll_closing E rules x =
     act_bind (in_world (clock_now E)) (\<lambda>now.
     act_bind (in_world (in_uow E (x_tenant_id x) (cases_list_due_for_closing now))) (\<lambda>due.
       act_fold due (close_case E rules x) \<lparr>cl_closed = [], cl_skipped = []\<rparr>))"

section \<open>Bids by mail\<close>

record InboundSubmissionEmail =
  ib_message_id :: string
  ib_subject :: string
  ib_sender :: string
  ib_body_text :: string
  ib_attachment_name :: "string option"
  ib_attachment_bytes :: "bytes option"
  ib_attachment_content_type :: string

text \<open>\<open>_CASE_TAG.search\<close>: the first \<open>[DW01:\<close> that thirty-six digits or dashes and a bracket follow.\<close>

definition tag_char :: "char \<Rightarrow> bool" where
  "tag_char c = (is_hex_digit c \<or> c = CHR ''-'')"

definition tag_here :: "string \<Rightarrow> string option" where
  "tag_here s =
     (let body = drop 6 s; tag = take 36 body
      in if take 6 s = ''[DW01:'' \<and> length tag = 36 \<and> list_all tag_char tag \<and> take 1 (drop 36 body) = '']''
         then Some tag else None)"

fun case_tag :: "string \<Rightarrow> string option" where
  "case_tag [] = None"
| "case_tag (c # cs) = (case tag_here (c # cs) of Some t \<Rightarrow> Some t | None \<Rightarrow> case_tag cs)"

definition lower_char :: "char \<Rightarrow> char" where
  "lower_char c = (let n = (of_char c :: int)
     in if 65 \<le> n \<and> n \<le> 90 \<or> 192 \<le> n \<and> n \<le> 222 \<and> n \<noteq> 215 then char_of (n + 32) else c)"

definition py_lower :: "string \<Rightarrow> string" where
  "py_lower s = map lower_char s"

definition shortlist_names :: "env \<Rightarrow> PreparationArtifact list \<Rightarrow> string list" where
  "shortlist_names E artifacts =
     concat (map (\<lambda>a. map (\<lambda>i. py_str E (jget_or i ''name'' (JStr ''''))) (dicts (jget (a_content a) ''shortlist'')))
       (filter (\<lambda>a. a_type a = SUPPLIER_SHORTLIST) artifacts))"

definition before_at :: "string \<Rightarrow> string" where
  "before_at s = takeWhile (\<lambda>c. c \<noteq> CHR ''@'') s"

definition supplier_of_mail ::
  "env \<Rightarrow> uuid \<Rightarrow> InboundSubmissionEmail \<Rightarrow> AccessContext \<Rightarrow> string handler" where
  "supplier_of_mail E cid mail x =
     (let haystack = py_lower (ib_subject mail @ [CHR 0x0A] @ ib_body_text mail);
          part = py_strip (before_at (ib_sender mail));
          fallback = env_text E (JText ''by_mail'' [part])
      in act_bind (attempt_any (get_preparation_case E cid x)) (\<lambda>view.
         act_ret (case view of
             None \<Rightarrow> fallback
           | Some v \<Rightarrow>
               (case find (\<lambda>name. name \<noteq> '''' \<and> sublist (py_lower name) haystack)
                       (shortlist_names E (cv_artifacts v)) of
                  Some name \<Rightarrow> name
                | None \<Rightarrow> fallback))))"

record IngestReport =
  ir_recorded :: nat
  ir_cp4_requested :: bool
  ir_skipped :: "json list"

definition skip_mail :: "InboundSubmissionEmail \<Rightarrow> json \<Rightarrow> IngestReport \<Rightarrow> IngestReport" where
  "skip_mail mail why report = report\<lparr>ir_skipped := ir_skipped report @ [JArr [JStr (ib_message_id mail), why]]\<rparr>"

definition bid_command ::
  "InboundSubmissionEmail \<Rightarrow> string \<Rightarrow> bytes \<Rightarrow> string \<Rightarrow> datetime \<Rightarrow> RecordSubmissionCommand" where
  "bid_command mail name data supplier received_at =
     \<lparr>rs_filename = name, rs_content_type = ib_attachment_content_type mail, rs_content = data,
      rs_supplier_name = supplier, rs_received_at = isoformat received_at, rs_receipt_status = ''on_time'',
      rs_external_reference = ''email:'' @ ib_message_id mail\<rparr>"

definition receipt_mail :: "InboundSubmissionEmail \<Rightarrow> string \<Rightarrow> string \<Rightarrow> datetime \<Rightarrow> email" where
  "receipt_mail mail name supplier received_at =
     \<lparr>em_subject = JStr (''Re: '' @ ib_subject mail),
      em_body = JText ''receipt'' [supplier, isoformat received_at, name], em_to = ib_sender mail\<rparr>"

text \<open>Asking for CP4 once a case holds enough bids, once per process.\<close>

definition ask_for_cp4 ::
  "env \<Rightarrow> ProcurementRules \<Rightarrow> nat \<Rightarrow> uuid \<Rightarrow> AccessContext \<Rightarrow> IngestReport \<Rightarrow> (uuid set, IngestReport) scan" where
  "ask_for_cp4 E rules minimum cid x report =
     act_bind recall (\<lambda>asked.
       if cid \<in> asked then act_ret report
       else act_bind (attempt (in_world (request_cp4 E rules cid x))) (\<lambda>r.
         let bids = (case r of Inl e \<Rightarrow> 0 | Inr n \<Rightarrow> n) in
         if minimum \<le> bids
         then act_bind (remember (insert cid)) (\<lambda>_. act_ret (report\<lparr>ir_cp4_requested := True\<rparr>))
         else act_ret report))"

definition ingest_mail ::
  "env \<Rightarrow> ProcurementRules \<Rightarrow> nat \<Rightarrow> bool \<Rightarrow> AccessContext \<Rightarrow> InboundSubmissionEmail \<Rightarrow> IngestReport
    \<Rightarrow> (uuid set, IngestReport) scan" where
  "ingest_mail E rules minimum acks x mail report =
     (case case_tag (ib_subject mail) of
        None \<Rightarrow> act_ret (skip_mail mail (JText ''no_tag'' []) report)
      | Some tag \<Rightarrow>
          (case (ib_attachment_name mail, ib_attachment_bytes mail) of
             (Some name, Some data) \<Rightarrow>
               if name = '''' \<or> data = [] then act_ret (skip_mail mail (JText ''no_attachment'' []) report)
               else
                 act_bind (act_some (uuid_of_str tag) PyValueError ''badly formed hexadecimal UUID string'') (\<lambda>cid.
                 act_bind (in_world (supplier_of_mail E cid mail x)) (\<lambda>supplier.
                 act_bind (in_world (clock_now E)) (\<lambda>received_at.
                 act_bind (attempt (in_world (record_preparation_submission E rules cid
                     (bid_command mail name data supplier received_at) x))) (\<lambda>r.
                   case r of
                     Inl e \<Rightarrow> act_ret (skip_mail mail (JStr (err_msg e)) report)
                   | Inr _ \<Rightarrow>
                       act_bind (act_when acks (act_suppress (in_world (send_email E
                           (receipt_mail mail name supplier received_at))))) (\<lambda>_.
                       ask_for_cp4 E rules minimum cid x
                         (report\<lparr>ir_recorded := ir_recorded report + 1\<rparr>))))))
           | _ \<Rightarrow> act_ret (skip_mail mail (JText ''no_attachment'' []) report)))"

text \<open>\<open>mailbox.fetch_new\<close> answers with the unread mails and marks them read; it is a port.\<close>

definition poll_mailbox ::
  "env \<Rightarrow> ProcurementRules \<Rightarrow> nat \<Rightarrow> bool \<Rightarrow> (nat \<Rightarrow> InboundSubmissionEmail list result) \<Rightarrow> AccessContext
    \<Rightarrow> (uuid set, IngestReport) scan" where
  "poll_mailbox E rules minimum acks fetch_new x =
     act_bind (in_world (port_call fetch_new)) (\<lambda>r.
     act_bind (act_lift r) (\<lambda>mails.
       act_fold mails (ingest_mail E rules minimum acks x)
         \<lparr>ir_recorded = 0, ir_cp4_requested = False, ir_skipped = []\<rparr>))"


section \<open>Watching the law\<close>

record LegalPosition =
  lp_days :: "int option"
  lp_article :: string
  lp_quote :: string

text \<open>\<open>isinstance(value, int)\<close>; a Boolean is an integer.\<close>

fun int_of_json :: "json option \<Rightarrow> int option" where
  "int_of_json (Some (JInt i)) = Some i"
| "int_of_json (Some (JBool b)) = Some (if b then 1 else 0)"
| "int_of_json _ = None"

definition position_of :: "env \<Rightarrow> jdict \<Rightarrow> LegalPosition option" where
  "position_of E content =
     (case jget content ''legal_constraints'' of
        Some (JObj constraints) \<Rightarrow>
          (case jget constraints ''extracted'' of
             Some (JObj extracted) \<Rightarrow>
               Some \<lparr>lp_days = int_of_json (jget extracted ''min_bid_preparation_days''),
                     lp_article = str_or_empty E extracted ''article_ref'',
                     lp_quote = str_or_empty E extracted ''source_quote''\<rparr>
           | _ \<Rightarrow> None)
      | _ \<Rightarrow> None)"

definition article_key :: "LegalPosition \<Rightarrow> string" where
  "article_key p = concat (map casefold_char (py_strip (lp_article p)))"

definition differs_from :: "LegalPosition \<Rightarrow> LegalPosition \<Rightarrow> bool" where
  "differs_from p q = (lp_days p \<noteq> lp_days q \<or> article_key p \<noteq> article_key q)"

definition fingerprint :: "env \<Rightarrow> LegalPosition \<Rightarrow> string" where
  "fingerprint E p =
     take 16 (env_sha256 E (utf8_encode
       ((case lp_days p of None \<Rightarrow> ''None'' | Some d \<Rightarrow> int_str d) @ ''|'' @ article_key p)))"

definition LAW_REVIEW_STATES :: "CaseState list" where
  "LAW_REVIEW_STATES = [CS_APPROACH_READY, CS_CP1_PENDING, CS_BUILDING_SOLICITATION, CS_PACKAGE_READY,
     CS_CP2_PENDING, CS_PACKAGE_OFFICIAL, CS_PUBLISHED, CS_RECEIVING_BIDS]"

text \<open>\<open>list_pending_law_review\<close>. The column \<open>updated_at\<close>, which the database maintains, orders the rows.\<close>

definition cases_list_pending_law_review :: "(uuid \<Rightarrow> datetime) \<Rightarrow> nat \<Rightarrow> PreparationCase list handler" where
  "cases_list_pending_law_review updated_at limit = act_get (\<lambda>w.
     take limit (sort_key (\<lambda>c. updated_at (c_id c))
       (filter (\<lambda>c. c_state c \<in> set LAW_REVIEW_STATES) (case_visible w))))"

definition checkpoint_for_state :: "CaseState \<Rightarrow> string" where
  "checkpoint_for_state s = (if s \<in> {CS_APPROACH_READY, CS_CP1_PENDING} then ''CP1'' else ''CP2'')"

text \<open>\<open>LiveLegalPositionReader\<close> of \<open>dw_api/channels/law_watch.py\<close>: the same question and the same check as drafting.\<close>

definition read_live_position ::
  "PreparationServices \<Rightarrow> (AccessContext \<Rightarrow> uuid \<Rightarrow> RunContext) \<Rightarrow> PreparationCase \<Rightarrow> AccessContext
    \<Rightarrow> LegalPosition option handler" where
  "read_live_position sv run_as c x =
     (case (sv_knowledge sv, sv_model_gateway sv) of
        (Some search, Some g) \<Rightarrow>
          act_bind (port_call (\<lambda>n. search n \<lparr>sq_text = LEGAL_WINDOW_QUERY, sq_domain = ''legal'', sq_top_k = 3\<rparr> x)) (\<lambda>hits.
            let quotes = filter (\<lambda>q. q \<noteq> '''') (map ek_content (case hits of None \<Rightarrow> [] | Some ks \<Rightarrow> ks)) in
            if quotes = [] then act_ret None
            else act_bind (generate (mg_legal g) ok_legal
                   \<lparr>mq_task = ''preparation.legal_constraints'', mq_prompt_id = ''preparation.extract_legal_constraints'',
                    mq_prompt_version = ''1.0.0'',
                    mq_variables = [(''method_label'', ''''), (''passages'', numbered_passages quotes)],
                    mq_model_profile = sv_model_profile sv, mq_route_kind = ''auto''\<rparr>
                   (run_as x (c_id c))) (\<lambda>r.
                 act_ret (case r of
                     None \<Rightarrow> None
                   | Some e \<Rightarrow> map_option (\<lambda>v. \<lparr>lp_days = Some (lc_days v), lp_article = lc_article v,
                                                 lp_quote = lc_quote v\<rparr>) (verified_constraint e quotes))))
      | _ \<Rightarrow> act_ret None)"

definition position_json :: "LegalPosition \<Rightarrow> jdict" where
  "position_json p = [(''min_bid_preparation_days'', opt_int_json (lp_days p)), (''article_ref'', JStr (lp_article p))]"

definition review_record :: "datetime \<Rightarrow> bool \<Rightarrow> LegalPosition \<Rightarrow> LegalPosition \<Rightarrow> jdict" where
  "review_record now changed drafted current =
     [(''reviewed_at'', JStr (isoformat now)), (''changed'', JBool changed),
      (''drafted_with'', JObj (position_json drafted)),
      (''sources_now_say'', JObj (position_json current @ [(''source_quote'', JStr (take 400 (lp_quote current)))]))]"

definition record_law_review ::
  "env \<Rightarrow> PreparationCase \<Rightarrow> AccessContext \<Rightarrow> LegalPosition \<Rightarrow> LegalPosition \<Rightarrow> bool \<Rightarrow> unit handler" where
  "record_law_review E c x drafted current changed =
     in_uow E (x_tenant_id x)
       (act_bind (clock_now E) (\<lambda>now.
        act_bind (add_application_artifact E c (x_principal_id x) LAW_REVIEW
                    (review_record now changed drafted current) AS_DRAFT) (\<lambda>_.
        commit)))"

definition law_alert_lines :: "LegalPosition \<Rightarrow> LegalPosition \<Rightarrow> json list" where
  "law_alert_lines drafted current =
     [JText ''minimum_when_drafted'' [case lp_days drafted of None \<Rightarrow> ''None'' | Some d \<Rightarrow> int_str d, lp_article drafted],
      JText ''minimum_now'' [case lp_days current of None \<Rightarrow> ''None'' | Some d \<Rightarrow> int_str d, lp_article current]]
     @ (if lp_quote current = '''' then [] else [JText ''quoted'' [take 300 (lp_quote current)]])
     @ [JText ''approval_still_stands'' []]"

definition law_change_job ::
  "env \<Rightarrow> PreparationCase \<Rightarrow> AccessContext \<Rightarrow> LegalPosition \<Rightarrow> LegalPosition \<Rightarrow> uuid \<Rightarrow> uuid \<Rightarrow> datetime
    \<Rightarrow> IntakeNotificationJob" where
  "law_change_job E c x drafted current j u ts =
     new_job j (x_tenant_id x) (c_workspace_id c) (c_id c) NT_LAW_CHANGE_DETECTED u ts
       (''law-change:'' @ c_id c @ '':'' @ fingerprint E current)
       [(''title'', JText ''law_changed'' [c_title c]), (''lines'', JArr (law_alert_lines drafted current)),
        (''case_id'', JStr (c_id c)), (''article_ref'', JStr (lp_article current)),
        (''before'', opt_int_json (lp_days drafted)), (''after'', opt_int_json (lp_days current))]"

definition alert_law_change ::
  "env \<Rightarrow> ProcurementRules \<Rightarrow> PreparationCase \<Rightarrow> AccessContext \<Rightarrow> LegalPosition \<Rightarrow> LegalPosition \<Rightarrow> unit handler" where
  "alert_law_change E rules c x drafted current =
     in_uow E (x_tenant_id x)
       (act_bind (find_recipient_for_role
           (approver_role_for rules (c_estimated_value_minor c) (checkpoint_for_state (c_state c))) None) (\<lambda>first.
        act_bind (if first = None then find_recipient_for_role (pr_default_approver_role rules) None
                  else act_ret first) (\<lambda>recipient.
          case recipient of
            None \<Rightarrow> act_ret ()
          | Some u \<Rightarrow>
              act_bind (enqueue_for E (Some u) (law_change_job E c x drafted current)) (\<lambda>_.
              commit))))"

text \<open>
  \<open>_review\<close>: \<open>None\<close> when there is nothing to compare, \<open>Some None\<close> when nothing moved, and otherwise the
  description of the change. \<open>reader\<close> is the injected \<open>read_current\<close>.
\<close>

definition review_case ::
  "env \<Rightarrow> ProcurementRules \<Rightarrow> (PreparationCase \<Rightarrow> AccessContext \<Rightarrow> LegalPosition option handler) \<Rightarrow> AccessContext
    \<Rightarrow> PreparationCase \<Rightarrow> (string set, json option option) scan" where
  "review_case E rules reader x c =
     act_bind (in_world (in_uow E (x_tenant_id x) (artifacts_latest (c_id c) PROCUREMENT_APPROACH))) (\<lambda>approach.
     case (case approach of None \<Rightarrow> None | Some a \<Rightarrow> position_of E (a_content a)) of
       None \<Rightarrow> act_ret None
     | Some drafted \<Rightarrow>
         if lp_days drafted = None then act_ret None
         else act_bind (in_world (reader c x)) (\<lambda>found.
           case found of
             None \<Rightarrow> act_ret None
           | Some current \<Rightarrow>
               if lp_days current = None then act_ret None
               else if \<not> differs_from drafted current
               then act_bind (in_world (record_law_review E c x drafted current False)) (\<lambda>_.
                      act_ret (Some None))
               else
                 let guard = c_id c @ '':'' @ fingerprint E current in
                 act_bind (in_world (record_law_review E c x drafted current True)) (\<lambda>_.
                 act_bind recall (\<lambda>announced.
                 act_bind (if guard \<in> announced then act_ret ()
                           else act_bind (in_world (alert_law_change E rules c x drafted current)) (\<lambda>_.
                                remember (insert guard))) (\<lambda>_.
                 act_ret (Some (Some (JText ''law_moved''
                   [c_title c, int_str (the (lp_days drafted)), int_str (the (lp_days current)), lp_article current]))))))))"

record LawWatchReport =
  lw_checked :: "json list"
  lw_changed :: "json list"
  lw_skipped :: "json list"

definition watch_case ::
  "env \<Rightarrow> ProcurementRules \<Rightarrow> (PreparationCase \<Rightarrow> AccessContext \<Rightarrow> LegalPosition option handler) \<Rightarrow> AccessContext
    \<Rightarrow> PreparationCase \<Rightarrow> LawWatchReport \<Rightarrow> (string set, LawWatchReport) scan" where
  "watch_case E rules reader x c report =
     act_bind (attempt (review_case E rules reader x c)) (\<lambda>r.
       act_ret (case r of
           Inl e \<Rightarrow> report\<lparr>lw_skipped := lw_skipped report @ [JText ''skipped'' [c_title c, err_msg e]]\<rparr>
         | Inr None \<Rightarrow> report\<lparr>lw_skipped := lw_skipped report @ [JText ''nothing_to_compare'' [c_title c]]\<rparr>
         | Inr (Some outcome) \<Rightarrow>
             report\<lparr>lw_checked := lw_checked report @ [JStr (c_title c)],
                    lw_changed := lw_changed report @ (case outcome of None \<Rightarrow> [] | Some line \<Rightarrow> [line])\<rparr>))"

definition poll_law ::
  "env \<Rightarrow> ProcurementRules \<Rightarrow> (PreparationCase \<Rightarrow> AccessContext \<Rightarrow> LegalPosition option handler)
    \<Rightarrow> (uuid \<Rightarrow> datetime) \<Rightarrow> nat \<Rightarrow> AccessContext \<Rightarrow> (string set, LawWatchReport) scan" where
  "poll_law E rules reader updated_at limit x =
     act_bind (in_world (in_uow E (x_tenant_id x) (cases_list_pending_law_review updated_at limit))) (\<lambda>cases.
       act_fold cases (watch_case E rules reader x) \<lparr>lw_checked = [], lw_changed = [], lw_skipped = []\<rparr>)"

section \<open>What a poll leaves behind\<close>

lemma keeps_in_world [keeps_rules]: "keeps I m \<Longrightarrow> keeps (\<lambda>s. I (snd s)) (in_world m)"
  by (auto simp: keeps_def in_world_def split: prod.splits)

lemma keeps_memory [keeps_rules]:
  "keeps (\<lambda>s. I (snd s)) recall" "keeps (\<lambda>s. I (snd s)) (remember h)"
  by (auto simp: keeps_def recall_def remember_def act_get_def act_modify_def)

lemma keeps_attempt [keeps_rules]: "keeps I m \<Longrightarrow> keeps I (attempt m)"
  by (auto simp: keeps_def attempt_def split: prod.splits sum.splits)

lemma keeps_attempt_any [keeps_rules]: "keeps I m \<Longrightarrow> keeps I (attempt_any m)"
  by (auto simp: keeps_def attempt_any_def split: prod.splits sum.splits)

lemma keeps_fold [keeps_rules]: "(\<And>x r. keeps I (f x r)) \<Longrightarrow> keeps I (act_fold xs f r)"
  by (induction xs arbitrary: r) (auto intro: keeps_rules)

lemma keeps_case_sum [keeps_rules]:
  "(\<And>e. keeps I (f e)) \<Longrightarrow> (\<And>x. keeps I (g x)) \<Longrightarrow> keeps I (case v of Inl e \<Rightarrow> f e | Inr x \<Rightarrow> g x)"
  by (cases v) auto

lemma keeps_clock_committed [keeps_rules]: "keeps (\<lambda>w. P (w_committed w)) (clock_now E)"
  by (simp add: keeps_def clock_now_def)

lemma keeps_uncommitted: "uncommitted m \<Longrightarrow> keeps (\<lambda>w. P (w_committed w)) m"
  by (simp add: keeps_def uncommitted_def)

lemma keeps_durable: "durable I t m \<Longrightarrow> keeps (\<lambda>w. I t (w_committed w)) m"
  by (simp add: durable_def)

lemma db_blind_reader: "db_blind (read_live_position sv rcf c x)"
proof -
  have bind: "db_blind m \<Longrightarrow> (\<And>y. db_blind (f y)) \<Longrightarrow> db_blind (act_bind m f)" for m :: "'b handler" and f :: "'b \<Rightarrow> 'c handler"
    by (simp add: db_blind_def act_bind_def split: prod.split sum.split) (metis snd_conv)
  have port: "db_blind (port_call f)" for f :: "nat \<Rightarrow> 'b" by (simp add: db_blind_def port_call_def)
  have ret: "db_blind (act_ret y)" for y :: 'b by (simp add: db_blind_def act_ret_def)
  show ?thesis
    unfolding read_live_position_def generate_def
    by (auto simp: Let_def intro!: bind port ret split: option.split)
qed

lemma durable_attempt_any: "durable I t m \<Longrightarrow> durable I t (attempt_any m)"
  unfolding durable_def by (rule keeps_attempt_any)

context case_invariant
begin

lemma durable_scanned:
  "durable I (x_tenant_id x) (record_law_review E c x p q b)"
  "durable I (x_tenant_id x) (alert_law_change E rules c x p q)"
  "durable I (x_tenant_id x) (supplier_of_mail E cid mail x)"
  unfolding record_law_review_def alert_law_change_def supplier_of_mail_def add_application_artifact_def enqueue_for_def
    get_preparation_case_def load_case_def
  by (rule keeps_rules durable_attempt_any statement_rules)+

end

lemma keeps_durable_scan: "durable I t m \<Longrightarrow> keeps (\<lambda>s. I t (w_committed (snd s))) (in_world m)"
  using keeps_in_world [of "\<lambda>w. I t (w_committed w)" m] by (simp add: durable_def)

text \<open>The three polls as one step, for what they have in common.\<close>

datatype poll =
    Poll_closing
  | Poll_mailbox nat bool "nat \<Rightarrow> InboundSubmissionEmail list result"
  | Poll_law PreparationServices "AccessContext \<Rightarrow> uuid \<Rightarrow> RunContext" "uuid \<Rightarrow> datetime" nat

fun polled :: "env \<Rightarrow> ProcurementRules \<Rightarrow> AccessContext \<Rightarrow> poll \<Rightarrow> uuid set \<Rightarrow> string set \<Rightarrow> world \<Rightarrow> world" where
  "polled E rules x Poll_closing seen told w = snd (snd (poll_closing E rules x (seen, w)))"
| "polled E rules x (Poll_mailbox n acks fetch) seen told w =
     snd (snd (poll_mailbox E rules n acks fetch x (seen, w)))"
| "polled E rules x (Poll_law sv run_as updated limit) seen told w =
     snd (snd (poll_law E rules (read_live_position sv run_as) updated limit x (told, w)))"

lemma keeps_snd: "keeps (\<lambda>s. I (snd s)) m \<Longrightarrow> I w \<Longrightarrow> I (snd (snd (m (mem, w))))"
  by (auto simp: keeps_def)

context case_invariant
begin

lemma durable_polled:
  assumes "I (x_tenant_id x) (w_committed w)"
  shows "I (x_tenant_id x) (w_committed (polled E rules x p seen told w))"
proof -
  note parts = durable_tendering durable_scanned durable_db_blind [OF db_blind_reader] durable_db_blind [OF db_blind_port_call]
  have "keeps (\<lambda>s. I (x_tenant_id x) (w_committed (snd s))) (poll_closing E rules x)"
    unfolding poll_closing_def close_case_def
    by (rule keeps_durable_scan keeps_rules parts statement_rules)+
  moreover have "keeps (\<lambda>s. I (x_tenant_id x) (w_committed (snd s))) (poll_mailbox E rules n acks fetch x)" for n acks fetch
    unfolding poll_mailbox_def ingest_mail_def ask_for_cp4_def
    by (rule keeps_durable_scan keeps_rules parts statement_rules)+
  moreover have "keeps (\<lambda>s. I (x_tenant_id x) (w_committed (snd s)))
      (poll_law E rules (read_live_position sv run_as) updated limit x)" for sv run_as updated limit
    unfolding poll_law_def watch_case_def review_case_def cases_list_pending_law_review_def
    by (rule keeps_durable_scan keeps_rules parts statement_rules)+
  ultimately show ?thesis using assms by (cases p) (auto intro: keeps_snd)
qed

end

text \<open>C26: The loops keep to their tenant and to the record. A poll of any of the three, whatever it finds, whatever
  the ports answer and wherever it stops, commits no change to a row of another tenant, and loses or
  rewrites nothing of the append-only record.\<close>

theorem polls_safe:
  "others_same (w_committed w) (x_tenant_id x) (w_committed (polled E rules x p seen told w))
   \<and> record_kept (w_committed w) (x_tenant_id x) (w_committed (polled E rules x p seen told w))"
  using isolation.durable_polled [OF others_same_refl] history.durable_polled [OF record_kept_refl] by blast

section \<open>Properties of the register\<close>

lemma enqueue_for_jobs:
  assumes "enqueue_for E r job w = (Inr u, w')"
  shows "\<exists>js n m. w' = w\<lparr>w_db := (w_db w)\<lparr>t_jobs := t_jobs (w_db w) @ js\<rparr>, w_ticks := n, w_fresh := m\<rparr>
    \<and> (\<forall>j \<in> set js. \<exists>i v t. j = job i v t)"
proof (cases r)
  case None
  then show ?thesis using assms
    by (intro exI [of _ "[]"] exI [of _ "w_ticks w"] exI [of _ "w_fresh w"])
      (simp add: enqueue_for_def run_simps)
next
  case (Some q)
  then obtain js where "w' = (w\<lparr>w_fresh := Suc (w_fresh w), w_ticks := Suc (w_ticks w)\<rparr>)
      \<lparr>w_db := (w_db w)\<lparr>t_jobs := t_jobs (w_db w) @ js\<rparr>\<rparr>"
      "set js \<subseteq> {job (env_ids E (w_fresh w)) q (env_clock E (w_ticks w))}"
    using assms by (auto simp: enqueue_for_def run_simps dest!: enqueue_frame)
  moreover from this have "\<forall>j \<in> set js. \<exists>i v t. j = job i v t" by blast
  ultimately show ?thesis
    by (intro exI [of _ js] exI [of _ "Suc (w_ticks w)"] exI [of _ "Suc (w_fresh w)"]) simp
qed


lemma request_cp4_tx_run:
  assumes "request_cp4_tx E rules i x w = (Inr n, w')"
  obtains c js p q where "get_case i w = Some c" "c_state c = CS_RECEIVING_BIDS" "0 < n"
    "w_committed w' = (w_db w)\<lparr>t_jobs := t_jobs (w_db w) @ js\<rparr>"
    "\<forall>j \<in> set js. n_case_id j = i \<and> n_event_type j = NT_CP_APPROVAL_REQUESTED"
proof -
  from assms obtain c u v k l where c: "get_case i w = Some c" "c_state c = CS_RECEIVING_BIDS" "0 < n"
      and q: "enqueue_for E u (\<lambda>j p t. case_job j c NT_CP_APPROVAL_REQUESTED p t k l) w = (Inr (), v)"
      and w': "w' = v\<lparr>w_committed := w_db v\<rparr>"
    unfolding request_cp4_tx_def
    by (clarsimp simp: run_simps Let_def)
  from enqueue_for_jobs [OF q] obtain js where
    "w_db v = (w_db w)\<lparr>t_jobs := t_jobs (w_db w) @ js\<rparr>"
    "\<forall>j \<in> set js. n_case_id j = i \<and> n_event_type j = NT_CP_APPROVAL_REQUESTED"
    using get_case_Some [OF c(1)] by fastforce
  then show ?thesis using that c w' by auto
qed

definition about :: "uuid \<Rightarrow> db \<Rightarrow> IntakeNotificationJob list" where
  "about i d = filter (\<lambda>j. n_case_id j = i) (t_jobs d)"

lemma request_cp4_run:
  assumes "request_cp4 E rules i x w = (r, w')"
  shows "\<exists>js. w_committed w' = (w_committed w)\<lparr>t_jobs := t_jobs (w_committed w) @ js\<rparr>
    \<and> (\<forall>j \<in> set js. n_case_id j = i \<and> n_event_type j = NT_CP_APPROVAL_REQUESTED)"
proof (cases r)
  case (Inl e)
  then have "w_committed w' = w_committed w" using assms atomic_tendering(7) by (auto simp: atomic_def)
  then show ?thesis by (intro exI [of _ "[]"]) simp
next
  case (Inr n)
  from assms [unfolded Inr request_cp4_def] obtain v where
    "request_cp4_tx E rules i x (session_start (x_tenant_id x) w) = (Inr n, v)" "w_committed w' = w_committed v"
    by (rule authorized_tx)
  then show ?thesis by (elim request_cp4_tx_run) auto
qed

text \<open>The closing scanner changes the job queue, by requests for CP4 about the case at hand, and nothing else.\<close>

definition asks_only :: "(uuid \<Rightarrow> bool) \<Rightarrow> db \<Rightarrow> db \<Rightarrow> bool" where
  "asks_only P d d' = (\<exists>js. d' = d\<lparr>t_jobs := t_jobs d @ js\<rparr>
     \<and> (\<forall>j \<in> set js. P (n_case_id j) \<and> n_event_type j = NT_CP_APPROVAL_REQUESTED))"

lemma asks_only_refl [intro]: "asks_only P d d"
  by (auto simp: asks_only_def intro!: exI [of _ "[]"])

lemma asks_only_trans: "asks_only P d d' \<Longrightarrow> asks_only P d' d'' \<Longrightarrow> asks_only P d d''"
  unfolding asks_only_def by fastforce

lemma asks_only_mono: "asks_only P d d' \<Longrightarrow> (\<And>i. P i \<Longrightarrow> Q i) \<Longrightarrow> asks_only Q d d'"
  unfolding asks_only_def by blast

lemma asks_only_about: "asks_only P d d' \<Longrightarrow> \<not> P i \<Longrightarrow> about i d' = about i d"
  by (auto simp: asks_only_def about_def filter_empty_conv)

lemma close_case_run:
  assumes "close_case E rules x c report (seen, w) = (r, (seen', w'))"
  shows "seen \<subseteq> seen'" "seen' \<subseteq> insert (c_id c) seen"
    "asks_only (\<lambda>i. i = c_id c \<and> i \<notin> seen) (w_committed w) (w_committed w')"
    "(\<exists>rep. r = Inr rep) \<Longrightarrow> c_id c \<in> seen'"
proof -
  obtain q v where run: "request_cp4 E rules (c_id c) x w = (q, v)" by fastforce
  then have asks: "asks_only (\<lambda>i. i = c_id c \<and> i \<notin> seen) (w_committed w) (w_committed v)" if "c_id c \<notin> seen"
    using request_cp4_run [OF run] that unfolding asks_only_def by metis
  note parts = close_case_def act_bind_def recall_def remember_def act_get_def act_modify_def attempt_def
    in_world_def act_ret_def act_lift_def
  show "seen \<subseteq> seen'" "seen' \<subseteq> insert (c_id c) seen"
    "asks_only (\<lambda>i. i = c_id c \<and> i \<notin> seen) (w_committed w) (w_committed w')"
    "(\<exists>rep. r = Inr rep) \<Longrightarrow> c_id c \<in> seen'"
    using assms run asks
    by (auto simp: parts asks_only_refl split: if_splits sum.splits prod.splits)
qed

lemma close_cases_run:
  assumes "act_fold cs (close_case E rules x) report (seen, w) = (r, (seen', w'))"
  shows "seen \<subseteq> seen' \<and> asks_only (\<lambda>i. i \<notin> seen) (w_committed w) (w_committed w')
    \<and> ((\<exists>rep. r = Inr rep) \<longrightarrow> c_id ` set cs \<subseteq> seen')"
  using assms
proof (induction cs arbitrary: report seen w)
  case Nil
  then show ?case by (auto simp: act_ret_def)
next
  case (Cons c cs)
  obtain q seen1 w1 where one: "close_case E rules x c report (seen, w) = (q, (seen1, w1))" by (metis prod.exhaust)
  note step = close_case_run [OF one]
  show ?case
  proof (cases q)
    case (Inl e)
    then show ?thesis using Cons.prems one step(1) asks_only_mono [OF step(3)]
      by (auto simp: act_bind_def)
  next
    case (Inr rep)
    then have rest: "seen1 \<subseteq> seen' \<and> asks_only (\<lambda>i. i \<notin> seen1) (w_committed w1) (w_committed w')
        \<and> ((\<exists>rep. r = Inr rep) \<longrightarrow> c_id ` set cs \<subseteq> seen')"
      using Cons.prems one by (intro Cons.IH [of rep]) (simp add: act_bind_def)
    then have "asks_only (\<lambda>i. i \<notin> seen) (w_committed w1) (w_committed w')"
      using step(1) by (auto elim!: asks_only_mono)
    with asks_only_mono [OF step(3)] have "asks_only (\<lambda>i. i \<notin> seen) (w_committed w) (w_committed w')"
      by (rule asks_only_trans) simp
    then show ?thesis using step(1,4) Inr rest by auto
  qed
qed

lemma due_query_run:
  assumes "in_world (in_uow E t (cases_list_due_for_closing now)) (seen, w) = (r, (seen', w'))"
  shows "seen' = seen \<and> w_committed w' = w_committed w
    \<and> (\<forall>cs. r = Inr cs \<longrightarrow> fst (cases_list_due_for_closing now (session_start t w)) = Inr cs)"
  using assms by (auto simp: in_world_def in_uow_def session_start_def cases_list_due_for_closing_def act_get_def
      split: option.splits prod.splits)

text \<open>C27: The register is closed once. A poll of the closing scanner changes nothing but the job queue, which grows
  by requests for CP4 about cases the scanner has not handled before; about a case it has handled - successfully or not -
  no poll adds or removes a job; and after a poll that ran to its end every case its due query returned is handled. The
  query returns the twenty due cases that closed first; handled cases that are still open stay among them, so a due case
  behind twenty of those is not reached.\<close>

theorem closing_asks_once:
  assumes "poll_closing E rules x (seen, w) = (r, (seen', w'))"
  shows "seen \<subseteq> seen' \<and> asks_only (\<lambda>i. i \<notin> seen) (w_committed w) (w_committed w')
    \<and> (\<forall>i \<in> seen. about i (w_committed w') = about i (w_committed w))
    \<and> ((\<exists>report. r = Inr report) \<longrightarrow>
        (\<forall>due. fst (cases_list_due_for_closing (env_clock E (w_ticks w)) (session_start (x_tenant_id x) w)) = Inr due
           \<longrightarrow> c_id ` set due \<subseteq> seen'))"
proof -
  let ?now = "env_clock E (w_ticks w)" and ?v = "w\<lparr>w_ticks := Suc (w_ticks w)\<rparr>"
  obtain q seen1 w1 where due: "in_world (in_uow E (x_tenant_id x) (cases_list_due_for_closing ?now)) (seen, ?v) = (q, (seen1, w1))"
    by (metis prod.exhaust)
  note same = due_query_run [OF due]
  show ?thesis
  proof (cases q)
    case (Inl e)
    then show ?thesis using assms due same
      by (auto simp: poll_closing_def act_bind_def in_world_def clock_now_def asks_only_refl split: prod.splits)
  next
    case (Inr cs)
    have fold: "act_fold cs (close_case E rules x) \<lparr>cl_closed = [], cl_skipped = []\<rparr> (seen, w1) = (r, (seen', w'))"
      using assms due same Inr
      by (simp add: poll_closing_def act_bind_def in_world_def clock_now_def split: prod.splits)
    have "fst (cases_list_due_for_closing ?now (session_start (x_tenant_id x) w)) = Inr cs"
      using same Inr by (simp add: cases_list_due_for_closing_def act_get_def session_start_def case_visible_def)
    then show ?thesis using close_cases_run [OF fold] same asks_only_about by auto
  qed
qed

section \<open>Properties of the mailbox\<close>

lemma supplier_committed:
  assumes "supplier_of_mail E i mail x w = (r, w')"
  shows "w_committed w' = w_committed w"
proof -
  have q: "uncommitted (notifications_list_for_case j)" for j
    by (simp add: uncommitted_def notifications_list_for_case_def act_get_def)
  have "keeps (\<lambda>v. w_committed v = w_committed w) (get_preparation_case E i x)"
    unfolding get_preparation_case_def load_case_def
    by (rule keeps_uncommitted [of _ "\<lambda>d. d = w_committed w"]) (intro atomic_rules q)
  then have "keeps (\<lambda>v. w_committed v = w_committed w) (supplier_of_mail E i mail x)"
    unfolding supplier_of_mail_def by (auto simp: Let_def intro: keeps_rules)
  then show ?thesis using assms by (auto simp: keeps_def dest: spec [of _ w])
qed

lemma ask_for_cp4_committed:
  assumes "ask_for_cp4 E rules n i x report (asked, w) = (r, (asked', w'))"
  shows "asks_only (\<lambda>j. j = i) (w_committed w) (w_committed w')"
proof -
  obtain q v where run: "request_cp4 E rules i x w = (q, v)" by fastforce
  then have "asks_only (\<lambda>j. j = i) (w_committed w) (w_committed v)"
    using request_cp4_run [OF run] by (auto simp: asks_only_def)
  then show ?thesis using assms run asks_only_refl
    by (auto simp: ask_for_cp4_def act_bind_def recall_def remember_def act_get_def act_modify_def attempt_def
        in_world_def act_ret_def Let_def split: if_splits sum.splits prod.splits)
qed

lemma receipt_committed:
  assumes "act_when acks (act_suppress (in_world (send_email E m))) (asked, w) = (r, (asked', w'))"
  shows "(\<exists>u. r = Inr u) \<and> w_committed w' = w_committed w"
  using assms by (auto simp: act_when_def act_suppress_def in_world_def send_email_def act_ret_def
      split: if_splits prod.splits sum.splits)

lemma ask_for_cp4_counts:
  "ask_for_cp4 E rules n i x report s = (Inr report', s') \<Longrightarrow> ir_recorded report' = ir_recorded report"
  by (auto simp: ask_for_cp4_def act_bind_def recall_def remember_def act_get_def act_modify_def attempt_def
      in_world_def act_ret_def Let_def split: if_splits sum.splits prod.splits)

lemma run_scan:
  "in_world m s = (Inr y, s') \<longleftrightarrow> m (snd s) = (Inr y, snd s') \<and> fst s' = fst s"
  "attempt k v = (Inr (Inr z), v') \<longleftrightarrow> k v = (Inr z, v')"
  "attempt k v = (Inr (Inl e), v') \<longleftrightarrow> k v = (Inl e, v') \<and> is_dw_error (err_class e)"
  by (cases s'; auto simp: in_world_def attempt_def split: prod.splits sum.splits)+

lemma ingest_mail_run:
  assumes "ingest_mail E rules n acks x mail report (asked, w) = (Inr report', (asked', w'))"
    "ir_recorded report' \<noteq> ir_recorded report"
  obtains tag i name data supplier u v k where "case_tag (ib_subject mail) = Some tag" "uuid_of_str tag = Some i"
    "ib_attachment_name mail = Some name" "ib_attachment_bytes mail = Some data" "name \<noteq> ''''" "data \<noteq> []"
    "w_committed u = w_committed w" "w_ticks u = Suc k"
    "record_preparation_submission E rules i (bid_command mail name data supplier (env_clock E k)) x u = (Inr (), v)"
    "asks_only (\<lambda>j. j = i) (w_committed v) (w_committed w')"
    "ir_recorded report' = Suc (ir_recorded report)"
proof -
  have kept: False if "act_ret (skip_mail mail why report) (asked, w) = (Inr report', (asked', w'))" for why
    using that assms(2) by (auto simp: act_ret_def skip_mail_def)
  obtain tag name data where mail: "case_tag (ib_subject mail) = Some tag" "ib_attachment_name mail = Some name"
      "ib_attachment_bytes mail = Some data" "name \<noteq> ''''" "data \<noteq> []"
    using assms kept by (auto simp: ingest_mail_def split: option.splits if_splits)
  obtain i supplier v q u s k where run: "uuid_of_str tag = Some i" "supplier_of_mail E i mail x w = (Inr supplier, v)"
      "k = w_ticks v"
      "attempt (in_world (record_preparation_submission E rules i (bid_command mail name data supplier (env_clock E k)) x))
         (asked, v\<lparr>w_ticks := Suc k\<rparr>) = (Inr q, (s, u))"
      "(case q of Inl e \<Rightarrow> act_ret (skip_mail mail (JStr (err_msg e)) report)
         | Inr _ \<Rightarrow> act_bind (act_when acks (act_suppress (in_world (send_email E
                           (receipt_mail mail name supplier (env_clock E k)))))) (\<lambda>_.
                       ask_for_cp4 E rules n i x (report\<lparr>ir_recorded := ir_recorded report + 1\<rparr>))) (s, u)
       = (Inr report', (asked', w'))"
    using assms(1) mail by (auto simp: ingest_mail_def run_bind run_basic run_scan run_ports cong: sum.case_cong)
  obtain z where q: "q = Inr z" using run(5) assms(2) by (cases q) (auto simp: act_ret_def skip_mail_def)
  from run(5) obtain b a where ack: "act_when acks (act_suppress (in_world (send_email E
        (receipt_mail mail name supplier (env_clock E k))))) (s, u) = (Inr (), (a, b))"
      and ask: "ask_for_cp4 E rules n i x (report\<lparr>ir_recorded := ir_recorded report + 1\<rparr>) (a, b) = (Inr report', (asked', w'))"
    unfolding q by (auto simp: run_bind)
  show ?thesis
  proof (rule that [OF mail(1) run(1) mail(2-5)])
    show "w_committed (v\<lparr>w_ticks := Suc k\<rparr>) = w_committed w" using supplier_committed [OF run(2)] by simp
    show "w_ticks (v\<lparr>w_ticks := Suc k\<rparr>) = Suc k" by simp
    show "record_preparation_submission E rules i (bid_command mail name data supplier (env_clock E k)) x
        (v\<lparr>w_ticks := Suc k\<rparr>) = (Inr (), u)" using run(4) q by (simp add: run_scan)
    show "asks_only (\<lambda>j. j = i) (w_committed u) (w_committed w')"
      using receipt_committed [OF ack] ask_for_cp4_committed [OF ask] by simp
    show "ir_recorded report' = Suc (ir_recorded report)" using ask_for_cp4_counts [OF ask] by simp
  qed
qed

text \<open>C28: A bid that arrives by mail is on time, always. When the ingestion counts a mail as recorded, the case
  the tag names accepted bids, its register has exactly one more entry, which names this message and the
  moment of the poll as its time of receipt, and the entry says \<open>on_time\<close> - whatever closing moment
  the case has: no comparison with it takes place.
\<close>

theorem mailed_bid_always_on_time:
  assumes "ingest_mail E rules n acks x mail report (asked, w) = (Inr report', (asked', w'))"
    "ir_recorded report' \<noteq> ir_recorded report"
  shows "\<exists>tag i c a e k. case_tag (ib_subject mail) = Some tag \<and> uuid_of_str tag = Some i
    \<and> c \<in> set (t_cases (w_committed w)) \<and> c_id c = i \<and> c_state c \<in> {CS_PUBLISHED, CS_RECEIVING_BIDS}
    \<and> t_artifacts (w_committed w') = t_artifacts (w_committed w) @ [a] \<and> a_type a = SUBMISSION_REGISTER
    \<and> register_items (Some a)
        = register_items (latest_artifact i SUBMISSION_REGISTER (session_start (x_tenant_id x) w)) @ [e]
    \<and> jget e ''receipt_status'' = Some (JStr ''on_time'')
    \<and> jget e ''received_at'' = Some (JStr (py_strip (isoformat (env_clock E k))))
    \<and> jget e ''external_reference'' = Some (JStr (py_strip (''email:'' @ ib_message_id mail)))
    \<and> ir_recorded report' = Suc (ir_recorded report)"
  using assms
proof (rule ingest_mail_run)
  fix tag i name data supplier u v k
  assume tag: "case_tag (ib_subject mail) = Some tag" "uuid_of_str tag = Some i"
    and u: "w_committed u = w_committed w"
    and run: "record_preparation_submission E rules i (bid_command mail name data supplier (env_clock E k)) x u = (Inr (), v)"
    and asks: "asks_only (\<lambda>j. j = i) (w_committed v) (w_committed w')"
    and n: "ir_recorded report' = Suc (ir_recorded report)"
  let ?cmd = "bid_command mail name data supplier (env_clock E k)"
  have latest: "latest_artifact i SUBMISSION_REGISTER (session_start (x_tenant_id x) u)
      = latest_artifact i SUBMISSION_REGISTER (session_start (x_tenant_id x) w)"
    using u by (simp add: latest_artifact_def artifact_visible_def session_start_def)
  from record_submission_effect [OF run] obtain c a d where c: "c \<in> set (t_cases (w_committed w))" "c_id c = i"
      "c_state c \<in> {CS_PUBLISHED, CS_RECEIVING_BIDS}"
    and a: "t_artifacts (w_committed v) = t_artifacts (w_committed w) @ [a]" "a_type a = SUBMISSION_REGISTER"
      "register_items (Some a) = register_items (latest_artifact i SUBMISSION_REGISTER (session_start (x_tenant_id x) w))
         @ [register_entry ?cmd d x (env_clock E (w_ticks u))]"
    using u latest by auto
  let ?e = "register_entry ?cmd d x (env_clock E (w_ticks u))"
  have e: "jget ?e ''receipt_status'' = Some (JStr ''on_time'')"
      "jget ?e ''received_at'' = Some (JStr (py_strip (isoformat (env_clock E k))))"
      "jget ?e ''external_reference'' = Some (JStr (py_strip (''email:'' @ ib_message_id mail)))"
    by (simp_all add: register_entry_def bid_command_def jget_def)
  have "t_artifacts (w_committed w') = t_artifacts (w_committed w) @ [a]"
    using asks a(1) by (auto simp: asks_only_def)
  then show ?thesis using tag c a(2,3) e n by metis
qed

text \<open>One malformed tag stops the mailbox. A mail whose subject carries thirty-six digits and dashes in
  the place of a case id that do not spell a UUID, and that has an attachment, makes the poll raise
  \<open>ValueError\<close> instead of being skipped; the mails that came with it - which the mailbox has marked as
  read - are not looked at, and the world is as the fetch left it.
\<close>

theorem malformed_tag_stops_the_mailbox:
  assumes "fetch (w_calls w) = Inr (mail # mails)" "case_tag (ib_subject mail) = Some tag" "uuid_of_str tag = None"
    "ib_attachment_name mail = Some name" "ib_attachment_bytes mail = Some data" "name \<noteq> ''''" "data \<noteq> []"
  shows "poll_mailbox E rules n acks fetch x (asked, w)
    = (Inl (Err PyValueError ''badly formed hexadecimal UUID string''), (asked, w\<lparr>w_calls := Suc (w_calls w)\<rparr>))"
  using assms
  by (simp add: poll_mailbox_def ingest_mail_def act_bind_def in_world_def port_call_def act_lift_def act_some_def)

definition dash_mail :: InboundSubmissionEmail where
  "dash_mail = \<lparr>ib_message_id = ''m1'', ib_subject = ''[DW01:------------------------------------]'', ib_sender = ''s@x'',
     ib_body_text = '''', ib_attachment_name = Some ''b.pdf'', ib_attachment_bytes = Some ''bid'',
     ib_attachment_content_type = ''application/pdf''\<rparr>"

theorem malformed_tag_stops_the_mailbox_witness:
  "fst (poll_mailbox demo_env demo_procurement_rules 3 True (\<lambda>_. Inr [dash_mail, dash_mail]) the_requester
      ({}, start_world (tender_db CS_PUBLISHED))) = Inl (Err PyValueError ''badly formed hexadecimal UUID string'')"
proof -
  have tag: "case_tag (ib_subject dash_mail) = Some (replicate 36 CHR ''-'')"
    "uuid_of_str (replicate 36 CHR ''-'') = None" by code_simp+
  have "ib_attachment_name dash_mail = Some ''b.pdf''" "ib_attachment_bytes dash_mail = Some ''bid''"
    by (simp_all add: dash_mail_def)
  from malformed_tag_stops_the_mailbox [of "\<lambda>_. Inr [dash_mail, dash_mail]", OF _ tag this] show ?thesis by simp
qed

theorem closing_asks_once_witness:
  "\<exists>r seen' w'. poll_closing demo_env demo_procurement_rules the_requester
      ({}, start_world (tender_db CS_RECEIVING_BIDS)) = (Inr r, (seen', w')) \<and> ''c1'' \<in> seen'
    \<and> map n_event_type (t_jobs (w_committed w')) = [NT_CP_APPROVAL_REQUESTED]"
proof -
  let ?w = "start_world (tender_db CS_RECEIVING_BIDS)"
  let ?poll = "poll_closing demo_env demo_procurement_rules the_requester ({}, ?w)"
  let ?due = "cases_list_due_for_closing (env_clock demo_env (w_ticks ?w)) (session_start (x_tenant_id the_requester) ?w)"
  have cp4: "approver_role_for demo_procurement_rules v ''CP4'' = ''approver''" for v
  proof -
    have "map py_upper_char ''CP4'' = ''CP4''" by code_simp
    then show ?thesis by (simp add: approver_role_for_def demo_procurement_rules_def covers_def tier_role_def Let_def del: list.map)
  qed
  obtain line where line: "closed_line demo_procurement_rules (demo_case CS_RECEIVING_BIDS) (Suc 0) = Inr line"
    by (auto simp: closed_line_def select_method_def demo_procurement_rules_def covers_def demo_method_def demo_case_def)
  have "ran_ok ?poll \<and> map n_event_type (t_jobs (w_committed (snd (snd ?poll)))) = [NT_CP_APPROVAL_REQUESTED]"
    by (simp add: evaluation poll_closing_def close_case_def in_world_def recall_def remember_def attempt_def
        cases_list_due_for_closing_def request_cp4_def request_cp4_tx_def submissions_of_def enqueue_for_def case_job_def new_job_def cp4 find_recipient_for_role_def line timedelta_days_def usec_per_day_def
        act_modify_def is_dw_error_def cong: act_bind_weak)
  then have ok: "ran_ok ?poll" and queued: "map n_event_type (t_jobs (w_committed (snd (snd ?poll)))) = [NT_CP_APPROVAL_REQUESTED]"
    by blast+
  from ran_ok_elim [OF ok] obtain r s where run: "?poll = (Inr r, s)" by blast
  moreover from this queued have "map n_event_type (t_jobs (w_committed (snd s))) = [NT_CP_APPROVAL_REQUESTED]" by simp
  moreover have "fst ?due = Inr [demo_case CS_RECEIVING_BIDS]"
    by (simp add: evaluation cases_list_due_for_closing_def session_start_def timedelta_days_def usec_per_day_def)
  moreover have "c_id (demo_case CS_RECEIVING_BIDS) = ''c1''" by (simp add: demo_case_def)
  ultimately show ?thesis using closing_asks_once [of _ _ _ "{}" ?w "Inr r" "fst s" "snd s"] by (cases s) fastforce
qed

definition mail_id :: uuid where
  "mail_id = ''00000000-0000-0000-0000-000000000001''"

definition bid_mail :: InboundSubmissionEmail where
  "bid_mail = dash_mail\<lparr>ib_subject := ''[DW01:00000000-0000-0000-0000-000000000001]''\<rparr>"

definition mail_db :: db where
  "mail_db = (case_db CS_PUBLISHED)\<lparr>t_cases := [(demo_case CS_PUBLISHED)\<lparr>c_id := mail_id\<rparr>],
     t_documents := [], t_artifacts := []\<rparr>"

text \<open>The case of this run closed at moment 0; the mail is read thirty-one days later.\<close>

theorem mailed_bid_always_on_time_witness:
  "\<exists>r s' w' e a. ingest_mail demo_env demo_procurement_rules 3 False the_requester bid_mail
        \<lparr>ir_recorded = 0, ir_cp4_requested = False, ir_skipped = []\<rparr> ({mail_id}, start_world mail_db) = (Inr r, (s', w'))
     \<and> t_artifacts (w_committed w') = [a] \<and> register_items (Some a) = [e]
     \<and> jget e ''receipt_status'' = Some (JStr ''on_time'')"
proof -
  let ?rep = "\<lparr>ir_recorded = 0, ir_cp4_requested = False, ir_skipped = []\<rparr>"
  let ?w = "start_world mail_db"
  let ?run = "ingest_mail demo_env demo_procurement_rules 3 False the_requester bid_mail ?rep ({mail_id}, ?w)"
  let ?cmd = "bid_command bid_mail ''b.pdf'' ''bid'' ''text'' (env_clock demo_env 0)"
  have tag: "case_tag (ib_subject bid_mail) = Some mail_id" "uuid_of_str mail_id = Some mail_id" by code_simp+
  have sel: "ib_attachment_name bid_mail = Some ''b.pdf''" "ib_attachment_bytes bid_mail = Some ''bid''"
    by (simp_all add: bid_mail_def dash_mail_def)
  have db [simp]: "t_memberships mail_db = t_memberships staff_db" "t_documents mail_db = []" "t_artifacts mail_db = []"
    "t_cases mail_db = [(demo_case CS_PUBLISHED)\<lparr>c_id := mail_id\<rparr>]" "t_jobs mail_db = []"
    by (simp_all add: mail_db_def demo_db_sel)
  have ticks: "w_ticks ?w = 0" by (simp add: start_world_def)
  have sup: "supplier_of_mail demo_env mail_id bid_mail the_requester ?w = (Inr ''text'', ?w)"
    by (simp add: evaluation supplier_of_mail_def get_preparation_case_def attempt_any_def)
  have cmd: "rs_receipt_status (bid_command bid_mail n b s t) = ''on_time''" "rs_content (bid_command bid_mail n b s t) = b"
    "rs_filename (bid_command bid_mail n b s t) = n" "rs_supplier_name (bid_command bid_mail n b s t) = s"
    "rs_content_type (bid_command bid_mail n b s t) = ''application/pdf''" for n b s t
    by (simp_all add: bid_command_def bid_mail_def dash_mail_def)
  have "ran_ok (record_preparation_submission demo_env demo_procurement_rules mail_id ?cmd the_requester (?w\<lparr>w_ticks := 1\<rparr>))"
    by (simp add: evaluation record_preparation_submission_def record_submission_tx_def cmd
        approver_role_for_def demo_procurement_rules_def covers_def tier_role_def cong: act_bind_weak)
  from ran_ok_elim [OF this] obtain v where
    rec: "record_preparation_submission demo_env demo_procurement_rules mail_id ?cmd the_requester (?w\<lparr>w_ticks := 1\<rparr>) = (Inr (), v)"
    by fastforce
  have run: "?run = (Inr (?rep\<lparr>ir_recorded := 1\<rparr>), ({mail_id}, v))"
    using rec by (simp add: ingest_mail_def tag sel act_bind_def act_some_def in_world_def sup clock_now_def attempt_def
        act_when_def act_ret_def ask_for_cp4_def recall_def act_get_def ticks)
  have "register_items (latest_artifact mail_id SUBMISSION_REGISTER (session_start (x_tenant_id the_requester) ?w)) = []"
    by (simp add: latest_artifact_def artifact_visible_def session_start_def start_world_def register_items_def)
  moreover have "t_artifacts (w_committed ?w) = []" by (simp add: start_world_def)
  ultimately show ?thesis using mailed_bid_always_on_time [OF run] run tag by auto
qed

section \<open>Properties of the law watch\<close>

text \<open>What the law watch may add: reviews of the law, kept as drafts, and warnings that it changed.\<close>

definition watched_only :: "uuid \<Rightarrow> db \<Rightarrow> db \<Rightarrow> bool" where
  "watched_only u d d' = (\<exists>as js. d' = d\<lparr>t_artifacts := t_artifacts d @ as, t_jobs := t_jobs d @ js\<rparr>
     \<and> (\<forall>a \<in> set as. a_type a = LAW_REVIEW \<and> a_status a = AS_DRAFT \<and> a_created_by a = u)
     \<and> (\<forall>j \<in> set js. n_event_type j = NT_LAW_CHANGE_DETECTED))"

lemma watched_only_refl [intro]: "watched_only u d d"
  by (auto simp: watched_only_def intro!: exI [of _ "[]"])

lemma watched_only_trans: "watched_only u d d' \<Longrightarrow> watched_only u d' d'' \<Longrightarrow> watched_only u d d''"
  unfolding watched_only_def by fastforce

lemma keeps_watched:
  "(\<And>w r w'. m w = (r, w') \<Longrightarrow> watched_only u (w_committed w) (w_committed w'))
     \<Longrightarrow> keeps (\<lambda>w. watched_only u d (w_committed w)) m"
  unfolding keeps_def by (metis prod.collapse watched_only_trans)

lemma watched_only_adds [intro]:
  "a_type a = LAW_REVIEW \<Longrightarrow> a_status a = AS_DRAFT \<Longrightarrow> a_created_by a = u
     \<Longrightarrow> watched_only u d (d\<lparr>t_artifacts := t_artifacts d @ [a]\<rparr>)"
  "(\<forall>j \<in> set js. n_event_type j = NT_LAW_CHANGE_DETECTED) \<Longrightarrow> watched_only u d (d\<lparr>t_jobs := t_jobs d @ js\<rparr>)"
  unfolding watched_only_def
  by (rule exI [of _ "[a]"], rule exI [of _ "[]"], simp) (rule exI [of _ "[]"], rule exI [of _ js], simp)

lemma law_change_job_type [simp]: "n_event_type (law_change_job E c x p q i v t) = NT_LAW_CHANGE_DETECTED"
  by (simp add: law_change_job_def new_job_def)

lemma enqueue_law_change:
  assumes "enqueue_for E r (law_change_job E c x p q) w = (Inr u, w')"
  shows "\<exists>js n m. w' = w\<lparr>w_db := (w_db w)\<lparr>t_jobs := t_jobs (w_db w) @ js\<rparr>, w_ticks := n, w_fresh := m\<rparr>
    \<and> (\<forall>j \<in> set js. n_event_type j = NT_LAW_CHANGE_DETECTED)"
  using enqueue_for_jobs [OF assms] law_change_job_type by metis

lemma record_law_review_watched: "keeps (\<lambda>w. watched_only (x_principal_id x) d (w_committed w)) (record_law_review E c x p q b)"
proof -
  have "watched_only (x_principal_id x) (w_committed w) (w_committed w')" if run: "record_law_review E c x p q b w = (r, w')" for w r w'
  proof (cases r)
    case (Inl e)
    have "atomic (record_law_review E c x p q b)"
      unfolding record_law_review_def add_application_artifact_def by (intro atomic_rules)
    then show ?thesis using Inl run by (auto simp: atomic_def)
  next
    case (Inr u)
    show ?thesis using run unfolding Inr record_law_review_def
      by (auto simp: run_bind run_in_uow run_ports session_start_def dest!: add_application_artifact_frame intro!: watched_only_adds)
  qed
  then show ?thesis by (rule keeps_watched)
qed

lemma alert_law_change_watched: "keeps (\<lambda>w. watched_only v d (w_committed w)) (alert_law_change E rules c x p q)"
proof -
  have "watched_only v (w_committed w) (w_committed w')" if run: "alert_law_change E rules c x p q w = (r, w')" for w r w'
  proof (cases r)
    case (Inl e)
    have "atomic (alert_law_change E rules c x p q)"
      unfolding alert_law_change_def enqueue_for_def by (intro atomic_rules)
    then show ?thesis using Inl run by (auto simp: atomic_def)
  next
    case (Inr u)
    show ?thesis using run unfolding Inr alert_law_change_def
      by (auto simp: run_simps session_start_def dest!: enqueue_law_change intro!: watched_only_adds(2)
          split: option.splits if_splits)
  qed
  then show ?thesis by (rule keeps_watched)
qed

lemma reader_watched: "keeps (\<lambda>w. watched_only u d (w_committed w)) (read_live_position sv run_as c x)"
  using db_blind_reader [of sv run_as c x] by (auto simp: keeps_def db_blind_def)

text \<open>C29: The law watch only reports. Whatever the sources say now, however often it polls and wherever a
  poll fails, the committed tables differ from the earlier ones at most by further reviews of the law -
  drafts, made in the watcher's name - and by queued warnings that the law changed: no case moves, no
  approval is touched, no package is changed.
\<close>

theorem law_watch_only_reports:
  "watched_only (x_principal_id x) (w_committed w)
     (w_committed (polled E rules x (Poll_law sv run_as updated limit) seen told w))"
proof -
  let ?I = "\<lambda>w'. watched_only (x_principal_id x) (w_committed w) (w_committed w')"
  have reads: "uncommitted (artifacts_latest i PROCUREMENT_APPROACH)" "uncommitted (cases_list_pending_law_review u n)" for i u n
    by (simp_all add: uncommitted_def artifacts_latest_def cases_list_pending_law_review_def act_get_def)
  have "keeps (\<lambda>s. ?I (snd s)) (poll_law E rules (read_live_position sv run_as) updated limit x)"
    unfolding poll_law_def watch_case_def review_case_def
    by (rule keeps_rules keeps_in_world record_law_review_watched alert_law_change_watched reader_watched
        keeps_uncommitted [of _ "watched_only (x_principal_id x) (w_committed w)"] uncommitted_in_uow reads)+
  then show ?thesis using keeps_snd [of ?I _ w told] watched_only_refl by simp
qed

end
