(* ===== verification/DW_Chunking.thy ===== *)
theory DW_Chunking
  imports DW_Prelude
begin

text \<open>
  Cutting documents into the units of retrieval (\<open>dw_knowledge/chunking.py\<close>). Texts are lists of Unicode code
  points here, since the heading words are Vietnamese. The loop over windows is recursion on the
  distance to the end of the section; that distance shrinks because a window always starts after the
  one before it.
\<close>

section \<open>Unicode strings\<close>

type_synonym utext = "nat list"

text \<open>\<open>str.isspace\<close>, \<open>str.isdigit\<close> and the line boundaries of \<open>str.splitlines\<close>, over all code points.\<close>

definition u_space :: "nat \<Rightarrow> bool" where
  "u_space c = (9 \<le> c \<and> c \<le> 13 \<or> 28 \<le> c \<and> c \<le> 32 \<or> c = 133 \<or> c = 160 \<or> c = 5760
     \<or> 8192 \<le> c \<and> c \<le> 8202 \<or> c = 8232 \<or> c = 8233 \<or> c = 8239 \<or> c = 8287 \<or> c = 12288)"

definition u_digit_ranges :: "(nat \<times> nat) list" where
  "u_digit_ranges =
    [(48, 57), (178, 179), (185, 185), (1632, 1641), (1776, 1785), (1984, 1993), (2406, 2415), (2534, 2543),
     (2662, 2671), (2790, 2799), (2918, 2927), (3046, 3055), (3174, 3183), (3302, 3311), (3430, 3439),
     (3558, 3567), (3664, 3673), (3792, 3801), (3872, 3881), (4160, 4169), (4240, 4249), (4969, 4977),
     (6112, 6121), (6160, 6169), (6470, 6479), (6608, 6618), (6784, 6793), (6800, 6809), (6992, 7001),
     (7088, 7097), (7232, 7241), (7248, 7257), (8304, 8304), (8308, 8313), (8320, 8329), (9312, 9320),
     (9332, 9340), (9352, 9360), (9450, 9450), (9461, 9469), (9471, 9471), (10102, 10110), (10112, 10120),
     (10122, 10130), (42528, 42537), (43216, 43225), (43264, 43273), (43472, 43481), (43504, 43513),
     (43600, 43609), (44016, 44025), (65296, 65305), (66720, 66729), (68160, 68163), (68912, 68921),
     (69216, 69224), (69714, 69722), (69734, 69743), (69872, 69881), (69942, 69951), (70096, 70105),
     (70384, 70393), (70736, 70745), (70864, 70873), (71248, 71257), (71360, 71369), (71472, 71481),
     (71904, 71913), (72016, 72025), (72784, 72793), (73040, 73049), (73120, 73129), (92768, 92777),
     (92864, 92873), (93008, 93017), (120782, 120831), (123200, 123209), (123632, 123641), (125264, 125273),
     (127232, 127242), (130032, 130041)]"

definition u_digit :: "nat \<Rightarrow> bool" where
  "u_digit c = list_ex (\<lambda>(a, b). a \<le> c \<and> c \<le> b) u_digit_ranges"

definition u_break :: "nat \<Rightarrow> bool" where
  "u_break c = (10 \<le> c \<and> c \<le> 13 \<or> 28 \<le> c \<and> c \<le> 30 \<or> c = 133 \<or> c = 8232 \<or> c = 8233)"

definition u_strip :: "utext \<Rightarrow> utext" where
  "u_strip s = rev (dropWhile u_space (rev (dropWhile u_space s)))"

text \<open>\<open>text.splitlines(keepends=True)\<close>.\<close>

fun u_splitlines :: "utext \<Rightarrow> utext list" where
  "u_splitlines [] = []"
| "u_splitlines [c] = [[c]]"
| "u_splitlines (c # d # cs) =
     (if c = 13 \<and> d = 10 then [c, d] # u_splitlines cs
      else if u_break c then [c] # u_splitlines (d # cs)
      else case u_splitlines (d # cs) of [] \<Rightarrow> [[c]] | l # ls \<Rightarrow> (c # l) # ls)"

text \<open>\<open>text[a:b]\<close> and \<open>text.rfind(sub, lo, hi)\<close> for indices inside the text.\<close>

definition slice :: "'a list \<Rightarrow> nat \<Rightarrow> nat \<Rightarrow> 'a list" where
  "slice xs a b = take (b - a) (drop a xs)"

definition u_rfind :: "utext \<Rightarrow> utext \<Rightarrow> nat \<Rightarrow> nat \<Rightarrow> nat option" where
  "u_rfind text sub lo hi =
     find (\<lambda>i. take (length sub) (drop i text) = sub) (rev [lo..<Suc hi - length sub])"

section \<open>Records\<close>

record TextChunk =
  tc_seq :: nat
  tc_start_offset :: nat
  tc_end_offset :: nat
  tc_content :: utext

record Section =
  se_index :: nat
  se_path :: utext
  se_level :: nat
  se_start_offset :: nat
  se_end_offset :: nat
  se_content :: utext

record LeafChunk =
  lf_seq :: nat
  lf_section_index :: nat
  lf_section_path :: utext
  lf_start_offset :: nat
  lf_end_offset :: nat
  lf_content :: utext

record ChunkingResult =
  cr_sections :: "Section list"
  cr_chunks :: "LeafChunk list"

definition contextual_text :: "LeafChunk \<Rightarrow> utext" where
  "contextual_text l =
     (if lf_section_path l = [] then lf_content l
      else [91] @ lf_section_path l @ [93, 10] @ lf_content l)"

section \<open>Headings\<close>

text \<open>
  The heading words, lower case and upper case, letter by letter; no other code point lowers to one of these
  letters, the dotted capital I apart, which lowers to two code points and so never matches.
\<close>

definition HEADING_PREFIXES :: "((nat \<times> nat) list \<times> nat) list" where
  "HEADING_PREFIXES =
     [([(112, 80), (104, 72), (7847, 7846), (110, 78), (32, 32)], 1),
      ([(99, 67), (104, 72), (432, 431), (417, 416), (110, 78), (103, 71), (32, 32)], 2),
      ([(109, 77), (7909, 7908), (99, 67), (32, 32)], 3),
      ([(273, 272), (105, 73), (7873, 7872), (117, 85), (32, 32)], 4)]"

definition starts_with :: "(nat \<times> nat) list \<Rightarrow> utext \<Rightarrow> bool" where
  "starts_with pattern s =
     (length pattern \<le> length s \<and> list_all2 (\<lambda>(lower, upper) c. c = lower \<or> c = upper) pattern (take (length pattern) s))"

text \<open>\<open>ch.isdigit() or ch in "IVXLCDM"\<close>.\<close>

definition numbered :: "utext \<Rightarrow> bool" where
  "numbered s = list_ex (\<lambda>c. u_digit c \<or> c \<in> {73, 86, 88, 76, 67, 68, 77}) (take 24 s)"

definition heading_level :: "utext \<Rightarrow> nat option" where
  "heading_level line =
     (let s = u_strip line
      in if s = [] then None
         else if hd s = 35 then Some (min (length s - length (dropWhile (\<lambda>c. c = 35) s)) 6)
         else map_option snd (find (\<lambda>(prefix, level). starts_with prefix s \<and> numbered s) HEADING_PREFIXES))"

definition heading_title :: "utext \<Rightarrow> utext" where
  "heading_title line = u_strip (dropWhile (\<lambda>c. c = 35) (u_strip line))"

fun headings_from :: "nat \<Rightarrow> utext list \<Rightarrow> (nat \<times> nat \<times> utext) list" where
  "headings_from offset [] = []"
| "headings_from offset (line # lines) =
     (case heading_level line of None \<Rightarrow> [] | Some level \<Rightarrow> [(offset, level, heading_title line)])
     @ headings_from (offset + length line) lines"

section \<open>Windows\<close>

definition SEPARATORS :: "utext list" where
  "SEPARATORS = [[10, 10], [10], [46, 32], [32]]"

fun first_break :: "utext \<Rightarrow> nat \<Rightarrow> nat \<Rightarrow> utext list \<Rightarrow> nat" where
  "first_break text lo hi [] = hi"
| "first_break text lo hi (sep # seps) =
     (case u_rfind text sep lo hi of Some i \<Rightarrow> i + length sep | None \<Rightarrow> first_break text lo hi seps)"

definition window_end :: "utext \<Rightarrow> nat \<Rightarrow> nat \<Rightarrow> nat \<Rightarrow> nat" where
  "window_end text max_chars stop start =
     (let e = min (start + max_chars) stop
      in if e < stop then first_break text (start + max_chars div 2) e SEPARATORS else e)"

text \<open>The body of \<open>_split_section\<close>: the loop \<open>while start < sec_end\<close>.\<close>

function split_section ::
  "utext \<Rightarrow> nat \<Rightarrow> nat \<Rightarrow> nat \<Rightarrow> utext \<Rightarrow> nat \<Rightarrow> nat \<Rightarrow> nat \<Rightarrow> LeafChunk list" where
  "split_section text max_chars overlap section_index path stop seq start =
     (if \<not> start < stop then []
      else let e = window_end text max_chars stop start;
               content = u_strip (slice text start e);
               here = (if content = [] then []
                       else [\<lparr>lf_seq = seq, lf_section_index = section_index, lf_section_path = path,
                              lf_start_offset = start, lf_end_offset = e, lf_content = content\<rparr>])
           in here @ (if stop \<le> e then []
                      else split_section text max_chars overlap section_index path stop (seq + length here)
                             (max (e - overlap) (start + 1))))"
  by pat_completeness auto
termination by (relation "measure (\<lambda>(_, _, _, _, _, stop, _, start). stop - start)") auto

text \<open>The loop of \<open>chunk_text\<close>.\<close>

function chunk_from :: "utext \<Rightarrow> nat \<Rightarrow> nat \<Rightarrow> nat \<Rightarrow> nat \<Rightarrow> TextChunk list" where
  "chunk_from text max_chars overlap seq start =
     (if \<not> start < length text then []
      else let e = window_end text max_chars (length text) start;
               content = u_strip (slice text start e);
               here = (if content = [] then []
                       else [\<lparr>tc_seq = seq, tc_start_offset = start, tc_end_offset = e, tc_content = content\<rparr>])
           in here @ (if length text \<le> e then []
                      else chunk_from text max_chars overlap (seq + length here) (max (e - overlap) (start + 1))))"
  by pat_completeness auto
termination by (relation "measure (\<lambda>(text, _, _, _, start). length text - start)") auto

section \<open>Sections\<close>

fun join_path :: "utext list \<Rightarrow> utext" where
  "join_path [] = []"
| "join_path [t] = t"
| "join_path (t # u # ts) = t @ [32, 62, 32] @ join_path (u # ts)"

definition preamble_path :: utext where
  "preamble_path = [77, 7903, 32, 273, 7847, 117]"

text \<open>The breadcrumb stack has its top first.\<close>

fun sections_from :: "utext \<Rightarrow> nat \<Rightarrow> (nat \<times> utext) list \<Rightarrow> (nat \<times> nat \<times> utext) list \<Rightarrow> Section list" where
  "sections_from text index stack [] = []"
| "sections_from text index stack ((off, level, title) # hs) =
     (let e = (case hs of [] \<Rightarrow> length text | h # _ \<Rightarrow> fst h);
          stack' = (level, title) # dropWhile (\<lambda>(l, _). level \<le> l) stack
      in \<lparr>se_index = index, se_path = join_path (map snd (rev stack')), se_level = level, se_start_offset = off,
          se_end_offset = e, se_content = slice text off e\<rparr>
         # sections_from text (index + 1) stack' hs)"

definition sections_of :: "utext \<Rightarrow> Section list" where
  "sections_of text =
     (let headings = headings_from 0 (u_splitlines text)
      in case headings of
           [] \<Rightarrow> [\<lparr>se_index = 0, se_path = [], se_level = 0, se_start_offset = 0,
                   se_end_offset = length text, se_content = text\<rparr>]
         | h # _ \<Rightarrow>
             (let preamble = (if 0 < fst h
                  then [\<lparr>se_index = 0, se_path = preamble_path, se_level = 0, se_start_offset = 0,
                         se_end_offset = fst h, se_content = slice text 0 (fst h)\<rparr>] else [])
              in preamble @ sections_from text (length preamble) [] headings))"

fun leaves_from :: "utext \<Rightarrow> nat \<Rightarrow> nat \<Rightarrow> nat \<Rightarrow> Section list \<Rightarrow> LeafChunk list" where
  "leaves_from text max_chars overlap seq [] = []"
| "leaves_from text max_chars overlap seq (s # ss) =
     (let leaves = split_section text max_chars overlap (se_index s) (se_path s) (se_end_offset s) seq (se_start_offset s)
      in leaves @ leaves_from text max_chars overlap (seq + length leaves) ss)"

definition bad_window :: "int \<Rightarrow> int \<Rightarrow> bool" where
  "bad_window max_chars overlap_chars = (max_chars \<le> 0 \<or> overlap_chars < 0 \<or> max_chars \<le> overlap_chars)"

definition window_error :: dw_error where
  "window_error = Err PyValueError ''require max_chars > 0 and 0 <= overlap_chars < max_chars''"

definition structure_aware_chunks :: "int \<Rightarrow> int \<Rightarrow> utext \<Rightarrow> ChunkingResult result" where
  "structure_aware_chunks max_chars overlap_chars text =
     (if bad_window max_chars overlap_chars then Inl window_error
      else if u_strip text = [] then Inr \<lparr>cr_sections = [], cr_chunks = []\<rparr>
      else let sections = sections_of text
           in Inr \<lparr>cr_sections = sections,
                   cr_chunks = leaves_from text (nat max_chars) (nat overlap_chars) 0 sections\<rparr>)"

definition chunk_text :: "int \<Rightarrow> int \<Rightarrow> utext \<Rightarrow> TextChunk list result" where
  "chunk_text max_chars overlap_chars text =
     (if bad_window max_chars overlap_chars then Inl window_error
      else if u_strip text = [] then Inr []
      else Inr (chunk_from text (nat max_chars) (nat overlap_chars) 0 0))"

section \<open>Slices and separators\<close>

lemma length_slice: "length (slice xs a b) = min (b - a) (length xs - a)"
  by (simp add: slice_def)

lemma slice_split: "a \<le> b \<Longrightarrow> b \<le> c \<Longrightarrow> slice xs a b @ slice xs b c = slice xs a c"
  using take_add [of "b - a" "c - b" "drop a xs"] by (simp add: slice_def)

lemma in_slice: "a \<le> p \<Longrightarrow> p < b \<Longrightarrow> b \<le> length xs \<Longrightarrow> xs ! p \<in> set (slice xs a b)"
  unfolding slice_def in_set_conv_nth by (intro exI [of _ "p - a"]) simp

lemma dropWhile_all_iff: "(\<forall>c \<in> set (dropWhile P s). P c) \<longleftrightarrow> (\<forall>c \<in> set s. P c)"
  by (induction s) auto

lemma u_strip_Nil: "u_strip s = [] \<longleftrightarrow> (\<forall>c \<in> set s. u_space c)"
  by (simp add: u_strip_def dropWhile_eq_Nil_conv dropWhile_all_iff)

lemma u_rfind_bounds: "u_rfind doc sub lo hi = Some i \<Longrightarrow> lo \<le> i \<and> i + length sub \<le> hi"
  unfolding u_rfind_def by (drule find_Some_in) auto

lemma first_break_bounds:
  "lo \<le> hi \<Longrightarrow> \<forall>s \<in> set seps. s \<noteq> [] \<Longrightarrow> first_break doc lo hi seps \<le> hi
     \<and> (first_break doc lo hi seps = hi \<or> lo < first_break doc lo hi seps)"
  by (induction doc lo hi seps rule: first_break.induct)
    (auto split: option.splits dest!: u_rfind_bounds simp: neq_Nil_conv)

lemma window_end_bounds:
  assumes "start < stop" "0 < max_chars"
  shows "start < window_end doc max_chars stop start" "window_end doc max_chars stop start \<le> stop"
    "window_end doc max_chars stop start \<le> start + max_chars"
proof -
  let ?b = "first_break doc (start + max_chars div 2) (start + max_chars) SEPARATORS"
  have "\<forall>s \<in> set SEPARATORS. s \<noteq> []" by (simp add: SEPARATORS_def)
  then have b: "?b \<le> start + max_chars" "?b = start + max_chars \<or> start + max_chars div 2 < ?b"
    using first_break_bounds [of "start + max_chars div 2" "start + max_chars"] by auto
  have "start < window_end doc max_chars stop start \<and> window_end doc max_chars stop start \<le> stop
      \<and> window_end doc max_chars stop start \<le> start + max_chars"
    using assms b by (cases "start + max_chars < stop") (auto simp: window_end_def Let_def min_def)
  then show "start < window_end doc max_chars stop start" "window_end doc max_chars stop start \<le> stop"
    "window_end doc max_chars stop start \<le> start + max_chars" by auto
qed

section \<open>What the windows of a section are\<close>

definition leaf_ok :: "utext \<Rightarrow> nat \<Rightarrow> nat \<Rightarrow> nat \<Rightarrow> LeafChunk \<Rightarrow> bool" where
  "leaf_ok doc max_chars a b l =
     (a \<le> lf_start_offset l \<and> lf_start_offset l < lf_end_offset l \<and> lf_end_offset l \<le> b
      \<and> lf_end_offset l - lf_start_offset l \<le> max_chars
      \<and> lf_content l = u_strip (slice doc (lf_start_offset l) (lf_end_offset l)) \<and> lf_content l \<noteq> [])"

definition covers_text :: "utext \<Rightarrow> nat \<Rightarrow> nat \<Rightarrow> LeafChunk list \<Rightarrow> bool" where
  "covers_text doc a b ls =
     (\<forall>p. a \<le> p \<and> p < b \<and> \<not> u_space (doc ! p)
       \<longrightarrow> (\<exists>l \<in> set ls. lf_start_offset l \<le> p \<and> p < lf_end_offset l))"

lemma leaf_ok_mono: "leaf_ok doc m a b l \<Longrightarrow> a' \<le> a \<Longrightarrow> b \<le> b' \<Longrightarrow> leaf_ok doc m a' b' l"
  by (auto simp: leaf_ok_def)

lemma covers_append:
  assumes "covers_text doc a b xs" "covers_text doc c d ys" "c \<le> b"
  shows "covers_text doc a d (xs @ ys)"
  unfolding covers_text_def
proof (intro allI impI)
  fix p
  assume p: "a \<le> p \<and> p < d \<and> \<not> u_space (doc ! p)"
  show "\<exists>l \<in> set (xs @ ys). lf_start_offset l \<le> p \<and> p < lf_end_offset l"
  proof (cases "p < b")
    case True
    then have "\<exists>l \<in> set xs. lf_start_offset l \<le> p \<and> p < lf_end_offset l"
      using p assms(1) by (simp add: covers_text_def)
    then show ?thesis by auto
  next
    case False
    then have "\<exists>l \<in> set ys. lf_start_offset l \<le> p \<and> p < lf_end_offset l"
      using p assms(2,3) by (simp add: covers_text_def)
    then show ?thesis by auto
  qed
qed

declare split_section.simps [simp del] chunk_from.simps [simp del]

lemma split_section_ok:
  assumes "0 < max_chars" "stop \<le> length doc"
  shows "(\<forall>l \<in> set (split_section doc max_chars overlap i path stop seq start).
      leaf_ok doc max_chars start stop l \<and> lf_section_index l = i \<and> lf_section_path l = path)
    \<and> map lf_seq (split_section doc max_chars overlap i path stop seq start)
        = [seq..<seq + length (split_section doc max_chars overlap i path stop seq start)]
    \<and> covers_text doc start stop (split_section doc max_chars overlap i path stop seq start)"
  using assms
proof (induction doc max_chars overlap i path stop seq start rule: split_section.induct)
  case (1 doc max_chars overlap i path stop seq start)
  show ?case
  proof (cases "start < stop")
    case False
    then show ?thesis by (simp add: split_section.simps covers_text_def)
  next
    case True
    define e where "e = window_end doc max_chars stop start"
    define content where "content = u_strip (slice doc start e)"
    define here where "here = (if content = [] then []
      else [\<lparr>lf_seq = seq, lf_section_index = i, lf_section_path = path,
             lf_start_offset = start, lf_end_offset = e, lf_content = content\<rparr>])"
    define rest where "rest = (if stop \<le> e then []
      else split_section doc max_chars overlap i path stop (seq + length here) (max (e - overlap) (start + 1)))"
    note e = window_end_bounds [OF True "1.prems"(1), of doc, folded e_def]
    have all: "split_section doc max_chars overlap i path stop seq start = here @ rest"
      using True by (subst split_section.simps) (simp add: Let_def e_def content_def here_def rest_def)
    have here_ok: "\<forall>l \<in> set here. leaf_ok doc max_chars start stop l \<and> lf_section_index l = i \<and> lf_section_path l = path"
      "map lf_seq here = [seq..<seq + length here]"
      using e by (auto simp: here_def content_def leaf_ok_def)
    have here_covers: "covers_text doc start e here"
    proof (cases "content = []")
      case True
      then have "\<forall>p. start \<le> p \<and> p < e \<longrightarrow> u_space (doc ! p)"
        using in_slice [of start _ e doc] e "1.prems"(2) unfolding content_def u_strip_Nil by fastforce
      then show ?thesis by (auto simp: covers_text_def)
    next
      case False
      then show ?thesis by (simp add: covers_text_def here_def)
    qed
    show ?thesis
    proof (cases "stop \<le> e")
      case True
      then have "split_section doc max_chars overlap i path stop seq start = here" by (simp add: all rest_def)
      moreover have "e = stop" using True e by simp
      ultimately show ?thesis using here_ok here_covers by simp
    next
      case more: False
      let ?next = "max (e - overlap) (start + 1)"
      have IH: "(\<forall>l \<in> set rest. leaf_ok doc max_chars ?next stop l \<and> lf_section_index l = i \<and> lf_section_path l = path)
          \<and> map lf_seq rest = [seq + length here..<seq + length here + length rest] \<and> covers_text doc ?next stop rest"
        using "1.IH" [OF _ e_def content_def here_def more "1.prems"] True more by (simp add: rest_def)
      have "covers_text doc start stop (here @ rest)"
        using here_covers IH e by (intro covers_append [of _ _ e _ ?next]) auto
      moreover have "\<forall>l \<in> set rest. leaf_ok doc max_chars start stop l"
        using IH by (auto elim!: leaf_ok_mono)
      moreover have "map lf_seq (here @ rest) = [seq..<seq + length (here @ rest)]"
        using here_ok(2) IH upt_add_eq_append [of seq "seq + length here" "length rest"] by (simp add: add.assoc)
      moreover have "\<forall>l \<in> set (here @ rest). leaf_ok doc max_chars start stop l \<and> lf_section_index l = i \<and> lf_section_path l = path"
        using here_ok(1) IH calculation(2) by auto
      ultimately show ?thesis unfolding all by blast
    qed
  qed
qed

section \<open>What the sections are\<close>

lemma splitlines_Cons: "u_splitlines (c # cs) \<noteq> []"
  by (cases cs) (auto split: list.splits)

lemma concat_splitlines: "concat (u_splitlines s) = s"
  by (induction s rule: u_splitlines.induct) (auto simp: splitlines_Cons split: list.splits)

lemma splitlines_nonempty: "l \<in> set (u_splitlines s) \<Longrightarrow> l \<noteq> []"
  by (induction s arbitrary: l rule: u_splitlines.induct) (fastforce split: list.splits if_splits)+

lemma headings_within:
  "\<forall>l \<in> set ls. l \<noteq> [] \<Longrightarrow> sorted_wrt (<) (map fst (headings_from off ls))
     \<and> (\<forall>h \<in> set (headings_from off ls). off \<le> fst h \<and> fst h < off + length (concat ls))"
proof (induction off ls rule: headings_from.induct)
  case (2 off line ls)
  then have rest: "sorted_wrt (<) (map fst (headings_from (off + length line) ls))"
      "\<forall>h \<in> set (headings_from (off + length line) ls). off + length line \<le> fst h
         \<and> fst h < off + length line + length (concat ls)" and line: "0 < length line" by auto
  have "off < fst h" if "h \<in> set (headings_from (off + length line) ls)" for h
    using bspec [OF rest(2) that] line by linarith
  moreover have "off + length line + length (concat ls) = off + length (concat (line # ls))" by simp
  ultimately show ?case using rest line
    by (cases "heading_level line") (fastforce simp del: length_greater_0_conv)+
qed simp

lemma concat_sections_from:
  "hs \<noteq> [] \<Longrightarrow> sorted_wrt (<) (map fst hs) \<Longrightarrow> \<forall>h \<in> set hs. fst h < length doc \<Longrightarrow>
     concat (map se_content (sections_from doc i stack hs)) = drop (fst (hd hs)) doc"
proof (induction doc i stack hs rule: sections_from.induct)
  case (2 doc index stack off level title hs)
  then show ?case
  proof (cases hs)
    case Nil
    then show ?thesis by (simp add: slice_def)
  next
    case (Cons h hs')
    then have "off \<le> fst h" "fst h \<le> length doc" using 2 by auto
    then show ?thesis using 2 Cons slice_split [of off "fst h" "length doc" doc]
      by (simp add: Let_def) (simp add: slice_def)
  qed
qed simp

lemma sections_from_index:
  "map se_index (sections_from doc i stack hs) = [i..<i + length hs]"
  by (induction doc i stack hs rule: sections_from.induct) (auto simp: Let_def upt_conv_Cons simp del: upt_Suc)

lemma sections_from_within:
  "sorted_wrt (<) (map fst hs) \<Longrightarrow> \<forall>h \<in> set hs. fst h < length doc \<Longrightarrow> s \<in> set (sections_from doc i stack hs) \<Longrightarrow>
     se_start_offset s < se_end_offset s \<and> se_end_offset s \<le> length doc
     \<and> se_content s = slice doc (se_start_offset s) (se_end_offset s)"
  by (induction doc i stack hs rule: sections_from.induct) (auto simp: Let_def less_imp_le split: list.splits)

lemma sections_of_parts:
  assumes "doc \<noteq> []"
  shows "concat (map se_content (sections_of doc)) = doc"
    "map se_index (sections_of doc) = [0..<length (sections_of doc)]"
    "\<forall>s \<in> set (sections_of doc). se_start_offset s < se_end_offset s \<and> se_end_offset s \<le> length doc
       \<and> se_content s = slice doc (se_start_offset s) (se_end_offset s)"
proof -
  let ?hs = "headings_from 0 (u_splitlines doc)"
  have hs: "sorted_wrt (<) (map fst ?hs)" "\<forall>h \<in> set ?hs. fst h < length doc"
    using headings_within [of "u_splitlines doc" 0] splitlines_nonempty by (auto simp: concat_splitlines)
  note parts = concat_sections_from [OF _ hs] sections_from_index [of doc _ _ ?hs] sections_from_within [OF hs]
  have "concat (map se_content (sections_of doc)) = doc \<and> map se_index (sections_of doc) = [0..<length (sections_of doc)]
    \<and> (\<forall>s \<in> set (sections_of doc). se_start_offset s < se_end_offset s \<and> se_end_offset s \<le> length doc
       \<and> se_content s = slice doc (se_start_offset s) (se_end_offset s))"
  proof (cases ?hs)
    case Nil
    then show ?thesis using assms by (simp add: sections_of_def slice_def)
  next
    case (Cons h hs')
    define pre where "pre = (if 0 < fst h
      then [\<lparr>se_index = 0, se_path = preamble_path, se_level = 0, se_start_offset = 0,
             se_end_offset = fst h, se_content = slice doc 0 (fst h)\<rparr>] else [])"
    have all: "sections_of doc = pre @ sections_from doc (length pre) [] ?hs"
      using Cons by (simp add: sections_of_def Let_def pre_def)
    have "concat (map se_content pre) = take (fst h) doc" "map se_index pre = [0..<length pre]"
      "\<forall>s \<in> set pre. se_start_offset s < se_end_offset s \<and> se_end_offset s \<le> length doc
         \<and> se_content s = slice doc (se_start_offset s) (se_end_offset s)"
      using hs(2) Cons by (auto simp: pre_def slice_def)
    moreover have "concat (map se_content (sections_from doc (length pre) [] ?hs)) = drop (fst h) doc"
      using parts(1) Cons by simp
    moreover have "[0..<length pre] @ [length pre..<length pre + length ?hs] = [0..<length pre + length ?hs]"
      using upt_add_eq_append [of 0 "length pre" "length ?hs"] by simp
    moreover have "length (sections_from doc (length pre) [] ?hs) = length ?hs"
      using parts(2) by (metis length_map length_upt add_diff_cancel_left')
    ultimately show ?thesis unfolding all using parts(2,3) by auto
  qed
  then show "concat (map se_content (sections_of doc)) = doc"
    "map se_index (sections_of doc) = [0..<length (sections_of doc)]"
    "\<forall>s \<in> set (sections_of doc). se_start_offset s < se_end_offset s \<and> se_end_offset s \<le> length doc
       \<and> se_content s = slice doc (se_start_offset s) (se_end_offset s)" by blast+
qed

text \<open>The sections lie side by side.\<close>

fun tile :: "nat \<Rightarrow> nat \<Rightarrow> Section list \<Rightarrow> bool" where
  "tile a b [] = (a = b)"
| "tile a b (s # ss) = (se_start_offset s = a \<and> a < se_end_offset s \<and> tile (se_end_offset s) b ss)"

lemma tile_point: "tile a b ss \<Longrightarrow> a \<le> p \<Longrightarrow> p < b \<Longrightarrow> \<exists>s \<in> set ss. se_start_offset s \<le> p \<and> p < se_end_offset s"
proof (induction a b ss rule: tile.induct)
  case (2 a b s ss)
  then show ?case by (cases "p < se_end_offset s") auto
qed simp

lemma sections_from_tile:
  "hs \<noteq> [] \<Longrightarrow> sorted_wrt (<) (map fst hs) \<Longrightarrow> \<forall>h \<in> set hs. fst h < length doc \<Longrightarrow>
     tile (fst (hd hs)) (length doc) (sections_from doc i stack hs)"
proof (induction doc i stack hs rule: sections_from.induct)
  case (2 doc i stack off level title hs)
  then show ?case by (cases hs) (auto simp: Let_def simp del: sections_from.simps simp: sections_from.simps(1) sections_from.simps(2) [of _ _ _ off])
qed simp

lemma sections_of_tile:
  assumes "doc \<noteq> []"
  shows "tile 0 (length doc) (sections_of doc)"
proof -
  let ?hs = "headings_from 0 (u_splitlines doc)"
  have hs: "sorted_wrt (<) (map fst ?hs)" "\<forall>h \<in> set ?hs. fst h < length doc"
    using headings_within [of "u_splitlines doc" 0] splitlines_nonempty by (auto simp: concat_splitlines)
  show ?thesis
    using assms hs(2) sections_from_tile [OF _ hs] by (cases ?hs) (auto simp: sections_of_def Let_def simp del: sections_from.simps)
qed

lemma leaves_from_ok:
  assumes "0 < max_chars" "\<forall>s \<in> set ss. se_end_offset s \<le> length doc"
  shows "(\<forall>l \<in> set (leaves_from doc max_chars overlap seq ss). \<exists>s \<in> set ss.
      leaf_ok doc max_chars (se_start_offset s) (se_end_offset s) l
        \<and> lf_section_index l = se_index s \<and> lf_section_path l = se_path s)
    \<and> map lf_seq (leaves_from doc max_chars overlap seq ss) = [seq..<seq + length (leaves_from doc max_chars overlap seq ss)]
    \<and> (\<forall>s \<in> set ss. covers_text doc (se_start_offset s) (se_end_offset s) (leaves_from doc max_chars overlap seq ss))"
  using assms
proof (induction doc max_chars overlap seq ss rule: leaves_from.induct)
  case (2 doc max_chars overlap seq s ss)
  define here where "here = split_section doc max_chars overlap (se_index s) (se_path s) (se_end_offset s) seq (se_start_offset s)"
  define rest where "rest = leaves_from doc max_chars overlap (seq + length here) ss"
  have all: "leaves_from doc max_chars overlap seq (s # ss) = here @ rest"
    by (simp add: here_def rest_def Let_def)
  have here: "\<forall>l \<in> set here. leaf_ok doc max_chars (se_start_offset s) (se_end_offset s) l
        \<and> lf_section_index l = se_index s \<and> lf_section_path l = se_path s"
      "map lf_seq here = [seq..<seq + length here]"
      "covers_text doc (se_start_offset s) (se_end_offset s) here"
    using split_section_ok [of max_chars "se_end_offset s" doc] "2.prems" unfolding here_def by auto
  have IH: "(\<forall>l \<in> set rest. \<exists>s \<in> set ss. leaf_ok doc max_chars (se_start_offset s) (se_end_offset s) l
        \<and> lf_section_index l = se_index s \<and> lf_section_path l = se_path s)
    \<and> map lf_seq rest = [seq + length here..<seq + length here + length rest]
    \<and> (\<forall>s \<in> set ss. covers_text doc (se_start_offset s) (se_end_offset s) rest)"
    using "2.IH" [OF here_def] "2.prems" by (simp add: rest_def)
  have "map lf_seq (here @ rest) = [seq..<seq + length (here @ rest)]"
    using here(2) IH upt_add_eq_append [of seq "seq + length here" "length rest"] by (simp add: add.assoc)
  moreover have "covers_text doc a b xs \<Longrightarrow> covers_text doc a b (xs @ ys)" for a b xs ys
    by (auto simp: covers_text_def)
  moreover have "covers_text doc a b ys \<Longrightarrow> covers_text doc a b (xs @ ys)" for a b xs ys
    by (auto simp: covers_text_def)
  ultimately show ?case unfolding all using here(1,3) IH by auto
qed simp

section \<open>Properties\<close>

text \<open>C30: Chunks are spans of the document. Every chunk is the trimmed text between its offsets, at most
  \<open>max_chars\<close> long, not empty, and inside the section it names, whose path it carries; the chunks are numbered
  from 0 without gaps.\<close>

theorem chunks_are_spans:
  assumes "structure_aware_chunks max_chars overlap doc = Inr r"
  shows "(\<forall>l \<in> set (cr_chunks r). \<exists>s \<in> set (cr_sections r).
      se_index s = lf_section_index l \<and> se_path s = lf_section_path l
      \<and> se_start_offset s \<le> lf_start_offset l \<and> lf_start_offset l < lf_end_offset l \<and> lf_end_offset l \<le> se_end_offset s
      \<and> se_end_offset s \<le> length doc
      \<and> int (lf_end_offset l - lf_start_offset l) \<le> max_chars
      \<and> lf_content l = u_strip (slice doc (lf_start_offset l) (lf_end_offset l)) \<and> lf_content l \<noteq> [])
    \<and> map lf_seq (cr_chunks r) = [0..<length (cr_chunks r)]"
proof (cases "u_strip doc = []")
  case True
  then show ?thesis using assms by (auto simp: structure_aware_chunks_def split: if_splits)
next
  case False
  then have r: "cr_sections r = sections_of doc" "0 < nat max_chars" "max_chars = int (nat max_chars)" "doc \<noteq> []"
      "cr_chunks r = leaves_from doc (nat max_chars) (nat overlap) 0 (sections_of doc)"
    using assms by (auto simp: structure_aware_chunks_def Let_def bad_window_def u_strip_Nil split: if_splits)
  have inside: "\<forall>s \<in> set (sections_of doc). se_end_offset s \<le> length doc"
    using sections_of_parts(3) [OF r(4)] by blast
  note ok = leaves_from_ok [OF r(2) inside, of "nat overlap" 0]
  have "int n \<le> max_chars" if "n \<le> nat max_chars" for n using that r(3) by linarith
  then show ?thesis unfolding r(1,5) using ok inside by (fastforce simp: leaf_ok_def)
qed

text \<open>C31: Nothing of a document is lost. Whatever the window and the overlap, every character that is not white
  space lies between the offsets of some chunk, and the sections, put together in order, are the
  document.\<close>

theorem chunks_cover_document:
  assumes "structure_aware_chunks max_chars overlap doc = Inr r" "p < length doc" "\<not> u_space (doc ! p)"
  shows "(\<exists>l \<in> set (cr_chunks r). lf_start_offset l \<le> p \<and> p < lf_end_offset l)
    \<and> concat (map se_content (cr_sections r)) = doc
    \<and> map se_index (cr_sections r) = [0..<length (cr_sections r)]"
proof -
  have "u_strip doc \<noteq> []" using assms(2,3) by (auto simp: u_strip_Nil)
  then have r: "cr_sections r = sections_of doc" "0 < nat max_chars" "doc \<noteq> []"
      "cr_chunks r = leaves_from doc (nat max_chars) (nat overlap) 0 (sections_of doc)"
    using assms by (auto simp: structure_aware_chunks_def Let_def bad_window_def u_strip_Nil split: if_splits)
  note parts = sections_of_parts [OF r(3)]
  obtain s where "s \<in> set (sections_of doc)" "se_start_offset s \<le> p" "p < se_end_offset s"
    using tile_point [OF sections_of_tile [OF r(3)]] assms(2) by auto
  then show ?thesis
    using leaves_from_ok [OF r(2), of "sections_of doc" doc "nat overlap" 0] parts assms(3) unfolding r(1,4)
    by (fastforce simp: covers_text_def)
qed

definition flat_chunk :: "LeafChunk \<Rightarrow> TextChunk" where
  "flat_chunk l = \<lparr>tc_seq = lf_seq l, tc_start_offset = lf_start_offset l, tc_end_offset = lf_end_offset l,
     tc_content = lf_content l\<rparr>"

lemma chunk_from_split:
  "chunk_from doc m ov seq start = map flat_chunk (split_section doc m ov i path (length doc) seq start)"
proof (induction doc m ov seq start rule: chunk_from.induct)
  case (1 doc m ov seq start)
  show ?case
    using "1" by (subst chunk_from.simps, subst split_section.simps) (simp add: Let_def flat_chunk_def)
qed

text \<open>C32: The two chunkers agree. On a document without headings the flat chunker returns exactly the
  chunks of the structured one - same numbers, offsets and contents, and the same error on a window that
  is not positive or not longer than the overlap.\<close>

theorem flat_equals_structured:
  assumes "headings_from 0 (u_splitlines doc) = []"
  shows "chunk_text max_chars overlap doc
    = (case structure_aware_chunks max_chars overlap doc of
         Inl e \<Rightarrow> Inl e | Inr r \<Rightarrow> Inr (map flat_chunk (cr_chunks r)))"
  using assms chunk_from_split
  by (simp add: chunk_text_def structure_aware_chunks_def sections_of_def Let_def)

text \<open>A word makes a heading. The test that a line opening with a heading word also carries a number lets
  every line through that opens with the capitalised words for item (U+004D U+1EE5 U+0063) or
  chapter: their own first letters are Roman numerals to it. So a sentence that opens with either
  word starts a section, at level 3 or 2, whatever follows.\<close>

theorem capital_words_make_headings:
  assumes "u_strip line = word @ rest" "word = [77, 7909, 99, 32] \<or> word = [67, 104, 432, 417, 110, 103, 32]"
  shows "heading_level line = Some (if length word = 4 then 3 else 2)"
  using assms by (auto simp: heading_level_def HEADING_PREFIXES_def starts_with_def numbered_def)

section \<open>Witnesses\<close>

text \<open>A heading line with a number, a line of text, and a line that is one word too long for the window.\<close>

definition demo_text :: utext where
  "demo_text = [35, 65, 10, 98, 98, 32, 98, 98, 98, 10]"

lemma demo_chunked: "\<exists>r. structure_aware_chunks 5 1 demo_text = Inr r \<and> cr_sections r = sections_of demo_text"
  by (simp add: structure_aware_chunks_def bad_window_def u_strip_Nil Let_def demo_text_def u_space_def)

theorem chunks_are_spans_witness:
  "\<exists>r. structure_aware_chunks 5 1 demo_text = Inr r \<and> (\<forall>l \<in> set (cr_chunks r). lf_end_offset l - lf_start_offset l \<le> 5)
     \<and> map lf_seq (cr_chunks r) = [0..<length (cr_chunks r)]"
proof -
  obtain r where r: "structure_aware_chunks 5 1 demo_text = Inr r" using demo_chunked by blast
  show ?thesis using chunks_are_spans [OF r] r by fastforce
qed

theorem chunks_cover_document_witness:
  "\<exists>r. structure_aware_chunks 5 1 demo_text = Inr r
     \<and> (\<exists>l \<in> set (cr_chunks r). lf_start_offset l \<le> 7 \<and> 7 < lf_end_offset l)"
proof -
  obtain r where r: "structure_aware_chunks 5 1 demo_text = Inr r" using demo_chunked by blast
  have "7 < length demo_text" "\<not> u_space (demo_text ! 7)" by (simp_all add: demo_text_def u_space_def)
  from chunks_cover_document [OF r this] r show ?thesis by blast
qed

theorem flat_equals_structured_witness:
  "chunk_text 5 1 [98, 98] = (case structure_aware_chunks 5 1 [98, 98] of
     Inl e \<Rightarrow> Inl e | Inr r \<Rightarrow> Inr (map flat_chunk (cr_chunks r)))"
  by (rule flat_equals_structured)
    (simp add: heading_level_def HEADING_PREFIXES_def starts_with_def u_strip_def u_space_def u_break_def)

text \<open>The sentence: the item word, a space and a lower-case word without any digit.\<close>

theorem capital_words_make_headings_witness:
  "heading_level [77, 7909, 99, 32, 116, 105, 234, 117, 10] = Some 3"
  using capital_words_make_headings [of "[77, 7909, 99, 32, 116, 105, 234, 117, 10]" "[77, 7909, 99, 32]" "[116, 105, 234, 117]"]
  by (simp add: u_strip_def u_space_def)

end
