(* ===== verification/DW_Knowledge.thy ===== *)
theory DW_Knowledge
  imports Complex_Main DW_Chunking DW_Platform "HOL-Library.AList" "HOL-Library.List_Lexorder" "HOL-Library.Char_ord"
begin

text \<open>
  The knowledge plane (\<open>dw_knowledge/gateway.py\<close>, \<open>identity.py\<close>, \<open>ingest_jobs.py\<close>,
  \<open>adapters/memory_index.py\<close>, \<open>adapters/qdrant_index.py\<close>, the router \<open>routes/v1/knowledge.py\<close> and the
  worker's consumer \<open>consumers/ingest.py\<close>). Documents and their chunks are rows under row-level security;
  the vectors live in an index behind a port, and the index is not part of a transaction. The index is a
  record of operations on a state of any type; the in-memory adapter is one instance. The embedding
  model, the reranker, the parsers, the object storage, SHA-1 name hashing and the cosine are parameters.
\<close>

section \<open>Contracts and ports\<close>

record TrustedSearchFilter =
  tf_tenant_id :: uuid
  tf_workspace_id :: uuid
  tf_domain :: string
  tf_allowed_classifications :: "string list"
  tf_acl_principals :: "string list"

record IndexableChunk =
  ix_chunk_id :: uuid
  ix_document_id :: uuid
  ix_tenant_id :: uuid
  ix_workspace_id :: uuid
  ix_domain :: string
  ix_content :: utext
  ix_classification :: string
  ix_source_version :: string
  ix_index_version :: string
  ix_provenance_hash :: string
  ix_acl_principals :: "string list"
  ix_vector :: "rat list"
  ix_section_path :: utext
  ix_seq :: nat
  ix_scope :: string

record VectorHit =
  vh_chunk_id :: uuid
  vh_document_id :: uuid
  vh_score :: rat
  vh_content :: utext
  vh_classification :: string
  vh_source_version :: string
  vh_provenance_hash :: string

record KnowledgeQuery =
  kq_text :: utext
  kq_domain :: string
  kq_top_k :: nat
  kq_document_ids :: "uuid list"
  kq_min_relevance :: rat

record KnowledgeEvidence =
  kv_content :: utext
  kv_evidence_id :: uuid
  kv_source_document_id :: uuid
  kv_source_version :: string
  kv_chunk_id :: uuid
  kv_quote :: utext
  kv_relevance_score :: rat
  kv_classification :: string
  kv_provenance_hash :: string

text \<open>\<open>VectorIndexPort\<close>, and everything else the gateway is constructed with.\<close>

record 'i vector_index =
  vi_ensure_ready :: "nat \<Rightarrow> 'i \<Rightarrow> 'i result"
  vi_upsert :: "IndexableChunk list \<Rightarrow> 'i \<Rightarrow> 'i result"
  vi_delete_document :: "uuid \<Rightarrow> 'i \<Rightarrow> 'i result"
  vi_tombstone_document :: "uuid \<Rightarrow> 'i \<Rightarrow> 'i result"
  vi_search :: "rat list \<Rightarrow> TrustedSearchFilter \<Rightarrow> nat \<Rightarrow> 'i \<Rightarrow> VectorHit list result"

record 'i kports =
  kp_clock :: "nat \<Rightarrow> datetime"
  kp_ids :: "nat \<Rightarrow> uuid"
  kp_connect :: "nat \<Rightarrow> dw_error option"
  kp_put :: "nat \<Rightarrow> string \<Rightarrow> bytes \<Rightarrow> string \<Rightarrow> string result"
  kp_get :: "nat \<Rightarrow> string \<Rightarrow> bytes result"
  kp_parse :: "nat \<Rightarrow> bytes \<Rightarrow> string \<Rightarrow> string \<Rightarrow> utext result"
  kp_embed :: "nat \<Rightarrow> utext list \<Rightarrow> rat list list result"
  kp_dimension :: nat
  kp_rerank :: "(nat \<Rightarrow> utext \<Rightarrow> (uuid \<times> utext) list \<Rightarrow> nat \<Rightarrow> (uuid \<times> rat) list result) option"
  kp_rerank_fetch_multiplier :: nat
  kp_sha256 :: "bytes \<Rightarrow> string"
  kp_uuid5 :: "string \<Rightarrow> uuid"
  kp_index :: "'i vector_index"
  kp_index_fails :: "nat \<Rightarrow> dw_error option"

section \<open>Tables and sessions\<close>

record document_row =
  dr_id :: uuid
  dr_tenant_id :: uuid
  dr_workspace_id :: uuid
  dr_title :: string
  dr_domain :: string
  dr_source_uri :: string
  dr_classification :: string
  dr_source_version :: string
  dr_index_version :: "string option"
  dr_created_by :: uuid
  dr_created_at :: datetime
  dr_doc_key :: "uuid option"
  dr_status :: string
  dr_is_current :: bool
  dr_effective_from :: "datetime option"
  dr_effective_to :: "datetime option"
  dr_superseded_by :: "uuid option"
  dr_deleted_at :: "datetime option"
  dr_deleted_by :: "uuid option"
  dr_scope :: string

record chunk_row =
  ck_id :: uuid
  ck_tenant_id :: uuid
  ck_workspace_id :: uuid
  ck_document_id :: uuid
  ck_seq :: nat
  ck_content :: utext
  ck_start_offset :: nat
  ck_end_offset :: nat
  ck_provenance_hash :: string
  ck_section_path :: utext
  ck_section_index :: nat
  ck_status :: string
  ck_deleted_at :: "datetime option"

record IngestJob =
  jb_id :: uuid
  jb_tenant_id :: uuid
  jb_workspace_id :: uuid
  jb_created_by :: uuid
  jb_title :: string
  jb_domain :: string
  jb_classification :: string
  jb_source_version :: string
  jb_scope :: string
  jb_filename :: string
  jb_content_type :: string
  jb_storage_key :: string
  jb_status :: string
  jb_attempts :: nat
  jb_error :: "string option"
  jb_document_id :: "uuid option"
  jb_chunk_count :: "nat option"
  jb_created_at :: datetime
  jb_updated_at :: datetime

record kdb =
  kd_documents :: "document_row list"
  kd_chunks :: "chunk_row list"
  kd_jobs :: "IngestJob list"

record 'i kworld =
  kw_db :: kdb
  kw_tenant :: uuid
  kw_index :: 'i
  kw_blobs :: "(string \<times> bytes) list"
  kw_ready :: bool
  kw_ticks :: nat
  kw_fresh :: nat
  kw_calls :: nat

type_synonym ('i, 'a) kact = "('i kworld, 'a) act"

definition k_now :: "'i kports \<Rightarrow> ('i, datetime) kact" where
  "k_now P w = (Inr (kp_clock P (kw_ticks w)), w\<lparr>kw_ticks := Suc (kw_ticks w)\<rparr>)"

definition k_new_uuid :: "'i kports \<Rightarrow> ('i, uuid) kact" where
  "k_new_uuid P w = (Inr (kp_ids P (kw_fresh w)), w\<lparr>kw_fresh := Suc (kw_fresh w)\<rparr>)"

text \<open>A call of a port: the \<open>n\<close>-th call may answer otherwise than the others, or raise.\<close>

definition k_call :: "(nat \<Rightarrow> 'a result) \<Rightarrow> ('i, 'a) kact" where
  "k_call f w = (f (kw_calls w), w\<lparr>kw_calls := Suc (kw_calls w)\<rparr>)"

definition k_put_object :: "'i kports \<Rightarrow> string \<Rightarrow> bytes \<Rightarrow> string \<Rightarrow> ('i, string) kact" where
  "k_put_object P key data ctype w =
     (case kp_put P (kw_calls w) key data ctype of
        Inl e \<Rightarrow> (Inl e, w\<lparr>kw_calls := Suc (kw_calls w)\<rparr>)
      | Inr uri \<Rightarrow> (Inr uri, w\<lparr>kw_calls := Suc (kw_calls w), kw_blobs := (key, data) # kw_blobs w\<rparr>))"

text \<open>
  A call of the index: it may fail on its way (\<open>kp_index_fails\<close>), or the operation may raise; either way the index
  is as it was.
\<close>

definition k_index :: "'i kports \<Rightarrow> ('i \<Rightarrow> 'i result) \<Rightarrow> ('i, unit) kact" where
  "k_index P f w =
     (case kp_index_fails P (kw_calls w) of
        Some e \<Rightarrow> (Inl e, w\<lparr>kw_calls := Suc (kw_calls w)\<rparr>)
      | None \<Rightarrow>
          (case f (kw_index w) of
             Inl e \<Rightarrow> (Inl e, w\<lparr>kw_calls := Suc (kw_calls w)\<rparr>)
           | Inr i \<Rightarrow> (Inr (), w\<lparr>kw_calls := Suc (kw_calls w), kw_index := i\<rparr>)))"

definition k_index_search ::
  "'i kports \<Rightarrow> rat list \<Rightarrow> TrustedSearchFilter \<Rightarrow> nat \<Rightarrow> ('i, VectorHit list) kact" where
  "k_index_search P v tf k w =
     (case kp_index_fails P (kw_calls w) of
        Some e \<Rightarrow> (Inl e, w\<lparr>kw_calls := Suc (kw_calls w)\<rparr>)
      | None \<Rightarrow> (vi_search (kp_index P) v tf k (kw_index w), w\<lparr>kw_calls := Suc (kw_calls w)\<rparr>))"

text \<open>
  \<open>async with session_factory() as session, session.begin()\<close> with \<open>app.tenant_id\<close> set: the statements are
  committed when the block ends and rolled back when it raises.
\<close>

definition k_tx :: "'i kports \<Rightarrow> uuid \<Rightarrow> ('i, 'a) kact \<Rightarrow> ('i, 'a) kact" where
  "k_tx P tenant body w =
     (case kp_connect P (kw_calls w) of
        Some e \<Rightarrow> (Inl e, w\<lparr>kw_calls := Suc (kw_calls w)\<rparr>)
      | None \<Rightarrow>
          (case body (w\<lparr>kw_calls := Suc (kw_calls w), kw_tenant := tenant\<rparr>) of
             (Inl e, v) \<Rightarrow> (Inl e, v\<lparr>kw_db := kw_db w\<rparr>)
           | (Inr a, v) \<Rightarrow> (Inr a, v)))"

text \<open>
  Row-level security: a statement changes rows of the session's tenant only; documents of global scope can be
  read by every tenant. An update returns the ids it hit.
\<close>

definition k_update_documents ::
  "(document_row \<Rightarrow> bool) \<Rightarrow> (document_row \<Rightarrow> document_row) \<Rightarrow> ('i, uuid list) kact" where
  "k_update_documents p f w =
     (let hit = (\<lambda>d. dr_tenant_id d = kw_tenant w \<and> p d); docs = kd_documents (kw_db w)
      in (Inr (map dr_id (filter hit docs)),
          w\<lparr>kw_db := (kw_db w)\<lparr>kd_documents := map (\<lambda>d. if hit d then f d else d) docs\<rparr>\<rparr>))"

definition k_update_chunks :: "(chunk_row \<Rightarrow> bool) \<Rightarrow> (chunk_row \<Rightarrow> chunk_row) \<Rightarrow> ('i, unit) kact" where
  "k_update_chunks p f w =
     (Inr (), w\<lparr>kw_db := (kw_db w)\<lparr>kd_chunks :=
        map (\<lambda>c. if ck_tenant_id c = kw_tenant w \<and> p c then f c else c) (kd_chunks (kw_db w))\<rparr>\<rparr>)"

definition k_delete_documents :: "(document_row \<Rightarrow> bool) \<Rightarrow> ('i, unit) kact" where
  "k_delete_documents p w =
     (Inr (), w\<lparr>kw_db := (kw_db w)\<lparr>kd_documents :=
        filter (\<lambda>d. \<not> (dr_tenant_id d = kw_tenant w \<and> p d)) (kd_documents (kw_db w))\<rparr>\<rparr>)"

definition k_delete_chunks :: "(chunk_row \<Rightarrow> bool) \<Rightarrow> ('i, unit) kact" where
  "k_delete_chunks p w =
     (Inr (), w\<lparr>kw_db := (kw_db w)\<lparr>kd_chunks :=
        filter (\<lambda>c. \<not> (ck_tenant_id c = kw_tenant w \<and> p c)) (kd_chunks (kw_db w))\<rparr>\<rparr>)"

definition rls_violation :: dw_error where
  "rls_violation = Err OtherException ''new row violates row-level security policy''"

text \<open>\<open>INSERT ... ON CONFLICT (id) DO UPDATE\<close>: the conflicting row must be one the tenant may update.\<close>

definition refreshed :: "document_row \<Rightarrow> document_row \<Rightarrow> document_row" where
  "refreshed row d = d\<lparr>dr_title := dr_title row, dr_index_version := dr_index_version row,
     dr_classification := dr_classification row, dr_scope := dr_scope row, dr_status := ''active'',
     dr_is_current := True, dr_effective_to := None, dr_deleted_at := None, dr_deleted_by := None\<rparr>"

definition k_upsert_document :: "document_row \<Rightarrow> ('i, unit) kact" where
  "k_upsert_document row w =
     (let docs = kd_documents (kw_db w) in
      if dr_tenant_id row \<noteq> kw_tenant w then (Inl rls_violation, w)
      else case find (\<lambda>d. dr_id d = dr_id row) docs of
          None \<Rightarrow> (Inr (), w\<lparr>kw_db := (kw_db w)\<lparr>kd_documents := docs @ [row]\<rparr>\<rparr>)
        | Some d \<Rightarrow>
            if dr_tenant_id d \<noteq> kw_tenant w then (Inl rls_violation, w)
            else (Inr (), w\<lparr>kw_db := (kw_db w)\<lparr>kd_documents :=
                    map (\<lambda>d. if dr_id d = dr_id row then refreshed row d else d) docs\<rparr>\<rparr>))"

definition k_insert_chunk :: "chunk_row \<Rightarrow> ('i, unit) kact" where
  "k_insert_chunk row w =
     (if ck_tenant_id row \<noteq> kw_tenant w then (Inl rls_violation, w)
      else if ck_id row \<in> ck_id ` set (kd_chunks (kw_db w))
      then (Inl (Err DbIntegrityError ''duplicate key value''), w)
      else (Inr (), w\<lparr>kw_db := (kw_db w)\<lparr>kd_chunks := kd_chunks (kw_db w) @ [row]\<rparr>\<rparr>))"

section \<open>Identity\<close>

definition colon_join :: "string list \<Rightarrow> string" where
  "colon_join = py_join '':''"

definition document_id_for ::
  "'i kports \<Rightarrow> uuid \<Rightarrow> uuid \<Rightarrow> string \<Rightarrow> string \<Rightarrow> string \<Rightarrow> string \<Rightarrow> uuid" where
  "document_id_for P tenant workspace domain title version scope =
     kp_uuid5 P (if scope = ''global'' then colon_join [''doc'', ''global'', domain, py_strip title, version]
                 else colon_join [''doc'', scope, tenant, workspace, domain, py_strip title, version])"

definition doc_key_for :: "'i kports \<Rightarrow> uuid \<Rightarrow> uuid \<Rightarrow> string \<Rightarrow> string \<Rightarrow> string \<Rightarrow> uuid" where
  "doc_key_for P tenant workspace domain title scope =
     kp_uuid5 P (if scope = ''global'' then colon_join [''dockey'', ''global'', domain, py_strip title]
                 else colon_join [''dockey'', tenant, workspace, domain, py_strip title])"

definition chunk_id_for :: "'i kports \<Rightarrow> uuid \<Rightarrow> string \<Rightarrow> nat \<Rightarrow> uuid" where
  "chunk_id_for P document_id index_version seq =
     kp_uuid5 P (colon_join [''chunk'', document_id, index_version, nat_str seq])"

text \<open>\<open>content.encode("utf-8")\<close>, for code points that are not surrogates.\<close>

definition utf8_point :: "nat \<Rightarrow> bytes" where
  "utf8_point c =
     (if c < 128 then [char_of c]
      else if c < 2048 then [char_of (192 + c div 64), char_of (128 + c mod 64)]
      else if c < 65536 then [char_of (224 + c div 4096), char_of (128 + c div 64 mod 64), char_of (128 + c mod 64)]
      else [char_of (240 + c div 262144), char_of (128 + c div 4096 mod 64), char_of (128 + c div 64 mod 64),
            char_of (128 + c mod 64)])"

definition u_utf8 :: "utext \<Rightarrow> bytes" where
  "u_utf8 s = concat (map utf8_point s)"

definition provenance_hash :: "'i kports \<Rightarrow> utext \<Rightarrow> string" where
  "provenance_hash P content = kp_sha256 P (u_utf8 content)"

section \<open>Clearance and the trusted filter\<close>

definition CLASSIFICATION_LADDER :: "string list" where
  "CLASSIFICATION_LADDER = [''internal'', ''confidential'', ''restricted'']"

definition clearance_allows :: "string \<Rightarrow> string list" where
  "clearance_allows clearance =
     (if clearance \<notin> set CLASSIFICATION_LADDER then take 1 CLASSIFICATION_LADDER
      else takeWhile (\<lambda>c. c \<noteq> clearance) CLASSIFICATION_LADDER @ [clearance])"

definition build_trusted_filter :: "AccessContext \<Rightarrow> string \<Rightarrow> TrustedSearchFilter" where
  "build_trusted_filter x domain =
     \<lparr>tf_tenant_id = x_tenant_id x, tf_workspace_id = x_workspace_id x, tf_domain = domain,
      tf_allowed_classifications = clearance_allows (x_clearance x),
      tf_acl_principals = [''user:'' @ x_principal_id x, ''tenant:*''] @ map (\<lambda>r. ''role:'' @ r) (sorted_list_of_set (x_roles x))\<rparr>"

section \<open>The in-memory index\<close>

record memory_index =
  mi_chunks :: "(uuid \<times> IndexableChunk) list"
  mi_tombstoned :: "uuid set"

fun mem_upsert :: "IndexableChunk list \<Rightarrow> memory_index \<Rightarrow> memory_index" where
  "mem_upsert [] i = i"
| "mem_upsert (c # cs) i =
     mem_upsert cs (i\<lparr>mi_chunks := AList.update (ix_chunk_id c) c (mi_chunks i),
                      mi_tombstoned := mi_tombstoned i - {ix_document_id c}\<rparr>)"

definition mem_delete_document :: "uuid \<Rightarrow> memory_index \<Rightarrow> memory_index" where
  "mem_delete_document d i = i\<lparr>mi_chunks := filter (\<lambda>(k, c). ix_document_id c \<noteq> d) (mi_chunks i),
     mi_tombstoned := mi_tombstoned i - {d}\<rparr>"

definition mem_tombstone_document :: "uuid \<Rightarrow> memory_index \<Rightarrow> memory_index" where
  "mem_tombstone_document d i = i\<lparr>mi_tombstoned := insert d (mi_tombstoned i)\<rparr>"

definition admits :: "TrustedSearchFilter \<Rightarrow> IndexableChunk \<Rightarrow> bool" where
  "admits tf c =
     ((ix_tenant_id c = tf_tenant_id tf \<and> ix_workspace_id c = tf_workspace_id tf \<or> ix_scope c = ''global'')
      \<and> ix_classification c \<in> set (tf_allowed_classifications tf)
      \<and> (\<exists>p \<in> set (ix_acl_principals c). p \<in> set (tf_acl_principals tf))
      \<and> (tf_domain tf = ''shared'' \<or> ix_domain c \<in> {tf_domain tf, ''shared''}))"

definition hit_of :: "IndexableChunk \<Rightarrow> rat \<Rightarrow> VectorHit" where
  "hit_of c score = \<lparr>vh_chunk_id = ix_chunk_id c, vh_document_id = ix_document_id c, vh_score = score,
     vh_content = ix_content c, vh_classification = ix_classification c, vh_source_version = ix_source_version c,
     vh_provenance_hash = ix_provenance_hash c\<rparr>"

definition mem_search ::
  "(rat list \<Rightarrow> rat list \<Rightarrow> rat) \<Rightarrow> rat list \<Rightarrow> TrustedSearchFilter \<Rightarrow> nat \<Rightarrow> memory_index \<Rightarrow> VectorHit list" where
  "mem_search cosine v tf k i =
     take k (sort_key (\<lambda>h. - vh_score h)
       (map (\<lambda>c. hit_of c (cosine v (ix_vector c)))
         (filter (\<lambda>c. ix_document_id c \<notin> mi_tombstoned i \<and> admits tf c) (map snd (mi_chunks i)))))"

definition memory_adapter :: "(rat list \<Rightarrow> rat list \<Rightarrow> rat) \<Rightarrow> memory_index vector_index" where
  "memory_adapter cosine = \<lparr>vi_ensure_ready = (\<lambda>_ i. Inr i), vi_upsert = (\<lambda>cs i. Inr (mem_upsert cs i)),
     vi_delete_document = (\<lambda>d i. Inr (mem_delete_document d i)),
     vi_tombstone_document = (\<lambda>d i. Inr (mem_tombstone_document d i)),
     vi_search = (\<lambda>v tf k i. Inr (mem_search cosine v tf k i))\<rparr>"


section \<open>Ingestion\<close>

definition INDEX_VERSION :: string where
  "INDEX_VERSION = ''2026-07-25.structure-1''"

record IngestDocumentCommand =
  ic_title :: string
  ic_content :: utext
  ic_domain :: string
  ic_classification :: string
  ic_source_version :: string
  ic_content_type :: string
  ic_scope :: string

text \<open>The pydantic constructor: title and content have at least one character.\<close>

definition mk_IngestDocumentCommand :: "IngestDocumentCommand \<Rightarrow> IngestDocumentCommand result" where
  "mk_IngestDocumentCommand cmd =
     (if ic_title cmd = '''' \<or> ic_content cmd = []
      then Inl (Err PydanticValidationError ''String should have at least 1 character'') else Inr cmd)"

record IngestedDocument =
  in_document_id :: uuid
  in_chunk_count :: nat
  in_storage_key :: string

definition ensure_ready :: "'i kports \<Rightarrow> ('i, unit) kact" where
  "ensure_ready P =
     act_bind (act_get kw_ready) (\<lambda>ready.
       if ready then act_ret ()
       else act_bind (k_index P (vi_ensure_ready (kp_index P) (kp_dimension P))) (\<lambda>_.
            act_modify (\<lambda>w. w\<lparr>kw_ready := True\<rparr>)))"

definition document_of ::
  "IngestDocumentCommand \<Rightarrow> AccessContext \<Rightarrow> uuid \<Rightarrow> uuid \<Rightarrow> string \<Rightarrow> datetime \<Rightarrow> document_row" where
  "document_of cmd x document_id doc_key source_uri now =
     \<lparr>dr_id = document_id, dr_tenant_id = x_tenant_id x, dr_workspace_id = x_workspace_id x, dr_title = ic_title cmd,
      dr_domain = ic_domain cmd, dr_source_uri = source_uri, dr_classification = ic_classification cmd,
      dr_source_version = ic_source_version cmd, dr_index_version = Some INDEX_VERSION,
      dr_created_by = x_principal_id x, dr_created_at = now, dr_doc_key = Some doc_key, dr_status = ''active'',
      dr_is_current = True, dr_effective_from = Some now, dr_effective_to = None, dr_superseded_by = None,
      dr_deleted_at = None, dr_deleted_by = None, dr_scope = ic_scope cmd\<rparr>"

definition chunk_of :: "'i kports \<Rightarrow> AccessContext \<Rightarrow> uuid \<Rightarrow> LeafChunk \<Rightarrow> chunk_row" where
  "chunk_of P x document_id leaf =
     \<lparr>ck_id = chunk_id_for P document_id INDEX_VERSION (lf_seq leaf), ck_tenant_id = x_tenant_id x,
      ck_workspace_id = x_workspace_id x, ck_document_id = document_id, ck_seq = lf_seq leaf,
      ck_content = lf_content leaf, ck_start_offset = lf_start_offset leaf, ck_end_offset = lf_end_offset leaf,
      ck_provenance_hash = provenance_hash P (lf_content leaf), ck_section_path = lf_section_path leaf,
      ck_section_index = lf_section_index leaf, ck_status = ''active'', ck_deleted_at = None\<rparr>"

definition indexable_of ::
  "'i kports \<Rightarrow> IngestDocumentCommand \<Rightarrow> AccessContext \<Rightarrow> uuid \<Rightarrow> LeafChunk \<Rightarrow> rat list \<Rightarrow> IndexableChunk" where
  "indexable_of P cmd x document_id leaf vector =
     \<lparr>ix_chunk_id = chunk_id_for P document_id INDEX_VERSION (lf_seq leaf), ix_document_id = document_id,
      ix_tenant_id = x_tenant_id x, ix_workspace_id = x_workspace_id x, ix_domain = ic_domain cmd,
      ix_content = lf_content leaf, ix_classification = ic_classification cmd,
      ix_source_version = ic_source_version cmd, ix_index_version = INDEX_VERSION,
      ix_provenance_hash = provenance_hash P (lf_content leaf), ix_acl_principals = [''tenant:*''],
      ix_vector = vector, ix_section_path = lf_section_path leaf, ix_seq = lf_seq leaf, ix_scope = ic_scope cmd\<rparr>"

definition superseded_by_row :: "uuid \<Rightarrow> datetime \<Rightarrow> document_row \<Rightarrow> document_row" where
  "superseded_by_row document_id now d = d\<lparr>dr_is_current := False, dr_status := ''superseded'',
     dr_effective_to := Some now, dr_superseded_by := Some document_id\<rparr>"

definition ingest_tx :: "'i kports \<Rightarrow> document_row \<Rightarrow> chunk_row list \<Rightarrow> datetime \<Rightarrow> ('i, uuid list) kact" where
  "ingest_tx P row rows now =
     act_bind (k_update_documents (\<lambda>d. dr_doc_key d = dr_doc_key row \<and> dr_is_current d \<and> dr_id d \<noteq> dr_id row)
                 (superseded_by_row (dr_id row) now)) (\<lambda>old.
     act_bind (act_when (old \<noteq> []) (k_update_chunks (\<lambda>c. ck_document_id c \<in> set old)
                 (\<lambda>c. c\<lparr>ck_status := ''superseded''\<rparr>))) (\<lambda>_.
     act_bind (k_upsert_document row) (\<lambda>_.
     act_bind (k_delete_chunks (\<lambda>c. ck_document_id c = dr_id row)) (\<lambda>_.
     act_bind (act_for rows k_insert_chunk) (\<lambda>_.
     act_ret old)))))"

text \<open>Embedding the leaves and storing the points; nothing to do for a blank document.\<close>

definition index_leaves ::
  "'i kports \<Rightarrow> IngestDocumentCommand \<Rightarrow> AccessContext \<Rightarrow> uuid \<Rightarrow> LeafChunk list \<Rightarrow> ('i, unit) kact" where
  "index_leaves P cmd x document_id leaves =
     (if leaves = [] then act_ret ()
      else act_bind (k_call (\<lambda>n. kp_embed P n (map contextual_text leaves))) (\<lambda>vectors.
           act_bind (act_require (length vectors = length leaves) PyValueError ''zip() argument 3 has another length'') (\<lambda>_.
           k_index P (vi_upsert (kp_index P)
             (map (\<lambda>(leaf, vector). indexable_of P cmd x document_id leaf vector) (zip leaves vectors))))))"

definition command_document_id :: "'i kports \<Rightarrow> IngestDocumentCommand \<Rightarrow> AccessContext \<Rightarrow> uuid" where
  "command_document_id P cmd x = document_id_for P (x_tenant_id x) (x_workspace_id x) (ic_domain cmd) (ic_title cmd)
     (ic_source_version cmd) (ic_scope cmd)"

definition command_doc_key :: "'i kports \<Rightarrow> IngestDocumentCommand \<Rightarrow> AccessContext \<Rightarrow> uuid" where
  "command_doc_key P cmd x = doc_key_for P (x_tenant_id x) (x_workspace_id x) (ic_domain cmd) (ic_title cmd) (ic_scope cmd)"

definition ingest_document ::
  "'i kports \<Rightarrow> IngestDocumentCommand \<Rightarrow> AccessContext \<Rightarrow> ('i, IngestedDocument) kact" where
  "ingest_document P cmd x =
     (let document_id = command_document_id P cmd x;
          storage_key = x_tenant_id x @ ''/'' @ x_workspace_id x @ ''/documents/'' @ document_id in
      act_bind (ensure_ready P) (\<lambda>_.
      act_bind (k_put_object P storage_key (u_utf8 (ic_content cmd)) (ic_content_type cmd)) (\<lambda>source_uri.
      act_bind (act_lift (structure_aware_chunks 1200 150 (ic_content cmd))) (\<lambda>result.
      act_bind (k_now P) (\<lambda>now.
      act_bind (k_tx P (x_tenant_id x)
        (ingest_tx P (document_of cmd x document_id (command_doc_key P cmd x) source_uri now)
           (map (chunk_of P x document_id) (cr_chunks result)) now)) (\<lambda>superseded.
      act_bind (act_for superseded (\<lambda>old. k_index P (vi_tombstone_document (kp_index P) old))) (\<lambda>_.
      act_bind (k_index P (vi_delete_document (kp_index P) document_id)) (\<lambda>_.
      act_bind (index_leaves P cmd x document_id (cr_chunks result)) (\<lambda>_.
      act_ret \<lparr>in_document_id = document_id, in_chunk_count = length (cr_chunks result),
               in_storage_key = storage_key\<rparr>)))))))))"

section \<open>Listing, deleting, purging\<close>

record DocumentInfo =
  do_document_id :: uuid
  do_title :: string
  do_domain :: string
  do_classification :: string
  do_source_version :: string
  do_index_version :: "string option"
  do_chunk_count :: nat
  do_created_at :: datetime
  do_scope :: string

definition document_readable :: "'i kworld \<Rightarrow> document_row \<Rightarrow> bool" where
  "document_readable w d = (dr_tenant_id d = kw_tenant w \<or> dr_scope d = ''global'')"

definition document_info :: "'i kworld \<Rightarrow> document_row \<Rightarrow> DocumentInfo" where
  "document_info w d =
     \<lparr>do_document_id = dr_id d, do_title = dr_title d, do_domain = dr_domain d,
      do_classification = dr_classification d, do_source_version = dr_source_version d,
      do_index_version = dr_index_version d,
      do_chunk_count = length (filter (\<lambda>c. ck_tenant_id c = kw_tenant w \<and> ck_document_id c = dr_id d) (kd_chunks (kw_db w))),
      do_created_at = dr_created_at d, do_scope = dr_scope d\<rparr>"

definition list_documents :: "'i kports \<Rightarrow> nat \<Rightarrow> AccessContext \<Rightarrow> ('i, DocumentInfo list) kact" where
  "list_documents P limit x = k_tx P (x_tenant_id x) (act_get (\<lambda>w.
     map (document_info w) (take limit (sort_key (\<lambda>d. - dr_created_at d)
       (filter (\<lambda>d. document_readable w d \<and> (dr_workspace_id d = x_workspace_id x \<or> dr_scope d = ''global'')
                     \<and> dr_status d = ''active'') (kd_documents (kw_db w)))))))"

definition soft_delete_tx :: "'i kports \<Rightarrow> uuid \<Rightarrow> AccessContext \<Rightarrow> ('i, unit) kact" where
  "soft_delete_tx P document_id x =
     act_bind (k_now P) (\<lambda>at1.
     act_bind (k_update_documents (\<lambda>d. dr_id d = document_id)
        (\<lambda>d. d\<lparr>dr_status := ''deleted'', dr_is_current := False, dr_deleted_at := Some at1,
               dr_deleted_by := Some (x_principal_id x)\<rparr>)) (\<lambda>_.
     act_bind (k_now P) (\<lambda>at2.
     k_update_chunks (\<lambda>c. ck_document_id c = document_id)
        (\<lambda>c. c\<lparr>ck_status := ''deleted'', ck_deleted_at := Some at2\<rparr>))))"

definition soft_delete_document :: "'i kports \<Rightarrow> uuid \<Rightarrow> AccessContext \<Rightarrow> ('i, unit) kact" where
  "soft_delete_document P document_id x =
     act_bind (k_tx P (x_tenant_id x) (soft_delete_tx P document_id x)) (\<lambda>_.
     k_index P (vi_tombstone_document (kp_index P) document_id))"

definition older :: "datetime option \<Rightarrow> datetime \<Rightarrow> bool" where
  "older t before = (case t of Some u \<Rightarrow> u < before | None \<Rightarrow> False)"

definition purge_tx :: "datetime \<Rightarrow> ('i, uuid list) kact" where
  "purge_tx before =
     act_bind (act_get (\<lambda>w. map dr_id (filter (\<lambda>d. document_readable w d \<and> dr_status d \<in> {''deleted'', ''superseded''}
          \<and> (older (dr_deleted_at d) before \<or> older (dr_effective_to d) before)) (kd_documents (kw_db w))))) (\<lambda>ids.
     act_bind (act_when (ids \<noteq> [])
        (act_bind (k_delete_chunks (\<lambda>c. ck_document_id c \<in> set ids)) (\<lambda>_.
         k_delete_documents (\<lambda>d. dr_id d \<in> set ids)))) (\<lambda>_.
     act_ret ids))"

definition purge_soft_deleted :: "'i kports \<Rightarrow> datetime \<Rightarrow> AccessContext \<Rightarrow> ('i, nat) kact" where
  "purge_soft_deleted P before x =
     act_bind (k_tx P (x_tenant_id x) (purge_tx before)) (\<lambda>ids.
     act_bind (act_for ids (\<lambda>i. k_index P (vi_delete_document (kp_index P) i))) (\<lambda>_.
     act_ret (length ids)))"

section \<open>Retrieval\<close>

definition hash_ok :: "string \<Rightarrow> bool" where
  "hash_ok h = (length h = 64 \<and> (\<forall>c \<in> set h. c \<in> set ''0123456789abcdef''))"

definition evidence_of :: "VectorHit \<Rightarrow> rat \<Rightarrow> uuid \<Rightarrow> KnowledgeEvidence result" where
  "evidence_of h score i =
     (if hash_ok (vh_provenance_hash h)
      then Inr \<lparr>kv_content = vh_content h, kv_evidence_id = i, kv_source_document_id = vh_document_id h,
                kv_source_version = vh_source_version h, kv_chunk_id = vh_chunk_id h, kv_quote = take 280 (vh_content h),
                kv_relevance_score = max 0 (min 1 score), kv_classification = vh_classification h,
                kv_provenance_hash = vh_provenance_hash h\<rparr>
      else Inl (Err PydanticValidationError ''provenance_hash''))"

definition hit_score :: "(uuid \<times> rat) list \<Rightarrow> VectorHit \<Rightarrow> rat" where
  "hit_score scores h = (case map_of (rev scores) (vh_chunk_id h) of Some s \<Rightarrow> s | None \<Rightarrow> vh_score h)"

fun collect_evidence :: "'i kports \<Rightarrow> rat \<Rightarrow> (uuid \<times> rat) list \<Rightarrow> VectorHit list \<Rightarrow> ('i, KnowledgeEvidence list) kact" where
  "collect_evidence P least scores [] = act_ret []"
| "collect_evidence P least scores (h # hs) =
     (if hit_score scores h < least then collect_evidence P least scores hs
      else act_bind (k_new_uuid P) (\<lambda>i.
           act_bind (act_lift (evidence_of h (hit_score scores h) i)) (\<lambda>e.
           act_bind (collect_evidence P least scores hs) (\<lambda>es.
           act_ret (e # es)))))"

definition reranked :: "VectorHit list \<Rightarrow> (uuid \<times> rat) list \<Rightarrow> VectorHit list" where
  "reranked hits ranked = concat (map (\<lambda>(i, _).
     case map_of (rev (map (\<lambda>h. (vh_chunk_id h, h)) hits)) i of Some h \<Rightarrow> [h] | None \<Rightarrow> []) ranked)"

definition rank_hits :: "'i kports \<Rightarrow> KnowledgeQuery \<Rightarrow> VectorHit list \<Rightarrow> ('i, VectorHit list \<times> (uuid \<times> rat) list) kact" where
  "rank_hits P q hits =
     (case kp_rerank P of
        Some rerank \<Rightarrow>
          if hits = [] then act_ret (take (kq_top_k q) hits, [])
          else act_bind (k_call (\<lambda>n. rerank n (kq_text q) (map (\<lambda>h. (vh_chunk_id h, vh_content h)) hits) (kq_top_k q)))
                 (\<lambda>ranked. act_ret (reranked hits ranked, ranked))
      | None \<Rightarrow> act_ret (take (kq_top_k q) hits, []))"

definition knowledge_search :: "'i kports \<Rightarrow> KnowledgeQuery \<Rightarrow> AccessContext \<Rightarrow> ('i, KnowledgeEvidence list) kact" where
  "knowledge_search P q x =
     (let tf = build_trusted_filter x (kq_domain q) in
      act_bind (k_call (\<lambda>n. kp_embed P n [kq_text q])) (\<lambda>vectors.
      act_bind (act_require (vectors \<noteq> []) PyIndexError ''list index out of range'') (\<lambda>_.
      act_bind (k_index_search P (hd vectors) tf
         (if kp_rerank P = None then kq_top_k q else kq_top_k q * kp_rerank_fetch_multiplier P)) (\<lambda>found.
      let hits = (if kq_document_ids q = [] then found
                  else filter (\<lambda>h. vh_document_id h \<in> set (kq_document_ids q)) found) in
      act_bind (rank_hits P q hits) (\<lambda>(hits, scores).
      collect_evidence P (kq_min_relevance q) scores hits)))))"

section \<open>The ingest queue\<close>

record EnqueueIngestCommand =
  eq_title :: string
  eq_filename :: string
  eq_content_type :: string
  eq_domain :: string
  eq_classification :: string
  eq_source_version :: string
  eq_scope :: string

definition mk_EnqueueIngestCommand :: "EnqueueIngestCommand \<Rightarrow> EnqueueIngestCommand result" where
  "mk_EnqueueIngestCommand cmd =
     (if eq_title cmd = '''' \<or> eq_filename cmd = ''''
      then Inl (Err PydanticValidationError ''String should have at least 1 character'') else Inr cmd)"

definition queued_job ::
  "EnqueueIngestCommand \<Rightarrow> AccessContext \<Rightarrow> string \<Rightarrow> uuid \<Rightarrow> datetime \<Rightarrow> IngestJob" where
  "queued_job cmd x storage_key job_id now =
     \<lparr>jb_id = job_id, jb_tenant_id = x_tenant_id x, jb_workspace_id = x_workspace_id x,
      jb_created_by = x_principal_id x, jb_title = eq_title cmd, jb_domain = eq_domain cmd,
      jb_classification = eq_classification cmd, jb_source_version = eq_source_version cmd, jb_scope = eq_scope cmd,
      jb_filename = eq_filename cmd, jb_content_type = eq_content_type cmd, jb_storage_key = storage_key,
      jb_status = ''queued'', jb_attempts = 0, jb_error = None, jb_document_id = None, jb_chunk_count = None,
      jb_created_at = now, jb_updated_at = now\<rparr>"

definition k_insert_job :: "IngestJob \<Rightarrow> ('i, unit) kact" where
  "k_insert_job j w =
     (if jb_tenant_id j \<noteq> kw_tenant w then (Inl rls_violation, w)
      else if jb_id j \<in> jb_id ` set (kd_jobs (kw_db w)) then (Inl (Err DbIntegrityError ''duplicate key value''), w)
      else (Inr (), w\<lparr>kw_db := (kw_db w)\<lparr>kd_jobs := kd_jobs (kw_db w) @ [j]\<rparr>\<rparr>))"

definition k_update_jobs :: "uuid \<Rightarrow> (IngestJob \<Rightarrow> IngestJob) \<Rightarrow> ('i, unit) kact" where
  "k_update_jobs i f w =
     (Inr (), w\<lparr>kw_db := (kw_db w)\<lparr>kd_jobs :=
        map (\<lambda>j. if jb_tenant_id j = kw_tenant w \<and> jb_id j = i then f j else j) (kd_jobs (kw_db w))\<rparr>\<rparr>)"

definition enqueue_ingest ::
  "'i kports \<Rightarrow> EnqueueIngestCommand \<Rightarrow> string \<Rightarrow> uuid option \<Rightarrow> AccessContext \<Rightarrow> ('i, uuid) kact" where
  "enqueue_ingest P cmd storage_key job_id x =
     act_bind (case job_id of Some i \<Rightarrow> act_ret i | None \<Rightarrow> k_new_uuid P) (\<lambda>i.
     act_bind (k_now P) (\<lambda>now.
     act_bind (k_tx P (x_tenant_id x) (k_insert_job (queued_job cmd x storage_key i now))) (\<lambda>_.
     act_ret i)))"

definition get_ingest_job :: "'i kports \<Rightarrow> uuid \<Rightarrow> AccessContext \<Rightarrow> ('i, IngestJob option) kact" where
  "get_ingest_job P i x = k_tx P (x_tenant_id x) (act_get (\<lambda>w.
     find (\<lambda>j. jb_tenant_id j = kw_tenant w \<and> jb_id j = i) (kd_jobs (kw_db w))))"

text \<open>
  The drain scan sees the jobs of every tenant. The claimed row is locked until the end of the block, so
  the two statements are one step for other workers; the value returned is the row as it was read.
\<close>

definition claim_next_job :: "'i kports \<Rightarrow> ('i, IngestJob option) kact" where
  "claim_next_job P =
     act_bind (k_now P) (\<lambda>now.
     k_tx P ''''
       (act_bind (act_get (\<lambda>w. sort_key jb_created_at (filter (\<lambda>j. jb_status j = ''queued'') (kd_jobs (kw_db w))))) (\<lambda>jobs.
        case jobs of
          [] \<Rightarrow> act_ret None
        | j # _ \<Rightarrow>
            act_bind (act_modify (\<lambda>w. w\<lparr>kw_tenant := jb_tenant_id j\<rparr>)) (\<lambda>_.
            act_bind (k_update_jobs (jb_id j)
              (\<lambda>r. r\<lparr>jb_status := ''processing'', jb_attempts := jb_attempts j + 1, jb_updated_at := now\<rparr>)) (\<lambda>_.
            act_ret (Some j))))))"

definition mark_ingest_done :: "'i kports \<Rightarrow> IngestJob \<Rightarrow> uuid \<Rightarrow> nat \<Rightarrow> ('i, unit) kact" where
  "mark_ingest_done P j document_id n =
     k_tx P (jb_tenant_id j)
       (act_bind (k_now P) (\<lambda>now.
        k_update_jobs (jb_id j) (\<lambda>r. r\<lparr>jb_status := ''done'', jb_document_id := Some document_id,
          jb_chunk_count := Some n, jb_error := None, jb_updated_at := now\<rparr>)))"

definition mark_ingest_failed :: "'i kports \<Rightarrow> IngestJob \<Rightarrow> string \<Rightarrow> ('i, unit) kact" where
  "mark_ingest_failed P j message =
     k_tx P (jb_tenant_id j)
       (act_bind (k_now P) (\<lambda>now.
        k_update_jobs (jb_id j) (\<lambda>r. r\<lparr>jb_status := ''failed'', jb_error := Some (take 2000 message),
          jb_updated_at := now\<rparr>)))"

section \<open>The worker's consumer\<close>

definition ingest_context :: "IngestJob \<Rightarrow> AccessContext" where
  "ingest_context j =
     \<lparr>x_tenant_id = jb_tenant_id j, x_workspace_id = jb_workspace_id j, x_principal_id = jb_created_by j,
      x_roles = {''system''}, x_groups = {}, x_scopes = {}, x_clearance = ''internal'', x_plan_id = ''system'',
      x_feature_flags = {}\<rparr>"

definition job_command :: "IngestJob \<Rightarrow> utext \<Rightarrow> IngestDocumentCommand" where
  "job_command j parsed =
     \<lparr>ic_title = jb_title j, ic_content = parsed, ic_domain = jb_domain j, ic_classification = jb_classification j,
      ic_source_version = jb_source_version j, ic_content_type = ''text/markdown'', ic_scope = jb_scope j\<rparr>"

definition process_ingest :: "'i kports \<Rightarrow> IngestJob \<Rightarrow> ('i, unit) kact" where
  "process_ingest P j =
     act_bind (k_call (\<lambda>n. kp_get P n (jb_storage_key j))) (\<lambda>bytes.
     act_bind (k_call (\<lambda>n. kp_parse P n bytes (jb_content_type j) (jb_filename j))) (\<lambda>parsed.
     act_bind (act_require (u_strip parsed \<noteq> []) PyValueError ''parser produced empty text'') (\<lambda>_.
     act_bind (act_lift (mk_IngestDocumentCommand (job_command j parsed))) (\<lambda>cmd.
     act_bind (ingest_document P cmd (ingest_context j)) (\<lambda>r.
     mark_ingest_done P j (in_document_id r) (in_chunk_count r))))))"

text \<open>\<open>consume\<close>: a job that fails is recorded and the queue goes on; \<open>error_text\<close> is \<open>f"{type(exc).__name__}: {exc}"\<close>.\<close>

fun consume_ingest :: "'i kports \<Rightarrow> (dw_error \<Rightarrow> string) \<Rightarrow> nat \<Rightarrow> ('i, unit) kact" where
  "consume_ingest P error_text 0 = act_ret ()"
| "consume_ingest P error_text (Suc n) =
     act_bind (claim_next_job P) (\<lambda>claimed.
       case claimed of
         None \<Rightarrow> act_ret ()
       | Some j \<Rightarrow>
           act_bind (\<lambda>w. case process_ingest P j w of
               (Inl e, w') \<Rightarrow> mark_ingest_failed P j (error_text e) w'
             | (Inr u, w') \<Rightarrow> (Inr u, w')) (\<lambda>_.
           consume_ingest P error_text n))"

section \<open>The router\<close>

definition MAX_UPLOAD_BYTES :: nat where
  "MAX_UPLOAD_BYTES = 50 * 1024 * 1024"

record UploadForm =
  uf_filename :: string
  uf_content_type :: string
  uf_data :: bytes
  uf_title :: string
  uf_domain :: string
  uf_classification :: string
  uf_source_version :: string
  uf_scope :: string

definition or_default :: "string \<Rightarrow> string \<Rightarrow> string" where
  "or_default s d = (if s = '''' then d else s)"

definition upload_command :: "UploadForm \<Rightarrow> EnqueueIngestCommand" where
  "upload_command f =
     \<lparr>eq_title = uf_title f, eq_filename = or_default (uf_filename f) ''document'',
      eq_content_type = or_default (uf_content_type f) ''application/octet-stream'', eq_domain = uf_domain f,
      eq_classification = uf_classification f, eq_source_version = uf_source_version f, eq_scope = uf_scope f\<rparr>"

definition upload_document :: "'i kports \<Rightarrow> UploadForm \<Rightarrow> AccessContext \<Rightarrow> ('i, IngestJob) kact" where
  "upload_document P f x =
     act_bind (act_lift (require_action x ''knowledge.write'')) (\<lambda>_.
     act_bind (act_require (uf_scope f \<in> {''tenant'', ''global''}) DomainError
                 (''scope must be 'tenant' or 'global'' @ [CHR 0x27])) (\<lambda>_.
     act_bind (act_require (\<not> (uf_scope f = ''global'' \<and> PLATFORM_ADMIN_ROLE \<notin> x_roles x)) PermissionDeniedError
                 ''publishing a global document requires platform_admin'') (\<lambda>_.
     act_bind (act_require (uf_data f \<noteq> []) DomainError ''uploaded file is empty'') (\<lambda>_.
     act_bind (act_require (length (uf_data f) \<le> MAX_UPLOAD_BYTES) DomainError ''file exceeds 52428800 bytes'') (\<lambda>_.
     act_bind (k_new_uuid P) (\<lambda>job_id.
     let storage_key = x_tenant_id x @ ''/'' @ x_workspace_id x @ ''/uploads/'' @ job_id @ ''/''
                         @ or_default (uf_filename f) ''document'' in
     act_bind (k_put_object P storage_key (uf_data f) (or_default (uf_content_type f) ''application/octet-stream'')) (\<lambda>_.
     act_bind (act_lift (mk_EnqueueIngestCommand (upload_command f))) (\<lambda>cmd.
     act_bind (enqueue_ingest P cmd storage_key (Some job_id) x) (\<lambda>created.
     act_bind (get_ingest_job P created x) (\<lambda>job.
     act_some job PyAssertionError ''assert job is not None''))))))))))"

definition list_documents_route :: "'i kports \<Rightarrow> nat \<Rightarrow> AccessContext \<Rightarrow> ('i, DocumentInfo list) kact" where
  "list_documents_route P limit x =
     act_bind (act_lift (require_action x ''knowledge.read'')) (\<lambda>_. list_documents P limit x)"

definition get_ingest_job_route :: "'i kports \<Rightarrow> uuid \<Rightarrow> AccessContext \<Rightarrow> ('i, IngestJob) kact" where
  "get_ingest_job_route P i x =
     act_bind (act_lift (require_action x ''knowledge.read'')) (\<lambda>_.
     act_bind (get_ingest_job P i x) (\<lambda>job.
     act_some job NotFoundError ''ingest job not found''))"

definition delete_document_route :: "'i kports \<Rightarrow> uuid \<Rightarrow> AccessContext \<Rightarrow> ('i, unit) kact" where
  "delete_document_route P document_id x =
     act_bind (act_lift (require_action x ''knowledge.write'')) (\<lambda>_. soft_delete_document P document_id x)"

section \<open>The Qdrant adapter\<close>

text \<open>The payload of a point, the filter the adapter builds, and what the adapter reads back from a point.\<close>

record point =
  pt_id :: uuid
  pt_vector :: "rat list"
  pt_tenant_id :: string
  pt_workspace_id :: string
  pt_domain :: string
  pt_resource_id :: string
  pt_source_document_id :: string
  pt_chunk_id :: string
  pt_acl_principals :: "string list"
  pt_classification :: string
  pt_source_version :: string
  pt_index_version :: string
  pt_provenance_hash :: string
  pt_content :: utext
  pt_section_path :: utext
  pt_seq :: nat
  pt_scope :: string
  pt_is_deleted :: bool

definition point_of :: "IndexableChunk \<Rightarrow> point" where
  "point_of c =
     \<lparr>pt_id = ix_chunk_id c, pt_vector = ix_vector c, pt_tenant_id = ix_tenant_id c,
      pt_workspace_id = ix_workspace_id c, pt_domain = ix_domain c, pt_resource_id = ix_document_id c,
      pt_source_document_id = ix_document_id c, pt_chunk_id = ix_chunk_id c, pt_acl_principals = ix_acl_principals c,
      pt_classification = ix_classification c, pt_source_version = ix_source_version c,
      pt_index_version = ix_index_version c, pt_provenance_hash = ix_provenance_hash c, pt_content = ix_content c,
      pt_section_path = ix_section_path c, pt_seq = ix_seq c, pt_scope = ix_scope c, pt_is_deleted = False\<rparr>"

text \<open>The keys a condition can name, and conditions as the client library writes them.\<close>

datatype point_key = K_classification | K_acl_principals | K_domain | K_tenant_id | K_workspace_id | K_scope
  | K_source_document_id

datatype condition =
    MatchValue point_key string
  | MatchAny point_key "string list"
  | IsDeleted bool
  | Filter "condition list" "condition list" "condition list"

definition search_filter :: "TrustedSearchFilter \<Rightarrow> condition" where
  "search_filter tf =
     Filter
       ([MatchAny K_classification (tf_allowed_classifications tf), MatchAny K_acl_principals (tf_acl_principals tf)]
        @ (if tf_domain tf \<noteq> ''shared'' then [MatchAny K_domain [tf_domain tf, ''shared'']] else []))
       [Filter [MatchValue K_tenant_id (tf_tenant_id tf), MatchValue K_workspace_id (tf_workspace_id tf)] [] [],
        MatchValue K_scope ''global'']
       [IsDeleted True]"

definition document_filter :: "uuid \<Rightarrow> condition" where
  "document_filter d = Filter [MatchValue K_source_document_id d] [] []"

definition hit_of_point :: "point \<Rightarrow> rat \<Rightarrow> VectorHit" where
  "hit_of_point p score = \<lparr>vh_chunk_id = pt_chunk_id p, vh_document_id = pt_source_document_id p, vh_score = score,
     vh_content = pt_content p, vh_classification = pt_classification p, vh_source_version = pt_source_version p,
     vh_provenance_hash = pt_provenance_hash p\<rparr>"

text \<open>
  The server: \<open>matches\<close> decides whether a point satisfies a condition, \<open>rank\<close> orders the points a query
  finds and gives their scores. The adapter's operations over the points of the collection.
\<close>

record qdrant_server =
  qs_matches :: "condition \<Rightarrow> point \<Rightarrow> bool"
  qs_rank :: "rat list \<Rightarrow> point list \<Rightarrow> (point \<times> rat) list"

text \<open>The collection, when it exists, has a vector size and points; without it every call of the client raises.\<close>

type_synonym collection = "(nat \<times> point list) option"

definition no_collection :: "string \<Rightarrow> dw_error" where
  "no_collection what = Err InfrastructureError what"

definition on_points :: "string \<Rightarrow> (point list \<Rightarrow> point list) \<Rightarrow> collection \<Rightarrow> collection result" where
  "on_points what f c = (case c of None \<Rightarrow> Inl (no_collection what) | Some (n, ps) \<Rightarrow> Inr (Some (n, f ps)))"

definition qd_ensure_ready :: "nat \<Rightarrow> collection \<Rightarrow> collection result" where
  "qd_ensure_ready dimension c =
     (case c of
        Some (n, ps) \<Rightarrow> if n = dimension then Inr c else Inr (Some (dimension, []))
      | None \<Rightarrow> Inr (Some (dimension, [])))"

definition put_point :: "point \<Rightarrow> point list \<Rightarrow> point list" where
  "put_point q ps = filter (\<lambda>p. pt_id p \<noteq> pt_id q) ps @ [q]"

definition qd_upsert :: "IndexableChunk list \<Rightarrow> collection \<Rightarrow> collection result" where
  "qd_upsert chunks c =
     (if chunks = [] then Inr c
      else on_points ''failed to upsert vectors'' (fold (\<lambda>ch. put_point (point_of ch)) chunks) c)"

definition qd_delete_document :: "qdrant_server \<Rightarrow> uuid \<Rightarrow> collection \<Rightarrow> collection result" where
  "qd_delete_document S d = on_points ''failed to delete document vectors''
     (filter (\<lambda>p. \<not> qs_matches S (document_filter d) p))"

definition qd_tombstone_document :: "qdrant_server \<Rightarrow> uuid \<Rightarrow> collection \<Rightarrow> collection result" where
  "qd_tombstone_document S d = on_points ''failed to tombstone document vectors''
     (map (\<lambda>p. if qs_matches S (document_filter d) p then p\<lparr>pt_is_deleted := True\<rparr> else p))"

definition qd_search ::
  "qdrant_server \<Rightarrow> rat list \<Rightarrow> TrustedSearchFilter \<Rightarrow> nat \<Rightarrow> collection
    \<Rightarrow> VectorHit list result" where
  "qd_search S v tf k c =
     (case c of
        None \<Rightarrow> Inl (no_collection ''vector search failed'')
      | Some (n, ps) \<Rightarrow> Inr (map (\<lambda>(p, s). hit_of_point p s)
          (take k (qs_rank S v (filter (qs_matches S (search_filter tf)) ps)))))"

definition qdrant_adapter :: "qdrant_server \<Rightarrow> collection vector_index" where
  "qdrant_adapter S = \<lparr>vi_ensure_ready = qd_ensure_ready, vi_upsert = qd_upsert,
     vi_delete_document = qd_delete_document S, vi_tombstone_document = qd_tombstone_document S,
     vi_search = qd_search S\<rparr>"

end
