(* ===== verification/DW_Knowledge_Props.thy ===== *)
theory DW_Knowledge_Props
  imports DW_Knowledge DW_Store_Laws
begin

text \<open>
  Properties of the knowledge plane. What the gateway needs from an index is the locale \<open>trusted_index\<close>; it is
  interpreted on the in-memory adapter, and on the Qdrant adapter for a server that evaluates filters
  the way its documentation says.
\<close>

section \<open>The contract of an index\<close>

locale trusted_index =
  fixes vi :: "'i vector_index"
    and shown :: "'i \<Rightarrow> IndexableChunk set"
  assumes search_shown: "vi_search vi v tf k i = Inr hs \<Longrightarrow> h \<in> set hs \<Longrightarrow>
      \<exists>c \<in> shown i. admits tf c \<and> (\<exists>s. h = hit_of c s)"
    and search_bound: "vi_search vi v tf k i = Inr hs \<Longrightarrow> length hs \<le> k"
    and ensure_hides: "vi_ensure_ready vi n i = Inr j \<Longrightarrow> shown j \<subseteq> shown i"
    and tombstone_hides: "vi_tombstone_document vi d i = Inr j \<Longrightarrow> shown j = {c \<in> shown i. ix_document_id c \<noteq> d}"
    and delete_hides: "vi_delete_document vi d i = Inr j \<Longrightarrow> shown j = {c \<in> shown i. ix_document_id c \<noteq> d}"
    and reindex: "vi_delete_document vi d i = Inr j \<Longrightarrow> vi_upsert vi cs j = Inr l \<Longrightarrow>
      \<forall>c \<in> set cs. ix_document_id c = d \<Longrightarrow> distinct (map ix_chunk_id cs) \<Longrightarrow>
      {c \<in> shown l. ix_document_id c = d} = set cs \<and> {c \<in> shown l. ix_document_id c \<noteq> d} \<subseteq> shown i"

section \<open>The in-memory adapter keeps it\<close>

definition memory_shown :: "memory_index \<Rightarrow> IndexableChunk set" where
  "memory_shown i = {c \<in> snd ` set (mi_chunks i). ix_document_id c \<notin> mi_tombstoned i}"

lemma set_update_subset: "set (AList.update k v al) \<subseteq> insert (k, v) (set al)"
  by (induction al) auto

lemma in_set_update: "(k, v) \<in> set (AList.update k v al)"
  by (induction al) auto

lemma set_update_other: "p \<in> set al \<Longrightarrow> fst p \<noteq> k \<Longrightarrow> p \<in> set (AList.update k v al)"
  by (induction al) auto

lemma mem_upsert_chunks:
  "set (mi_chunks (mem_upsert cs i)) \<subseteq> set (mi_chunks i) \<union> (\<lambda>c. (ix_chunk_id c, c)) ` set cs"
  by (induction cs i rule: mem_upsert.induct) (auto dest!: subsetD [OF set_update_subset])

lemma mem_upsert_tombstoned: "mi_tombstoned (mem_upsert cs i) = mi_tombstoned i - ix_document_id ` set cs"
  by (induction cs i rule: mem_upsert.induct) auto

lemma mem_upsert_other:
  "p \<in> set (mi_chunks i) \<Longrightarrow> fst p \<notin> ix_chunk_id ` set cs \<Longrightarrow> p \<in> set (mi_chunks (mem_upsert cs i))"
  by (induction cs i rule: mem_upsert.induct) (auto intro: set_update_other)

lemma mem_upsert_new:
  "distinct (map ix_chunk_id cs) \<Longrightarrow> c \<in> set cs \<Longrightarrow> (ix_chunk_id c, c) \<in> set (mi_chunks (mem_upsert cs i))"
proof (induction cs i rule: mem_upsert.induct)
  case (2 a cs i)
  show ?case
  proof (cases "c = a")
    case True
    have "fst (ix_chunk_id a, a) \<notin> ix_chunk_id ` set cs" using "2.prems"(1) by simp
    then show ?thesis unfolding True mem_upsert.simps by (intro mem_upsert_other) (simp_all add: in_set_update)
  next
    case False
    then show ?thesis using 2 by auto
  qed
qed simp

interpretation memory: trusted_index "memory_adapter cosine" memory_shown for cosine
proof
  fix v tf k and i :: memory_index and hs h
  assume "vi_search (memory_adapter cosine) v tf k i = Inr hs"
  then have hs: "hs = mem_search cosine v tf k i" by (simp add: memory_adapter_def)
  then show "length hs \<le> k" by (simp add: mem_search_def)
  assume "h \<in> set hs"
  then have "h \<in> set (sort_key (\<lambda>h. - vh_score h) (map (\<lambda>c. hit_of c (cosine v (ix_vector c)))
      (filter (\<lambda>c. ix_document_id c \<notin> mi_tombstoned i \<and> admits tf c) (map snd (mi_chunks i)))))"
    using hs unfolding mem_search_def by (blast dest: in_set_takeD)
  then show "\<exists>c \<in> memory_shown i. admits tf c \<and> (\<exists>s. h = hit_of c s)"
    by (auto simp: memory_shown_def)
next
  fix n and i j :: memory_index
  show "vi_ensure_ready (memory_adapter cosine) n i = Inr j \<Longrightarrow> memory_shown j \<subseteq> memory_shown i"
    by (simp add: memory_adapter_def)
next
  fix d and i j :: memory_index
  show "vi_tombstone_document (memory_adapter cosine) d i = Inr j \<Longrightarrow> memory_shown j = {c \<in> memory_shown i. ix_document_id c \<noteq> d}"
    by (auto simp: memory_adapter_def memory_shown_def mem_tombstone_document_def)
  assume del: "vi_delete_document (memory_adapter cosine) d i = Inr j"
  then show "memory_shown j = {c \<in> memory_shown i. ix_document_id c \<noteq> d}"
    by (force simp: memory_adapter_def memory_shown_def mem_delete_document_def)
  fix cs l
  assume ups: "vi_upsert (memory_adapter cosine) cs j = Inr l" and cs: "\<forall>c \<in> set cs. ix_document_id c = d"
    "distinct (map ix_chunk_id cs)"
  have l: "l = mem_upsert cs j" and j: "j = mem_delete_document d i" using ups del by (simp_all add: memory_adapter_def)
  have old: "\<forall>p \<in> set (mi_chunks j). p \<in> set (mi_chunks i) \<and> ix_document_id (snd p) \<noteq> d"
    by (auto simp: j mem_delete_document_def)
  have gone: "d \<notin> mi_tombstoned l" "mi_tombstoned i - {d} \<subseteq> mi_tombstoned l"
    using cs(1) by (auto simp: l j mem_upsert_tombstoned mem_delete_document_def)
  have cases: "c \<in> set cs \<or> (k, c) \<in> set (mi_chunks j)" if "(k, c) \<in> set (mi_chunks l)" for k c
    using that mem_upsert_chunks [of cs j] unfolding l by blast
  show "{c \<in> memory_shown l. ix_document_id c = d} = set cs \<and> {c \<in> memory_shown l. ix_document_id c \<noteq> d} \<subseteq> memory_shown i"
  proof (intro conjI equalityI subsetI)
    fix c assume "c \<in> {c \<in> memory_shown l. ix_document_id c = d}"
    then obtain k where "(k, c) \<in> set (mi_chunks l)" "ix_document_id c = d" by (auto simp: memory_shown_def)
    then show "c \<in> set cs" using cases [of k c] old by fastforce
  next
    fix c assume c: "c \<in> set cs"
    then have "(ix_chunk_id c, c) \<in> set (mi_chunks l)" using mem_upsert_new [OF cs(2)] unfolding l by blast
    then have "c \<in> snd ` set (mi_chunks l)" by force
    then show "c \<in> {c \<in> memory_shown l. ix_document_id c = d}"
      using c cs(1) gone(1) by (simp add: memory_shown_def)
  next
    fix c assume "c \<in> {c \<in> memory_shown l. ix_document_id c \<noteq> d}"
    then obtain k where c: "(k, c) \<in> set (mi_chunks l)" "ix_document_id c \<noteq> d" "ix_document_id c \<notin> mi_tombstoned l"
      by (auto simp: memory_shown_def)
    then have "(k, c) \<in> set (mi_chunks i)" using cases [of k c] old cs(1) by fastforce
    then have "c \<in> snd ` set (mi_chunks i)" by force
    then show "c \<in> memory_shown i" using c(2,3) gone(2) by (auto simp: memory_shown_def)
  qed
qed

section \<open>The Qdrant adapter keeps it\<close>

text \<open>The chunk a point stores.\<close>

definition chunk_at :: "point \<Rightarrow> IndexableChunk" where
  "chunk_at p =
     \<lparr>ix_chunk_id = pt_chunk_id p, ix_document_id = pt_source_document_id p, ix_tenant_id = pt_tenant_id p,
      ix_workspace_id = pt_workspace_id p, ix_domain = pt_domain p, ix_content = pt_content p,
      ix_classification = pt_classification p, ix_source_version = pt_source_version p,
      ix_index_version = pt_index_version p, ix_provenance_hash = pt_provenance_hash p,
      ix_acl_principals = pt_acl_principals p, ix_vector = pt_vector p, ix_section_path = pt_section_path p,
      ix_seq = pt_seq p, ix_scope = pt_scope p\<rparr>"

lemma chunk_at_point_of [simp]: "chunk_at (point_of c) = c"
  by (simp add: chunk_at_def point_of_def)

text \<open>How the server's documentation explains conditions: a filter wants all of \<open>must\<close>, one of \<open>should\<close> when there
  is any, and none of \<open>must_not\<close>; a key with several values matches when one of them does.\<close>

fun key_values :: "point_key \<Rightarrow> point \<Rightarrow> string list" where
  "key_values K_classification p = [pt_classification p]"
| "key_values K_acl_principals p = pt_acl_principals p"
| "key_values K_domain p = [pt_domain p]"
| "key_values K_tenant_id p = [pt_tenant_id p]"
| "key_values K_workspace_id p = [pt_workspace_id p]"
| "key_values K_scope p = [pt_scope p]"
| "key_values K_source_document_id p = [pt_source_document_id p]"

fun holds :: "condition \<Rightarrow> point \<Rightarrow> bool" where
  "holds (MatchValue k v) p = (v \<in> set (key_values k p))"
| "holds (MatchAny k vs) p = (\<exists>v \<in> set (key_values k p). v \<in> set vs)"
| "holds (IsDeleted b) p = (pt_is_deleted p = b)"
| "holds (Filter must should must_not) p =
     ((\<forall>c \<in> set must. holds c p) \<and> (should = [] \<or> (\<exists>c \<in> set should. holds c p)) \<and> (\<forall>c \<in> set must_not. \<not> holds c p))"

lemma holds_search_filter: "holds (search_filter tf) p \<longleftrightarrow> \<not> pt_is_deleted p \<and> admits tf (chunk_at p)"
  by (auto simp: search_filter_def admits_def chunk_at_def)

lemma holds_document_filter: "holds (document_filter d) p \<longleftrightarrow> pt_source_document_id p = d"
  by (simp add: document_filter_def eq_commute)

definition collection_shown :: "collection \<Rightarrow> IndexableChunk set" where
  "collection_shown c = (case c of None \<Rightarrow> {} | Some (n, ps) \<Rightarrow> chunk_at ` {p \<in> set ps. \<not> pt_is_deleted p})"

definition put_chunks :: "IndexableChunk list \<Rightarrow> point list \<Rightarrow> point list" where
  "put_chunks = fold (\<lambda>c. put_point (point_of c))"

lemma put_chunks_simps [simp]:
  "put_chunks [] ps = ps" "put_chunks (c # cs) ps = put_chunks cs (put_point (point_of c) ps)"
  by (simp_all add: put_chunks_def)

lemma set_put_chunks:
  "distinct (map ix_chunk_id cs) \<Longrightarrow>
     set (put_chunks cs ps) = {p \<in> set ps. pt_id p \<notin> ix_chunk_id ` set cs} \<union> point_of ` set cs"
proof (induction cs arbitrary: ps)
  case (Cons c cs)
  have "pt_id (point_of c) = ix_chunk_id c" by (simp add: point_of_def)
  then show ?case using Cons by (auto simp: put_point_def) (metis image_eqI)
qed simp

locale documented_server =
  fixes S :: qdrant_server
  assumes matches: "qs_matches S = holds"
    and ranked: "(p, s) \<in> set (qs_rank S v ps) \<Longrightarrow> p \<in> set ps"

sublocale documented_server \<subseteq> trusted_index "qdrant_adapter S" collection_shown
proof
  fix v tf k and i :: collection and hs h
  assume "vi_search (qdrant_adapter S) v tf k i = Inr hs"
  then obtain n ps where i: "i = Some (n, ps)" and hs: "hs = map (\<lambda>(p, s). hit_of_point p s)
      (take k (qs_rank S v (filter (holds (search_filter tf)) ps)))"
    by (auto simp: qdrant_adapter_def qd_search_def matches split: option.splits)
  then show "length hs \<le> k" by simp
  assume "h \<in> set hs"
  then obtain p s where ps: "(p, s) \<in> set (qs_rank S v (filter (holds (search_filter tf)) ps))" "h = hit_of_point p s"
    using hs by (auto dest: in_set_takeD)
  from ranked [OF ps(1)] ps(2) have "p \<in> set ps" "holds (search_filter tf) p" "h = hit_of (chunk_at p) s"
    by (simp_all add: hit_of_point_def hit_of_def chunk_at_def)
  then show "\<exists>c \<in> collection_shown i. admits tf c \<and> (\<exists>s. h = hit_of c s)"
    by (auto simp: i collection_shown_def holds_search_filter)
next
  fix n and i j :: collection
  show "vi_ensure_ready (qdrant_adapter S) n i = Inr j \<Longrightarrow> collection_shown j \<subseteq> collection_shown i"
    by (auto simp: qdrant_adapter_def qd_ensure_ready_def collection_shown_def split: option.splits if_splits)
next
  fix d and i j :: collection
  have doc: "ix_document_id (chunk_at p) = pt_source_document_id p" for p by (simp add: chunk_at_def)
  have flag: "chunk_at (p\<lparr>pt_is_deleted := b\<rparr>) = chunk_at p" for p b by (simp add: chunk_at_def)
  show "collection_shown j = {c \<in> collection_shown i. ix_document_id c \<noteq> d}"
    if "vi_tombstone_document (qdrant_adapter S) d i = Inr j"
  proof -
    let ?mark = "\<lambda>p. if pt_source_document_id p = d then p\<lparr>pt_is_deleted := True\<rparr> else p"
    from that obtain n ps where i: "i = Some (n, ps)" and j: "j = Some (n, map ?mark ps)"
      by (auto simp: qdrant_adapter_def qd_tombstone_document_def on_points_def matches holds_document_filter
          split: option.splits)
    have "{p \<in> set (map ?mark ps). \<not> pt_is_deleted p} = {p \<in> set ps. \<not> pt_is_deleted p \<and> pt_source_document_id p \<noteq> d}"
      by auto
    then show ?thesis by (auto simp: i j collection_shown_def doc simp del: set_map)
  qed
  assume del: "vi_delete_document (qdrant_adapter S) d i = Inr j"
  then show "collection_shown j = {c \<in> collection_shown i. ix_document_id c \<noteq> d}"
    by (auto simp: qdrant_adapter_def qd_delete_document_def on_points_def collection_shown_def matches
        holds_document_filter doc split: option.splits)
  fix cs l
  assume ups: "vi_upsert (qdrant_adapter S) cs j = Inr l" and cs: "\<forall>c \<in> set cs. ix_document_id c = d"
    "distinct (map ix_chunk_id cs)"
  from del obtain n ps where i: "i = Some (n, ps)" and j: "j = Some (n, filter (\<lambda>p. pt_source_document_id p \<noteq> d) ps)"
    by (auto simp: qdrant_adapter_def qd_delete_document_def on_points_def matches holds_document_filter split: option.splits)
  have l: "l = Some (n, put_chunks cs (filter (\<lambda>p. pt_source_document_id p \<noteq> d) ps))"
    using ups j by (auto simp: qdrant_adapter_def qd_upsert_def on_points_def put_chunks_def split: if_splits)
  have new: "pt_is_deleted (point_of c) = False" for c by (simp add: point_of_def)
  let ?kept = "{p \<in> set ps. pt_source_document_id p \<noteq> d \<and> pt_id p \<notin> ix_chunk_id ` set cs \<and> \<not> pt_is_deleted p}"
  have "{p \<in> set (put_chunks cs (filter (\<lambda>p. pt_source_document_id p \<noteq> d) ps)). \<not> pt_is_deleted p}
      = ?kept \<union> point_of ` set cs"
    using new by (auto simp: set_put_chunks [OF cs(2)])
  then have "collection_shown l = chunk_at ` ?kept \<union> set cs"
    by (simp add: l collection_shown_def image_Un image_image)
  moreover have "chunk_at ` ?kept \<subseteq> collection_shown i" "\<forall>c \<in> chunk_at ` ?kept. ix_document_id c \<noteq> d"
    by (auto simp: i collection_shown_def doc)
  ultimately show "{c \<in> collection_shown l. ix_document_id c = d} = set cs
      \<and> {c \<in> collection_shown l. ix_document_id c \<noteq> d} \<subseteq> collection_shown i"
    using cs(1) by blast
qed

definition reference_server :: "(rat list \<Rightarrow> rat list \<Rightarrow> rat) \<Rightarrow> qdrant_server" where
  "reference_server cosine = \<lparr>qs_matches = holds,
     qs_rank = (\<lambda>v ps. sort_key (\<lambda>(p, s). - s) (map (\<lambda>p. (p, cosine v (pt_vector p))) ps))\<rparr>"

interpretation reference: documented_server "reference_server cosine" for cosine
  by unfold_locales (auto simp: reference_server_def)

section \<open>Searching\<close>

lemma run_call: "k_call f w = (Inr a, w') \<longleftrightarrow> f (kw_calls w) = Inr a \<and> w' = w\<lparr>kw_calls := Suc (kw_calls w)\<rparr>"
  by (auto simp: k_call_def)

lemma run_index: "k_index P f w = (Inr u, w') \<longleftrightarrow> kp_index_fails P (kw_calls w) = None
    \<and> (\<exists>i. f (kw_index w) = Inr i \<and> w' = w\<lparr>kw_calls := Suc (kw_calls w), kw_index := i\<rparr>)"
  by (auto simp: k_index_def split: option.splits sum.splits)

lemma run_index_search: "k_index_search P v tf k w = (Inr hs, w') \<longleftrightarrow> kp_index_fails P (kw_calls w) = None
    \<and> vi_search (kp_index P) v tf k (kw_index w) = Inr hs \<and> w' = w\<lparr>kw_calls := Suc (kw_calls w)\<rparr>"
  by (auto simp: k_index_search_def split: option.splits)

lemma run_tx: "k_tx P t body w = (Inr a, w') \<longleftrightarrow> kp_connect P (kw_calls w) = None
    \<and> body (w\<lparr>kw_calls := Suc (kw_calls w), kw_tenant := t\<rparr>) = (Inr a, w')"
  by (auto simp: k_tx_def split: option.splits prod.splits sum.splits)

lemma run_k_now: "k_now P w = (Inr t, w') \<longleftrightarrow> t = kp_clock P (kw_ticks w) \<and> w' = w\<lparr>kw_ticks := Suc (kw_ticks w)\<rparr>"
  by (auto simp: k_now_def)

lemma run_modify: "act_modify f w = (Inr u, w') \<longleftrightarrow> w' = f w"
  by (auto simp: act_modify_def)

lemmas run_knowledge = run_bind run_basic run_when run_if run_call run_index run_index_search run_tx run_k_now run_modify

lemma map_of_rev_in: "map_of (rev (map (\<lambda>h. (k h, h)) hs)) i = Some h \<Longrightarrow> h \<in> set hs"
  by (drule map_of_SomeD) auto

lemma rank_hits_in:
  assumes "rank_hits P q hits w = (Inr (hs, scores), w')"
  shows "set hs \<subseteq> set hits"
proof -
  have "set (reranked hits ranked) \<subseteq> set hits" for ranked
    by (auto simp: reranked_def split: option.splits dest!: map_of_rev_in [OF sym])
  then show ?thesis using assms set_take_subset [of "kq_top_k q" hits]
    by (auto simp: rank_hits_def run_knowledge split: option.splits if_splits)
qed

lemma collected:
  "collect_evidence P least scores hs w = (Inr es, w') \<Longrightarrow> e \<in> set es \<Longrightarrow>
     \<exists>h \<in> set hs. \<exists>i. evidence_of h (hit_score scores h) i = Inr e \<and> least \<le> hit_score scores h"
proof (induction P least scores hs arbitrary: w es rule: collect_evidence.induct)
  case (2 P least scores h hs)
  show ?case
  proof (cases "hit_score scores h < least")
    case True
    then show ?thesis using 2(1) [OF True] "2.prems" by auto
  next
    case False
    then obtain i e' es' u where "evidence_of h (hit_score scores h) i = Inr e'" "es = e' # es'"
        "collect_evidence P least scores hs u = (Inr es', w')"
      using "2.prems" by (auto simp: run_knowledge)
    then show ?thesis using 2(2) [OF False] "2.prems"(2) False by (auto simp: not_less)
  qed
qed (simp add: run_knowledge)

lemma evidence_of_Inr:
  "evidence_of h s i = Inr e \<Longrightarrow> kv_content e = vh_content h \<and> kv_source_document_id e = vh_document_id h
     \<and> kv_classification e = vh_classification h \<and> kv_chunk_id e = vh_chunk_id h \<and> kv_relevance_score e = max 0 (min 1 s)
     \<and> kv_quote e = take 280 (vh_content h) \<and> hash_ok (kv_provenance_hash e)"
  by (auto simp: evidence_of_def split: if_splits)

text \<open>What a piece of evidence shows of a chunk of the index.\<close>

definition tells :: "KnowledgeQuery \<Rightarrow> KnowledgeEvidence \<Rightarrow> IndexableChunk \<Rightarrow> bool" where
  "tells q e c = (kv_content e = ix_content c \<and> kv_source_document_id e = ix_document_id c
     \<and> kv_chunk_id e = ix_chunk_id c \<and> kv_classification e = ix_classification c
     \<and> kv_quote e = take 280 (ix_content c) \<and> 0 \<le> kv_relevance_score e \<and> kv_relevance_score e \<le> 1
     \<and> (kq_document_ids q \<noteq> [] \<longrightarrow> ix_document_id c \<in> set (kq_document_ids q)))"

context trusted_index
begin

lemma searched:
  assumes "kp_index P = vi" "knowledge_search P q x w = (Inr es, w')" "e \<in> set es"
  shows "\<exists>c \<in> shown (kw_index w). admits (build_trusted_filter x (kq_domain q)) c \<and> tells q e c"
proof -
  let ?tf = "build_trusted_filter x (kq_domain q)"
  from assms(2) obtain v k found hits hs scores u u' where
      found: "vi_search vi v ?tf k (kw_index w) = Inr found"
      and hits: "hits = (if kq_document_ids q = [] then found
                  else filter (\<lambda>h. vh_document_id h \<in> set (kq_document_ids q)) found)"
      and ranked: "rank_hits P q hits u = (Inr (hs, scores), u')"
      and es: "collect_evidence P (kq_min_relevance q) scores hs u' = (Inr es, w')"
    by (auto simp: knowledge_search_def Let_def run_knowledge assms(1) split: prod.splits)
  from collected [OF es assms(3)] obtain h i where
    h: "h \<in> set hs" "evidence_of h (hit_score scores h) i = Inr e" by blast
  then have "h \<in> set hits" using rank_hits_in [OF ranked] by blast
  then have in_found: "h \<in> set found" "kq_document_ids q \<noteq> [] \<longrightarrow> vh_document_id h \<in> set (kq_document_ids q)"
    using hits by (auto split: if_splits)
  from search_shown [OF found in_found(1)] obtain c s where
    "c \<in> shown (kw_index w)" "admits ?tf c" "h = hit_of c s" by blast
  then show ?thesis
    using evidence_of_Inr [OF h(2)] in_found(2) by (auto simp: tells_def hit_of_def)
qed

end

section \<open>Ingesting\<close>

context trusted_index
begin

lemma tombstoned:
  "kp_index P = vi \<Longrightarrow> act_for xs (\<lambda>x. k_index P (vi_tombstone_document vi x)) w = (Inr u, w') \<Longrightarrow>
     kw_db w' = kw_db w \<and> shown (kw_index w') = {c \<in> shown (kw_index w). ix_document_id c \<notin> set xs}"
proof (induction xs arbitrary: w)
  case (Cons d xs)
  then obtain v where v: "k_index P (vi_tombstone_document vi d) w = (Inr (), v)"
      "act_for xs (\<lambda>x. k_index P (vi_tombstone_document vi x)) v = (Inr u, w')"
    by (auto simp: run_bind)
  then have "kw_db v = kw_db w" "shown (kw_index v) = {c \<in> shown (kw_index w). ix_document_id c \<noteq> d}"
    using tombstone_hides by (auto simp: run_index)
  then show ?case using Cons.IH [OF Cons.prems(1) v(2)] by auto
qed (simp add: run_basic)

end

lemma insert_chunks_run:
  "act_for rows k_insert_chunk w = (Inr u, w') \<Longrightarrow>
     w' = w\<lparr>kw_db := (kw_db w)\<lparr>kd_chunks := kd_chunks (kw_db w) @ rows\<rparr>\<rparr>
     \<and> distinct (map ck_id rows) \<and> ck_id ` set rows \<inter> ck_id ` set (kd_chunks (kw_db w)) = {}"
proof (induction rows arbitrary: w)
  case (Cons r rows)
  then obtain v where v: "k_insert_chunk r w = (Inr (), v)" "act_for rows k_insert_chunk v = (Inr u, w')"
    by (auto simp: run_knowledge)
  then have "v = w\<lparr>kw_db := (kw_db w)\<lparr>kd_chunks := kd_chunks (kw_db w) @ [r]\<rparr>\<rparr>"
      "ck_id r \<notin> ck_id ` set (kd_chunks (kw_db w))"
    by (auto simp: k_insert_chunk_def split: if_splits)
  then show ?case using Cons.IH [OF v(2)] by auto
qed (simp add: run_knowledge)

lemma upsert_document_run:
  assumes "k_upsert_document row w = (Inr u, w')"
  shows "dr_tenant_id row = kw_tenant w
    \<and> (\<exists>docs. w' = w\<lparr>kw_db := (kw_db w)\<lparr>kd_documents := docs\<rparr>\<rparr>
        \<and> ((dr_id row \<notin> dr_id ` set (kd_documents (kw_db w)) \<and> docs = kd_documents (kw_db w) @ [row])
           \<or> (dr_id row \<in> dr_id ` set (kd_documents (kw_db w))
               \<and> docs = map (\<lambda>d. if dr_id d = dr_id row then refreshed row d else d) (kd_documents (kw_db w)))))"
proof (cases "find (\<lambda>d. dr_id d = dr_id row) (kd_documents (kw_db w))")
  case None
  then have "dr_id row \<notin> dr_id ` set (kd_documents (kw_db w))" by (auto simp: find_None_iff)
  then show ?thesis using assms None by (auto simp: k_upsert_document_def Let_def split: if_splits)
next
  case (Some d)
  then have "dr_id row \<in> dr_id ` set (kd_documents (kw_db w))" using find_Some_in [OF Some] by (metis image_eqI)
  then show ?thesis using assms Some by (auto simp: k_upsert_document_def Let_def split: if_splits)
qed

lemma refreshed_row:
  assumes "dr_id row \<in> dr_id ` set ds"
  shows "\<exists>d \<in> set (map (\<lambda>d. if dr_id d = dr_id row then refreshed row d else d) ds).
    dr_id d = dr_id row \<and> dr_is_current d \<and> dr_status d = ''active''"
proof -
  from assms obtain d where "d \<in> set ds" "dr_id d = dr_id row" by auto
  then show ?thesis by (intro bexI [of _ "refreshed row d"]) (auto simp: refreshed_def intro!: rev_image_eqI)
qed

lemma refreshed_subset:
  "set (map (\<lambda>d. if dr_id d = dr_id row then refreshed row d else d) ds) \<subseteq> set ds \<union> {d. dr_id d = dr_id row}"
  by (auto simp: refreshed_def)

text \<open>What a committed ingestion leaves in the tables.\<close>

lemma ingest_tx_run:
  assumes run: "ingest_tx P row rows now w = (Inr old, w')"
    and row: "dr_is_current row" "dr_status row = ''active''"
    and rows: "\<forall>c \<in> set rows. ck_tenant_id c = kw_tenant w \<and> ck_document_id c = dr_id row"
  shows "kw_index w' = kw_index w \<and> dr_tenant_id row = kw_tenant w
    \<and> old = map dr_id (filter (\<lambda>d. dr_tenant_id d = kw_tenant w \<and> dr_doc_key d = dr_doc_key row \<and> dr_is_current d
                                  \<and> dr_id d \<noteq> dr_id row) (kd_documents (kw_db w)))
    \<and> filter (\<lambda>c. ck_tenant_id c = kw_tenant w \<and> ck_document_id c = dr_id row) (kd_chunks (kw_db w')) = rows
    \<and> distinct (map ck_id rows)
    \<and> (\<exists>d \<in> set (kd_documents (kw_db w')). dr_id d = dr_id row \<and> dr_is_current d \<and> dr_status d = ''active'')
    \<and> (\<forall>d \<in> set (kd_documents (kw_db w')). dr_tenant_id d = kw_tenant w \<longrightarrow> dr_doc_key d = dr_doc_key row
         \<longrightarrow> dr_is_current d \<longrightarrow> dr_id d = dr_id row)"
proof -
  let ?hit = "\<lambda>d. dr_tenant_id d = kw_tenant w \<and> dr_doc_key d = dr_doc_key row \<and> dr_is_current d \<and> dr_id d \<noteq> dr_id row"
  define ds where "ds = map (\<lambda>d. if ?hit d then superseded_by_row (dr_id row) now d else d) (kd_documents (kw_db w))"
  have ds: "\<forall>d \<in> set ds. dr_tenant_id d = kw_tenant w \<longrightarrow> dr_doc_key d = dr_doc_key row
      \<longrightarrow> dr_is_current d \<longrightarrow> dr_id d = dr_id row"
    by (auto simp: ds_def superseded_by_row_def)
  from run obtain u v w3 where
      u: "u = w\<lparr>kw_db := (kw_db w)\<lparr>kd_documents := ds\<rparr>\<rparr>"
    and old: "old = map dr_id (filter ?hit (kd_documents (kw_db w)))"
    and v: "act_when (old \<noteq> []) (k_update_chunks (\<lambda>c. ck_document_id c \<in> set old) (\<lambda>c. c\<lparr>ck_status := ''superseded''\<rparr>)) u
        = (Inr (), v)"
    and w3: "k_upsert_document row v = (Inr (), w3)"
    and ins: "act_for rows k_insert_chunk (snd (k_delete_chunks (\<lambda>c. ck_document_id c = dr_id row) w3)) = (Inr (), w')"
    unfolding ingest_tx_def
    by (auto simp: run_bind run_basic k_update_documents_def k_delete_chunks_def Let_def conj_assoc ds_def)
  have v_docs: "kd_documents (kw_db v) = ds" "kw_tenant v = kw_tenant w" "kw_index v = kw_index w"
    using v u by (auto simp: run_when k_update_chunks_def split: if_splits)
  from upsert_document_run [OF w3] obtain docs where
      tenant: "dr_tenant_id row = kw_tenant w" and w3: "w3 = v\<lparr>kw_db := (kw_db v)\<lparr>kd_documents := docs\<rparr>\<rparr>"
    and docs: "dr_id row \<notin> dr_id ` set ds \<and> docs = ds @ [row]
        \<or> dr_id row \<in> dr_id ` set ds \<and> docs = map (\<lambda>d. if dr_id d = dr_id row then refreshed row d else d) ds"
    unfolding v_docs by blast
  note inserted = insert_chunks_run [OF ins]
  have fin: "kd_documents (kw_db w') = docs" "kw_index w' = kw_index w"
    "kd_chunks (kw_db w') = filter (\<lambda>c. \<not> (ck_tenant_id c = kw_tenant w \<and> ck_document_id c = dr_id row)) (kd_chunks (kw_db v)) @ rows"
    using inserted w3 v_docs by (auto simp: k_delete_chunks_def)
  have "filter (\<lambda>c. ck_tenant_id c = kw_tenant w \<and> ck_document_id c = dr_id row) (kd_chunks (kw_db w')) = rows"
    using rows unfolding fin(3) by (simp add: filter_id_conv cong: conj_cong)
  moreover have "(\<exists>d \<in> set docs. dr_id d = dr_id row \<and> dr_is_current d \<and> dr_status d = ''active'')
      \<and> (\<forall>d \<in> set docs. dr_tenant_id d = kw_tenant w \<longrightarrow> dr_doc_key d = dr_doc_key row
           \<longrightarrow> dr_is_current d \<longrightarrow> dr_id d = dr_id row)"
  proof (rule disjE [OF docs])
    assume "dr_id row \<notin> dr_id ` set ds \<and> docs = ds @ [row]"
    then show ?thesis using row ds by simp
  next
    assume "dr_id row \<in> dr_id ` set ds \<and> docs = map (\<lambda>d. if dr_id d = dr_id row then refreshed row d else d) ds"
    then show ?thesis using refreshed_row [of row ds] refreshed_subset [of row ds] ds by blast
  qed
  ultimately show ?thesis using fin old tenant inserted by simp
qed

text \<open>What an ingestion that returned has done.\<close>

definition superseded_ids :: "AccessContext \<Rightarrow> uuid \<Rightarrow> uuid \<Rightarrow> kdb \<Rightarrow> uuid set" where
  "superseded_ids x key d db =
     {dr_id r |r. r \<in> set (kd_documents db) \<and> dr_tenant_id r = x_tenant_id x \<and> dr_doc_key r = Some key \<and> dr_is_current r
        \<and> dr_id r \<noteq> d}"

definition replaced ::
  "'i kports \<Rightarrow> IngestDocumentCommand \<Rightarrow> AccessContext \<Rightarrow> uuid \<Rightarrow> LeafChunk list \<Rightarrow> rat list list
    \<Rightarrow> IndexableChunk set \<Rightarrow> kdb \<Rightarrow> IndexableChunk set \<Rightarrow> kdb \<Rightarrow> bool" where
  "replaced P cmd x d leaves vectors before db after db' =
     (filter (\<lambda>c. ck_tenant_id c = x_tenant_id x \<and> ck_document_id c = d) (kd_chunks db') = map (chunk_of P x d) leaves
      \<and> length vectors = length leaves
      \<and> {c \<in> after. ix_document_id c = d} = set (map (\<lambda>(l, v). indexable_of P cmd x d l v) (zip leaves vectors))
      \<and> {c \<in> after. ix_document_id c \<noteq> d} \<subseteq> {c \<in> before. ix_document_id c \<notin> superseded_ids x (command_doc_key P cmd x) d db}
      \<and> (\<exists>r \<in> set (kd_documents db'). dr_id r = d \<and> dr_is_current r \<and> dr_status r = ''active'')
      \<and> (\<forall>r \<in> set (kd_documents db'). dr_tenant_id r = x_tenant_id x \<longrightarrow> dr_doc_key r = Some (command_doc_key P cmd x)
           \<longrightarrow> dr_is_current r \<longrightarrow> dr_id r = d))"

lemma index_leaves_run:
  assumes "index_leaves P cmd x d leaves w = (Inr u, w')"
  obtains vectors where "length vectors = length leaves" "kw_db w' = kw_db w"
    "leaves = [] \<and> kw_index w' = kw_index w
      \<or> vi_upsert (kp_index P) (map (\<lambda>(l, v). indexable_of P cmd x d l v) (zip leaves vectors)) (kw_index w) = Inr (kw_index w')"
proof (cases "leaves = []")
  case True
  then show ?thesis using assms that [of "[]"] by (simp add: index_leaves_def run_basic)
next
  case False
  then show ?thesis using assms that by (auto simp: index_leaves_def run_knowledge)
qed

lemma indexed_ids:
  "length vs = length ls \<Longrightarrow> map ix_chunk_id (map (\<lambda>(l, v). indexable_of P cmd x d l v) (zip ls vs))
     = map (\<lambda>l. chunk_id_for P d INDEX_VERSION (lf_seq l)) ls"
  by (induction vs ls rule: list_induct2) (simp_all add: indexable_of_def)

context trusted_index
begin

lemma ingested:
  assumes vi: "kp_index P = vi" and run: "ingest_document P cmd x w = (Inr r, w')"
  shows "\<exists>res vectors. structure_aware_chunks 1200 150 (ic_content cmd) = Inr res
    \<and> in_document_id r = command_document_id P cmd x \<and> in_chunk_count r = length (cr_chunks res)
    \<and> replaced P cmd x (command_document_id P cmd x) (cr_chunks res) vectors
        (shown (kw_index w)) (kw_db w) (shown (kw_index w')) (kw_db w')"
proof -
  let ?d = "command_document_id P cmd x" and ?key = "command_doc_key P cmd x"
  from run obtain a b uri res now old e f g where
      ready: "ensure_ready P w = (Inr (), a)"
    and put: "k_put_object P (x_tenant_id x @ ''/'' @ x_workspace_id x @ ''/documents/'' @ ?d)
        (u_utf8 (ic_content cmd)) (ic_content_type cmd) a = (Inr uri, b)"
    and res: "structure_aware_chunks 1200 150 (ic_content cmd) = Inr res"
    and tx: "ingest_tx P (document_of cmd x ?d ?key uri now) (map (chunk_of P x ?d) (cr_chunks res)) now
        (b\<lparr>kw_ticks := Suc (kw_ticks b), kw_calls := Suc (kw_calls b), kw_tenant := x_tenant_id x\<rparr>) = (Inr old, e)"
    and tomb: "act_for old (\<lambda>old. k_index P (vi_tombstone_document vi old)) e = (Inr (), f)"
    and del: "k_index P (vi_delete_document vi ?d) f = (Inr (), g)"
    and ups: "index_leaves P cmd x ?d (cr_chunks res) g = (Inr (), w')"
    and r: "in_document_id r = ?d" "in_chunk_count r = length (cr_chunks res)"
    unfolding ingest_document_def vi by (auto simp: Let_def run_bind run_basic run_tx run_k_now)
  have a: "kw_db a = kw_db w" "shown (kw_index a) \<subseteq> shown (kw_index w)"
    using ready by (auto simp: ensure_ready_def run_knowledge vi split: if_splits dest: subsetD [OF ensure_hides])
  have b: "kw_db b = kw_db w" "kw_index b = kw_index a"
    using put a by (auto simp: k_put_object_def split: sum.splits)
  let ?row = "document_of cmd x ?d ?key uri now"
  have row: "dr_is_current ?row" "dr_status ?row = ''active''" "dr_id ?row = ?d" "dr_doc_key ?row = Some ?key"
    by (simp_all add: document_of_def)
  have rows: "\<forall>c \<in> set (map (chunk_of P x ?d) (cr_chunks res)). ck_tenant_id c = x_tenant_id x \<and> ck_document_id c = ?d"
    by (auto simp: chunk_of_def)
  note done_tx = ingest_tx_run [OF tx row(1,2), unfolded row(3,4), simplified, unfolded b, OF rows [simplified]]
  note f = tombstoned [OF vi tomb]
  have old: "set old = superseded_ids x ?key ?d (kw_db w)" using done_tx by (auto simp: superseded_ids_def)
  have dist: "distinct (map ck_id (map (chunk_of P x ?d) (cr_chunks res)))" using done_tx by simp
  obtain vectors where vs: "length vectors = length (cr_chunks res)" and w': "kw_db w' = kw_db g"
      "cr_chunks res = [] \<and> kw_index w' = kw_index g
        \<or> vi_upsert vi (map (\<lambda>(l, v). indexable_of P cmd x ?d l v) (zip (cr_chunks res) vectors)) (kw_index g) = Inr (kw_index w')"
    using index_leaves_run [OF ups] vi by metis
  let ?cs = "map (\<lambda>(l, v). indexable_of P cmd x ?d l v) (zip (cr_chunks res) vectors)"
  have gi: "vi_delete_document vi ?d (kw_index f) = Inr (kw_index g)" "kw_db g = kw_db f"
    using del by (auto simp: run_index)
  have ids: "map ix_chunk_id ?cs = map (\<lambda>l. chunk_id_for P ?d INDEX_VERSION (lf_seq l)) (cr_chunks res)"
    by (rule indexed_ids [OF vs])
  have "distinct (map ix_chunk_id ?cs)" using dist unfolding ids by (simp add: chunk_of_def comp_def)
  moreover have "\<forall>c \<in> set ?cs. ix_document_id c = ?d" by (auto simp: indexable_of_def)
  ultimately have split: "{c \<in> shown (kw_index w'). ix_document_id c = ?d} = set ?cs
      \<and> {c \<in> shown (kw_index w'). ix_document_id c \<noteq> ?d} \<subseteq> shown (kw_index f)"
    using w'(2)
  proof (elim disjE conjE)
    assume "cr_chunks res = []" "kw_index w' = kw_index g"
    then show ?thesis using delete_hides [OF gi(1)] vs by auto
  next
    assume up: "vi_upsert vi ?cs (kw_index g) = Inr (kw_index w')"
      and "\<forall>c \<in> set ?cs. ix_document_id c = ?d" "distinct (map ix_chunk_id ?cs)"
    then show ?thesis by (intro reindex [OF gi(1) up])
  qed
  then have after: "{c \<in> shown (kw_index w'). ix_document_id c = ?d} = set ?cs"
      "{c \<in> shown (kw_index w'). ix_document_id c \<noteq> ?d} \<subseteq> shown (kw_index f)" by blast+
  then have "replaced P cmd x ?d (cr_chunks res) vectors (shown (kw_index w)) (kw_db w) (shown (kw_index w')) (kw_db w')"
    unfolding replaced_def
  proof (intro conjI)
    have db: "kw_db w' = kw_db e" using w'(1) gi(2) f by simp
    show "filter (\<lambda>c. ck_tenant_id c = x_tenant_id x \<and> ck_document_id c = ?d) (kd_chunks (kw_db w'))
        = map (chunk_of P x ?d) (cr_chunks res)" using done_tx unfolding db by blast
    show "\<exists>r \<in> set (kd_documents (kw_db w')). dr_id r = ?d \<and> dr_is_current r \<and> dr_status r = ''active''"
      "\<forall>r \<in> set (kd_documents (kw_db w')). dr_tenant_id r = x_tenant_id x \<longrightarrow> dr_doc_key r = Some ?key
        \<longrightarrow> dr_is_current r \<longrightarrow> dr_id r = ?d" using done_tx unfolding db by blast+
    have "kw_index e = kw_index a" using done_tx by simp
    then show "{c \<in> shown (kw_index w'). ix_document_id c \<noteq> ?d}
        \<subseteq> {c \<in> shown (kw_index w). ix_document_id c \<notin> superseded_ids x ?key ?d (kw_db w)}"
      using after(2) f a(2) old by auto
  qed (insert vs after(1), assumption+)
  then show ?thesis using res r by blast
qed

end

section \<open>What the knowledge plane keeps\<close>

text \<open>The server of the Qdrant adapter evaluates filters as documented, and ranks no point that it was not given.\<close>

definition documented :: "qdrant_server \<Rightarrow> bool" where
  "documented S = (qs_matches S = holds \<and> (\<forall>v ps p s. (p, s) \<in> set (qs_rank S v ps) \<longrightarrow> p \<in> set ps))"

context documented_server
begin

lemma trusted: "trusted_index (qdrant_adapter S) collection_shown"
  by (rule trusted_index_axioms)

end

lemma qdrant_trusted: "documented S \<Longrightarrow> trusted_index (qdrant_adapter S) collection_shown"
  by (intro documented_server.trusted documented_server.intro) (auto simp: documented_def)

text \<open>Ports and a world to run the operations on.\<close>

definition sample_server :: qdrant_server where
  "sample_server = \<lparr>qs_matches = holds, qs_rank = (\<lambda>v ps. map (\<lambda>p. (p, 1/2)) ps)\<rparr>"

definition sample_ports :: "collection kports" where
  "sample_ports = \<lparr>kp_clock = int, kp_ids = nat_str, kp_connect = (\<lambda>_. None), kp_put = (\<lambda>_ key _ _. Inr key),
     kp_get = (\<lambda>_ _. Inr ''text''), kp_parse = (\<lambda>_ _ _ _. Inr [120]), kp_embed = (\<lambda>_ ts. Inr (map (\<lambda>_. [1]) ts)),
     kp_dimension = 2, kp_rerank = None, kp_rerank_fetch_multiplier = 1, kp_sha256 = (\<lambda>_. replicate 64 CHR ''a''),
     kp_uuid5 = id, kp_index = qdrant_adapter sample_server, kp_index_fails = (\<lambda>_. None)\<rparr>"

definition sample_caller :: AccessContext where
  "sample_caller = \<lparr>x_tenant_id = ''t'', x_workspace_id = ''w'', x_principal_id = ''p'', x_roles = {}, x_groups = {},
     x_scopes = {''knowledge.write''}, x_clearance = ''internal'', x_plan_id = '''', x_feature_flags = {}\<rparr>"

definition sample_chunk :: IndexableChunk where
  "sample_chunk = \<lparr>ix_chunk_id = ''c'', ix_document_id = ''d'', ix_tenant_id = ''t'', ix_workspace_id = ''w'',
     ix_domain = ''tender'', ix_content = [120], ix_classification = ''internal'', ix_source_version = ''1'',
     ix_index_version = INDEX_VERSION, ix_provenance_hash = replicate 64 CHR ''a'', ix_acl_principals = [''tenant:*''],
     ix_vector = [1], ix_section_path = [], ix_seq = 0, ix_scope = ''tenant''\<rparr>"

definition sample_world :: "kdb \<Rightarrow> collection kworld" where
  "sample_world db = \<lparr>kw_db = db, kw_tenant = '''', kw_index = Some (2, [point_of sample_chunk]), kw_blobs = [],
     kw_ready = True, kw_ticks = 0, kw_fresh = 0, kw_calls = 0\<rparr>"

definition no_rows :: kdb where
  "no_rows = \<lparr>kd_documents = [], kd_chunks = [], kd_jobs = []\<rparr>"

definition sample_query :: KnowledgeQuery where
  "sample_query = \<lparr>kq_text = [120], kq_domain = ''tender'', kq_top_k = 5, kq_document_ids = [], kq_min_relevance = 0\<rparr>"

lemma sample_documented: "documented sample_server"
  by (auto simp: documented_def sample_server_def)

lemma sample_admits: "holds (search_filter (build_trusted_filter sample_caller ''tender'')) (point_of sample_chunk)"
  by (simp add: holds_search_filter admits_def build_trusted_filter_def sample_caller_def sample_chunk_def
      point_of_def chunk_at_def clearance_allows_def CLASSIFICATION_LADDER_def)

lemma sample_found: "qd_search sample_server [1] (build_trusted_filter sample_caller ''tender'') 5
    (Some (2, [point_of sample_chunk])) = Inr [hit_of sample_chunk (1 / 2)]"
  using sample_admits
  by (simp add: qd_search_def sample_server_def hit_of_point_def hit_of_def point_of_def)

lemma sample_evidence: "\<exists>e. evidence_of (hit_of sample_chunk (1 / 2)) (1 / 2) i = Inr e \<and> kv_source_document_id e = ''d''"
proof -
  have "hash_ok (ix_provenance_hash sample_chunk)" by (simp add: hash_ok_def sample_chunk_def)
  then show ?thesis by (simp add: evidence_of_def hit_of_def) (simp add: sample_chunk_def)
qed

lemma sample_search: "\<exists>es w'. knowledge_search sample_ports sample_query sample_caller (sample_world db) = (Inr es, w')
    \<and> kv_source_document_id ` set es = {''d''}"
proof -
  have P: "kp_rerank sample_ports = None" "kp_embed sample_ports n ts = Inr (map (\<lambda>_. [1]) ts)"
      "kp_index_fails sample_ports n = None" "vi_search (kp_index sample_ports) = qd_search sample_server" for n ts
    by (simp_all add: sample_ports_def qdrant_adapter_def)
  have q: "kq_document_ids sample_query = []" "kq_top_k sample_query = 5" "kq_domain sample_query = ''tender''"
      "kq_min_relevance sample_query = 0"
    by (simp_all add: sample_query_def)
  have i: "kw_index (sample_world db) = Some (2, [point_of sample_chunk])" by (simp add: sample_world_def)
  have s: "hit_score [] (hit_of sample_chunk (1 / 2)) = 1 / 2" by (simp add: hit_score_def hit_of_def)
  obtain e where "evidence_of (hit_of sample_chunk (1 / 2)) (1 / 2) (kp_ids sample_ports (kw_fresh (sample_world db))) = Inr e"
      "kv_source_document_id e = ''d''" using sample_evidence by blast
  then show ?thesis
    by (simp add: knowledge_search_def Let_def act_bind_def k_call_def act_require_def k_index_search_def rank_hits_def
        act_ret_def k_new_uuid_def act_lift_def P q i sample_found s)
qed

text \<open>C33: A search shows a caller only what the caller may see. On an index server that evaluates filters as
  documented, every piece of evidence that a search returns is a live chunk of the collection, quoted as it is
  stored; its document is published to every tenant or belongs to the caller's own tenant and workspace, its
  classification is within the caller's clearance, and its domain is the one asked for or the shared one.\<close>

theorem search_respects_access:
  assumes "documented S" "kp_index P = qdrant_adapter S" "knowledge_search P q x w = (Inr es, w')"
  shows "\<forall>e \<in> set es. \<exists>c \<in> collection_shown (kw_index w). tells q e c
    \<and> (ix_tenant_id c = x_tenant_id x \<and> ix_workspace_id c = x_workspace_id x \<or> ix_scope c = ''global'')
    \<and> ix_classification c \<in> set (clearance_allows (x_clearance x))
    \<and> (kq_domain q = ''shared'' \<or> ix_domain c \<in> {kq_domain q, ''shared''})"
proof
  fix e assume "e \<in> set es"
  from trusted_index.searched [OF qdrant_trusted [OF assms(1)] assms(2,3) this]
  obtain c where "c \<in> collection_shown (kw_index w)" "admits (build_trusted_filter x (kq_domain q)) c" "tells q e c" by blast
  then show "\<exists>c \<in> collection_shown (kw_index w). tells q e c
    \<and> (ix_tenant_id c = x_tenant_id x \<and> ix_workspace_id c = x_workspace_id x \<or> ix_scope c = ''global'')
    \<and> ix_classification c \<in> set (clearance_allows (x_clearance x))
    \<and> (kq_domain q = ''shared'' \<or> ix_domain c \<in> {kq_domain q, ''shared''})"
    unfolding admits_def build_trusted_filter_def TrustedSearchFilter.simps by (elim conjE, intro bexI [of _ c] conjI)
qed

theorem search_respects_access_witness:
  "\<exists>es w'. knowledge_search sample_ports sample_query sample_caller (sample_world no_rows) = (Inr es, w') \<and> es \<noteq> []
    \<and> (\<forall>e \<in> set es. \<exists>c \<in> collection_shown (kw_index (sample_world no_rows)). tells sample_query e c)"
proof -
  obtain es w' where es: "knowledge_search sample_ports sample_query sample_caller (sample_world no_rows) = (Inr es, w')"
      "kv_source_document_id ` set es = {''d''}"
    using sample_search [of no_rows] by (elim exE conjE)
  have "kp_index sample_ports = qdrant_adapter sample_server" by (simp add: sample_ports_def)
  note shown = search_respects_access [OF sample_documented this es(1)]
  have "\<forall>e \<in> set es. \<exists>c \<in> collection_shown (kw_index (sample_world no_rows)). tells sample_query e c"
    by (intro ballI, drule bspec [OF shown], elim bexE conjE, erule bexI, assumption)
  moreover have "es \<noteq> []" using es(2) by (cases es) simp_all
  ultimately show ?thesis using es(1) by (intro exI conjI)
qed

text \<open>C34: Ingesting a document replaces its earlier contents everywhere. When an ingestion returns, the document's chunk
  rows are those of the new text, the index shows for it one point per new chunk and nothing else, no other document
  gained a point, the current versions under the same document key that it superseded lost theirs, and it is the
  only current row of its tenant under that key.\<close>

theorem ingest_replaces_document:
  assumes "documented S" "kp_index P = qdrant_adapter S" "ingest_document P cmd x w = (Inr r, w')"
  shows "\<exists>res vectors. structure_aware_chunks 1200 150 (ic_content cmd) = Inr res
    \<and> in_document_id r = command_document_id P cmd x \<and> in_chunk_count r = length (cr_chunks res)
    \<and> replaced P cmd x (command_document_id P cmd x) (cr_chunks res) vectors
        (collection_shown (kw_index w)) (kw_db w) (collection_shown (kw_index w')) (kw_db w')"
  by (rule trusted_index.ingested [OF qdrant_trusted [OF assms(1)] assms(2,3)])

definition sample_command :: IngestDocumentCommand where
  "sample_command = \<lparr>ic_title = ''T'', ic_content = [120, 121], ic_domain = ''tender'', ic_classification = ''internal'',
     ic_source_version = ''1'', ic_content_type = ''text/plain'', ic_scope = ''tenant''\<rparr>"

lemma sample_chunked: "\<exists>sections. structure_aware_chunks 1200 150 [120, 121] = Inr \<lparr>cr_sections = sections,
    cr_chunks = [\<lparr>lf_seq = 0, lf_section_index = 0, lf_section_path = [], lf_start_offset = 0, lf_end_offset = 2,
                   lf_content = [120, 121]\<rparr>]\<rparr>"
proof -
  have strip: "u_strip [120, 121] = [120, 121]" by (simp add: u_strip_def u_space_def)
  have "heading_level [120, 121] = None"
    by (simp add: heading_level_def strip HEADING_PREFIXES_def starts_with_def)
  moreover have "u_splitlines [120, 121] = [[120, 121]]" by (simp add: u_break_def)
  ultimately show ?thesis
    by (simp add: structure_aware_chunks_def bad_window_def strip sections_of_def Let_def slice_def window_end_def
        del: u_splitlines.simps) (subst split_section.simps, simp add: strip slice_def window_end_def)
qed

lemma sample_ingest: "ran_ok (ingest_document sample_ports sample_command sample_caller (sample_world no_rows))"
proof -
  obtain sections where chunked: "structure_aware_chunks 1200 150 [120, 121] = Inr \<lparr>cr_sections = sections,
      cr_chunks = [\<lparr>lf_seq = 0, lf_section_index = 0, lf_section_path = [], lf_start_offset = 0, lf_end_offset = 2,
                     lf_content = [120, 121]\<rparr>]\<rparr>" using sample_chunked by (elim exE)
  have P: "kp_connect sample_ports n = None" "kp_put sample_ports n k d c = Inr k" "kp_index_fails sample_ports n = None"
      "kp_embed sample_ports n ts = Inr (map (\<lambda>_. [1]) ts)" "kp_index sample_ports = qdrant_adapter sample_server"
      for n k d c ts by (simp_all add: sample_ports_def)
  have x: "x_tenant_id sample_caller = ''t''" by (simp add: sample_caller_def)
  have c: "ic_content sample_command = [120, 121]" by (simp add: sample_command_def)
  have w: "kw_ready (sample_world no_rows)" "kw_db (sample_world no_rows) = no_rows"
      "kw_index (sample_world no_rows) = Some (2, [point_of sample_chunk])" by (simp_all add: sample_world_def)
  have d: "kd_documents no_rows = []" "kd_chunks no_rows = []" by (simp_all add: no_rows_def)
  show ?thesis
    by (simp add: ingest_document_def Let_def ensure_ready_def k_put_object_def k_now_def k_tx_def ingest_tx_def
        k_update_documents_def k_upsert_document_def k_delete_chunks_def k_insert_chunk_def index_leaves_def k_index_def k_call_def
        qdrant_adapter_def qd_delete_document_def qd_upsert_def on_points_def document_of_def chunk_of_def
        act_bind_def act_get_def act_ret_def act_lift_def act_when_def act_require_def P x c w d chunked)
qed

theorem ingest_replaces_document_witness:
  "\<exists>r w'. ingest_document sample_ports sample_command sample_caller (sample_world no_rows) = (Inr r, w')
    \<and> (\<exists>res vectors. structure_aware_chunks 1200 150 [120, 121] = Inr res
        \<and> replaced sample_ports sample_command sample_caller (command_document_id sample_ports sample_command sample_caller)
            (cr_chunks res) vectors (collection_shown (kw_index (sample_world no_rows))) no_rows
            (collection_shown (kw_index w')) (kw_db w'))"
proof -
  obtain r w' where r: "ingest_document sample_ports sample_command sample_caller (sample_world no_rows) = (Inr r, w')"
    using ran_ok_elim [OF sample_ingest] by (elim exE)
  have "kp_index sample_ports = qdrant_adapter sample_server" by (simp add: sample_ports_def)
  from ingest_replaces_document [OF sample_documented this r] r show ?thesis
    unfolding sample_command_def IngestDocumentCommand.simps sample_world_def kworld.simps
    by (elim exE conjE, intro exI conjI)
qed

text \<open>C35: Deleting a document of another tenant hides it from its owner. The deletion checks no more than the right to
  write knowledge: the statements of the session change no row of another tenant, and the call still returns; but the
  index marks the points of the document as deleted whoever owns them, so that afterwards no search of anybody finds
  it, although its rows are as active as before.\<close>

theorem stranger_delete_hides_document:
  assumes "documented S" "kp_index P = qdrant_adapter S"
    and "delete_document_route P d x w = (Inr u, w')"
    and "\<forall>r \<in> set (kd_documents (kw_db w)). dr_id r = d \<longrightarrow> dr_tenant_id r \<noteq> x_tenant_id x"
    and "\<forall>c \<in> set (kd_chunks (kw_db w)). ck_document_id c = d \<longrightarrow> ck_tenant_id c \<noteq> x_tenant_id x"
    and "knowledge_search P q y w' = (Inr es, w'')"
  shows "kd_documents (kw_db w') = kd_documents (kw_db w) \<and> kd_chunks (kw_db w') = kd_chunks (kw_db w)
    \<and> d \<notin> kv_source_document_id ` set es"
proof -
  from assms(3) obtain v where tx: "k_tx P (x_tenant_id x) (soft_delete_tx P d x) w = (Inr (), v)"
      and tomb: "k_index P (vi_tombstone_document (kp_index P) d) v = (Inr (), w')"
    by (auto simp: delete_document_route_def soft_delete_document_def run_bind run_basic)
  have rows: "map (\<lambda>r. if dr_tenant_id r = x_tenant_id x \<and> dr_id r = d then f r else r) (kd_documents (kw_db w))
      = kd_documents (kw_db w)" for f
    using assms(4) by (intro map_idI) auto
  have chunks: "map (\<lambda>c. if ck_tenant_id c = x_tenant_id x \<and> ck_document_id c = d then f c else c) (kd_chunks (kw_db w))
      = kd_chunks (kw_db w)" for f
    using assms(5) by (intro map_idI) auto
  have v: "kd_documents (kw_db v) = kd_documents (kw_db w) \<and> kd_chunks (kw_db v) = kd_chunks (kw_db w)"
    using tx by (auto simp: soft_delete_tx_def run_tx run_bind run_k_now k_update_documents_def k_update_chunks_def
        Let_def rows chunks)
  from tomb have w': "kw_db w' = kw_db v"
      "collection_shown (kw_index w') = {c \<in> collection_shown (kw_index v). ix_document_id c \<noteq> d}"
    using trusted_index.tombstone_hides [OF qdrant_trusted [OF assms(1)]] by (auto simp: run_index assms(2))
  have "kv_source_document_id e \<noteq> d" if "e \<in> set es" for e
    using trusted_index.searched [OF qdrant_trusted [OF assms(1)] assms(2,6) that] unfolding w'(2) tells_def by auto
  then show ?thesis using v w'(1) by auto
qed

definition sample_stranger :: AccessContext where
  "sample_stranger = sample_caller\<lparr>x_tenant_id := ''u''\<rparr>"

definition owned_rows :: kdb where
  "owned_rows = \<lparr>kd_documents = [document_of sample_command sample_caller ''d'' ''k'' '''' 0], kd_chunks = [], kd_jobs = []\<rparr>"

lemma sample_ports_simps:
  "kp_connect sample_ports n = None" "kp_index_fails sample_ports n = None" "kp_rerank sample_ports = None"
  "kp_embed sample_ports n ts = Inr (map (\<lambda>_. [1]) ts)" "kp_index sample_ports = qdrant_adapter sample_server"
  by (simp_all add: sample_ports_def)

lemma sample_search_hidden:
  "kw_index w = Some (n, [p]) \<Longrightarrow> pt_is_deleted p \<Longrightarrow> ran_ok (knowledge_search sample_ports q x w)"
  by (simp add: knowledge_search_def Let_def act_bind_def k_call_def act_require_def k_index_search_def rank_hits_def
      qdrant_adapter_def qd_search_def sample_server_def holds_search_filter act_ret_def sample_ports_simps)

lemma sample_delete:
  "\<exists>w' p. delete_document_route sample_ports ''d'' sample_stranger (sample_world owned_rows) = (Inr (), w')
     \<and> kw_index w' = Some (2, [p]) \<and> pt_is_deleted p"
  by (simp add: delete_document_route_def require_action_def sample_stranger_def sample_caller_def is_allowed_def has_scope_def
      soft_delete_document_def k_tx_def soft_delete_tx_def k_now_def k_update_documents_def k_update_chunks_def Let_def k_index_def
      qdrant_adapter_def qd_tombstone_document_def on_points_def sample_world_def act_bind_def act_lift_def sample_ports_simps
      sample_server_def holds_document_filter point_of_def sample_chunk_def)

theorem stranger_delete_hides_document_witness:
  "\<exists>w' es w''. delete_document_route sample_ports ''d'' sample_stranger (sample_world owned_rows) = (Inr (), w')
     \<and> knowledge_search sample_ports sample_query sample_caller w' = (Inr es, w'')
     \<and> kd_documents (kw_db w') = kd_documents owned_rows \<and> ''d'' \<notin> kv_source_document_id ` set es"
proof -
  obtain w' p where w': "delete_document_route sample_ports ''d'' sample_stranger (sample_world owned_rows) = (Inr (), w')"
      "kw_index w' = Some (2, [p])" "pt_is_deleted p"
    using sample_delete by (elim exE conjE)
  obtain es w'' where es: "knowledge_search sample_ports sample_query sample_caller w' = (Inr es, w'')"
    using ran_ok_elim [OF sample_search_hidden [OF w'(2,3), of sample_query sample_caller]] by (elim exE)
  have rows: "kw_db (sample_world owned_rows) = owned_rows" by (simp add: sample_world_def)
  have "\<forall>r \<in> set (kd_documents owned_rows). dr_id r = ''d'' \<longrightarrow> dr_tenant_id r \<noteq> x_tenant_id sample_stranger"
      "\<forall>c \<in> set (kd_chunks owned_rows). ck_document_id c = ''d'' \<longrightarrow> ck_tenant_id c \<noteq> x_tenant_id sample_stranger"
    by (simp_all add: owned_rows_def document_of_def sample_stranger_def sample_caller_def)
  from stranger_delete_hides_document [OF sample_documented sample_ports_simps(5) w'(1), unfolded rows, OF this es]
  show ?thesis using w'(1) es by (elim conjE, intro exI conjI)
qed

section \<open>The two adapters\<close>

text \<open>What the gateway does with an index, between two searches: it takes a document out of the results, or it puts
  the new points of a document in the place of its old ones.\<close>

datatype index_op = Tombstone uuid | Reindex uuid "IndexableChunk list"

fun index_run :: "'i vector_index \<Rightarrow> index_op list \<Rightarrow> 'i \<Rightarrow> 'i result" where
  "index_run vi [] i = Inr i"
| "index_run vi (Tombstone d # ops) i =
     (case vi_tombstone_document vi d i of Inl e \<Rightarrow> Inl e | Inr j \<Rightarrow> index_run vi ops j)"
| "index_run vi (Reindex d cs # ops) i =
     (case vi_delete_document vi d i of Inl e \<Rightarrow> Inl e | Inr j \<Rightarrow>
       (case vi_upsert vi cs j of Inl e \<Rightarrow> Inl e | Inr k \<Rightarrow> index_run vi ops k))"

fun op_ok :: "index_op \<Rightarrow> bool" where
  "op_ok (Tombstone d) = True"
| "op_ok (Reindex d cs) = ((\<forall>c \<in> set cs. ix_document_id c = d) \<and> distinct (map ix_chunk_id cs))"

text \<open>The relation of the two states: the same chunks, under their own ids, and the deletion mark of a point is
  whether its document is among the tombstoned ones.\<close>

definition same_chunks :: "memory_index \<Rightarrow> point list \<Rightarrow> bool" where
  "same_chunks i ps = (set (mi_chunks i) = (\<lambda>p. (pt_id p, chunk_at p)) ` set ps
     \<and> (\<forall>p \<in> set ps. pt_is_deleted p = (pt_source_document_id p \<in> mi_tombstoned i)) \<and> distinct (map fst (mi_chunks i)))"

lemma chunk_at_document [simp]: "ix_document_id (chunk_at p) = pt_source_document_id p"
  by (simp add: chunk_at_def)

lemma same_chunks_shown: "same_chunks i ps \<Longrightarrow> memory_shown i = collection_shown (Some (n, ps))"
  by (force simp: same_chunks_def memory_shown_def collection_shown_def image_iff)

lemma set_update_distinct:
  "distinct (map fst al) \<Longrightarrow> set (AList.update k v al) = {p \<in> set al. fst p \<noteq> k} \<union> {(k, v)}"
proof (induction al)
  case (Cons a al)
  then show ?case by (cases a) (auto simp: rev_image_eqI)
qed simp

lemma mem_upsert_set:
  "distinct (map fst (mi_chunks i)) \<Longrightarrow> distinct (map ix_chunk_id cs) \<Longrightarrow>
     distinct (map fst (mi_chunks (mem_upsert cs i)))
     \<and> set (mi_chunks (mem_upsert cs i)) = {p \<in> set (mi_chunks i). fst p \<notin> ix_chunk_id ` set cs} \<union> (\<lambda>c. (ix_chunk_id c, c)) ` set cs"
proof (induction cs i rule: mem_upsert.induct)
  case (2 c cs i)
  have "distinct (map fst (AList.update (ix_chunk_id c) c (mi_chunks i)))"
    using "2.prems"(1) by (rule distinct_update)
  then show ?case using 2 by (auto simp: set_update_distinct)
qed simp

lemma point_of_fields [simp]:
  "pt_id (point_of c) = ix_chunk_id c" "pt_source_document_id (point_of c) = ix_document_id c" "\<not> pt_is_deleted (point_of c)"
  by (simp_all add: point_of_def)

lemma same_chunks_reindex:
  assumes "same_chunks i ps" "op_ok (Reindex d cs)"
  shows "same_chunks (mem_upsert cs (mem_delete_document d i)) (put_chunks cs (filter (\<lambda>p. pt_source_document_id p \<noteq> d) ps))"
proof -
  let ?i = "mem_delete_document d i" and ?ps = "filter (\<lambda>p. pt_source_document_id p \<noteq> d) ps"
  have i: "distinct (map fst (mi_chunks ?i))" "set (mi_chunks ?i) = (\<lambda>p. (pt_id p, chunk_at p)) ` set ?ps"
      "mi_tombstoned ?i = mi_tombstoned i - {d}"
    using assms(1) by (auto simp: same_chunks_def mem_delete_document_def distinct_map_filter)
  have cs: "distinct (map ix_chunk_id cs)" "\<forall>c \<in> set cs. ix_document_id c = d" using assms(2) by auto
  note mem = mem_upsert_set [OF i(1) cs(1)] and qd = set_put_chunks [OF cs(1), of ?ps]
  have tomb: "mi_tombstoned (mem_upsert cs ?i) = mi_tombstoned i - {d}"
    using cs(2) by (auto simp: mem_upsert_tombstoned i(3))
  show ?thesis unfolding same_chunks_def
  proof (intro conjI)
    have "{p \<in> set (mi_chunks ?i). fst p \<notin> ix_chunk_id ` set cs}
        = (\<lambda>p. (pt_id p, chunk_at p)) ` {p \<in> set ?ps. pt_id p \<notin> ix_chunk_id ` set cs}" unfolding i(2) by auto
    then show "set (mi_chunks (mem_upsert cs ?i)) = (\<lambda>p. (pt_id p, chunk_at p)) ` set (put_chunks cs ?ps)"
      using mem unfolding qd by (simp add: image_Un image_image)
    show "\<forall>p \<in> set (put_chunks cs ?ps). pt_is_deleted p = (pt_source_document_id p \<in> mi_tombstoned (mem_upsert cs ?i))"
      unfolding qd tomb
    proof
      fix p assume "p \<in> {p \<in> set ?ps. pt_id p \<notin> ix_chunk_id ` set cs} \<union> point_of ` set cs"
      then consider "p \<in> set ps" "pt_source_document_id p \<noteq> d" | c where "c \<in> set cs" "p = point_of c" by auto
      then show "pt_is_deleted p = (pt_source_document_id p \<in> mi_tombstoned i - {d})"
        using assms(1) cs(2) by cases (simp_all add: same_chunks_def)
    qed
  qed (use mem in blast)
qed

lemma same_chunks_tombstone:
  assumes "same_chunks i ps"
  shows "same_chunks (mem_tombstone_document d i)
    (map (\<lambda>p. if pt_source_document_id p = d then p\<lparr>pt_is_deleted := True\<rparr> else p) ps)"
proof -
  let ?mark = "\<lambda>p. if pt_source_document_id p = d then p\<lparr>pt_is_deleted := True\<rparr> else p"
  have mark: "pt_id (?mark p) = pt_id p" "chunk_at (?mark p) = chunk_at p"
      "pt_source_document_id (?mark p) = pt_source_document_id p" for p by (simp_all add: chunk_at_def)
  have same: "(\<lambda>p. (pt_id p, chunk_at p)) ` set (map ?mark ps) = (\<lambda>p. (pt_id p, chunk_at p)) ` set ps"
    by (simp only: set_map image_image mark)
  show ?thesis unfolding same_chunks_def same
  proof (intro conjI ballI)
    fix q assume "q \<in> set (map ?mark ps)"
    then obtain p where p: "p \<in> set ps" "q = ?mark p" by auto
    have "pt_is_deleted p = (pt_source_document_id p \<in> mi_tombstoned i)" using p(1) assms by (simp add: same_chunks_def)
    then show "pt_is_deleted q = (pt_source_document_id q \<in> mi_tombstoned (mem_tombstone_document d i))"
      unfolding p(2) by (simp add: mem_tombstone_document_def)
  qed (use assms in \<open>simp_all add: same_chunks_def mem_tombstone_document_def\<close>)
qed

lemma index_runs_agree:
  assumes "documented S" "\<forall>op \<in> set ops. op_ok op" "same_chunks i ps"
  shows "\<exists>j qs. index_run (memory_adapter cosine) ops i = Inr j
    \<and> index_run (qdrant_adapter S) ops (Some (n, ps)) = Inr (Some (n, qs)) \<and> same_chunks j qs"
  using assms(2,3)
proof (induction ops arbitrary: i ps)
  case (Cons op ops)
  have S: "qs_matches S = holds" using assms(1) by (simp add: documented_def)
  have ok: "\<forall>op \<in> set ops. op_ok op" using Cons.prems(1) by simp
  show ?case
  proof (cases op)
    case (Tombstone d)
    from Cons.IH [OF ok same_chunks_tombstone [OF Cons.prems(2), of d]] show ?thesis
      by (simp add: Tombstone memory_adapter_def qdrant_adapter_def qd_tombstone_document_def on_points_def S
          holds_document_filter)
  next
    case (Reindex d cs)
    have step: "qd_upsert cs (Some (n, qs)) = Inr (Some (n, put_chunks cs qs))" for qs
      by (simp add: qd_upsert_def on_points_def put_chunks_def)
    have "op_ok (Reindex d cs)" using Cons.prems(1) Reindex by simp
    from Cons.IH [OF ok same_chunks_reindex [OF Cons.prems(2) this]] show ?thesis
      by (simp add: Reindex memory_adapter_def qdrant_adapter_def qd_delete_document_def on_points_def S
          holds_document_filter step)
  qed
qed simp

text \<open>C36: The two index adapters show the same chunks. From an empty index, after any operations of the gateway (tombstoning
  a document, or putting the new points of one in the place of its old ones), the in-memory adapter and the Qdrant
  adapter show exactly the same chunks, and the filter a search sends to the server selects among the points what
  the in-memory adapter's own filter selects among its chunks.\<close>

theorem adapters_agree:
  assumes "documented S" "\<forall>op \<in> set ops. op_ok op"
  shows "\<exists>i ps. index_run (memory_adapter cosine) ops \<lparr>mi_chunks = [], mi_tombstoned = {}\<rparr> = Inr i
    \<and> index_run (qdrant_adapter S) ops (Some (n, [])) = Inr (Some (n, ps))
    \<and> memory_shown i = collection_shown (Some (n, ps))
    \<and> {c \<in> memory_shown i. admits tf c} = chunk_at ` {p \<in> set ps. qs_matches S (search_filter tf) p}"
proof -
  have "same_chunks \<lparr>mi_chunks = [], mi_tombstoned = {}\<rparr> []" by (simp add: same_chunks_def)
  from index_runs_agree [OF assms this] obtain i ps where
    runs: "index_run (memory_adapter cosine) ops \<lparr>mi_chunks = [], mi_tombstoned = {}\<rparr> = Inr i"
      "index_run (qdrant_adapter S) ops (Some (n, [])) = Inr (Some (n, ps))" "same_chunks i ps" by blast
  have "qs_matches S = holds" using assms(1) by (simp add: documented_def)
  then have "{c \<in> collection_shown (Some (n, ps)). admits tf c} = chunk_at ` {p \<in> set ps. qs_matches S (search_filter tf) p}"
    by (auto simp: collection_shown_def holds_search_filter)
  then show ?thesis using runs same_chunks_shown [OF runs(3), of n] by simp
qed

theorem adapters_agree_witness:
  "\<exists>i ps. index_run (memory_adapter (\<lambda>_ _. 1)) [Reindex ''d'' [sample_chunk], Tombstone ''e''] \<lparr>mi_chunks = [], mi_tombstoned = {}\<rparr> = Inr i
    \<and> index_run (qdrant_adapter sample_server) [Reindex ''d'' [sample_chunk], Tombstone ''e''] (Some (2, [])) = Inr (Some (2, ps))
    \<and> memory_shown i = collection_shown (Some (2, ps))"
proof -
  have "\<forall>op \<in> set [Reindex ''d'' [sample_chunk], Tombstone ''e'']. op_ok op" by (simp add: sample_chunk_def)
  from adapters_agree [OF sample_documented this, where cosine = "\<lambda>_ _. 1" and n = 2
      and tf = "build_trusted_filter sample_caller ''tender''"] show ?thesis by (elim exE conjE, intro exI conjI)
qed

section \<open>The ingest queue\<close>

text \<open>Everything but the queue's own statements leaves the jobs alone, whether it returns or raises.\<close>

definition keeps_jobs :: "('i, 'a) kact \<Rightarrow> bool" where
  "keeps_jobs m = (\<forall>w. kd_jobs (kw_db (snd (m w))) = kd_jobs (kw_db w))"

lemma keeps_jobs_D: "keeps_jobs m \<Longrightarrow> m w = (r, w') \<Longrightarrow> kd_jobs (kw_db w') = kd_jobs (kw_db w)"
  unfolding keeps_jobs_def by (metis snd_conv)

lemma jobs_kept_bind: "keeps_jobs m \<Longrightarrow> (\<And>a. keeps_jobs (f a)) \<Longrightarrow> keeps_jobs (act_bind m f)"
  unfolding keeps_jobs_def act_bind_def
  by (auto split: prod.splits sum.splits) (metis snd_conv)+

lemma jobs_kept_basic:
  "keeps_jobs (act_ret a)" "keeps_jobs (act_get g)" "keeps_jobs (act_lift r)" "keeps_jobs (act_require b c s)"
  "keeps_jobs (act_modify (\<lambda>w. w\<lparr>kw_ready := True\<rparr>))"
  by (auto simp: keeps_jobs_def act_ret_def act_get_def act_lift_def act_require_def act_modify_def)

lemma jobs_kept_control:
  "keeps_jobs m \<Longrightarrow> keeps_jobs (act_when b m)"
  "keeps_jobs m \<Longrightarrow> keeps_jobs n \<Longrightarrow> keeps_jobs (if b then m else n)"
  by (simp_all add: act_when_def jobs_kept_basic)

lemma jobs_kept_for: "(\<And>x. keeps_jobs (f x)) \<Longrightarrow> keeps_jobs (act_for xs f)"
  by (induction xs) (simp_all add: jobs_kept_basic jobs_kept_bind)

lemma jobs_kept_ports:
  "keeps_jobs (k_now P)" "keeps_jobs (k_call c)" "keeps_jobs (k_put_object P key data ctype)" "keeps_jobs (k_index P g)"
  "keeps_jobs (k_update_documents p h)" "keeps_jobs (k_update_chunks p' h')" "keeps_jobs (k_delete_chunks p')"
  "keeps_jobs (k_upsert_document row)" "keeps_jobs (k_insert_chunk c')"
  by (auto simp: keeps_jobs_def k_now_def k_call_def k_put_object_def k_index_def k_update_documents_def k_update_chunks_def
      k_delete_chunks_def k_upsert_document_def k_insert_chunk_def Let_def split: option.splits sum.splits)

lemma jobs_kept_tx: "keeps_jobs m \<Longrightarrow> keeps_jobs (k_tx P t m)"
  unfolding keeps_jobs_def k_tx_def
  by (auto split: option.splits prod.splits sum.splits) (metis kworld.select_convs(1) kworld.surjective kworld.update_convs snd_conv)

lemmas keeps_jobs_intros = jobs_kept_bind jobs_kept_basic jobs_kept_control jobs_kept_for jobs_kept_ports jobs_kept_tx

lemma ingest_keeps_jobs: "keeps_jobs (ingest_document P cmd x)"
  unfolding ingest_document_def Let_def ensure_ready_def ingest_tx_def index_leaves_def
  by (intro keeps_jobs_intros)

definition waiting :: "IngestJob list \<Rightarrow> nat" where
  "waiting jobs = length (filter (\<lambda>r. jb_status r = ''queued'') jobs)"

text \<open>What the worker may do with a job.\<close>

definition worked :: "IngestJob \<Rightarrow> IngestJob \<Rightarrow> bool" where
  "worked r r' = (jb_id r' = jb_id r \<and> jb_tenant_id r' = jb_tenant_id r
     \<and> (r' = r \<or> jb_status r = ''queued'' \<and> jb_status r' \<in> {''done'', ''failed''} \<and> jb_attempts r' = jb_attempts r + 1))"

lemma update_one:
  assumes "distinct (map jb_id jobs)" "j \<in> set jobs"
  shows "map (\<lambda>r. if jb_tenant_id r = jb_tenant_id j \<and> jb_id r = jb_id j then f r else r) jobs
    = map (\<lambda>r. if r = j then f j else r) jobs"
proof (intro map_cong refl)
  fix r assume "r \<in> set jobs"
  then have "jb_id r = jb_id j \<longleftrightarrow> r = j" using assms by (auto simp: distinct_map inj_on_def)
  then show "(if jb_tenant_id r = jb_tenant_id j \<and> jb_id r = jb_id j then f r else r) = (if r = j then f j else r)" by auto
qed

lemma waiting_one:
  "distinct jobs \<Longrightarrow> j \<in> set jobs \<Longrightarrow> jb_status j = ''queued'' \<Longrightarrow> jb_status j' \<noteq> ''queued'' \<Longrightarrow>
     waiting jobs = Suc (waiting (map (\<lambda>r. if r = j then j' else r) jobs))"
proof (induction jobs)
  case (Cons a jobs)
  show ?case
  proof (cases "a = j")
    case True
    then have "map (\<lambda>r. if r = j then j' else r) jobs = jobs" using Cons.prems(1) by (intro map_idI) auto
    then show ?thesis using True Cons.prems by (simp add: waiting_def)
  next
    case False
    then show ?thesis using Cons by (simp add: waiting_def)
  qed
qed simp

text \<open>One turn of the worker: it claims the oldest queued job, and that job ends as done or failed.\<close>

lemma claim_run:
  assumes "kp_connect P = (\<lambda>_. None)" "claim_next_job P w = (r, v)" "distinct (map jb_id (kd_jobs (kw_db w)))"
  shows "(r = Inr None \<and> waiting (kd_jobs (kw_db w)) = 0 \<and> kd_jobs (kw_db v) = kd_jobs (kw_db w))
    \<or> (\<exists>j j'. r = Inr (Some j) \<and> j \<in> set (kd_jobs (kw_db w)) \<and> jb_status j = ''queued''
        \<and> jb_id j' = jb_id j \<and> jb_tenant_id j' = jb_tenant_id j \<and> jb_attempts j' = jb_attempts j + 1
        \<and> kd_jobs (kw_db v) = map (\<lambda>r. if r = j then j' else r) (kd_jobs (kw_db w)))"
proof (cases "sort_key jb_created_at (filter (\<lambda>j. jb_status j = ''queued'') (kd_jobs (kw_db w)))")
  case Nil
  then have "set (sort_key jb_created_at (filter (\<lambda>j. jb_status j = ''queued'') (kd_jobs (kw_db w)))) = {}" by simp
  then have "waiting (kd_jobs (kw_db w)) = 0" by (auto simp: waiting_def filter_empty_conv)
  then show ?thesis using assms(1,2) Nil
    by (auto simp: claim_next_job_def k_now_def k_tx_def act_bind_def act_get_def act_ret_def)
next
  case (Cons j js)
  then have "j \<in> set (sort_key jb_created_at (filter (\<lambda>j. jb_status j = ''queued'') (kd_jobs (kw_db w))))" by simp
  then have j: "j \<in> set (kd_jobs (kw_db w))" "jb_status j = ''queued''" by auto
  let ?f = "\<lambda>now r. r\<lparr>jb_status := ''processing'', jb_attempts := jb_attempts j + 1, jb_updated_at := now\<rparr>"
  have "r = Inr (Some j) \<and> kd_jobs (kw_db v) = map (\<lambda>r. if r = j then ?f (kp_clock P (kw_ticks w)) j else r) (kd_jobs (kw_db w))"
    using assms(1,2) Cons update_one [OF assms(3) j(1)]
    by (auto simp: claim_next_job_def k_now_def k_tx_def act_bind_def act_get_def act_ret_def act_modify_def k_update_jobs_def)
  then show ?thesis using j by (intro disjI2 exI [of _ j] exI [of _ "?f (kp_clock P (kw_ticks w)) j"]) simp
qed

definition marks_job :: "IngestJob \<Rightarrow> IngestJob list \<Rightarrow> IngestJob list \<Rightarrow> bool" where
  "marks_job j jobs jobs' = (\<exists>f. jobs' = map (\<lambda>r. if jb_tenant_id r = jb_tenant_id j \<and> jb_id r = jb_id j then f r else r) jobs
     \<and> (\<forall>r. jb_status (f r) \<in> {''done'', ''failed''} \<and> jb_id (f r) = jb_id r \<and> jb_tenant_id (f r) = jb_tenant_id r
          \<and> jb_attempts (f r) = jb_attempts r))"

lemma job_marked:
  assumes "kp_connect P = (\<lambda>_. None)" "m = mark_ingest_done P j d n \<or> m = mark_ingest_failed P j e"
  shows "\<exists>v. m w = (Inr (), v) \<and> marks_job j (kd_jobs (kw_db w)) (kd_jobs (kw_db v))"
  using assms(2)
proof
  assume "m = mark_ingest_done P j d n"
  then show ?thesis using assms(1) unfolding marks_job_def
    by (intro exI conjI exI [of _ "\<lambda>r. r\<lparr>jb_status := ''done'', jb_document_id := Some d, jb_chunk_count := Some n, jb_error := None,
          jb_updated_at := kp_clock P (kw_ticks w)\<rparr>"])
      (auto simp: mark_ingest_done_def k_tx_def k_now_def act_bind_def k_update_jobs_def)
next
  assume "m = mark_ingest_failed P j e"
  then show ?thesis using assms(1) unfolding marks_job_def
    by (intro exI conjI exI [of _ "\<lambda>r. r\<lparr>jb_status := ''failed'', jb_error := Some (take 2000 e),
          jb_updated_at := kp_clock P (kw_ticks w)\<rparr>"])
      (auto simp: mark_ingest_failed_def k_tx_def k_now_def act_bind_def k_update_jobs_def)
qed

definition marks_or_raises :: "IngestJob \<Rightarrow> ('i, unit) kact \<Rightarrow> bool" where
  "marks_or_raises j m = (\<forall>w r v. m w = (r, v) \<longrightarrow>
     (\<exists>e. r = Inl e) \<and> kd_jobs (kw_db v) = kd_jobs (kw_db w)
     \<or> r = Inr () \<and> marks_job j (kd_jobs (kw_db w)) (kd_jobs (kw_db v)))"

lemma marks_bind:
  assumes "keeps_jobs m" "\<And>a. marks_or_raises j (f a)"
  shows "marks_or_raises j (act_bind m f)"
  unfolding marks_or_raises_def
proof (intro allI impI)
  fix w r v assume run: "act_bind m f w = (r, v)"
  obtain r1 u where m: "m w = (r1, u)" by (cases "m w")
  have u: "kd_jobs (kw_db u) = kd_jobs (kw_db w)" by (rule keeps_jobs_D [OF assms(1) m])
  show "(\<exists>e. r = Inl e) \<and> kd_jobs (kw_db v) = kd_jobs (kw_db w)
     \<or> r = Inr () \<and> marks_job j (kd_jobs (kw_db w)) (kd_jobs (kw_db v))"
  proof (cases r1)
    case (Inl e)
    then show ?thesis using run m u by (auto simp: act_bind_def)
  next
    case (Inr a)
    then have "f a u = (r, v)" using run m by (simp add: act_bind_def)
    then show ?thesis using assms(2) [of a] u unfolding marks_or_raises_def by metis
  qed
qed

lemma process_marks:
  assumes "kp_connect P = (\<lambda>_. None)"
  shows "marks_or_raises j (process_ingest P j)"
proof -
  have "marks_or_raises j (mark_ingest_done P j d n)" for d n
    unfolding marks_or_raises_def
  proof (intro allI impI disjI2)
    fix w r v assume run: "mark_ingest_done P j d n w = (r, v)"
    show "r = Inr () \<and> marks_job j (kd_jobs (kw_db w)) (kd_jobs (kw_db v))"
      using job_marked [OF assms disjI1 [OF refl], of j d n w] run by auto
  qed
  then show ?thesis unfolding process_ingest_def by (intro marks_bind keeps_jobs_intros ingest_keeps_jobs)
qed

lemma turn_marks:
  assumes "kp_connect P = (\<lambda>_. None)"
  shows "\<exists>v. (case process_ingest P j w of (Inl e, w') \<Rightarrow> mark_ingest_failed P j (error_text e) w' | (Inr u, w') \<Rightarrow> (Inr u, w'))
    = (Inr (), v) \<and> marks_job j (kd_jobs (kw_db w)) (kd_jobs (kw_db v))"
proof -
  obtain r u where run: "process_ingest P j w = (r, u)" by (cases "process_ingest P j w")
  with process_marks [OF assms, of j]
  consider e where "r = Inl e" "kd_jobs (kw_db u) = kd_jobs (kw_db w)"
    | "r = Inr ()" "marks_job j (kd_jobs (kw_db w)) (kd_jobs (kw_db u))"
    unfolding marks_or_raises_def by blast
  then show ?thesis
  proof cases
    case (1 e)
    then show ?thesis using job_marked [OF assms disjI2 [OF refl], of j "error_text e" u] run by auto
  qed (use run in auto)
qed

lemma worked_refl: "list_all2 worked jobs jobs"
  by (intro list_all2_refl) (simp add: worked_def)

lemma worked_turn:
  assumes "jb_status j = ''queued''" "jb_id j'' = jb_id j" "jb_tenant_id j'' = jb_tenant_id j"
    "jb_status j'' \<in> {''done'', ''failed''}" "jb_attempts j'' = jb_attempts j + 1"
  shows "list_all2 worked (map (\<lambda>r. if r = j then j'' else r) jobs) jobs' \<Longrightarrow> list_all2 worked jobs jobs'"
proof (induction jobs arbitrary: jobs')
  case (Cons r jobs)
  then obtain r' rs where jobs': "jobs' = r' # rs" "worked (if r = j then j'' else r) r'"
      "list_all2 worked (map (\<lambda>r. if r = j then j'' else r) jobs) rs"
    by (auto simp: list_all2_Cons1)
  have "worked r r'"
  proof (cases "r = j")
    case True
    have "r' = j''" using jobs'(2) True assms(4) by (auto simp: worked_def)
    then show ?thesis using True assms by (simp add: worked_def)
  qed (use jobs'(2) in simp)
  then show ?case using Cons.IH [OF jobs'(3)] jobs'(1) by simp
qed simp

lemma consume_run:
  assumes P: "kp_connect P = (\<lambda>_. None)"
  shows "distinct (map jb_id (kd_jobs (kw_db w))) \<Longrightarrow>
    \<exists>w'. consume_ingest P error_text n w = (Inr (), w')
      \<and> list_all2 worked (kd_jobs (kw_db w)) (kd_jobs (kw_db w'))
      \<and> waiting (kd_jobs (kw_db w')) = waiting (kd_jobs (kw_db w)) - n"
proof (induction n arbitrary: w)
  case 0
  then show ?case by (simp add: act_ret_def worked_refl)
next
  case (Suc n)
  let ?jobs = "kd_jobs (kw_db w)"
  obtain r v where claim: "claim_next_job P w = (r, v)" by (cases "claim_next_job P w")
  from claim_run [OF P this Suc.prems] show ?case
  proof (elim disjE exE conjE)
    assume "r = Inr None" "waiting ?jobs = 0" "kd_jobs (kw_db v) = ?jobs"
    then show ?thesis using claim by (simp add: act_bind_def act_ret_def worked_refl)
  next
    fix j j'
    assume j: "r = Inr (Some j)" "j \<in> set ?jobs" "jb_status j = ''queued''" "jb_id j' = jb_id j" "jb_tenant_id j' = jb_tenant_id j"
      "jb_attempts j' = jb_attempts j + 1" "kd_jobs (kw_db v) = map (\<lambda>r. if r = j then j' else r) ?jobs"
    obtain u where u: "(case process_ingest P j v of (Inl e, w') \<Rightarrow> mark_ingest_failed P j (error_text e) w'
        | (Inr u, w') \<Rightarrow> (Inr u, w')) = (Inr (), u)" "marks_job j (kd_jobs (kw_db v)) (kd_jobs (kw_db u))"
      using turn_marks [OF P, of j error_text v] by blast
    then obtain f where f: "kd_jobs (kw_db u) = map (\<lambda>r. if jb_tenant_id r = jb_tenant_id j \<and> jb_id r = jb_id j then f r else r)
          (map (\<lambda>r. if r = j then j' else r) ?jobs)"
        "\<forall>r. jb_status (f r) \<in> {''done'', ''failed''} \<and> jb_id (f r) = jb_id r \<and> jb_tenant_id (f r) = jb_tenant_id r
          \<and> jb_attempts (f r) = jb_attempts r"
      unfolding marks_job_def j(7) by blast
    have jobs: "kd_jobs (kw_db u) = map (\<lambda>r. if r = j then f j' else r) ?jobs"
      unfolding f(1) update_one [OF Suc.prems j(2), of "\<lambda>_. f j'", symmetric] map_map
    proof (rule map_cong [OF refl])
      fix r assume "r \<in> set ?jobs"
      then have "jb_id r = jb_id j \<longleftrightarrow> r = j" using Suc.prems j(2) by (auto simp: distinct_map inj_on_def)
      then show "((\<lambda>r. if jb_tenant_id r = jb_tenant_id j \<and> jb_id r = jb_id j then f r else r) \<circ> (\<lambda>r. if r = j then j' else r)) r
          = (if jb_tenant_id r = jb_tenant_id j \<and> jb_id r = jb_id j then f j' else r)"
        using j(4,5) by auto
    qed
    have fj: "jb_status (f j') \<in> {''done'', ''failed''}" "jb_id (f j') = jb_id j" "jb_tenant_id (f j') = jb_tenant_id j"
        "jb_attempts (f j') = jb_attempts j + 1"
      using f(2) j(4-6) by simp_all
    have "map jb_id (kd_jobs (kw_db u)) = map jb_id ?jobs" unfolding jobs by (simp add: fj(2) comp_def cong: if_cong)
    then have "distinct (map jb_id (kd_jobs (kw_db u)))" using Suc.prems by simp
    from Suc.IH [OF this] obtain w' where w': "consume_ingest P error_text n u = (Inr (), w')"
        "list_all2 worked (kd_jobs (kw_db u)) (kd_jobs (kw_db w'))" "waiting (kd_jobs (kw_db w')) = waiting (kd_jobs (kw_db u)) - n"
      by blast
    have "waiting ?jobs = Suc (waiting (kd_jobs (kw_db u)))"
      unfolding jobs using fj(1) Suc.prems by (intro waiting_one j(2,3)) (auto simp: distinct_map)
    moreover have "list_all2 worked ?jobs (kd_jobs (kw_db w'))"
      using worked_turn [OF j(3) fj(2,3,1,4)] w'(2) unfolding jobs by blast
    ultimately show ?thesis using claim j(1) u(1) w' by (simp add: act_bind_def)
  qed
qed

text \<open>C37: The ingest worker drains its queue and touches nothing else. When the database can be reached, a round of the
  worker returns whatever its jobs raise; every job it took from the queue has ended as done or failed after one more
  attempt, every other job is as it was, and it has taken as many jobs as it was allowed, or all there were. A job
  that is not queued, for one because its worker died while processing it, is never taken again.\<close>

theorem worker_drains_queue:
  assumes "kp_connect P = (\<lambda>_. None)" "distinct (map jb_id (kd_jobs (kw_db w)))"
  shows "\<exists>w'. consume_ingest P error_text n w = (Inr (), w')
      \<and> list_all2 worked (kd_jobs (kw_db w)) (kd_jobs (kw_db w'))
      \<and> length (filter (\<lambda>r. jb_status r = ''queued'') (kd_jobs (kw_db w')))
          = length (filter (\<lambda>r. jb_status r = ''queued'') (kd_jobs (kw_db w))) - n"
  using consume_run [OF assms] by (simp add: waiting_def)

definition sample_job :: IngestJob where
  "sample_job = queued_job (upload_command \<lparr>uf_filename = ''f'', uf_content_type = '''', uf_data = '''', uf_title = ''T'',
     uf_domain = ''tender'', uf_classification = ''internal'', uf_source_version = ''1'', uf_scope = ''tenant''\<rparr>)
     sample_caller ''k'' ''j'' 0"

definition two_jobs :: kdb where
  "two_jobs = \<lparr>kd_documents = [], kd_chunks = [],
     kd_jobs = [sample_job, sample_job\<lparr>jb_id := ''i'', jb_status := ''processing'', jb_attempts := 1\<rparr>]\<rparr>"

theorem worker_drains_queue_witness:
  "\<exists>w'. consume_ingest sample_ports (\<lambda>_. ''failed'') 3 (sample_world two_jobs) = (Inr (), w')
     \<and> list_all2 worked (kd_jobs two_jobs) (kd_jobs (kw_db w'))
     \<and> filter (\<lambda>r. jb_status r = ''queued'') (kd_jobs (kw_db w')) = []"
proof -
  have P: "kp_connect sample_ports = (\<lambda>_. None)" by (simp add: sample_ports_def)
  have db: "kw_db (sample_world two_jobs) = two_jobs" by (simp add: sample_world_def)
  have "distinct (map jb_id (kd_jobs (kw_db (sample_world two_jobs))))"
      "length (filter (\<lambda>r. jb_status r = ''queued'') (kd_jobs (kw_db (sample_world two_jobs)))) = 1"
    unfolding db by (simp_all add: two_jobs_def sample_job_def queued_job_def)
  from worker_drains_queue [OF P this(1), of "\<lambda>_. ''failed''" 3] this(2) show ?thesis
    unfolding db by auto
qed

text \<open>The parts of a document id are joined with colons, and titles and versions may contain them: two documents of a
  workspace with different titles get the same id, so ingesting the second replaces the first.\<close>

lemma document_ids_collide:
  "document_id_for P t w d ''Law 22:2023'' ''v1'' scope = document_id_for P t w d ''Law 22'' ''2023:v1'' scope"
  by (simp add: document_id_for_def colon_join_def py_strip_def py_lstrip_def py_rstrip_def py_isspace_def)

end
