(* ===== verification/DW_Memory.thy ===== *)
theory DW_Memory
  imports Complex_Main DW_Store
begin

text \<open>
  \<open>dw_memory\<close>: the memory item and its validity window (\<open>contracts.py\<close>), the write policy (\<open>policy.py\<close>) and the
  service (\<open>service.py\<close>), with its two tables. The service runs beside the platform's store: its world has a
  \<open>world\<close> of \<open>DW_Store\<close> for the ports, and may be extended by the caller's own tables.
\<close>

section \<open>Contracts\<close>

datatype MemoryType = EPISODIC | SEMANTIC | PROCEDURAL | PREFERENCE | COMMITMENT

record EvidenceRef =
  ev_evidence_id :: uuid
  ev_source_document_id :: uuid
  ev_source_version :: string
  ev_quote :: "string option"
  ev_relevance_score :: rat
  ev_classification :: string
  ev_provenance_hash :: string

definition sha256_hex :: "string \<Rightarrow> bool" where
  "sha256_hex h = (length h = 64 \<and> list_all (\<lambda>c. c \<in> set ''0123456789abcdef'') h)"

definition mk_EvidenceRef :: "EvidenceRef \<Rightarrow> EvidenceRef result" where
  "mk_EvidenceRef e =
     (if 0 \<le> ev_relevance_score e \<and> ev_relevance_score e \<le> 1 \<and> sha256_hex (ev_provenance_hash e) then Inr e
      else Inl (Err PydanticValidationError ''EvidenceRef''))"

record MemoryItem =
  mi_memory_id :: uuid
  mi_tenant_id :: uuid
  mi_workspace_id :: uuid
  mi_worker_id :: string
  mi_memory_type :: MemoryType
  mi_subject_refs :: "string list"
  mi_content :: string
  mi_structured_facts :: jdict
  mi_provenance_refs :: "EvidenceRef list"
  mi_confidence :: rat
  mi_classification :: string
  mi_valid_from :: datetime
  mi_valid_until :: "datetime option"
  mi_retention_policy :: string
  mi_memory_schema_version :: string
  mi_created_by_run_id :: uuid

definition MEMORY_SCHEMA_VERSION :: string where
  "MEMORY_SCHEMA_VERSION = ''1.0.0''"

definition window_ordered :: "MemoryItem \<Rightarrow> bool" where
  "window_ordered i = (case mi_valid_until i of None \<Rightarrow> True | Some u \<Rightarrow> mi_valid_from i < u)"

definition mk_MemoryItem :: "MemoryItem \<Rightarrow> MemoryItem result" where
  "mk_MemoryItem i =
     (if mi_content i \<noteq> '''' \<and> 0 \<le> mi_confidence i \<and> mi_confidence i \<le> 1 \<and> window_ordered i then Inr i
      else Inl (Err PydanticValidationError ''MemoryItem''))"

definition is_valid_at :: "MemoryItem \<Rightarrow> datetime \<Rightarrow> bool" where
  "is_valid_at i moment =
     (if moment < mi_valid_from i then False
      else case mi_valid_until i of None \<Rightarrow> True | Some u \<Rightarrow> moment < u)"

section \<open>Write policy\<close>

datatype WriteDecision = AUTO_WRITE | REVIEW | REJECT

record MemoryCandidate =
  mc_worker_id :: string
  mc_memory_type :: MemoryType
  mc_content :: string
  mc_structured_facts :: jdict
  mc_subject_refs :: "string list"
  mc_provenance_refs :: "EvidenceRef list"
  mc_confidence :: rat
  mc_classification :: string

definition mk_MemoryCandidate :: "MemoryCandidate \<Rightarrow> MemoryCandidate result" where
  "mk_MemoryCandidate c =
     (if mc_content c \<noteq> '''' \<and> 0 \<le> mc_confidence c \<and> mc_confidence c \<le> 1 then Inr c
      else Inl (Err PydanticValidationError ''MemoryCandidate''))"

record PolicyOutcome =
  po_decision :: WriteDecision
  po_reason :: string

record MemoryWritePolicy =
  mp_auto_write_confidence :: rat
  mp_review_confidence :: rat

definition default_write_policy :: MemoryWritePolicy where
  "default_write_policy = \<lparr>mp_auto_write_confidence = 8 / 10, mp_review_confidence = 5 / 10\<rparr>"

definition evaluate_candidate :: "MemoryWritePolicy \<Rightarrow> MemoryCandidate \<Rightarrow> PolicyOutcome" where
  "evaluate_candidate p c =
     (if mc_provenance_refs c = [] then \<lparr>po_decision = REJECT, po_reason = ''memory without provenance is never stored''\<rparr>
      else if mc_classification c = ''restricted''
      then \<lparr>po_decision = REVIEW, po_reason = ''restricted content always requires human review''\<rparr>
      else if mp_auto_write_confidence p \<le> mc_confidence c
      then \<lparr>po_decision = AUTO_WRITE, po_reason = ''confident, evidenced, unrestricted''\<rparr>
      else if mp_review_confidence p \<le> mc_confidence c
      then \<lparr>po_decision = REVIEW, po_reason = ''confidence below auto-write threshold''\<rparr>
      else \<lparr>po_decision = REJECT, po_reason = ''confidence too low to keep''\<rparr>)"

section \<open>Tables\<close>

record write_candidate_row =
  wc_id :: uuid
  wc_tenant_id :: uuid
  wc_workspace_id :: uuid
  wc_candidate :: MemoryCandidate
  wc_decision :: WriteDecision
  wc_memory_id :: "uuid option"
  wc_created_by_run_id :: uuid
  wc_created_at :: datetime

record mdb =
  md_items :: "(MemoryItem \<times> datetime) list"
  md_candidates :: "write_candidate_row list"

record mworld =
  mw_platform :: world
  mw_db :: mdb

type_synonym ('z, 'a) mact = "('z mworld_scheme, 'a) act"

text \<open>A computation of the platform, run on the platform's part of the world.\<close>

definition on_platform :: "'a handler \<Rightarrow> ('z, 'a) mact" where
  "on_platform h w = (case h (mw_platform w) of (r, p) \<Rightarrow> (r, w\<lparr>mw_platform := p\<rparr>))"

text \<open>The session of the service: committed when the block ends, rolled back when it raises.\<close>

definition m_connect :: "env \<Rightarrow> unit handler" where
  "m_connect E w =
     (case env_connect E (w_calls w) of
        Some e \<Rightarrow> (Inl e, w\<lparr>w_calls := Suc (w_calls w)\<rparr>)
      | None \<Rightarrow> (Inr (), w\<lparr>w_calls := Suc (w_calls w)\<rparr>))"

definition m_session :: "env \<Rightarrow> ('z, 'a) mact \<Rightarrow> ('z, 'a) mact" where
  "m_session E body =
     act_bind (on_platform (m_connect E)) (\<lambda>_ w.
       case body w of (Inl e, v) \<Rightarrow> (Inl e, v\<lparr>mw_db := mw_db w\<rparr>) | (Inr a, v) \<Rightarrow> (Inr a, v))"

definition candidates_insert :: "write_candidate_row \<Rightarrow> ('z, unit) mact" where
  "candidates_insert r w =
     (if wc_id r \<in> wc_id ` set (md_candidates (mw_db w)) then (Inl db_error, w)
      else (Inr (), w\<lparr>mw_db := (mw_db w)\<lparr>md_candidates := md_candidates (mw_db w) @ [r]\<rparr>\<rparr>))"

definition items_insert :: "MemoryItem \<Rightarrow> datetime \<Rightarrow> ('z, unit) mact" where
  "items_insert i now w =
     (if mi_memory_id i \<in> (\<lambda>(r, _). mi_memory_id r) ` set (md_items (mw_db w)) then (Inl db_error, w)
      else (Inr (), w\<lparr>mw_db := (mw_db w)\<lparr>md_items := md_items (mw_db w) @ [(i, now)]\<rparr>\<rparr>))"

section \<open>Service\<close>

record ProposalResult =
  pp_candidate_id :: uuid
  pp_outcome :: PolicyOutcome
  pp_item :: "MemoryItem option"

definition item_of ::
  "MemoryCandidate \<Rightarrow> AccessContext \<Rightarrow> uuid \<Rightarrow> uuid \<Rightarrow> datetime \<Rightarrow> MemoryItem" where
  "item_of c x run i now =
     \<lparr>mi_memory_id = i, mi_tenant_id = x_tenant_id x, mi_workspace_id = x_workspace_id x, mi_worker_id = mc_worker_id c,
      mi_memory_type = mc_memory_type c, mi_subject_refs = mc_subject_refs c, mi_content = mc_content c,
      mi_structured_facts = mc_structured_facts c, mi_provenance_refs = mc_provenance_refs c,
      mi_confidence = mc_confidence c, mi_classification = mc_classification c, mi_valid_from = now,
      mi_valid_until = None, mi_retention_policy = ''default'', mi_memory_schema_version = MEMORY_SCHEMA_VERSION,
      mi_created_by_run_id = run\<rparr>"

definition candidate_row ::
  "MemoryCandidate \<Rightarrow> AccessContext \<Rightarrow> uuid \<Rightarrow> uuid \<Rightarrow> WriteDecision \<Rightarrow> MemoryItem option \<Rightarrow> datetime \<Rightarrow> write_candidate_row" where
  "candidate_row c x run i decision item now =
     \<lparr>wc_id = i, wc_tenant_id = x_tenant_id x, wc_workspace_id = x_workspace_id x, wc_candidate = c, wc_decision = decision,
      wc_memory_id = map_option mi_memory_id item, wc_created_by_run_id = run, wc_created_at = now\<rparr>"

definition propose ::
  "env \<Rightarrow> MemoryWritePolicy \<Rightarrow> MemoryCandidate \<Rightarrow> AccessContext \<Rightarrow> uuid \<Rightarrow> ('z, ProposalResult) mact" where
  "propose E p c x run =
     (let outcome = evaluate_candidate p c in
      act_bind (on_platform (new_uuid E)) (\<lambda>candidate_id.
      act_bind (on_platform (clock_now E)) (\<lambda>now.
      act_bind (if po_decision outcome = AUTO_WRITE
                then act_bind (on_platform (new_uuid E)) (\<lambda>i.
                     act_bind (act_lift (mk_MemoryItem (item_of c x run i now))) (\<lambda>item. act_ret (Some item)))
                else act_ret None) (\<lambda>item.
      act_bind (m_session E
        (act_bind (candidates_insert (candidate_row c x run candidate_id (po_decision outcome) item now)) (\<lambda>_.
           case item of None \<Rightarrow> act_ret () | Some i \<Rightarrow> items_insert i now))) (\<lambda>_.
      act_ret \<lparr>pp_candidate_id = candidate_id, pp_outcome = outcome, pp_item = item\<rparr>)))))"

definition list_items :: "env \<Rightarrow> nat \<Rightarrow> AccessContext \<Rightarrow> ('z, MemoryItem list) mact" where
  "list_items E limit x =
     m_session E (act_get (\<lambda>w. map fst (take limit (sort_key (\<lambda>(_, t). - t)
       (filter (\<lambda>(i, _). mi_tenant_id i = x_tenant_id x \<and> mi_workspace_id i = x_workspace_id x) (md_items (mw_db w)))))))"

section \<open>What is stored\<close>

lemma run_on_platform: "on_platform h w = (r, v) \<longleftrightarrow> (\<exists>p. h (mw_platform w) = (r, p) \<and> v = w\<lparr>mw_platform := p\<rparr>)"
  by (auto simp: on_platform_def split: prod.splits)

end
