(* ===== verification/DW_WorkOps.thy ===== *)
theory DW_WorkOps
  imports DW_Memory DW_Legal DW_Runtime "HOL-Library.AList"
begin

text \<open>
  \<open>dw_work_ops\<close>, the worker that turns a meeting's transcript into assigned tasks: value objects, entities and
  policies (\<open>domain\<close>), the transcript parser (\<open>adapters/transcript/parser.py\<close>), the repositories and the unit of work
  (\<open>adapters/persistence/repositories.py\<close>) and the handlers (\<open>application/handlers.py\<close>). Its tables extend the world
  of \<open>DW_Memory\<close>.
\<close>

section \<open>Value objects\<close>

datatype RiskLevel = RISK_LOW | RISK_MEDIUM | RISK_HIGH

definition risk_level_of :: "string \<Rightarrow> RiskLevel result" where
  "risk_level_of s =
     (if s = ''low'' then Inr RISK_LOW else if s = ''medium'' then Inr RISK_MEDIUM else if s = ''high'' then Inr RISK_HIGH
      else Inl (Err PyValueError ''not a valid RiskLevel''))"

definition mk_Confidence :: "rat \<Rightarrow> rat result" where
  "mk_Confidence v = (if 0 \<le> v \<and> v \<le> 1 then Inr v else Inl (Err PyValueError ''confidence must be within [0, 1]''))"

record TranscriptSegment =
  sg_index :: nat
  sg_speaker :: string
  sg_text :: string

section \<open>Entities\<close>

datatype MeetingStatus = MEETING_CREATED | MEETING_PROCESSING | MEETING_ACTIONS_READY | MEETING_COMPLETED

datatype ActionStatus = ACTION_PROPOSED | ACTION_APPROVED | ACTION_DISPATCHED | ACTION_REJECTED

record MeetingSession =
  mt_id :: uuid
  mt_tenant_id :: uuid
  mt_workspace_id :: uuid
  mt_title :: string
  mt_occurred_at :: datetime
  mt_created_by :: uuid
  mt_status :: MeetingStatus
  mt_transcript_artifact_id :: "uuid option"
  mt_last_run_id :: "uuid option"
  mt_summary :: "jdict option"
  mt_analysis :: "jdict option"
  mt_version :: int

definition new_meeting :: "uuid \<Rightarrow> AccessContext \<Rightarrow> string \<Rightarrow> datetime \<Rightarrow> MeetingSession result" where
  "new_meeting i x title occurred =
     (if py_strip title = '''' then Inl (Err DomainError ''meeting title must not be blank'')
      else Inr \<lparr>mt_id = i, mt_tenant_id = x_tenant_id x, mt_workspace_id = x_workspace_id x, mt_title = title,
                mt_occurred_at = occurred, mt_created_by = x_principal_id x, mt_status = MEETING_CREATED,
                mt_transcript_artifact_id = None, mt_last_run_id = None, mt_summary = None, mt_analysis = None,
                mt_version = 1\<rparr>)"

definition attach_transcript :: "uuid \<Rightarrow> MeetingSession \<Rightarrow> MeetingSession" where
  "attach_transcript artifact m = m\<lparr>mt_transcript_artifact_id := Some artifact, mt_version := mt_version m + 1\<rparr>"

definition start_processing :: "uuid \<Rightarrow> MeetingSession \<Rightarrow> MeetingSession result" where
  "start_processing run m =
     (if mt_transcript_artifact_id m = None then Inl (Err DomainError ''cannot generate actions without a transcript'')
      else Inr (m\<lparr>mt_status := MEETING_PROCESSING, mt_last_run_id := Some run, mt_version := mt_version m + 1\<rparr>))"

definition mark_actions_ready :: "jdict \<Rightarrow> jdict option \<Rightarrow> MeetingSession \<Rightarrow> MeetingSession" where
  "mark_actions_ready summary analysis m =
     m\<lparr>mt_status := MEETING_ACTIONS_READY, mt_summary := Some summary,
       mt_analysis := (case analysis of None \<Rightarrow> mt_analysis m | Some a \<Rightarrow> Some a), mt_version := mt_version m + 1\<rparr>"

definition complete_meeting :: "MeetingSession \<Rightarrow> MeetingSession" where
  "complete_meeting m = m\<lparr>mt_status := MEETING_COMPLETED, mt_version := mt_version m + 1\<rparr>"

record TranscriptArtifact =
  ta_id :: uuid
  ta_tenant_id :: uuid
  ta_workspace_id :: uuid
  ta_meeting_id :: uuid
  ta_storage_key :: string
  ta_filename :: string
  ta_content_hash :: string
  ta_uploaded_by :: uuid

record DecisionRecord =
  dn_id :: uuid
  dn_tenant_id :: uuid
  dn_workspace_id :: uuid
  dn_meeting_id :: uuid
  dn_statement :: string
  dn_decided_by_name :: "string option"
  dn_evidence_quote :: "string option"

record ResolvedAssignee =
  as_person_id :: uuid
  as_display_name :: string
  as_department :: string
  as_confidence :: rat

record ActionItem =
  ac_id :: uuid
  ac_tenant_id :: uuid
  ac_workspace_id :: uuid
  ac_meeting_id :: uuid
  ac_title :: string
  ac_description :: string
  ac_assignee :: "ResolvedAssignee option"
  ac_due_date :: "datetime option"
  ac_due_date_inferred :: bool
  ac_risk_level :: RiskLevel
  ac_status :: ActionStatus
  ac_approval_reasons :: "string list"
  ac_source_quote :: "string option"
  ac_version :: int

definition mk_ActionItem :: "ActionItem \<Rightarrow> ActionItem result" where
  "mk_ActionItem a =
     (if py_strip (ac_title a) = '''' then Inl (Err DomainError ''action title must not be blank'') else Inr a)"

definition approve_action :: "ActionItem \<Rightarrow> ActionItem result" where
  "approve_action a =
     (if ac_status a \<noteq> ACTION_PROPOSED then Inl (Err DomainError ''cannot approve action in this status'')
      else Inr (a\<lparr>ac_status := ACTION_APPROVED, ac_version := ac_version a + 1\<rparr>))"

definition reject_action :: "ActionItem \<Rightarrow> ActionItem result" where
  "reject_action a =
     (if ac_status a \<noteq> ACTION_PROPOSED then Inl (Err DomainError ''cannot reject action in this status'')
      else Inr (a\<lparr>ac_status := ACTION_REJECTED, ac_version := ac_version a + 1\<rparr>))"

definition mark_dispatched :: "ActionItem \<Rightarrow> ActionItem result" where
  "mark_dispatched a =
     (if ac_status a \<noteq> ACTION_APPROVED then Inl (Err DomainError ''only approved actions can be dispatched'')
      else if ac_assignee a = None then Inl (Err DomainError ''cannot dispatch without a resolved assignee'')
      else Inr (a\<lparr>ac_status := ACTION_DISPATCHED, ac_version := ac_version a + 1\<rparr>))"

section \<open>Policies\<close>

record DispatchPolicyContext =
  dc_requester_department :: string
  dc_min_assignee_confidence :: rat
  dc_autonomy_level :: string

definition dispatch_context :: "string \<Rightarrow> DispatchPolicyContext" where
  "dispatch_context department =
     \<lparr>dc_requester_department = department, dc_min_assignee_confidence = 9 / 10, dc_autonomy_level = ''A2''\<rparr>"

record PolicyDecision =
  pd_requires_approval :: bool
  pd_reasons :: "string list"

definition dispatch_reasons :: "ActionItem \<Rightarrow> DispatchPolicyContext \<Rightarrow> string list" where
  "dispatch_reasons a ctx =
     (if ac_risk_level a \<noteq> RISK_LOW then [''risk_not_low''] else [])
     @ (case ac_assignee a of
          None \<Rightarrow> [''assignee_unresolved'']
        | Some p \<Rightarrow> (if as_department p \<noteq> dc_requester_department ctx then [''cross_department''] else [])
            @ (if \<not> dc_min_assignee_confidence ctx \<le> as_confidence p then [''low_assignee_confidence''] else []))
     @ (if ac_due_date_inferred a then [''due_date_inferred''] else [])
     @ (if dc_autonomy_level ctx \<in> {''A0'', ''A1'', ''A2''} then [''autonomy_a2_requires_review''] else [])"

definition evaluate_dispatch :: "ActionItem \<Rightarrow> DispatchPolicyContext \<Rightarrow> PolicyDecision" where
  "evaluate_dispatch a ctx =
     (let reasons = dispatch_reasons a ctx
      in if reasons \<noteq> [] then \<lparr>pd_requires_approval = True, pd_reasons = reasons\<rparr>
         else \<lparr>pd_requires_approval = False, pd_reasons = []\<rparr>)"

section \<open>Transcripts\<close>

text \<open>
  \<open>^\s*(?P<speaker>[^:]{1,80}?)\s*:\s*(?P<text>.+)$\<close> on one line: the speaker ends at the first colon; what is before it
  is not empty and, without the white space around it, at most eighty characters; something follows the colon.
\<close>

definition speaker_line :: "string \<Rightarrow> (string \<times> string) option" where
  "speaker_line line =
     (let before = takeWhile (\<lambda>c. c \<noteq> CHR '':'') line; after = drop (length before) line
      in if before = [] \<or> after = [] \<or> tl after = [] \<or> 80 < length (py_strip before) then None
         else Some (before, if py_lstrip (tl after) = [] then [last after] else py_lstrip (tl after)))"

definition unknown_speaker :: string where
  "unknown_speaker = ''Kh'' @ [CHR 0xF4] @ ''ng r'' @ [CHR 0xF5]"

definition flush_segment :: "string \<Rightarrow> string list \<Rightarrow> TranscriptSegment list \<Rightarrow> TranscriptSegment list" where
  "flush_segment speaker buffer segments =
     (let content = py_join '' '' (filter (\<lambda>p. p \<noteq> []) (map py_strip buffer))
      in if content = [] then segments
         else segments @ [\<lparr>sg_index = length segments, sg_speaker = speaker, sg_text = content\<rparr>])"

fun parse_lines :: "string \<Rightarrow> string list \<Rightarrow> TranscriptSegment list \<Rightarrow> string list \<Rightarrow> TranscriptSegment list" where
  "parse_lines speaker buffer segments [] = flush_segment speaker buffer segments"
| "parse_lines speaker buffer segments (line # rest) =
     (if py_strip line = [] then parse_lines speaker buffer segments rest
      else case speaker_line line of
          Some (name, txt) \<Rightarrow> parse_lines (py_strip name) [txt] (flush_segment speaker buffer segments) rest
        | None \<Rightarrow> parse_lines speaker (buffer @ [line]) segments rest)"

definition parse_transcript :: "string \<Rightarrow> TranscriptSegment list" where
  "parse_transcript raw = parse_lines unknown_speaker [] [] (py_splitlines raw)"

definition casefold :: "string \<Rightarrow> string" where
  "casefold s = concat (map casefold_char s)"

definition py_endswith :: "string \<Rightarrow> string \<Rightarrow> bool" where
  "py_endswith s u = (drop (length s - length u) s = u)"

text \<open>\<open>{name.casefold(): name for name in known_names}\<close>: a later name replaces an earlier one with the same key.\<close>

definition normalized_known :: "string list \<Rightarrow> (string \<times> string) list" where
  "normalized_known names = fold (\<lambda>n. AList.update (casefold n) n) names []"

definition match_name :: "(string \<times> 'p) list \<Rightarrow> string \<Rightarrow> 'p option" where
  "match_name known raw =
     (case map_of known (casefold raw) of
        Some p \<Rightarrow> Some p
      | None \<Rightarrow> (case filter (\<lambda>(key, _). py_endswith key (casefold raw)) known of [(_, p)] \<Rightarrow> Some p | _ \<Rightarrow> None))"

fun resolve_labels :: "(string \<times> string) list \<Rightarrow> TranscriptSegment list \<Rightarrow> (string \<times> string option) list \<Rightarrow> (string \<times> string option) list" where
  "resolve_labels known [] mapping = mapping"
| "resolve_labels known (s # ss) mapping =
     (let raw = py_strip (sg_speaker s)
      in if raw \<in> fst ` set mapping then resolve_labels known ss mapping
         else resolve_labels known ss (mapping @ [(raw, match_name known raw)]))"

definition resolve_speaker_names :: "TranscriptSegment list \<Rightarrow> string list \<Rightarrow> (string \<times> string option) list" where
  "resolve_speaker_names segments names = resolve_labels (normalized_known names) segments []"

section \<open>Tables and the unit of work\<close>

record external_task =
  et_tenant_id :: uuid
  et_workspace_id :: uuid
  et_action_item_id :: uuid
  et_connector :: string
  et_connector_version :: string
  et_external_id :: string
  et_external_url :: "string option"

record wodb =
  wo_meetings :: "MeetingSession list"
  wo_transcripts :: "TranscriptArtifact list"
  wo_decisions :: "DecisionRecord list"
  wo_actions :: "ActionItem list"
  wo_external_tasks :: "external_task list"

record wworld = mworld +
  ww_db :: wodb
  ww_committed :: wodb
  ww_tenant :: uuid

type_synonym 'a wact = "(wworld, 'a) act"

text \<open>\<open>SqlWorkOpsUnitOfWork\<close>: what was not committed when the block ends is lost.\<close>

definition in_wuow :: "env \<Rightarrow> uuid \<Rightarrow> 'a wact \<Rightarrow> 'a wact" where
  "in_wuow E tenant body =
     act_bind (on_platform (m_connect E)) (\<lambda>_ w.
       case body (w\<lparr>ww_db := ww_committed w, ww_tenant := tenant\<rparr>) of
         (r, v) \<Rightarrow> (r, v\<lparr>ww_db := ww_committed v\<rparr>))"

definition w_commit :: "unit wact" where
  "w_commit = act_modify (\<lambda>w. w\<lparr>ww_committed := ww_db w\<rparr>)"

definition on_wodb :: "bool \<Rightarrow> (wodb \<Rightarrow> wodb) \<Rightarrow> unit wact" where
  "on_wodb admissible f w = (if admissible then (Inr (), w\<lparr>ww_db := f (ww_db w)\<rparr>) else (Inl db_error, w))"

text \<open>Row-level security: a statement sees and writes the rows of the session's tenant; keys and references are
  checked on all rows.\<close>

definition meetings_add :: "MeetingSession \<Rightarrow> unit wact" where
  "meetings_add m w =
     on_wodb (mt_tenant_id m = ww_tenant w \<and> mt_id m \<notin> mt_id ` set (wo_meetings (ww_db w)))
       (\<lambda>d. d\<lparr>wo_meetings := wo_meetings d @ [m]\<rparr>) w"

definition meetings_get :: "uuid \<Rightarrow> MeetingSession option wact" where
  "meetings_get i = act_get (\<lambda>w. find (\<lambda>m. mt_tenant_id m = ww_tenant w \<and> mt_id m = i) (wo_meetings (ww_db w)))"

definition meeting_row :: "MeetingSession \<Rightarrow> MeetingSession \<Rightarrow> MeetingSession" where
  "meeting_row m r = r\<lparr>mt_status := mt_status m, mt_transcript_artifact_id := mt_transcript_artifact_id m,
     mt_summary := mt_summary m, mt_analysis := mt_analysis m, mt_last_run_id := mt_last_run_id m, mt_version := mt_version m\<rparr>"

definition meetings_save :: "MeetingSession \<Rightarrow> unit wact" where
  "meetings_save m w =
     (let hit = (\<lambda>r. mt_tenant_id r = ww_tenant w \<and> mt_id r = mt_id m \<and> mt_version r = mt_version m - 1);
          rows = wo_meetings (ww_db w)
      in if length (filter hit rows) \<noteq> 1 then (Inl (Err ConflictError ''meeting was modified concurrently''), w)
         else (Inr (), w\<lparr>ww_db := (ww_db w)\<lparr>wo_meetings := update_where hit (meeting_row m) rows\<rparr>\<rparr>))"

definition meetings_list_recent :: "nat \<Rightarrow> MeetingSession list wact" where
  "meetings_list_recent limit = act_get (\<lambda>w. take limit (rev (filter (\<lambda>m. mt_tenant_id m = ww_tenant w) (wo_meetings (ww_db w)))))"

definition transcripts_add :: "TranscriptArtifact \<Rightarrow> unit wact" where
  "transcripts_add a w =
     on_wodb (ta_tenant_id a = ww_tenant w \<and> ta_id a \<notin> ta_id ` set (wo_transcripts (ww_db w))
              \<and> ta_meeting_id a \<in> mt_id ` set (wo_meetings (ww_db w)))
       (\<lambda>d. d\<lparr>wo_transcripts := wo_transcripts d @ [a]\<rparr>) w"

definition transcripts_get_for_meeting :: "uuid \<Rightarrow> TranscriptArtifact option wact" where
  "transcripts_get_for_meeting i = act_get (\<lambda>w.
     find (\<lambda>a. ta_tenant_id a = ww_tenant w \<and> ta_meeting_id a = i) (wo_transcripts (ww_db w)))"

definition decisions_insert :: "DecisionRecord \<Rightarrow> unit wact" where
  "decisions_insert d w =
     on_wodb (dn_tenant_id d = ww_tenant w \<and> dn_id d \<notin> dn_id ` set (wo_decisions (ww_db w))
              \<and> dn_meeting_id d \<in> mt_id ` set (wo_meetings (ww_db w)))
       (\<lambda>b. b\<lparr>wo_decisions := wo_decisions b @ [d]\<rparr>) w"

definition decisions_replace_for_meeting :: "uuid \<Rightarrow> DecisionRecord list \<Rightarrow> unit wact" where
  "decisions_replace_for_meeting i ds =
     act_bind (act_modify (\<lambda>w. w\<lparr>ww_db := (ww_db w)\<lparr>wo_decisions :=
         filter (\<lambda>d. \<not> (dn_tenant_id d = ww_tenant w \<and> dn_meeting_id d = i)) (wo_decisions (ww_db w))\<rparr>\<rparr>)) (\<lambda>_.
     act_for ds decisions_insert)"

definition decisions_list_for_meeting :: "uuid \<Rightarrow> DecisionRecord list wact" where
  "decisions_list_for_meeting i = act_get (\<lambda>w.
     filter (\<lambda>d. dn_tenant_id d = ww_tenant w \<and> dn_meeting_id d = i) (wo_decisions (ww_db w)))"

definition actions_insert :: "ActionItem \<Rightarrow> unit wact" where
  "actions_insert a w =
     on_wodb (ac_tenant_id a = ww_tenant w \<and> ac_id a \<notin> ac_id ` set (wo_actions (ww_db w))
              \<and> ac_meeting_id a \<in> mt_id ` set (wo_meetings (ww_db w)))
       (\<lambda>d. d\<lparr>wo_actions := wo_actions d @ [a]\<rparr>) w"

text \<open>The external tasks refer to their actions, so an action with a task cannot be deleted.\<close>

definition actions_delete_for_meeting :: "uuid \<Rightarrow> unit wact" where
  "actions_delete_for_meeting i w =
     (let gone = (\<lambda>a. ac_tenant_id a = ww_tenant w \<and> ac_meeting_id a = i)
      in on_wodb (\<forall>a \<in> set (wo_actions (ww_db w)). gone a \<longrightarrow> ac_id a \<notin> et_action_item_id ` set (wo_external_tasks (ww_db w)))
           (\<lambda>d. d\<lparr>wo_actions := filter (\<lambda>a. \<not> gone a) (wo_actions d)\<rparr>) w)"

definition actions_replace_for_meeting :: "uuid \<Rightarrow> ActionItem list \<Rightarrow> unit wact" where
  "actions_replace_for_meeting i as = act_bind (actions_delete_for_meeting i) (\<lambda>_. act_for as actions_insert)"

definition actions_get :: "uuid \<Rightarrow> ActionItem option wact" where
  "actions_get i = act_get (\<lambda>w. find (\<lambda>a. ac_tenant_id a = ww_tenant w \<and> ac_id a = i) (wo_actions (ww_db w)))"

definition action_row :: "ActionItem \<Rightarrow> ActionItem \<Rightarrow> ActionItem" where
  "action_row a r = r\<lparr>ac_title := ac_title a, ac_description := ac_description a, ac_assignee := ac_assignee a,
     ac_due_date := ac_due_date a, ac_due_date_inferred := ac_due_date_inferred a, ac_risk_level := ac_risk_level a,
     ac_status := ac_status a, ac_approval_reasons := ac_approval_reasons a, ac_source_quote := ac_source_quote a,
     ac_version := ac_version a\<rparr>"

definition actions_save :: "ActionItem \<Rightarrow> unit wact" where
  "actions_save a w =
     (let hit = (\<lambda>r. ac_tenant_id r = ww_tenant w \<and> ac_id r = ac_id a \<and> ac_version r = ac_version a - 1);
          rows = wo_actions (ww_db w)
      in if length (filter hit rows) \<noteq> 1 then (Inl (Err ConflictError ''action item was modified concurrently''), w)
         else (Inr (), w\<lparr>ww_db := (ww_db w)\<lparr>wo_actions := update_where hit (action_row a) rows\<rparr>\<rparr>))"

definition actions_list_for_meeting :: "uuid \<Rightarrow> ActionItem list wact" where
  "actions_list_for_meeting i = act_get (\<lambda>w.
     filter (\<lambda>a. ac_tenant_id a = ww_tenant w \<and> ac_meeting_id a = i) (wo_actions (ww_db w)))"

text \<open>\<open>ON CONFLICT DO NOTHING\<close>: one task per action and connector.\<close>

definition external_task_insert :: "external_task \<Rightarrow> wodb \<Rightarrow> wodb" where
  "external_task_insert t d =
     (if \<exists>u \<in> set (wo_external_tasks d). et_action_item_id u = et_action_item_id t \<and> et_connector u = et_connector t
      then d else d\<lparr>wo_external_tasks := wo_external_tasks d @ [t]\<rparr>)"

definition record_external_task ::
  "uuid \<Rightarrow> string \<Rightarrow> string \<Rightarrow> string \<Rightarrow> string option \<Rightarrow> unit wact" where
  "record_external_task i connector version external_id url =
     act_bind (actions_get i) (\<lambda>found.
     act_bind (act_some found PyAssertionError ''assert action is not None'') (\<lambda>a.
     act_modify (\<lambda>w. w\<lparr>ww_db := external_task_insert
       \<lparr>et_tenant_id = ac_tenant_id a, et_workspace_id = ac_workspace_id a, et_action_item_id = i, et_connector = connector,
        et_connector_version = version, et_external_id = external_id, et_external_url = url\<rparr> (ww_db w)\<rparr>)))"

definition get_external_task :: "uuid \<Rightarrow> external_task option wact" where
  "get_external_task i = act_get (\<lambda>w.
     find (\<lambda>t. et_tenant_id t = ww_tenant w \<and> et_action_item_id t = i) (wo_external_tasks (ww_db w)))"

section \<open>Handlers\<close>

definition WORK_OPS_FEATURE :: string where
  "WORK_OPS_FEATURE = ''work_ops_worker''"

record CreateMeetingCommand =
  cm_title :: string
  cm_occurred_at :: datetime
  cm_transcript_text :: string
  cm_transcript_filename :: string

definition artifact_of :: "env \<Rightarrow> AccessContext \<Rightarrow> uuid \<Rightarrow> uuid \<Rightarrow> string \<Rightarrow> CreateMeetingCommand \<Rightarrow> TranscriptArtifact" where
  "artifact_of E x meeting_id artifact_id storage_key cmd =
     \<lparr>ta_id = artifact_id, ta_tenant_id = x_tenant_id x, ta_workspace_id = x_workspace_id x, ta_meeting_id = meeting_id,
      ta_storage_key = storage_key, ta_filename = cm_transcript_filename cmd,
      ta_content_hash = env_sha256 E (utf8_encode (cm_transcript_text cmd)), ta_uploaded_by = x_principal_id x\<rparr>"

definition create_meeting ::
  "env \<Rightarrow> (string \<times> Plan) list \<Rightarrow> CreateMeetingCommand \<Rightarrow> AccessContext \<Rightarrow> uuid wact" where
  "create_meeting E plans cmd x =
     act_bind (act_lift (require_action x ''work_ops.write'')) (\<lambda>_.
     act_bind (act_lift (require_feature plans x WORK_OPS_FEATURE)) (\<lambda>_.
     act_bind (act_require (py_strip (cm_transcript_text cmd) \<noteq> '''') DomainError ''transcript must not be empty'') (\<lambda>_.
     act_bind (on_platform (new_uuid E)) (\<lambda>meeting_id.
     act_bind (on_platform (new_uuid E)) (\<lambda>artifact_id.
     let storage_key = x_tenant_id x @ ''/'' @ x_workspace_id x @ ''/transcripts/'' @ artifact_id in
     act_bind (on_platform (put_object E storage_key (utf8_encode (cm_transcript_text cmd)) ''text/plain; charset=utf-8'')) (\<lambda>_.
     act_bind (act_lift (new_meeting meeting_id x (cm_title cmd) (cm_occurred_at cmd))) (\<lambda>meeting.
     act_bind (in_wuow E (x_tenant_id x)
       (act_bind (meetings_add (attach_transcript artifact_id meeting)) (\<lambda>_.
        act_bind (transcripts_add (artifact_of E x meeting_id artifact_id storage_key cmd)) (\<lambda>_.
        w_commit)))) (\<lambda>_.
     act_ret meeting_id))))))))"

record MeetingView =
  mv_meeting :: MeetingSession
  mv_decisions :: "DecisionRecord list"
  mv_actions :: "(ActionItem \<times> external_task option) list"

fun action_views :: "ActionItem list \<Rightarrow> (ActionItem \<times> external_task option) list wact" where
  "action_views [] = act_ret []"
| "action_views (a # as) =
     act_bind (get_external_task (ac_id a)) (\<lambda>t. act_bind (action_views as) (\<lambda>vs. act_ret ((a, t) # vs)))"

definition get_meeting :: "env \<Rightarrow> uuid \<Rightarrow> AccessContext \<Rightarrow> MeetingView wact" where
  "get_meeting E meeting_id x =
     act_bind (act_lift (require_action x ''work_ops.read'')) (\<lambda>_.
     in_wuow E (x_tenant_id x)
       (act_bind (meetings_get meeting_id) (\<lambda>found.
        act_bind (act_some found NotFoundError ''meeting not found'') (\<lambda>m.
        act_bind (decisions_list_for_meeting (mt_id m)) (\<lambda>ds.
        act_bind (actions_list_for_meeting (mt_id m)) (\<lambda>as.
        act_bind (action_views as) (\<lambda>vs.
        act_ret \<lparr>mv_meeting = m, mv_decisions = ds, mv_actions = vs\<rparr>)))))))"

definition list_meetings :: "env \<Rightarrow> AccessContext \<Rightarrow> MeetingView list wact" where
  "list_meetings E x =
     act_bind (act_lift (require_action x ''work_ops.read'')) (\<lambda>_.
     act_bind (in_wuow E (x_tenant_id x) (meetings_list_recent 50)) (\<lambda>ms.
     act_ret (map (\<lambda>m. \<lparr>mv_meeting = m, mv_decisions = [], mv_actions = []\<rparr>) ms)))"

definition generate_tx :: "uuid \<Rightarrow> uuid \<Rightarrow> unit wact" where
  "generate_tx meeting_id run_id =
     act_bind (meetings_get meeting_id) (\<lambda>found.
     act_bind (act_some found NotFoundError ''meeting not found'') (\<lambda>m.
     act_bind (act_lift (start_processing run_id m)) (\<lambda>m.
     act_bind (meetings_save m) (\<lambda>_. w_commit))))"

definition work_ops_run :: "uuid \<Rightarrow> AccessContext \<Rightarrow> RunContext result" where
  "work_ops_run run_id x =
     mk_RunContext \<lparr>rc_run_id = run_id, rc_tenant_id = x_tenant_id x, rc_workspace_id = x_workspace_id x,
       rc_actor_id = x_principal_id x, rc_worker_id = ''work_ops'', rc_worker_version = ''1.1.0'', rc_channel = ''web'',
       rc_plan_id = x_plan_id x, rc_roles = x_roles x, rc_scopes = x_scopes x,
       rc_trace_id = ''run-'' @ take 12 (uuid_hex run_id), rc_locale = ''vi-VN''\<rparr>"

text \<open>The runner is a port of the handler.\<close>

definition generate_actions ::
  "env \<Rightarrow> (string \<times> Plan) list \<Rightarrow> (RunContext \<Rightarrow> jdict \<Rightarrow> unit wact) \<Rightarrow> uuid \<Rightarrow> AccessContext \<Rightarrow> uuid wact" where
  "generate_actions E plans runner meeting_id x =
     act_bind (act_lift (require_action x ''work_ops.write'')) (\<lambda>_.
     act_bind (act_lift (require_feature plans x WORK_OPS_FEATURE)) (\<lambda>_.
     act_bind (on_platform (new_uuid E)) (\<lambda>run_id.
     act_bind (in_wuow E (x_tenant_id x) (generate_tx meeting_id run_id)) (\<lambda>_.
     act_bind (act_lift (work_ops_run run_id x)) (\<lambda>rc.
     act_bind (runner rc [(''meeting_id'', JStr meeting_id)]) (\<lambda>_.
     act_ret run_id))))))"

end
