(* ===== verification/DW_WorkOps_Flow.thy ===== *)
theory DW_WorkOps_Flow
  imports DW_WorkOps
begin

text \<open>
  The workflow of the work-operations worker (\<open>workflows/v1/nodes.py\<close>, \<open>state.py\<close>, \<open>graph.py\<close>) and the tool it dispatches
  tasks with (\<open>adapters/dispatch/tool.py\<close>). The state is a record whose absent entries are the defaults the nodes read
  them with. The graph is a chain: \<open>run_until_review\<close> are the nodes before the interrupt, \<open>resume_after_review\<close> the ones
  after it. Model outputs, the directory and the connector are parameters.
\<close>

section \<open>State and services\<close>

record ExtractedDecision =
  xd_statement :: string
  xd_decided_by_name :: "string option"
  xd_evidence_quote :: "string option"

record DirectoryPerson =
  dp_person_id :: uuid
  dp_display_name :: string
  dp_department :: string

record ActionItemCandidate =
  cd_title :: string
  cd_description :: string
  cd_assignee_name :: "string option"
  cd_due_date :: "datetime option"
  cd_due_date_explicit :: bool
  cd_risk_level :: string
  cd_source_quote :: "string option"
  cd_resolved :: "(DirectoryPerson \<times> rat) option"
  cd_due_date_inferred :: bool

record MeetingSummaryModel =
  sm_headline :: string
  sm_key_points :: "string list"
  sm_language :: string

record AnalysisPoint =
  an_point :: string
  an_evidence_quote :: "string option"

record MeetingAnalysisModel =
  an_overall_assessment :: string
  an_effectiveness_score :: int
  an_went_well :: "AnalysisPoint list"
  an_needs_improvement :: "AnalysisPoint list"
  an_recommendations :: "string list"

definition mk_MeetingAnalysisModel :: "MeetingAnalysisModel \<Rightarrow> MeetingAnalysisModel result" where
  "mk_MeetingAnalysisModel a =
     (if 1 \<le> an_effectiveness_score a \<and> an_effectiveness_score a \<le> 10 then Inr a
      else Inl (Err PydanticValidationError ''effectiveness_score''))"

record DispatchResult =
  dz_action_id :: uuid
  dz_status :: string
  dz_external_id :: "string option"

record WorkOpsState =
  so_meeting_id :: string
  so_transcript_text :: string
  so_segments :: "TranscriptSegment list"
  so_speaker_mapping :: "(string \<times> string option) list"
  so_summary :: jdict
  so_analysis :: jdict
  so_decisions :: "ExtractedDecision list"
  so_candidates :: "ActionItemCandidate list"
  so_resolved_action_ids :: "uuid list"
  so_approval_payload :: jdict
  so_approval_decision :: jdict
  so_dispatch_results :: "DispatchResult list"
  so_memory_written :: bool
  so_warnings :: "string list"

definition meeting_state :: "string \<Rightarrow> WorkOpsState" where
  "meeting_state meeting_id =
     \<lparr>so_meeting_id = meeting_id, so_transcript_text = '''', so_segments = [], so_speaker_mapping = [], so_summary = [],
      so_analysis = [], so_decisions = [], so_candidates = [], so_resolved_action_ids = [], so_approval_payload = [],
      so_approval_decision = [], so_dispatch_results = [], so_memory_written = False, so_warnings = []\<rparr>"

record WorkOpsServices =
  os_get_object :: "nat \<Rightarrow> string \<Rightarrow> bytes result"
  os_list_people :: "nat \<Rightarrow> uuid \<Rightarrow> DirectoryPerson list result"
  os_summarize :: "nat \<Rightarrow> RunContext \<Rightarrow> string \<Rightarrow> MeetingSummaryModel result"
  os_analyze :: "nat \<Rightarrow> RunContext \<Rightarrow> string \<Rightarrow> MeetingAnalysisModel result"
  os_decisions :: "nat \<Rightarrow> RunContext \<Rightarrow> string \<Rightarrow> ExtractedDecision list result"
  os_actions :: "nat \<Rightarrow> RunContext \<Rightarrow> string \<Rightarrow> ActionItemCandidate list result"
  os_tools :: "RegisteredTool registry"
  os_write_policy :: MemoryWritePolicy

text \<open>The \<open>n\<close>-th call of a service.\<close>

definition w_call :: "(nat \<Rightarrow> 'a result) \<Rightarrow> 'a wact" where
  "w_call f = on_platform (\<lambda>w. (f (w_calls w), w\<lparr>w_calls := Suc (w_calls w)\<rparr>))"

definition require_meeting_id :: "WorkOpsState \<Rightarrow> uuid wact" where
  "require_meeting_id st =
     act_bind (act_require (so_meeting_id st \<noteq> '''') DomainError ''workflow state is missing meeting_id'') (\<lambda>_.
     act_ret (so_meeting_id st))"

section \<open>Reading the meeting\<close>

text \<open>\<open>bytes.decode("utf-8")\<close>, for texts of code points below 256.\<close>

fun utf8_decode :: "bytes \<Rightarrow> string option" where
  "utf8_decode [] = Some []"
| "utf8_decode [b] = (if (of_char b :: nat) < 128 then Some [b] else None)"
| "utf8_decode (b # c # bs) =
     (let n = (of_char b :: nat); m = (of_char c :: nat)
      in if n < 128 then map_option (Cons b) (utf8_decode (c # bs))
         else if (n = 194 \<or> n = 195) \<and> 128 \<le> m \<and> m < 192
         then map_option (Cons (char_of ((n - 192) * 64 + (m - 128)))) (utf8_decode bs)
         else None)"

definition ingest_transcript :: "env \<Rightarrow> WorkOpsServices \<Rightarrow> RunContext \<Rightarrow> WorkOpsState \<Rightarrow> WorkOpsState wact" where
  "ingest_transcript E S rc st =
     act_bind (require_meeting_id st) (\<lambda>i.
     act_bind (in_wuow E (rc_tenant_id rc) (transcripts_get_for_meeting i)) (\<lambda>found.
     act_bind (act_some found NotFoundError ''meeting has no transcript artifact'') (\<lambda>a.
     act_bind (w_call (\<lambda>n. os_get_object S n (ta_storage_key a))) (\<lambda>raw.
     act_bind (act_some (utf8_decode raw) PyValueError ''codec can't decode'') (\<lambda>t.
     act_ret (st\<lparr>so_transcript_text := t\<rparr>))))))"

definition normalize_transcript :: "WorkOpsState \<Rightarrow> WorkOpsState wact" where
  "normalize_transcript st =
     (let segments = parse_transcript (so_transcript_text st) in
      act_bind (act_require (segments \<noteq> []) DomainError ''transcript produced no segments'') (\<lambda>_.
      act_ret (st\<lparr>so_segments := segments\<rparr>)))"

definition resolve_speakers :: "WorkOpsServices \<Rightarrow> RunContext \<Rightarrow> WorkOpsState \<Rightarrow> WorkOpsState wact" where
  "resolve_speakers S rc st =
     act_bind (w_call (\<lambda>n. os_list_people S n (rc_tenant_id rc))) (\<lambda>people.
     act_ret (st\<lparr>so_speaker_mapping := resolve_speaker_names (so_segments st) (map dp_display_name people)\<rparr>))"

section \<open>What the model says\<close>

definition summary_json :: "MeetingSummaryModel \<Rightarrow> jdict" where
  "summary_json s = [(''headline'', JStr (sm_headline s)), (''key_points'', JArr (map JStr (sm_key_points s))),
     (''language'', JStr (sm_language s))]"

definition summarize_meeting :: "WorkOpsServices \<Rightarrow> RunContext \<Rightarrow> WorkOpsState \<Rightarrow> WorkOpsState wact" where
  "summarize_meeting S rc st =
     act_bind (w_call (\<lambda>n. os_summarize S n rc (so_transcript_text st))) (\<lambda>s.
     act_ret (st\<lparr>so_summary := summary_json s\<rparr>))"

definition quote_grounded :: "string \<Rightarrow> string option \<Rightarrow> bool" where
  "quote_grounded transcript quote =
     (case quote of None \<Rightarrow> False | Some q \<Rightarrow> q \<noteq> '''' \<and> sublist (norm_text q) (norm_text transcript))"

definition cleaned_analysis :: "string \<Rightarrow> MeetingAnalysisModel \<Rightarrow> MeetingAnalysisModel" where
  "cleaned_analysis transcript a =
     a\<lparr>an_went_well := filter (\<lambda>p. quote_grounded transcript (an_evidence_quote p)) (an_went_well a),
       an_needs_improvement := filter (\<lambda>p. quote_grounded transcript (an_evidence_quote p)) (an_needs_improvement a)\<rparr>"

definition quote_json :: "string option \<Rightarrow> json" where
  "quote_json v = (case v of None \<Rightarrow> JNull | Some s \<Rightarrow> JStr s)"

definition point_json :: "AnalysisPoint \<Rightarrow> json" where
  "point_json p = JObj [(''point'', JStr (an_point p)), (''evidence_quote'', quote_json (an_evidence_quote p))]"

definition analysis_json :: "MeetingAnalysisModel \<Rightarrow> jdict" where
  "analysis_json a = [(''overall_assessment'', JStr (an_overall_assessment a)),
     (''effectiveness_score'', JInt (an_effectiveness_score a)),
     (''went_well'', JArr (map point_json (an_went_well a))),
     (''needs_improvement'', JArr (map point_json (an_needs_improvement a))),
     (''recommendations'', JArr (map JStr (an_recommendations a)))]"

definition analyze_meeting :: "WorkOpsServices \<Rightarrow> RunContext \<Rightarrow> WorkOpsState \<Rightarrow> WorkOpsState wact" where
  "analyze_meeting S rc st =
     act_bind (w_call (\<lambda>n. os_analyze S n rc (so_transcript_text st))) (\<lambda>a.
     act_bind (act_lift (mk_MeetingAnalysisModel a)) (\<lambda>a.
     act_ret (st\<lparr>so_analysis := analysis_json (cleaned_analysis (so_transcript_text st) a)\<rparr>)))"

definition extract_decisions :: "WorkOpsServices \<Rightarrow> RunContext \<Rightarrow> WorkOpsState \<Rightarrow> WorkOpsState wact" where
  "extract_decisions S rc st =
     act_bind (w_call (\<lambda>n. os_decisions S n rc (so_transcript_text st))) (\<lambda>ds.
     act_ret (st\<lparr>so_decisions := ds\<rparr>))"

definition extract_action_items :: "WorkOpsServices \<Rightarrow> RunContext \<Rightarrow> WorkOpsState \<Rightarrow> WorkOpsState wact" where
  "extract_action_items S rc st =
     act_bind (w_call (\<lambda>n. os_actions S n rc (so_transcript_text st))) (\<lambda>as.
     act_ret (if as = [] then st\<lparr>so_candidates := [], so_warnings := [''no_action_items_extracted'']\<rparr>
              else st\<lparr>so_candidates := as\<rparr>))"

section \<open>People and dates\<close>

definition people_by_name :: "DirectoryPerson list \<Rightarrow> (string \<times> DirectoryPerson) list" where
  "people_by_name people = fold (\<lambda>p. AList.update (casefold (dp_display_name p)) p) people []"

definition resolve_person :: "(string \<times> DirectoryPerson) list \<Rightarrow> string \<Rightarrow> (DirectoryPerson \<times> rat) option" where
  "resolve_person known name =
     (case map_of known (casefold name) of
        Some p \<Rightarrow> Some (p, 95 / 100)
      | None \<Rightarrow>
          if name = '''' then None
          else (case filter (\<lambda>(key, _). py_endswith key (casefold name)) known of
                  [(_, p)] \<Rightarrow> Some (p, 75 / 100)
                | _ \<Rightarrow> None))"

definition assignee_name :: "ActionItemCandidate \<Rightarrow> string" where
  "assignee_name c = (case cd_assignee_name c of None \<Rightarrow> '''' | Some s \<Rightarrow> py_strip s)"

definition resolve_candidate :: "(string \<times> DirectoryPerson) list \<Rightarrow> ActionItemCandidate \<Rightarrow> ActionItemCandidate" where
  "resolve_candidate known c = c\<lparr>cd_resolved := resolve_person known (assignee_name c)\<rparr>"

definition unresolved_warnings :: "ActionItemCandidate list \<Rightarrow> string list" where
  "unresolved_warnings cs = map (\<lambda>c. ''assignee_unresolved:'' @ (if assignee_name c = '''' then ''unknown'' else assignee_name c))
     (filter (\<lambda>c. cd_resolved c = None) cs)"

definition resolve_assignees :: "WorkOpsServices \<Rightarrow> RunContext \<Rightarrow> WorkOpsState \<Rightarrow> WorkOpsState wact" where
  "resolve_assignees S rc st =
     act_bind (w_call (\<lambda>n. os_list_people S n (rc_tenant_id rc))) (\<lambda>people.
     let cs = map (resolve_candidate (people_by_name people)) (so_candidates st) in
     act_ret (st\<lparr>so_candidates := cs, so_warnings := so_warnings st @ unresolved_warnings cs\<rparr>))"

definition past_due :: "datetime \<Rightarrow> ActionItemCandidate \<Rightarrow> bool" where
  "past_due now c = (case cd_due_date c of None \<Rightarrow> False | Some due \<Rightarrow> due < now)"

definition check_due_date :: "datetime \<Rightarrow> ActionItemCandidate \<Rightarrow> ActionItemCandidate" where
  "check_due_date now c = c\<lparr>cd_due_date_inferred := \<not> cd_due_date_explicit c \<or> past_due now c\<rparr>"

definition validate_due_dates :: "env \<Rightarrow> WorkOpsState \<Rightarrow> WorkOpsState wact" where
  "validate_due_dates E st =
     act_bind (on_platform (clock_now E)) (\<lambda>now.
     act_ret (st\<lparr>so_candidates := map (check_due_date now) (so_candidates st),
       so_warnings := so_warnings st @ map (\<lambda>c. ''due_date_in_past:'' @ take 40 (cd_title c)) (filter (past_due now) (so_candidates st))\<rparr>))"

definition enrich_with_org_context :: "WorkOpsServices \<Rightarrow> RunContext \<Rightarrow> WorkOpsState \<Rightarrow> WorkOpsState wact" where
  "enrich_with_org_context S rc st =
     act_bind (w_call (\<lambda>n. os_list_people S n (rc_tenant_id rc))) (\<lambda>people.
     act_ret (st\<lparr>so_approval_payload := [(''requester_department'',
       JStr (case find (\<lambda>p. dp_person_id p = rc_actor_id rc) people of Some p \<Rightarrow> dp_department p | None \<Rightarrow> ''general''))]\<rparr>))"

section \<open>The policy gate\<close>

definition jstr_or :: "jdict \<Rightarrow> string \<Rightarrow> string \<Rightarrow> string" where
  "jstr_or d k v = (case jget d k of Some (JStr s) \<Rightarrow> s | _ \<Rightarrow> v)"

definition assignee_of :: "DirectoryPerson \<times> rat \<Rightarrow> ResolvedAssignee result" where
  "assignee_of r = (case r of (p, c) \<Rightarrow>
     (case mk_Confidence c of Inl e \<Rightarrow> Inl e
      | Inr c \<Rightarrow> Inr \<lparr>as_person_id = dp_person_id p, as_display_name = dp_display_name p, as_department = dp_department p,
                      as_confidence = c\<rparr>))"

definition with_reasons :: "DispatchPolicyContext \<Rightarrow> ActionItem \<Rightarrow> ActionItem" where
  "with_reasons ctx a = a\<lparr>ac_approval_reasons := pd_reasons (evaluate_dispatch a ctx)\<rparr>"

definition gate_action ::
  "env \<Rightarrow> RunContext \<Rightarrow> uuid \<Rightarrow> DispatchPolicyContext \<Rightarrow> ActionItemCandidate \<Rightarrow> ActionItem wact" where
  "gate_action E rc meeting_id ctx c =
     act_bind (case cd_resolved c of None \<Rightarrow> act_ret None | Some r \<Rightarrow> act_bind (act_lift (assignee_of r)) (\<lambda>a. act_ret (Some a))) (\<lambda>assignee.
     act_bind (on_platform (new_uuid E)) (\<lambda>i.
     act_bind (act_lift (risk_level_of (cd_risk_level c))) (\<lambda>risk.
     act_bind (act_lift (mk_ActionItem
       \<lparr>ac_id = i, ac_tenant_id = rc_tenant_id rc, ac_workspace_id = rc_workspace_id rc, ac_meeting_id = meeting_id,
        ac_title = cd_title c, ac_description = cd_description c, ac_assignee = assignee, ac_due_date = cd_due_date c,
        ac_due_date_inferred = cd_due_date_inferred c, ac_risk_level = risk, ac_status = ACTION_PROPOSED,
        ac_approval_reasons = [], ac_source_quote = cd_source_quote c, ac_version = 1\<rparr>)) (\<lambda>a.
     act_ret (with_reasons ctx a)))))"

fun act_map :: "('a \<Rightarrow> ('w, 'b) act) \<Rightarrow> 'a list \<Rightarrow> ('w, 'b list) act" where
  "act_map f [] = act_ret []"
| "act_map f (x # xs) = act_bind (f x) (\<lambda>y. act_bind (act_map f xs) (\<lambda>ys. act_ret (y # ys)))"

definition gate_decision :: "env \<Rightarrow> RunContext \<Rightarrow> uuid \<Rightarrow> ExtractedDecision \<Rightarrow> DecisionRecord wact" where
  "gate_decision E rc meeting_id d =
     act_bind (on_platform (new_uuid E)) (\<lambda>i.
     act_ret \<lparr>dn_id = i, dn_tenant_id = rc_tenant_id rc, dn_workspace_id = rc_workspace_id rc, dn_meeting_id = meeting_id,
              dn_statement = xd_statement d, dn_decided_by_name = xd_decided_by_name d,
              dn_evidence_quote = xd_evidence_quote d\<rparr>)"

definition gate_tx :: "uuid \<Rightarrow> jdict \<Rightarrow> jdict \<Rightarrow> DecisionRecord list \<Rightarrow> ActionItem list \<Rightarrow> unit wact" where
  "gate_tx meeting_id summary analysis ds as =
     act_bind (meetings_get meeting_id) (\<lambda>found.
     act_bind (act_some found NotFoundError ''meeting disappeared during run'') (\<lambda>m.
     act_bind (meetings_save (mark_actions_ready summary (if analysis = [] then None else Some analysis) m)) (\<lambda>_.
     act_bind (decisions_replace_for_meeting meeting_id ds) (\<lambda>_.
     act_bind (actions_replace_for_meeting meeting_id as) (\<lambda>_.
     w_commit)))))"

definition action_json :: "ActionItem \<Rightarrow> json" where
  "action_json a = JObj [(''action_id'', JStr (ac_id a)), (''title'', JStr (ac_title a)),
     (''assignee'', quote_json (map_option as_display_name (ac_assignee a))),
     (''department'', quote_json (map_option as_department (ac_assignee a))),
     (''due_date'', quote_json (map_option isoformat (ac_due_date a))),
     (''approval_reasons'', JArr (map JStr (ac_approval_reasons a)))]"

definition approval_payload :: "uuid \<Rightarrow> string \<Rightarrow> ActionItem list \<Rightarrow> jdict" where
  "approval_payload meeting_id department as =
     [(''approval_type'', JStr ''work_ops.dispatch_actions''), (''reason'', JText ''approve_actions'' []),
      (''meeting_id'', JStr meeting_id), (''requester_department'', JStr department),
      (''actions'', JArr (map action_json as))]"

definition policy_gate :: "env \<Rightarrow> RunContext \<Rightarrow> WorkOpsState \<Rightarrow> WorkOpsState wact" where
  "policy_gate E rc st =
     act_bind (require_meeting_id st) (\<lambda>meeting_id.
     let department = jstr_or (so_approval_payload st) ''requester_department'' ''general'' in
     act_bind (act_map (gate_action E rc meeting_id (dispatch_context department)) (so_candidates st)) (\<lambda>as.
     act_bind (act_map (gate_decision E rc meeting_id) (so_decisions st)) (\<lambda>ds.
     act_bind (in_wuow E (rc_tenant_id rc) (gate_tx meeting_id (so_summary st) (so_analysis st) ds as)) (\<lambda>_.
     act_ret (st\<lparr>so_resolved_action_ids := map ac_id as,
                 so_approval_payload := approval_payload meeting_id department as\<rparr>)))))"

section \<open>The dispatch tool\<close>

record CreateExternalTask =
  ct_tenant_id :: uuid
  ct_workspace_id :: uuid
  ct_action_item_id :: uuid
  ct_title :: string
  ct_description :: string
  ct_assignee_person_id :: uuid
  ct_assignee_display_name :: string
  ct_due_date :: "string option"

record ExternalTaskRef =
  er_connector :: string
  er_connector_version :: string
  er_external_id :: string
  er_external_url :: "string option"

record task_connector =
  tc_name :: string
  tc_create_task :: "CreateExternalTask \<Rightarrow> string \<Rightarrow> ExternalTaskRef handler"

definition TOOL_NAME :: string where "TOOL_NAME = ''task.create_external''"

definition TOOL_VERSION :: string where "TOOL_VERSION = ''1.0.0''"

definition DISPATCH_TOOL_DEFINITION :: ToolDefinition where
  "DISPATCH_TOOL_DEFINITION =
     \<lparr>td_name = TOOL_NAME, td_version = TOOL_VERSION, td_required_scopes = {''work_ops.write''},
      td_side_effect_level = SE_EXTERNAL, td_approval_policy = POLICY_ALWAYS, td_timeout_seconds = 30, td_max_retries = 2,
      td_idempotent = True\<rparr>"

definition task_input_keys :: "string list" where
  "task_input_keys = [''action_id'', ''title'', ''description'', ''assignee_person_id'', ''assignee_display_name'', ''due_date'']"

text \<open>\<open>CreateExternalTaskInput\<close> and \<open>CreateExternalTaskOutput\<close>, on inputs whose identifiers are well formed.\<close>

definition is_jstr :: "json option \<Rightarrow> bool" where
  "is_jstr v = (case v of Some (JStr s) \<Rightarrow> True | _ \<Rightarrow> False)"

definition task_input_model :: "jdict \<Rightarrow> jdict option" where
  "task_input_model d =
     (if (\<forall>k \<in> fst ` set d. k \<in> set task_input_keys) \<and> is_jstr (jget d ''action_id'') \<and> is_jstr (jget d ''title'')
         \<and> is_jstr (jget d ''assignee_person_id'') \<and> is_jstr (jget d ''assignee_display_name'')
         \<and> 1 \<le> length (jstr_or d ''title'' '''') \<and> length (jstr_or d ''title'' '''') \<le> 500
      then Some [(''action_id'', JStr (jstr_or d ''action_id'' '''')), (''title'', JStr (jstr_or d ''title'' '''')),
                 (''description'', JStr (jstr_or d ''description'' '''')),
                 (''assignee_person_id'', JStr (jstr_or d ''assignee_person_id'' '''')),
                 (''assignee_display_name'', JStr (jstr_or d ''assignee_display_name'' '''')),
                 (''due_date'', jget_or d ''due_date'' JNull)]
      else None)"

definition task_output_model :: "jdict \<Rightarrow> jdict option" where
  "task_output_model d =
     (if is_jstr (jget d ''connector'') \<and> is_jstr (jget d ''connector_version'') \<and> is_jstr (jget d ''external_id'')
      then Some [(''connector'', JStr (jstr_or d ''connector'' '''')), (''connector_version'', JStr (jstr_or d ''connector_version'' '''')),
                 (''external_id'', JStr (jstr_or d ''external_id'' '''')), (''external_url'', jget_or d ''external_url'' JNull)]
      else None)"

definition json_opt :: "json \<Rightarrow> string option" where
  "json_opt v = (case v of JStr s \<Rightarrow> Some s | _ \<Rightarrow> None)"

definition dispatch_handler :: "task_connector \<Rightarrow> jdict \<Rightarrow> RunContext \<Rightarrow> jdict handler" where
  "dispatch_handler tc d rc =
     act_bind (tc_create_task tc
       \<lparr>ct_tenant_id = rc_tenant_id rc, ct_workspace_id = rc_workspace_id rc, ct_action_item_id = jstr_or d ''action_id'' '''',
        ct_title = jstr_or d ''title'' '''', ct_description = jstr_or d ''description'' '''',
        ct_assignee_person_id = jstr_or d ''assignee_person_id'' '''',
        ct_assignee_display_name = jstr_or d ''assignee_display_name'' '''', ct_due_date = json_opt (jget_or d ''due_date'' JNull)\<rparr>
       (rc_tenant_id rc @ '':'' @ jstr_or d ''action_id'' '''' @ '':'' @ tc_name tc @ '':'' @ TOOL_VERSION)) (\<lambda>ref.
     act_ret [(''connector'', JStr (er_connector ref)), (''connector_version'', JStr (er_connector_version ref)),
              (''external_id'', JStr (er_external_id ref)), (''external_url'', quote_json (er_external_url ref))])"

definition dispatch_tool :: "task_connector \<Rightarrow> RegisteredTool" where
  "dispatch_tool tc = \<lparr>rt_definition = DISPATCH_TOOL_DEFINITION, rt_input_model = task_input_model,
     rt_output_model = task_output_model, rt_handler = dispatch_handler tc\<rparr>"

section \<open>Dispatching\<close>

text \<open>\<open>x in v\<close> for a value that came out of JSON.\<close>

definition json_has :: "json \<Rightarrow> string \<Rightarrow> bool result" where
  "json_has v x =
     (case v of
        JArr xs \<Rightarrow> Inr (JStr x \<in> set xs)
      | JObj d \<Rightarrow> Inr (x \<in> fst ` set d)
      | JStr s \<Rightarrow> Inr (sublist x s)
      | _ \<Rightarrow> Inl (Err PyTypeError ''argument is not iterable''))"

definition selected :: "jdict \<Rightarrow> uuid \<Rightarrow> bool result" where
  "selected decision i =
     (if \<not> py_truthy (jget_or decision ''approved'' JNull) then Inr False
      else case jget_or decision ''approved_action_ids'' JNull of JNull \<Rightarrow> Inr True | ids \<Rightarrow> json_has ids i)"

definition tool_payload :: "uuid \<Rightarrow> ActionItem \<Rightarrow> ResolvedAssignee \<Rightarrow> jdict" where
  "tool_payload i a p =
     [(''action_id'', JStr i), (''title'', JStr (ac_title a)), (''description'', JStr (ac_description a)),
      (''assignee_person_id'', JStr (as_person_id p)), (''assignee_display_name'', JStr (as_display_name p)),
      (''due_date'', quote_json (map_option isoformat (ac_due_date a)))]"

definition dispatch_key :: "RunContext \<Rightarrow> uuid \<Rightarrow> string" where
  "dispatch_key rc i = rc_tenant_id rc @ '':'' @ i @ '':mock:'' @ TOOL_VERSION"

definition dispatch_approved ::
  "env \<Rightarrow> WorkOpsServices \<Rightarrow> RunContext \<Rightarrow> uuid \<Rightarrow> ActionItem \<Rightarrow> ResolvedAssignee \<Rightarrow> DispatchResult wact" where
  "dispatch_approved E S rc i a p =
     act_bind (act_lift (approve_action a)) (\<lambda>b.
     act_bind (actions_save b) (\<lambda>_.
     act_bind (on_platform (execute_tool E (os_tools S) TOOL_NAME TOOL_VERSION (tool_payload i b p) rc
                (Some (dispatch_key rc i)) True)) (\<lambda>out.
     act_bind (act_lift (mark_dispatched b)) (\<lambda>c.
     act_bind (actions_save c) (\<lambda>_.
     act_bind (record_external_task (ac_id c) (jstr_or out ''connector'' ''mock'') (jstr_or out ''connector_version'' TOOL_VERSION)
                (jstr_or out ''external_id'' '''') (json_opt (jget_or out ''external_url'' JNull))) (\<lambda>_.
     act_ret \<lparr>dz_action_id = i, dz_status = ''dispatched'', dz_external_id = json_opt (jget_or out ''external_id'' JNull)\<rparr>))))))"

definition dispatch_one ::
  "env \<Rightarrow> WorkOpsServices \<Rightarrow> RunContext \<Rightarrow> jdict \<Rightarrow> uuid \<Rightarrow> DispatchResult list wact" where
  "dispatch_one E S rc decision i =
     act_bind (actions_get i) (\<lambda>found.
       case found of
         None \<Rightarrow> act_ret []
       | Some a \<Rightarrow>
           act_bind (act_lift (selected decision i)) (\<lambda>chosen.
             if \<not> chosen then
               act_bind (act_lift (reject_action a)) (\<lambda>b.
               act_bind (actions_save b) (\<lambda>_.
               act_ret [\<lparr>dz_action_id = i, dz_status = ''rejected'', dz_external_id = None\<rparr>]))
             else case ac_assignee a of
                 None \<Rightarrow> act_ret [\<lparr>dz_action_id = i, dz_status = ''skipped_unresolved'', dz_external_id = None\<rparr>]
               | Some p \<Rightarrow> act_bind (dispatch_approved E S rc i a p) (\<lambda>r. act_ret [r])))"

definition dispatch_tasks :: "env \<Rightarrow> WorkOpsServices \<Rightarrow> RunContext \<Rightarrow> WorkOpsState \<Rightarrow> WorkOpsState wact" where
  "dispatch_tasks E S rc st =
     act_bind (in_wuow E (rc_tenant_id rc)
       (act_bind (act_map (dispatch_one E S rc (so_approval_decision st)) (so_resolved_action_ids st)) (\<lambda>rs.
        act_bind w_commit (\<lambda>_. act_ret (concat rs))))) (\<lambda>results.
     act_ret (st\<lparr>so_dispatch_results := results\<rparr>))"

section \<open>Closing\<close>

definition track_and_follow_up :: "WorkOpsState \<Rightarrow> WorkOpsState wact" where
  "track_and_follow_up st =
     act_ret (st\<lparr>so_warnings := so_warnings st @ map (\<lambda>r. ''follow_up_needed:'' @ dz_action_id r)
       (filter (\<lambda>r. dz_status r \<noteq> ''dispatched'') (so_dispatch_results st))\<rparr>)"

definition close_tx :: "uuid \<Rightarrow> TranscriptArtifact option wact" where
  "close_tx meeting_id =
     act_bind (meetings_get meeting_id) (\<lambda>found.
     act_bind (transcripts_get_for_meeting meeting_id) (\<lambda>artifact.
     act_bind (case found of None \<Rightarrow> act_ret () | Some m \<Rightarrow> meetings_save (complete_meeting m)) (\<lambda>_.
     act_bind w_commit (\<lambda>_. act_ret artifact))))"

definition meeting_memory :: "env \<Rightarrow> RunContext \<Rightarrow> WorkOpsState \<Rightarrow> EvidenceRef \<Rightarrow> MemoryCandidate" where
  "meeting_memory E rc st evidence =
     \<lparr>mc_worker_id = rc_worker_id rc, mc_memory_type = EPISODIC,
      mc_content = env_text E (JText ''meeting_memory'' [jstr_or (so_summary st) ''headline'' '''',
        nat_str (length (so_decisions st)),
        nat_str (length (filter (\<lambda>r. dz_status r = ''dispatched'') (so_dispatch_results st)))]),
      mc_structured_facts = [], mc_subject_refs = [], mc_provenance_refs = [evidence], mc_confidence = 9 / 10,
      mc_classification = ''internal''\<rparr>"

definition close_and_write_memory :: "env \<Rightarrow> WorkOpsServices \<Rightarrow> RunContext \<Rightarrow> WorkOpsState \<Rightarrow> WorkOpsState wact" where
  "close_and_write_memory E S rc st =
     act_bind (require_meeting_id st) (\<lambda>meeting_id.
     act_bind (in_wuow E (rc_tenant_id rc) (close_tx meeting_id)) (\<lambda>artifact.
     let headline = jstr_or (so_summary st) ''headline'' '''' in
     case artifact of
       None \<Rightarrow> act_ret (st\<lparr>so_memory_written := False\<rparr>)
     | Some a \<Rightarrow>
         if headline = '''' then act_ret (st\<lparr>so_memory_written := False\<rparr>)
         else
           act_bind (on_platform (new_uuid E)) (\<lambda>i.
           act_bind (act_lift (mk_EvidenceRef \<lparr>ev_evidence_id = i, ev_source_document_id = ta_id a, ev_source_version = ''1'',
              ev_quote = Some (take 280 headline), ev_relevance_score = 1, ev_classification = ''internal'',
              ev_provenance_hash = ta_content_hash a\<rparr>)) (\<lambda>evidence.
           act_bind (act_lift (mk_MemoryCandidate (meeting_memory E rc st evidence))) (\<lambda>c.
           act_bind (act_lift (access_context_from_run rc)) (\<lambda>x.
           act_bind (propose E (os_write_policy S) c x (rc_run_id rc)) (\<lambda>result.
           act_ret (st\<lparr>so_memory_written := (pp_item result \<noteq> None)\<rparr>))))))))"

section \<open>The graph\<close>

definition run_until_review :: "env \<Rightarrow> WorkOpsServices \<Rightarrow> RunContext \<Rightarrow> string \<Rightarrow> WorkOpsState wact" where
  "run_until_review E S rc meeting_id =
     act_bind (ingest_transcript E S rc (meeting_state meeting_id)) (\<lambda>st.
     act_bind (normalize_transcript st) (\<lambda>st.
     act_bind (resolve_speakers S rc st) (\<lambda>st.
     act_bind (summarize_meeting S rc st) (\<lambda>st.
     act_bind (analyze_meeting S rc st) (\<lambda>st.
     act_bind (extract_decisions S rc st) (\<lambda>st.
     act_bind (extract_action_items S rc st) (\<lambda>st.
     act_bind (resolve_assignees S rc st) (\<lambda>st.
     act_bind (validate_due_dates E st) (\<lambda>st.
     act_bind (enrich_with_org_context S rc st) (\<lambda>st.
     policy_gate E rc st))))))))))"

definition human_review :: "jdict \<Rightarrow> WorkOpsState \<Rightarrow> WorkOpsState wact" where
  "human_review decision st = act_ret (st\<lparr>so_approval_decision := decision\<rparr>)"

definition resume_after_review :: "env \<Rightarrow> WorkOpsServices \<Rightarrow> RunContext \<Rightarrow> jdict \<Rightarrow> WorkOpsState \<Rightarrow> WorkOpsState wact" where
  "resume_after_review E S rc decision st =
     act_bind (human_review decision st) (\<lambda>st.
     act_bind (dispatch_tasks E S rc st) (\<lambda>st.
     act_bind (track_and_follow_up st) (\<lambda>st.
     close_and_write_memory E S rc st)))"

end
