(* ===== verification/DW_WorkOps_Props.thy ===== *)
theory DW_WorkOps_Props
  imports DW_WorkOps_Flow DW_Store_Laws
begin

text \<open>
  Properties of the work-operations worker and of the memory it writes: what the policy lets into memory, transcripts
  read back, who a task may be assigned to, what is stored before the review and what a decision dispatches.
\<close>

section \<open>Running in the world of the worker\<close>

lemma run_act_modify: "act_modify f w = (r, v) \<longleftrightarrow> r = Inr () \<and> v = f w"
  by (auto simp: act_modify_def)

lemma run_w_call: "w_call f w = (r, v) \<longleftrightarrow>
    (\<exists>n p. r = f n \<and> v = w\<lparr>mw_platform := p\<rparr> \<and> n = w_calls (mw_platform w) \<and> p = (mw_platform w)\<lparr>w_calls := Suc n\<rparr>)"
  by (auto simp: w_call_def run_on_platform)

lemma platform_frame:
  "ww_db (w\<lparr>mw_platform := p\<rparr>) = ww_db w" "ww_committed (w\<lparr>mw_platform := p\<rparr>) = ww_committed w"
  "ww_tenant (w\<lparr>mw_platform := p\<rparr>) = ww_tenant w" "mw_db (w\<lparr>mw_platform := p\<rparr>) = mw_db w" for w :: wworld
  by simp_all

text \<open>A unit of work: the body starts on what is committed, and only what it commits stays.\<close>

lemma in_wuow_run:
  assumes "in_wuow E t body w = (r, w')"
  shows "(\<exists>e p. r = Inl e \<and> w' = w\<lparr>mw_platform := p\<rparr>)
    \<or> (\<exists>p v. body (w\<lparr>mw_platform := p, ww_db := ww_committed w, ww_tenant := t\<rparr>) = (r, v) \<and> w' = v\<lparr>ww_db := ww_committed v\<rparr>)"
proof -
  obtain c p where "m_connect E (mw_platform w) = (c, p)" by fastforce
  then show ?thesis using assms
    by (cases c) (auto simp: in_wuow_def act_bind_def on_platform_def split: prod.splits)
qed

section \<open>Memory\<close>

lemma session_run:
  assumes "m_session E body w = (r, w')"
  shows "(\<exists>e. r = Inl e \<and> mw_db w' = mw_db w) \<or> (\<exists>a p. r = Inr a \<and> body (w\<lparr>mw_platform := p\<rparr>) = (Inr a, w'))"
proof -
  obtain c p where "m_connect E (mw_platform w) = (c, p)" by fastforce
  then show ?thesis using assms
    by (cases c) (auto simp: m_session_def act_bind_def on_platform_def split: prod.splits sum.splits)
qed

lemma remembered_run:
  assumes "(if d = AUTO_WRITE then act_bind (on_platform (new_uuid E)) (\<lambda>i.
             act_bind (act_lift (mk_MemoryItem (item_of c x run i now))) (\<lambda>item. act_ret (Some item))) else act_ret None) w = (Inr item, v)"
  shows "mw_db v = mw_db w \<and> (if d = AUTO_WRITE then \<exists>k. item = Some (item_of c x run k now) else item = None)"
  using assms by (auto simp: run_bind run_basic run_on_platform mk_MemoryItem_def split: if_splits)

text \<open>Nothing enters the long-term memory but what the policy lets in. A proposal that raises leaves the memory
  as it was; one that returns has recorded the candidate with the policy's decision, and has stored an item - the
  candidate's content under the caller's tenant and workspace, valid from that moment on - exactly if the candidate
  has evidence, is not restricted and reaches the confidence for writing without review.\<close>

theorem memory_write_policed:
  assumes "propose E p c x run w = (r, w')"
  shows "case r of
      Inl e \<Rightarrow> mw_db w' = mw_db w
    | Inr res \<Rightarrow> \<exists>i now. md_candidates (mw_db w') = md_candidates (mw_db w) @ [candidate_row c x run i (po_decision (evaluate_candidate p c)) (pp_item res) now]
        \<and> pp_outcome res = evaluate_candidate p c
        \<and> (if mc_provenance_refs c \<noteq> [] \<and> mc_classification c \<noteq> ''restricted'' \<and> mp_auto_write_confidence p \<le> mc_confidence c
           then \<exists>k. pp_item res = Some (item_of c x run k now) \<and> md_items (mw_db w') = md_items (mw_db w) @ [(item_of c x run k now, now)]
                  \<and> is_valid_at (item_of c x run k now) now
           else pp_item res = None \<and> md_items (mw_db w') = md_items (mw_db w))"
proof (cases r)
  case (Inl e)
  then show ?thesis using assms
    by (auto simp: propose_def Let_def act_bind_def on_platform_def new_uuid_def clock_now_def act_ret_def act_lift_def
        split: prod.splits sum.splits if_splits dest!: session_run)
next
  case (Inr res)
  let ?o = "evaluate_candidate p c"
  from assms [unfolded Inr propose_def Let_def run_bind] obtain i w1 now w2 item v u u' where
      i: "on_platform (new_uuid E) w = (Inr i, w1)" and now: "on_platform (clock_now E) w1 = (Inr now, w2)"
    and it: "(if po_decision ?o = AUTO_WRITE then act_bind (on_platform (new_uuid E)) (\<lambda>i.
             act_bind (act_lift (mk_MemoryItem (item_of c x run i now))) (\<lambda>item. act_ret (Some item))) else act_ret None) w2 = (Inr item, v)"
    and run: "m_session E (act_bind (candidates_insert (candidate_row c x run i (po_decision ?o) item now))
        (\<lambda>_. case item of None \<Rightarrow> act_ret () | Some i \<Rightarrow> items_insert i now)) v = (Inr u, u')"
    and res: "act_ret \<lparr>pp_candidate_id = i, pp_outcome = ?o, pp_item = item\<rparr> u' = (Inr res, w')"
    by blast
  have w': "u' = w'" "pp_item res = item" "pp_outcome res = ?o" using res by (auto simp: run_basic)
  have v: "mw_db v = mw_db w" using remembered_run [OF it] i now by (auto simp: run_on_platform)
  have item: "if po_decision ?o = AUTO_WRITE then \<exists>k. item = Some (item_of c x run k now) else item = None"
    using remembered_run [OF it] by blast
  have auto_write: "po_decision (evaluate_candidate p c) = AUTO_WRITE \<longleftrightarrow>
      mc_provenance_refs c \<noteq> [] \<and> mc_classification c \<noteq> ''restricted'' \<and> mp_auto_write_confidence p \<le> mc_confidence c"
    by (auto simp: evaluate_candidate_def)
  have valid: "is_valid_at (item_of c x run k now) now" for k by (simp add: is_valid_at_def item_of_def)
  have db: "md_candidates (mw_db w') = md_candidates (mw_db w) @ [candidate_row c x run i (po_decision (evaluate_candidate p c)) item now]
      \<and> md_items (mw_db w') = md_items (mw_db w) @ (case item of None \<Rightarrow> [] | Some k \<Rightarrow> [(k, now)])"
    using session_run [OF run] v w'(1)
    by (cases item) (auto simp: run_bind run_basic candidates_insert_def items_insert_def split: if_splits)
  show ?thesis
  proof (cases "po_decision (evaluate_candidate p c) = AUTO_WRITE")
    case True
    then obtain k where "item = Some (item_of c x run k now)" using item by auto
    then show ?thesis using db w' Inr True valid auto_write by auto
  next
    case False
    then show ?thesis using db w' Inr False auto_write item by auto
  qed
qed

section \<open>Dispatching\<close>

text \<open>What a decision makes of an action.\<close>

definition decided_row :: "jdict \<Rightarrow> ActionItem \<Rightarrow> ActionItem" where
  "decided_row decision a =
     (case selected decision (ac_id a) of
        Inr True \<Rightarrow> (if ac_assignee a = None then a else a\<lparr>ac_status := ACTION_DISPATCHED, ac_version := ac_version a + 2\<rparr>)
      | _ \<Rightarrow> a\<lparr>ac_status := ACTION_REJECTED, ac_version := ac_version a + 1\<rparr>)"

definition only_actions_changed :: "wworld \<Rightarrow> wworld \<Rightarrow> bool" where
  "only_actions_changed w w' = (ww_committed w' = ww_committed w \<and> ww_tenant w' = ww_tenant w \<and> mw_db w' = mw_db w
     \<and> wo_meetings (ww_db w') = wo_meetings (ww_db w) \<and> wo_transcripts (ww_db w') = wo_transcripts (ww_db w)
     \<and> wo_decisions (ww_db w') = wo_decisions (ww_db w))"

lemma only_actions_changed_refl: "only_actions_changed w w"
  by (simp add: only_actions_changed_def)

lemma only_actions_changed_trans: "only_actions_changed u v \<Longrightarrow> only_actions_changed v w \<Longrightarrow> only_actions_changed u w"
  by (simp add: only_actions_changed_def)

lemma actions_save_run:
  assumes "actions_save b w = (Inr u, w')" "a \<in> set (wo_actions (ww_db w))" "distinct (map ac_id (wo_actions (ww_db w)))"
    "ac_id b = ac_id a" "action_row b a = b"
  shows "w' = w\<lparr>ww_db := (ww_db w)\<lparr>wo_actions := map (\<lambda>r. if r = a then b else r) (wo_actions (ww_db w))\<rparr>\<rparr>
    \<and> ac_tenant_id a = ww_tenant w"
proof -
  let ?hit = "\<lambda>r. ac_tenant_id r = ww_tenant w \<and> ac_id r = ac_id b \<and> ac_version r = ac_version b - 1"
  from assms(1) have "length (filter ?hit (wo_actions (ww_db w))) = 1"
    and w': "w' = w\<lparr>ww_db := (ww_db w)\<lparr>wo_actions := update_where ?hit (action_row b) (wo_actions (ww_db w))\<rparr>\<rparr>"
    by (auto simp: actions_save_def Let_def split: if_splits)
  then have "filter ?hit (wo_actions (ww_db w)) \<noteq> []" by auto
  then obtain r where "r \<in> set (wo_actions (ww_db w))" "?hit r" unfolding filter_empty_conv by blast
  moreover have same: "r = a" if "r \<in> set (wo_actions (ww_db w))" "ac_id r = ac_id b" for r
    using that assms(2-4) by (auto simp: distinct_map inj_on_def)
  ultimately have "?hit a" by blast
  then have "update_where ?hit (action_row b) (wo_actions (ww_db w)) = map (\<lambda>r. if r = a then b else r) (wo_actions (ww_db w))"
    unfolding update_where_def
  proof (intro map_cong refl)
    fix r assume "r \<in> set (wo_actions (ww_db w))"
    then have "?hit r \<longleftrightarrow> r = a" using same \<open>?hit a\<close> by blast
    then show "(if ?hit r then action_row b r else r) = (if r = a then b else r)" using assms(5) by presburger
  qed
  then show ?thesis using w' \<open>?hit a\<close> by simp
qed

definition tasks_added :: "uuid \<Rightarrow> wodb \<Rightarrow> wodb \<Rightarrow> bool" where
  "tasks_added i d d' = (\<exists>new. wo_external_tasks d' = wo_external_tasks d @ new \<and> (\<forall>t \<in> set new. et_action_item_id t = i))"

lemma record_external_task_run:
  assumes "record_external_task i k v x url w = (Inr u, w')"
  shows "only_actions_changed w w' \<and> wo_actions (ww_db w') = wo_actions (ww_db w) \<and> tasks_added i (ww_db w) (ww_db w')
    \<and> i \<in> et_action_item_id ` set (wo_external_tasks (ww_db w'))"
  using assms
  by (auto simp: record_external_task_def actions_get_def run_bind run_basic run_act_modify external_task_insert_def
      only_actions_changed_def tasks_added_def image_iff)

lemma execute_tool_input:
  assumes "execute_tool E tools name version raw rc key ok w = (Inr out, w')"
  shows "\<exists>tool input. registry_resolve ''tool'' tools (name, version) = Inr tool \<and> rt_input_model tool raw = Some input"
  using assms by (auto simp: execute_tool_def run_bind run_basic)

text \<open>One action of the loop.\<close>

lemma approved_run:
  assumes run: "dispatch_approved E S rc (ac_id a) a p w = (Inr z, w')" and a: "a \<in> set (wo_actions (ww_db w))"
    and dist: "distinct (map ac_id (wo_actions (ww_db w)))"
  shows "ac_status a = ACTION_PROPOSED \<and> only_actions_changed w w'
    \<and> wo_actions (ww_db w') = map (\<lambda>r. if r = a then a\<lparr>ac_status := ACTION_DISPATCHED, ac_version := ac_version a + 2\<rparr> else r) (wo_actions (ww_db w))
    \<and> tasks_added (ac_id a) (ww_db w) (ww_db w') \<and> ac_id a \<in> et_action_item_id ` set (wo_external_tasks (ww_db w'))
    \<and> (\<exists>tool input. registry_resolve ''tool'' (os_tools S) (TOOL_NAME, TOOL_VERSION) = Inr tool
         \<and> rt_input_model tool (tool_payload (ac_id a) a p) = Some input)"
proof -
  let ?b = "a\<lparr>ac_status := ACTION_APPROVED, ac_version := ac_version a + 1\<rparr>"
  let ?c = "a\<lparr>ac_status := ACTION_DISPATCHED, ac_version := ac_version a + 2\<rparr>"
  have c: "?b\<lparr>ac_status := ACTION_DISPATCHED, ac_version := ac_version ?b + 1\<rparr> = ?c" by simp
  from run [unfolded dispatch_approved_def run_bind] obtain b v1 v2 out v3 d v4 v5 k x eid url where
      b: "approve_action a = Inr b" and save1: "actions_save b w = (Inr (), v1)"
    and ex: "on_platform (execute_tool E (os_tools S) TOOL_NAME TOOL_VERSION (tool_payload (ac_id a) b p) rc
        (Some (dispatch_key rc (ac_id a))) True) v1 = (Inr out, v2)"
    and d: "mark_dispatched b = Inr d" and save2: "actions_save d v2 = (Inr (), v4)"
    and rec: "record_external_task (ac_id d) k x eid url v4 = (Inr (), w')"
    by (auto simp: run_basic)
  have b: "b = ?b" "ac_status a = ACTION_PROPOSED" using b by (auto simp: approve_action_def split: if_splits)
  have d: "d = ?c" using d unfolding b by (auto simp: mark_dispatched_def split: if_splits)
  let ?m = "map (\<lambda>r. if r = a then ?b else r) (wo_actions (ww_db w))"
  have v1: "v1 = w\<lparr>ww_db := (ww_db w)\<lparr>wo_actions := ?m\<rparr>\<rparr>"
    using actions_save_run [OF save1 a dist] by (simp add: b action_row_def)
  obtain q where v2: "v2 = v1\<lparr>mw_platform := q\<rparr>" using ex by (auto simp: run_on_platform)
  have ids: "map ac_id ?m = map ac_id (wo_actions (ww_db w))" by (simp add: comp_def cong: if_cong)
  have wa: "wo_actions (ww_db v2) = ?m" by (simp add: v2 v1)
  have "distinct (map ac_id (wo_actions (ww_db v2)))" unfolding wa ids by (rule dist)
  moreover have "?b \<in> set (wo_actions (ww_db v2))" using a unfolding wa by force
  ultimately have "?b \<in> set (wo_actions (ww_db v2))" "distinct (map ac_id (wo_actions (ww_db v2)))" by blast+
  from actions_save_run [OF save2 this] have v4: "v4 = v2\<lparr>ww_db := (ww_db v2)\<lparr>wo_actions := map (\<lambda>r. if r = ?b then ?c else r) (wo_actions (ww_db v2))\<rparr>\<rparr>"
    by (simp add: d action_row_def)
  have nb: "?b \<noteq> r" if "r \<in> set (wo_actions (ww_db w))" "r \<noteq> a" for r
  proof
    assume "?b = r"
    then have "ac_id r = ac_id a" by auto
    then show False using that a dist by (auto simp: distinct_map inj_on_def)
  qed
  have "map (\<lambda>r. if r = ?b then ?c else r) ?m = map (\<lambda>r. if r = a then ?c else r) (wo_actions (ww_db w))"
    unfolding map_map using nb by (intro map_cong refl) (auto simp del: ActionItem.simps)
  then have acts: "wo_actions (ww_db v4) = map (\<lambda>r. if r = a then ?c else r) (wo_actions (ww_db w))"
    by (simp add: v4 v2 v1)
  have "only_actions_changed w v4" "wo_external_tasks (ww_db v4) = wo_external_tasks (ww_db w)"
    by (simp_all add: only_actions_changed_def v4 v2 v1)
  moreover have "\<exists>tool input. registry_resolve ''tool'' (os_tools S) (TOOL_NAME, TOOL_VERSION) = Inr tool
         \<and> rt_input_model tool (tool_payload (ac_id a) a p) = Some input"
    using ex execute_tool_input by (fastforce simp: run_on_platform tool_payload_def b)
  ultimately show ?thesis
    using record_external_task_run [OF rec] acts b(2) by (auto simp: d only_actions_changed_def tasks_added_def)
qed

definition dispatchable :: "jdict \<Rightarrow> ActionItem \<Rightarrow> bool" where
  "dispatchable decision a = (selected decision (ac_id a) = Inr True \<and> ac_assignee a \<noteq> None)"

definition tool_accepts :: "WorkOpsServices \<Rightarrow> ActionItem \<Rightarrow> bool" where
  "tool_accepts S a = (\<exists>tool input. registry_resolve ''tool'' (os_tools S) (TOOL_NAME, TOOL_VERSION) = Inr tool
     \<and> rt_input_model tool (tool_payload (ac_id a) a (the (ac_assignee a))) = Some input)"

definition one_decided :: "WorkOpsServices \<Rightarrow> jdict \<Rightarrow> uuid \<Rightarrow> wworld \<Rightarrow> wworld \<Rightarrow> bool" where
  "one_decided S decision i w w' =
     (let mine = (\<lambda>r. ac_tenant_id r = ww_tenant w \<and> ac_id r = i) in
      only_actions_changed w w'
      \<and> wo_actions (ww_db w') = map (\<lambda>r. if mine r then decided_row decision r else r) (wo_actions (ww_db w))
      \<and> tasks_added i (ww_db w) (ww_db w')
      \<and> (wo_external_tasks (ww_db w') = wo_external_tasks (ww_db w) \<or> selected decision i = Inr True)
      \<and> (\<forall>r \<in> set (wo_actions (ww_db w)). mine r \<longrightarrow> (decided_row decision r \<noteq> r \<longrightarrow> ac_status r = ACTION_PROPOSED)
           \<and> (dispatchable decision r \<longrightarrow> i \<in> et_action_item_id ` set (wo_external_tasks (ww_db w')) \<and> tool_accepts S r)))"

lemma map_one:
  assumes "distinct (map ac_id as)" "a \<in> set as" "P a"
  shows "map (\<lambda>r. if P r \<and> ac_id r = ac_id a then f r else r) as = map (\<lambda>r. if r = a then f a else r) as"
proof (intro map_cong refl)
  fix r assume "r \<in> set as"
  then have "ac_id r = ac_id a \<longleftrightarrow> r = a" using assms by (auto simp: distinct_map inj_on_def)
  then show "(if P r \<and> ac_id r = ac_id a then f r else r) = (if r = a then f a else r)" using assms(3) by auto
qed

lemma tasks_added_same: "tasks_added i d d"
  by (simp add: tasks_added_def)

lemma dispatch_one_run:
  assumes run: "dispatch_one E S rc decision i w = (Inr rs, w')" and dist: "distinct (map ac_id (wo_actions (ww_db w)))"
  shows "one_decided S decision i w w'"
proof (cases "find (\<lambda>a. ac_tenant_id a = ww_tenant w \<and> ac_id a = i) (wo_actions (ww_db w))")
  case None
  then have none: "\<forall>r \<in> set (wo_actions (ww_db w)). \<not> (ac_tenant_id r = ww_tenant w \<and> ac_id r = i)"
    by (simp add: find_None_iff)
  then have "map (\<lambda>r. if ac_tenant_id r = ww_tenant w \<and> ac_id r = i then decided_row decision r else r) (wo_actions (ww_db w))
      = wo_actions (ww_db w)" by (intro map_idI) auto
  moreover have "w' = w" using run None by (simp add: dispatch_one_def actions_get_def act_bind_def act_get_def act_ret_def)
  ultimately show ?thesis using none by (auto simp: one_decided_def only_actions_changed_refl tasks_added_same)
next
  case (Some a)
  have a: "a \<in> set (wo_actions (ww_db w))" "ac_tenant_id a = ww_tenant w" "ac_id a = i"
    using find_Some_in [OF Some] by auto
  have mine: "ac_tenant_id r = ww_tenant w \<and> ac_id r = i \<longleftrightarrow> r = a" if "r \<in> set (wo_actions (ww_db w))" for r
    using that a dist by (auto simp: distinct_map inj_on_def)
  have rows: "map (\<lambda>r. if ac_tenant_id r = ww_tenant w \<and> ac_id r = i then decided_row decision r else r) (wo_actions (ww_db w))
      = map (\<lambda>r. if r = a then decided_row decision a else r) (wo_actions (ww_db w))"
    using mine by (intro map_cong refl) auto
  obtain chosen where chosen: "selected decision i = Inr chosen"
    and rest: "(if \<not> chosen then
               act_bind (act_lift (reject_action a)) (\<lambda>b.
               act_bind (actions_save b) (\<lambda>_.
               act_ret [\<lparr>dz_action_id = i, dz_status = ''rejected'', dz_external_id = None\<rparr>]))
             else case ac_assignee a of
                 None \<Rightarrow> act_ret [\<lparr>dz_action_id = i, dz_status = ''skipped_unresolved'', dz_external_id = None\<rparr>]
               | Some p \<Rightarrow> act_bind (dispatch_approved E S rc i a p) (\<lambda>r. act_ret [r])) w = (Inr rs, w')"
    using run Some by (auto simp: dispatch_one_def run_bind run_basic actions_get_def)
  show ?thesis
  proof (cases "chosen \<and> ac_assignee a \<noteq> None")
    case True
    then obtain p where p: "ac_assignee a = Some p" by blast
    obtain z where "dispatch_approved E S rc (ac_id a) a p w = (Inr z, w')"
      using rest True p a(3) by (auto simp: run_bind run_basic)
    note fin = approved_run [OF this a(1) dist]
    have row: "decided_row decision a = a\<lparr>ac_status := ACTION_DISPATCHED, ac_version := ac_version a + 2\<rparr>"
      using chosen True p a(3) by (simp add: decided_row_def)
    show ?thesis unfolding one_decided_def Let_def rows
      using fin chosen True p a(3) mine by (auto simp: row dispatchable_def tool_accepts_def)
  next
    case False
    show ?thesis
    proof (cases chosen)
      case True
      then have "w' = w" "decided_row decision a = a" using False rest chosen a(3) by (auto simp: act_ret_def decided_row_def)
      then show ?thesis unfolding one_decided_def Let_def rows
        using False True mine chosen a(3)
        by (auto simp: only_actions_changed_refl tasks_added_same dispatchable_def map_idI)
    next
      case rejected: False
      let ?b = "a\<lparr>ac_status := ACTION_REJECTED, ac_version := ac_version a + 1\<rparr>"
      from rejected rest have st: "ac_status a = ACTION_PROPOSED" and save: "actions_save ?b w = (Inr (), w')"
        by (auto simp: run_bind run_basic reject_action_def split: if_splits)
      have "w' = w\<lparr>ww_db := (ww_db w)\<lparr>wo_actions := map (\<lambda>r. if r = a then ?b else r) (wo_actions (ww_db w))\<rparr>\<rparr>"
        using actions_save_run [OF save a(1) dist] by (simp add: action_row_def)
      moreover have "decided_row decision a = ?b" using rejected chosen a(3) by (simp add: decided_row_def)
      ultimately show ?thesis unfolding one_decided_def Let_def rows
        using st rejected chosen a(3) mine by (auto simp: only_actions_changed_def tasks_added_def dispatchable_def)
    qed
  qed
qed

lemma decided_row_keeps [simp]:
  "ac_id (decided_row decision a) = ac_id a" "ac_tenant_id (decided_row decision a) = ac_tenant_id a"
  by (simp_all add: decided_row_def split: sum.splits bool.splits)

definition all_decided :: "WorkOpsServices \<Rightarrow> jdict \<Rightarrow> uuid \<Rightarrow> uuid list \<Rightarrow> wodb \<Rightarrow> wodb \<Rightarrow> bool" where
  "all_decided S decision tenant ids d d' =
     (wo_actions d' = map (\<lambda>r. if ac_tenant_id r = tenant \<and> ac_id r \<in> set ids then decided_row decision r else r) (wo_actions d)
      \<and> (\<exists>new. wo_external_tasks d' = wo_external_tasks d @ new
           \<and> (\<forall>t \<in> set new. et_action_item_id t \<in> set ids \<and> selected decision (et_action_item_id t) = Inr True))
      \<and> (\<forall>r \<in> set (wo_actions d). ac_tenant_id r = tenant \<and> ac_id r \<in> set ids \<longrightarrow>
           (decided_row decision r \<noteq> r \<longrightarrow> ac_status r = ACTION_PROPOSED)
           \<and> (dispatchable decision r \<longrightarrow> ac_id r \<in> et_action_item_id ` set (wo_external_tasks d') \<and> tool_accepts S r)))"

lemma one_then_all:
  assumes one: "one_decided S decision i w v" and all: "all_decided S decision (ww_tenant w) ids (ww_db v) d'" and "i \<notin> set ids"
  shows "all_decided S decision (ww_tenant w) (i # ids) (ww_db w) d'"
proof -
  let ?t = "ww_tenant w"
  let ?f = "\<lambda>r. if ac_tenant_id r = ?t \<and> ac_id r = i then decided_row decision r else r"
  have v: "wo_actions (ww_db v) = map ?f (wo_actions (ww_db w))"
    using one by (simp add: one_decided_def Let_def)
  have rows: "wo_actions d' = map (\<lambda>r. if ac_tenant_id r = ?t \<and> ac_id r \<in> set (i # ids) then decided_row decision r else r) (wo_actions (ww_db w))"
    using all assms(3) by (auto simp: all_decided_def v intro!: map_cong)
  obtain new1 new2 where new: "wo_external_tasks (ww_db v) = wo_external_tasks (ww_db w) @ new1" "wo_external_tasks d' = wo_external_tasks (ww_db v) @ new2"
      "\<forall>t \<in> set new1. et_action_item_id t = i" "\<forall>t \<in> set new2. et_action_item_id t \<in> set ids \<and> selected decision (et_action_item_id t) = Inr True"
      "new1 = [] \<or> selected decision i = Inr True"
    using one all by (auto simp: one_decided_def Let_def tasks_added_def all_decided_def)
  have tasks: "\<exists>new. wo_external_tasks d' = wo_external_tasks (ww_db w) @ new
      \<and> (\<forall>t \<in> set new. et_action_item_id t \<in> set (i # ids) \<and> selected decision (et_action_item_id t) = Inr True)"
    using new by (intro exI [of _ "new1 @ new2"]) auto
  have "(decided_row decision r \<noteq> r \<longrightarrow> ac_status r = ACTION_PROPOSED)
      \<and> (dispatchable decision r \<longrightarrow> ac_id r \<in> et_action_item_id ` set (wo_external_tasks d') \<and> tool_accepts S r)"
    if r: "r \<in> set (wo_actions (ww_db w))" "ac_tenant_id r = ?t \<and> ac_id r \<in> set (i # ids)" for r
  proof (cases "ac_id r = i")
    case True
    then show ?thesis using one r new(2) by (auto simp: one_decided_def Let_def)
  next
    case False
    then have "r = ?f r" by simp
    then have "r \<in> set (wo_actions (ww_db v))" using r(1) unfolding v set_map by (rule image_eqI)
    then show ?thesis using all r(2) False by (simp add: all_decided_def)
  qed
  then show ?thesis using rows tasks unfolding all_decided_def by blast
qed

lemma dispatch_loop:
  "act_map (dispatch_one E S rc decision) ids w = (Inr rs, w') \<Longrightarrow> distinct (map ac_id (wo_actions (ww_db w))) \<Longrightarrow> distinct ids \<Longrightarrow>
     only_actions_changed w w' \<and> all_decided S decision (ww_tenant w) ids (ww_db w) (ww_db w')"
proof (induction ids arbitrary: w rs)
  case Nil
  then show ?case by (simp add: run_basic only_actions_changed_refl all_decided_def)
next
  case (Cons i ids)
  then obtain z v rs' where one: "dispatch_one E S rc decision i w = (Inr z, v)"
      and rest: "act_map (dispatch_one E S rc decision) ids v = (Inr rs', w')"
    by (auto simp: run_bind run_basic)
  note o = dispatch_one_run [OF one Cons.prems(2)]
  have v: "wo_actions (ww_db v) = map (\<lambda>r. if ac_tenant_id r = ww_tenant w \<and> ac_id r = i then decided_row decision r else r) (wo_actions (ww_db w))"
      "ww_tenant v = ww_tenant w" "only_actions_changed w v"
    using o by (simp_all add: one_decided_def Let_def only_actions_changed_def)
  have "map ac_id (wo_actions (ww_db v)) = map ac_id (wo_actions (ww_db w))" by (auto simp: v(1))
  then have "distinct (map ac_id (wo_actions (ww_db v)))" using Cons.prems(2) by simp
  from Cons.IH [OF rest this] Cons.prems(3) have all: "only_actions_changed v w'"
      "all_decided S decision (ww_tenant w) ids (ww_db v) (ww_db w')" by (simp_all add: v(2))
  show ?case using one_then_all [OF o all(2)] Cons.prems(3) only_actions_changed_trans [OF v(3) all(1)] by simp
qed

text \<open>Nothing of the worker's tables is committed by the statements of a unit of work, nor by one that raises.\<close>

definition keeps_committed :: "'a wact \<Rightarrow> bool" where
  "keeps_committed m = (\<forall>w. ww_committed (snd (m w)) = ww_committed w)"

definition uncommitted_on_error :: "'a wact \<Rightarrow> bool" where
  "uncommitted_on_error m = (\<forall>w e v. m w = (Inl e, v) \<longrightarrow> ww_committed v = ww_committed w)"

lemma keeps_committed_D: "keeps_committed m \<Longrightarrow> m w = (r, v) \<Longrightarrow> ww_committed v = ww_committed w"
  unfolding keeps_committed_def by (metis snd_conv)

lemma committed_bind: "keeps_committed m \<Longrightarrow> (\<And>a. keeps_committed (f a)) \<Longrightarrow> keeps_committed (act_bind m f)"
  unfolding keeps_committed_def act_bind_def by (auto split: prod.splits sum.splits) (metis snd_conv)+

lemma committed_basic:
  "keeps_committed (act_ret a)" "keeps_committed (act_get g)" "keeps_committed (act_lift r)" "keeps_committed (act_require b c s)"
  "keeps_committed (act_some x c s)" "keeps_committed (on_platform h)"
  by (auto simp: keeps_committed_def act_ret_def act_get_def act_lift_def act_require_def act_some_def on_platform_def
      split: option.splits prod.splits)

lemma committed_statements:
  "keeps_committed (meetings_get i)" "keeps_committed (meetings_save m)" "keeps_committed (actions_get i)" "keeps_committed (actions_save a)"
  "keeps_committed (decisions_insert d)" "keeps_committed (actions_insert a)" "keeps_committed (actions_delete_for_meeting i)"
  "keeps_committed (transcripts_get_for_meeting i)"
  by (auto simp: keeps_committed_def meetings_get_def meetings_save_def actions_get_def actions_save_def act_get_def Let_def
      on_wodb_def decisions_insert_def actions_insert_def actions_delete_for_meeting_def transcripts_get_for_meeting_def)

lemma committed_modify: "(\<And>w. ww_committed (f w) = ww_committed w) \<Longrightarrow> keeps_committed (act_modify f)"
  by (simp add: keeps_committed_def act_modify_def)

lemma committed_for: "(\<And>x. keeps_committed (f x)) \<Longrightarrow> keeps_committed (act_for xs f)"
  by (induction xs) (simp_all add: committed_basic committed_bind)

lemma committed_map: "(\<And>x. keeps_committed (f x)) \<Longrightarrow> keeps_committed (act_map f xs)"
  by (induction xs) (auto intro!: committed_basic committed_bind)

lemma committed_dispatch: "keeps_committed (dispatch_one E S rc decision i)"
  unfolding dispatch_one_def dispatch_approved_def record_external_task_def
  by (auto intro!: committed_bind committed_basic committed_statements committed_modify split: option.splits)

lemma on_error_bind: "keeps_committed m \<Longrightarrow> (\<And>a. uncommitted_on_error (f a)) \<Longrightarrow> uncommitted_on_error (act_bind m f)"
  unfolding keeps_committed_def uncommitted_on_error_def act_bind_def
  by (auto split: prod.splits sum.splits) (metis snd_conv)+

lemma on_error_commit: "uncommitted_on_error w_commit" "uncommitted_on_error (act_bind w_commit (\<lambda>_. act_ret x))"
  by (auto simp: uncommitted_on_error_def w_commit_def act_modify_def act_bind_def act_ret_def)

lemma on_error_uow: "uncommitted_on_error m \<Longrightarrow> in_wuow E t m w = (Inl e, v) \<Longrightarrow> ww_committed v = ww_committed w"
  by (drule in_wuow_run) (auto simp: uncommitted_on_error_def)

lemma dispatch_run:
  assumes "dispatch_tasks E S rc st w = (r, w')" "distinct (map ac_id (wo_actions (ww_committed w)))" "distinct (so_resolved_action_ids st)"
  shows "case r of
      Inl e \<Rightarrow> ww_committed w' = ww_committed w
    | Inr st' \<Rightarrow> all_decided S (so_approval_decision st) (rc_tenant_id rc) (so_resolved_action_ids st) (ww_committed w) (ww_committed w')
        \<and> wo_meetings (ww_committed w') = wo_meetings (ww_committed w) \<and> mw_db w' = mw_db w"
proof -
  let ?body = "act_bind (act_map (dispatch_one E S rc (so_approval_decision st)) (so_resolved_action_ids st)) (\<lambda>rs.
        act_bind w_commit (\<lambda>_. act_ret (concat rs)))"
  have safe: "uncommitted_on_error ?body"
    by (intro on_error_bind committed_map committed_dispatch on_error_commit)
  show ?thesis
  proof (cases r)
    case (Inl e)
    then have "in_wuow E (rc_tenant_id rc) ?body w = (Inl e, w')"
      using assms(1) by (auto simp: dispatch_tasks_def act_bind_def act_ret_def split: prod.splits sum.splits)
    then show ?thesis using on_error_uow [OF safe] Inl by simp
  next
    case (Inr st')
    then obtain rs where "in_wuow E (rc_tenant_id rc) ?body w = (Inr rs, w')"
      using assms(1) by (auto simp: dispatch_tasks_def run_bind run_basic)
    from in_wuow_run [OF this] obtain p v where
        body: "?body (w\<lparr>mw_platform := p, ww_db := ww_committed w, ww_tenant := rc_tenant_id rc\<rparr>) = (Inr rs, v)"
      and w': "w' = v\<lparr>ww_db := ww_committed v\<rparr>" by blast
    obtain zs u where u: "act_map (dispatch_one E S rc (so_approval_decision st)) (so_resolved_action_ids st)
          (w\<lparr>mw_platform := p, ww_db := ww_committed w, ww_tenant := rc_tenant_id rc\<rparr>) = (Inr zs, u)"
      and v: "v = u\<lparr>ww_committed := ww_db u\<rparr>"
      using body by (auto simp: run_bind run_basic w_commit_def run_act_modify)
    have "distinct (map ac_id (wo_actions (ww_db (w\<lparr>mw_platform := p, ww_db := ww_committed w, ww_tenant := rc_tenant_id rc\<rparr>))))"
      using assms(2) by simp
    from dispatch_loop [OF u this assms(3)] show ?thesis by (simp add: Inr w' v only_actions_changed_def)
  qed
qed


text \<open>One title is enough to stop a dispatch. The tool takes titles of at most five hundred characters, an action may
  have any: when an action the decision selects has an assignee and a longer title, dispatching raises whatever else was
  approved, and the worker's tables stay as they were, also for the actions whose tasks had already been created.\<close>

theorem overlong_title_blocks_dispatch:
  assumes "dispatch_tasks E S rc st w = (r, w')" "distinct (map ac_id (wo_actions (ww_committed w)))"
    and "distinct (so_resolved_action_ids st)"
    and "registry_resolve ''tool'' (os_tools S) (TOOL_NAME, TOOL_VERSION) = Inr (dispatch_tool tc)"
    and "a \<in> set (wo_actions (ww_committed w))" "ac_tenant_id a = rc_tenant_id rc" "ac_id a \<in> set (so_resolved_action_ids st)"
    and "dispatchable (so_approval_decision st) a" "500 < length (ac_title a)"
  shows "(\<exists>e. r = Inl e) \<and> ww_committed w' = ww_committed w"
proof (cases r)
  case (Inl e)
  then show ?thesis using dispatch_run [OF assms(1-3)] by simp
next
  case (Inr st')
  then have "tool_accepts S a" using dispatch_run [OF assms(1-3)] assms(5-8) by (auto simp: all_decided_def)
  then have "\<exists>input. task_input_model (tool_payload (ac_id a) a (the (ac_assignee a))) = Some input"
    using assms(4) by (auto simp: tool_accepts_def dispatch_tool_def)
  moreover have "jstr_or (tool_payload i a p) ''title'' '''' = ac_title a" for i p
    by (simp add: jstr_or_def jget_def tool_payload_def)
  ultimately show ?thesis using assms(9) by (auto simp: task_input_model_def split: if_splits)
qed

section \<open>The gate before the review\<close>

lemma committed_uow:
  assumes "keeps_committed m"
  shows "keeps_committed (in_wuow E t m)"
  unfolding keeps_committed_def
proof
  fix w
  obtain r v where run: "in_wuow E t m w = (r, v)" by fastforce
  have "ww_committed v = ww_committed w"
    using in_wuow_run [OF run] by (auto dest: keeps_committed_D [OF assms])
  then show "ww_committed (snd (in_wuow E t m w)) = ww_committed w" by (simp add: run)
qed

lemma on_error_last: "uncommitted_on_error m \<Longrightarrow> uncommitted_on_error (act_bind (in_wuow E t m) (\<lambda>_. act_ret x))"
  unfolding uncommitted_on_error_def
  by (auto simp: act_bind_def act_ret_def split: prod.splits sum.splits dest!: in_wuow_run)

lemma act_map_all:
  "act_map f xs w = (Inr ys, w') \<Longrightarrow> (\<And>x u y v. f x u = (Inr y, v) \<Longrightarrow> P y) \<Longrightarrow> \<forall>y \<in> set ys. P y"
proof (induction xs arbitrary: w ys)
  case (Cons x xs)
  then obtain y u ys' where "f x w = (Inr y, u)" "act_map f xs u = (Inr ys', w')" "ys = y # ys'" by (auto simp: run_bind run_basic)
  then show ?case using Cons.IH Cons.prems(2) by auto
qed (simp add: run_basic)

definition proposed_by :: "RunContext \<Rightarrow> uuid \<Rightarrow> string \<Rightarrow> ActionItem \<Rightarrow> bool" where
  "proposed_by rc i department a = (ac_tenant_id a = rc_tenant_id rc \<and> ac_meeting_id a = i \<and> ac_status a = ACTION_PROPOSED
     \<and> ac_version a = 1 \<and> ac_approval_reasons a = dispatch_reasons a (dispatch_context department)
     \<and> ''autonomy_a2_requires_review'' \<in> set (ac_approval_reasons a))"

lemma gate_action_run:
  "gate_action E rc i (dispatch_context dep) c u = (Inr a, v) \<Longrightarrow> proposed_by rc i dep a"
  by (auto simp: gate_action_def run_bind run_basic mk_ActionItem_def with_reasons_def evaluate_dispatch_def Let_def
      proposed_by_def dispatch_reasons_def dispatch_context_def split: if_splits)

lemma committed_gate:
  "keeps_committed (gate_action E rc i ctx c)" "keeps_committed (gate_decision E rc i d)" "keeps_committed (require_meeting_id st)"
  unfolding gate_action_def gate_decision_def require_meeting_id_def
  by (auto intro!: committed_bind committed_basic split: option.splits)

definition same_tasks :: "wworld \<Rightarrow> wworld \<Rightarrow> bool" where
  "same_tasks w v = (ww_tenant v = ww_tenant w \<and> wo_actions (ww_db v) = wo_actions (ww_db w)
     \<and> wo_external_tasks (ww_db v) = wo_external_tasks (ww_db w))"

lemma save_meeting_run:
  assumes "meetings_save m w = (Inr u, v)"
  shows "same_tasks w v \<and> (\<exists>r \<in> set (wo_meetings (ww_db v)). mt_id r = mt_id m \<and> mt_status r = mt_status m)"
proof -
  let ?hit = "\<lambda>r. mt_tenant_id r = ww_tenant w \<and> mt_id r = mt_id m \<and> mt_version r = mt_version m - 1"
  from assms have one: "length (filter ?hit (wo_meetings (ww_db w))) = 1"
    and v: "v = w\<lparr>ww_db := (ww_db w)\<lparr>wo_meetings := update_where ?hit (meeting_row m) (wo_meetings (ww_db w))\<rparr>\<rparr>"
    by (auto simp: meetings_save_def Let_def split: if_splits)
  from one have "filter ?hit (wo_meetings (ww_db w)) \<noteq> []" by auto
  then obtain r where r: "r \<in> set (wo_meetings (ww_db w))" "?hit r" unfolding filter_empty_conv by blast
  then have "meeting_row m r \<in> set (wo_meetings (ww_db v))" by (force simp: v update_where_def)
  moreover have "mt_id (meeting_row m r) = mt_id m" "mt_status (meeting_row m r) = mt_status m"
    using r by (simp_all add: meeting_row_def)
  ultimately show ?thesis by (auto simp: same_tasks_def v)
qed

lemma insert_decisions_run:
  "act_for ds decisions_insert w = (Inr u, v) \<Longrightarrow> same_tasks w v \<and> wo_meetings (ww_db v) = wo_meetings (ww_db w)"
proof (induction ds arbitrary: w)
  case (Cons d ds)
  then obtain w1 where one: "decisions_insert d w = (Inr (), w1)" and rest: "act_for ds decisions_insert w1 = (Inr u, v)"
    by (auto simp: run_bind)
  have "same_tasks w w1 \<and> wo_meetings (ww_db w1) = wo_meetings (ww_db w)"
    using one by (auto simp: decisions_insert_def on_wodb_def same_tasks_def split: if_splits)
  then show ?case using Cons.IH [OF rest] by (simp add: same_tasks_def)
qed (simp add: run_basic same_tasks_def)

lemma insert_actions_run:
  "act_for as actions_insert w = (Inr u, v) \<Longrightarrow>
     v = w\<lparr>ww_db := (ww_db w)\<lparr>wo_actions := wo_actions (ww_db w) @ as\<rparr>\<rparr> \<and> distinct (map ac_id as)
     \<and> ac_id ` set as \<inter> ac_id ` set (wo_actions (ww_db w)) = {}"
proof (induction as arbitrary: w)
  case (Cons a as)
  then obtain w1 where one: "actions_insert a w = (Inr (), w1)" and rest: "act_for as actions_insert w1 = (Inr u, v)"
    by (auto simp: run_bind)
  from one have "w1 = w\<lparr>ww_db := (ww_db w)\<lparr>wo_actions := wo_actions (ww_db w) @ [a]\<rparr>\<rparr>" "ac_id a \<notin> ac_id ` set (wo_actions (ww_db w))"
    by (auto simp: actions_insert_def on_wodb_def split: if_splits)
  then show ?case using Cons.IH [OF rest] by auto
qed (simp add: run_basic)

text \<open>What a gate that returned has committed.\<close>

definition gated :: "uuid \<Rightarrow> uuid \<Rightarrow> ActionItem list \<Rightarrow> wodb \<Rightarrow> wodb \<Rightarrow> bool" where
  "gated tenant i as d d' = (wo_external_tasks d' = wo_external_tasks d
     \<and> wo_actions d' = filter (\<lambda>a. \<not> (ac_tenant_id a = tenant \<and> ac_meeting_id a = i)) (wo_actions d) @ as
     \<and> distinct (map ac_id as)
     \<and> (\<forall>a \<in> set (wo_actions d). ac_tenant_id a = tenant \<and> ac_meeting_id a = i \<longrightarrow>
          ac_id a \<notin> et_action_item_id ` set (wo_external_tasks d))
     \<and> (\<exists>m \<in> set (wo_meetings d'). mt_id m = i \<and> mt_status m = MEETING_ACTIONS_READY))"

lemma gate_tx_run:
  assumes "gate_tx i summary analysis ds as w = (Inr u, v)"
  shows "gated (ww_tenant w) i as (ww_db w) (ww_committed v)"
proof -
  from assms [unfolded gate_tx_def run_bind] obtain found m w1 w2 w3 u1 u2 u3 where
      m: "meetings_get i w = (Inr found, w)" "found = Some m"
    and save: "meetings_save (mark_actions_ready summary (if analysis = [] then None else Some analysis) m) w = (Inr u1, w1)"
    and ds: "decisions_replace_for_meeting i ds w1 = (Inr u2, w2)"
    and as: "actions_replace_for_meeting i as w2 = (Inr u3, w3)" and v: "w_commit w3 = (Inr u, v)"
    by (auto simp: run_basic meetings_get_def)
  have "find (\<lambda>m. mt_tenant_id m = ww_tenant w \<and> mt_id m = i) (wo_meetings (ww_db w)) = Some m"
    using m by (simp add: meetings_get_def run_basic)
  from find_Some_in [OF this] have mid: "mt_id m = i" by simp
  have s1: "same_tasks w w1" "\<exists>r \<in> set (wo_meetings (ww_db w1)). mt_id r = i \<and> mt_status r = MEETING_ACTIONS_READY"
    using save_meeting_run [OF save] mid by (simp_all add: mark_actions_ready_def)
  have s2: "same_tasks w1 w2 \<and> wo_meetings (ww_db w2) = wo_meetings (ww_db w1)"
    using ds by (auto simp: decisions_replace_for_meeting_def run_bind run_act_modify same_tasks_def dest!: insert_decisions_run)
  from as obtain w2' where del: "actions_delete_for_meeting i w2 = (Inr (), w2')" and ins: "act_for as actions_insert w2' = (Inr u3, w3)"
    by (auto simp: actions_replace_for_meeting_def run_bind)
  from del have "\<forall>a \<in> set (wo_actions (ww_db w2)). ac_tenant_id a = ww_tenant w2 \<and> ac_meeting_id a = i \<longrightarrow>
        ac_id a \<notin> et_action_item_id ` set (wo_external_tasks (ww_db w2))"
      "w2' = w2\<lparr>ww_db := (ww_db w2)\<lparr>wo_actions := filter (\<lambda>a. \<not> (ac_tenant_id a = ww_tenant w2 \<and> ac_meeting_id a = i)) (wo_actions (ww_db w2))\<rparr>\<rparr>"
    by (auto simp: actions_delete_for_meeting_def Let_def on_wodb_def split: if_splits)
  then show ?thesis
    using insert_actions_run [OF ins] s1 s2 v by (auto simp: gated_def same_tasks_def w_commit_def run_act_modify)
qed

lemma in_wuow_gate:
  assumes "in_wuow E t (gate_tx i summary analysis ds as) w = (Inr u, w')"
  shows "gated t i as (ww_committed w) (ww_committed w')"
proof -
  from in_wuow_run [OF assms] obtain p v where
      "gate_tx i summary analysis ds as (w\<lparr>mw_platform := p, ww_db := ww_committed w, ww_tenant := t\<rparr>) = (Inr u, v)"
      "w' = v\<lparr>ww_db := ww_committed v\<rparr>" by auto
  then show ?thesis using gate_tx_run [of i summary analysis ds as _ u v] by fastforce
qed

definition before_review :: "env \<Rightarrow> WorkOpsServices \<Rightarrow> RunContext \<Rightarrow> string \<Rightarrow> WorkOpsState wact" where
  "before_review E S rc meeting_id =
     act_bind (ingest_transcript E S rc (meeting_state meeting_id)) (\<lambda>st.
     act_bind (normalize_transcript st) (\<lambda>st.
     act_bind (resolve_speakers S rc st) (\<lambda>st.
     act_bind (summarize_meeting S rc st) (\<lambda>st.
     act_bind (analyze_meeting S rc st) (\<lambda>st.
     act_bind (extract_decisions S rc st) (\<lambda>st.
     act_bind (extract_action_items S rc st) (\<lambda>st.
     act_bind (resolve_assignees S rc st) (\<lambda>st.
     act_bind (validate_due_dates E st) (\<lambda>st.
     enrich_with_org_context S rc st)))))))))"

lemma act_bind_assoc: "act_bind (act_bind m f) g = act_bind m (\<lambda>x. act_bind (f x) g)"
  by (rule ext) (simp add: act_bind_bind)

lemma run_until_review_split: "run_until_review E S rc i = act_bind (before_review E S rc i) (policy_gate E rc)"
  unfolding run_until_review_def before_review_def act_bind_assoc ..

lemma committed_services: "keeps_committed (w_call f)"
  unfolding w_call_def by (rule committed_basic)

lemmas committed_nodes = committed_bind committed_basic committed_uow committed_statements committed_services committed_gate

lemma committed_before_review: "keeps_committed (before_review E S rc i)"
  unfolding before_review_def ingest_transcript_def normalize_transcript_def resolve_speakers_def summarize_meeting_def
    analyze_meeting_def extract_decisions_def extract_action_items_def resolve_assignees_def validate_due_dates_def
    enrich_with_org_context_def Let_def
  by (intro committed_nodes)

lemma before_review_meeting:
  assumes "before_review E S rc i w = (Inr st, v)"
  shows "so_meeting_id st = i"
  using assms
  by (auto simp: before_review_def ingest_transcript_def normalize_transcript_def resolve_speakers_def summarize_meeting_def
    analyze_meeting_def extract_decisions_def extract_action_items_def resolve_assignees_def validate_due_dates_def
    enrich_with_org_context_def Let_def run_bind run_basic meeting_state_def split: if_splits)

lemma policy_gate_run:
  assumes "policy_gate E rc st w = (Inr st', w')"
  shows "\<exists>as dep. gated (rc_tenant_id rc) (so_meeting_id st) as (ww_committed w) (ww_committed w')
    \<and> (\<forall>a \<in> set as. proposed_by rc (so_meeting_id st) dep a) \<and> so_resolved_action_ids st' = map ac_id as
    \<and> so_approval_payload st' = approval_payload (so_meeting_id st) dep as"
proof -
  let ?dep = "jstr_or (so_approval_payload st) ''requester_department'' ''general''"
  from assms [unfolded policy_gate_def Let_def run_bind] obtain i w1 as w2 ds w3 u w4 where
      i: "require_meeting_id st w = (Inr i, w1)"
    and as: "act_map (gate_action E rc i (dispatch_context ?dep)) (so_candidates st) w1 = (Inr as, w2)"
    and ds: "act_map (gate_decision E rc i) (so_decisions st) w2 = (Inr ds, w3)"
    and tx: "in_wuow E (rc_tenant_id rc) (gate_tx i (so_summary st) (so_analysis st) ds as) w3 = (Inr u, w4)"
    and st': "act_ret (st\<lparr>so_resolved_action_ids := map ac_id as, so_approval_payload := approval_payload i ?dep as\<rparr>) w4 = (Inr st', w')"
    by blast
  have i_eq: "i = so_meeting_id st" using i by (auto simp: require_meeting_id_def run_bind run_basic)
  have "ww_committed w1 = ww_committed w" "ww_committed w2 = ww_committed w1" "ww_committed w3 = ww_committed w2"
    by (rule keeps_committed_D [OF committed_gate(3) i], rule keeps_committed_D [OF committed_map [OF committed_gate(1)] as],
        rule keeps_committed_D [OF committed_map [OF committed_gate(2)] ds])
  then have "ww_committed w3 = ww_committed w" by simp
  moreover have "gated (rc_tenant_id rc) i as (ww_committed w3) (ww_committed w4)" by (rule in_wuow_gate [OF tx])
  moreover have "\<forall>a \<in> set as. proposed_by rc i ?dep a" by (rule act_map_all [OF as]) (rule gate_action_run)
  ultimately show ?thesis using st' i_eq
    by (intro exI [of _ as] exI [of _ ?dep]) (auto simp: run_basic)
qed

lemma policy_gate_raises: "policy_gate E rc st w = (Inl e, w') \<Longrightarrow> ww_committed w' = ww_committed w"
proof -
  have tx: "uncommitted_on_error (gate_tx i summary analysis ds as)" for i summary analysis ds as
    unfolding gate_tx_def decisions_replace_for_meeting_def actions_replace_for_meeting_def
    by (intro on_error_bind on_error_commit committed_nodes committed_for committed_modify) simp
  have "uncommitted_on_error (policy_gate E rc st)"
    unfolding policy_gate_def Let_def by (intro on_error_bind on_error_last tx committed_map committed_gate)
  then show "policy_gate E rc st w = (Inl e, w') \<Longrightarrow> ww_committed w' = ww_committed w"
    by (simp add: uncommitted_on_error_def)
qed

text \<open>What the reviewer is asked about is what is stored, and nothing has happened yet. When a run reaches the human
  review, the meeting's actions are exactly the ones it puts before the reviewer, in that order; each is a proposal in
  its first version and carries the policy's reasons, of which there is always one; no external task was created or
  touched, and no action of another meeting changed.\<close>

theorem proposals_await_review:
  assumes "run_until_review E S rc i w = (Inr st, w')"
  shows "\<exists>as dep. let mine = (\<lambda>a. ac_tenant_id a = rc_tenant_id rc \<and> ac_meeting_id a = i); d = ww_committed w; d' = ww_committed w' in
      filter mine (wo_actions d') = as \<and> filter (\<lambda>a. \<not> mine a) (wo_actions d') = filter (\<lambda>a. \<not> mine a) (wo_actions d)
      \<and> so_resolved_action_ids st = map ac_id as \<and> distinct (map ac_id as)
      \<and> so_approval_payload st = approval_payload i dep as
      \<and> (\<forall>a \<in> set as. ac_status a = ACTION_PROPOSED \<and> ac_version a = 1 \<and> ac_approval_reasons a \<noteq> []
           \<and> ac_approval_reasons a = dispatch_reasons a (dispatch_context dep))
      \<and> wo_external_tasks d' = wo_external_tasks d"
proof -
  from assms obtain st0 w0 where before: "before_review E S rc i w = (Inr st0, w0)" and gate: "policy_gate E rc st0 w0 = (Inr st, w')"
    by (auto simp: run_until_review_split run_bind)
  have i: "so_meeting_id st0 = i" and w0: "ww_committed w0 = ww_committed w"
    by (rule before_review_meeting [OF before], rule keeps_committed_D [OF committed_before_review before])
  from policy_gate_run [OF gate] obtain as dep where as: "gated (rc_tenant_id rc) i as (ww_committed w) (ww_committed w')"
      "\<forall>a \<in> set as. proposed_by rc i dep a" "so_resolved_action_ids st = map ac_id as"
      "so_approval_payload st = approval_payload i dep as" unfolding i w0 by blast
  let ?mine = "\<lambda>a. ac_tenant_id a = rc_tenant_id rc \<and> ac_meeting_id a = i"
  have "\<forall>a \<in> set as. ?mine a" using as(2) by (auto simp: proposed_by_def)
  then have "filter ?mine as = as" "filter (\<lambda>a. \<not> ?mine a) as = []"
    by (auto simp: filter_id_conv filter_empty_conv)
  then have "filter ?mine (wo_actions (ww_committed w')) = as"
      "filter (\<lambda>a. \<not> ?mine a) (wo_actions (ww_committed w')) = filter (\<lambda>a. \<not> ?mine a) (wo_actions (ww_committed w))"
    using as(1) by (simp_all add: gated_def)
  then show ?thesis using as by (intro exI [of _ as] exI [of _ dep]) (auto simp: gated_def proposed_by_def Let_def)
qed

text \<open>C39: A meeting whose tasks went out cannot be processed again. The external tasks refer to the actions, and the gate
  starts by deleting the meeting's actions: once one of them has a task, every later run of the meeting raises at the gate
  and leaves the tables as they were - with the meeting still marked as processing by the request that started the run.\<close>

theorem dispatched_meeting_cannot_rerun:
  assumes "policy_gate E rc st w = (r, w')" "a \<in> set (wo_actions (ww_committed w))" "t \<in> set (wo_external_tasks (ww_committed w))"
    and "et_action_item_id t = ac_id a" "ac_tenant_id a = rc_tenant_id rc" "ac_meeting_id a = so_meeting_id st"
  shows "(\<exists>e. r = Inl e) \<and> ww_committed w' = ww_committed w"
proof (cases r)
  case (Inl e)
  then show ?thesis using policy_gate_raises assms(1) by auto
next
  case (Inr st')
  from policy_gate_run [OF assms(1) [unfolded Inr]] obtain as where
    "gated (rc_tenant_id rc) (so_meeting_id st) as (ww_committed w) (ww_committed w')" by blast
  then have "\<forall>a \<in> set (wo_actions (ww_committed w)). ac_tenant_id a = rc_tenant_id rc \<and> ac_meeting_id a = so_meeting_id st \<longrightarrow>
      ac_id a \<notin> et_action_item_id ` set (wo_external_tasks (ww_committed w))"
    unfolding gated_def by (elim conjE)
  then have "ac_id a \<notin> et_action_item_id ` set (wo_external_tasks (ww_committed w))" using assms(2,5,6) by simp
  moreover have "ac_id a \<in> et_action_item_id ` set (wo_external_tasks (ww_committed w))"
    unfolding assms(4) [symmetric] by (rule imageI [OF assms(3)])
  ultimately show ?thesis by simp
qed

section \<open>Transcripts read back\<close>

text \<open>A transcript in the format the parser documents: one turn per line, speaker and text separated by a colon.\<close>

definition turn_line :: "string \<times> string \<Rightarrow> string" where
  "turn_line u = fst u @ '': '' @ snd u @ [CHR 0x0A]"

definition clean_turn :: "string \<times> string \<Rightarrow> bool" where
  "clean_turn u = (fst u \<noteq> '''' \<and> py_strip (fst u) = fst u \<and> length (fst u) \<le> 80 \<and> CHR '':'' \<notin> set (fst u)
     \<and> snd u \<noteq> '''' \<and> py_strip (snd u) = snd u \<and> (\<forall>c \<in> set (fst u @ snd u). \<not> line_break c))"

fun turn_segments :: "nat \<Rightarrow> (string \<times> string) list \<Rightarrow> TranscriptSegment list" where
  "turn_segments n [] = []"
| "turn_segments n (u # us) = \<lparr>sg_index = n, sg_speaker = fst u, sg_text = snd u\<rparr> # turn_segments (Suc n) us"

lemma splitlines_line:
  "\<forall>c \<in> set l. \<not> line_break c \<Longrightarrow> py_splitlines (l @ CHR 0x0A # rest) = l # py_splitlines rest"
proof (induction l)
  case Nil
  have "line_break (CHR 0x0A)" by code_simp
  then show ?case by (cases rest) auto
next
  case (Cons c l)
  have cr: "c \<noteq> CHR 0x0D"
  proof
    assume "c = CHR 0x0D"
    moreover have "line_break (CHR 0x0D)" by code_simp
    ultimately show False using Cons.prems by simp
  qed
  obtain d ds where "l @ CHR 0x0A # rest = d # ds" by (cases l) auto
  moreover have "py_splitlines (l @ CHR 0x0A # rest) = l # py_splitlines rest" using Cons by simp
  ultimately show ?case using Cons.prems cr by simp
qed

lemma lstrip_strip: "py_lstrip (py_strip s) = py_strip s"
  unfolding py_strip_def py_lstrip_def py_rstrip_def by (rule dropWhile_rev_dropWhile) simp

lemma lstrip_stripped: "py_strip t = t \<Longrightarrow> py_lstrip t = t"
  using lstrip_strip [of t] by simp

lemma strip_nonblank:
  assumes "c \<in> set s" "\<not> py_isspace c"
  shows "py_strip s \<noteq> []"
proof
  assume "py_strip s = []"
  then have "\<forall>x \<in> set (dropWhile py_isspace s). py_isspace x" by (simp add: py_strip_def py_rstrip_def py_lstrip_def)
  then have "dropWhile py_isspace s = []" using hd_dropWhile hd_in_set by metis
  then show False using assms by simp
qed

lemma turn_splits:
  "\<forall>u \<in> set us. clean_turn u \<Longrightarrow> py_splitlines (concat (map turn_line us)) = map (\<lambda>u. fst u @ '': '' @ snd u) us"
proof (induction us)
  case (Cons u us)
  have "\<not> line_break (CHR '':'')" "\<not> line_break (CHR '' '')" by code_simp+
  then have "\<forall>c \<in> set (fst u @ '': '' @ snd u). \<not> line_break c" using Cons.prems by (auto simp: clean_turn_def)
  from splitlines_line [OF this] show ?case using Cons by (simp add: turn_line_def)
qed simp

lemma speaker_of_turn:
  assumes "clean_turn u"
  shows "speaker_line (fst u @ '': '' @ snd u) = Some (fst u, snd u)"
proof -
  have no: "\<forall>c \<in> set (fst u). c \<noteq> CHR '':''" using assms by (auto simp: clean_turn_def)
  then have before: "takeWhile (\<lambda>c. c \<noteq> CHR '':'') (fst u @ '': '' @ snd u) = fst u"
    by (simp add: takeWhile_append2)
  have "py_lstrip ('' '' @ snd u) = py_lstrip (snd u)" by (simp add: py_lstrip_def py_isspace_def)
  moreover have "py_lstrip (snd u) = snd u" by (rule lstrip_stripped) (use assms in \<open>simp add: clean_turn_def\<close>)
  ultimately show ?thesis using assms unfolding speaker_line_def before by (simp add: clean_turn_def)
qed

lemma parse_turns:
  assumes "\<forall>u \<in> set us. clean_turn u"
  shows "parse_lines speaker [txt0] segs (map (\<lambda>u. fst u @ '': '' @ snd u) us)
    = flush_segment speaker [txt0] segs @ turn_segments (length (flush_segment speaker [txt0] segs)) us"
  using assms
proof (induction us arbitrary: speaker txt0 segs)
  case (Cons u us)
  let ?line = "fst u @ '': '' @ snd u"
  have u: "clean_turn u" using Cons.prems by simp
  have "py_strip ?line \<noteq> []" by (rule strip_nonblank [of "CHR '':''"]) (simp_all add: py_isspace_def)
  moreover have "flush_segment (fst u) [snd u] xs = xs @ [\<lparr>sg_index = length xs, sg_speaker = fst u, sg_text = snd u\<rparr>]" for xs
    using u by (simp add: flush_segment_def clean_turn_def)
  ultimately show ?case using Cons u speaker_of_turn [OF u] by (simp add: clean_turn_def case_prod_beta)
qed simp

text \<open>C40: A transcript in the format the parser accepts is read back turn by turn. Written as one line per turn,
  speaker and text separated by a colon, it parses into exactly those turns, in order, numbered from zero - whatever
  else the texts contain, colons included.\<close>

theorem transcript_round_trip:
  assumes "\<forall>u \<in> set us. clean_turn u"
  shows "parse_transcript (concat (map turn_line us)) = turn_segments 0 us"
proof (cases us)
  case Nil
  then show ?thesis by (simp add: parse_transcript_def flush_segment_def)
next
  case (Cons u vs)
  have u: "clean_turn u" and vs: "\<forall>u \<in> set vs. clean_turn u" using assms Cons by auto
  have "py_strip (fst u @ '': '' @ snd u) \<noteq> []" by (rule strip_nonblank [of "CHR '':''"]) (simp_all add: py_isspace_def)
  moreover have "flush_segment n [] [] = []" for n by (simp add: flush_segment_def)
  moreover have "flush_segment (fst u) [snd u] [] = [\<lparr>sg_index = 0, sg_speaker = fst u, sg_text = snd u\<rparr>]"
    using u by (simp add: flush_segment_def clean_turn_def)
  ultimately have "parse_lines unknown_speaker [] [] (map (\<lambda>u. fst u @ '': '' @ snd u) us) = turn_segments 0 us"
    using u speaker_of_turn [OF u] parse_turns [OF vs, of "fst u" "snd u" "[]"] by (simp add: Cons clean_turn_def case_prod_beta)
  then show ?thesis using turn_splits [OF assms] by (simp add: parse_transcript_def)
qed

theorem transcript_round_trip_witness:
  "parse_transcript ''An: ngan sach: 3 ty\<newline>Binh: dong y\<newline>'' = turn_segments 0 [(''An'', ''ngan sach: 3 ty''), (''Binh'', ''dong y'')]"
  using transcript_round_trip [of "[(''An'', ''ngan sach: 3 ty''), (''Binh'', ''dong y'')]"]
  by (simp add: clean_turn_def turn_line_def py_strip_def py_lstrip_def py_rstrip_def py_isspace_def line_break_def)


section \<open>Who a task is for\<close>

lemma AList_update_entries: "e \<in> set (AList.update k v al) \<Longrightarrow> e = (k, v) \<or> e \<in> set al"
  by (induction al) (auto split: if_splits)

lemma people_fold_entries:
  "e \<in> set (fold (\<lambda>p. AList.update (casefold (dp_display_name p)) p) people acc) \<Longrightarrow>
     e \<in> set acc \<or> snd e \<in> set people \<and> fst e = casefold (dp_display_name (snd e))"
proof (induction people arbitrary: acc)
  case (Cons q people)
  have "e \<in> set (fold (\<lambda>p. AList.update (casefold (dp_display_name p)) p) people
      (AList.update (casefold (dp_display_name q)) q acc))" using Cons.prems by simp
  from Cons.IH [OF this] show ?case by (auto dest: AList_update_entries)
qed auto

lemma people_fold_keys:
  "fst ` set (fold (\<lambda>p. AList.update (casefold (dp_display_name p)) p) people acc)
     = fst ` set acc \<union> (\<lambda>p. casefold (dp_display_name p)) ` set people"
  by (induction people arbitrary: acc) (auto simp: dom_update)

lemma people_by_name_entry:
  "(k, p) \<in> set (people_by_name people) \<Longrightarrow> p \<in> set people \<and> k = casefold (dp_display_name p)"
  using people_fold_entries [of "(k, p)" people "[]"] by (simp add: people_by_name_def)

lemma people_by_name_keys:
  "fst ` set (people_by_name people) = (\<lambda>p. casefold (dp_display_name p)) ` set people"
  using people_fold_keys [of people "[]"] by (simp add: people_by_name_def)

text \<open>A task is trusted only to someone who was named in full. Whoever a name resolves to is in the directory. If
  somebody's whole name is the name said (up to case), such a person is taken, with a confidence the gate accepts;
  otherwise the one entry whose name ends in it is - and the action is then always flagged for its low confidence,
  while a full name never is.\<close>

theorem assignee_trusted_only_by_full_name:
  assumes "resolve_person (people_by_name people) name = Some (p, conf)" "assignee_of (p, conf) = Inr r" "ac_assignee a = Some r"
  shows "p \<in> set people
    \<and> (if \<exists>q \<in> set people. casefold (dp_display_name q) = casefold name
       then casefold (dp_display_name p) = casefold name
       else name \<noteq> '''' \<and> py_endswith (casefold (dp_display_name p)) (casefold name)
         \<and> (\<forall>q \<in> set people. py_endswith (casefold (dp_display_name q)) (casefold name) \<longrightarrow>
              casefold (dp_display_name q) = casefold (dp_display_name p)))
    \<and> (''low_assignee_confidence'' \<in> set (dispatch_reasons a (dispatch_context dep)) \<longleftrightarrow>
         casefold (dp_display_name p) \<noteq> casefold name)"
proof -
  let ?known = "people_by_name people"
  let ?tail = "\<lambda>(key, _). py_endswith key (casefold name)"
  have conf: "as_confidence r = conf" using assms(2) by (auto simp: assignee_of_def mk_Confidence_def split: if_splits)
  have flag: "''low_assignee_confidence'' \<in> set (dispatch_reasons a (dispatch_context dep)) \<longleftrightarrow> conf < 9 / 10"
    using assms(3) conf by (auto simp: dispatch_reasons_def dispatch_context_def)
  show ?thesis
  proof (cases "map_of ?known (casefold name)")
    case (Some q)
    then have "q = p" "conf = 95 / 100" using assms(1) by (auto simp: resolve_person_def)
    moreover have "q \<in> set people \<and> casefold name = casefold (dp_display_name q)"
      by (rule people_by_name_entry) (rule map_of_SomeD [OF Some])
    ultimately show ?thesis unfolding flag by auto
  next
    case None
    then have "casefold name \<notin> fst ` set ?known" by (simp add: map_of_eq_None_iff)
    then have nobody: "\<not> (\<exists>q \<in> set people. casefold (dp_display_name q) = casefold name)"
      unfolding people_by_name_keys by force
    from None assms(1) have name: "name \<noteq> ''''" and "\<exists>k. filter ?tail ?known = [(k, p)]" and conf: "conf = 75 / 100"
      by (auto simp: resolve_person_def split: if_splits list.splits)
    then obtain k where one: "filter ?tail ?known = [(k, p)]" by blast
    then have "(k, p) \<in> set (filter ?tail ?known)" by simp
    then have p: "p \<in> set people" "k = casefold (dp_display_name p)" "py_endswith k (casefold name)"
      using people_by_name_entry by auto
    have only: "casefold (dp_display_name q) = k" if "q \<in> set people" "py_endswith (casefold (dp_display_name q)) (casefold name)" for q
    proof -
      have "casefold (dp_display_name q) \<in> fst ` set ?known" unfolding people_by_name_keys using that(1) by (rule imageI)
      then obtain z where "(casefold (dp_display_name q), z) \<in> set ?known" by (auto simp: image_iff)
      then have "(casefold (dp_display_name q), z) \<in> set (filter ?tail ?known)" using that(2) by simp
      then show ?thesis unfolding one by simp
    qed
    have named: "name \<noteq> '''' \<and> py_endswith (casefold (dp_display_name p)) (casefold name)
         \<and> (\<forall>q \<in> set people. py_endswith (casefold (dp_display_name q)) (casefold name) \<longrightarrow>
              casefold (dp_display_name q) = casefold (dp_display_name p))"
      using name p(3) only unfolding p(2) by blast
    have "casefold (dp_display_name p) \<noteq> casefold name" using nobody p(1) by blast
    moreover have "conf < 9 / 10" unfolding conf by simp
    ultimately show ?thesis unfolding if_not_P [OF nobody] flag using named p(1) by blast
  qed
qed

section \<open>A meeting whose review was answered\<close>



definition demo_action :: "uuid \<Rightarrow> ActionItem" where
  "demo_action i = \<lparr>ac_id = i, ac_tenant_id = ''t1'', ac_workspace_id = ''w1'', ac_meeting_id = ''m1'', ac_title = ''call'',
     ac_description = '''', ac_assignee = Some \<lparr>as_person_id = ''p1'', as_display_name = ''An'', as_department = ''ops'',
       as_confidence = 95 / 100\<rparr>, ac_due_date = None, ac_due_date_inferred = False, ac_risk_level = RISK_LOW,
     ac_status = ACTION_PROPOSED, ac_approval_reasons = [''autonomy_a2_requires_review''], ac_source_quote = None, ac_version = 1\<rparr>"

definition demo_meeting :: MeetingSession where
  "demo_meeting = \<lparr>mt_id = ''m1'', mt_tenant_id = ''t1'', mt_workspace_id = ''w1'', mt_title = ''weekly'', mt_occurred_at = 0,
     mt_created_by = ''u1'', mt_status = MEETING_ACTIONS_READY, mt_transcript_artifact_id = Some ''f1'', mt_last_run_id = Some ''r1'',
     mt_summary = None, mt_analysis = None, mt_version = 4\<rparr>"

definition demo_wodb :: "external_task list \<Rightarrow> wodb" where
  "demo_wodb ts = \<lparr>wo_meetings = [demo_meeting], wo_transcripts = [], wo_decisions = [], wo_actions = [demo_action ''a1'', demo_action ''a2''],
     wo_external_tasks = ts\<rparr>"

definition demo_wworld :: "external_task list \<Rightarrow> wworld" where
  "demo_wworld ts = \<lparr>mw_platform = start_world empty_db, mw_db = \<lparr>md_items = [], md_candidates = []\<rparr>,
     ww_db = demo_wodb ts, ww_committed = demo_wodb ts, ww_tenant = ''''\<rparr>"

definition office_run :: RunContext where
  "office_run = demo_run\<lparr>rc_scopes := {''work_ops.write''}\<rparr>"


definition demo_task :: external_task where
  "demo_task = \<lparr>et_tenant_id = ''t1'', et_workspace_id = ''w1'', et_action_item_id = ''a1'', et_connector = ''mock'',
     et_connector_version = ''1.0.0'', et_external_id = ''T-1'', et_external_url = None\<rparr>"

theorem dispatched_meeting_cannot_rerun_witness:
  "(\<exists>e. fst (policy_gate demo_env office_run (meeting_state ''m1'') (demo_wworld [demo_task])) = Inl e)
   \<and> ww_committed (snd (policy_gate demo_env office_run (meeting_state ''m1'') (demo_wworld [demo_task]))) = demo_wodb [demo_task]"
  using dispatched_meeting_cannot_rerun [where a = "demo_action ''a1''" and w = "demo_wworld [demo_task]" and t = demo_task,
      OF surjective_pairing, of office_run "meeting_state ''m1''" demo_env]
  by (simp add: demo_wworld_def demo_wodb_def demo_task_def demo_action_def office_run_def demo_run_def meeting_state_def)





end
