(* ===== verification/Spec2Isabelle.thy ===== *)
theory Spec2Isabelle
  imports DW_Kernel DW_Prep_Domain DW_Platform DW_Rework DW_Rules DW_Scoring DW_Amend DW_Readiness DW_Notify DW_Runtime DW_Graph_Props DW_Scanners DW_Chunking DW_Knowledge_Props DW_WorkOps_Props
begin

text \<open>
  A verification development for the digital-worker repository (the Python packages under
  \<open>src/packages/python\<close> and the worker application under \<open>src/apps\<close>): the procurement
  preparation worker DW01 with the platform it stands on.

  \<^bold>\<open>The program.\<close> A requester files a procurement case; somebody else verifies the intake; a workflow
  drafts the approach and, after checkpoint CP1, the solicitation package; after CP2 the package is sealed
  and mailed to suppliers; addenda go through CP3, the closing of bids through CP4. Every step runs in a
  unit of work of one tenant, moves a versioned case, writes artifacts and notification jobs, and some of them
  raise a checkpoint that a second person decides. A support ladder counts returned cases per creator
  and may stop new work. Workers run on a small runtime that records runs, pauses them at checkpoints, and
  puts every tool call through one enforcement pipeline.

  \<^bold>\<open>Theories.\<close>

  \<^item> \<open>DW_Prelude\<close>: Python strings, integers as text, instants, JSON values; the exception classes; handlers as
    state-and-exception computations (\<open>act\<close>) with the rules that execute them symbolically.
  \<^item> \<open>DW_Kernel\<close>: \<open>dw_kernel/errors.py\<close>, \<open>resilience.py\<close> (error codes, circuit breaker).
  \<^item> \<open>DW_Platform\<close>: access context, scope authorization, plan entitlement, the approval aggregate, the outbox record
    (\<open>dw_platform/application\<close>, \<open>dw_platform/domain\<close>).
  \<^item> \<open>DW_Prep_Domain\<close>: the preparation case, its artifacts and documents (\<open>domain/preparation/entities.py\<close>).
  \<^item> \<open>DW_Rework\<close>: returned cases, explanations and the pure support ladder (\<open>domain/preparation/rework.py\<close>,
    \<open>application/preparation/rework.py\<close>).
  \<^item> \<open>DW_Rules\<close>: method selection, approval matrix, the gates of CP1 and CP2 (\<open>application/preparation/rules.py\<close>).
  \<^item> \<open>DW_Scoring\<close>: the tender scoring engine and its compliance gate (\<open>domain/services/scoring_engine.py\<close>).
  \<^item> \<open>DW_Store\<close>, \<open>DW_Store_Laws\<close>: the tables, the SQL repositories and the unit of work; the proof rules for handlers,
    the locale \<open>case_invariant\<close> (a property of the world that the statements of a case transaction keep), its extension
    \<open>repository_invariant\<close> by the statements on runs and executions (interpreted for tenant isolation, unique keys and
    the append-only record), and \<open>optimistic_repository\<close> (interpreted for cases and approvals). \<open>case_invariant\<close> itself is
    interpreted for the run table, which the workflow leaves alone.
  \<^item> \<open>DW_Rework_App\<close>: the guard, the recording and the handlers of the ladder.
  \<^item> \<open>DW_Intake\<close>, \<open>DW_Tendering\<close>, \<open>DW_Tendering_Props\<close>: \<open>application/preparation/handlers.py\<close>, from filing a
    case to the CP4 hand-off.
  \<^item> \<open>DW_Amend\<close>: \<open>application/preparation/amend.py\<close>. \<open>DW_Readiness\<close>: \<open>readiness.py\<close>.
  \<^item> \<open>DW_Notify\<close>: the notification queue and its consumer (\<open>adapters/preparation/notification_store.py\<close>,
    \<open>dw_worker/consumers/slack_approvals.py\<close>), with an abstract specification of a delivery.
  \<^item> \<open>DW_Observability\<close>: \<open>dw_observability/redaction.py\<close>.
  \<^item> \<open>DW_Runtime\<close>: \<open>dw_agent_runtime\<close>: contracts, registries, run store, workflow runner, checkpoint decisions and
    tool executor.
  \<^item> \<open>DW_Legal\<close>: what the code accepts from the language model (\<open>application/preparation/legal.py\<close>, \<open>extraction.py\<close>,
    \<open>drafts.py\<close>, \<open>review.py\<close>): the schemas with their bounds, and the check that a figure or a section was
    copied out of a retrieved passage.
  \<^item> \<open>DW_Drafting\<close>, \<open>DW_Nodes\<close>, \<open>DW_Package\<close>, \<open>DW_Graph\<close>: \<open>workflows/preparation_v1\<close>: the services and the state, the
    helpers and the nodes in the order of the graph, its routes, and a run that pauses at an interrupt and is
    resumed; \<open>prep_graph\<close> is the graph the runner of \<open>DW_Runtime\<close> takes.
  \<^item> \<open>DW_Graph_Props\<close>: a run keeps the invariants of the repositories; the states a run can reach
    (\<open>reached\<close>, an inductive relation whose steps may happen in different worlds), with an invariant per node; what a run
    commits at the gates, at a decision and at the sealing; what is left of a run that was started.
  \<^item> \<open>DW_Scanners\<close>: the loops beside the requests (\<open>bid_closing.py\<close>, \<open>email_ingest.py\<close>, \<open>law_watch.py\<close>), as
    computations on the scanner's memory and the world; what a poll may change.
  \<^item> \<open>DW_Chunking\<close>: \<open>dw_knowledge/chunking.py\<close> on lists of Unicode code points: headings, sections, windows.
  \<^item> \<open>DW_Knowledge\<close>: the knowledge gateway (\<open>gateway.py\<close>, \<open>identity.py\<close>), its queue (\<open>ingest_jobs.py\<close>) with the worker
    (\<open>consumers/ingest.py\<close>), the router (\<open>routes/v1/knowledge.py\<close>) and both index adapters, on a world of its own:
    \<open>kdb\<close> holds the tables, \<open>kw_index\<close> the index. \<open>DW_Knowledge_Props\<close>: the locale \<open>trusted_index\<close>, what the gateway needs
    from an index, interpreted on the in-memory adapter and, for a server that evaluates filters as documented, on the
    Qdrant adapter; what a search shows, what an ingestion replaces, what the queue's worker leaves.
  \<^item> \<open>DW_Memory\<close>: \<open>dw_memory\<close>, the write policy and the service. \<open>DW_WorkOps\<close>, \<open>DW_WorkOps_Flow\<close>: \<open>dw_work_ops\<close>, the worker that
    turns a meeting's transcript into assigned tasks: parser, entities, repositories, handlers; nodes and dispatch tool. Its
    graph is a chain, modelled as the nodes before the review and those after it, on a world (\<open>wworld\<close>) that has the platform's
    world and the memory's tables in it. \<open>DW_WorkOps_Props\<close>: what the policy lets into memory, transcripts read back, whom a
    task may be given to, what is stored before the review, what a decision dispatches.

  \<^bold>\<open>State.\<close> \<open>db\<close> holds one list per table, in insertion order. \<open>world\<close> adds what is committed, the tenant of the
  session, stored objects, sent mail, and counters that index the ports' answers. \<open>env\<close> is the ports: clock, ids,
  the connection, storage, mail, digest, serializers. A handler of the source is a definition of type
  \<open>'a handler\<close>, with each early return and each raise a branch; the part inside \<open>async with uow\<close> has its own
  definition, named \<open>..._tx\<close>.

  \<^bold>\<open>Modelling choices.\<close> A string is a list of code points below 256. Integers are unbounded, as in Python; a date-time
  is a number of microseconds and its arithmetic does not overflow. Vietnamese display prose is a
  \<open>JText\<close> naming the sentence and carrying the interpolated values. Row-level security is a filter on the session's
  tenant, row locks are the atomicity of a transaction; a commit does not fail, a connection may. The claim of a notification
  job reads the job's own columns: the query also joins the tenant and the workspace, which the foreign keys supply.
  A call of the search index that raises is taken to have left the index as it was. Loops are recursion; the three that are not
  structural (tool attempts, queue draining, the steps of a workflow run) end by a measure, so no fuel is used.

  \<^bold>\<open>Not modelled.\<close> The HTTP and chat surfaces, dependency wiring, migrations, telemetry spans; LangGraph, pydantic,
  the YAML parser, object storage, the mail and chat providers, and the model gateway, which are parameters;
  file previews, \<open>latest_pending_for_creator\<close>, row mappers; of the knowledge package, the service clients and the web
  search; the directory of people. The packages for evaluation and conversation, and the older evaluation workflow, are listed in the manifest
  as not modelled.
\<close>

end
